(* ===== verification/Prelude.thy ===== *)
theory Prelude
  imports Main "HOL-Library.Word"
begin

text \<open>
  Shared vocabulary of the development: the machine integers of the Rust code as words, Unicode
  text as lists of scalar values, the decimal printer and the integer parsers of the Rust standard
  library, JSON values, in-memory tables with the four SQL verbs, and two small locales that the
  components interpret: a transition system with an inductive invariant and a text codec.

  An \<open>i64\<close> database key and a \<open>u64\<close> Snowflake are the same 64 bits: the casts \<open>as i64\<close> and
  \<open>as u64\<close> of the source keep the bits, so both types are \<open>64 word\<close> here; an ordering that
  PostgreSQL or Rust does on \<open>i64\<close> is written with \<open>sint\<close>.
\<close>

unbundle bit_operations_syntax

named_theorems tbl_simps \<open>rewrite rules for the table operations\<close>
named_theorems inv_intros \<open>preservation of a component invariant by its operations\<close>

type_synonym u8 = "8 word"
type_synonym u16 = "16 word"
type_synonym u64 = "64 word"
type_synonym i64 = "64 word"

section \<open>Words as numbers\<close>

lemma unat_drop: "unat (drop_bit n x) = unat x div 2 ^ n"
  unfolding unat_drop_bit_eq by (rule drop_bit_eq_div)

lemma unat_take: "unat (take_bit n (x :: 'a :: len word)) = unat x mod 2 ^ n"
  unfolding unsigned_take_bit_eq by (rule take_bit_eq_mod)

lemma unat_and_mask_64: "unat ((x :: u64) AND 4095) = unat x mod 4096" "unat (x AND 1023) = unat x mod 1024"
proof -
  have "(mask 12 :: u64) = 4095" "(mask 10 :: u64) = 1023"
    by (simp_all add: mask_eq_exp_minus_1)
  then show "unat (x AND 4095) = unat x mod 4096" "unat (x AND 1023) = unat x mod 1024"
    using unat_take [of 12 x] unat_take [of 10 x] by (simp_all only: take_bit_eq_mask) simp_all
qed

lemma unat_ucast_16_64 [simp]: "unat (ucast (x :: u16) :: u64) = unat x"
proof -
  have "unat x < 2 ^ 64" using unsigned_less [of x, where 'a=nat] by simp
  then have "take_bit 64 (unat x) = unat x" by (rule take_bit_nat_eq_self)
  then show ?thesis by (simp add: unsigned_ucast_eq)
qed

lemma unat_ucast_64_16: "unat (ucast (x :: u64) :: u16) = unat x mod 65536"
  by (simp add: unsigned_ucast_eq) (simp add: take_bit_eq_mod)

section \<open>Text\<close>

text \<open>A Rust string is a sequence of Unicode scalar values; \<open>lit\<close> embeds an ASCII literal.\<close>

type_synonym ustr = "nat list"

definition lit :: "string \<Rightarrow> ustr" where
  "lit s = map of_char s"

lemma lit_simps [simp]:
  "lit [] = []" "lit (c # cs) = of_char c # lit cs" "lit (a @ b) = lit a @ lit b"
  by (simp_all add: lit_def)

lemma length_lit [simp]: "length (lit s) = length s"
  by (simp add: lit_def)

lemma of_char_inj: "(of_char (c :: char) :: nat) = of_char d \<longleftrightarrow> c = d"
  by (metis char_of_char)

lemma lit_inj [simp]: "lit a = lit b \<longleftrightarrow> a = b"
  unfolding lit_def by (rule inj_map_eq_map) (auto intro: injI simp: of_char_inj)

section \<open>Decimal numbers: \<open>to_string\<close> and \<open>str::parse\<close>\<close>

definition digit_char :: "nat \<Rightarrow> char" where
  "digit_char d = char_of (48 + d)"

fun show_nat :: "nat \<Rightarrow> string" where
  "show_nat n = (if n < 10 then [digit_char n] else show_nat (n div 10) @ [digit_char (n mod 10)])"

declare show_nat.simps [simp del]

definition show_u64 :: "u64 \<Rightarrow> string" where
  "show_u64 x = show_nat (unat x)"

definition show_i64 :: "i64 \<Rightarrow> string" where
  "show_i64 x = (if sint x < 0 then CHR ''-'' # show_nat (nat (- sint x)) else show_nat (nat (sint x)))"

datatype parse_int_error = Empty | InvalidDigit | PosOverflow | NegOverflow

definition digit_of :: "char \<Rightarrow> nat option" where
  "digit_of c = (let v = of_char c :: nat in if 48 \<le> v \<and> v \<le> 57 then Some (v - 48) else None)"

text \<open>
  The digit loop of \<open>from_str_radix\<close>: the accumulator is kept below the limit of the type, and a
  bad digit is reported before an overflow.
\<close>

fun parse_digits :: "parse_int_error \<Rightarrow> nat \<Rightarrow> nat \<Rightarrow> string \<Rightarrow> parse_int_error + nat" where
  "parse_digits over mx acc [] = Inr acc"
| "parse_digits over mx acc (c # cs) =
     (case digit_of c of
        None \<Rightarrow> Inl InvalidDigit
      | Some d \<Rightarrow> if acc * 10 + d > mx then Inl over else parse_digits over mx (acc * 10 + d) cs)"

definition parse_u64 :: "string \<Rightarrow> parse_int_error + u64" where
  "parse_u64 s =
     (if s = [] then Inl Empty
      else if s = ''+'' \<or> s = ''-'' then Inl InvalidDigit
      else map_sum id of_nat
        (parse_digits PosOverflow (2 ^ 64 - 1) 0 (if hd s = CHR ''+'' then tl s else s)))"

definition parse_i64 :: "string \<Rightarrow> parse_int_error + i64" where
  "parse_i64 s =
     (if s = [] then Inl Empty
      else if s = ''+'' \<or> s = ''-'' then Inl InvalidDigit
      else if hd s = CHR ''-''
        then map_sum id (\<lambda>n. - of_nat n) (parse_digits NegOverflow (2 ^ 63) 0 (tl s))
      else map_sum id of_nat
        (parse_digits PosOverflow (2 ^ 63 - 1) 0 (if hd s = CHR ''+'' then tl s else s)))"

lemma digit_of_digit_char [simp]: "d < 10 \<Longrightarrow> digit_of (digit_char d) = Some d"
  by (simp add: digit_of_def digit_char_def of_char_of Let_def)

lemma digit_char_not_sign: "d < 10 \<Longrightarrow> digit_char d \<noteq> CHR ''-'' \<and> digit_char d \<noteq> CHR ''+''"
proof -
  assume d: "d < 10"
  have "(of_char (digit_char d) :: nat) = 48 + d"
    using d by (simp add: digit_char_def of_char_of)
  then have "(of_char (digit_char d) :: nat) \<noteq> 45" "(of_char (digit_char d) :: nat) \<noteq> 43"
    by simp_all
  then show ?thesis by auto
qed

lemma parse_digits_append:
  "parse_digits over mx acc (xs @ ys) =
     (case parse_digits over mx acc xs of Inl e \<Rightarrow> Inl e | Inr v \<Rightarrow> parse_digits over mx v ys)"
  by (induction xs arbitrary: acc) (auto split: option.splits)

lemma show_nat_not_Nil [simp]: "show_nat n \<noteq> []"
  by (subst show_nat.simps) simp

lemma hd_show_nat: "hd (show_nat n) \<noteq> CHR ''-'' \<and> hd (show_nat n) \<noteq> CHR ''+''"
proof (induction n rule: show_nat.induct)
  case (1 n)
  then show ?case
    by (cases "n < 10") (simp_all add: show_nat.simps [of n] digit_char_not_sign)
qed

lemma parse_digits_show_nat: "n \<le> mx \<Longrightarrow> parse_digits over mx 0 (show_nat n) = Inr n"
proof (induction n rule: show_nat.induct)
  case (1 n)
  show ?case
  proof (cases "n < 10")
    case True
    then show ?thesis using "1.prems" by (simp add: show_nat.simps [of n])
  next
    case False
    with "1" have "parse_digits over mx 0 (show_nat (n div 10)) = Inr (n div 10)" by simp
    moreover have "n div 10 * 10 + n mod 10 = n" by simp
    ultimately show ?thesis using False "1.prems"
      by (simp add: show_nat.simps [of n] parse_digits_append)
  qed
qed

lemma show_nat_not_sign: "show_nat n \<noteq> ''+''" "show_nat n \<noteq> ''-''"
  using hd_show_nat [of n] by auto

lemma parse_u64_show_u64 [simp]: "parse_u64 (show_u64 x) = Inr x"
proof -
  have "unat x \<le> 2 ^ 64 - 1"
    using unsigned_less [of x, where 'a=nat] by simp
  then show ?thesis
    using hd_show_nat [of "unat x"] show_nat_not_sign [of "unat x"]
    by (simp add: parse_u64_def show_u64_def parse_digits_show_nat)
qed

lemma parse_i64_show_i64 [simp]: "parse_i64 (show_i64 x) = Inr x"
proof (cases "sint x < 0")
  case True
  have lo: "- (2 ^ 63) \<le> sint x" using sint_ge [of x] by simp
  then have "nat (- sint x) \<le> 2 ^ 63" by simp
  moreover have "- (of_nat (nat (- sint x)) :: 64 word) = x"
    using True by (simp add: of_int_of_nat [symmetric])
  ultimately show ?thesis
    using True by (simp add: parse_i64_def show_i64_def parse_digits_show_nat)
next
  case False
  have "sint x < 2 ^ 63" using sint_lt [of x] by simp
  then have "nat (sint x) \<le> 2 ^ 63 - 1" using False by simp
  then show ?thesis
    using False hd_show_nat [of "nat (sint x)"] show_nat_not_sign [of "nat (sint x)"]
    by (simp add: parse_i64_def show_i64_def parse_digits_show_nat)
qed

section \<open>JSON values\<close>

text \<open>
  \<open>serde_json::Value\<close> as the code builds it. A Snowflake serialises as a decimal string, an \<open>i64\<close> as
  a number.
\<close>

datatype json =
    JNull
  | JBool bool
  | JInt int
  | JStr ustr
  | JArr "json list"
  | JObj "(string \<times> json) list"

abbreviation jlit :: "string \<Rightarrow> json" where
  "jlit s \<equiv> JStr (lit s)"

definition jsnow :: "u64 \<Rightarrow> json" where
  "jsnow x = JStr (lit (show_u64 x))"

definition ji64 :: "i64 \<Rightarrow> json" where
  "ji64 x = JInt (sint x)"

section \<open>Tables\<close>

text \<open>
  A relational table is the list of its rows in insertion order. The four verbs of SQL on one table
  are list functions; a statement without \<open>ORDER BY\<close> reads in insertion order, which is one of the
  orders PostgreSQL may use.
\<close>

definition t_has :: "('r \<Rightarrow> bool) \<Rightarrow> 'r list \<Rightarrow> bool" where
  "t_has P t = list_ex P t"

definition t_count :: "('r \<Rightarrow> bool) \<Rightarrow> 'r list \<Rightarrow> nat" where
  "t_count P t = length (filter P t)"

definition t_find :: "('r \<Rightarrow> bool) \<Rightarrow> 'r list \<Rightarrow> 'r option" where
  "t_find P t = List.find P t"

definition t_delete :: "('r \<Rightarrow> bool) \<Rightarrow> 'r list \<Rightarrow> 'r list" where
  "t_delete P t = filter (\<lambda>r. \<not> P r) t"

definition t_update :: "('r \<Rightarrow> bool) \<Rightarrow> ('r \<Rightarrow> 'r) \<Rightarrow> 'r list \<Rightarrow> 'r list" where
  "t_update P f t = map (\<lambda>r. if P r then f r else r) t"

definition t_insert :: "'r \<Rightarrow> 'r list \<Rightarrow> 'r list" where
  "t_insert r t = t @ [r]"

definition t_max :: "('r \<Rightarrow> int) \<Rightarrow> ('r \<Rightarrow> bool) \<Rightarrow> 'r list \<Rightarrow> int option" where
  "t_max f P t = (case filter P t of [] \<Rightarrow> None | rs \<Rightarrow> Some (Max (set (map f rs))))"

lemma t_has_iff [tbl_simps]: "t_has P t \<longleftrightarrow> (\<exists>r \<in> set t. P r)"
  by (simp add: t_has_def list_ex_iff)

lemma set_t_delete [tbl_simps]: "set (t_delete P t) = {r \<in> set t. \<not> P r}"
  by (simp add: t_delete_def)

lemma set_t_update [tbl_simps]: "set (t_update P f t) = (\<lambda>r. if P r then f r else r) ` set t"
  by (simp add: t_update_def)

lemma set_t_insert [tbl_simps]: "set (t_insert r t) = insert r (set t)"
  by (simp add: t_insert_def)

lemma t_find_SomeD: "t_find P t = Some r \<Longrightarrow> r \<in> set t \<and> P r"
  by (auto simp: t_find_def find_Some_iff)

lemma t_find_None_iff: "t_find P t = None \<longleftrightarrow> (\<forall>r \<in> set t. \<not> P r)"
  by (auto simp: t_find_def find_None_iff)

lemma t_has_find: "t_has P t \<longleftrightarrow> t_find P t \<noteq> None"
  by (auto simp: t_has_iff t_find_None_iff)

lemma t_count_insert [tbl_simps]: "t_count P (t_insert r t) = t_count P t + (if P r then 1 else 0)"
  by (simp add: t_count_def t_insert_def)

lemma t_count_update_same:
  assumes "\<And>r. P r \<Longrightarrow> Q (f r) = Q r"
  shows "t_count Q (t_update P f t) = t_count Q t"
  unfolding t_count_def t_update_def using assms by (induction t) auto

lemma ex_t_update_same:
  assumes "\<And>r. P r \<Longrightarrow> Q (f r) = Q r"
  shows "(\<exists>r \<in> set (t_update P f t). Q r) \<longleftrightarrow> (\<exists>r \<in> set t. Q r)"
  unfolding t_update_def using assms by (induction t) auto

lemma all_t_updateI:
  assumes "\<And>r. r \<in> set t \<Longrightarrow> P r \<Longrightarrow> Q (f r)" "\<And>r. r \<in> set t \<Longrightarrow> \<not> P r \<Longrightarrow> Q r"
  shows "\<forall>r \<in> set (t_update P f t). Q r"
  using assms by (auto simp: t_update_def)

lemma all_t_update_same:
  assumes "\<And>r. P r \<Longrightarrow> Q (f r) = Q r"
  shows "(\<forall>r \<in> set (t_update P f t). Q r) \<longleftrightarrow> (\<forall>r \<in> set t. Q r)"
  unfolding t_update_def using assms by (induction t) auto

lemma t_count_delete_disjoint:
  assumes "\<And>r. r \<in> set t \<Longrightarrow> Q r \<Longrightarrow> \<not> P r"
  shows "t_count Q (t_delete P t) = t_count Q t"
  unfolding t_count_def t_delete_def using assms by (induction t) auto

lemma t_count_delete_le: "t_count Q (t_delete P t) \<le> t_count Q t"
  by (induction t) (simp_all add: t_count_def t_delete_def)

lemma t_count_pos: "t_count P t > 0 \<longleftrightarrow> (\<exists>r \<in> set t. P r)"
  by (auto simp: t_count_def filter_empty_conv)

lemma map_t_update_same:
  assumes "\<And>r. P r \<Longrightarrow> k (f r) = k r"
  shows "map k (t_update P f t) = map k t"
  unfolding t_update_def using assms by (induction t) auto

lemma distinct_map_t_delete: "distinct (map k t) \<Longrightarrow> distinct (map k (t_delete P t))"
  by (simp add: t_delete_def distinct_map_filter)

lemma distinct_map_t_insert:
  "distinct (map k t) \<Longrightarrow> \<not> t_has (\<lambda>r. k r = k x) t \<Longrightarrow> distinct (map k (t_insert x t))"
  by (auto simp: t_insert_def t_has_iff)

lemma find_insert:
  "t_find P (t_insert r t) = (case t_find P t of Some x \<Rightarrow> Some x | None \<Rightarrow> if P r then Some r else None)"
  unfolding t_find_def t_insert_def by (induction t) (auto split: option.splits)

lemma find_delete:
  "(\<And>r. P r \<Longrightarrow> \<not> D r) \<Longrightarrow> t_find P (t_delete D t) = t_find P t"
  "(\<And>r. P r \<Longrightarrow> D r) \<Longrightarrow> t_find P (t_delete D t) = None"
  unfolding t_find_def t_delete_def by (induction t) auto

lemma find_update:
  "(\<And>r. P (f r) = P r) \<Longrightarrow> (\<And>r. P r \<Longrightarrow> D r) \<Longrightarrow> t_find P (t_update D f t) = map_option f (t_find P t)"
  "(\<And>r. P (f r) = P r) \<Longrightarrow> (\<And>r. P r \<Longrightarrow> \<not> D r) \<Longrightarrow> t_find P (t_update D f t) = t_find P t"
  unfolding t_find_def t_update_def by (induction t) auto

lemma find_key:
  assumes "distinct (map k t)" "r \<in> set t"
  shows "t_find (\<lambda>x. k x = k r) t = Some r"
  using assms unfolding t_find_def by (induction t) (auto simp: rev_image_eqI)

section \<open>Interfaces\<close>

text \<open>
  A printer and a parser that undo each other: what every \<open>Serialize\<close>/\<open>Deserialize\<close> pair of the
  code promises. The clients need only injectivity and the round trip.
\<close>

locale text_codec =
  fixes enc :: "'a \<Rightarrow> 'b" and dec :: "'b \<Rightarrow> 'e + 'a"
  assumes dec_enc: "dec (enc x) = Inr x"
begin

lemma enc_inj: "enc x = enc y \<longleftrightarrow> x = y"
  by (metis dec_enc sum.inject(2))

lemma inj_enc: "inj enc"
  by (rule injI) (simp add: enc_inj)

lemma distinct_enc: "distinct (map enc xs) \<longleftrightarrow> distinct xs"
  by (simp add: distinct_map inj_on_subset [OF inj_enc])

end

interpretation u64_codec: text_codec show_u64 parse_u64
  by unfold_locales simp

interpretation i64_codec: text_codec show_i64 parse_i64
  by unfold_locales simp

text \<open>A transition system with an inductive invariant.\<close>

inductive reach :: "('s \<Rightarrow> bool) \<Rightarrow> ('s \<Rightarrow> 's \<Rightarrow> bool) \<Rightarrow> 's \<Rightarrow> bool" for ini stp where
  reach_init: "ini s \<Longrightarrow> reach ini stp s"
| reach_step: "reach ini stp s \<Longrightarrow> stp s t \<Longrightarrow> reach ini stp t"

locale invariant_system =
  fixes ini :: "'s \<Rightarrow> bool" and stp :: "'s \<Rightarrow> 's \<Rightarrow> bool" and inv :: "'s \<Rightarrow> bool"
  assumes inv_init: "ini s \<Longrightarrow> inv s"
    and inv_step: "inv s \<Longrightarrow> stp s t \<Longrightarrow> inv t"
begin

lemma reach_inv: "reach ini stp s \<Longrightarrow> inv s"
  by (induction rule: reach.induct) (auto intro: inv_init inv_step)

end

end
