(* ===== verification/Database.thy ===== *)
theory Database
  imports Prelude
begin

text \<open>
  The PostgreSQL schema of \<open>migrations/postgres/20260329000001_initial.sql\<close> as far as the modelled routes
  use it: one record per table row, one list per table, and the SQL statements that write, each with
  the constraints the schema declares for it (primary keys, foreign keys with their \<open>ON DELETE\<close>
  action, column widths). A statement that breaks a constraint leaves the database as it was and gives
  an error. Columns no modelled route reads (\<open>updated_at\<close>, \<open>is_system\<close>) are left out.

  \<open>BIGINT\<close> keys are \<open>64 word\<close>; \<open>SMALLINT\<close> and \<open>INTEGER\<close> columns are integers; a timestamp is
  milliseconds since the Unix epoch.
\<close>

section \<open>Rows\<close>

record user_row =
  u_id :: i64
  u_username :: ustr
  u_discriminator :: int
  u_email :: ustr
  u_password_hash :: string
  u_avatar :: "ustr option"
  u_banner :: "ustr option"
  u_bio :: "ustr option"
  u_locale :: ustr
  u_flags :: i64
  u_premium_type :: int
  u_is_bot :: bool
  u_deleted_at :: "int option"
  u_created_at :: int

record server_row =
  sv_id :: i64
  sv_name :: ustr
  sv_icon :: "ustr option"
  sv_banner :: "ustr option"
  sv_description :: "ustr option"
  sv_owner_id :: i64
  sv_region :: "ustr option"
  sv_features :: "ustr list"
  sv_verification_level :: int
  sv_default_message_notifications :: int
  sv_explicit_content_filter :: int
  sv_system_channel_id :: "i64 option"
  sv_rules_channel_id :: "i64 option"
  sv_max_members :: int
  sv_member_count :: int
  sv_created_at :: int

record channel_row =
  ch_id :: i64
  ch_server_id :: "i64 option"
  ch_parent_id :: "i64 option"
  ch_type :: int
  ch_name :: "ustr option"
  ch_topic :: "ustr option"
  ch_position :: int
  ch_bitrate :: "int option"
  ch_user_limit :: "int option"
  ch_rate_limit :: int
  ch_nsfw :: bool
  ch_last_message_id :: "i64 option"
  ch_icon :: "ustr option"
  ch_e2ee_enabled :: bool
  ch_created_at :: int

record role_row =
  ro_id :: i64
  ro_server_id :: i64
  ro_name :: ustr
  ro_color :: int
  ro_hoist :: bool
  ro_icon :: "ustr option"
  ro_position :: int
  ro_permissions :: i64
  ro_mentionable :: bool
  ro_is_default :: bool
  ro_created_at :: int

record member_row =
  mb_server_id :: i64
  mb_user_id :: i64
  mb_nickname :: "ustr option"
  mb_avatar :: "ustr option"
  mb_joined_at :: int
  mb_disabled_until :: "int option"
  mb_flags :: i64

record member_role_row =
  mr_server_id :: i64
  mr_user_id :: i64
  mr_role_id :: i64

record override_row =
  po_channel_id :: i64
  po_target_id :: i64
  po_target_type :: int
  po_allow_bits :: i64
  po_deny_bits :: i64

record dm_recipient_row =
  dm_channel_id :: i64
  dm_user_id :: i64

record invite_row =
  iv_code :: string
  iv_server_id :: i64
  iv_channel_id :: i64
  iv_inviter_id :: "i64 option"
  iv_max_uses :: int
  iv_uses :: int
  iv_max_age :: int
  iv_temporary :: bool
  iv_created_at :: int

record ban_row =
  bn_server_id :: i64
  bn_user_id :: i64
  bn_reason :: "ustr option"
  bn_banned_by :: "i64 option"
  bn_created_at :: int

record webhook_row =
  wh_id :: i64
  wh_server_id :: i64
  wh_channel_id :: i64
  wh_creator_id :: "i64 option"
  wh_name :: ustr
  wh_avatar :: "ustr option"
  wh_token :: string
  wh_type :: int
  wh_created_at :: int

record warning_row =
  wa_id :: i64
  wa_server_id :: i64
  wa_user_id :: i64
  wa_moderator_id :: "i64 option"
  wa_reason :: ustr
  wa_created_at :: int

record audit_row =
  al_id :: i64
  al_server_id :: i64
  al_user_id :: "i64 option"
  al_target_id :: "i64 option"
  al_action_type :: int
  al_changes :: "json option"
  al_reason :: "ustr option"
  al_created_at :: int

record auto_mod_row =
  am_id :: i64
  am_server_id :: i64
  am_name :: ustr
  am_event_type :: int
  am_trigger_type :: int
  am_trigger_metadata :: json
  am_actions :: json
  am_enabled :: bool

record report_row =
  rp_id :: i64
  rp_reporter_id :: i64
  rp_target_type :: ustr
  rp_target_id :: i64
  rp_reason :: int
  rp_description :: "ustr option"

record relationship_row =
  rl_user_id :: i64
  rl_target_id :: i64
  rl_type :: int
  rl_created_at :: int

record settings_row =
  st_user_id :: i64
  st_theme :: ustr
  st_message_display :: ustr
  st_locale :: ustr
  st_show_current_game :: bool
  st_inline_attachment_media :: bool
  st_inline_embed_media :: bool
  st_render_embeds :: bool
  st_render_reactions :: bool
  st_animate_emoji :: bool
  st_enable_tts :: bool
  st_status :: ustr
  st_custom_status :: "json option"
  st_dm_notifications :: bool
  st_friend_request_notifications :: bool

record device_token_row =
  dv_id :: i64
  dv_user_id :: i64
  dv_platform :: int
  dv_token :: ustr
  dv_created_at :: int

record application_row =
  ap_id :: i64
  ap_owner_id :: i64
  ap_name :: ustr
  ap_description :: "ustr option"
  ap_icon :: "ustr option"
  ap_bot_id :: "i64 option"
  ap_bot_token_hash :: "string option"

record command_row =
  cm_id :: i64
  cm_application_id :: i64
  cm_server_id :: "i64 option"
  cm_name :: ustr
  cm_description :: ustr
  cm_options :: json

record note_row =
  nt_user_id :: i64
  nt_target_id :: i64
  nt_note :: ustr

record pg_db =
  users :: "user_row list"
  servers :: "server_row list"
  channels :: "channel_row list"
  roles :: "role_row list"
  members :: "member_row list"
  member_roles :: "member_role_row list"
  overrides :: "override_row list"
  dm_recipients :: "dm_recipient_row list"
  invites :: "invite_row list"
  bans :: "ban_row list"
  webhooks :: "webhook_row list"
  warnings :: "warning_row list"
  audit_log :: "audit_row list"
  auto_mod_rules :: "auto_mod_row list"
  reports :: "report_row list"
  relationships :: "relationship_row list"
  user_settings :: "settings_row list"
  device_tokens :: "device_token_row list"
  applications :: "application_row list"
  commands :: "command_row list"
  user_notes :: "note_row list"

section \<open>Row predicates and single-table reads\<close>

definition is_user :: "i64 \<Rightarrow> pg_db \<Rightarrow> bool" where
  "is_user uid db = t_has (\<lambda>u. u_id u = uid) (users db)"

definition is_server :: "i64 \<Rightarrow> pg_db \<Rightarrow> bool" where
  "is_server sid db = t_has (\<lambda>s. sv_id s = sid) (servers db)"

definition is_channel :: "i64 \<Rightarrow> pg_db \<Rightarrow> bool" where
  "is_channel cid db = t_has (\<lambda>c. ch_id c = cid) (channels db)"

definition is_owner :: "i64 \<Rightarrow> i64 \<Rightarrow> pg_db \<Rightarrow> bool" where
  "is_owner sid uid db = t_has (\<lambda>s. sv_id s = sid \<and> sv_owner_id s = uid) (servers db)"

definition is_member :: "i64 \<Rightarrow> i64 \<Rightarrow> pg_db \<Rightarrow> bool" where
  "is_member sid uid db = t_has (\<lambda>m. mb_server_id m = sid \<and> mb_user_id m = uid) (members db)"

definition is_banned :: "i64 \<Rightarrow> i64 \<Rightarrow> pg_db \<Rightarrow> bool" where
  "is_banned sid uid db = t_has (\<lambda>b. bn_server_id b = sid \<and> bn_user_id b = uid) (bans db)"

definition is_dm_recipient :: "i64 \<Rightarrow> i64 \<Rightarrow> pg_db \<Rightarrow> bool" where
  "is_dm_recipient cid uid db = t_has (\<lambda>d. dm_channel_id d = cid \<and> dm_user_id d = uid) (dm_recipients db)"

definition member_total :: "i64 \<Rightarrow> pg_db \<Rightarrow> int" where
  "member_total sid db = int (t_count (\<lambda>m. mb_server_id m = sid) (members db))"

section \<open>Statements that write\<close>

text \<open>\<open>Inl\<close>: a constraint is violated. \<open>Inr\<close>: the new database and the result (rows affected).\<close>

type_synonym 'a stmt = "pg_db \<Rightarrow> string + (pg_db \<times> 'a)"

definition dup_key :: string where "dup_key = ''duplicate key value violates unique constraint''"
definition fk_violation :: string where "fk_violation = ''violates foreign key constraint''"
definition too_long :: string where "too_long = ''value too long for type character varying''"

definition fits :: "nat \<Rightarrow> ustr \<Rightarrow> bool" where
  "fits n s = (length s \<le> n)"

definition fits_opt :: "nat \<Rightarrow> ustr option \<Rightarrow> bool" where
  "fits_opt n v = (case v of None \<Rightarrow> True | Some s \<Rightarrow> length s \<le> n)"

definition channel_ref_ok :: "i64 option \<Rightarrow> pg_db \<Rightarrow> bool" where
  "channel_ref_ok c db = (case c of None \<Rightarrow> True | Some cid \<Rightarrow> is_channel cid db)"

definition server_fits :: "server_row \<Rightarrow> bool" where
  "server_fits r \<longleftrightarrow> fits 100 (sv_name r) \<and> fits_opt 255 (sv_icon r) \<and> fits_opt 255 (sv_banner r) \<and>
     fits_opt 1000 (sv_description r) \<and> fits_opt 32 (sv_region r)"

definition insert_server :: "server_row \<Rightarrow> unit stmt" where
  "insert_server r db =
     (if is_server (sv_id r) db then Inl dup_key
      else if \<not> server_fits r then Inl too_long
      else if \<not> is_user (sv_owner_id r) db then Inl fk_violation
      else Inr (db\<lparr>servers := t_insert r (servers db)\<rparr>, ()))"

definition channel_fits :: "channel_row \<Rightarrow> bool" where
  "channel_fits r \<longleftrightarrow> fits_opt 100 (ch_name r) \<and> fits_opt 1024 (ch_topic r) \<and> fits_opt 255 (ch_icon r)"

definition insert_channel :: "channel_row \<Rightarrow> unit stmt" where
  "insert_channel r db =
     (if is_channel (ch_id r) db then Inl dup_key
      else if \<not> channel_fits r then Inl too_long
      else if (\<exists>sid \<in> set_option (ch_server_id r). \<not> is_server sid db) \<or> \<not> channel_ref_ok (ch_parent_id r) db
        then Inl fk_violation
      else Inr (db\<lparr>channels := t_insert r (channels db)\<rparr>, ()))"

definition insert_role :: "role_row \<Rightarrow> unit stmt" where
  "insert_role r db =
     (if t_has (\<lambda>x. ro_id x = ro_id r) (roles db) then Inl dup_key
      else if \<not> fits 100 (ro_name r) \<or> \<not> fits_opt 255 (ro_icon r) then Inl too_long
      else if \<not> is_server (ro_server_id r) db then Inl fk_violation
      else Inr (db\<lparr>roles := t_insert r (roles db)\<rparr>, ()))"

definition insert_member :: "i64 \<Rightarrow> i64 \<Rightarrow> int \<Rightarrow> unit stmt" where
  "insert_member sid uid now db =
     (if is_member sid uid db then Inl dup_key
      else if \<not> is_server sid db \<or> \<not> is_user uid db then Inl fk_violation
      else Inr (db\<lparr>members := t_insert \<lparr>mb_server_id = sid, mb_user_id = uid, mb_nickname = None,
             mb_avatar = None, mb_joined_at = now, mb_disabled_until = None, mb_flags = 0\<rparr> (members db)\<rparr>, ()))"

definition has_member_role :: "i64 \<Rightarrow> i64 \<Rightarrow> i64 \<Rightarrow> pg_db \<Rightarrow> bool" where
  "has_member_role sid uid rid db =
     t_has (\<lambda>m. mr_server_id m = sid \<and> mr_user_id m = uid \<and> mr_role_id m = rid) (member_roles db)"

definition member_role_refs :: "i64 \<Rightarrow> i64 \<Rightarrow> i64 \<Rightarrow> pg_db \<Rightarrow> bool" where
  "member_role_refs sid uid rid db \<longleftrightarrow> is_member sid uid db \<and> t_has (\<lambda>r. ro_id r = rid) (roles db)"

definition insert_member_role :: "i64 \<Rightarrow> i64 \<Rightarrow> i64 \<Rightarrow> unit stmt" where
  "insert_member_role sid uid rid db =
     (if has_member_role sid uid rid db then Inl dup_key
      else if \<not> member_role_refs sid uid rid db then Inl fk_violation
      else Inr (db\<lparr>member_roles :=
             t_insert \<lparr>mr_server_id = sid, mr_user_id = uid, mr_role_id = rid\<rparr> (member_roles db)\<rparr>, ()))"

text \<open>\<open>INSERT ... ON CONFLICT DO NOTHING\<close> on \<open>member_roles\<close>.\<close>

definition insert_member_role_lenient :: "i64 \<Rightarrow> i64 \<Rightarrow> i64 \<Rightarrow> unit stmt" where
  "insert_member_role_lenient sid uid rid db =
     (if has_member_role sid uid rid db then Inr (db, ()) else insert_member_role sid uid rid db)"

definition update_servers :: "i64 \<Rightarrow> (server_row \<Rightarrow> server_row) \<Rightarrow> pg_db \<Rightarrow> pg_db" where
  "update_servers sid f db = db\<lparr>servers := t_update (\<lambda>s. sv_id s = sid) f (servers db)\<rparr>"

text \<open>
  An \<open>UPDATE servers\<close> that sets free columns: the new row must fit and its two channel references must
  exist. The key and the member count are not among the columns a caller sets through it.
\<close>

definition update_server_row :: "i64 \<Rightarrow> (server_row \<Rightarrow> server_row) \<Rightarrow> unit stmt" where
  "update_server_row sid f db =
     (if \<exists>s \<in> set (servers db). sv_id s = sid \<and> \<not> server_fits (f s) then Inl too_long
      else if \<exists>s \<in> set (servers db). sv_id s = sid \<and>
          \<not> (channel_ref_ok (sv_system_channel_id (f s)) db \<and> channel_ref_ok (sv_rules_channel_id (f s)) db \<and>
             is_user (sv_owner_id (f s)) db)
        then Inl fk_violation
      else Inr (update_servers sid f db, ()))"

text \<open>\<open>UPDATE servers SET member_count = (SELECT COUNT(*) ...)\<close>\<close>

definition refresh_member_count :: "i64 \<Rightarrow> unit stmt" where
  "refresh_member_count sid db =
     Inr (update_servers sid (\<lambda>s. s\<lparr>sv_member_count := member_total sid db\<rparr>) db, ())"

text \<open>
  \<open>DELETE FROM server_members\<close>: the composite foreign key of \<open>member_roles\<close> cascades. The result is the
  number of rows deleted.
\<close>

definition delete_member :: "i64 \<Rightarrow> i64 \<Rightarrow> nat stmt" where
  "delete_member sid uid db =
     Inr (db\<lparr>members := t_delete (\<lambda>m. mb_server_id m = sid \<and> mb_user_id m = uid) (members db),
             member_roles := t_delete (\<lambda>m. mr_server_id m = sid \<and> mr_user_id m = uid) (member_roles db)\<rparr>,
          t_count (\<lambda>m. mb_server_id m = sid \<and> mb_user_id m = uid) (members db))"

definition update_member_row :: "i64 \<Rightarrow> i64 \<Rightarrow> (member_row \<Rightarrow> member_row) \<Rightarrow> unit stmt" where
  "update_member_row sid uid f db =
     (if \<exists>m \<in> set (members db). mb_server_id m = sid \<and> mb_user_id m = uid \<and> \<not> fits_opt 32 (mb_nickname (f m))
      then Inl too_long
      else Inr (db\<lparr>members := t_update (\<lambda>m. mb_server_id m = sid \<and> mb_user_id m = uid) f (members db)\<rparr>, ()))"

text \<open>\<open>DELETE FROM member_roles WHERE server_id = $1 AND user_id = $2 AND role_id != $1\<close>\<close>

definition clear_member_roles :: "i64 \<Rightarrow> i64 \<Rightarrow> unit stmt" where
  "clear_member_roles sid uid db =
     Inr (db\<lparr>member_roles :=
       t_delete (\<lambda>m. mr_server_id m = sid \<and> mr_user_id m = uid \<and> mr_role_id m \<noteq> sid) (member_roles db)\<rparr>, ())"

text \<open>\<open>INSERT INTO bans ... ON CONFLICT (server_id, user_id) DO UPDATE SET reason, banned_by\<close>\<close>

definition upsert_ban :: "i64 \<Rightarrow> i64 \<Rightarrow> ustr option \<Rightarrow> i64 \<Rightarrow> int \<Rightarrow> unit stmt" where
  "upsert_ban sid uid reason by_id now db =
     (if \<not> fits_opt 512 reason then Inl too_long
      else if \<not> is_user by_id db then Inl fk_violation
      else if is_banned sid uid db
        then Inr (db\<lparr>bans := t_update (\<lambda>b. bn_server_id b = sid \<and> bn_user_id b = uid)
               (\<lambda>b. b\<lparr>bn_reason := reason, bn_banned_by := Some by_id\<rparr>) (bans db)\<rparr>, ())
      else if \<not> is_server sid db \<or> \<not> is_user uid db then Inl fk_violation
      else Inr (db\<lparr>bans := t_insert \<lparr>bn_server_id = sid, bn_user_id = uid, bn_reason = reason,
             bn_banned_by = Some by_id, bn_created_at = now\<rparr> (bans db)\<rparr>, ()))"

definition delete_ban :: "i64 \<Rightarrow> i64 \<Rightarrow> nat stmt" where
  "delete_ban sid uid db =
     Inr (db\<lparr>bans := t_delete (\<lambda>b. bn_server_id b = sid \<and> bn_user_id b = uid) (bans db)\<rparr>,
          t_count (\<lambda>b. bn_server_id b = sid \<and> bn_user_id b = uid) (bans db))"

definition insert_invite :: "invite_row \<Rightarrow> unit stmt" where
  "insert_invite r db =
     (if t_has (\<lambda>i. iv_code i = iv_code r) (invites db) then Inl dup_key
      else if length (iv_code r) > 16 then Inl too_long
      else if \<not> is_server (iv_server_id r) db \<or> \<not> is_channel (iv_channel_id r) db \<or>
          (\<exists>u \<in> set_option (iv_inviter_id r). \<not> is_user u db) then Inl fk_violation
      else Inr (db\<lparr>invites := t_insert r (invites db)\<rparr>, ()))"

definition bump_invite_uses :: "string \<Rightarrow> unit stmt" where
  "bump_invite_uses code db =
     Inr (db\<lparr>invites := t_update (\<lambda>i. iv_code i = code) (\<lambda>i. i\<lparr>iv_uses := iv_uses i + 1\<rparr>) (invites db)\<rparr>, ())"

definition bump_member_count :: "i64 \<Rightarrow> unit stmt" where
  "bump_member_count sid db =
     Inr (update_servers sid (\<lambda>s. s\<lparr>sv_member_count := sv_member_count s + 1\<rparr>) db, ())"

definition delete_invite_row :: "string \<Rightarrow> unit stmt" where
  "delete_invite_row code db = Inr (db\<lparr>invites := t_delete (\<lambda>i. iv_code i = code) (invites db)\<rparr>, ())"

text \<open>
  What happens to the other tables when channels disappear: overrides, DM recipients, invites and
  webhooks of the channel go too; children and the servers that name it keep a null.
\<close>

definition null_if :: "(i64 \<Rightarrow> bool) \<Rightarrow> i64 option \<Rightarrow> i64 option" where
  "null_if P v = (case v of None \<Rightarrow> None | Some x \<Rightarrow> if P x then None else Some x)"

definition drop_channels :: "(channel_row \<Rightarrow> bool) \<Rightarrow> pg_db \<Rightarrow> pg_db" where
  "drop_channels P db =
     (let gone = (\<lambda>cid. t_has (\<lambda>c. P c \<and> ch_id c = cid) (channels db))
      in db\<lparr>channels := map (\<lambda>c. c\<lparr>ch_parent_id := null_if gone (ch_parent_id c)\<rparr>) (t_delete P (channels db)),
            servers := map (\<lambda>s. s\<lparr>sv_system_channel_id := null_if gone (sv_system_channel_id s),
                                  sv_rules_channel_id := null_if gone (sv_rules_channel_id s)\<rparr>) (servers db),
            overrides := t_delete (\<lambda>r. gone (po_channel_id r)) (overrides db),
            dm_recipients := t_delete (\<lambda>r. gone (dm_channel_id r)) (dm_recipients db),
            invites := t_delete (\<lambda>r. gone (iv_channel_id r)) (invites db),
            webhooks := t_delete (\<lambda>r. gone (wh_channel_id r)) (webhooks db)\<rparr>)"

definition delete_channel_row :: "i64 \<Rightarrow> unit stmt" where
  "delete_channel_row cid db = Inr (drop_channels (\<lambda>c. ch_id c = cid) db, ())"

text \<open>\<open>DELETE FROM servers\<close> with every \<open>ON DELETE CASCADE\<close> that starts at the row.\<close>

definition delete_server_row :: "i64 \<Rightarrow> unit stmt" where
  "delete_server_row sid db =
     (let d1 = drop_channels (\<lambda>c. ch_server_id c = Some sid) db;
          gone_role = (\<lambda>rid. t_has (\<lambda>r. ro_server_id r = sid \<and> ro_id r = rid) (roles db))
      in Inr (d1\<lparr>servers := t_delete (\<lambda>s. sv_id s = sid) (servers d1),
                 roles := t_delete (\<lambda>r. ro_server_id r = sid) (roles d1),
                 members := t_delete (\<lambda>m. mb_server_id m = sid) (members d1),
                 member_roles := t_delete (\<lambda>m. mr_server_id m = sid \<or> gone_role (mr_role_id m)) (member_roles d1),
                 invites := t_delete (\<lambda>i. iv_server_id i = sid) (invites d1),
                 bans := t_delete (\<lambda>b. bn_server_id b = sid) (bans d1),
                 webhooks := t_delete (\<lambda>x. wh_server_id x = sid) (webhooks d1),
                 warnings := t_delete (\<lambda>x. wa_server_id x = sid) (warnings d1),
                 audit_log := t_delete (\<lambda>x. al_server_id x = sid) (audit_log d1),
                 auto_mod_rules := t_delete (\<lambda>x. am_server_id x = sid) (auto_mod_rules d1),
                 commands := t_delete (\<lambda>x. cm_server_id x = Some sid) (commands d1)\<rparr>, ()))"

definition update_channel_rows :: "(channel_row \<Rightarrow> bool) \<Rightarrow> (channel_row \<Rightarrow> channel_row) \<Rightarrow> unit stmt" where
  "update_channel_rows P f db =
     (if \<exists>c \<in> set (channels db). P c \<and> \<not> channel_fits (f c) then Inl too_long
      else if \<exists>c \<in> set (channels db). P c \<and> \<not> channel_ref_ok (ch_parent_id (f c)) db then Inl fk_violation
      else Inr (db\<lparr>channels := t_update P f (channels db)\<rparr>, ()))"

definition insert_override :: "override_row \<Rightarrow> unit stmt" where
  "insert_override r db =
     (if t_has (\<lambda>x. po_channel_id x = po_channel_id r \<and> po_target_id x = po_target_id r) (overrides db) then Inl dup_key
      else if \<not> is_channel (po_channel_id r) db then Inl fk_violation
      else Inr (db\<lparr>overrides := t_insert r (overrides db)\<rparr>, ()))"

definition upsert_override :: "override_row \<Rightarrow> unit stmt" where
  "upsert_override r db =
     (if t_has (\<lambda>x. po_channel_id x = po_channel_id r \<and> po_target_id x = po_target_id r) (overrides db)
      then Inr (db\<lparr>overrides := t_update (\<lambda>x. po_channel_id x = po_channel_id r \<and> po_target_id x = po_target_id r)
             (\<lambda>x. x\<lparr>po_target_type := po_target_type r, po_allow_bits := po_allow_bits r,
                    po_deny_bits := po_deny_bits r\<rparr>) (overrides db)\<rparr>, ())
      else insert_override r db)"

definition delete_overrides :: "(override_row \<Rightarrow> bool) \<Rightarrow> unit stmt" where
  "delete_overrides P db = Inr (db\<lparr>overrides := t_delete P (overrides db)\<rparr>, ())"

definition update_role_rows :: "i64 \<Rightarrow> i64 \<Rightarrow> (role_row \<Rightarrow> role_row) \<Rightarrow> unit stmt" where
  "update_role_rows rid sid f db =
     (if \<exists>r \<in> set (roles db). ro_id r = rid \<and> ro_server_id r = sid \<and>
          \<not> (fits 100 (ro_name (f r)) \<and> fits_opt 255 (ro_icon (f r))) then Inl too_long
      else Inr (db\<lparr>roles := t_update (\<lambda>r. ro_id r = rid \<and> ro_server_id r = sid) f (roles db)\<rparr>, ()))"

definition delete_role_row :: "i64 \<Rightarrow> i64 \<Rightarrow> unit stmt" where
  "delete_role_row rid sid db =
     (let gone = t_has (\<lambda>r. ro_id r = rid \<and> ro_server_id r = sid) (roles db)
      in Inr (db\<lparr>roles := t_delete (\<lambda>r. ro_id r = rid \<and> ro_server_id r = sid) (roles db),
                 member_roles := t_delete (\<lambda>m. gone \<and> mr_role_id m = rid) (member_roles db)\<rparr>, ()))"

definition insert_webhook :: "webhook_row \<Rightarrow> unit stmt" where
  "insert_webhook r db =
     (if t_has (\<lambda>x. wh_id x = wh_id r \<or> wh_token x = wh_token r) (webhooks db) then Inl dup_key
      else if \<not> fits 80 (wh_name r) \<or> \<not> fits_opt 255 (wh_avatar r) \<or> length (wh_token r) > 68 then Inl too_long
      else if \<not> is_server (wh_server_id r) db \<or> \<not> is_channel (wh_channel_id r) db \<or>
          (\<exists>u \<in> set_option (wh_creator_id r). \<not> is_user u db) then Inl fk_violation
      else Inr (db\<lparr>webhooks := t_insert r (webhooks db)\<rparr>, ()))"

definition insert_warning :: "warning_row \<Rightarrow> unit stmt" where
  "insert_warning r db =
     (if t_has (\<lambda>x. wa_id x = wa_id r) (warnings db) then Inl dup_key
      else if \<not> fits 512 (wa_reason r) then Inl too_long
      else if \<not> is_server (wa_server_id r) db \<or> \<not> is_user (wa_user_id r) db \<or>
          (\<exists>u \<in> set_option (wa_moderator_id r). \<not> is_user u db) then Inl fk_violation
      else Inr (db\<lparr>warnings := t_insert r (warnings db)\<rparr>, ()))"

definition delete_warning_row :: "i64 \<Rightarrow> i64 \<Rightarrow> nat stmt" where
  "delete_warning_row wid sid db =
     Inr (db\<lparr>warnings := t_delete (\<lambda>x. wa_id x = wid \<and> wa_server_id x = sid) (warnings db)\<rparr>,
          t_count (\<lambda>x. wa_id x = wid \<and> wa_server_id x = sid) (warnings db))"

definition insert_audit :: "audit_row \<Rightarrow> unit stmt" where
  "insert_audit r db =
     (if t_has (\<lambda>x. al_id x = al_id r) (audit_log db) then Inl dup_key
      else if \<not> fits_opt 512 (al_reason r) then Inl too_long
      else if \<not> is_server (al_server_id r) db \<or> (\<exists>u \<in> set_option (al_user_id r). \<not> is_user u db) then Inl fk_violation
      else Inr (db\<lparr>audit_log := t_insert r (audit_log db)\<rparr>, ()))"

definition insert_auto_mod :: "auto_mod_row \<Rightarrow> unit stmt" where
  "insert_auto_mod r db =
     (if t_has (\<lambda>x. am_id x = am_id r) (auto_mod_rules db) then Inl dup_key
      else if \<not> fits 100 (am_name r) then Inl too_long
      else if \<not> is_server (am_server_id r) db then Inl fk_violation
      else Inr (db\<lparr>auto_mod_rules := t_insert r (auto_mod_rules db)\<rparr>, ()))"

definition update_auto_mod :: "i64 \<Rightarrow> i64 \<Rightarrow> (auto_mod_row \<Rightarrow> auto_mod_row) \<Rightarrow> unit stmt" where
  "update_auto_mod rid sid f db =
     (if \<exists>r \<in> set (auto_mod_rules db). am_id r = rid \<and> am_server_id r = sid \<and> \<not> fits 100 (am_name (f r)) then Inl too_long
      else Inr (db\<lparr>auto_mod_rules := t_update (\<lambda>r. am_id r = rid \<and> am_server_id r = sid) f (auto_mod_rules db)\<rparr>, ()))"

definition delete_auto_mod :: "i64 \<Rightarrow> i64 \<Rightarrow> unit stmt" where
  "delete_auto_mod rid sid db =
     Inr (db\<lparr>auto_mod_rules := t_delete (\<lambda>r. am_id r = rid \<and> am_server_id r = sid) (auto_mod_rules db)\<rparr>, ())"

definition insert_report :: "report_row \<Rightarrow> unit stmt" where
  "insert_report r db =
     (if t_has (\<lambda>x. rp_id x = rp_id r) (reports db) then Inl dup_key
      else if \<not> fits 20 (rp_target_type r) \<or> \<not> fits_opt 1000 (rp_description r) then Inl too_long
      else if \<not> is_user (rp_reporter_id r) db then Inl fk_violation
      else Inr (db\<lparr>reports := t_insert r (reports db)\<rparr>, ()))"

section \<open>Statements on accounts\<close>

text \<open>\<open>username\<close> and \<open>email\<close> are unique over all accounts, the deleted ones included.\<close>

definition user_fits :: "user_row \<Rightarrow> bool" where
  "user_fits u \<longleftrightarrow> fits 32 (u_username u) \<and> fits 255 (u_email u) \<and> length (u_password_hash u) \<le> 255 \<and>
     fits_opt 255 (u_avatar u) \<and> fits_opt 255 (u_banner u) \<and> fits_opt 190 (u_bio u) \<and> fits 10 (u_locale u)"

definition insert_user :: "user_row \<Rightarrow> unit stmt" where
  "insert_user r db =
     (if \<not> user_fits r then Inl too_long
      else if t_has (\<lambda>u. u_id u = u_id r \<or> u_username u = u_username r \<or> u_email u = u_email r) (users db) then Inl dup_key
      else Inr (db\<lparr>users := t_insert r (users db)\<rparr>, ()))"

text \<open>\<open>UPDATE users ... WHERE id = $1 AND deleted_at IS NULL RETURNING ...\<close>: the new row, if there was one.\<close>

definition update_live_user :: "i64 \<Rightarrow> (user_row \<Rightarrow> user_row) \<Rightarrow> user_row option stmt" where
  "update_live_user uid f db =
     (case t_find (\<lambda>u. u_id u = uid \<and> u_deleted_at u = None) (users db) of
        None \<Rightarrow> Inr (db, None)
      | Some u \<Rightarrow>
          if \<not> user_fits (f u) then Inl too_long
          else if t_has (\<lambda>x. u_id x \<noteq> uid \<and> (u_username x = u_username (f u) \<or> u_email x = u_email (f u))) (users db)
          then Inl dup_key
          else Inr (db\<lparr>users := t_update (\<lambda>x. u_id x = uid \<and> u_deleted_at x = None) f (users db)\<rparr>, Some (f u)))"

definition soft_delete_user :: "i64 \<Rightarrow> int \<Rightarrow> unit stmt" where
  "soft_delete_user uid now db =
     Inr (db\<lparr>users := t_update (\<lambda>u. u_id u = uid) (\<lambda>u. u\<lparr>u_deleted_at := Some now\<rparr>) (users db)\<rparr>, ())"

definition is_pair :: "i64 \<Rightarrow> i64 \<Rightarrow> relationship_row \<Rightarrow> bool" where
  "is_pair a b r \<longleftrightarrow> (rl_user_id r = a \<and> rl_target_id r = b) \<or> (rl_user_id r = b \<and> rl_target_id r = a)"

definition insert_relationship :: "relationship_row \<Rightarrow> unit stmt" where
  "insert_relationship r db =
     (if t_has (\<lambda>x. rl_user_id x = rl_user_id r \<and> rl_target_id x = rl_target_id r) (relationships db) then Inl dup_key
      else if \<not> is_user (rl_user_id r) db \<or> \<not> is_user (rl_target_id r) db then Inl fk_violation
      else Inr (db\<lparr>relationships := t_insert r (relationships db)\<rparr>, ()))"

text \<open>One \<open>INSERT\<close> of two rows: both or none.\<close>

definition insert_relationships :: "relationship_row \<Rightarrow> relationship_row \<Rightarrow> unit stmt" where
  "insert_relationships r r' db =
     (case insert_relationship r db of
        Inl e \<Rightarrow> Inl e
      | Inr (db', _) \<Rightarrow> insert_relationship r' db')"

definition set_pair_type :: "i64 \<Rightarrow> i64 \<Rightarrow> int \<Rightarrow> unit stmt" where
  "set_pair_type a b ty db =
     Inr (db\<lparr>relationships := t_update (is_pair a b) (\<lambda>r. r\<lparr>rl_type := ty\<rparr>) (relationships db)\<rparr>, ())"

definition delete_pair :: "i64 \<Rightarrow> i64 \<Rightarrow> nat stmt" where
  "delete_pair a b db =
     Inr (db\<lparr>relationships := t_delete (is_pair a b) (relationships db)\<rparr>, t_count (is_pair a b) (relationships db))"

definition insert_dm_recipient :: "i64 \<Rightarrow> i64 \<Rightarrow> unit stmt" where
  "insert_dm_recipient cid uid db =
     (if is_dm_recipient cid uid db then Inl dup_key
      else if \<not> is_channel cid db \<or> \<not> is_user uid db then Inl fk_violation
      else Inr (db\<lparr>dm_recipients := t_insert \<lparr>dm_channel_id = cid, dm_user_id = uid\<rparr> (dm_recipients db)\<rparr>, ()))"

definition settings_fit :: "settings_row \<Rightarrow> bool" where
  "settings_fit r \<longleftrightarrow> fits 10 (st_theme r) \<and> fits 10 (st_message_display r) \<and> fits 10 (st_locale r) \<and> fits 10 (st_status r)"

text \<open>\<open>INSERT INTO user_settings (user_id)\<close> with the defaults of the schema.\<close>

definition default_settings :: "i64 \<Rightarrow> settings_row" where
  "default_settings uid = \<lparr>st_user_id = uid, st_theme = lit ''dark'', st_message_display = lit ''cozy'',
     st_locale = lit ''en-US'', st_show_current_game = True, st_inline_attachment_media = True,
     st_inline_embed_media = True, st_render_embeds = True, st_render_reactions = True, st_animate_emoji = True,
     st_enable_tts = True, st_status = lit ''online'', st_custom_status = None, st_dm_notifications = True,
     st_friend_request_notifications = True\<rparr>"

definition insert_settings :: "i64 \<Rightarrow> unit stmt" where
  "insert_settings uid db =
     (if t_has (\<lambda>r. st_user_id r = uid) (user_settings db) then Inl dup_key
      else if \<not> is_user uid db then Inl fk_violation
      else Inr (db\<lparr>user_settings := t_insert (default_settings uid) (user_settings db)\<rparr>, ()))"

definition update_settings_row :: "i64 \<Rightarrow> (settings_row \<Rightarrow> settings_row) \<Rightarrow> settings_row option stmt" where
  "update_settings_row uid f db =
     (case t_find (\<lambda>r. st_user_id r = uid) (user_settings db) of
        None \<Rightarrow> Inr (db, None)
      | Some r \<Rightarrow>
          if \<not> settings_fit (f r) then Inl too_long
          else Inr (db\<lparr>user_settings := t_update (\<lambda>r. st_user_id r = uid) f (user_settings db)\<rparr>, Some (f r)))"

definition delete_note :: "i64 \<Rightarrow> i64 \<Rightarrow> unit stmt" where
  "delete_note uid tid db =
     Inr (db\<lparr>user_notes := t_delete (\<lambda>n. nt_user_id n = uid \<and> nt_target_id n = tid) (user_notes db)\<rparr>, ())"

definition upsert_note :: "i64 \<Rightarrow> i64 \<Rightarrow> ustr \<Rightarrow> unit stmt" where
  "upsert_note uid tid note db =
     (if \<not> fits 256 note then Inl too_long
      else if t_has (\<lambda>n. nt_user_id n = uid \<and> nt_target_id n = tid) (user_notes db)
        then Inr (db\<lparr>user_notes := t_update (\<lambda>n. nt_user_id n = uid \<and> nt_target_id n = tid)
               (\<lambda>n. n\<lparr>nt_note := note\<rparr>) (user_notes db)\<rparr>, ())
      else if \<not> is_user uid db \<or> \<not> is_user tid db then Inl fk_violation
      else Inr (db\<lparr>user_notes := t_insert \<lparr>nt_user_id = uid, nt_target_id = tid, nt_note = note\<rparr> (user_notes db)\<rparr>, ()))"

text \<open>\<open>INSERT INTO device_tokens ... ON CONFLICT (user_id, token) DO UPDATE SET platform\<close>\<close>

definition upsert_device_token :: "device_token_row \<Rightarrow> unit stmt" where
  "upsert_device_token r db =
     (if \<not> fits 512 (dv_token r) then Inl too_long
      else if t_has (\<lambda>x. dv_user_id x = dv_user_id r \<and> dv_token x = dv_token r) (device_tokens db)
        then Inr (db\<lparr>device_tokens := t_update (\<lambda>x. dv_user_id x = dv_user_id r \<and> dv_token x = dv_token r)
               (\<lambda>x. x\<lparr>dv_platform := dv_platform r\<rparr>) (device_tokens db)\<rparr>, ())
      else if t_has (\<lambda>x. dv_id x = dv_id r) (device_tokens db) then Inl dup_key
      else if \<not> is_user (dv_user_id r) db then Inl fk_violation
      else Inr (db\<lparr>device_tokens := t_insert r (device_tokens db)\<rparr>, ()))"

definition delete_device_tokens :: "(device_token_row \<Rightarrow> bool) \<Rightarrow> nat stmt" where
  "delete_device_tokens P db =
     Inr (db\<lparr>device_tokens := t_delete P (device_tokens db)\<rparr>, t_count P (device_tokens db))"

section \<open>Statements on webhooks, applications and commands\<close>

definition webhook_fits :: "webhook_row \<Rightarrow> bool" where
  "webhook_fits r \<longleftrightarrow> fits 80 (wh_name r) \<and> fits_opt 255 (wh_avatar r)"

definition update_webhook_row :: "i64 \<Rightarrow> (webhook_row \<Rightarrow> webhook_row) \<Rightarrow> unit stmt" where
  "update_webhook_row wid f db =
     (if \<exists>r \<in> set (webhooks db). wh_id r = wid \<and> \<not> webhook_fits (f r) then Inl too_long
      else if \<exists>r \<in> set (webhooks db). wh_id r = wid \<and> \<not> is_channel (wh_channel_id (f r)) db then Inl fk_violation
      else Inr (db\<lparr>webhooks := t_update (\<lambda>r. wh_id r = wid) f (webhooks db)\<rparr>, ()))"

definition delete_webhook_row :: "i64 \<Rightarrow> unit stmt" where
  "delete_webhook_row wid db = Inr (db\<lparr>webhooks := t_delete (\<lambda>r. wh_id r = wid) (webhooks db)\<rparr>, ())"

definition application_fits :: "application_row \<Rightarrow> bool" where
  "application_fits r \<longleftrightarrow> fits 100 (ap_name r) \<and> fits_opt 400 (ap_description r) \<and> fits_opt 255 (ap_icon r)"

definition insert_application :: "application_row \<Rightarrow> unit stmt" where
  "insert_application r db =
     (if \<not> application_fits r then Inl too_long
      else if t_has (\<lambda>x. ap_id x = ap_id r \<or> (ap_bot_id r \<noteq> None \<and> ap_bot_id x = ap_bot_id r)) (applications db) then Inl dup_key
      else if \<not> is_user (ap_owner_id r) db \<or> (\<exists>u \<in> set_option (ap_bot_id r). \<not> is_user u db) then Inl fk_violation
      else Inr (db\<lparr>applications := t_insert r (applications db)\<rparr>, ()))"

definition update_applications :: "(application_row \<Rightarrow> bool) \<Rightarrow> (application_row \<Rightarrow> application_row) \<Rightarrow> unit stmt" where
  "update_applications P f db =
     (if \<exists>r \<in> set (applications db). P r \<and> \<not> application_fits (f r) then Inl too_long
      else Inr (db\<lparr>applications := t_update P f (applications db)\<rparr>, ()))"

text \<open>The two partial unique indexes of \<open>application_commands\<close>: one name per application and server (or none).\<close>

definition command_fits :: "command_row \<Rightarrow> bool" where
  "command_fits r \<longleftrightarrow> fits 32 (cm_name r) \<and> fits 100 (cm_description r)"

definition same_command :: "command_row \<Rightarrow> command_row \<Rightarrow> bool" where
  "same_command r x \<longleftrightarrow> cm_application_id x = cm_application_id r \<and> cm_server_id x = cm_server_id r \<and> cm_name x = cm_name r"

definition insert_command :: "command_row \<Rightarrow> unit stmt" where
  "insert_command r db =
     (if \<not> command_fits r then Inl too_long
      else if t_has (\<lambda>x. cm_id x = cm_id r \<or> same_command r x) (commands db) then Inl dup_key
      else if \<not> t_has (\<lambda>a. ap_id a = cm_application_id r) (applications db) \<or>
          (\<exists>sid \<in> set_option (cm_server_id r). \<not> is_server sid db) then Inl fk_violation
      else Inr (db\<lparr>commands := t_insert r (commands db)\<rparr>, ()))"

definition update_command_row :: "i64 \<Rightarrow> i64 \<Rightarrow> (command_row \<Rightarrow> command_row) \<Rightarrow> unit stmt" where
  "update_command_row cid aid f db =
     (case t_find (\<lambda>r. cm_id r = cid \<and> cm_application_id r = aid) (commands db) of
        None \<Rightarrow> Inr (db, ())
      | Some r \<Rightarrow>
          if \<not> command_fits (f r) then Inl too_long
          else if t_has (\<lambda>x. cm_id x \<noteq> cid \<and> same_command (f r) x) (commands db) then Inl dup_key
          else Inr (db\<lparr>commands := t_update (\<lambda>r. cm_id r = cid \<and> cm_application_id r = aid) f (commands db)\<rparr>, ()))"

definition delete_command_row :: "i64 \<Rightarrow> i64 \<Rightarrow> unit stmt" where
  "delete_command_row cid aid db =
     Inr (db\<lparr>commands := t_delete (\<lambda>r. cm_id r = cid \<and> cm_application_id r = aid) (commands db)\<rparr>, ())"

end
