(* ===== verification/Snowflake.thy ===== *)
theory Snowflake
  imports Prelude
begin

text \<open>
  \<open>lumiere-models/src/snowflake.rs\<close>: the 64-bit Snowflake identifier, its accessors, its text and JSON
  forms, and the lock-free generator. The generator is modelled twice: \<open>next_id\<close> is the loop as one
  thread runs it without contention, reading the clock once per turn; \<open>gen_step\<close> is the same loop
  cut at its atomic accesses (read the clock, load the state, compare-and-exchange), for any number of
  threads that share the packed \<open>AtomicU64\<close>. \<open>compare_exchange_weak\<close> may fail for no reason.
\<close>

type_synonym snowflake = u64

definition LUMIERE_EPOCH :: u64 where "LUMIERE_EPOCH = 1704067200000"
definition MACHINE_ID_BITS :: nat where "MACHINE_ID_BITS = 10"
definition SEQUENCE_BITS :: nat where "SEQUENCE_BITS = 12"
definition MAX_MACHINE_ID :: u16 where "MAX_MACHINE_ID = push_bit MACHINE_ID_BITS 1 - 1"
definition MAX_SEQUENCE :: u16 where "MAX_SEQUENCE = push_bit SEQUENCE_BITS 1 - 1"
definition MACHINE_ID_SHIFT :: nat where "MACHINE_ID_SHIFT = SEQUENCE_BITS"
definition TIMESTAMP_SHIFT :: nat where "TIMESTAMP_SHIFT = MACHINE_ID_BITS + SEQUENCE_BITS"

lemmas snowflake_consts = LUMIERE_EPOCH_def MACHINE_ID_BITS_def SEQUENCE_BITS_def MACHINE_ID_SHIFT_def
  TIMESTAMP_SHIFT_def

lemma MAX_values [simp]: "MAX_MACHINE_ID = 1023" "MAX_SEQUENCE = 4095"
  by (simp_all add: MAX_MACHINE_ID_def MAX_SEQUENCE_def snowflake_consts push_bit_eq_mult)

section \<open>Accessors and conversions\<close>

definition timestamp_ms :: "snowflake \<Rightarrow> u64" where
  "timestamp_ms s = drop_bit TIMESTAMP_SHIFT s"

text \<open>The \<open>DateTime\<close> is its milliseconds since the Unix epoch; the sum always is in chrono's range.\<close>

definition created_at :: "snowflake \<Rightarrow> int" where
  "created_at s = (let ms = timestamp_ms s + LUMIERE_EPOCH in sint ms)"

definition machine_id :: "snowflake \<Rightarrow> u16" where
  "machine_id s = ucast (drop_bit MACHINE_ID_SHIFT s AND ucast MAX_MACHINE_ID)"

definition sequence :: "snowflake \<Rightarrow> u16" where
  "sequence s = ucast (s AND ucast MAX_SEQUENCE)"

text \<open>What \<open>deserialize_any\<close> may hand to the visitor, and the three visits.\<close>

datatype serde_input = U64Input u64 | I64Input i64 | StrInput string | OtherInput

fun snowflake_deserialize :: "serde_input \<Rightarrow> string + snowflake" where
  "snowflake_deserialize (U64Input v) = Inr v"
| "snowflake_deserialize (I64Input v) = Inr v"
| "snowflake_deserialize (StrInput s) =
     (case parse_u64 s of Inl _ \<Rightarrow> Inl ''invalid digit found in string'' | Inr v \<Rightarrow> Inr v)"
| "snowflake_deserialize OtherInput = Inl ''a string or integer snowflake ID''"

definition snowflake_serialize :: "snowflake \<Rightarrow> serde_input" where
  "snowflake_serialize s = StrInput (show_u64 s)"

interpretation snowflake_codec: text_codec snowflake_serialize snowflake_deserialize
  by unfold_locales (simp add: snowflake_serialize_def)

section \<open>The generator\<close>

record generator =
  g_machine :: u16
  g_state :: u64

text \<open>\<open>SnowflakeGenerator::new\<close> asserts the bound: \<open>None\<close> is the panic.\<close>

definition new_generator :: "u16 \<Rightarrow> generator option" where
  "new_generator m = (if m \<le> MAX_MACHINE_ID then Some \<lparr>g_machine = m, g_state = 0\<rparr> else None)"

text \<open>
  The body of the loop between the load and the exchange. \<open>None\<close> is the spin of an exhausted sequence.
  The packed value has the timestamp in its upper 52 bits.
\<close>

definition next_pair :: "u64 \<Rightarrow> u64 \<Rightarrow> (u64 \<times> u16) option" where
  "next_pair now old_state =
     (let old_ts = drop_bit SEQUENCE_BITS old_state;
          old_seq = (ucast (old_state AND ucast MAX_SEQUENCE) :: u16)
      in if now > old_ts then Some (now, 0)
         else let next_seq = old_seq + 1
              in if next_seq > MAX_SEQUENCE then None else Some (old_ts, next_seq))"

definition pack_state :: "u64 \<times> u16 \<Rightarrow> u64" where
  "pack_state p = push_bit SEQUENCE_BITS (fst p) OR ucast (snd p)"

definition make_id :: "u16 \<Rightarrow> u64 \<times> u16 \<Rightarrow> snowflake" where
  "make_id m p = push_bit TIMESTAMP_SHIFT (fst p) OR push_bit MACHINE_ID_SHIFT (ucast m) OR ucast (snd p)"

text \<open>
  \<open>next_id\<close> without contention: each turn of the loop takes the next reading of the clock
  (milliseconds since the Lumiere epoch); \<open>None\<close> means the readings ended while it was spinning.
\<close>

fun next_id :: "generator \<Rightarrow> u64 list \<Rightarrow> (snowflake \<times> generator \<times> u64 list) option" where
  "next_id g [] = None"
| "next_id g (now # later) =
     (case next_pair now (g_state g) of
        None \<Rightarrow> next_id g later
      | Some p \<Rightarrow> Some (make_id (g_machine g) p, g\<lparr>g_state := pack_state p\<rparr>, later))"

section \<open>Threads that share one generator\<close>

datatype pc = Start | GotClock u64 | Loaded u64 u64

record gen_sys =
  gs_gen :: generator
  gs_pc :: "nat \<Rightarrow> pc"
  gs_issued :: "(nat \<times> snowflake) list"

text \<open>
  \<open>clock_ok\<close> is what the code relies on: the clock stands between the Lumiere epoch and the year 2163,
  where the timestamp still fits above bit 22.
\<close>

definition clock_ok :: "u64 \<Rightarrow> bool" where
  "clock_ok now \<longleftrightarrow> now < 2 ^ 42"

inductive gen_step :: "gen_sys \<Rightarrow> gen_sys \<Rightarrow> bool" where
  read_clock: "gs_pc s t = Start \<Longrightarrow> clock_ok now \<Longrightarrow>
     gen_step s (s\<lparr>gs_pc := (gs_pc s)(t := GotClock now)\<rparr>)"
| load: "gs_pc s t = GotClock now \<Longrightarrow>
     gen_step s (s\<lparr>gs_pc := (gs_pc s)(t := Loaded now (g_state (gs_gen s)))\<rparr>)"
| spin: "gs_pc s t = Loaded now old \<Longrightarrow> next_pair now old = None \<Longrightarrow>
     gen_step s (s\<lparr>gs_pc := (gs_pc s)(t := Start)\<rparr>)"
| cas_ok: "gs_pc s t = Loaded now old \<Longrightarrow> next_pair now old = Some p \<Longrightarrow> g_state (gs_gen s) = old \<Longrightarrow>
     gen_step s (s\<lparr>gs_gen := (gs_gen s)\<lparr>g_state := pack_state p\<rparr>,
                   gs_pc := (gs_pc s)(t := Start),
                   gs_issued := gs_issued s @ [(t, make_id (g_machine (gs_gen s)) p)]\<rparr>)"
| cas_fail: "gs_pc s t = Loaded now old \<Longrightarrow> next_pair now old = Some p \<Longrightarrow>
     gen_step s (s\<lparr>gs_pc := (gs_pc s)(t := Start)\<rparr>)"

definition gen_init :: "u16 \<Rightarrow> gen_sys \<Rightarrow> bool" where
  "gen_init m s \<longleftrightarrow>
     (case new_generator m of
        None \<Rightarrow> False
      | Some g \<Rightarrow> gs_gen s = g \<and> gs_pc s = (\<lambda>_. Start) \<and> gs_issued s = [])"

text \<open>
  A schedule: which thread moves next and what the environment gives it (a clock reading, or a spurious
  failure of the weak exchange). \<open>gen_exec\<close> runs one move and fails when the thread cannot make it.
\<close>

datatype gen_move = Tick nat u64 | Load nat | Exchange nat | LoseRace nat

fun gen_exec :: "gen_sys \<Rightarrow> gen_move \<Rightarrow> gen_sys option" where
  "gen_exec s (Tick t now) =
     (if gs_pc s t = Start \<and> clock_ok now then Some (s\<lparr>gs_pc := (gs_pc s)(t := GotClock now)\<rparr>) else None)"
| "gen_exec s (Load t) =
     (case gs_pc s t of
        GotClock now \<Rightarrow> Some (s\<lparr>gs_pc := (gs_pc s)(t := Loaded now (g_state (gs_gen s)))\<rparr>)
      | _ \<Rightarrow> None)"
| "gen_exec s (Exchange t) =
     (case gs_pc s t of
        Loaded now old \<Rightarrow>
          (case next_pair now old of
             None \<Rightarrow> Some (s\<lparr>gs_pc := (gs_pc s)(t := Start)\<rparr>)
           | Some p \<Rightarrow>
               if g_state (gs_gen s) = old
               then Some (s\<lparr>gs_gen := (gs_gen s)\<lparr>g_state := pack_state p\<rparr>,
                            gs_pc := (gs_pc s)(t := Start),
                            gs_issued := gs_issued s @ [(t, make_id (g_machine (gs_gen s)) p)]\<rparr>)
               else Some (s\<lparr>gs_pc := (gs_pc s)(t := Start)\<rparr>))
      | _ \<Rightarrow> None)"
| "gen_exec s (LoseRace t) =
     (case gs_pc s t of
        Loaded now old \<Rightarrow>
          if next_pair now old = None then None else Some (s\<lparr>gs_pc := (gs_pc s)(t := Start)\<rparr>)
      | _ \<Rightarrow> None)"

fun gen_run :: "gen_sys \<Rightarrow> gen_move list \<Rightarrow> gen_sys option" where
  "gen_run s [] = Some s"
| "gen_run s (e # es) = (case gen_exec s e of None \<Rightarrow> None | Some s' \<Rightarrow> gen_run s' es)"

definition fresh_system :: "generator \<Rightarrow> gen_sys" where
  "fresh_system g = \<lparr>gs_gen = g, gs_pc = (\<lambda>_. Start), gs_issued = []\<rparr>"

lemma gen_exec_step: "gen_exec s e = Some s' \<Longrightarrow> gen_step s s'"
  by (cases e) (auto split: pc.splits option.splits if_splits
      intro: gen_step.read_clock gen_step.load gen_step.spin gen_step.cas_ok gen_step.cas_fail)

lemma gen_run_reach: "reach ini gen_step s \<Longrightarrow> gen_run s es = Some s' \<Longrightarrow> reach ini gen_step s'"
  by (induction es arbitrary: s) (auto split: option.splits dest: gen_exec_step intro: reach_step)

lemma gen_run_init:
  "new_generator m = Some g \<Longrightarrow> gen_run (fresh_system g) es = Some s \<Longrightarrow> reach (gen_init m) gen_step s"
  by (rule gen_run_reach [OF reach_init]) (auto simp: gen_init_def fresh_system_def)

text \<open>
  What a request handler sees of \<open>next_id\<close>: the clock stands at one reading, and when the sequence of
  that millisecond is used up the loop spins until the clock shows the next millisecond.
\<close>

definition next_id_ticking :: "generator \<Rightarrow> u64 \<Rightarrow> snowflake \<times> generator" where
  "next_id_ticking g now =
     (let p = (case next_pair now (g_state g) of Some p \<Rightarrow> p | None \<Rightarrow> (drop_bit SEQUENCE_BITS (g_state g) + 1, 0))
      in (make_id (g_machine g) p, g\<lparr>g_state := pack_state p\<rparr>))"

section \<open>Bit-field arithmetic\<close>

lemma push_or_plus:
  fixes a b :: u64
  assumes "unat b < 2 ^ n" and "unat a * 2 ^ n < 2 ^ 64" and n: "n \<le> 64"
  shows "unat (push_bit n a OR b) = unat a * 2 ^ n + unat b"
proof -
  have b_hi: "\<not> bit b i" if "n \<le> i" for i
  proof -
    have "take_bit n (unat b) = unat b"
      using assms(1) by (rule take_bit_nat_eq_self)
    then have "\<not> bit (unat b) i"
      using that by (metis bit_take_bit_iff leD)
    then show ?thesis by (simp add: bit_unsigned_iff)
  qed
  have "push_bit n a + b = push_bit n a OR b"
    by (rule disjunctive_add) (use b_hi in \<open>auto simp: bit_push_bit_iff\<close>)
  moreover have pa: "unat (push_bit n a) = unat a * 2 ^ n"
  proof -
    have "push_bit n (unat a) < 2 ^ 64" using assms(2) by (simp add: push_bit_eq_mult)
    then have "take_bit 64 (push_bit n (unat a)) = push_bit n (unat a)" by (rule take_bit_nat_eq_self)
    then show ?thesis by (simp add: unsigned_push_bit_eq) (simp add: push_bit_eq_mult)
  qed
  moreover have bound: "unat a * 2 ^ n + unat b < 2 ^ 64"
  proof -
    define k where "k = 64 - n"
    have split: "(2::nat) ^ 64 = 2 ^ k * 2 ^ n"
      using n by (simp add: k_def flip: power_add)
    have "unat a < 2 ^ k"
      using assms(2) unfolding split by simp
    then have "Suc (unat a) * 2 ^ n \<le> 2 ^ k * 2 ^ n" by (intro mult_le_mono1) simp
    then show ?thesis using assms(1) unfolding split by simp
  qed
  moreover have "unat (push_bit n a + b) = unat (push_bit n a) + unat b"
    using bound pa by (simp add: unat_word_ariths(1))
  ultimately show ?thesis by simp
qed


lemmas unat_fields = unat_drop unat_and_mask_64 unat_ucast_64_16

lemma next_pair_cases:
  "next_pair now old =
     (if unat now > unat old div 4096 then Some (now, 0)
      else if unat old mod 4096 = 4095 then None
      else Some (drop_bit 12 old, ucast (old AND 4095) + 1))"
proof -
  let ?s = "ucast (old AND 4095) :: u16"
  have s: "unat ?s = unat old mod 4096"
    by (simp add: unat_fields)
  have "unat old mod 4096 < 4096" by simp
  then have s1: "unat (?s + 1) = unat old mod 4096 + 1"
    using s by (simp add: unat_word_ariths(1))
  have "(?s + 1 > 4095) \<longleftrightarrow> unat old mod 4096 = 4095"
    unfolding word_less_nat_alt s1 using \<open>unat old mod 4096 < 4096\<close> by auto
  then show ?thesis
    unfolding next_pair_def by (simp add: Let_def SEQUENCE_BITS_def word_less_nat_alt unat_drop)
qed

text \<open>A pair that the loop accepts: its fields are in range and its packed value has grown.\<close>

lemma next_pair_Some:
  assumes "next_pair now old = Some p" "clock_ok now" "unat old < 2 ^ 54"
  shows "unat (fst p) < 2 ^ 42" "unat (snd p) \<le> 4095"
    "unat old < unat (fst p) * 4096 + unat (snd p)"
proof -
  have now: "unat now < 2 ^ 42"
    using assms(2) by (simp add: clock_ok_def word_less_nat_alt)
  have s1: "unat (ucast (old AND 4095) + (1 :: u16)) = unat old mod 4096 + 1"
  proof -
    have "unat (ucast (old AND 4095) :: u16) = unat old mod 4096" by (simp add: unat_fields)
    moreover have "unat old mod 4096 < 4096" by simp
    ultimately show ?thesis by (simp add: unat_word_ariths(1))
  qed
  have "unat old = unat old div 4096 * 4096 + unat old mod 4096" by simp
  then show "unat (fst p) < 2 ^ 42" "unat (snd p) \<le> 4095"
    "unat old < unat (fst p) * 4096 + unat (snd p)"
    using assms(1,3) now
    by (auto simp: next_pair_cases s1 unat_drop split: if_splits)
qed

lemma unat_pack_state:
  assumes "unat (fst p) < 2 ^ 42" "unat (snd p) \<le> 4095"
  shows "unat (pack_state p) = unat (fst p) * 4096 + unat (snd p)"
  using assms push_or_plus [of "ucast (snd p)" 12 "fst p"]
  by (simp add: pack_state_def SEQUENCE_BITS_def)

lemma unat_make_id:
  assumes "unat (fst p) < 2 ^ 42" "unat (snd p) \<le> 4095" "m \<le> MAX_MACHINE_ID"
  shows "unat (make_id m p) = unat (fst p) * 4194304 + unat m * 4096 + unat (snd p)"
proof -
  have m: "unat m \<le> 1023"
    using assms(3) by (simp add: word_le_nat_alt)
  have lo: "unat (push_bit 12 (ucast m) OR ucast (snd p) :: u64) = unat m * 4096 + unat (snd p)"
    using m assms(2) push_or_plus [of "ucast (snd p)" 12 "ucast m"] by simp
  then have "unat (push_bit 22 (fst p) OR (push_bit 12 (ucast m) OR ucast (snd p)) :: u64) =
      unat (fst p) * 2 ^ 22 + (unat m * 4096 + unat (snd p))"
    using m assms(1,2) push_or_plus [of "push_bit 12 (ucast m) OR ucast (snd p)" 22 "fst p"] by simp
  then show ?thesis
    by (simp add: make_id_def snowflake_consts or.assoc)
qed

section \<open>The invariant of the shared generator\<close>

definition lift_key :: "nat \<Rightarrow> nat \<Rightarrow> nat" where
  "lift_key m k = k div 4096 * 4194304 + m * 4096 + k mod 4096"

lemma lift_key_less: "k < k' \<Longrightarrow> lift_key m k < lift_key m k'"
proof -
  assume "k < k'"
  then have "k div 4096 < k' div 4096 \<or> k div 4096 = k' div 4096 \<and> k mod 4096 < k' mod 4096"
    by (metis div_le_mono div_mult_mod_eq less_imp_le_nat nat_add_left_cancel_less order_neq_le_trans)
  moreover have "k mod 4096 < 4096" "k' mod 4096 < 4096" by simp_all
  ultimately show ?thesis by (auto simp: lift_key_def)
qed

lemma lift_key_machine: "m < 1024 \<Longrightarrow> lift_key m k div 4096 mod 1024 = m"
proof -
  assume m: "m < 1024"
  have "lift_key m k = (k div 4096 * 1024 + m) * 4096 + k mod 4096" by (simp add: lift_key_def)
  moreover have "((k div 4096 * 1024 + m) * 4096 + k mod 4096) div 4096 = k div 4096 * 1024 + m" by simp
  ultimately show ?thesis using m by simp
qed

definition pc_ok :: "pc \<Rightarrow> bool" where
  "pc_ok c = (case c of Start \<Rightarrow> True | GotClock now \<Rightarrow> clock_ok now | Loaded now old \<Rightarrow> clock_ok now)"

definition gen_inv :: "u16 \<Rightarrow> gen_sys \<Rightarrow> bool" where
  "gen_inv m s \<longleftrightarrow> g_machine (gs_gen s) = m \<and> m \<le> MAX_MACHINE_ID \<and> unat (g_state (gs_gen s)) < 2 ^ 54 \<and>
     (\<forall>t. pc_ok (gs_pc s t)) \<and>
     (\<exists>ks. map (unat \<circ> snd) (gs_issued s) = map (lift_key (unat m)) ks \<and> sorted_wrt (<) ks \<and>
       (\<forall>k \<in> set ks. k \<le> unat (g_state (gs_gen s))))"

lemma gen_inv_init: "gen_init m s \<Longrightarrow> gen_inv m s"
  by (auto simp: gen_init_def gen_inv_def new_generator_def pc_ok_def split: if_splits)

lemma gen_inv_pc:
  "gen_inv m s \<Longrightarrow> pc_ok c \<Longrightarrow> gen_inv m (s\<lparr>gs_pc := (gs_pc s)(t := c)\<rparr>)"
  by (auto simp: gen_inv_def)

lemma gen_inv_cas:
  assumes inv: "gen_inv m s" and ld: "gs_pc s t = Loaded now old"
    and nx: "next_pair now old = Some p" and eq: "g_state (gs_gen s) = old"
  shows "gen_inv m (s\<lparr>gs_gen := (gs_gen s)\<lparr>g_state := pack_state p\<rparr>, gs_pc := (gs_pc s)(t := Start),
           gs_issued := gs_issued s @ [(t, make_id (g_machine (gs_gen s)) p)]\<rparr>)"
proof -
  from inv obtain ks where ks: "map (unat \<circ> snd) (gs_issued s) = map (lift_key (unat m)) ks"
    "sorted_wrt (<) ks" "\<forall>k \<in> set ks. k \<le> unat old"
    by (auto simp: gen_inv_def eq)
  have ok: "clock_ok now" using inv ld by (auto simp: gen_inv_def pc_ok_def dest: spec [of _ t])
  have old: "unat old < 2 ^ 54" and m: "g_machine (gs_gen s) = m" "m \<le> MAX_MACHINE_ID"
    using inv eq by (simp_all add: gen_inv_def)
  note p = next_pair_Some [OF nx ok old]
  have pk: "unat (pack_state p) = unat (fst p) * 4096 + unat (snd p)"
    using p by (intro unat_pack_state)
  have id: "unat (make_id m p) = lift_key (unat m) (unat (pack_state p))"
    using p m(2) by (simp add: unat_make_id pk lift_key_def)
  have lt: "unat (pack_state p) < 2 ^ 54" using p pk by simp
  have "map (unat \<circ> snd) (gs_issued s @ [(t, make_id m p)]) =
      map (lift_key (unat m)) (ks @ [unat (pack_state p)])" using ks(1) id by simp
  moreover have "sorted_wrt (<) (ks @ [unat (pack_state p)])"
    using ks p(3) pk by (auto simp: sorted_wrt_append)
  moreover have "\<forall>k \<in> set (ks @ [unat (pack_state p)]). k \<le> unat (pack_state p)"
    using ks(3) p(3) pk by fastforce
  ultimately have "\<exists>ks. map (unat \<circ> snd) (gs_issued s @ [(t, make_id m p)]) = map (lift_key (unat m)) ks \<and>
      sorted_wrt (<) ks \<and> (\<forall>k \<in> set ks. k \<le> unat (pack_state p))" by blast
  moreover have "\<forall>i. pc_ok (((gs_pc s)(t := Start)) i)"
    using inv by (simp add: gen_inv_def pc_ok_def)
  ultimately show ?thesis
    using m lt unfolding gen_inv_def by simp
qed

lemma gen_inv_step: "gen_inv m s \<Longrightarrow> gen_step s s' \<Longrightarrow> gen_inv m s'"
proof (erule gen_step.cases, goal_cases)
  case (2 u t now)
  then have "pc_ok (GotClock now)" by (metis gen_inv_def)
  with 2 show ?case by (simp add: gen_inv_pc pc_ok_def)
next
  case (4 u t now old p)
  then show ?case by (simp add: gen_inv_cas)
qed (simp_all add: gen_inv_pc pc_ok_def)

interpretation gen: invariant_system "gen_init m" gen_step "gen_inv m" for m
  by unfold_locales (auto intro: gen_inv_init gen_inv_step)

lemma issued_sorted:
  assumes "gen_inv m s"
  shows "sorted_wrt (<) (map snd (gs_issued s))"
proof -
  from assms obtain ks where "map (unat \<circ> snd) (gs_issued s) = map (lift_key (unat m)) ks" "sorted_wrt (<) ks"
    by (auto simp: gen_inv_def)
  then have "sorted_wrt (<) (map (unat \<circ> snd) (gs_issued s))"
    by (simp add: sorted_wrt_map) (auto intro: sorted_wrt_mono_rel [of ks "(<)"] lift_key_less)
  then show ?thesis
    by (simp add: sorted_wrt_map word_less_nat_alt)
qed

lemma issued_machine:
  assumes "gen_inv m s" "(t, x) \<in> set (gs_issued s)"
  shows "unat x div 4096 mod 1024 = unat m"
proof -
  from assms obtain ks where ks: "map (unat \<circ> snd) (gs_issued s) = map (lift_key (unat m)) ks"
    by (auto simp: gen_inv_def)
  have "unat x \<in> set (map (unat \<circ> snd) (gs_issued s))" using assms(2) by force
  then obtain k where "unat x = lift_key (unat m) k" unfolding ks by auto
  moreover have "unat m < 1024" using assms(1) by (simp add: gen_inv_def word_le_nat_alt)
  ultimately show ?thesis by (simp add: lift_key_machine)
qed

lemma machine_id_unat: "unat (machine_id x) = unat x div 4096 mod 1024"
proof -
  have "unat x div 4096 mod 1024 < 65536" by (rule less_trans [of _ 1024]) simp_all
  then show ?thesis
    by (simp add: machine_id_def snowflake_consts unat_fields)
qed

section \<open>Properties\<close>

text \<open>C17: However many threads share a generator and however their atomic accesses interleave, the
  identifiers come out in strictly increasing order of the successful exchanges, so no identifier
  is issued twice.\<close>

theorem generator_ids_unique:
  assumes "reach (gen_init m) gen_step s"
  shows "sorted_wrt (<) (map snd (gs_issued s)) \<and> distinct (map snd (gs_issued s))"
proof -
  have "sorted_wrt (<) (map snd (gs_issued s))"
    using gen.reach_inv [OF assms] by (rule issued_sorted)
  then show ?thesis by (simp add: strict_sorted_iff)
qed

text \<open>Generators with different machine ids never issue the same identifier, whatever their clocks
  and interleavings, and every identifier carries the machine id of the generator that issued it.\<close>

theorem generator_machines_disjoint:
  assumes "reach (gen_init m) gen_step s" "reach (gen_init m') gen_step s'"
    and "(t, x) \<in> set (gs_issued s)" "(t', x') \<in> set (gs_issued s')" "m \<noteq> m'"
  shows "x \<noteq> x' \<and> machine_id x = m \<and> machine_id x' = m'"
proof -
  have "machine_id x = m" "machine_id x' = m'"
    using issued_machine [OF gen.reach_inv [OF assms(1)] assms(3)]
      issued_machine [OF gen.reach_inv [OF assms(2)] assms(4)]
    by (simp_all add: machine_id_unat word_unat_eq_iff)
  then show ?thesis using assms(5) by blast
qed


text \<open>Two threads share generator 1: thread 1 loses the race for its first exchange and retries.\<close>

definition race_moves :: "gen_move list" where
  "race_moves = [Tick 0 5, Load 0, Tick 1 5, Load 1, Exchange 0, Exchange 1, Tick 1 5, Load 1, Exchange 1]"

definition race_end :: gen_sys where
  "race_end = the (gen_run (fresh_system \<lparr>g_machine = 1, g_state = 0\<rparr>) race_moves)"

lemma next_pair_5: "next_pair 5 0 = Some (5, 0)" "next_pair 5 20480 = Some (5, 1)"
  by (simp_all add: next_pair_def snowflake_consts Let_def)

lemma pack_5: "pack_state (5, 0) = 20480" "pack_state (5, 1) = 20481"
  by (simp_all add: pack_state_def snowflake_consts push_bit_eq_mult)

lemma id_5: "make_id 1 (5, 0) = 20975616" "make_id 1 (5, 1) = 20975617" "make_id 2 (5, 0) = 20979712"
  by (simp_all add: make_id_def snowflake_consts push_bit_eq_mult)

lemma race_run:
  "gen_run (fresh_system \<lparr>g_machine = 1, g_state = 0\<rparr>) race_moves = Some race_end"
  "gs_issued race_end = [(0, 20975616), (1, 20975617)]"
  by (simp_all add: race_end_def race_moves_def fresh_system_def clock_ok_def next_pair_5 pack_5 id_5)

lemma race_reach: "reach (gen_init 1) gen_step race_end"
  by (rule gen_run_init [OF _ race_run(1)]) (simp add: new_generator_def)

lemma solo_reach:
  "\<exists>s. reach (gen_init 2) gen_step s \<and> gs_issued s = [(0, 20979712)]"
proof -
  have "new_generator 2 = Some \<lparr>g_machine = 2, g_state = 0\<rparr>" by (simp add: new_generator_def)
  from gen_run_init [OF this, of "[Tick 0 5, Load 0, Exchange 0]"]
  have "reach (gen_init 2) gen_step \<lparr>gs_gen = \<lparr>g_machine = 2, g_state = 20480\<rparr>,
      gs_pc = (\<lambda>_. Start)(0 := Start), gs_issued = [(0, 20979712)]\<rparr>" (is "reach _ _ ?s")
    by (simp add: fresh_system_def clock_ok_def next_pair_5 pack_5 id_5)
  then show ?thesis by (intro exI [of _ ?s]) simp
qed

theorem generator_ids_unique_witness:
  "length (gs_issued race_end) = 2 \<and> distinct (map snd (gs_issued race_end))"
  using generator_ids_unique [OF race_reach] by (simp add: race_run)

theorem generator_machines_disjoint_witness:
  "machine_id 20975616 = 1 \<and> machine_id 20979712 = 2"
proof -
  obtain s where "reach (gen_init 2) gen_step s" "gs_issued s = [(0, 20979712)]"
    using solo_reach by blast
  then show ?thesis
    using generator_machines_disjoint [OF race_reach, of 2 s 0 20975616 0 20979712]
    by (simp add: race_run)
qed

text \<open>One thread that runs \<open>next_id\<close> alone makes a run of the shared system: from any state the
  loop's turns are steps that end with the same generator and issue exactly the returned identifier.\<close>

theorem next_id_refines_steps:
  assumes "next_id (gs_gen s) readings = Some (x, g', rest)" "\<forall>r \<in> set readings. clock_ok r"
    and "gs_pc s t = Start"
  shows "gen_step\<^sup>*\<^sup>* s (s\<lparr>gs_gen := g', gs_issued := gs_issued s @ [(t, x)]\<rparr>)"
  using assms
proof (induction readings)
  case Nil
  then show ?case by simp
next
  case (Cons now later)
  let ?c = "s\<lparr>gs_pc := (gs_pc s)(t := GotClock now)\<rparr>"
  let ?l = "s\<lparr>gs_pc := (gs_pc s)(t := Loaded now (g_state (gs_gen s)))\<rparr>"
  have "gen_step s ?c" using Cons.prems by (intro gen_step.read_clock) simp_all
  moreover have "gen_step ?c ?l" using gen_step.load [of ?c t now] by simp
  ultimately have sl: "gen_step\<^sup>*\<^sup>* s ?l" by (meson converse_rtranclp_into_rtranclp rtranclp.rtrancl_refl)
  have same: "(gs_pc s)(t := Start) = gs_pc s" using Cons.prems(3) by auto
  show ?case
  proof (cases "next_pair now (g_state (gs_gen s))")
    case None
    then have "gen_step ?l s" using gen_step.spin [of ?l t] by (simp add: same)
    moreover have "gen_step\<^sup>*\<^sup>* s (s\<lparr>gs_gen := g', gs_issued := gs_issued s @ [(t, x)]\<rparr>)"
      using Cons None by simp
    ultimately show ?thesis using sl by (meson converse_rtranclp_into_rtranclp rtranclp_trans)
  next
    case (Some p)
    then have "gen_step ?l (s\<lparr>gs_gen := g', gs_issued := gs_issued s @ [(t, x)]\<rparr>)"
      using gen_step.cas_ok [of ?l t now "g_state (gs_gen s)" p] Cons.prems(1) by (simp add: same)
    then show ?thesis using sl by (rule rtranclp.rtrancl_into_rtrancl [rotated])
  qed
qed

theorem next_id_refines_steps_witness:
  "gen_step\<^sup>*\<^sup>* (fresh_system \<lparr>g_machine = 1, g_state = 0\<rparr>)
     (fresh_system \<lparr>g_machine = 1, g_state = 0\<rparr>
       \<lparr>gs_gen := \<lparr>g_machine = 1, g_state = 20480\<rparr>, gs_issued := [(7, 20975616)]\<rparr>)"
  using next_id_refines_steps [of "fresh_system \<lparr>g_machine = 1, g_state = 0\<rparr>" "[5]" 20975616
      "\<lparr>g_machine = 1, g_state = 20480\<rparr>" "[]" 7]
  by (simp add: fresh_system_def next_pair_5 pack_5 id_5 clock_ok_def)

text \<open>C18: \<open>next_id\<close> returns exactly when it reads the clock at least once and either the current
  millisecond has sequence numbers left or some reading is past the stored timestamp: the spin of an
  exhausted or backward clock ends as soon as the clock moves on.\<close>

theorem next_id_returns_iff:
  "next_id g readings \<noteq> None \<longleftrightarrow>
     readings \<noteq> [] \<and> (unat (g_state g) mod 4096 \<noteq> 4095 \<or>
       (\<exists>r \<in> set readings. unat (g_state g) div 4096 < unat r))"
  by (induction readings) (auto simp: next_pair_cases)

theorem next_id_returns_iff_witness:
  "next_id \<lparr>g_machine = 1, g_state = 4095\<rparr> [0, 0, 3] \<noteq> None \<and> next_id \<lparr>g_machine = 1, g_state = 4095\<rparr> [0, 0] = None"
  using next_id_returns_iff [of "\<lparr>g_machine = 1, g_state = 4095\<rparr>" "[0, 0, 3]"]
    next_id_returns_iff [of "\<lparr>g_machine = 1, g_state = 4095\<rparr>" "[0, 0]"]
  by (simp del: next_id.simps not_None_eq)

lemma next_id_ticking_spin:
  assumes "next_pair now (g_state g) = None" "\<forall>r \<in> set rs. unat r \<le> unat (g_state g) div 4096"
  shows "next_id g (now # rs @ [drop_bit 12 (g_state g) + 1]) =
    (case next_id_ticking g now of (x, g') \<Rightarrow> Some (x, g', []))"
proof -
  have q: "unat (g_state g) mod 4096 = 4095"
    using assms(1) by (auto simp: next_pair_cases split: if_splits)
  have "unat (g_state g) div 4096 < 2 ^ 52"
    using unsigned_less [of "g_state g", where 'a=nat] by (simp add: less_mult_imp_div_less)
  then have up: "unat (drop_bit 12 (g_state g) + 1) = unat (g_state g) div 4096 + 1"
    by (simp add: unat_word_ariths(1) unat_drop)
  have tick: "next_id_ticking g now = (let p = (drop_bit 12 (g_state g) + 1, 0)
      in (make_id (g_machine g) p, g\<lparr>g_state := pack_state p\<rparr>))"
    by (simp add: next_id_ticking_def assms(1) SEQUENCE_BITS_def)
  have "next_id g (rs @ [drop_bit 12 (g_state g) + 1]) =
      (case next_id_ticking g now of (x, g') \<Rightarrow> Some (x, g', []))"
    using assms(2)
  proof (induction rs)
    case Nil
    then show ?case
      using up by (simp add: next_pair_cases tick Let_def)
  next
    case (Cons r rs)
    then show ?case by (simp add: next_pair_cases q)
  qed
  then show ?thesis by (simp add: assms(1))
qed

text \<open>The accessors invert the packing: an identifier built from a timestamp below \<open>2 ^ 42\<close>, a
  machine id and a sequence number in range gives back each of the three.\<close>

theorem id_fields_roundtrip:
  assumes "clock_ok ts" "sq \<le> MAX_SEQUENCE" "m \<le> MAX_MACHINE_ID"
  shows "timestamp_ms (make_id m (ts, sq)) = ts \<and> machine_id (make_id m (ts, sq)) = m \<and>
    sequence (make_id m (ts, sq)) = sq"
proof -
  let ?x = "make_id m (ts, sq)"
  have r: "unat ts < 2 ^ 42" "unat sq \<le> 4095" "unat m \<le> 1023"
    using assms by (simp_all add: clock_ok_def word_less_nat_alt word_le_nat_alt)
  then have x: "unat ?x = (unat ts * 1024 + unat m) * 4096 + unat sq"
    using assms(3) by (simp add: unat_make_id)
  have "unat ?x div 4194304 = unat ?x div 4096 div 1024" by (simp flip: div_mult2_eq)
  moreover have "unat ?x div 4096 = unat ts * 1024 + unat m" using r by (simp add: x)
  moreover have "unat ?x mod 4096 = unat sq" using r by (simp only: x mod_mult_self3) simp
  ultimately have "unat (timestamp_ms ?x) = unat ts" "unat (machine_id ?x) = unat m"
    "unat (sequence ?x) = unat sq"
    using r by (simp_all add: timestamp_ms_def machine_id_unat sequence_def snowflake_consts unat_fields)
  then show ?thesis by (simp add: word_unat_eq_iff)
qed

theorem id_fields_roundtrip_witness:
  "timestamp_ms (make_id 42 (70000000000, 4095)) = 70000000000 \<and>
   machine_id (make_id 42 (70000000000, 4095)) = 42 \<and> sequence (make_id 42 (70000000000, 4095)) = 4095"
  by (rule id_fields_roundtrip) (simp_all add: clock_ok_def)

end
