(* ===== verification/App_Error.thy ===== *)
theory App_Error
  imports Prelude
begin

text \<open>
  \<open>lumiere-models/src/error.rs\<close>: the error type every route returns, its HTTP status, its wire code,
  the \<open>Display\<close> text that \<open>thiserror\<close> derives from the \<open>#[error(...)]\<close> attributes, and the response
  that \<open>IntoResponse\<close> builds (status, JSON body, \<open>retry-after\<close> header).
\<close>

record field_error =
  fe_field :: string
  fe_message :: string

datatype app_error =
    Unauthorized string
  | Forbidden string
  | NotFound string
  | AlreadyExists string
  | Validation "field_error list"
  | RateLimited u64
  | BadRequest string
  | ServiceUnavailable string
  | Internal string

fun status_code :: "app_error \<Rightarrow> nat" where
  "status_code (Unauthorized _) = 401"
| "status_code (Forbidden _) = 403"
| "status_code (NotFound _) = 404"
| "status_code (AlreadyExists _) = 409"
| "status_code (Validation _) = 400"
| "status_code (RateLimited _) = 429"
| "status_code (BadRequest _) = 400"
| "status_code (ServiceUnavailable _) = 503"
| "status_code (Internal _) = 500"

fun error_code :: "app_error \<Rightarrow> string" where
  "error_code (Unauthorized _) = ''UNAUTHORIZED''"
| "error_code (Forbidden _) = ''FORBIDDEN''"
| "error_code (NotFound _) = ''NOT_FOUND''"
| "error_code (AlreadyExists _) = ''ALREADY_EXISTS''"
| "error_code (Validation _) = ''VALIDATION_ERROR''"
| "error_code (RateLimited _) = ''RATE_LIMITED''"
| "error_code (BadRequest _) = ''BAD_REQUEST''"
| "error_code (ServiceUnavailable _) = ''SERVICE_UNAVAILABLE''"
| "error_code (Internal _) = ''INTERNAL_ERROR''"

fun display_error :: "app_error \<Rightarrow> string" where
  "display_error (Unauthorized m) = ''Unauthorized: '' @ m"
| "display_error (Forbidden m) = ''Forbidden: '' @ m"
| "display_error (NotFound m) = ''Not found: '' @ m"
| "display_error (AlreadyExists m) = ''Already exists: '' @ m"
| "display_error (Validation _) = ''Validation error''"
| "display_error (RateLimited _) = ''Rate limited''"
| "display_error (BadRequest m) = ''Bad request: '' @ m"
| "display_error (ServiceUnavailable m) = ''Service unavailable: '' @ m"
| "display_error (Internal m) = ''Internal error: '' @ m"

text \<open>
  \<open>map.entry(field).or_default().push(message)\<close>: the messages of one field in the order they come.
  The \<open>HashMap\<close> has no order; the model keeps the fields in the order of their first message.
\<close>

fun add_field_message :: "(string \<times> string list) list \<Rightarrow> field_error \<Rightarrow> (string \<times> string list) list" where
  "add_field_message [] e = [(fe_field e, [fe_message e])]"
| "add_field_message ((f, ms) # rest) e =
     (if f = fe_field e then (f, ms @ [fe_message e]) # rest else (f, ms) # add_field_message rest e)"

definition group_fields :: "field_error list \<Rightarrow> (string \<times> string list) list" where
  "group_fields es = foldl add_field_message [] es"

record error_body =
  eb_code :: string
  eb_message :: string
  eb_fields :: "(string \<times> string list) list option"
  eb_retry_after :: "u64 option"

record error_response =
  er_status :: nat
  er_body :: error_body
  er_retry_header :: "string option"

definition into_response :: "app_error \<Rightarrow> error_response" where
  "into_response e =
     (let fields = (case e of Validation errs \<Rightarrow> Some (group_fields errs) | _ \<Rightarrow> None);
          retry = (case e of RateLimited r \<Rightarrow> Some r | _ \<Rightarrow> None)
      in \<lparr>er_status = status_code e,
          er_body = \<lparr>eb_code = error_code e, eb_message = display_error e,
                     eb_fields = fields, eb_retry_after = retry\<rparr>,
          er_retry_header = map_option show_u64 retry\<rparr>)"

lemma group_lookup:
  "map_of (add_field_message m e) f =
     (if f = fe_field e then Some (case map_of m f of None \<Rightarrow> [fe_message e] | Some ms \<Rightarrow> ms @ [fe_message e])
      else map_of m f)"
  by (induction m e rule: add_field_message.induct) auto

lemma group_fields_snoc: "group_fields (es @ [e]) = add_field_message (group_fields es) e"
  by (simp add: group_fields_def)

text \<open>The body of a validation error loses no message: under each field it holds exactly the
  messages of that field, in order, and a field without a message does not appear.\<close>

theorem validation_fields_complete:
  "map_of (the (eb_fields (er_body (into_response (Validation es))))) f =
     (let ms = map fe_message (filter (\<lambda>e. fe_field e = f) es) in if ms = [] then None else Some ms)"
proof (induction es rule: rev_induct)
  case Nil
  then show ?case by (simp add: into_response_def group_fields_def)
next
  case (snoc e es)
  then show ?case
    by (auto simp: into_response_def group_fields_snoc group_lookup Let_def split: if_splits)
qed

lemma client_error_iff: "status_code e < 500 \<longleftrightarrow> (\<forall>m. e \<noteq> Internal m \<and> e \<noteq> ServiceUnavailable m)"
  by (cases e) auto

lemma retry_header_iff: "er_retry_header (into_response e) \<noteq> None \<longleftrightarrow> status_code e = 429"
  by (cases e) (simp_all add: into_response_def)

end
