(* ===== verification/World.thy ===== *)
theory World
  imports Database Snowflake App_Error
begin

text \<open>
  The effects of a route handler. A handler is a function from the world to a result, an error of
  \<open>App_Error\<close> or a value, and the new world. The world holds what the services behind \<open>AppState\<close>
  hold: PostgreSQL, ScyllaDB, Redis, what was published on NATS, the Snowflake generator, and the clock.

  Each call of a service may fail. What happens to the n-th call of a request is the n-th entry of
  \<open>w_calls\<close>: it succeeds, it fails without effect, or it takes effect and the answer is lost. When the
  list is exhausted every call succeeds, so a world with an empty list is one without failures. A request
  reads the clock once; PostgreSQL's \<open>now()\<close>, Redis and the process share it.
\<close>

section \<open>The world\<close>

datatype call_outcome = Succeeds | Fails | Unacknowledged

text \<open>
  ScyllaDB rows. Every column outside the key may be null: an \<open>UPDATE\<close> is an upsert and creates the row.
\<close>

record message_row =
  ms_channel_id :: i64
  ms_bucket :: int
  ms_id :: i64
  ms_author_id :: "i64 option"
  ms_content :: "ustr option"
  ms_type :: "int option"
  ms_flags :: "i64 option"
  ms_edited_at :: "int option"
  ms_pinned :: "bool option"
  ms_mention_everyone :: "bool option"
  ms_mentions :: "i64 list option"
  ms_mention_roles :: "i64 list option"
  ms_embeds :: "json option"
  ms_attachments :: "json option"
  ms_reference_id :: "i64 option"
  ms_deleted :: "bool option"

record pin_row =
  pn_channel_id :: i64
  pn_message_id :: i64
  pn_pinned_by :: i64
  pn_pinned_at :: int

record reaction_row =
  rc_channel_id :: i64
  rc_message_id :: i64
  rc_emoji :: ustr
  rc_user_id :: i64
  rc_created_at :: "int option"

record read_state_row =
  rs_user_id :: i64
  rs_channel_id :: i64
  rs_last_message_id :: "i64 option"
  rs_mention_count :: "int option"
  rs_updated_at :: "int option"

record scylla_db =
  messages :: "message_row list"
  pins :: "pin_row list"
  reactions :: "reaction_row list"
  read_states :: "read_state_row list"

text \<open>
  Redis: a key holds a value, with the time in milliseconds when it expires, if any. JSON text that the code
  writes with \<open>serde_json\<close> is kept as the value.
\<close>

datatype redis_value = RText string | RJson json | RCount int | RMembers "string list" | RList "json list"

type_synonym redis_store = "string \<Rightarrow> (redis_value \<times> int option) option"

record world =
  w_pg :: pg_db
  w_scylla :: scylla_db
  w_redis :: redis_store
  w_published :: "(string \<times> json) list"
  w_durable :: "(string \<times> json) list"
  w_gen :: generator
  w_now :: int
  w_calls :: "call_outcome list"

type_synonym 'a handler = "world \<Rightarrow> (app_error + 'a) \<times> world"

section \<open>Handlers\<close>

definition ret :: "'a \<Rightarrow> 'a handler" where
  "ret x w = (Inr x, w)"

definition throw :: "app_error \<Rightarrow> 'a handler" where
  "throw e w = (Inl e, w)"

definition bind :: "'a handler \<Rightarrow> ('a \<Rightarrow> 'b handler) \<Rightarrow> 'b handler" where
  "bind m k w = (case m w of (Inl e, w') \<Rightarrow> (Inl e, w') | (Inr x, w') \<Rightarrow> k x w')"

abbreviation andThen :: "'a handler \<Rightarrow> 'b handler \<Rightarrow> 'b handler" where
  "andThen m n \<equiv> bind m (\<lambda>_. n)"

text \<open>\<open>if !cond { return Err(e) }\<close>\<close>

definition ensure :: "bool \<Rightarrow> app_error \<Rightarrow> unit handler" where
  "ensure b e = (if b then ret () else throw e)"

text \<open>\<open>ok_or_else(...)?\<close>\<close>

definition ok_or :: "'a option \<Rightarrow> app_error \<Rightarrow> 'a handler" where
  "ok_or v e = (case v of None \<Rightarrow> throw e | Some x \<Rightarrow> ret x)"

fun for_each :: "('a \<Rightarrow> unit handler) \<Rightarrow> 'a list \<Rightarrow> unit handler" where
  "for_each f [] = ret ()"
| "for_each f (x # xs) = bind (f x) (\<lambda>_. for_each f xs)"

text \<open>\<open>.is_ok()\<close>: the error is dropped, its effects are not.\<close>

definition is_ok :: "'a handler \<Rightarrow> bool handler" where
  "is_ok m w = (case m w of (Inl _, w') \<Rightarrow> (Inr False, w') | (Inr _, w') \<Rightarrow> (Inr True, w'))"

section \<open>Calls of the services\<close>

definition next_call :: "world \<Rightarrow> call_outcome \<times> world" where
  "next_call w = (case w_calls w of [] \<Rightarrow> (Succeeds, w) | c # cs \<Rightarrow> (c, w\<lparr>w_calls := cs\<rparr>))"

definition db_error :: "string \<Rightarrow> app_error" where
  "db_error m = Internal (''Database error: '' @ m)"

definition pg_query :: "(pg_db \<Rightarrow> 'a) \<Rightarrow> 'a handler" where
  "pg_query q w =
     (let (c, w') = next_call w
      in if c = Succeeds then (Inr (q (w_pg w')), w') else (Inl (db_error ''connection lost''), w'))"

definition pg_exec :: "'a stmt \<Rightarrow> 'a handler" where
  "pg_exec st w =
     (let (c, w') = next_call w
      in case c of
           Fails \<Rightarrow> (Inl (db_error ''connection lost''), w')
         | Succeeds \<Rightarrow> (case st (w_pg w') of
               Inl m \<Rightarrow> (Inl (db_error m), w')
             | Inr (db, x) \<Rightarrow> (Inr x, w'\<lparr>w_pg := db\<rparr>))
         | Unacknowledged \<Rightarrow> (Inl (db_error ''connection lost''),
             (case st (w_pg w') of Inl _ \<Rightarrow> w' | Inr (db, _) \<Rightarrow> w'\<lparr>w_pg := db\<rparr>)))"

text \<open>\<open>fetch_one\<close> on a query that may give no row.\<close>

definition fetch_one :: "(pg_db \<Rightarrow> 'a option) \<Rightarrow> 'a handler" where
  "fetch_one q = bind (pg_query q) (\<lambda>v. ok_or v (db_error ''no rows returned by a query that expected to return at least one row''))"

text \<open>A query that PostgreSQL may reject.\<close>

definition pg_try :: "(pg_db \<Rightarrow> string + 'a) \<Rightarrow> 'a handler" where
  "pg_try q = bind (pg_query q) (\<lambda>r. case r of Inl m \<Rightarrow> throw (db_error m) | Inr x \<Rightarrow> ret x)"

text \<open>
  \<open>pg.begin()\<close> ... \<open>tx.commit()\<close>: an error inside drops the transaction, which rolls PostgreSQL back;
  an unacknowledged commit keeps the changes and still gives an error.
\<close>

definition transaction :: "'a handler \<Rightarrow> 'a handler" where
  "transaction body w =
     (let (c0, w0) = next_call w
      in if c0 \<noteq> Succeeds then (Inl (db_error ''connection lost''), w0)
         else case body w0 of
           (Inl e, w1) \<Rightarrow> (Inl e, w1\<lparr>w_pg := w_pg w0\<rparr>)
         | (Inr x, w1) \<Rightarrow>
             (let (c1, w2) = next_call w1
              in case c1 of
                   Succeeds \<Rightarrow> (Inr x, w2)
                 | Fails \<Rightarrow> (Inl (db_error ''connection lost''), w2\<lparr>w_pg := w_pg w0\<rparr>)
                 | Unacknowledged \<Rightarrow> (Inl (db_error ''connection lost''), w2)))"

text \<open>\<open>let _ = state.nats.publish(...)\<close>: the result of publishing is never looked at.\<close>

definition publish :: "string \<Rightarrow> json \<Rightarrow> unit handler" where
  "publish subject payload w =
     (let (c, w') = next_call w
      in (Inr (), if c = Fails then w' else w'\<lparr>w_published := w_published w' @ [(subject, payload)]\<rparr>))"

definition publish_durable :: "string \<Rightarrow> json \<Rightarrow> unit handler" where
  "publish_durable subject payload w =
     (let (c, w') = next_call w
      in (Inr (), if c = Fails then w' else w'\<lparr>w_durable := w_durable w' @ [(subject, payload)]\<rparr>))"

definition server_events :: "i64 \<Rightarrow> string" where
  "server_events sid = ''server.'' @ show_i64 sid @ ''.events''"

definition fresh_id :: "snowflake handler" where
  "fresh_id w =
     (let (i, g) = next_id_ticking (w_gen w) (of_int (w_now w) - LUMIERE_EPOCH) in (Inr i, w\<lparr>w_gen := g\<rparr>))"

definition utc_now :: "int handler" where
  "utc_now w = (Inr (w_now w), w)"

definition scylla_error :: app_error where
  "scylla_error = Internal ''ScyllaDB error: connection lost''"

definition scylla_query :: "(scylla_db \<Rightarrow> 'a) \<Rightarrow> 'a handler" where
  "scylla_query q w =
     (let (c, w') = next_call w
      in if c = Succeeds then (Inr (q (w_scylla w')), w') else (Inl scylla_error, w'))"

definition scylla_exec :: "(scylla_db \<Rightarrow> scylla_db) \<Rightarrow> unit handler" where
  "scylla_exec f w =
     (let (c, w') = next_call w
      in (if c = Succeeds then Inr () else Inl scylla_error,
          if c = Fails then w' else w'\<lparr>w_scylla := f (w_scylla w')\<rparr>))"

section \<open>Redis commands\<close>

text \<open>
  A command reads the value of a key at a time and gives an error (\<open>WRONGTYPE\<close>) or the new store and the
  reply. A key whose time has come is gone.
\<close>

type_synonym 'a redis_cmd = "int \<Rightarrow> redis_store \<Rightarrow> string + (redis_store \<times> 'a)"

definition redis_error :: app_error where
  "redis_error = Internal ''Redis error: connection lost''"

definition redis_at :: "int \<Rightarrow> redis_store \<Rightarrow> string \<Rightarrow> (redis_value \<times> int option) option" where
  "redis_at now st k =
     (case st k of None \<Rightarrow> None | Some (v, None) \<Rightarrow> Some (v, None)
      | Some (v, Some t) \<Rightarrow> if now < t then Some (v, Some t) else None)"

definition redis_value_at :: "int \<Rightarrow> redis_store \<Rightarrow> string \<Rightarrow> redis_value option" where
  "redis_value_at now st k = map_option fst (redis_at now st k)"

definition wrong_type :: string where "wrong_type = ''WRONGTYPE''"

definition cmd_exists :: "string \<Rightarrow> bool redis_cmd" where
  "cmd_exists k now st = Inr (st, redis_at now st k \<noteq> None)"

definition cmd_get :: "string \<Rightarrow> redis_value option redis_cmd" where
  "cmd_get k now st =
     (case redis_value_at now st k of
        Some (RMembers _) \<Rightarrow> Inl wrong_type | Some (RList _) \<Rightarrow> Inl wrong_type
      | v \<Rightarrow> Inr (st, v))"

definition cmd_set_ex :: "string \<Rightarrow> redis_value \<Rightarrow> int \<Rightarrow> unit redis_cmd" where
  "cmd_set_ex k v secs now st =
     (if secs \<le> 0 then Inl ''ERR invalid expire time'' else Inr (st(k \<mapsto> (v, Some (now + secs * 1000))), ()))"

text \<open>\<open>SET k v EX secs NX\<close>: true when the key was set.\<close>

definition cmd_set_nx_ex :: "string \<Rightarrow> redis_value \<Rightarrow> int \<Rightarrow> bool redis_cmd" where
  "cmd_set_nx_ex k v secs now st =
     (if redis_at now st k \<noteq> None then Inr (st, False) else Inr (st(k \<mapsto> (v, Some (now + secs * 1000))), True))"

definition cmd_del :: "string \<Rightarrow> unit redis_cmd" where
  "cmd_del k now st = Inr (st(k := None), ())"

definition cmd_expire :: "string \<Rightarrow> int \<Rightarrow> unit redis_cmd" where
  "cmd_expire k secs now st =
     (case redis_at now st k of None \<Rightarrow> Inr (st, ()) | Some (v, _) \<Rightarrow> Inr (st(k \<mapsto> (v, Some (now + secs * 1000))), ()))"

text \<open>\<open>TTL\<close> in seconds: -2 without the key, -1 without an expiry.\<close>

definition cmd_ttl :: "string \<Rightarrow> int redis_cmd" where
  "cmd_ttl k now st =
     Inr (st, case redis_at now st k of None \<Rightarrow> - 2 | Some (_, None) \<Rightarrow> - 1 | Some (_, Some t) \<Rightarrow> (t - now + 500) div 1000)"

text \<open>The Lua script of the counters: \<open>INCR\<close>, and \<open>EXPIRE\<close> when the count is one.\<close>

definition cmd_incr_expire :: "string \<Rightarrow> int \<Rightarrow> int redis_cmd" where
  "cmd_incr_expire k secs now st =
     (case redis_at now st k of
        None \<Rightarrow> Inr (st(k \<mapsto> (RCount 1, Some (now + secs * 1000))), 1)
      | Some (RCount n, t) \<Rightarrow>
          Inr (st(k \<mapsto> (RCount (n + 1), if n + 1 = 1 then Some (now + secs * 1000) else t)), n + 1)
      | Some _ \<Rightarrow> Inl wrong_type)"

definition cmd_sadd :: "string \<Rightarrow> string \<Rightarrow> unit redis_cmd" where
  "cmd_sadd k m now st =
     (case redis_at now st k of
        None \<Rightarrow> Inr (st(k \<mapsto> (RMembers [m], None)), ())
      | Some (RMembers ms, t) \<Rightarrow> Inr (st(k \<mapsto> (RMembers (if m \<in> set ms then ms else ms @ [m]), t)), ())
      | Some _ \<Rightarrow> Inl wrong_type)"

definition cmd_srem :: "string \<Rightarrow> string \<Rightarrow> unit redis_cmd" where
  "cmd_srem k m now st =
     (case redis_at now st k of
        None \<Rightarrow> Inr (st, ())
      | Some (RMembers ms, t) \<Rightarrow>
          (let ms' = filter (\<lambda>x. x \<noteq> m) ms
           in Inr (if ms' = [] then st(k := None) else st(k \<mapsto> (RMembers ms', t)), ()))
      | Some _ \<Rightarrow> Inl wrong_type)"

definition cmd_smembers :: "string \<Rightarrow> string list redis_cmd" where
  "cmd_smembers k now st =
     (case redis_value_at now st k of
        None \<Rightarrow> Inr (st, []) | Some (RMembers ms) \<Rightarrow> Inr (st, ms) | Some _ \<Rightarrow> Inl wrong_type)"

definition redis_live :: "world \<Rightarrow> string \<Rightarrow> bool" where
  "redis_live w k \<longleftrightarrow> redis_at (w_now w) (w_redis w) k \<noteq> None"

definition redis_call :: "'a redis_cmd \<Rightarrow> 'a handler" where
  "redis_call cmd w =
     (let (c, w') = next_call w
      in case c of
           Fails \<Rightarrow> (Inl redis_error, w')
         | Succeeds \<Rightarrow> (case cmd (w_now w') (w_redis w') of
               Inl m \<Rightarrow> (Inl (Internal (''Redis error: '' @ m)), w')
             | Inr (st, x) \<Rightarrow> (Inr x, w'\<lparr>w_redis := st\<rparr>))
         | Unacknowledged \<Rightarrow> (Inl redis_error,
             (case cmd (w_now w') (w_redis w') of Inl _ \<Rightarrow> w' | Inr (st, _) \<Rightarrow> w'\<lparr>w_redis := st\<rparr>)))"

text \<open>\<open>unwrap_or(d)\<close>, and \<open>let _ = ...\<close> with \<open>d = ()\<close>: the error is dropped, its effects are not.\<close>

definition or_else :: "'a \<Rightarrow> 'a handler \<Rightarrow> 'a handler" where
  "or_else d m w = (case m w of (Inl _, w') \<Rightarrow> (Inr d, w') | (Inr x, w') \<Rightarrow> (Inr x, w'))"

definition redis_exists_or_false :: "string \<Rightarrow> bool handler" where
  "redis_exists_or_false k = or_else False (redis_call (cmd_exists k))"

definition redis_set_ex :: "string \<Rightarrow> redis_value \<Rightarrow> int \<Rightarrow> unit handler" where
  "redis_set_ex k v secs = or_else () (redis_call (cmd_set_ex k v secs))"

lemmas service_defs = pg_query_def pg_exec_def publish_def publish_durable_def fresh_id_def utc_now_def
  scylla_query_def scylla_exec_def redis_call_def or_else_def
  redis_exists_or_false_def redis_set_ex_def next_call_def

section \<open>Running without failures\<close>

text \<open>Rewriting a run in a world where every call succeeds: collection \<open>run\<close>.\<close>

named_theorems run \<open>one step of a handler in a world without failures\<close>

definition calm :: "world \<Rightarrow> bool" where
  "calm w \<longleftrightarrow> w_calls w = []"

lemma calm_updates [run]:
  "calm (w\<lparr>w_pg := db\<rparr>) = calm w" "calm (w\<lparr>w_published := p\<rparr>) = calm w" "calm (w\<lparr>w_gen := g\<rparr>) = calm w"
  "calm (w\<lparr>w_scylla := sc\<rparr>) = calm w" "calm (w\<lparr>w_redis := rd\<rparr>) = calm w" "calm (w\<lparr>w_durable := p\<rparr>) = calm w"
  by (simp_all add: calm_def)

lemma run_ret [run]: "ret x w = (Inr x, w)"
  by (simp add: ret_def)

lemma run_throw [run]: "throw e w = (Inl e, w)"
  by (simp add: throw_def)

lemma run_bind [run]: "bind m k w = (case m w of (Inl e, w') \<Rightarrow> (Inl e, w') | (Inr x, w') \<Rightarrow> k x w')"
  by (simp add: bind_def)

lemma run_ensure [run]: "ensure b e w = (if b then Inr () else Inl e, w)"
  by (simp add: ensure_def ret_def throw_def)

lemma run_ok_or [run]: "ok_or v e w = (case v of None \<Rightarrow> Inl e | Some x \<Rightarrow> Inr x, w)"
  by (simp add: ok_or_def ret_def throw_def split: option.split)

lemma run_query [run]: "calm w \<Longrightarrow> pg_query q w = (Inr (q (w_pg w)), w)"
  by (simp add: pg_query_def next_call_def calm_def)

lemma run_exec [run]:
  "calm w \<Longrightarrow> pg_exec st w =
     (case st (w_pg w) of Inl m \<Rightarrow> (Inl (db_error m), w) | Inr (db, x) \<Rightarrow> (Inr x, w\<lparr>w_pg := db\<rparr>))"
  by (simp add: pg_exec_def next_call_def calm_def)

lemma run_fetch_one [run]:
  "calm w \<Longrightarrow> fetch_one q w = (case q (w_pg w) of
     None \<Rightarrow> (Inl (db_error ''no rows returned by a query that expected to return at least one row''), w)
   | Some x \<Rightarrow> (Inr x, w))"
  by (simp add: fetch_one_def run split: option.split)

lemma run_try [run]:
  "calm w \<Longrightarrow> pg_try q w = (case q (w_pg w) of Inl m \<Rightarrow> (Inl (db_error m), w) | Inr x \<Rightarrow> (Inr x, w))"
  by (simp add: pg_try_def run split: sum.split)

lemma run_publish [run]:
  "calm w \<Longrightarrow> publish s p w = (Inr (), w\<lparr>w_published := w_published w @ [(s, p)]\<rparr>)"
  "calm w \<Longrightarrow> publish_durable s p w = (Inr (), w\<lparr>w_durable := w_durable w @ [(s, p)]\<rparr>)"
  by (simp_all add: publish_def publish_durable_def next_call_def calm_def)

lemma run_scylla [run]:
  "calm w \<Longrightarrow> scylla_query q w = (Inr (q (w_scylla w)), w)"
  "calm w \<Longrightarrow> scylla_exec f w = (Inr (), w\<lparr>w_scylla := f (w_scylla w)\<rparr>)"
  by (simp_all add: scylla_query_def scylla_exec_def next_call_def calm_def)

lemma run_redis_call [run]:
  "calm w \<Longrightarrow> redis_call cmd w =
     (case cmd (w_now w) (w_redis w) of
        Inl m \<Rightarrow> (Inl (Internal (''Redis error: '' @ m)), w) | Inr (st, x) \<Rightarrow> (Inr x, w\<lparr>w_redis := st\<rparr>))"
  by (simp add: redis_call_def next_call_def calm_def)

lemma run_or_else [run]: "or_else d m w = (case m w of (Inl _, w') \<Rightarrow> (Inr d, w') | (Inr x, w') \<Rightarrow> (Inr x, w'))"
  by (simp add: or_else_def)

lemma run_redis [run]:
  "calm w \<Longrightarrow> redis_exists_or_false k w = (Inr (redis_live w k), w)"
  "calm w \<Longrightarrow> 0 < n \<Longrightarrow> redis_set_ex k v n w =
     (Inr (), w\<lparr>w_redis := (w_redis w)(k := Some (v, Some (w_now w + n * 1000)))\<rparr>)"
  by (simp_all add: redis_exists_or_false_def redis_set_ex_def run cmd_exists_def cmd_set_ex_def redis_live_def)

lemma run_fresh_id [run]:
  "fresh_id w = (let (i, g) = next_id_ticking (w_gen w) (of_int (w_now w) - LUMIERE_EPOCH) in (Inr i, w\<lparr>w_gen := g\<rparr>))"
  by (simp add: fresh_id_def)

lemma run_transaction [run]:
  "calm w \<Longrightarrow> calm (snd (body w)) \<Longrightarrow>
   transaction body w = (case body w of (Inl e, w1) \<Rightarrow> (Inl e, w1\<lparr>w_pg := w_pg w\<rparr>) | (Inr x, w1) \<Rightarrow> (Inr x, w1))"
  by (auto simp: transaction_def next_call_def calm_def split: prod.split sum.split)

lemma run_now [run]: "utc_now w = (Inr (w_now w), w)"
  by (simp add: utc_now_def)

section \<open>Weakest preconditions on the database, under every failure\<close>

text \<open>
  \<open>wps m Q E s\<close>: started on the PostgreSQL state \<open>s\<close>, whatever the rest of the world is and whatever
  calls fail, \<open>m\<close> ends in a state with \<open>Q\<close> when it returns a value and with \<open>E\<close> when it returns an error.
\<close>

definition wps :: "'a handler \<Rightarrow> ('a \<Rightarrow> pg_db \<Rightarrow> bool) \<Rightarrow> (app_error \<Rightarrow> pg_db \<Rightarrow> bool) \<Rightarrow> pg_db \<Rightarrow> bool" where
  "wps m Q E s \<longleftrightarrow>
     (\<forall>w. w_pg w = s \<longrightarrow> (case m w of (Inl e, w') \<Rightarrow> E e (w_pg w') | (Inr x, w') \<Rightarrow> Q x (w_pg w')))"

named_theorems wp \<open>weakest-precondition rules for the handlers\<close>

lemma wpsD:
  assumes "wps m Q E (w_pg w)"
  shows "m w = (Inr x, w') \<Longrightarrow> Q x (w_pg w')" "m w = (Inl e, w') \<Longrightarrow> E e (w_pg w')"
  using assms unfolding wps_def by fastforce+

lemma wps_mono:
  assumes "wps m Q E s" "\<And>x t. Q x t \<Longrightarrow> Q' x t" "\<And>e t. E e t \<Longrightarrow> E' e t"
  shows "wps m Q' E' s"
  using assms unfolding wps_def by (auto split: prod.splits sum.splits)

lemma wps_ret [wp]: "Q x s \<Longrightarrow> wps (ret x) Q E s"
  by (simp add: wps_def ret_def)

lemma wps_throw [wp]: "E e s \<Longrightarrow> wps (throw e) Q E s"
  by (simp add: wps_def throw_def)

lemma wps_bind [wp]: "wps m (\<lambda>x. wps (k x) Q E) E s \<Longrightarrow> wps (bind m k) Q E s"
  unfolding wps_def bind_def by (auto split: prod.splits sum.splits)

lemma wps_if [wp]: "(b \<Longrightarrow> wps m Q E s) \<Longrightarrow> (\<not> b \<Longrightarrow> wps n Q E s) \<Longrightarrow> wps (if b then m else n) Q E s"
  by simp

lemma wps_let [wp]: "wps (f v) Q E s \<Longrightarrow> wps (let x = v in f x) Q E s"
  by simp

lemma wps_option [wp]:
  "(v = None \<Longrightarrow> wps m Q E s) \<Longrightarrow> (\<And>x. v = Some x \<Longrightarrow> wps (k x) Q E s) \<Longrightarrow>
   wps (case v of None \<Rightarrow> m | Some x \<Rightarrow> k x) Q E s"
  by (cases v) simp_all

lemma wps_pair [wp]: "(\<And>a b. p = (a, b) \<Longrightarrow> wps (k a b) Q E s) \<Longrightarrow> wps (case p of (a, b) \<Rightarrow> k a b) Q E s"
  by (cases p) simp

lemma wps_ensure [wp]: "(b \<Longrightarrow> Q () s) \<Longrightarrow> (\<not> b \<Longrightarrow> E e s) \<Longrightarrow> wps (ensure b e) Q E s"
  by (simp add: wps_def ensure_def ret_def throw_def)

lemma wps_ok_or [wp]: "(\<And>x. v = Some x \<Longrightarrow> Q x s) \<Longrightarrow> (v = None \<Longrightarrow> E e s) \<Longrightarrow> wps (ok_or v e) Q E s"
  by (cases v) (simp_all add: wps_def ok_or_def ret_def throw_def)

lemma next_call_pg [simp]: "w_pg (snd (next_call w)) = w_pg w"
  by (simp add: next_call_def split: list.split)

lemma next_call_pg_eq: "next_call w = (c, w') \<Longrightarrow> w_pg w' = w_pg w"
  by (metis next_call_pg snd_conv)

lemma wps_query [wp]:
  "Q (q s) s \<Longrightarrow> (\<And>m. E (db_error m) s) \<Longrightarrow> wps (pg_query q) Q E s"
  by (auto simp: wps_def pg_query_def Let_def dest: next_call_pg_eq split: prod.splits)

lemma wps_exec [wp]:
  assumes "\<And>db x. st s = Inr (db, x) \<Longrightarrow> Q x db"
    and "\<And>m. E (db_error m) s" and "\<And>db x m. st s = Inr (db, x) \<Longrightarrow> E (db_error m) db"
  shows "wps (pg_exec st) Q E s"
  using assms
  by (auto simp: wps_def pg_exec_def Let_def dest: next_call_pg_eq
      split: prod.splits sum.splits call_outcome.splits)

lemma wps_fetch_one [wp]:
  "(\<And>x. q s = Some x \<Longrightarrow> Q x s) \<Longrightarrow> (\<And>m. E (db_error m) s) \<Longrightarrow> wps (fetch_one q) Q E s"
  unfolding fetch_one_def by (intro wp) auto

lemma wps_sum [wp]:
  "(\<And>m. v = Inl m \<Longrightarrow> wps (f m) Q E s) \<Longrightarrow> (\<And>x. v = Inr x \<Longrightarrow> wps (k x) Q E s) \<Longrightarrow>
   wps (case v of Inl m \<Rightarrow> f m | Inr x \<Rightarrow> k x) Q E s"
  by (cases v) simp_all

lemma wps_try [wp]:
  "(\<And>x. q s = Inr x \<Longrightarrow> Q x s) \<Longrightarrow> (\<And>m. E (db_error m) s) \<Longrightarrow> wps (pg_try q) Q E s"
  unfolding pg_try_def by (intro wp) auto

lemma wps_transaction [wp]:
  assumes "wps body (\<lambda>x t. Q x t \<and> (\<forall>m. E (db_error m) t)) (\<lambda>e _. E e s) s" "\<And>m. E (db_error m) s"
  shows "wps (transaction body) Q E s"
  using assms unfolding wps_def transaction_def
  by (fastforce simp: Let_def dest: next_call_pg_eq split: prod.splits sum.splits call_outcome.splits if_splits)

lemma wps_publish [wp]: "Q () s \<Longrightarrow> wps (publish a p) Q E s" "Q () s \<Longrightarrow> wps (publish_durable a p) Q E s"
  by (auto simp: wps_def publish_def publish_durable_def Let_def dest: next_call_pg_eq split: prod.splits)

lemma wps_fresh_id [wp]: "(\<And>i. Q i s) \<Longrightarrow> wps fresh_id Q E s"
  by (auto simp: wps_def fresh_id_def split: prod.splits)

lemma wps_now [wp]: "(\<And>t. Q t s) \<Longrightarrow> wps utc_now Q E s"
  by (simp add: wps_def utc_now_def)

lemma wps_scylla [wp]:
  "(\<And>x. Q x s) \<Longrightarrow> E scylla_error s \<Longrightarrow> wps (scylla_query q) Q E s"
  "Q' () s \<Longrightarrow> E scylla_error s \<Longrightarrow> wps (scylla_exec f) Q' E s"
  by (auto simp: wps_def scylla_query_def scylla_exec_def Let_def dest: next_call_pg_eq split: prod.splits)

lemma wps_redis_call [wp]:
  "(\<And>x. Q x s) \<Longrightarrow> (\<And>e. E e s) \<Longrightarrow> wps (redis_call cmd) Q E s"
  by (auto simp: wps_def redis_call_def Let_def dest: next_call_pg_eq
      split: prod.splits sum.splits call_outcome.splits)

lemma wps_or_else [wp]: "wps m Q (\<lambda>_. Q d) s \<Longrightarrow> wps (or_else d m) Q E s"
  unfolding wps_def or_else_def by (fastforce split: prod.splits sum.splits)

lemma wps_redis [wp]:
  "(\<And>b. Q b s) \<Longrightarrow> wps (redis_exists_or_false k) Q E s"
  "Q' () s \<Longrightarrow> wps (redis_set_ex k v n) Q' E s"
  unfolding redis_exists_or_false_def redis_set_ex_def by (intro wp; simp)+

lemma wps_is_ok [wp]: "wps m (\<lambda>_. Q True) (\<lambda>_. Q False) s \<Longrightarrow> wps (is_ok m) Q E s"
  unfolding wps_def is_ok_def by (fastforce split: prod.splits sum.splits)

lemma wps_for_each:
  assumes "I s" "\<And>x t. x \<in> set xs \<Longrightarrow> I t \<Longrightarrow> wps (f x) (\<lambda>_. I) E t" "\<And>t. I t \<Longrightarrow> Q () t"
  shows "wps (for_each f xs) Q E s"
  using assms
proof (induction xs arbitrary: s)
  case Nil
  then show ?case by (simp add: wps_ret)
next
  case (Cons x xs)
  have "wps (f x) (\<lambda>_. I) E s" using Cons.prems by simp
  then have "wps (f x) (\<lambda>_. wps (for_each f xs) Q E) E s"
    by (rule wps_mono) (auto intro!: Cons.IH Cons.prems)
  then show ?case by (simp add: wps_bind)
qed

text \<open>A handler that keeps an invariant of the database, in success and in failure.\<close>

definition keeps :: "(pg_db \<Rightarrow> bool) \<Rightarrow> 'a handler \<Rightarrow> bool" where
  "keeps I m \<longleftrightarrow> (\<forall>s. I s \<longrightarrow> wps m (\<lambda>_. I) (\<lambda>_. I) s)"

lemma keepsI: "(\<And>s. I s \<Longrightarrow> wps m (\<lambda>_. I) (\<lambda>_. I) s) \<Longrightarrow> keeps I m"
  by (simp add: keeps_def)

lemma keepsD: "keeps I m \<Longrightarrow> I (w_pg w) \<Longrightarrow> I (w_pg (snd (m w)))"
  unfolding keeps_def by (cases "m w", cases "fst (m w)") (auto dest: wpsD)

text \<open>A handler that never writes PostgreSQL.\<close>

definition read_only :: "'a handler \<Rightarrow> bool" where
  "read_only m \<longleftrightarrow> (\<forall>w. w_pg (snd (m w)) = w_pg w)"

lemma read_only_wps:
  assumes "\<And>s. wps m (\<lambda>_ t. t = s) (\<lambda>_ t. t = s) s"
  shows "read_only m"
  unfolding read_only_def
proof
  fix w
  obtain r w' where m: "m w = (r, w')" by fastforce
  have "w_pg w' = w_pg w"
    using wpsD [OF assms [of "w_pg w"]] m by (cases r) blast+
  then show "w_pg (snd (m w)) = w_pg w" using m by simp
qed

lemma wps_read_only: "read_only m \<Longrightarrow> (\<And>x. Q x s) \<Longrightarrow> (\<And>e. E e s) \<Longrightarrow> wps m Q E s"
  unfolding read_only_def wps_def by (clarsimp split: prod.split sum.split) (metis snd_conv)

end
