(* ===== verification/Permissions.thy ===== *)
theory Permissions
  imports Prelude
begin

text \<open>
  \<open>lumiere-permissions/src/lib.rs\<close>: the permission bit set (a \<open>u64\<close> of which 38 flags are defined), the
  Discord-style computation of a member's effective permissions, the role hierarchy, and the text form.
  \<open>from_bits_truncate\<close>, \<open>contains\<close> and \<open>all\<close> are the methods the \<open>bitflags!\<close> macro generates for the
  declaration: drop unknown bits, subset test, union of the declared flags.
\<close>

type_synonym permissions = u64

definition flag :: "nat \<Rightarrow> permissions" where "flag n = push_bit n 1"

definition ADMINISTRATOR :: permissions where "ADMINISTRATOR = flag 0"
definition VIEW_AUDIT_LOG :: permissions where "VIEW_AUDIT_LOG = flag 1"
definition MANAGE_SERVER :: permissions where "MANAGE_SERVER = flag 2"
definition MANAGE_ROLES :: permissions where "MANAGE_ROLES = flag 3"
definition MANAGE_CHANNELS :: permissions where "MANAGE_CHANNELS = flag 4"
definition KICK_MEMBERS :: permissions where "KICK_MEMBERS = flag 5"
definition BAN_MEMBERS :: permissions where "BAN_MEMBERS = flag 6"
definition CREATE_INVITE :: permissions where "CREATE_INVITE = flag 7"
definition CHANGE_NICKNAME :: permissions where "CHANGE_NICKNAME = flag 8"
definition MANAGE_NICKNAMES :: permissions where "MANAGE_NICKNAMES = flag 9"
definition MANAGE_EMOJIS :: permissions where "MANAGE_EMOJIS = flag 10"
definition MANAGE_WEBHOOKS :: permissions where "MANAGE_WEBHOOKS = flag 11"
definition VIEW_CHANNEL :: permissions where "VIEW_CHANNEL = flag 12"
definition MODERATE_MEMBERS :: permissions where "MODERATE_MEMBERS = flag 13"
definition SEND_MESSAGES :: permissions where "SEND_MESSAGES = flag 14"
definition SEND_TTS_MESSAGES :: permissions where "SEND_TTS_MESSAGES = flag 15"
definition MANAGE_MESSAGES :: permissions where "MANAGE_MESSAGES = flag 16"
definition EMBED_LINKS :: permissions where "EMBED_LINKS = flag 17"
definition ATTACH_FILES :: permissions where "ATTACH_FILES = flag 18"
definition READ_MESSAGE_HISTORY :: permissions where "READ_MESSAGE_HISTORY = flag 19"
definition MENTION_EVERYONE :: permissions where "MENTION_EVERYONE = flag 20"
definition USE_EXTERNAL_EMOJIS :: permissions where "USE_EXTERNAL_EMOJIS = flag 21"
definition ADD_REACTIONS :: permissions where "ADD_REACTIONS = flag 22"
definition USE_SLASH_COMMANDS :: permissions where "USE_SLASH_COMMANDS = flag 23"
definition SEND_MESSAGES_IN_THREADS :: permissions where "SEND_MESSAGES_IN_THREADS = flag 24"
definition CREATE_PUBLIC_THREADS :: permissions where "CREATE_PUBLIC_THREADS = flag 25"
definition CREATE_PRIVATE_THREADS :: permissions where "CREATE_PRIVATE_THREADS = flag 26"
definition MANAGE_THREADS :: permissions where "MANAGE_THREADS = flag 27"
definition CONNECT :: permissions where "CONNECT = flag 28"
definition SPEAK :: permissions where "SPEAK = flag 29"
definition MUTE_MEMBERS :: permissions where "MUTE_MEMBERS = flag 30"
definition DEAFEN_MEMBERS :: permissions where "DEAFEN_MEMBERS = flag 31"
definition MOVE_MEMBERS :: permissions where "MOVE_MEMBERS = flag 32"
definition USE_VAD :: permissions where "USE_VAD = flag 33"
definition PRIORITY_SPEAKER :: permissions where "PRIORITY_SPEAKER = flag 34"
definition STREAM :: permissions where "STREAM = flag 35"
definition USE_SOUNDBOARD :: permissions where "USE_SOUNDBOARD = flag 36"
definition REQUEST_TO_SPEAK :: permissions where "REQUEST_TO_SPEAK = flag 37"

lemmas flag_defs = ADMINISTRATOR_def VIEW_AUDIT_LOG_def MANAGE_SERVER_def MANAGE_ROLES_def
  MANAGE_CHANNELS_def KICK_MEMBERS_def BAN_MEMBERS_def CREATE_INVITE_def CHANGE_NICKNAME_def
  MANAGE_NICKNAMES_def MANAGE_EMOJIS_def MANAGE_WEBHOOKS_def VIEW_CHANNEL_def MODERATE_MEMBERS_def
  SEND_MESSAGES_def SEND_TTS_MESSAGES_def MANAGE_MESSAGES_def EMBED_LINKS_def ATTACH_FILES_def
  READ_MESSAGE_HISTORY_def MENTION_EVERYONE_def USE_EXTERNAL_EMOJIS_def ADD_REACTIONS_def
  USE_SLASH_COMMANDS_def SEND_MESSAGES_IN_THREADS_def CREATE_PUBLIC_THREADS_def
  CREATE_PRIVATE_THREADS_def MANAGE_THREADS_def CONNECT_def SPEAK_def MUTE_MEMBERS_def
  DEAFEN_MEMBERS_def MOVE_MEMBERS_def USE_VAD_def PRIORITY_SPEAKER_def STREAM_def
  USE_SOUNDBOARD_def REQUEST_TO_SPEAK_def

definition all_flags :: "permissions list" where
  "all_flags = [ADMINISTRATOR, VIEW_AUDIT_LOG, MANAGE_SERVER, MANAGE_ROLES, MANAGE_CHANNELS,
     KICK_MEMBERS, BAN_MEMBERS, CREATE_INVITE, CHANGE_NICKNAME, MANAGE_NICKNAMES, MANAGE_EMOJIS,
     MANAGE_WEBHOOKS, VIEW_CHANNEL, MODERATE_MEMBERS, SEND_MESSAGES, SEND_TTS_MESSAGES,
     MANAGE_MESSAGES, EMBED_LINKS, ATTACH_FILES, READ_MESSAGE_HISTORY, MENTION_EVERYONE,
     USE_EXTERNAL_EMOJIS, ADD_REACTIONS, USE_SLASH_COMMANDS, SEND_MESSAGES_IN_THREADS,
     CREATE_PUBLIC_THREADS, CREATE_PRIVATE_THREADS, MANAGE_THREADS, CONNECT, SPEAK, MUTE_MEMBERS,
     DEAFEN_MEMBERS, MOVE_MEMBERS, USE_VAD, PRIORITY_SPEAKER, STREAM, USE_SOUNDBOARD,
     REQUEST_TO_SPEAK]"

definition perms_all :: permissions where
  "perms_all = foldr (OR) all_flags 0"

definition from_bits_truncate :: "u64 \<Rightarrow> permissions" where
  "from_bits_truncate b = b AND perms_all"

definition contains :: "permissions \<Rightarrow> permissions \<Rightarrow> bool" where
  "contains p q \<longleftrightarrow> p AND q = q"

definition default_everyone :: permissions where
  "default_everyone = VIEW_CHANNEL OR SEND_MESSAGES OR READ_MESSAGE_HISTORY OR EMBED_LINKS OR
     ATTACH_FILES OR ADD_REACTIONS OR USE_EXTERNAL_EMOJIS OR CONNECT OR SPEAK OR USE_VAD OR
     CHANGE_NICKNAME OR CREATE_INVITE"

text \<open>The complement of a flag set is taken within the declared flags, as \<open>bitflags\<close> does.\<close>

definition perms_not :: "permissions \<Rightarrow> permissions" where
  "perms_not p = from_bits_truncate (NOT p)"

record permission_override =
  ov_target_id :: u64
  ov_target_type :: u8
  ov_allow :: permissions
  ov_deny :: permissions

definition find_override :: "permission_override list \<Rightarrow> u64 \<Rightarrow> u8 \<Rightarrow> permission_override option" where
  "find_override ovs tid ty = t_find (\<lambda>v. ov_target_id v = tid \<and> ov_target_type v = ty) ovs"

definition apply_override :: "permission_override option \<Rightarrow> permissions \<Rightarrow> permissions" where
  "apply_override ov p = (case ov of None \<Rightarrow> p | Some v \<Rightarrow> (p AND perms_not (ov_deny v)) OR ov_allow v)"

definition base_permissions :: "u64 list \<Rightarrow> u64 \<Rightarrow> (u64 \<times> u64) list \<Rightarrow> permissions" where
  "base_permissions member_role_ids everyone role_permissions =
     foldl (\<lambda>p rid. case t_find (\<lambda>r. fst r = rid) role_permissions of
                      None \<Rightarrow> p
                    | Some r \<Rightarrow> p OR from_bits_truncate (snd r))
       (from_bits_truncate everyone) member_role_ids"

text \<open>Step 4b: the allows and the denies of all roles of the member, each or-ed together.\<close>

definition role_overrides :: "u64 list \<Rightarrow> permission_override list \<Rightarrow> permissions \<times> permissions" where
  "role_overrides member_role_ids overrides =
     foldl (\<lambda>(a, d) rid. case find_override overrides rid 0 of
                           None \<Rightarrow> (a, d)
                         | Some v \<Rightarrow> (a OR ov_allow v, d OR ov_deny v))
       (0, 0) member_role_ids"

definition compute_permissions ::
  "bool \<Rightarrow> u64 list \<Rightarrow> u64 \<Rightarrow> (u64 \<times> u64) list \<Rightarrow> permission_override list option \<Rightarrow> u64 \<Rightarrow> u64 \<Rightarrow> permissions"
where
  "compute_permissions is_owner member_role_ids everyone role_permissions channel_overrides member_id server_id =
     (if is_owner then perms_all
      else let base = base_permissions member_role_ids everyone role_permissions
      in if contains base ADMINISTRATOR then perms_all
      else case channel_overrides of
             None \<Rightarrow> base
           | Some overrides \<Rightarrow>
               let p1 = apply_override (find_override overrides server_id 0) base;
                   (role_allow, role_deny) = role_overrides member_role_ids overrides;
                   p2 = (p1 AND perms_not role_deny) OR role_allow
               in apply_override (find_override overrides member_id 1) p2)"

definition can_modify_member :: "int \<Rightarrow> int \<Rightarrow> bool" where
  "can_modify_member actor_highest target_highest \<longleftrightarrow> actor_highest > target_highest"

definition highest_role_position :: "u64 list \<Rightarrow> (u64 \<times> int) list \<Rightarrow> int" where
  "highest_role_position member_role_ids all_roles =
     (let ps = List.map_filter (\<lambda>rid. map_option snd (t_find (\<lambda>r. fst r = rid) all_roles)) member_role_ids
      in if ps = [] then 0 else Max (set ps))"

definition perms_serialize :: "permissions \<Rightarrow> string" where
  "perms_serialize p = show_u64 p"

definition perms_deserialize :: "string \<Rightarrow> parse_int_error + permissions" where
  "perms_deserialize s = map_sum id from_bits_truncate (parse_u64 s)"

section \<open>Bit-set facts\<close>

lemma perms_all_mask: "perms_all = mask 38"
  by (simp add: perms_all_def all_flags_def flag_defs flag_def push_bit_eq_mult mask_eq_exp_minus_1)

lemma bit_perms_all [simp]: "bit perms_all n \<longleftrightarrow> n < 38"
  by (auto simp: perms_all_mask bit_mask_iff)

lemma bit_truncate [simp]: "bit (from_bits_truncate b) n \<longleftrightarrow> n < 38 \<and> bit b n"
  by (auto simp: from_bits_truncate_def bit_and_iff)

lemma bit_perms_not [simp]: "bit (perms_not p) n \<longleftrightarrow> n < 38 \<and> \<not> bit p n"
  by (auto simp: perms_not_def bit_not_iff)

lemma contains_iff: "contains p q \<longleftrightarrow> (\<forall>n. bit q n \<longrightarrow> bit p n)"
proof
  assume "contains p q"
  then have "bit q n = bit (p AND q) n" for n by (simp add: contains_def)
  then show "\<forall>n. bit q n \<longrightarrow> bit p n" by (auto simp: bit_and_iff)
next
  assume "\<forall>n. bit q n \<longrightarrow> bit p n"
  then show "contains p q" unfolding contains_def by (intro bit_eqI) (auto simp: bit_and_iff)
qed

lemma contains_all [simp]: "contains perms_all p \<longleftrightarrow> from_bits_truncate p = p"
proof
  assume "contains perms_all p"
  then show "from_bits_truncate p = p" by (intro bit_eqI) (auto simp: contains_iff)
next
  assume "from_bits_truncate p = p"
  then have "bit p n \<longleftrightarrow> bit (from_bits_truncate p) n" for n by simp
  then show "contains perms_all p" by (auto simp: contains_iff)
qed

lemma contains_refl [simp]: "contains p p"
  by (simp add: contains_iff)

lemma truncate_idem [simp]: "from_bits_truncate (from_bits_truncate p) = from_bits_truncate p"
  by (auto intro: bit_eqI)

lemma bit_flag: "bit (flag k) n \<longleftrightarrow> n = k \<and> k < 64"
proof -
  have "bit (push_bit k (1 :: u64)) n \<longleftrightarrow> k \<le> n \<and> n < 64 \<and> bit (1 :: u64) (n - k)"
    unfolding bit_push_bit_iff by auto
  then show ?thesis unfolding flag_def bit_1_iff by auto
qed

lemma contains_flag: "k < 64 \<Longrightarrow> contains p (flag k) \<longleftrightarrow> bit p k"
  by (auto simp: contains_iff bit_flag)

lemma bit_base:
  "bit (base_permissions rids ev rps) n \<longleftrightarrow>
     n < 38 \<and> (bit ev n \<or> (\<exists>rid \<in> set rids. \<exists>r. t_find (\<lambda>r. fst r = rid) rps = Some r \<and> bit (snd r) n))"
proof -
  have "bit (foldl (\<lambda>p rid. case t_find (\<lambda>r. fst r = rid) rps of None \<Rightarrow> p
            | Some r \<Rightarrow> p OR from_bits_truncate (snd r)) acc rids) n \<longleftrightarrow>
      bit acc n \<or> n < 38 \<and> (\<exists>rid \<in> set rids. \<exists>r. t_find (\<lambda>r. fst r = rid) rps = Some r \<and> bit (snd r) n)" for acc
    by (induction rids arbitrary: acc) (auto split: option.splits simp: bit_or_iff)
  then show ?thesis by (auto simp: base_permissions_def)
qed

lemma bit_role_overrides:
  "bit (fst (role_overrides rids ovs)) n \<longleftrightarrow>
     (\<exists>rid \<in> set rids. \<exists>v. find_override ovs rid 0 = Some v \<and> bit (ov_allow v) n)"
  "bit (snd (role_overrides rids ovs)) n \<longleftrightarrow>
     (\<exists>rid \<in> set rids. \<exists>v. find_override ovs rid 0 = Some v \<and> bit (ov_deny v) n)"
proof -
  let ?f = "\<lambda>(a, d) rid. case find_override ovs rid 0 of None \<Rightarrow> (a, d)
      | Some v \<Rightarrow> (a OR ov_allow v, d OR ov_deny v)"
  have "bit (fst (foldl ?f ad rids)) n \<longleftrightarrow> bit (fst ad) n \<or>
        (\<exists>rid \<in> set rids. \<exists>v. find_override ovs rid 0 = Some v \<and> bit (ov_allow v) n)"
    "bit (snd (foldl ?f ad rids)) n \<longleftrightarrow> bit (snd ad) n \<or>
        (\<exists>rid \<in> set rids. \<exists>v. find_override ovs rid 0 = Some v \<and> bit (ov_deny v) n)" for ad
    by (induction rids arbitrary: ad) (auto split: option.splits prod.splits simp: bit_or_iff)
  from this [of "(0, 0)"] show
    "bit (fst (role_overrides rids ovs)) n \<longleftrightarrow>
     (\<exists>rid \<in> set rids. \<exists>v. find_override ovs rid 0 = Some v \<and> bit (ov_allow v) n)"
    "bit (snd (role_overrides rids ovs)) n \<longleftrightarrow>
     (\<exists>rid \<in> set rids. \<exists>v. find_override ovs rid 0 = Some v \<and> bit (ov_deny v) n)"
    by (simp_all add: role_overrides_def)
qed

section \<open>The precedence of the layers\<close>

text \<open>
  The documented order, one flag at a time: a layer that allows wins over its own denial, and either
  wins over the layers below it. \<open>flag_layers\<close> is the specification: base roles, then the @everyone
  override, then the member's roles together, then the member.
\<close>

definition layer :: "bool \<Rightarrow> bool \<Rightarrow> bool \<Rightarrow> bool" where
  "layer allow deny below \<longleftrightarrow> allow \<or> \<not> deny \<and> below"

definition override_bits :: "permission_override option \<Rightarrow> nat \<Rightarrow> bool \<times> bool" where
  "override_bits ov n = (case ov of None \<Rightarrow> (False, False) | Some v \<Rightarrow> (bit (ov_allow v) n, bit (ov_deny v) n))"

definition flag_layers ::
  "u64 list \<Rightarrow> u64 \<Rightarrow> (u64 \<times> u64) list \<Rightarrow> permission_override list \<Rightarrow> u64 \<Rightarrow> u64 \<Rightarrow> nat \<Rightarrow> bool"
where
  "flag_layers rids everyone rps ovs member_id server_id n \<longleftrightarrow>
     (let base = bit everyone n \<or> (\<exists>rid \<in> set rids. \<exists>r. t_find (\<lambda>r. fst r = rid) rps = Some r \<and> bit (snd r) n);
          (ea, ed) = override_bits (find_override ovs server_id 0) n;
          ra = (\<exists>rid \<in> set rids. fst (override_bits (find_override ovs rid 0) n));
          rd = (\<exists>rid \<in> set rids. snd (override_bits (find_override ovs rid 0) n));
          (ma, md) = override_bits (find_override ovs member_id 1) n
      in layer ma md (layer ra rd (layer ea ed base)))"

lemma bit_apply_override:
  "n < 38 \<Longrightarrow> bit (apply_override ov p) n =
     layer (fst (override_bits ov n)) (snd (override_bits ov n)) (bit p n)"
  by (cases ov) (auto simp: apply_override_def override_bits_def layer_def bit_or_iff bit_and_iff)

lemma role_bits:
  "bit (fst (role_overrides rids ovs)) n \<longleftrightarrow> (\<exists>rid \<in> set rids. fst (override_bits (find_override ovs rid 0) n))"
  "bit (snd (role_overrides rids ovs)) n \<longleftrightarrow> (\<exists>rid \<in> set rids. snd (override_bits (find_override ovs rid 0) n))"
  by (auto simp: bit_role_overrides override_bits_def split: option.splits)

lemma base_admin: "contains (base_permissions rids ev rps) ADMINISTRATOR \<longleftrightarrow> bit (base_permissions rids ev rps) 0"
  by (simp add: ADMINISTRATOR_def contains_flag)

text \<open>Flag by flag, \<open>compute_permissions\<close> is the documented precedence: for a member who is neither
  the owner nor an administrator, the computed set holds a flag exactly when the highest layer that
  mentions it (member, then roles, then @everyone, then base roles) allows it.\<close>

theorem compute_permissions_layers:
  assumes "\<not> is_owner" "\<not> contains (base_permissions rids ev rps) ADMINISTRATOR" "n < 38"
  shows "bit (compute_permissions is_owner rids ev rps (Some ovs) member_id server_id) n \<longleftrightarrow>
    flag_layers rids ev rps ovs member_id server_id n"
proof -
  have "bit ((p AND perms_not d) OR a) n = layer (bit a n) (bit d n) (bit p n)" for p a d
    using assms(3) by (auto simp: layer_def bit_or_iff bit_and_iff)
  then show ?thesis
    using assms
    by (simp add: compute_permissions_def flag_layers_def Let_def split_beta bit_apply_override
        role_bits bit_base)
qed

theorem compute_permissions_layers_witness:
  "bit (compute_permissions False [7] VIEW_CHANNEL []
      (Some [\<lparr>ov_target_id = 100, ov_target_type = 0, ov_allow = 0, ov_deny = SEND_MESSAGES\<rparr>,
             \<lparr>ov_target_id = 1, ov_target_type = 1, ov_allow = SEND_MESSAGES, ov_deny = 0\<rparr>]) 1 100) 14"
proof -
  let ?ovs = "[\<lparr>ov_target_id = 100, ov_target_type = 0, ov_allow = 0, ov_deny = SEND_MESSAGES\<rparr>,
    \<lparr>ov_target_id = 1, ov_target_type = 1, ov_allow = SEND_MESSAGES, ov_deny = 0\<rparr>]"
  have "\<not> contains (base_permissions [7] VIEW_CHANNEL []) ADMINISTRATOR"
    by (simp add: base_admin bit_base t_find_def VIEW_CHANNEL_def bit_flag)
  moreover have "flag_layers [7] VIEW_CHANNEL [] ?ovs 1 100 14"
    by (simp add: flag_layers_def find_override_def t_find_def override_bits_def layer_def
        SEND_MESSAGES_def bit_flag)
  ultimately show ?thesis
    using compute_permissions_layers [of False "[7]" VIEW_CHANNEL "[]" 14 ?ovs 1 100] by simp
qed

text \<open>Owners and administrators are out of reach of channel overrides: they get every declared flag,
  whatever the overrides deny; nobody else gets \<open>ADMINISTRATOR\<close> unless an override that applies to
  them allows that very flag.\<close>

theorem administrator_only_from_roles:
  "(is_owner \<or> contains (base_permissions rids ev rps) ADMINISTRATOR \<longrightarrow>
      compute_permissions is_owner rids ev rps ovs member_id server_id = perms_all) \<and>
   (\<not> is_owner \<and> \<not> contains (base_permissions rids ev rps) ADMINISTRATOR \<and>
      (\<forall>os. ovs = Some os \<longrightarrow> (\<forall>v \<in> set os. \<not> bit (ov_allow v) 0)) \<longrightarrow>
      \<not> contains (compute_permissions is_owner rids ev rps ovs member_id server_id) ADMINISTRATOR)"
proof (intro conjI impI)
  assume a: "\<not> is_owner \<and> \<not> contains (base_permissions rids ev rps) ADMINISTRATOR \<and>
      (\<forall>os. ovs = Some os \<longrightarrow> (\<forall>v \<in> set os. \<not> bit (ov_allow v) 0))"
  show "\<not> contains (compute_permissions is_owner rids ev rps ovs member_id server_id) ADMINISTRATOR"
  proof (cases ovs)
    case None
    with a show ?thesis by (simp add: compute_permissions_def Let_def)
  next
    case (Some os)
    have no: "\<not> fst (override_bits (find_override os i t) 0)" for i t
      using a Some by (auto simp: find_override_def override_bits_def split: option.splits dest!: t_find_SomeD)
    have "bit (base_permissions rids ev rps) 0 = False" using a by (simp add: base_admin)
    then have "\<not> bit (compute_permissions is_owner rids ev rps ovs member_id server_id) 0"
      using a Some no by (simp add: compute_permissions_def Let_def split_beta bit_apply_override
        bit_or_iff bit_and_iff role_bits layer_def)
    then show ?thesis by (simp add: ADMINISTRATOR_def contains_flag)
  qed
qed (auto simp: compute_permissions_def Let_def)

theorem administrator_only_from_roles_witness:
  "compute_permissions False [] ADMINISTRATOR []
     (Some [\<lparr>ov_target_id = 1, ov_target_type = 1, ov_allow = 0, ov_deny = perms_all\<rparr>]) 1 100 = perms_all"
proof -
  have "contains (base_permissions [] ADMINISTRATOR []) ADMINISTRATOR"
    unfolding base_admin by (simp add: bit_base ADMINISTRATOR_def bit_flag)
  then show ?thesis
    using administrator_only_from_roles [of False "[]" ADMINISTRATOR "[]"] by blast
qed

text \<open>A permission set survives its trip through JSON: what \<open>Serialize\<close> prints, \<open>Deserialize\<close> reads
  back as the same set, and text with undeclared bits is read as its declared part.\<close>

theorem perms_serde_roundtrip:
  "perms_deserialize (perms_serialize p) = Inr (from_bits_truncate p)"
  by (simp add: perms_deserialize_def perms_serialize_def)

end
