(* ===== verification/Sanitize.thy ===== *)
theory Sanitize
  imports Prelude
begin

text \<open>
  \<open>lumiere-server/src/middleware/sanitize.rs\<close>: the text clean-up of user input. A character is its
  Unicode scalar value. \<open>char::is_control\<close> is general category Cc and \<open>char::is_whitespace\<close> is the
  property White_Space; both sets are small and written out.
\<close>

definition is_control :: "nat \<Rightarrow> bool" where
  "is_control c \<longleftrightarrow> c \<le> 31 \<or> 127 \<le> c \<and> c \<le> 159"

definition is_whitespace :: "nat \<Rightarrow> bool" where
  "is_whitespace c \<longleftrightarrow> 9 \<le> c \<and> c \<le> 13 \<or> c = 32 \<or> c = 133 \<or> c = 160 \<or> c = 5760 \<or>
     8192 \<le> c \<and> c \<le> 8202 \<or> c = 8232 \<or> c = 8233 \<or> c = 8239 \<or> c = 8287 \<or> c = 12288"

definition is_bidi_override :: "nat \<Rightarrow> bool" where
  "is_bidi_override c \<longleftrightarrow> 8234 \<le> c \<and> c \<le> 8238 \<or> 8294 \<le> c \<and> c \<le> 8297 \<or> c = 8206 \<or> c = 8207"

definition sanitize_string :: "ustr \<Rightarrow> ustr" where
  "sanitize_string input =
     filter (\<lambda>c. (\<not> is_control c \<or> c = 10 \<or> c = 13 \<or> c = 9) \<and> \<not> is_bidi_override c) input"

text \<open>\<open>str::trim\<close>: the longest slice without white space at either end.\<close>

definition trim :: "ustr \<Rightarrow> ustr" where
  "trim s = rev (dropWhile is_whitespace (rev (dropWhile is_whitespace s)))"

text \<open>The loop of \<open>collapse_whitespace\<close>; the flag is \<open>last_was_space\<close>.\<close>

fun collapse_loop :: "bool \<Rightarrow> ustr \<Rightarrow> ustr" where
  "collapse_loop last_was_space [] = []"
| "collapse_loop last_was_space (c # cs) =
     (if is_whitespace c
      then (if last_was_space then collapse_loop True cs else 32 # collapse_loop True cs)
      else c # collapse_loop False cs)"

definition collapse_whitespace :: "ustr \<Rightarrow> ustr" where
  "collapse_whitespace input = trim (collapse_loop False input)"

definition normalize_display_name :: "ustr \<Rightarrow> ustr" where
  "normalize_display_name input = collapse_whitespace (sanitize_string input)"

section \<open>Facts about trimming and collapsing\<close>

lemma space_ws [simp]: "is_whitespace 32"
  by (simp add: is_whitespace_def)

lemma dropWhile_rev_hd:
  "xs \<noteq> [] \<Longrightarrow> \<not> P (hd xs) \<Longrightarrow> rev (dropWhile P (rev xs)) \<noteq> [] \<and> hd (rev (dropWhile P (rev xs))) = hd xs"
  by (cases xs) (auto simp: dropWhile_append dropWhile_eq_Nil_conv hd_append)

lemma trim_ends: "trim s \<noteq> [] \<Longrightarrow> \<not> is_whitespace (hd (trim s)) \<and> \<not> is_whitespace (last (trim s))"
proof -
  assume ne: "trim s \<noteq> []"
  let ?d = "dropWhile is_whitespace s"
  have d: "?d \<noteq> []"
  proof
    assume "?d = []"
    then have "trim s = []" by (simp only: trim_def) simp
    with ne show False by simp
  qed
  then have "\<not> is_whitespace (hd ?d)" by (rule hd_dropWhile)
  then have "hd (trim s) = hd ?d" using dropWhile_rev_hd [OF d] by (simp add: trim_def)
  moreover have "\<not> is_whitespace (last (trim s))"
    using ne hd_dropWhile [of is_whitespace "rev ?d"] by (auto simp: trim_def last_rev)
  ultimately show ?thesis using \<open>\<not> is_whitespace (hd ?d)\<close> by simp
qed

lemma trim_id:
  assumes "s = [] \<or> \<not> is_whitespace (hd s) \<and> \<not> is_whitespace (last s)"
  shows "trim s = s"
proof (cases "s = []")
  case False
  then have "dropWhile is_whitespace s = s" "dropWhile is_whitespace (rev s) = rev s"
    using assms by (simp_all add: dropWhile_eq_self_iff hd_rev)
  then show ?thesis by (simp add: trim_def)
qed (simp add: trim_def)

lemma trim_trim [simp]: "trim (trim s) = trim s"
  using trim_ends [of s] trim_id [of "trim s"] by blast

lemma set_trim: "set (trim s) \<subseteq> set s"
  by (auto simp: trim_def dest!: set_dropWhileD)

text \<open>
  The shape that the loop leaves: the only white space is the plain space, and no two spaces stand side
  by side.
\<close>

fun single_spaced :: "ustr \<Rightarrow> bool" where
  "single_spaced [] = True"
| "single_spaced [c] = (is_whitespace c \<longrightarrow> c = 32)"
| "single_spaced (c # d # cs) =
     ((is_whitespace c \<longrightarrow> c = 32 \<and> \<not> is_whitespace d) \<and> single_spaced (d # cs))"

lemma single_spaced_Cons:
  "single_spaced (c # cs) \<longleftrightarrow>
     (is_whitespace c \<longrightarrow> c = 32 \<and> (cs \<noteq> [] \<longrightarrow> \<not> is_whitespace (hd cs))) \<and> single_spaced cs"
  by (cases cs) auto

lemma single_spaced_ws: "single_spaced s \<Longrightarrow> c \<in> set s \<Longrightarrow> is_whitespace c \<Longrightarrow> c = 32"
  by (induction s) (auto simp: single_spaced_Cons)

lemma single_spaced_appendD: "single_spaced (xs @ ys) \<Longrightarrow> single_spaced xs \<and> single_spaced ys"
  by (induction xs) (auto simp: single_spaced_Cons hd_append split: if_splits)

lemma trim_infix: "\<exists>a b. s = a @ trim s @ b"
proof -
  have "s = takeWhile is_whitespace s @ dropWhile is_whitespace s" by simp
  moreover have "dropWhile is_whitespace s =
      rev (dropWhile is_whitespace (rev (dropWhile is_whitespace s))) @
      rev (takeWhile is_whitespace (rev (dropWhile is_whitespace s)))"
    by (metis rev_append rev_rev_ident takeWhile_dropWhile_id)
  ultimately show ?thesis unfolding trim_def by metis
qed

lemma collapse_loop_True_hd: "collapse_loop True s \<noteq> [] \<Longrightarrow> \<not> is_whitespace (hd (collapse_loop True s))"
  by (induction s) auto

lemma collapse_loop_single: "single_spaced (collapse_loop f s)"
  by (induction f s rule: collapse_loop.induct) (auto simp: single_spaced_Cons dest: collapse_loop_True_hd)

lemma collapse_loop_id:
  "single_spaced s \<Longrightarrow> (f \<Longrightarrow> s \<noteq> [] \<Longrightarrow> \<not> is_whitespace (hd s)) \<Longrightarrow> collapse_loop f s = s"
  by (induction f s rule: collapse_loop.induct) (auto simp: single_spaced_Cons)

lemma collapse_words: "filter (\<lambda>c. \<not> is_whitespace c) (collapse_loop f s) = filter (\<lambda>c. \<not> is_whitespace c) s"
  by (induction f s rule: collapse_loop.induct) auto

lemma trim_words: "filter (\<lambda>c. \<not> is_whitespace c) (trim s) = filter (\<lambda>c. \<not> is_whitespace c) s"
proof -
  have d: "filter (\<lambda>c. \<not> is_whitespace c) (dropWhile is_whitespace xs) = filter (\<lambda>c. \<not> is_whitespace c) xs" for xs
    by (induction xs) auto
  show ?thesis by (simp add: trim_def d flip: rev_filter)
qed

lemma collapse_set: "c \<in> set (collapse_loop f s) \<Longrightarrow> c \<in> set s \<or> c = 32"
  by (induction f s rule: collapse_loop.induct) (auto split: if_splits)

lemma collapse_facts:
  "single_spaced (collapse_whitespace s)"
  "collapse_whitespace s \<noteq> [] \<Longrightarrow>
     \<not> is_whitespace (hd (collapse_whitespace s)) \<and> \<not> is_whitespace (last (collapse_whitespace s))"
  "collapse_whitespace (collapse_whitespace s) = collapse_whitespace s"
proof -
  let ?r = "collapse_whitespace s"
  obtain a b where "collapse_loop False s = a @ ?r @ b"
    using trim_infix [of "collapse_loop False s"] by (auto simp: collapse_whitespace_def)
  then show single: "single_spaced ?r"
    using collapse_loop_single [of False s] single_spaced_appendD by metis
  have ends: "?r \<noteq> [] \<longrightarrow> \<not> is_whitespace (hd ?r) \<and> \<not> is_whitespace (last ?r)"
    using trim_ends [of "collapse_loop False s"] by (simp add: collapse_whitespace_def)
  then show "?r \<noteq> [] \<Longrightarrow> \<not> is_whitespace (hd ?r) \<and> \<not> is_whitespace (last ?r)" by blast
  have "trim ?r = ?r" using ends by (intro trim_id) blast
  then show "collapse_whitespace ?r = ?r"
    using collapse_loop_id [OF single, of False] by (simp add: collapse_whitespace_def [of ?r])
qed

section \<open>Properties\<close>

text \<open>Collapsing gives the normal form of spaced text: no leading or trailing white space, words
  separated by one plain space, every other character kept in order; text already in that form is
  returned unchanged, so a second pass changes nothing.\<close>

theorem collapse_whitespace_normal_form:
  "let r = collapse_whitespace s in
     single_spaced r \<and> (r \<noteq> [] \<longrightarrow> \<not> is_whitespace (hd r) \<and> \<not> is_whitespace (last r)) \<and>
     filter (\<lambda>c. \<not> is_whitespace c) r = filter (\<lambda>c. \<not> is_whitespace c) s \<and>
     collapse_whitespace r = r"
  using collapse_facts [of s] by (simp add: Let_def) (simp add: collapse_whitespace_def trim_words collapse_words)

theorem collapse_whitespace_normal_form_witness:
  "collapse_whitespace (lit ''  hello   world  '') = lit ''hello world'' \<and>
   collapse_whitespace (collapse_whitespace (lit ''  hello   world  '')) = lit ''hello world''"
proof -
  have "collapse_whitespace (lit ''  hello   world  '') = lit ''hello world''"
    by (simp add: collapse_whitespace_def trim_def is_whitespace_def)
  moreover have "collapse_whitespace (collapse_whitespace (lit ''  hello   world  '')) =
      collapse_whitespace (lit ''  hello   world  '')"
    using collapse_whitespace_normal_form [of "lit ''  hello   world  ''"] unfolding Let_def by blast
  ultimately show ?thesis by simp
qed

text \<open>A normalised display name cannot carry a control character or a bidirectional override, and
  normalising it again returns it unchanged.\<close>

theorem display_name_safe:
  "(\<forall>c \<in> set (normalize_display_name s). \<not> is_control c \<and> \<not> is_bidi_override c) \<and>
   normalize_display_name (normalize_display_name s) = normalize_display_name s"
proof -
  let ?r = "normalize_display_name s"
  have nf: "single_spaced ?r" "collapse_whitespace ?r = ?r"
    using collapse_facts [of "sanitize_string s"] by (simp_all add: normalize_display_name_def)
  have sp: "is_whitespace c \<Longrightarrow> c = 32" if "c \<in> set ?r" for c
    using single_spaced_ws [OF nf(1) that] .
  have "\<not> is_control c \<and> \<not> is_bidi_override c" if c: "c \<in> set ?r" for c
  proof (cases "c = 32")
    case True
    then show ?thesis by (simp add: is_control_def is_bidi_override_def)
  next
    case False
    then have "c \<in> set (sanitize_string s)"
      using c set_trim collapse_set by (fastforce simp: normalize_display_name_def collapse_whitespace_def)
    moreover have "\<not> is_whitespace c" using sp c False by blast
    ultimately show ?thesis by (auto simp: sanitize_string_def is_whitespace_def)
  qed
  moreover from this have "sanitize_string ?r = ?r"
    by (simp add: sanitize_string_def filter_id_conv)
  then have "normalize_display_name ?r = ?r"
    using nf(2) by (simp add: normalize_display_name_def [of ?r])
  ultimately show ?thesis by blast
qed

theorem display_name_safe_witness:
  "normalize_display_name ([8238] @ lit ''John   Doe'' @ [0]) = lit ''John Doe'' \<and> \<not> is_control 74 \<and> \<not> is_bidi_override 74"
proof -
  have n: "normalize_display_name ([8238] @ lit ''John   Doe'' @ [0]) = lit ''John Doe''"
    by (simp add: normalize_display_name_def collapse_whitespace_def sanitize_string_def trim_def is_whitespace_def
        is_control_def is_bidi_override_def)
  have "74 \<in> set (lit ''John Doe'')" by simp
  then show ?thesis using display_name_safe [of "[8238] @ lit ''John   Doe'' @ [0]"] unfolding n by blast
qed

end
