(* ===== verification/Servers.thy ===== *)
theory Servers
  imports World Permissions Sanitize
begin

text \<open>
  \<open>routes/servers.rs\<close>: the permission helpers every route uses, and the handlers for servers, members,
  bans and invites, each with its guards in the order of the code, its SQL statements, its events and
  its answer (status and body). \<open>verify_password\<close> (argon2) and the random invite code (nanoid) are
  parameters of the handlers that use them.
\<close>

section \<open>Responses\<close>

record public_user =
  pu_id :: snowflake
  pu_username :: ustr
  pu_discriminator :: int
  pu_avatar :: "ustr option"
  pu_banner :: "ustr option"
  pu_bio :: "ustr option"
  pu_flags :: i64
  pu_is_bot :: bool

definition public_user_of :: "user_row \<Rightarrow> public_user" where
  "public_user_of u = \<lparr>pu_id = u_id u, pu_username = u_username u, pu_discriminator = u_discriminator u,
     pu_avatar = u_avatar u, pu_banner = u_banner u, pu_bio = u_bio u, pu_flags = u_flags u, pu_is_bot = u_is_bot u\<rparr>"

record server_response =
  sr_id :: snowflake
  sr_name :: ustr
  sr_icon :: "ustr option"
  sr_banner :: "ustr option"
  sr_description :: "ustr option"
  sr_owner_id :: snowflake
  sr_region :: "ustr option"
  sr_features :: "ustr list"
  sr_verification_level :: int
  sr_default_message_notifications :: int
  sr_explicit_content_filter :: int
  sr_system_channel_id :: "snowflake option"
  sr_rules_channel_id :: "snowflake option"
  sr_max_members :: int
  sr_member_count :: int
  sr_created_at :: int

record member_response =
  me_user :: public_user
  me_nickname :: "ustr option"
  me_avatar :: "ustr option"
  me_roles :: "snowflake list"
  me_joined_at :: int
  me_disabled_until :: "int option"
  me_flags :: i64

record ban_response =
  br_user :: public_user
  br_reason :: "ustr option"

record invite_response =
  ir_code :: string
  ir_server_id :: snowflake
  ir_channel_id :: snowflake
  ir_inviter_id :: "snowflake option"
  ir_max_uses :: int
  ir_uses :: int
  ir_max_age :: int
  ir_temporary :: bool
  ir_created_at :: int

section \<open>Permission helpers\<close>

definition require_member :: "i64 \<Rightarrow> snowflake \<Rightarrow> unit handler" where
  "require_member sid uid =
     bind (pg_query (is_member sid uid)) (\<lambda>b. ensure b (Forbidden ''Not a member of this server''))"

text \<open>
  The rows of \<open>roles r LEFT JOIN member_roles mr ON mr.role_id = r.id AND mr.user_id = $2 WHERE r.server_id
  = $1 AND (r.is_default OR mr.user_id IS NOT NULL)\<close>: the join looks at the role and the user, not at the
  server the assignment was made in.
\<close>

definition role_permission_rows :: "i64 \<Rightarrow> i64 \<Rightarrow> pg_db \<Rightarrow> i64 list" where
  "role_permission_rows sid uid db =
     concat (map (\<lambda>r. let joined = filter (\<lambda>m. mr_role_id m = ro_id r \<and> mr_user_id m = uid) (member_roles db)
                      in if joined = [] then (if ro_is_default r then [ro_permissions r] else [])
                         else map (\<lambda>_. ro_permissions r) joined)
       (filter (\<lambda>r. ro_server_id r = sid) (roles db)))"

definition combine_role_permissions :: "i64 list \<Rightarrow> permissions" where
  "combine_role_permissions ps =
     (let perms = foldl (\<lambda>acc p. acc OR from_bits_truncate p) 0 ps
      in if contains perms ADMINISTRATOR then perms_all else perms)"

definition get_user_permissions :: "i64 \<Rightarrow> snowflake \<Rightarrow> permissions handler" where
  "get_user_permissions sid uid =
     bind (pg_query (is_owner sid uid)) (\<lambda>owner.
       if owner then ret perms_all
       else bind (pg_query (role_permission_rows sid uid)) (\<lambda>rows. ret (combine_role_permissions rows)))"

definition require_permissions :: "i64 \<Rightarrow> snowflake \<Rightarrow> permissions \<Rightarrow> unit handler" where
  "require_permissions sid uid required =
     andThen (require_member sid uid)
     (bind (get_user_permissions sid uid) (\<lambda>perms.
        ensure (contains perms required) (Forbidden ''Missing required permissions'')))"

text \<open>\<open>SELECT MAX(r.position) FROM roles r JOIN member_roles mr ON mr.role_id = r.id WHERE mr.server_id = $1 AND mr.user_id = $2\<close>\<close>

definition max_role_position :: "i64 \<Rightarrow> i64 \<Rightarrow> pg_db \<Rightarrow> int option" where
  "max_role_position sid uid db =
     t_max ro_position (\<lambda>r. t_has (\<lambda>m. mr_role_id m = ro_id r \<and> mr_server_id m = sid \<and> mr_user_id m = uid)
       (member_roles db)) (roles db)"

definition unwrap_or :: "'a \<Rightarrow> 'a option \<Rightarrow> 'a" where
  "unwrap_or d v = (case v of None \<Rightarrow> d | Some x \<Rightarrow> x)"

definition check_role_hierarchy :: "i64 \<Rightarrow> snowflake \<Rightarrow> i64 \<Rightarrow> unit handler" where
  "check_role_hierarchy sid actor target =
     bind (pg_query (is_owner sid actor)) (\<lambda>owner.
       if owner then ret ()
       else bind (pg_query (max_role_position sid actor)) (\<lambda>a.
            bind (pg_query (max_role_position sid target)) (\<lambda>t.
              ensure (\<not> unwrap_or 0 a \<le> unwrap_or 0 t)
                (Forbidden ''Cannot modify a member with equal or higher role''))))"

section \<open>Servers\<close>

record create_server_request =
  cs_name :: ustr
  cs_icon :: "ustr option"
  cs_region :: "ustr option"

text \<open>\<open>body.validate()\<close> with \<open>length(min, max)\<close>, and \<open>validation_errors\<close> on its result.\<close>

definition validate_length :: "string \<Rightarrow> nat \<Rightarrow> nat \<Rightarrow> ustr \<Rightarrow> field_error list" where
  "validate_length field lo hi v =
     (if lo \<le> length v \<and> length v \<le> hi then [] else [\<lparr>fe_field = field, fe_message = ''Invalid '' @ field\<rparr>])"

definition new_server_row :: "i64 \<Rightarrow> create_server_request \<Rightarrow> i64 \<Rightarrow> int \<Rightarrow> server_row" where
  "new_server_row sid body uid now = \<lparr>sv_id = sid, sv_name = trim (cs_name body), sv_icon = cs_icon body,
     sv_banner = None, sv_description = None, sv_owner_id = uid, sv_region = cs_region body, sv_features = [],
     sv_verification_level = 0, sv_default_message_notifications = 0, sv_explicit_content_filter = 0,
     sv_system_channel_id = None, sv_rules_channel_id = None, sv_max_members = 500000, sv_member_count = 1,
     sv_created_at = now\<rparr>"

definition new_channel_row :: "i64 \<Rightarrow> i64 \<Rightarrow> int \<Rightarrow> ustr \<Rightarrow> int \<Rightarrow> int \<Rightarrow> channel_row" where
  "new_channel_row cid sid ty name pos now = \<lparr>ch_id = cid, ch_server_id = Some sid, ch_parent_id = None, ch_type = ty,
     ch_name = Some name, ch_topic = None, ch_position = pos, ch_bitrate = None, ch_user_limit = None,
     ch_rate_limit = 0, ch_nsfw = False, ch_last_message_id = None, ch_icon = None, ch_e2ee_enabled = False,
     ch_created_at = now\<rparr>"

definition everyone_role_row :: "i64 \<Rightarrow> int \<Rightarrow> role_row" where
  "everyone_role_row sid now = \<lparr>ro_id = sid, ro_server_id = sid, ro_name = lit ''@everyone'', ro_color = 0,
     ro_hoist = False, ro_icon = None, ro_position = 0, ro_permissions = default_everyone, ro_mentionable = False,
     ro_is_default = True, ro_created_at = now\<rparr>"

definition server_response_of :: "server_row \<Rightarrow> server_response" where
  "server_response_of s = \<lparr>sr_id = sv_id s, sr_name = sv_name s, sr_icon = sv_icon s, sr_banner = sv_banner s,
     sr_description = sv_description s, sr_owner_id = sv_owner_id s, sr_region = sv_region s,
     sr_features = sv_features s, sr_verification_level = sv_verification_level s,
     sr_default_message_notifications = sv_default_message_notifications s,
     sr_explicit_content_filter = sv_explicit_content_filter s, sr_system_channel_id = sv_system_channel_id s,
     sr_rules_channel_id = sv_rules_channel_id s, sr_max_members = sv_max_members s,
     sr_member_count = sv_member_count s, sr_created_at = sv_created_at s\<rparr>"

definition fetch_server :: "snowflake \<Rightarrow> server_response handler" where
  "fetch_server sid =
     bind (pg_query (\<lambda>db. t_find (\<lambda>s. sv_id s = sid) (servers db))) (\<lambda>row.
     bind (ok_or row (NotFound ''Server not found'')) (\<lambda>s. ret (server_response_of s)))"

text \<open>The statements between \<open>pg.begin()\<close> and \<open>tx.commit()\<close>.\<close>

definition create_server_tx :: "snowflake \<Rightarrow> snowflake \<Rightarrow> create_server_request \<Rightarrow> int \<Rightarrow> unit handler" where
  "create_server_tx auth sid body now =
     andThen (pg_exec (insert_server (new_server_row sid body auth now)))
     (andThen (pg_exec (insert_role (everyone_role_row sid now)))
     (bind fresh_id (\<lambda>text_id.
      andThen (pg_exec (insert_channel (new_channel_row text_id sid 0 (lit ''general'') 0 now)))
     (bind fresh_id (\<lambda>voice_id.
      andThen (pg_exec (insert_channel (new_channel_row voice_id sid 2 (lit ''General'') 1 now)))
     (andThen (pg_exec (update_server_row sid (\<lambda>s. s\<lparr>sv_system_channel_id := Some text_id\<rparr>)))
     (andThen (pg_exec (insert_member sid auth now))
      (pg_exec (insert_member_role sid auth sid)))))))))"

definition create_server :: "snowflake \<Rightarrow> create_server_request \<Rightarrow> (nat \<times> server_response) handler" where
  "create_server auth body =
     (let errs = validate_length ''name'' 2 100 (cs_name body)
      in if errs \<noteq> [] then throw (Validation errs)
         else bind (pg_query (\<lambda>db. t_count (\<lambda>m. mb_user_id m = auth) (members db))) (\<lambda>server_count.
           andThen (ensure (server_count < 100)
               (BadRequest ''You have reached the maximum number of servers (100)''))
          (bind fresh_id (\<lambda>sid.
           bind utc_now (\<lambda>now.
           andThen (transaction (create_server_tx auth sid body now))
          (andThen (publish (''user.'' @ show_u64 auth @ ''.guilds'')
               (JObj [(''type'', jlit ''GUILD_CREATE''), (''server_id'', jsnow sid), (''user_id'', jsnow auth)]))
          (bind (fetch_server sid) (\<lambda>server. ret (201, server)))))))))"

definition get_server :: "snowflake \<Rightarrow> i64 \<Rightarrow> server_response handler" where
  "get_server auth sid = andThen (require_member sid auth) (fetch_server sid)"

record update_server_request =
  us_name :: "ustr option"
  us_icon :: "ustr option option"
  us_banner :: "ustr option option"
  us_description :: "ustr option option"
  us_region :: "ustr option option"
  us_verification_level :: "int option"
  us_default_message_notifications :: "int option"
  us_explicit_content_filter :: "int option"
  us_system_channel_id :: "i64 option option"
  us_rules_channel_id :: "i64 option option"
  us_owner_id :: "i64 option"

definition update_server_has_other_fields :: "update_server_request \<Rightarrow> bool" where
  "update_server_has_other_fields b \<longleftrightarrow>
     us_name b \<noteq> None \<or> us_icon b \<noteq> None \<or> us_banner b \<noteq> None \<or> us_description b \<noteq> None \<or> us_region b \<noteq> None \<or>
     us_verification_level b \<noteq> None \<or> us_default_message_notifications b \<noteq> None \<or>
     us_explicit_content_filter b \<noteq> None \<or> us_system_channel_id b \<noteq> None \<or> us_rules_channel_id b \<noteq> None"

text \<open>The dynamic \<open>SET\<close> list: the columns of the present fields.\<close>

definition update_server_sets :: "update_server_request \<Rightarrow> server_row \<Rightarrow> server_row" where
  "update_server_sets b s = s\<lparr>
     sv_name := unwrap_or (sv_name s) (map_option trim (us_name b)),
     sv_icon := unwrap_or (sv_icon s) (us_icon b),
     sv_banner := unwrap_or (sv_banner s) (us_banner b),
     sv_description := unwrap_or (sv_description s) (us_description b),
     sv_region := unwrap_or (sv_region s) (us_region b),
     sv_verification_level := unwrap_or (sv_verification_level s) (us_verification_level b),
     sv_default_message_notifications :=
       unwrap_or (sv_default_message_notifications s) (us_default_message_notifications b),
     sv_explicit_content_filter := unwrap_or (sv_explicit_content_filter s) (us_explicit_content_filter b),
     sv_system_channel_id := unwrap_or (sv_system_channel_id s) (us_system_channel_id b),
     sv_rules_channel_id := unwrap_or (sv_rules_channel_id s) (us_rules_channel_id b)\<rparr>"

definition transfer_ownership :: "snowflake \<Rightarrow> i64 \<Rightarrow> i64 \<Rightarrow> unit handler" where
  "transfer_ownership auth sid new_owner =
     bind (pg_query (is_owner sid auth)) (\<lambda>owner.
       andThen (ensure owner (Forbidden ''Only the owner can transfer ownership''))
      (andThen (require_member sid new_owner)
       (pg_exec (update_server_row sid (\<lambda>s. s\<lparr>sv_owner_id := new_owner\<rparr>)))))"

definition update_server :: "snowflake \<Rightarrow> i64 \<Rightarrow> update_server_request \<Rightarrow> server_response handler" where
  "update_server auth sid body =
     andThen (case us_owner_id body of None \<Rightarrow> ret () | Some new_owner \<Rightarrow> transfer_ownership auth sid new_owner)
    (andThen (if update_server_has_other_fields body then require_permissions sid auth MANAGE_SERVER else ret ())
    (andThen (if update_server_has_other_fields body then pg_exec (update_server_row sid (update_server_sets body))
              else ret ())
    (andThen (publish (server_events sid) (JObj [(''type'', jlit ''GUILD_UPDATE''), (''server_id'', ji64 sid)]))
     (fetch_server sid))))"

definition delete_server ::
  "(ustr \<Rightarrow> string \<Rightarrow> string + bool) \<Rightarrow> snowflake \<Rightarrow> i64 \<Rightarrow> ustr \<Rightarrow> nat handler" where
  "delete_server verify_password auth sid password =
     bind (pg_query (is_owner sid auth)) (\<lambda>owner.
       andThen (ensure owner (Forbidden ''Only the owner can delete a server''))
      (bind (fetch_one (\<lambda>db. map_option u_password_hash (t_find (\<lambda>u. u_id u = auth) (users db)))) (\<lambda>hash.
         case verify_password password hash of
           Inl m \<Rightarrow> throw (Internal m)
         | Inr valid \<Rightarrow>
             andThen (ensure valid (Unauthorized ''Invalid password''))
            (andThen (publish (server_events sid) (JObj [(''type'', jlit ''GUILD_DELETE''), (''server_id'', ji64 sid)]))
            (andThen (pg_exec (delete_server_row sid)) (ret 204))))))"

section \<open>Members\<close>

definition member_response_of :: "user_row \<Rightarrow> member_row \<Rightarrow> snowflake list \<Rightarrow> member_response" where
  "member_response_of u m rids = \<lparr>me_user = public_user_of u, me_nickname = mb_nickname m, me_avatar = mb_avatar m,
     me_roles = rids, me_joined_at = mb_joined_at m, me_disabled_until = mb_disabled_until m, me_flags = mb_flags m\<rparr>"

text \<open>\<open>FROM server_members sm JOIN users u ON u.id = sm.user_id WHERE ... AND u.deleted_at IS NULL\<close>\<close>

definition member_user_rows :: "(member_row \<Rightarrow> bool) \<Rightarrow> pg_db \<Rightarrow> (user_row \<times> member_row) list" where
  "member_user_rows P db =
     concat (map (\<lambda>m. map (\<lambda>u. (u, m)) (filter (\<lambda>u. u_id u = mb_user_id m \<and> u_deleted_at u = None) (users db)))
       (filter P (members db)))"

definition get_members_rows :: "i64 \<Rightarrow> int \<Rightarrow> int \<Rightarrow> pg_db \<Rightarrow> string + (user_row \<times> member_row) list" where
  "get_members_rows sid after limit db =
     (if limit < 0 then Inl ''LIMIT must not be negative''
      else Inr (take (nat limit) (sort_key (\<lambda>(u, m). sint (mb_user_id m))
        (member_user_rows (\<lambda>m. mb_server_id m = sid \<and> after < sint (mb_user_id m)) db))))"

text \<open>The \<open>HashMap\<close> of role lists and the loop that takes each list out with \<open>remove\<close>.\<close>

fun assemble_members :: "(i64 \<Rightarrow> snowflake list) \<Rightarrow> (user_row \<times> member_row) list \<Rightarrow> member_response list" where
  "assemble_members role_map [] = []"
| "assemble_members role_map ((u, m) # rows) =
     member_response_of u m (role_map (u_id u)) # assemble_members (role_map(u_id u := [])) rows"

definition get_members :: "snowflake \<Rightarrow> i64 \<Rightarrow> i64 option \<Rightarrow> i64 option \<Rightarrow> member_response list handler" where
  "get_members auth sid q_limit q_after =
     andThen (require_member sid auth)
     (let limit = min (sint (unwrap_or 100 q_limit)) 1000; after = sint (unwrap_or 0 q_after)
      in bind (pg_try (get_members_rows sid after limit)) (\<lambda>rows.
         let user_ids = map (\<lambda>(u, m). u_id u) rows
         in bind (pg_query (\<lambda>db. map (\<lambda>r. (mr_user_id r, mr_role_id r))
                (filter (\<lambda>r. mr_server_id r = sid \<and> mr_user_id r \<in> set user_ids) (member_roles db)))) (\<lambda>all_roles.
            ret (assemble_members (\<lambda>uid. map snd (filter (\<lambda>p. fst p = uid) all_roles)) rows))))"

definition get_member :: "snowflake \<Rightarrow> i64 \<Rightarrow> i64 \<Rightarrow> member_response handler" where
  "get_member auth sid uid =
     andThen (require_member sid auth)
    (bind (pg_query (\<lambda>db. case member_user_rows (\<lambda>m. mb_server_id m = sid \<and> mb_user_id m = uid) db of
             [] \<Rightarrow> None | r # _ \<Rightarrow> Some r)) (\<lambda>row.
     bind (ok_or row (NotFound ''Member not found'')) (\<lambda>(u, m).
     bind (pg_query (\<lambda>db. map mr_role_id (filter (\<lambda>r. mr_server_id r = sid \<and> mr_user_id r = uid) (member_roles db))))
       (\<lambda>role_ids. ret (member_response_of u m role_ids)))))"

record update_member_request =
  um_nickname :: "ustr option option"
  um_roles :: "i64 list option"
  um_disabled_until :: "int option option"

definition update_member :: "snowflake \<Rightarrow> i64 \<Rightarrow> i64 \<Rightarrow> update_member_request \<Rightarrow> member_response handler" where
  "update_member auth sid uid body =
     andThen (require_member sid auth)
    (andThen (check_role_hierarchy sid auth uid)
    (bind (get_user_permissions sid auth) (\<lambda>perms.
     let is_self = (uid = auth)
     in andThen (ensure (um_nickname body \<noteq> None \<and> is_self \<longrightarrow> contains perms CHANGE_NICKNAME)
          (Forbidden ''Missing CHANGE_NICKNAME permission''))
    (andThen (ensure (um_nickname body \<noteq> None \<and> \<not> is_self \<longrightarrow> contains perms MANAGE_NICKNAMES)
          (Forbidden ''Missing MANAGE_NICKNAMES permission''))
    (andThen (ensure (um_roles body \<noteq> None \<longrightarrow> contains perms MANAGE_ROLES)
          (Forbidden ''Missing MANAGE_ROLES permission''))
    (andThen (ensure (um_disabled_until body \<noteq> None \<longrightarrow> contains perms MODERATE_MEMBERS)
          (Forbidden ''Missing MODERATE_MEMBERS permission''))
    (andThen (case um_nickname body of None \<Rightarrow> ret ()
              | Some nickname \<Rightarrow> pg_exec (update_member_row sid uid (\<lambda>m. m\<lparr>mb_nickname := nickname\<rparr>)))
    (andThen (case um_disabled_until body of None \<Rightarrow> ret ()
              | Some timeout \<Rightarrow> pg_exec (update_member_row sid uid (\<lambda>m. m\<lparr>mb_disabled_until := timeout\<rparr>)))
    (andThen (case um_roles body of None \<Rightarrow> ret ()
              | Some role_ids \<Rightarrow> andThen (pg_exec (clear_member_roles sid uid))
                  (for_each (\<lambda>rid. pg_exec (insert_member_role_lenient sid uid rid)) role_ids))
    (andThen (publish (server_events sid) (JObj [(''type'', jlit ''GUILD_MEMBER_UPDATE''), (''server_id'', ji64 sid),
          (''user_id'', ji64 uid)]))
     (get_member auth sid uid)))))))))))"

definition update_self_member :: "snowflake \<Rightarrow> i64 \<Rightarrow> ustr option option \<Rightarrow> member_response handler" where
  "update_self_member auth sid body_nickname =
     andThen (require_permissions sid auth CHANGE_NICKNAME)
    (andThen (case body_nickname of None \<Rightarrow> ret ()
              | Some nickname \<Rightarrow> pg_exec (update_member_row sid auth (\<lambda>m. m\<lparr>mb_nickname := nickname\<rparr>)))
    (andThen (publish (server_events sid) (JObj [(''type'', jlit ''GUILD_MEMBER_UPDATE''), (''server_id'', ji64 sid),
          (''user_id'', jsnow auth)]))
     (get_member auth sid auth)))"

definition kick_member :: "snowflake \<Rightarrow> i64 \<Rightarrow> i64 \<Rightarrow> nat handler" where
  "kick_member auth sid uid =
     andThen (require_permissions sid auth KICK_MEMBERS)
    (bind (pg_query (is_owner sid uid)) (\<lambda>owner.
     andThen (ensure (\<not> owner) (Forbidden ''Cannot kick the server owner''))
    (andThen (check_role_hierarchy sid auth uid)
    (bind (pg_exec (delete_member sid uid)) (\<lambda>rows_affected.
     andThen (ensure (rows_affected \<noteq> 0) (NotFound ''Member not found''))
    (andThen (pg_exec (refresh_member_count sid))
    (andThen (publish (server_events sid) (JObj [(''type'', jlit ''GUILD_MEMBER_REMOVE''), (''server_id'', ji64 sid),
          (''user_id'', ji64 uid)]))
    (andThen (publish (''user.'' @ show_i64 uid @ ''.guilds'')
          (JObj [(''type'', jlit ''GUILD_DELETE''), (''server_id'', ji64 sid)]))
     (ret 204)))))))))"

definition leave_server :: "snowflake \<Rightarrow> i64 \<Rightarrow> nat handler" where
  "leave_server auth sid =
     bind (pg_query (is_owner sid auth)) (\<lambda>owner.
     andThen (ensure (\<not> owner) (BadRequest ''Owner cannot leave. Transfer ownership first.''))
    (bind (pg_exec (delete_member sid auth)) (\<lambda>rows_affected.
     andThen (ensure (rows_affected \<noteq> 0) (NotFound ''Not a member of this server''))
    (andThen (pg_exec (refresh_member_count sid))
    (andThen (publish (server_events sid) (JObj [(''type'', jlit ''GUILD_MEMBER_REMOVE''), (''server_id'', ji64 sid),
          (''user_id'', jsnow auth)]))
     (ret 204))))))"

section \<open>Bans\<close>

definition ban_rows :: "(ban_row \<Rightarrow> bool) \<Rightarrow> pg_db \<Rightarrow> ban_response list" where
  "ban_rows P db =
     concat (map (\<lambda>b. map (\<lambda>u. \<lparr>br_user = public_user_of u, br_reason = bn_reason b\<rparr>)
         (filter (\<lambda>u. u_id u = bn_user_id b) (users db))) (filter P (bans db)))"

definition get_bans :: "snowflake \<Rightarrow> i64 \<Rightarrow> ban_response list handler" where
  "get_bans auth sid =
     andThen (require_permissions sid auth BAN_MEMBERS) (pg_query (ban_rows (\<lambda>b. bn_server_id b = sid)))"

definition get_ban :: "snowflake \<Rightarrow> i64 \<Rightarrow> i64 \<Rightarrow> ban_response handler" where
  "get_ban auth sid uid =
     andThen (require_permissions sid auth BAN_MEMBERS)
    (bind (pg_query (\<lambda>db. case ban_rows (\<lambda>b. bn_server_id b = sid \<and> bn_user_id b = uid) db of
             [] \<Rightarrow> None | r # _ \<Rightarrow> Some r)) (\<lambda>row. ok_or row (NotFound ''Ban not found'')))"

definition create_ban :: "snowflake \<Rightarrow> i64 \<Rightarrow> i64 \<Rightarrow> ustr option \<Rightarrow> nat handler" where
  "create_ban auth sid uid reason =
     andThen (require_permissions sid auth BAN_MEMBERS)
    (bind (pg_query (is_owner sid uid)) (\<lambda>owner.
     andThen (ensure (\<not> owner) (Forbidden ''Cannot ban the server owner''))
    (andThen (check_role_hierarchy sid auth uid)
    (bind (pg_exec (delete_member sid uid)) (\<lambda>_.
     bind utc_now (\<lambda>now.
     andThen (pg_exec (upsert_ban sid uid reason auth now))
    (andThen (pg_exec (refresh_member_count sid))
    (andThen (publish (server_events sid) (JObj [(''type'', jlit ''GUILD_BAN_ADD''), (''server_id'', ji64 sid),
          (''user_id'', ji64 uid)]))
    (andThen (publish (''user.'' @ show_i64 uid @ ''.guilds'')
          (JObj [(''type'', jlit ''GUILD_DELETE''), (''server_id'', ji64 sid)]))
     (ret 204))))))))))"

definition remove_ban :: "snowflake \<Rightarrow> i64 \<Rightarrow> i64 \<Rightarrow> nat handler" where
  "remove_ban auth sid uid =
     andThen (require_permissions sid auth BAN_MEMBERS)
    (bind (pg_exec (delete_ban sid uid)) (\<lambda>rows_affected.
     andThen (ensure (rows_affected \<noteq> 0) (NotFound ''Ban not found''))
    (andThen (publish (server_events sid) (JObj [(''type'', jlit ''GUILD_BAN_REMOVE''), (''server_id'', ji64 sid),
          (''user_id'', ji64 uid)]))
     (ret 204))))"

section \<open>Invites\<close>

record create_invite_request =
  ci_max_age :: "int option"
  ci_max_uses :: "int option"
  ci_temporary :: "bool option"

text \<open>
  \<open>query_scalar::<_, i64>("SELECT server_id FROM channels WHERE id = $1").fetch_optional\<close>: no row is \<open>None\<close>;
  the null of a channel outside every server does not decode as \<open>i64\<close>.
\<close>

definition channel_server_not_null :: "i64 \<Rightarrow> pg_db \<Rightarrow> string + i64 option" where
  "channel_server_not_null cid db =
     (case t_find (\<lambda>c. ch_id c = cid) (channels db) of
        None \<Rightarrow> Inr None
      | Some c \<Rightarrow> (case ch_server_id c of None \<Rightarrow> Inl ''unexpected null'' | Some sid \<Rightarrow> Inr (Some sid)))"

definition create_invite ::
  "string \<Rightarrow> snowflake \<Rightarrow> i64 \<Rightarrow> create_invite_request \<Rightarrow> (nat \<times> invite_response) handler" where
  "create_invite code auth cid body =
     bind (pg_try (channel_server_not_null cid)) (\<lambda>found.
     bind (ok_or found (NotFound ''Channel not found'')) (\<lambda>sid.
     andThen (require_permissions sid auth CREATE_INVITE)
     (let max_age = unwrap_or 86400 (ci_max_age body);
          max_uses = unwrap_or 0 (ci_max_uses body);
          temporary = unwrap_or False (ci_temporary body)
      in bind utc_now (\<lambda>now.
         andThen (pg_exec (insert_invite \<lparr>iv_code = code, iv_server_id = sid, iv_channel_id = cid,
              iv_inviter_id = Some auth, iv_max_uses = max_uses, iv_uses = 0, iv_max_age = max_age,
              iv_temporary = temporary, iv_created_at = now\<rparr>))
        (andThen (publish (server_events sid) (JObj [(''type'', jlit ''INVITE_CREATE''), (''code'', jlit code),
              (''server_id'', ji64 sid), (''channel_id'', ji64 cid)]))
         (ret (201, \<lparr>ir_code = code, ir_server_id = sid, ir_channel_id = cid, ir_inviter_id = Some auth,
              ir_max_uses = max_uses, ir_uses = 0, ir_max_age = max_age, ir_temporary = temporary,
              ir_created_at = now\<rparr>)))))))"

definition invite_response_of :: "invite_row \<Rightarrow> invite_response" where
  "invite_response_of i = \<lparr>ir_code = iv_code i, ir_server_id = iv_server_id i, ir_channel_id = iv_channel_id i,
     ir_inviter_id = iv_inviter_id i, ir_max_uses = iv_max_uses i, ir_uses = iv_uses i, ir_max_age = iv_max_age i,
     ir_temporary = iv_temporary i, ir_created_at = iv_created_at i\<rparr>"

definition get_server_invites :: "snowflake \<Rightarrow> i64 \<Rightarrow> invite_response list handler" where
  "get_server_invites auth sid =
     andThen (require_permissions sid auth MANAGE_SERVER)
    (bind utc_now (\<lambda>now.
     bind (pg_query (\<lambda>db. filter (\<lambda>i. iv_server_id i = sid \<and>
         (iv_max_age i = 0 \<or> iv_created_at i + 1000 * iv_max_age i > now)) (invites db))) (\<lambda>rows.
       ret (map invite_response_of rows))))"

record invite_preview =
  ip_code :: string
  ip_server_id :: snowflake
  ip_server_name :: ustr
  ip_server_icon :: "ustr option"
  ip_member_count :: int
  ip_channel_name :: "ustr option"

definition invite_expired :: "int \<Rightarrow> int \<Rightarrow> int \<Rightarrow> bool" where
  "invite_expired max_age created now \<longleftrightarrow> max_age > 0 \<and> now > created + 1000 * max_age"

definition invite_used_up :: "int \<Rightarrow> int \<Rightarrow> bool" where
  "invite_used_up max_uses uses \<longleftrightarrow> max_uses > 0 \<and> uses \<ge> max_uses"

text \<open>\<open>invites i JOIN servers s ON s.id = i.server_id JOIN channels c ON c.id = i.channel_id WHERE i.code = $1\<close>\<close>

definition invite_join :: "string \<Rightarrow> pg_db \<Rightarrow> (invite_row \<times> server_row \<times> channel_row) list" where
  "invite_join code db =
     concat (map (\<lambda>i. concat (map (\<lambda>s. map (\<lambda>c. (i, s, c)) (filter (\<lambda>c. ch_id c = iv_channel_id i) (channels db)))
        (filter (\<lambda>s. sv_id s = iv_server_id i) (servers db)))) (filter (\<lambda>i. iv_code i = code) (invites db)))"

definition get_invite :: "string \<Rightarrow> invite_preview handler" where
  "get_invite code =
     bind (pg_query (\<lambda>db. case invite_join code db of [] \<Rightarrow> None | r # _ \<Rightarrow> Some r)) (\<lambda>row.
     bind (ok_or row (NotFound ''Invite not found'')) (\<lambda>(i, s, c).
     bind utc_now (\<lambda>now.
     andThen (ensure (\<not> invite_expired (iv_max_age i) (iv_created_at i) now) (NotFound ''Invite expired''))
    (andThen (ensure (\<not> invite_used_up (iv_max_uses i) (iv_uses i)) (NotFound ''Invite has reached max uses''))
     (ret \<lparr>ip_code = iv_code i, ip_server_id = sv_id s, ip_server_name = sv_name s, ip_server_icon = sv_icon s,
           ip_member_count = sv_member_count s, ip_channel_name = ch_name c\<rparr>)))))"

text \<open>
  The transaction of \<open>use_invite\<close>: the value tells whether the user already was a member, in which case the
  code commits at once.
\<close>

definition use_invite_tx :: "snowflake \<Rightarrow> string \<Rightarrow> (bool \<times> i64) handler" where
  "use_invite_tx auth code =
     bind (pg_query (\<lambda>db. t_find (\<lambda>i. iv_code i = code) (invites db))) (\<lambda>row.
     bind (ok_or row (NotFound ''Invite not found'')) (\<lambda>i.
     let sid = iv_server_id i
     in bind utc_now (\<lambda>now.
     andThen (ensure (\<not> invite_expired (iv_max_age i) (iv_created_at i) now) (BadRequest ''Invite has expired''))
    (andThen (ensure (\<not> invite_used_up (iv_max_uses i) (iv_uses i)) (BadRequest ''Invite has reached max uses''))
    (bind (pg_query (is_member sid auth)) (\<lambda>member.
     if member then ret (True, sid)
     else bind (pg_query (is_banned sid auth)) (\<lambda>banned.
          andThen (ensure (\<not> banned) (Forbidden ''You are banned from this server''))
         (andThen (pg_exec (insert_member sid auth now))
         (andThen (pg_exec (insert_member_role sid auth sid))
         (andThen (pg_exec (bump_member_count sid))
         (andThen (pg_exec (bump_invite_uses code))
          (ret (False, sid)))))))))))))"

definition use_invite :: "snowflake \<Rightarrow> string \<Rightarrow> server_response handler" where
  "use_invite auth code =
     bind (transaction (use_invite_tx auth code)) (\<lambda>(already_member, sid).
       andThen (if already_member then ret ()
                else andThen (publish (server_events sid) (JObj [(''type'', jlit ''GUILD_MEMBER_ADD''),
                         (''server_id'', ji64 sid), (''user_id'', jsnow auth)]))
                     (publish (''user.'' @ show_u64 auth @ ''.guilds'')
                         (JObj [(''type'', jlit ''GUILD_CREATE''), (''server_id'', ji64 sid)])))
       (fetch_server sid))"

definition delete_invite :: "snowflake \<Rightarrow> string \<Rightarrow> nat handler" where
  "delete_invite auth code =
     bind (pg_query (\<lambda>db. t_find (\<lambda>i. iv_code i = code) (invites db))) (\<lambda>row.
     bind (ok_or row (NotFound ''Invite not found'')) (\<lambda>i.
     let sid = iv_server_id i; is_creator = (iv_inviter_id i = Some auth)
     in andThen (if is_creator then ret () else require_permissions sid auth MANAGE_SERVER)
       (andThen (pg_exec (delete_invite_row code))
       (andThen (publish (server_events sid) (JObj [(''type'', jlit ''INVITE_DELETE''), (''code'', jlit code),
            (''server_id'', ji64 sid)]))
        (ret 204)))))"

end
