(* ===== verification/Guards.thy ===== *)
theory Guards
  imports Servers
begin

text \<open>
  What the permission helpers of \<open>routes/servers.rs\<close> guarantee: the permission set and the rank they
  compute, as functions of the database, and one weakest-precondition rule per helper, which says what a
  handler may assume after the helper let it pass.
\<close>

definition effective_permissions :: "i64 \<Rightarrow> snowflake \<Rightarrow> pg_db \<Rightarrow> permissions" where
  "effective_permissions sid uid db =
     (if is_owner sid uid db then perms_all else combine_role_permissions (role_permission_rows sid uid db))"

definition may :: "i64 \<Rightarrow> snowflake \<Rightarrow> permissions \<Rightarrow> pg_db \<Rightarrow> bool" where
  "may sid uid p db \<longleftrightarrow> is_member sid uid db \<and> contains (effective_permissions sid uid db) p"

definition rank :: "i64 \<Rightarrow> i64 \<Rightarrow> pg_db \<Rightarrow> int" where
  "rank sid uid db = unwrap_or 0 (max_role_position sid uid db)"

definition outranks :: "i64 \<Rightarrow> snowflake \<Rightarrow> i64 \<Rightarrow> pg_db \<Rightarrow> bool" where
  "outranks sid actor target db \<longleftrightarrow> is_owner sid actor db \<or> rank sid target db < rank sid actor db"

section \<open>Rules for the helpers\<close>

lemma wps_require_member [wp]:
  "(is_member sid uid s \<Longrightarrow> Q () s) \<Longrightarrow> (\<And>e. E e s) \<Longrightarrow> wps (require_member sid uid) Q E s"
  unfolding require_member_def by (intro wp) auto

lemma wps_get_user_permissions [wp]:
  "Q (effective_permissions sid uid s) s \<Longrightarrow> (\<And>e. E e s) \<Longrightarrow> wps (get_user_permissions sid uid) Q E s"
  unfolding get_user_permissions_def effective_permissions_def by (intro wp) auto

lemma wps_require_permissions [wp]:
  "(may sid uid p s \<Longrightarrow> Q () s) \<Longrightarrow> (\<And>e. E e s) \<Longrightarrow> wps (require_permissions sid uid p) Q E s"
  unfolding require_permissions_def may_def by (intro wp) auto

lemma wps_check_role_hierarchy [wp]:
  "(outranks sid actor target s \<Longrightarrow> Q () s) \<Longrightarrow> (\<And>e. E e s) \<Longrightarrow> wps (check_role_hierarchy sid actor target) Q E s"
  unfolding check_role_hierarchy_def outranks_def rank_def by (intro wp) auto

lemma wps_fetch_server [wp]:
  "(\<And>r. t_find (\<lambda>x. sv_id x = sid) (servers s) = Some r \<Longrightarrow> Q (server_response_of r) s) \<Longrightarrow> (\<And>e. E e s) \<Longrightarrow>
   wps (fetch_server sid) Q E s"
  unfolding fetch_server_def by (intro wp) auto

lemma wps_get_member [wp]: "(\<And>x. Q x s) \<Longrightarrow> (\<And>e. E e s) \<Longrightarrow> wps (get_member auth sid uid) Q E s"
  unfolding get_member_def by (intro wp) auto

section \<open>Running the helpers without failures\<close>

lemma run_require_member [run]:
  "calm w \<Longrightarrow> require_member sid uid w =
     (if is_member sid uid (w_pg w) then Inr () else Inl (Forbidden ''Not a member of this server''), w)"
  by (simp add: require_member_def run)

lemma run_get_user_permissions [run]:
  "calm w \<Longrightarrow> get_user_permissions sid uid w = (Inr (effective_permissions sid uid (w_pg w)), w)"
  by (simp add: get_user_permissions_def effective_permissions_def run)

lemma run_require_permissions [run]:
  "calm w \<Longrightarrow> require_permissions sid uid p w =
     (if is_member sid uid (w_pg w)
      then if may sid uid p (w_pg w) then Inr () else Inl (Forbidden ''Missing required permissions'')
      else Inl (Forbidden ''Not a member of this server''), w)"
  by (simp add: require_permissions_def may_def run)

lemma run_check_role_hierarchy [run]:
  "calm w \<Longrightarrow> check_role_hierarchy sid actor target w =
     (if outranks sid actor target (w_pg w) then Inr ()
      else Inl (Forbidden ''Cannot modify a member with equal or higher role''), w)"
  by (auto simp: check_role_hierarchy_def outranks_def rank_def run)

section \<open>The permission set\<close>

lemma bit_or_fold:
  "bit (foldl (\<lambda>acc p. acc OR from_bits_truncate p) a ps) n \<longleftrightarrow>
     bit a n \<or> (\<exists>p \<in> set ps. n < 38 \<and> bit p n)"
  by (induction ps arbitrary: a) (auto simp: bit_or_iff)

lemma bit_combine:
  "bit (combine_role_permissions ps) n \<longleftrightarrow> n < 38 \<and> (\<exists>p \<in> set ps. bit p n \<or> bit p 0)"
proof -
  have "contains (foldl (\<lambda>acc p. acc OR from_bits_truncate p) 0 ps) ADMINISTRATOR \<longleftrightarrow> (\<exists>p \<in> set ps. bit p 0)"
    by (simp add: ADMINISTRATOR_def contains_flag bit_or_fold)
  then show ?thesis
    by (auto simp: combine_role_permissions_def Let_def bit_or_fold)
qed

lemma set_role_permission_rows:
  "p \<in> set (role_permission_rows sid uid db) \<longleftrightarrow>
     (\<exists>r \<in> set (roles db). ro_server_id r = sid \<and> p = ro_permissions r \<and>
        (ro_is_default r \<or> (\<exists>m \<in> set (member_roles db). mr_role_id m = ro_id r \<and> mr_user_id m = uid)))"
  by (auto simp: role_permission_rows_def Let_def filter_empty_conv split: if_splits)

lemma ex_role_permission_row:
  "(\<exists>p \<in> set (role_permission_rows sid uid db). P p) \<longleftrightarrow>
     (\<exists>r \<in> set (roles db). ro_server_id r = sid \<and> P (ro_permissions r) \<and>
        (ro_is_default r \<or> (\<exists>m \<in> set (member_roles db). mr_role_id m = ro_id r \<and> mr_user_id m = uid)))"
  unfolding Bex_def set_role_permission_rows by blast

lemma bit_effective:
  "bit (effective_permissions sid uid db) n \<longleftrightarrow>
     n < 38 \<and> (is_owner sid uid db \<or>
       (\<exists>r \<in> set (roles db). ro_server_id r = sid \<and> (bit (ro_permissions r) n \<or> bit (ro_permissions r) 0) \<and>
         (ro_is_default r \<or> (\<exists>m \<in> set (member_roles db). mr_role_id m = ro_id r \<and> mr_user_id m = uid))))"
  by (simp add: effective_permissions_def bit_combine ex_role_permission_row)

text \<open>Flag by flag, the permissions of a user in a server: the owner has every flag; anybody else has a
  flag when a role of the server that is the default one or is assigned to the user carries it or
  carries ADMINISTRATOR. Undeclared bits of a stored role never count.\<close>

theorem effective_permissions_flags:
  "bit (effective_permissions sid uid db) n \<longleftrightarrow>
     n < 38 \<and> (is_owner sid uid db \<or>
       (\<exists>r \<in> set (roles db). ro_server_id r = sid \<and> (bit (ro_permissions r) n \<or> bit (ro_permissions r) 0) \<and>
         (ro_is_default r \<or> (\<exists>m \<in> set (member_roles db). mr_role_id m = ro_id r \<and> mr_user_id m = uid))))"
  by (rule bit_effective)

lemma contains_effective:
  "k < 38 \<Longrightarrow> contains (effective_permissions sid uid db) (flag k) = bit (effective_permissions sid uid db) k"
  by (simp add: contains_flag)

end
