(* ===== verification/Db_Invariant.thy ===== *)
theory Db_Invariant
  imports Database
begin

text \<open>
  The consistency of the guild tables that the schema does not enforce by itself but the routes rely on,
  as one invariant, and its preservation by every SQL statement, each under the condition that the routes
  establish before they run it.
\<close>

definition owner_joined :: "pg_db \<Rightarrow> bool" where
  "owner_joined db \<longleftrightarrow> (\<forall>s \<in> set (servers db). is_member (sv_id s) (sv_owner_id s) db)"

definition bans_apart :: "pg_db \<Rightarrow> bool" where
  "bans_apart db \<longleftrightarrow> (\<forall>b \<in> set (bans db).
     is_server (bn_server_id b) db \<and> \<not> is_member (bn_server_id b) (bn_user_id b) db)"

definition has_text_channel :: "i64 \<Rightarrow> pg_db \<Rightarrow> bool" where
  "has_text_channel sid db \<longleftrightarrow> (\<exists>c \<in> set (channels db). ch_server_id c = Some sid \<and> ch_type c = 0)"

definition has_default_role :: "i64 \<Rightarrow> pg_db \<Rightarrow> bool" where
  "has_default_role sid db \<longleftrightarrow>
     (\<exists>r \<in> set (roles db). ro_id r = sid \<and> ro_server_id r = sid \<and> ro_is_default r)"

definition servers_furnished :: "pg_db \<Rightarrow> bool" where
  "servers_furnished db \<longleftrightarrow> (\<forall>s \<in> set (servers db). has_text_channel (sv_id s) db \<and> has_default_role (sv_id s) db)"

definition assignments_ok :: "pg_db \<Rightarrow> bool" where
  "assignments_ok db \<longleftrightarrow> (\<forall>m \<in> set (member_roles db).
     is_member (mr_server_id m) (mr_user_id m) db \<and> (\<exists>r \<in> set (roles db). ro_id r = mr_role_id m))"

definition keys_ok :: "pg_db \<Rightarrow> bool" where
  "keys_ok db \<longleftrightarrow> distinct (map ch_id (channels db)) \<and> distinct (map ro_id (roles db))"

text \<open>No invite was used more often than its limit, and no override carries ADMINISTRATOR (bit 0).\<close>

definition invites_within :: "invite_row list \<Rightarrow> bool" where
  "invites_within is' \<longleftrightarrow> distinct (map iv_code is') \<and>
     (\<forall>i \<in> set is'. iv_max_uses i > 0 \<longrightarrow> iv_uses i \<le> iv_max_uses i)"

definition overrides_clean :: "override_row list \<Rightarrow> bool" where
  "overrides_clean os \<longleftrightarrow> (\<forall>r \<in> set os. \<not> bit (po_allow_bits r) 0 \<and> \<not> bit (po_deny_bits r) 0)"

definition db_ok :: "pg_db \<Rightarrow> bool" where
  "db_ok db \<longleftrightarrow> owner_joined db \<and> bans_apart db \<and> servers_furnished db \<and> assignments_ok db \<and> keys_ok db \<and>
     invites_within (invites db) \<and> overrides_clean (overrides db)"

lemma invites_within_delete [simp]: "invites_within t \<Longrightarrow> invites_within (t_delete P t)"
  by (auto simp: invites_within_def tbl_simps distinct_map_t_delete)

lemma overrides_clean_delete [simp]: "overrides_clean t \<Longrightarrow> overrides_clean (t_delete P t)"
  by (auto simp: overrides_clean_def tbl_simps)

lemmas db_ok_defs = db_ok_def owner_joined_def bans_apart_def servers_furnished_def assignments_ok_def keys_ok_def
  has_text_channel_def has_default_role_def

lemmas row_defs = is_user_def is_server_def is_channel_def is_owner_def is_member_def is_banned_def

section \<open>Frame: the tables the invariant does not read\<close>

lemma row_frame [simp]:
  "is_member a b (db\<lparr>servers := x1\<rparr>) = is_member a b db" "is_member a b (db\<lparr>channels := x2\<rparr>) = is_member a b db"
  "is_member a b (db\<lparr>roles := x3\<rparr>) = is_member a b db" "is_member a b (db\<lparr>member_roles := x4\<rparr>) = is_member a b db"
  "is_member a b (db\<lparr>bans := x5\<rparr>) = is_member a b db" "is_member a b (db\<lparr>invites := x6\<rparr>) = is_member a b db"
  "is_server a (db\<lparr>channels := x2\<rparr>) = is_server a db" "is_server a (db\<lparr>roles := x3\<rparr>) = is_server a db"
  "is_server a (db\<lparr>members := x7\<rparr>) = is_server a db" "is_server a (db\<lparr>member_roles := x4\<rparr>) = is_server a db"
  "is_server a (db\<lparr>bans := x5\<rparr>) = is_server a db" "is_server a (db\<lparr>invites := x6\<rparr>) = is_server a db"
  by (simp_all add: row_defs)

lemma db_ok_frame [simp]:
  "db_ok (db\<lparr>webhooks := x3\<rparr>) = db_ok db" "db_ok (db\<lparr>warnings := x4\<rparr>) = db_ok db"
  "db_ok (db\<lparr>audit_log := x5\<rparr>) = db_ok db" "db_ok (db\<lparr>auto_mod_rules := x6\<rparr>) = db_ok db"
  "db_ok (db\<lparr>reports := x7\<rparr>) = db_ok db" "db_ok (db\<lparr>dm_recipients := x8\<rparr>) = db_ok db"
  "db_ok (db\<lparr>users := x9\<rparr>) = db_ok db" "db_ok (db\<lparr>relationships := x10\<rparr>) = db_ok db"
  "db_ok (db\<lparr>user_settings := x11\<rparr>) = db_ok db" "db_ok (db\<lparr>device_tokens := x12\<rparr>) = db_ok db"
  "db_ok (db\<lparr>applications := x13\<rparr>) = db_ok db" "db_ok (db\<lparr>commands := x14\<rparr>) = db_ok db"
  "db_ok (db\<lparr>user_notes := x15\<rparr>) = db_ok db"
  by (simp_all add: db_ok_defs row_defs)

section \<open>Statements outside the invariant\<close>

lemma db_ok_invites: "db_ok db \<Longrightarrow> invites_within x \<Longrightarrow> db_ok (db\<lparr>invites := x\<rparr>)"
  by (simp add: db_ok_defs row_defs)

lemma db_ok_overrides: "db_ok db \<Longrightarrow> overrides_clean x \<Longrightarrow> db_ok (db\<lparr>overrides := x\<rparr>)"
  by (simp add: db_ok_defs row_defs)

lemma db_ok_tables: "db_ok db \<Longrightarrow> invites_within (invites db)" "db_ok db \<Longrightarrow> overrides_clean (overrides db)"
  by (simp_all add: db_ok_def)

lemma ok_insert_invite:
  assumes "insert_invite r db = Inr (db', x)" "db_ok db" "iv_uses r = 0"
  shows "db_ok db'"
proof -
  have "db' = db\<lparr>invites := t_insert r (invites db)\<rparr>" "\<not> t_has (\<lambda>i. iv_code i = iv_code r) (invites db)"
    using assms(1) by (auto simp: insert_invite_def split: if_splits)
  then show ?thesis
    using db_ok_tables(1) [OF assms(2)] assms(2, 3)
    by (auto intro!: db_ok_invites simp: invites_within_def distinct_map_t_insert tbl_simps)
qed

text \<open>\<open>UPDATE invites SET uses = uses + 1\<close> on an invite that has uses left.\<close>

lemma ok_bump_invite:
  assumes "bump_invite_uses c db = Inr (db', x)" "db_ok db"
    and i: "t_find (\<lambda>i. iv_code i = c) (invites db) = Some i" "\<not> (iv_max_uses i > 0 \<and> iv_uses i \<ge> iv_max_uses i)"
  shows "db_ok db'"
proof -
  let ?f = "\<lambda>i. i\<lparr>iv_uses := iv_uses i + 1\<rparr>"
  have db': "db' = db\<lparr>invites := t_update (\<lambda>i. iv_code i = c) ?f (invites db)\<rparr>"
    using assms(1) by (simp add: bump_invite_uses_def)
  have w: "invites_within (invites db)" using assms(2) by (rule db_ok_tables)
  have only: "j = i" if "j \<in> set (invites db)" "iv_code j = c" for j
  proof -
    have "i \<in> set (invites db)" "iv_code i = c" using i(1) by (auto dest: t_find_SomeD)
    with that w show ?thesis by (auto simp: invites_within_def distinct_map dest: inj_onD)
  qed
  have "invites_within (t_update (\<lambda>i. iv_code i = c) ?f (invites db))"
    using w i(2) only by (auto simp: invites_within_def map_t_update_same tbl_simps)
  then show ?thesis unfolding db' by (rule db_ok_invites [OF assms(2)])
qed

lemma ok_delete_invite: "delete_invite_row c db = Inr (db', x) \<Longrightarrow> db_ok db \<Longrightarrow> db_ok db'"
  by (auto simp: delete_invite_row_def db_ok_tables intro!: db_ok_invites)

definition clean_row :: "override_row \<Rightarrow> bool" where
  "clean_row r \<longleftrightarrow> \<not> bit (po_allow_bits r) 0 \<and> \<not> bit (po_deny_bits r) 0"

lemma ok_insert_override:
  assumes "insert_override r db = Inr (db', x)" "db_ok db" "clean_row r"
  shows "db_ok db'"
proof -
  have "db' = db\<lparr>overrides := t_insert r (overrides db)\<rparr>"
    using assms(1) by (auto simp: insert_override_def split: if_splits)
  then show ?thesis
    using db_ok_tables(2) [OF assms(2)] assms(2, 3)
    by (auto intro!: db_ok_overrides simp: overrides_clean_def clean_row_def tbl_simps)
qed

lemma ok_upsert_override:
  assumes "upsert_override r db = Inr (db', x)" "db_ok db" "clean_row r"
  shows "db_ok db'"
proof (cases "t_has (\<lambda>x. po_channel_id x = po_channel_id r \<and> po_target_id x = po_target_id r) (overrides db)")
  case True
  then show ?thesis
    using assms db_ok_tables(2) [OF assms(2)]
    by (auto intro!: db_ok_overrides simp: upsert_override_def overrides_clean_def clean_row_def tbl_simps)
next
  case False
  then show ?thesis using assms ok_insert_override [of r db db' x] by (simp add: upsert_override_def)
qed

lemma ok_delete_overrides: "delete_overrides P db = Inr (db', x) \<Longrightarrow> db_ok db \<Longrightarrow> db_ok db'"
  by (auto simp: delete_overrides_def db_ok_tables intro!: db_ok_overrides)

lemma ok_insert_webhook: "insert_webhook r db = Inr (db', x) \<Longrightarrow> db_ok db \<Longrightarrow> db_ok db'"
  by (auto simp: insert_webhook_def split: if_splits)

lemma ok_insert_warning: "insert_warning r db = Inr (db', x) \<Longrightarrow> db_ok db \<Longrightarrow> db_ok db'"
  by (auto simp: insert_warning_def split: if_splits)

lemma ok_delete_warning: "delete_warning_row a b db = Inr (db', x) \<Longrightarrow> db_ok db \<Longrightarrow> db_ok db'"
  by (auto simp: delete_warning_row_def)

lemma ok_insert_audit: "insert_audit r db = Inr (db', x) \<Longrightarrow> db_ok db \<Longrightarrow> db_ok db'"
  by (auto simp: insert_audit_def split: if_splits)

lemma ok_auto_mod:
  "insert_auto_mod r db = Inr (db', x) \<Longrightarrow> db_ok db \<Longrightarrow> db_ok db'"
  "update_auto_mod a b f db = Inr (db', x) \<Longrightarrow> db_ok db \<Longrightarrow> db_ok db'"
  "delete_auto_mod a b db = Inr (db', x) \<Longrightarrow> db_ok db \<Longrightarrow> db_ok db'"
  by (auto simp: insert_auto_mod_def update_auto_mod_def delete_auto_mod_def split: if_splits)

lemma ok_insert_report: "insert_report r db = Inr (db', x) \<Longrightarrow> db_ok db \<Longrightarrow> db_ok db'"
  by (auto simp: insert_report_def split: if_splits)

lemmas ok_outside = ok_insert_invite ok_delete_invite ok_insert_override ok_upsert_override
  ok_delete_overrides ok_insert_webhook ok_insert_warning ok_delete_warning ok_insert_audit ok_auto_mod ok_insert_report

section \<open>Channels, roles and servers\<close>

lemma ok_insert_channel: "insert_channel r db = Inr (db', x) \<Longrightarrow> db_ok db \<Longrightarrow> db_ok db'"
  by (auto simp: insert_channel_def db_ok_defs row_defs tbl_simps distinct_map_t_insert split: if_splits)

lemma ok_insert_role: "insert_role r db = Inr (db', x) \<Longrightarrow> db_ok db \<Longrightarrow> db_ok db'"
  by (auto simp: insert_role_def db_ok_defs row_defs tbl_simps distinct_map_t_insert split: if_splits)

lemma ok_update_channel_rows:
  assumes "update_channel_rows P f db = Inr (db', x)" "db_ok db"
    and f: "\<And>c. ch_id (f c) = ch_id c" "\<And>c. ch_server_id (f c) = ch_server_id c" "\<And>c. ch_type (f c) = ch_type c"
  shows "db_ok db'"
proof -
  have db': "db' = db\<lparr>channels := t_update P f (channels db)\<rparr>"
    using assms(1) by (auto simp: update_channel_rows_def split: if_splits)
  have "has_text_channel sid db' = has_text_channel sid db" for sid
    by (simp add: db' has_text_channel_def ex_t_update_same f)
  moreover have "has_default_role sid db' = has_default_role sid db" for sid
    by (simp add: db' has_default_role_def)
  ultimately show ?thesis
    using assms(2) by (auto simp: db_ok_def owner_joined_def bans_apart_def servers_furnished_def assignments_ok_def
        keys_ok_def db' map_t_update_same f)
qed

lemma ok_update_role_rows:
  assumes "update_role_rows rid sid f db = Inr (db', x)" "db_ok db"
    and f: "\<And>r. ro_id (f r) = ro_id r" "\<And>r. ro_server_id (f r) = ro_server_id r" "\<And>r. ro_is_default (f r) = ro_is_default r"
  shows "db_ok db'"
proof -
  let ?P = "\<lambda>r. ro_id r = rid \<and> ro_server_id r = sid"
  have db': "db' = db\<lparr>roles := t_update ?P f (roles db)\<rparr>"
    using assms(1) by (auto simp: update_role_rows_def split: if_splits)
  have "has_default_role s db' = has_default_role s db" for s
    by (simp add: db' has_default_role_def ex_t_update_same f)
  moreover have "has_text_channel s db' = has_text_channel s db" for s
    by (simp add: db' has_text_channel_def)
  moreover have "(\<exists>r \<in> set (roles db'). ro_id r = k) \<longleftrightarrow> (\<exists>r \<in> set (roles db). ro_id r = k)" for k
    by (simp add: db' ex_t_update_same f)
  ultimately show ?thesis
    using assms(2) by (auto simp: db_ok_def owner_joined_def bans_apart_def servers_furnished_def assignments_ok_def
        keys_ok_def db' map_t_update_same f)
qed

lemma ok_delete_role:
  assumes "delete_role_row rid sid db = Inr (db', x)" "db_ok db"
    and d: "\<And>r. r \<in> set (roles db) \<Longrightarrow> ro_id r = rid \<Longrightarrow> ro_server_id r = sid \<Longrightarrow> \<not> ro_is_default r"
  shows "db_ok db'"
proof -
  define gone where "gone = t_has (\<lambda>r. ro_id r = rid \<and> ro_server_id r = sid) (roles db)"
  have db': "db' = db\<lparr>roles := t_delete (\<lambda>r. ro_id r = rid \<and> ro_server_id r = sid) (roles db),
      member_roles := t_delete (\<lambda>m. gone \<and> mr_role_id m = rid) (member_roles db)\<rparr>"
    using assms(1) by (auto simp: delete_role_row_def gone_def)
  have "has_default_role s db \<Longrightarrow> has_default_role s db'" for s
    unfolding db' has_default_role_def using d by (force simp: tbl_simps)
  moreover have "\<exists>r \<in> set (roles db'). ro_id r = mr_role_id m" if "m \<in> set (member_roles db')" for m
    using that assms(2) unfolding db' by (fastforce simp: tbl_simps gone_def db_ok_def assignments_ok_def)
  moreover have "has_text_channel s db' = has_text_channel s db" for s
    by (simp add: db' has_text_channel_def)
  moreover have "set (member_roles db') \<subseteq> set (member_roles db)"
    by (auto simp: db' tbl_simps)
  moreover have "is_member a b db' = is_member a b db" "is_server a db' = is_server a db" for a b
    by (simp_all add: db')
  moreover have "servers db' = servers db" "bans db' = bans db" "channels db' = channels db"
    "invites db' = invites db" "overrides db' = overrides db"
    by (simp_all add: db')
  moreover have "distinct (map ro_id (roles db'))"
    using assms(2) by (simp add: db' db_ok_def keys_ok_def distinct_map_t_delete)
  ultimately show ?thesis
    using assms(2) by (simp add: db_ok_def owner_joined_def bans_apart_def servers_furnished_def assignments_ok_def
        keys_ok_def subset_iff)
qed

section \<open>Members and bans\<close>

text \<open>The invariant in terms of the member relation and of the sets of rows: what a change of one table needs.\<close>

lemma is_member_insert [simp]:
  "is_member a b (db\<lparr>members := t_insert m ms\<rparr>) \<longleftrightarrow>
     (a = mb_server_id m \<and> b = mb_user_id m) \<or> is_member a b (db\<lparr>members := ms\<rparr>)"
  by (auto simp: is_member_def tbl_simps)

lemma is_member_delete [simp]:
  "is_member a b (db\<lparr>members := t_delete (\<lambda>m. mb_server_id m = sid \<and> mb_user_id m = uid) (members db)\<rparr>) \<longleftrightarrow>
     is_member a b db \<and> \<not> (a = sid \<and> b = uid)"
  by (auto simp: is_member_def tbl_simps)

lemma members_same [simp]: "db\<lparr>members := members db\<rparr> = db"
  by simp

lemma ok_insert_member:
  assumes "insert_member sid uid now db = Inr (db', x)" "db_ok db" "\<not> is_banned sid uid db"
  shows "db_ok db'"
  using assms
  by (auto simp: insert_member_def db_ok_def owner_joined_def bans_apart_def servers_furnished_def assignments_ok_def
      keys_ok_def has_text_channel_def has_default_role_def is_banned_def t_has_iff split: if_splits)

lemma ok_insert_member_role: "insert_member_role sid uid rid db = Inr (db', x) \<Longrightarrow> db_ok db \<Longrightarrow> db_ok db'"
  by (auto simp: insert_member_role_def member_role_refs_def db_ok_def owner_joined_def bans_apart_def servers_furnished_def
      assignments_ok_def keys_ok_def has_text_channel_def has_default_role_def tbl_simps split: if_splits) blast

lemma ok_insert_member_role_lenient:
  "insert_member_role_lenient sid uid rid db = Inr (db', x) \<Longrightarrow> db_ok db \<Longrightarrow> db_ok db'"
  by (auto simp: insert_member_role_lenient_def ok_insert_member_role split: if_splits)

lemma ok_clear_member_roles: "clear_member_roles sid uid db = Inr (db', x) \<Longrightarrow> db_ok db \<Longrightarrow> db_ok db'"
  by (auto simp: clear_member_roles_def db_ok_def owner_joined_def bans_apart_def servers_furnished_def
      assignments_ok_def keys_ok_def has_text_channel_def has_default_role_def tbl_simps)

lemma ok_delete_member:
  assumes "delete_member sid uid db = Inr (db', x)" "db_ok db" "\<not> is_owner sid uid db"
  shows "db_ok db'"
  using assms
  by (auto simp: delete_member_def db_ok_def owner_joined_def bans_apart_def servers_furnished_def assignments_ok_def
      keys_ok_def has_text_channel_def has_default_role_def is_owner_def tbl_simps)

lemma ok_update_member_row:
  assumes "update_member_row sid uid f db = Inr (db', x)" "db_ok db"
    and f: "\<And>m. mb_server_id (f m) = mb_server_id m" "\<And>m. mb_user_id (f m) = mb_user_id m"
  shows "db_ok db'"
proof -
  have db': "db' = db\<lparr>members := t_update (\<lambda>m. mb_server_id m = sid \<and> mb_user_id m = uid) f (members db)\<rparr>"
    using assms(1) by (auto simp: update_member_row_def split: if_splits)
  then have "is_member a b db' = is_member a b db" for a b
    by (simp add: is_member_def t_has_iff ex_t_update_same f)
  then show ?thesis
    using assms(2) by (simp add: db' db_ok_def owner_joined_def bans_apart_def servers_furnished_def assignments_ok_def
        keys_ok_def has_text_channel_def has_default_role_def)
qed

lemma ok_upsert_ban:
  assumes "upsert_ban sid uid reason by_id now db = Inr (db', x)" "db_ok db" "\<not> is_member sid uid db"
  shows "db_ok db'"
proof -
  have "bans_apart db'"
    using assms by (auto simp: upsert_ban_def db_ok_def bans_apart_def tbl_simps split: if_splits)
  moreover have "servers db' = servers db" "channels db' = channels db" "roles db' = roles db"
    "member_roles db' = member_roles db" "members db' = members db" "invites db' = invites db" "overrides db' = overrides db"
    using assms(1) by (auto simp: upsert_ban_def split: if_splits)
  ultimately show ?thesis
    using assms(2) by (simp add: db_ok_defs row_defs)
qed

lemma ok_delete_ban: "delete_ban sid uid db = Inr (db', x) \<Longrightarrow> db_ok db \<Longrightarrow> db_ok db'"
  by (auto simp: delete_ban_def db_ok_def owner_joined_def bans_apart_def servers_furnished_def
      assignments_ok_def keys_ok_def has_text_channel_def has_default_role_def tbl_simps)

section \<open>Server rows\<close>

lemma ok_update_servers:
  assumes "db_ok db" and f: "\<And>s. sv_id (f s) = sv_id s"
    and o': "\<And>s. s \<in> set (servers db) \<Longrightarrow> sv_id s = sid \<Longrightarrow> is_member sid (sv_owner_id (f s)) db"
  shows "db_ok (update_servers sid f db)"
proof -
  let ?db = "update_servers sid f db"
  have "is_server a ?db = is_server a db" for a
    by (simp add: update_servers_def is_server_def t_has_iff ex_t_update_same f)
  moreover have "owner_joined ?db"
    using assms by (auto simp: db_ok_def owner_joined_def update_servers_def tbl_simps)
  moreover have "servers_furnished ?db"
    using assms by (auto simp: db_ok_def servers_furnished_def update_servers_def tbl_simps has_text_channel_def has_default_role_def)
  ultimately show ?thesis
    using assms(1) by (auto simp: update_servers_def db_ok_def bans_apart_def assignments_ok_def keys_ok_def)
qed

lemma ok_update_server_row:
  assumes "update_server_row sid f db = Inr (db', x)" "db_ok db" "\<And>s. sv_id (f s) = sv_id s"
    "\<And>s. s \<in> set (servers db) \<Longrightarrow> sv_id s = sid \<Longrightarrow> is_member sid (sv_owner_id (f s)) db"
  shows "db_ok db'"
  using assms ok_update_servers [of db f sid] by (simp add: update_server_row_def split: if_splits)

lemma ok_owner: "db_ok db \<Longrightarrow> s \<in> set (servers db) \<Longrightarrow> sv_id s = sid \<Longrightarrow> is_member sid (sv_owner_id s) db"
  by (auto simp: db_ok_def owner_joined_def)

lemma ok_counts:
  "refresh_member_count sid db = Inr (db', x) \<Longrightarrow> db_ok db \<Longrightarrow> db_ok db'"
  "bump_member_count sid db = Inr (db', x) \<Longrightarrow> db_ok db \<Longrightarrow> db_ok db'"
  by (auto simp: refresh_member_count_def bump_member_count_def intro!: ok_update_servers dest: ok_owner)

section \<open>Deletion of channels and servers\<close>

lemma set_drop_channels:
  "(\<exists>c \<in> set (channels (drop_channels P db)). ch_server_id c = a \<and> ch_type c = t) \<longleftrightarrow>
     (\<exists>c \<in> set (channels db). \<not> P c \<and> ch_server_id c = a \<and> ch_type c = t)"
  by (auto simp: drop_channels_def Let_def tbl_simps)

lemma drop_channels_serversD:
  "s \<in> set (servers (drop_channels P db)) \<Longrightarrow>
   \<exists>s' \<in> set (servers db). sv_id s = sv_id s' \<and> sv_owner_id s = sv_owner_id s'"
  by (auto simp: drop_channels_def Let_def)

lemma drop_channels_frame [simp]:
  "is_member a b (drop_channels P db) = is_member a b db" "is_server a (drop_channels P db) = is_server a db"
  "roles (drop_channels P db) = roles db" "member_roles (drop_channels P db) = member_roles db"
  "bans (drop_channels P db) = bans db" "members (drop_channels P db) = members db"
  "map ch_id (channels (drop_channels P db)) = map ch_id (t_delete P (channels db))"
  "invites_within (invites db) \<Longrightarrow> invites_within (invites (drop_channels P db))"
  "overrides_clean (overrides db) \<Longrightarrow> overrides_clean (overrides (drop_channels P db))"
  by (simp_all add: drop_channels_def Let_def row_defs t_has_iff o_def)

lemma ok_delete_channel:
  assumes "delete_channel_row cid db = Inr (db', x)" "db_ok db"
    and last: "\<And>c sid. c \<in> set (channels db) \<Longrightarrow> ch_id c = cid \<Longrightarrow> ch_type c = 0 \<Longrightarrow> ch_server_id c = Some sid \<Longrightarrow>
      1 < t_count (\<lambda>c. ch_server_id c = Some sid \<and> ch_type c = 0) (channels db)"
  shows "db_ok db'"
proof -
  have db': "db' = drop_channels (\<lambda>c. ch_id c = cid) db"
    using assms(1) by (simp add: delete_channel_row_def)
  have keep: "has_text_channel sid db'" if t: "has_text_channel sid db" for sid
  proof (cases "\<exists>c \<in> set (channels db). ch_id c = cid \<and> ch_server_id c = Some sid \<and> ch_type c = 0")
    case False
    then show ?thesis using t by (auto simp: has_text_channel_def db' set_drop_channels)
  next
    case True
    let ?T = "filter (\<lambda>c. ch_server_id c = Some sid \<and> ch_type c = 0) (channels db)"
    have "1 < length ?T" using True last by (auto simp: t_count_def)
    moreover have "distinct (map ch_id ?T)"
      using assms(2) by (simp add: db_ok_def keys_ok_def distinct_map_filter)
    ultimately have "\<exists>c \<in> set ?T. ch_id c \<noteq> cid"
      by (cases ?T; cases "tl ?T") fastforce+
    then show ?thesis by (auto simp: has_text_channel_def db' set_drop_channels)
  qed
  have "owner_joined db'" "servers_furnished db'"
    using assms(2) keep
    by (fastforce simp: db_ok_def owner_joined_def servers_furnished_def has_default_role_def db'
        dest: drop_channels_serversD)+
  then show ?thesis
    using assms(2) by (simp add: db' db_ok_def bans_apart_def assignments_ok_def keys_ok_def distinct_map_t_delete)
qed

lemma ok_delete_server:
  assumes "delete_server_row sid db = Inr (db', x)" "db_ok db"
  shows "db_ok db'"
proof -
  let ?d = "drop_channels (\<lambda>c. ch_server_id c = Some sid) db"
  have mem: "is_member a b db' \<longleftrightarrow> a \<noteq> sid \<and> is_member a b db" for a b
    using assms(1) by (auto simp: delete_server_row_def Let_def is_member_def tbl_simps)
  have srv: "is_server a db' \<longleftrightarrow> a \<noteq> sid \<and> is_server a db" for a
    using assms(1) by (auto simp: delete_server_row_def Let_def is_server_def tbl_simps drop_channels_def) blast
  have sv: "\<exists>s' \<in> set (servers db). sv_id s = sv_id s' \<and> sv_owner_id s = sv_owner_id s' \<and> sv_id s \<noteq> sid"
    if "s \<in> set (servers db')" for s
    using that assms(1) by (fastforce simp: delete_server_row_def Let_def tbl_simps dest: drop_channels_serversD)
  have tx: "has_text_channel a db' \<longleftrightarrow> a \<noteq> sid \<and> has_text_channel a db" for a
  proof -
    have "channels db' = channels ?d" using assms(1) by (auto simp: delete_server_row_def Let_def)
    then have "has_text_channel a db' \<longleftrightarrow>
        (\<exists>c \<in> set (channels db). \<not> ch_server_id c = Some sid \<and> ch_server_id c = Some a \<and> ch_type c = 0)"
      by (simp add: has_text_channel_def set_drop_channels)
    also have "\<dots> \<longleftrightarrow> a \<noteq> sid \<and> has_text_channel a db" unfolding has_text_channel_def by (metis option.inject)
    finally show ?thesis .
  qed
  have rol: "set (roles db') = {r \<in> set (roles db). ro_server_id r \<noteq> sid}"
    "distinct (map ro_id (roles db)) \<Longrightarrow> distinct (map ro_id (roles db'))"
    using assms(1) by (auto simp: delete_server_row_def Let_def tbl_simps distinct_map_t_delete)
  have mr: "set (member_roles db') = {m \<in> set (member_roles db). mr_server_id m \<noteq> sid \<and>
      \<not> (\<exists>r \<in> set (roles db). ro_server_id r = sid \<and> ro_id r = mr_role_id m)}"
    using assms(1) by (auto simp: delete_server_row_def Let_def tbl_simps)
  have bn: "set (bans db') = {b \<in> set (bans db). bn_server_id b \<noteq> sid}"
    using assms(1) by (auto simp: delete_server_row_def Let_def tbl_simps)
  have ch: "map ch_id (channels db') = map ch_id (t_delete (\<lambda>c. ch_server_id c = Some sid) (channels db))"
    using assms(1) by (auto simp: delete_server_row_def Let_def)
  have "owner_joined db'" "servers_furnished db'"
    using assms(2) by (fastforce simp: db_ok_def owner_joined_def servers_furnished_def has_default_role_def mem tx rol(1) dest: sv)+
  moreover have "bans_apart db'" "assignments_ok db'"
    using assms(2) by (auto simp: db_ok_def bans_apart_def assignments_ok_def mem srv bn mr rol(1)) blast
  moreover have "keys_ok db'"
    using assms(2) rol(2) by (auto simp: db_ok_def keys_ok_def ch distinct_map_t_delete)
  moreover have "invites_within (invites db')" "overrides_clean (overrides db')"
    using assms by (auto simp: db_ok_def delete_server_row_def Let_def)
  ultimately show ?thesis by (simp add: db_ok_def)
qed

section \<open>A new server\<close>

text \<open>The statements of \<open>create_server\<close> in their order: only their composition keeps the invariant.\<close>

lemma ok_new_server:
  assumes ok: "db_ok db"
    and s1: "insert_server row db = Inr (d1, x1)" "sv_id row = sid" "sv_owner_id row = auth"
    and s2: "insert_role role d1 = Inr (d2, x2)" "ro_id role = sid" "ro_server_id role = sid" "ro_is_default role"
    and s3: "insert_channel c1 d2 = Inr (d3, x3)" "ch_server_id c1 = Some sid" "ch_type c1 = 0"
    and s4: "insert_channel c2 d3 = Inr (d4, x4)"
    and s5: "update_server_row sid f d4 = Inr (d5, x5)" "\<And>s. sv_id (f s) = sv_id s" "\<And>s. sv_owner_id (f s) = sv_owner_id s"
    and s6: "insert_member sid auth now d5 = Inr (d6, x6)"
    and s7: "insert_member_role sid auth sid d6 = Inr (d7, x7)"
  shows "db_ok d7"
proof -
  have fresh: "\<not> is_server sid db" and d1: "d1 = db\<lparr>servers := t_insert row (servers db)\<rparr>"
    using s1 by (auto simp: insert_server_def split: if_splits)
  have d2: "d2 = d1\<lparr>roles := t_insert role (roles d1)\<rparr>" "\<not> t_has (\<lambda>x. ro_id x = ro_id role) (roles d1)"
    using s2(1) by (auto simp: insert_role_def split: if_splits)
  have d3: "d3 = d2\<lparr>channels := t_insert c1 (channels d2)\<rparr>" "\<not> is_channel (ch_id c1) d2"
    using s3(1) by (auto simp: insert_channel_def split: if_splits)
  have d4: "d4 = d3\<lparr>channels := t_insert c2 (channels d3)\<rparr>" "\<not> is_channel (ch_id c2) d3"
    using s4 by (auto simp: insert_channel_def split: if_splits)
  have d5: "d5 = d4\<lparr>servers := t_update (\<lambda>s. sv_id s = sid) f (servers d4)\<rparr>"
    using s5(1) by (auto simp: update_server_row_def update_servers_def split: if_splits)
  obtain m where d6: "d6 = d5\<lparr>members := t_insert m (members d5)\<rparr>" "mb_server_id m = sid" "mb_user_id m = auth"
    using s6 by (auto simp: insert_member_def split: if_splits)
  have d7: "d7 = d6\<lparr>member_roles := t_insert \<lparr>mr_server_id = sid, mr_user_id = auth, mr_role_id = sid\<rparr> (member_roles d6)\<rparr>"
    using s7 by (auto simp: insert_member_role_def split: if_splits)
  note ds = d1 d2(1) d3(1) d4(1) d5 d6(1) d7
  have mem: "is_member a b d7 \<longleftrightarrow> (a = sid \<and> b = auth) \<or> is_member a b db" for a b
    unfolding ds by (auto simp: is_member_def tbl_simps d6(2, 3))
  have srv: "is_server a db \<Longrightarrow> is_server a d7" for a
    unfolding ds by (auto simp: is_server_def t_has_iff ex_t_update_same s5(2) set_t_insert)
  have sv: "\<exists>s' \<in> insert row (set (servers db)). sv_id s = sv_id s' \<and> sv_owner_id s = sv_owner_id s'"
    if "s \<in> set (servers d7)" for s
    using that s5(2, 3) unfolding ds by (auto simp: set_t_insert set_t_update split: if_splits)
  have tx: "has_text_channel sid d7" "has_text_channel a db \<Longrightarrow> has_text_channel a d7" for a
    using s3(2, 3) unfolding ds has_text_channel_def by (auto simp: set_t_insert)
  have dft: "has_default_role sid d7" "has_default_role a db \<Longrightarrow> has_default_role a d7" for a
    using s2 unfolding ds has_default_role_def by (auto simp: set_t_insert)
  have "owner_joined d7"
    using ok s1 by (fastforce simp: db_ok_def owner_joined_def mem dest: sv)
  moreover have "servers_furnished d7"
    unfolding servers_furnished_def
  proof
    fix s assume "s \<in> set (servers d7)"
    then obtain s' where s': "s' \<in> insert row (set (servers db))" "sv_id s = sv_id s'" using sv by blast
    show "has_text_channel (sv_id s) d7 \<and> has_default_role (sv_id s) d7"
    proof (cases "s' = row")
      case True
      then show ?thesis using s' s1 tx(1) dft(1) by simp
    next
      case False
      then show ?thesis using s' ok by (auto simp: db_ok_def servers_furnished_def intro: tx(2) dft(2))
    qed
  qed
  moreover have "bans_apart d7"
  proof -
    have "bans d7 = bans db" unfolding ds by simp
    then show ?thesis using ok fresh by (auto simp: db_ok_def bans_apart_def mem intro: srv)
  qed
  moreover have "assignments_ok d7"
  proof -
    have "set (member_roles d7) = insert \<lparr>mr_server_id = sid, mr_user_id = auth, mr_role_id = sid\<rparr> (set (member_roles db))"
      "set (roles d7) = insert role (set (roles db))"
      unfolding ds by (simp_all add: set_t_insert)
    then show ?thesis using ok s2 by (auto simp: db_ok_def assignments_ok_def mem)
  qed
  moreover have "keys_ok d7"
    using ok d2(2) d3(2) d4(2) unfolding ds
    by (auto simp: db_ok_def keys_ok_def distinct_map_t_insert is_channel_def t_has_iff set_t_insert)
  moreover have "invites_within (invites d7)" "overrides_clean (overrides d7)"
    using ok unfolding ds by (simp_all add: db_ok_def)
  ultimately show ?thesis by (simp add: db_ok_def)
qed

end
