(* ===== verification/Bucket.thy ===== *)
theory Bucket
  imports Snowflake
begin

text \<open>
  \<open>lumiere-models/src/bucket.rs\<close>: the ScyllaDB partition ("bucket") of a message is the number of whole
  10-day periods since the Lumiere epoch. A \<open>DateTime\<close> is its milliseconds since the Unix epoch;
  \<open>timestamp()\<close> rounds to seconds downwards; the two divisions truncate towards zero, as Rust's do; the
  cast to \<open>i32\<close> keeps the low 32 bits.
\<close>

definition trunc_div :: "int \<Rightarrow> int \<Rightarrow> int" where
  "trunc_div a b = sgn a * sgn b * (\<bar>a\<bar> div \<bar>b\<bar>)"

definition as_i32 :: "int \<Rightarrow> int" where
  "as_i32 x = signed_take_bit 31 x"

definition BUCKET_SIZE_DAYS :: int where "BUCKET_SIZE_DAYS = 10"
definition LUMIERE_EPOCH_SECS :: int where "LUMIERE_EPOCH_SECS = 1704067200"

definition bucket_from_datetime :: "int \<Rightarrow> int" where
  "bucket_from_datetime dt =
     (let epoch_days = as_i32 (trunc_div (dt div 1000 - LUMIERE_EPOCH_SECS) 86400)
      in trunc_div epoch_days BUCKET_SIZE_DAYS)"

definition bucket_from_snowflake :: "snowflake \<Rightarrow> int" where
  "bucket_from_snowflake s = bucket_from_datetime (created_at s)"

definition current_bucket :: "int \<Rightarrow> int" where
  "current_bucket now = bucket_from_datetime now"

definition bucket_range :: "snowflake \<Rightarrow> snowflake \<Rightarrow> int list" where
  "bucket_range from_s to_s =
     (let from_bucket = bucket_from_snowflake from_s;
          to_bucket = bucket_from_snowflake to_s;
          (low, high) = (if from_bucket \<le> to_bucket then (from_bucket, to_bucket) else (to_bucket, from_bucket))
      in rev [low..high])"

definition buckets_before :: "snowflake \<Rightarrow> int \<Rightarrow> int list" where
  "buckets_before before min_bucket = rev [min_bucket..bucket_from_snowflake before]"

lemma timestamp_ms_bound: "unat (timestamp_ms s) < 2 ^ 42"
proof -
  have "unat s < 2 ^ 42 * 2 ^ 22" using unsigned_less [of s, where 'a=nat] by simp
  then show ?thesis
    by (simp add: timestamp_ms_def snowflake_consts unat_drop less_mult_imp_div_less)
qed

lemma timestamp_uint: "0 \<le> uint (timestamp_ms s)" "uint (timestamp_ms s) < 4398046511104"
proof -
  have "int (unat (timestamp_ms s)) < int (2 ^ 42)" using timestamp_ms_bound [of s] by (rule iffD2 [OF of_nat_less_iff])
  then show "uint (timestamp_ms s) < 4398046511104" by simp
qed simp

lemma created_at_eq: "created_at s = uint (timestamp_ms s) + 1704067200000"
proof -
  have b: "unat (timestamp_ms s) < 2 ^ 42" by (rule timestamp_ms_bound)
  then have u: "unat (timestamp_ms s + LUMIERE_EPOCH) = unat (timestamp_ms s) + 1704067200000"
    by (simp add: unat_word_ariths(1) LUMIERE_EPOCH_def)
  then have e: "uint (timestamp_ms s + LUMIERE_EPOCH) = uint (timestamp_ms s) + 1704067200000"
    using arg_cong [OF u, of int] by simp
  then have "sint (timestamp_ms s + LUMIERE_EPOCH) = uint (timestamp_ms s + LUMIERE_EPOCH)"
    using timestamp_uint [of s] by (simp add: sint_uint signed_take_bit_int_eq_self)
  then show ?thesis using e by (simp add: created_at_def)
qed

lemma bucket_eq:
  "bucket_from_snowflake s = uint (timestamp_ms s) div 864000000"
proof -
  let ?t = "uint (timestamp_ms s)"
  have b: "0 \<le> ?t" "?t < 2 ^ 42" using timestamp_uint [of s] by simp_all
  have secs: "(?t + 1704067200000) div 1000 - LUMIERE_EPOCH_SECS = ?t div 1000"
    by (simp add: LUMIERE_EPOCH_SECS_def)
  have "0 \<le> ?t div 1000 div 86400"
    using b(1) by (intro pos_imp_zdiv_nonneg_iff [THEN iffD2]) simp_all
  moreover have "?t div 1000 div 86400 < 2 ^ 31" using b(2) by simp
  ultimately have "as_i32 (trunc_div (?t div 1000) 86400) = ?t div 1000 div 86400"
    using b(1) by (simp add: as_i32_def trunc_div_def signed_take_bit_int_eq_self sgn_if)
  then have "bucket_from_snowflake s = trunc_div (?t div 1000 div 86400) 10"
    by (simp add: bucket_from_snowflake_def bucket_from_datetime_def created_at_eq secs Let_def BUCKET_SIZE_DAYS_def)
  also have "\<dots> = ?t div 1000 div 86400 div 10"
    using b(1) by (simp add: trunc_div_def sgn_if)
  also have "\<dots> = ?t div 864000000" by (simp flip: zdiv_zmult2_eq)
  finally show ?thesis .
qed

text \<open>The bucket of an identifier is its timestamp divided by the 864000000 milliseconds of ten days:
  the conversions through \<open>DateTime\<close>, seconds, days and \<open>i32\<close> lose nothing but the remainder.\<close>

theorem bucket_is_ten_days:
  "bucket_from_snowflake s = uint (timestamp_ms s) div 864000000"
  by (rule bucket_eq)

lemma bucket_nonneg: "0 \<le> bucket_from_snowflake s"
  using timestamp_uint [of s] by (simp add: bucket_eq pos_imp_zdiv_nonneg_iff)

lemma bucket_mono: "a \<le> b \<Longrightarrow> bucket_from_snowflake a \<le> bucket_from_snowflake b"
proof -
  assume "a \<le> b"
  then have "unat (timestamp_ms a) \<le> unat (timestamp_ms b)"
    by (simp add: timestamp_ms_def unat_drop word_le_nat_alt div_le_mono)
  then have "uint (timestamp_ms a) \<le> uint (timestamp_ms b)"
    by (simp add: word_le_nat_alt [symmetric] word_le_def)
  then show ?thesis by (simp add: bucket_eq zdiv_mono1)
qed

text \<open>Two identifiers delimit the buckets of everything between them: \<open>bucket_range\<close> lists, in
  descending order and without repetition, exactly the buckets from the older to the newer one, and
  the bucket of every identifier in between is among them, whichever way round the two are given.\<close>

theorem bucket_range_covers:
  assumes "min a b \<le> x" "x \<le> max a b"
  shows "bucket_from_snowflake x \<in> set (bucket_range a b) \<and> sorted_wrt (>) (bucket_range a b)"
proof -
  have "bucket_from_snowflake (min a b) \<le> bucket_from_snowflake x"
    "bucket_from_snowflake x \<le> bucket_from_snowflake (max a b)"
    using assms by (simp_all add: bucket_mono)
  moreover have "sorted_wrt (>) (rev [i..j])" for i j :: int
    by (simp add: sorted_wrt_rev strict_sorted_iff)
  ultimately show ?thesis
    by (cases "a \<le> b") (auto simp: bucket_range_def Let_def min_def max_def)
qed

theorem bucket_range_covers_witness:
  "bucket_from_snowflake 5 \<in> set (bucket_range 9 1) \<and> sorted_wrt (>) (bucket_range 9 1)"
  by (rule bucket_range_covers) (simp_all add: min_def max_def word_le_nat_alt)

end
