(* ===== verification/Roles.thy ===== *)
theory Roles
  imports Servers Bucket
begin

text \<open>
  \<open>routes/roles.rs\<close>: the role handlers with their hierarchy and escalation guards, and the handlers that
  store the permission overrides of a channel.
\<close>

record role_response =
  rr_id :: snowflake
  rr_server_id :: snowflake
  rr_name :: ustr
  rr_color :: int
  rr_hoist :: bool
  rr_icon :: "ustr option"
  rr_position :: int
  rr_permissions :: string
  rr_mentionable :: bool
  rr_is_default :: bool
  rr_created_at :: int

definition role_response_of :: "role_row \<Rightarrow> role_response" where
  "role_response_of r = \<lparr>rr_id = ro_id r, rr_server_id = ro_server_id r, rr_name = ro_name r, rr_color = ro_color r,
     rr_hoist = ro_hoist r, rr_icon = ro_icon r, rr_position = ro_position r,
     rr_permissions = show_i64 (ro_permissions r), rr_mentionable = ro_mentionable r,
     rr_is_default = ro_is_default r, rr_created_at = ro_created_at r\<rparr>"

definition fetch_role :: "i64 \<Rightarrow> role_response handler" where
  "fetch_role rid =
     bind (pg_query (\<lambda>db. t_find (\<lambda>r. ro_id r = rid) (roles db))) (\<lambda>row.
     bind (ok_or row (NotFound ''Role not found'')) (\<lambda>r. ret (role_response_of r)))"

definition i32_max :: int where "i32_max = 2147483647"

definition get_actor_highest_position :: "i64 \<Rightarrow> snowflake \<Rightarrow> int handler" where
  "get_actor_highest_position sid uid =
     bind (pg_query (is_owner sid uid)) (\<lambda>owner.
       if owner then ret i32_max
       else bind (pg_query (max_role_position sid uid)) (\<lambda>highest. ret (unwrap_or 0 highest)))"

definition get_roles :: "snowflake \<Rightarrow> i64 \<Rightarrow> role_response list handler" where
  "get_roles auth sid =
     andThen (require_member sid auth)
    (bind (pg_query (\<lambda>db. sort_key ro_position (filter (\<lambda>r. ro_server_id r = sid) (roles db)))) (\<lambda>rows.
     ret (map role_response_of rows)))"

record create_role_request =
  cr_name :: ustr
  cr_color :: "int option"
  cr_hoist :: "bool option"
  cr_mentionable :: "bool option"
  cr_permissions :: "string option"

definition parse_bits :: "string \<Rightarrow> string \<Rightarrow> i64 handler" where
  "parse_bits what s = (case parse_i64 s of Inl _ \<Rightarrow> throw (BadRequest (''Invalid '' @ what)) | Inr v \<Rightarrow> ret v)"

text \<open>The bits the actor has not: \<open>new_bits & !actor_perms.bits()\<close> with the plain complement of \<open>u64\<close>.\<close>

definition forbidden_bits :: "u64 \<Rightarrow> permissions \<Rightarrow> u64" where
  "forbidden_bits new_bits actor_perms = new_bits AND NOT actor_perms"

definition cannot_grant :: string where
  "cannot_grant = ''Cannot grant permissions you don'' @ [CHR 0x27] @ ''t have''"

definition cannot_set :: string where
  "cannot_set = ''Cannot set permissions you don'' @ [CHR 0x27] @ ''t have''"

definition create_role :: "snowflake \<Rightarrow> i64 \<Rightarrow> create_role_request \<Rightarrow> (nat \<times> role_response) handler" where
  "create_role auth sid body =
     (let errs = validate_length ''name'' 1 100 (cr_name body)
      in if errs \<noteq> [] then throw (Validation errs)
         else andThen (require_permissions sid auth MANAGE_ROLES)
       (bind fresh_id (\<lambda>rid.
        bind (pg_query (\<lambda>db. t_max ro_position (\<lambda>r. ro_server_id r = sid) (roles db))) (\<lambda>max_pos.
        let position = as_i32 (unwrap_or 0 max_pos + 1)
        in bind (case cr_permissions body of None \<Rightarrow> ret 0 | Some s \<Rightarrow> parse_bits ''permissions value'' s) (\<lambda>perms.
        andThen (if perms \<noteq> 0
                 then bind (get_user_permissions sid auth) (\<lambda>actor_perms.
                        ensure (forbidden_bits perms actor_perms = 0) (Forbidden cannot_grant))
                 else ret ())
       (bind utc_now (\<lambda>now.
        andThen (pg_exec (insert_role \<lparr>ro_id = rid, ro_server_id = sid, ro_name = trim (cr_name body),
             ro_color = unwrap_or 0 (cr_color body), ro_hoist = unwrap_or False (cr_hoist body), ro_icon = None,
             ro_position = position, ro_permissions = perms, ro_mentionable = unwrap_or False (cr_mentionable body),
             ro_is_default = False, ro_created_at = now\<rparr>))
       (andThen (publish (server_events sid) (JObj [(''type'', jlit ''GUILD_ROLE_CREATE''), (''server_id'', ji64 sid),
             (''role_id'', jsnow rid)]))
       (bind (fetch_role rid) (\<lambda>role. ret (201, role)))))))))))"

record update_role_request =
  ur_name :: "ustr option"
  ur_color :: "int option"
  ur_hoist :: "bool option"
  ur_icon :: "ustr option option"
  ur_mentionable :: "bool option"
  ur_permissions :: "string option"
  ur_position :: "int option"

definition update_role_is_empty :: "update_role_request \<Rightarrow> bool" where
  "update_role_is_empty b \<longleftrightarrow> ur_name b = None \<and> ur_color b = None \<and> ur_hoist b = None \<and> ur_icon b = None \<and>
     ur_mentionable b = None \<and> ur_permissions b = None \<and> ur_position b = None"

definition update_role_sets :: "update_role_request \<Rightarrow> i64 option \<Rightarrow> role_row \<Rightarrow> role_row" where
  "update_role_sets b parsed_permissions r = r\<lparr>
     ro_name := unwrap_or (ro_name r) (map_option trim (ur_name b)),
     ro_color := unwrap_or (ro_color r) (ur_color b),
     ro_hoist := unwrap_or (ro_hoist r) (ur_hoist b),
     ro_icon := unwrap_or (ro_icon r) (ur_icon b),
     ro_mentionable := unwrap_or (ro_mentionable r) (ur_mentionable b),
     ro_permissions := unwrap_or (ro_permissions r) parsed_permissions,
     ro_position := unwrap_or (ro_position r) (ur_position b)\<rparr>"

definition role_position_of :: "i64 \<Rightarrow> i64 \<Rightarrow> pg_db \<Rightarrow> int option" where
  "role_position_of rid sid db = map_option ro_position (t_find (\<lambda>r. ro_id r = rid \<and> ro_server_id r = sid) (roles db))"

definition update_role :: "snowflake \<Rightarrow> i64 \<Rightarrow> i64 \<Rightarrow> update_role_request \<Rightarrow> role_response handler" where
  "update_role auth sid rid body =
     andThen (require_permissions sid auth MANAGE_ROLES)
    (bind (get_actor_highest_position sid auth) (\<lambda>actor_highest.
     bind (pg_query (role_position_of rid sid)) (\<lambda>found.
     bind (ok_or found (NotFound ''Role not found'')) (\<lambda>role_position.
     andThen (ensure (\<not> (role_position \<ge> actor_highest \<and> actor_highest \<noteq> i32_max))
          (Forbidden ''Cannot modify roles at or above your highest role position''))
    (andThen (ensure (\<not> update_role_is_empty body) (BadRequest ''No fields to update''))
    (bind (case ur_permissions body of
             None \<Rightarrow> ret None
           | Some v \<Rightarrow> bind (parse_bits ''permissions value'' v) (\<lambda>bits.
                bind (get_user_permissions sid auth) (\<lambda>actor_perms.
                andThen (ensure (forbidden_bits bits actor_perms = 0) (Forbidden cannot_grant))
                (ret (Some bits))))) (\<lambda>parsed_permissions.
     andThen (pg_exec (update_role_rows rid sid (update_role_sets body parsed_permissions)))
    (andThen (publish (server_events sid) (JObj [(''type'', jlit ''GUILD_ROLE_UPDATE''), (''server_id'', ji64 sid),
          (''role_id'', ji64 rid)]))
     (fetch_role rid)))))))))"

definition delete_role :: "snowflake \<Rightarrow> i64 \<Rightarrow> i64 \<Rightarrow> nat handler" where
  "delete_role auth sid rid =
     andThen (require_permissions sid auth MANAGE_ROLES)
    (bind (pg_query (\<lambda>db. map_option ro_is_default (t_find (\<lambda>r. ro_id r = rid \<and> ro_server_id r = sid) (roles db)))) (\<lambda>found.
     bind (ok_or found (NotFound ''Role not found'')) (\<lambda>is_default.
     andThen (ensure (\<not> is_default) (BadRequest ''Cannot delete the @everyone role''))
    (bind (get_actor_highest_position sid auth) (\<lambda>actor_highest.
     bind (fetch_one (\<lambda>db. map_option ro_position (t_find (\<lambda>r. ro_id r = rid) (roles db)))) (\<lambda>role_position.
     andThen (ensure (\<not> (role_position \<ge> actor_highest \<and> actor_highest \<noteq> i32_max))
          (Forbidden ''Cannot delete roles at or above your highest role position''))
    (andThen (pg_exec (delete_role_row rid sid))
    (andThen (publish (server_events sid) (JObj [(''type'', jlit ''GUILD_ROLE_DELETE''), (''server_id'', ji64 sid),
          (''role_id'', ji64 rid)]))
     (ret 204)))))))))"

text \<open>A request of \<open>reorder_roles\<close> is a list of (role, new position).\<close>

definition check_reorder_position :: "i64 \<Rightarrow> int \<Rightarrow> i64 \<times> int \<Rightarrow> unit handler" where
  "check_reorder_position sid actor_highest upd =
     bind (pg_query (role_position_of (fst upd) sid)) (\<lambda>found.
     bind (ok_or found (NotFound ''Role not found'')) (\<lambda>role_position.
     ensure (\<not> role_position \<ge> actor_highest)
       (Forbidden ''Cannot reorder roles at or above your highest role position'')))"

definition reorder_roles :: "snowflake \<Rightarrow> i64 \<Rightarrow> (i64 \<times> int) list \<Rightarrow> role_response list handler" where
  "reorder_roles auth sid body =
     andThen (require_permissions sid auth MANAGE_ROLES)
    (bind (get_actor_highest_position sid auth) (\<lambda>actor_highest.
     andThen (if actor_highest \<noteq> i32_max then for_each (check_reorder_position sid actor_highest) body else ret ())
    (andThen (for_each (\<lambda>upd. pg_exec (update_role_rows (fst upd) sid (\<lambda>r. r\<lparr>ro_position := snd upd\<rparr>))) body)
     (get_roles auth sid))))"

section \<open>Channel permission overrides\<close>

definition channel_server :: "i64 \<Rightarrow> pg_db \<Rightarrow> i64 option option" where
  "channel_server cid db = map_option ch_server_id (t_find (\<lambda>c. ch_id c = cid) (channels db))"

definition strip_administrator :: "i64 \<Rightarrow> i64" where
  "strip_administrator bits = bits AND NOT 1"

record set_override_request =
  so_target_type :: int
  so_allow :: string
  so_deny :: string

definition set_channel_override :: "snowflake \<Rightarrow> i64 \<Rightarrow> i64 \<Rightarrow> set_override_request \<Rightarrow> nat handler" where
  "set_channel_override auth cid oid body =
     bind (pg_query (channel_server cid)) (\<lambda>found.
     bind (ok_or found (NotFound ''Channel not found'')) (\<lambda>server.
     bind (ok_or server (BadRequest ''Cannot set overrides on DM channels'')) (\<lambda>sid.
     andThen (require_permissions sid auth MANAGE_ROLES)
    (bind (parse_bits ''allow permissions value'' (so_allow body)) (\<lambda>allow_raw.
     bind (parse_bits ''deny permissions value'' (so_deny body)) (\<lambda>deny_raw.
     let allow_bits = strip_administrator allow_raw; deny_bits = strip_administrator deny_raw
     in bind (get_user_permissions sid auth) (\<lambda>actor_perms.
     andThen (ensure (forbidden_bits (allow_bits OR deny_bits) actor_perms = 0)
          (Forbidden cannot_set))
    (andThen (pg_exec (upsert_override \<lparr>po_channel_id = cid, po_target_id = oid,
          po_target_type = so_target_type body, po_allow_bits = allow_bits, po_deny_bits = deny_bits\<rparr>))
     (ret 204)))))))))"

definition delete_channel_override :: "snowflake \<Rightarrow> i64 \<Rightarrow> i64 \<Rightarrow> nat handler" where
  "delete_channel_override auth cid oid =
     bind (pg_query (channel_server cid)) (\<lambda>found.
     bind (ok_or found (NotFound ''Channel not found'')) (\<lambda>server.
     bind (ok_or server (BadRequest ''Cannot modify DM channels'')) (\<lambda>sid.
     andThen (require_permissions sid auth MANAGE_ROLES)
    (andThen (pg_exec (delete_overrides (\<lambda>x. po_channel_id x = cid \<and> po_target_id x = oid)))
     (ret 204)))))"

end
