(* ===== verification/Channels.thy ===== *)
theory Channels
  imports Roles
begin

text \<open>
  \<open>routes/channels.rs\<close>: the channel handlers. The two Unicode tables of the Rust library that
  \<open>normalize_channel_name\<close> uses, \<open>str::to_lowercase\<close> and \<open>char::is_alphanumeric\<close>, are its parameters
  \<open>lower\<close> and \<open>alnum\<close>.
\<close>

record override_response =
  or_id :: snowflake
  or_target_type :: int
  or_allow :: i64
  or_deny :: i64

record channel_response =
  cn_id :: snowflake
  cn_server_id :: "snowflake option"
  cn_parent_id :: "snowflake option"
  cn_type :: int
  cn_name :: "ustr option"
  cn_topic :: "ustr option"
  cn_position :: int
  cn_bitrate :: "int option"
  cn_user_limit :: "int option"
  cn_rate_limit :: int
  cn_nsfw :: bool
  cn_last_message_id :: "snowflake option"
  cn_icon :: "ustr option"
  cn_e2ee_enabled :: bool
  cn_overrides :: "override_response list"
  cn_created_at :: int

definition channel_response_of :: "channel_row \<Rightarrow> override_row list \<Rightarrow> channel_response" where
  "channel_response_of c ovs = \<lparr>cn_id = ch_id c, cn_server_id = ch_server_id c, cn_parent_id = ch_parent_id c,
     cn_type = ch_type c, cn_name = ch_name c, cn_topic = ch_topic c, cn_position = ch_position c,
     cn_bitrate = ch_bitrate c, cn_user_limit = ch_user_limit c, cn_rate_limit = ch_rate_limit c, cn_nsfw = ch_nsfw c,
     cn_last_message_id = ch_last_message_id c, cn_icon = ch_icon c, cn_e2ee_enabled = ch_e2ee_enabled c,
     cn_overrides = map (\<lambda>o'. \<lparr>or_id = po_target_id o', or_target_type = po_target_type o',
       or_allow = po_allow_bits o', or_deny = po_deny_bits o'\<rparr>) ovs, cn_created_at = ch_created_at c\<rparr>"

definition fetch_channel :: "i64 \<Rightarrow> channel_response handler" where
  "fetch_channel cid =
     bind (pg_query (\<lambda>db. t_find (\<lambda>c. ch_id c = cid) (channels db))) (\<lambda>row.
     bind (ok_or row (NotFound ''Channel not found'')) (\<lambda>c.
     bind (pg_query (\<lambda>db. filter (\<lambda>x. po_channel_id x = cid) (overrides db))) (\<lambda>ovs.
     ret (channel_response_of c ovs))))"

definition normalize_channel_name :: "(ustr \<Rightarrow> ustr) \<Rightarrow> (nat \<Rightarrow> bool) \<Rightarrow> ustr \<Rightarrow> int \<Rightarrow> ustr" where
  "normalize_channel_name lower alnum name channel_type =
     (let trimmed = trim name
      in if channel_type = 0 \<or> channel_type = 5
         then let normalized = filter (\<lambda>c. alnum c \<or> c = of_char CHR ''-'' \<or> c = of_char CHR ''_'')
                    (map (\<lambda>c. if c = of_char CHR '' '' then of_char CHR ''-'' else c) (lower trimmed))
              in if normalized = [] then lit ''general'' else normalized
         else trimmed)"

fun fetch_channels :: "i64 list \<Rightarrow> channel_response list handler" where
  "fetch_channels [] = ret []"
| "fetch_channels (cid # cids) =
     bind (fetch_channel cid) (\<lambda>c. bind (fetch_channels cids) (\<lambda>cs. ret (c # cs)))"

text \<open>\<open>ORDER BY position ASC, id ASC\<close>: sorting by the minor key first, the major key last.\<close>

definition get_server_channels :: "snowflake \<Rightarrow> i64 \<Rightarrow> channel_response list handler" where
  "get_server_channels auth sid =
     andThen (require_member sid auth)
    (bind (pg_query (\<lambda>db. map ch_id (sort_key ch_position (sort_key (\<lambda>c. sint (ch_id c))
        (filter (\<lambda>c. ch_server_id c = Some sid) (channels db)))))) fetch_channels)"

definition get_channel :: "snowflake \<Rightarrow> i64 \<Rightarrow> channel_response handler" where
  "get_channel auth cid =
     bind (fetch_channel cid) (\<lambda>channel.
     andThen (case cn_server_id channel of
                Some sid \<Rightarrow> require_member sid auth
              | None \<Rightarrow> bind (pg_query (is_dm_recipient cid auth)) (\<lambda>b.
                   ensure b (Forbidden ''Not a recipient of this channel'')))
     (ret channel))"

record override_input =
  oi_id :: i64
  oi_target_type :: int
  oi_allow :: i64
  oi_deny :: i64

record create_channel_request =
  cc_name :: ustr
  cc_type :: "int option"
  cc_parent_id :: "i64 option"
  cc_topic :: "ustr option"
  cc_position :: "int option"
  cc_bitrate :: "int option"
  cc_user_limit :: "int option"
  cc_rate_limit :: "int option"
  cc_nsfw :: "bool option"
  cc_overrides :: "override_input list option"

definition validate_max_length :: "string \<Rightarrow> nat \<Rightarrow> ustr option \<Rightarrow> field_error list" where
  "validate_max_length field hi v =
     (case v of None \<Rightarrow> [] | Some s \<Rightarrow>
        if length s \<le> hi then [] else [\<lparr>fe_field = field, fe_message = ''Invalid '' @ field\<rparr>])"

definition check_parent :: "i64 \<Rightarrow> i64 \<Rightarrow> unit handler" where
  "check_parent sid parent_id =
     bind (pg_query (\<lambda>db. map_option ch_type
        (t_find (\<lambda>c. ch_id c = parent_id \<and> ch_server_id c = Some sid) (channels db)))) (\<lambda>found.
     bind (ok_or found (BadRequest ''Parent channel not found'')) (\<lambda>parent_type.
     andThen (ensure (parent_type = 4) (BadRequest ''Parent must be a category channel''))
    (bind (pg_query (\<lambda>db. t_count (\<lambda>c. ch_parent_id c = Some parent_id) (channels db))) (\<lambda>category_count.
     ensure (category_count < 50) (BadRequest ''Category has reached max channel limit (50)'')))))"

definition bad_target_type :: app_error where
  "bad_target_type = BadRequest ''Override target_type must be 0 (role) or 1 (member)''"

definition override_row_of :: "i64 \<Rightarrow> override_input \<Rightarrow> override_row" where
  "override_row_of cid ov = \<lparr>po_channel_id = cid, po_target_id = oi_id ov, po_target_type = oi_target_type ov,
     po_allow_bits = strip_administrator (oi_allow ov), po_deny_bits = strip_administrator (oi_deny ov)\<rparr>"

definition ensure_target_type :: "override_input \<Rightarrow> unit handler" where
  "ensure_target_type ov = ensure (oi_target_type ov = 0 \<or> oi_target_type ov = 1) bad_target_type"

definition create_channel ::
  "(ustr \<Rightarrow> ustr) \<Rightarrow> (nat \<Rightarrow> bool) \<Rightarrow> snowflake \<Rightarrow> i64 \<Rightarrow> create_channel_request \<Rightarrow>
   (nat \<times> channel_response) handler" where
  "create_channel lower alnum auth sid body =
     (let errs = validate_length ''name'' 1 100 (cc_name body) @ validate_max_length ''topic'' 1024 (cc_topic body)
      in if errs \<noteq> [] then throw (Validation errs)
         else andThen (require_permissions sid auth MANAGE_CHANNELS)
       (let channel_type = unwrap_or 0 (cc_type body)
        in andThen (ensure (channel_type \<in> {0, 2, 4, 5}) (BadRequest ''Invalid channel type for server''))
       (bind (pg_query (\<lambda>db. t_count (\<lambda>c. ch_server_id c = Some sid) (channels db))) (\<lambda>channel_count.
        andThen (ensure (channel_count < 500) (BadRequest ''Server has reached max channel limit (500)''))
       (andThen (case cc_parent_id body of None \<Rightarrow> ret () | Some parent_id \<Rightarrow> check_parent sid parent_id)
       (andThen (ensure (channel_type = 2 \<longrightarrow> (\<forall>b \<in> set_option (cc_bitrate body). 8000 \<le> b \<and> b \<le> 384000))
             (BadRequest ''Bitrate must be 8000-384000''))
       (andThen (ensure (\<forall>r \<in> set_option (cc_rate_limit body). 0 \<le> r \<and> r \<le> 21600)
             (BadRequest ''Rate limit must be 0-21600 seconds''))
       (bind fresh_id (\<lambda>cid.
        bind utc_now (\<lambda>now.
        andThen (pg_exec (insert_channel \<lparr>ch_id = cid, ch_server_id = Some sid, ch_parent_id = cc_parent_id body,
             ch_type = channel_type, ch_name = Some (normalize_channel_name lower alnum (cc_name body) channel_type),
             ch_topic = cc_topic body, ch_position = unwrap_or 0 (cc_position body), ch_bitrate = cc_bitrate body,
             ch_user_limit = cc_user_limit body, ch_rate_limit = unwrap_or 0 (cc_rate_limit body),
             ch_nsfw = unwrap_or False (cc_nsfw body), ch_last_message_id = None, ch_icon = None,
             ch_e2ee_enabled = False, ch_created_at = now\<rparr>))
       (andThen (case cc_overrides body of None \<Rightarrow> ret ()
                 | Some ovs \<Rightarrow> for_each (\<lambda>ov. andThen (ensure_target_type ov)
                      (pg_exec (insert_override (override_row_of cid ov)))) ovs)
       (andThen (publish (server_events sid) (JObj [(''type'', jlit ''CHANNEL_CREATE''), (''server_id'', ji64 sid),
             (''channel_id'', jsnow cid)]))
       (bind (fetch_channel cid) (\<lambda>channel. ret (201, channel)))))))))))))))"

record update_channel_request =
  uc_name :: "ustr option"
  uc_topic :: "ustr option option"
  uc_position :: "int option"
  uc_parent_id :: "i64 option option"
  uc_bitrate :: "int option"
  uc_user_limit :: "int option"
  uc_rate_limit :: "int option"
  uc_nsfw :: "bool option"
  uc_overrides :: "override_input list option"

text \<open>\<open>str::len\<close> counts bytes of UTF-8.\<close>

definition utf8_len :: "ustr \<Rightarrow> nat" where
  "utf8_len s = sum_list (map (\<lambda>c. if c < 128 then 1 else if c < 2048 then 2 else if c < 65536 then 3 else 4) s)"

definition update_channel_is_empty :: "update_channel_request \<Rightarrow> bool" where
  "update_channel_is_empty b \<longleftrightarrow> uc_name b = None \<and> uc_topic b = None \<and> uc_position b = None \<and>
     uc_parent_id b = None \<and> uc_bitrate b = None \<and> uc_user_limit b = None \<and> uc_rate_limit b = None \<and> uc_nsfw b = None"

definition update_channel_sets :: "ustr option \<Rightarrow> update_channel_request \<Rightarrow> channel_row \<Rightarrow> channel_row" where
  "update_channel_sets normalized_name b c = c\<lparr>
     ch_name := (case normalized_name of None \<Rightarrow> ch_name c | Some n \<Rightarrow> Some n),
     ch_topic := unwrap_or (ch_topic c) (uc_topic b),
     ch_position := unwrap_or (ch_position c) (uc_position b),
     ch_parent_id := unwrap_or (ch_parent_id c) (uc_parent_id b),
     ch_bitrate := (case uc_bitrate b of None \<Rightarrow> ch_bitrate c | Some v \<Rightarrow> Some v),
     ch_user_limit := (case uc_user_limit b of None \<Rightarrow> ch_user_limit c | Some v \<Rightarrow> Some v),
     ch_rate_limit := unwrap_or (ch_rate_limit c) (uc_rate_limit b),
     ch_nsfw := unwrap_or (ch_nsfw c) (uc_nsfw b)\<rparr>"

definition channel_server_type :: "i64 \<Rightarrow> pg_db \<Rightarrow> (i64 option \<times> int) option" where
  "channel_server_type cid db =
     map_option (\<lambda>c. (ch_server_id c, ch_type c)) (t_find (\<lambda>c. ch_id c = cid) (channels db))"

definition replace_overrides :: "i64 \<Rightarrow> override_input list \<Rightarrow> unit handler" where
  "replace_overrides cid ovs =
     andThen (for_each ensure_target_type ovs)
     (transaction
       (andThen (pg_exec (delete_overrides (\<lambda>x. po_channel_id x = cid)))
         (for_each (\<lambda>ov. pg_exec (insert_override (override_row_of cid ov))) ovs)))"

definition update_channel ::
  "(ustr \<Rightarrow> ustr) \<Rightarrow> (nat \<Rightarrow> bool) \<Rightarrow> snowflake \<Rightarrow> i64 \<Rightarrow> update_channel_request \<Rightarrow> channel_response handler" where
  "update_channel lower alnum auth cid body =
     bind (pg_query (channel_server_type cid)) (\<lambda>found.
     bind (ok_or found (NotFound ''Channel not found'')) (\<lambda>(server, channel_type).
     bind (ok_or server (BadRequest ''Cannot update DM channels this way'')) (\<lambda>sid.
     andThen (require_permissions sid auth MANAGE_CHANNELS)
    (andThen (ensure (\<forall>n \<in> set_option (uc_name body). trim n \<noteq> [] \<and> utf8_len n \<le> 100)
          (BadRequest ''Channel name must be 1-100 characters''))
    (andThen (ensure (\<forall>t \<in> set_option (unwrap_or None (uc_topic body)). utf8_len t \<le> 1024)
          (BadRequest ''Topic must be 1024 characters or less''))
    (andThen (ensure (\<forall>b \<in> set_option (uc_bitrate body). 8000 \<le> b \<and> b \<le> 384000)
          (BadRequest ''Bitrate must be 8000-384000''))
    (andThen (ensure (\<forall>r \<in> set_option (uc_rate_limit body). 0 \<le> r \<and> r \<le> 21600)
          (BadRequest ''Rate limit must be 0-21600''))
    (let normalized_name = map_option (\<lambda>n. normalize_channel_name lower alnum n channel_type) (uc_name body)
     in andThen (if update_channel_is_empty body then ret ()
                 else pg_exec (update_channel_rows (\<lambda>c. ch_id c = cid) (update_channel_sets normalized_name body)))
    (andThen (case uc_overrides body of None \<Rightarrow> ret () | Some ovs \<Rightarrow> replace_overrides cid ovs)
    (andThen (publish (server_events sid) (JObj [(''type'', jlit ''CHANNEL_UPDATE''), (''server_id'', ji64 sid),
          (''channel_id'', ji64 cid)]))
     (fetch_channel cid)))))))))))"

definition delete_channel :: "snowflake \<Rightarrow> i64 \<Rightarrow> nat handler" where
  "delete_channel auth cid =
     bind (pg_query (channel_server_type cid)) (\<lambda>found.
     bind (ok_or found (NotFound ''Channel not found'')) (\<lambda>(server, channel_type).
     bind (ok_or server (BadRequest ''Cannot delete DM channels this way'')) (\<lambda>sid.
     andThen (require_permissions sid auth MANAGE_CHANNELS)
    (andThen (if channel_type = 0
              then bind (pg_query (\<lambda>db. t_count (\<lambda>c. ch_server_id c = Some sid \<and> ch_type c = 0) (channels db))) (\<lambda>text_count.
                   ensure (\<not> text_count \<le> 1) (BadRequest ''Cannot delete the last text channel in a server''))
              else ret ())
    (andThen (if channel_type = 4
              then pg_exec (update_channel_rows (\<lambda>c. ch_parent_id c = Some cid) (\<lambda>c. c\<lparr>ch_parent_id := None\<rparr>))
              else ret ())
    (andThen (pg_exec (delete_channel_row cid))
    (andThen (publish (server_events sid) (JObj [(''type'', jlit ''CHANNEL_DELETE''), (''server_id'', ji64 sid),
          (''channel_id'', ji64 cid)]))
     (ret 204))))))))"

text \<open>One entry of \<open>reorder_channels\<close>: (channel, position, new parent when given).\<close>

definition reorder_channels :: "snowflake \<Rightarrow> i64 \<Rightarrow> (i64 \<times> int \<times> i64 option option) list \<Rightarrow> nat handler" where
  "reorder_channels auth sid body =
     andThen (require_permissions sid auth MANAGE_CHANNELS)
    (andThen (for_each (\<lambda>(cid, position, parent_id).
         pg_exec (update_channel_rows (\<lambda>c. ch_id c = cid \<and> ch_server_id c = Some sid)
           (case parent_id of
              Some p \<Rightarrow> (\<lambda>c. c\<lparr>ch_position := position, ch_parent_id := p\<rparr>)
            | None \<Rightarrow> (\<lambda>c. c\<lparr>ch_position := position\<rparr>)))) body)
    (andThen (publish (server_events sid) (JObj [(''type'', jlit ''CHANNEL_UPDATE''), (''server_id'', ji64 sid)]))
     (ret 204)))"

definition follow_channel :: "string \<Rightarrow> snowflake \<Rightarrow> i64 \<Rightarrow> i64 \<Rightarrow> (nat \<times> snowflake \<times> snowflake) handler" where
  "follow_channel token auth cid webhook_channel_id =
     bind (pg_query (channel_server_type cid)) (\<lambda>found.
     bind (ok_or found (NotFound ''Channel not found'')) (\<lambda>(source, channel_type).
     andThen (ensure (channel_type = 5) (BadRequest ''Can only follow announcement channels''))
    (bind (pg_query (channel_server webhook_channel_id)) (\<lambda>target.
     bind (ok_or target (NotFound ''Target channel not found'')) (\<lambda>target_server_id.
     andThen (case target_server_id of Some sid \<Rightarrow> require_permissions sid auth MANAGE_WEBHOOKS | None \<Rightarrow> ret ())
    (bind fresh_id (\<lambda>webhook_id.
     bind utc_now (\<lambda>now.
     andThen (pg_exec (insert_webhook \<lparr>wh_id = webhook_id, wh_server_id = unwrap_or 0 target_server_id,
          wh_channel_id = webhook_channel_id, wh_creator_id = Some auth, wh_name = lit ''Announcement Follow'',
          wh_avatar = None, wh_token = token, wh_type = 2, wh_created_at = now\<rparr>))
     (ret (201, cid, webhook_channel_id))))))))))"

end
