(* ===== verification/Messages.thy ===== *)
theory Messages
  imports Roles
begin

text \<open>
  \<open>routes/messages.rs\<close> and the CQL statements of \<open>lumiere-db/src/lib.rs\<close> it runs: reading a channel
  bucket by bucket, parsing mentions, sending with slow mode and time-out, editing, soft deletion and pins.
  A CQL \<open>UPDATE\<close> or \<open>INSERT\<close> is an upsert on the primary key. The columns \<open>mentions\<close>, \<open>mention_roles\<close>,
  \<open>embeds\<close> and \<open>attachments\<close> hold JSON text that \<open>serde_json\<close> wrote; the model keeps the value.
\<close>

section \<open>CQL statements\<close>

definition message_key :: "i64 \<Rightarrow> int \<Rightarrow> i64 \<Rightarrow> message_row \<Rightarrow> bool" where
  "message_key cid b mid r \<longleftrightarrow> ms_channel_id r = cid \<and> ms_bucket r = b \<and> ms_id r = mid"

definition cql_messages_before :: "i64 \<Rightarrow> i64 \<Rightarrow> int \<Rightarrow> nat \<Rightarrow> scylla_db \<Rightarrow> message_row list" where
  "cql_messages_before cid before b lim sc = take lim (sort_key (\<lambda>r. - sint (ms_id r))
     (filter (\<lambda>r. ms_channel_id r = cid \<and> ms_bucket r = b \<and> sint (ms_id r) < sint before) (messages sc)))"

definition cql_messages_after :: "i64 \<Rightarrow> i64 \<Rightarrow> int \<Rightarrow> nat \<Rightarrow> scylla_db \<Rightarrow> message_row list" where
  "cql_messages_after cid after b lim sc = take lim (sort_key (\<lambda>r. sint (ms_id r))
     (filter (\<lambda>r. ms_channel_id r = cid \<and> ms_bucket r = b \<and> sint after < sint (ms_id r)) (messages sc)))"

definition cql_messages_latest :: "i64 \<Rightarrow> int \<Rightarrow> nat \<Rightarrow> scylla_db \<Rightarrow> message_row list" where
  "cql_messages_latest cid b lim sc = take lim (sort_key (\<lambda>r. - sint (ms_id r))
     (filter (\<lambda>r. ms_channel_id r = cid \<and> ms_bucket r = b) (messages sc)))"

definition cql_message_by_id :: "i64 \<Rightarrow> int \<Rightarrow> i64 \<Rightarrow> scylla_db \<Rightarrow> message_row list" where
  "cql_message_by_id cid b mid sc = filter (message_key cid b mid) (messages sc)"

definition blank_message :: "i64 \<Rightarrow> int \<Rightarrow> i64 \<Rightarrow> message_row" where
  "blank_message cid b mid = \<lparr>ms_channel_id = cid, ms_bucket = b, ms_id = mid, ms_author_id = None,
     ms_content = None, ms_type = None, ms_flags = None, ms_edited_at = None, ms_pinned = None,
     ms_mention_everyone = None, ms_mentions = None, ms_mention_roles = None, ms_embeds = None,
     ms_attachments = None, ms_reference_id = None, ms_deleted = None\<rparr>"

definition cql_upsert_message ::
  "i64 \<Rightarrow> int \<Rightarrow> i64 \<Rightarrow> (message_row \<Rightarrow> message_row) \<Rightarrow> scylla_db \<Rightarrow> scylla_db" where
  "cql_upsert_message cid b mid f sc = sc\<lparr>messages :=
     (if t_has (message_key cid b mid) (messages sc) then t_update (message_key cid b mid) f (messages sc)
      else t_insert (f (blank_message cid b mid)) (messages sc))\<rparr>"

definition cql_soft_delete :: "i64 \<Rightarrow> int \<Rightarrow> i64 \<Rightarrow> scylla_db \<Rightarrow> scylla_db" where
  "cql_soft_delete cid b mid = cql_upsert_message cid b mid (\<lambda>r. r\<lparr>ms_deleted := Some True\<rparr>)"

definition cql_set_pinned :: "bool \<Rightarrow> i64 \<Rightarrow> int \<Rightarrow> i64 \<Rightarrow> scylla_db \<Rightarrow> scylla_db" where
  "cql_set_pinned v cid b mid = cql_upsert_message cid b mid (\<lambda>r. r\<lparr>ms_pinned := Some v\<rparr>)"

definition cql_pin_ids :: "i64 \<Rightarrow> scylla_db \<Rightarrow> i64 list" where
  "cql_pin_ids cid sc = map pn_message_id (sort_key (\<lambda>p. - sint (pn_message_id p))
     (filter (\<lambda>p. pn_channel_id p = cid) (pins sc)))"

definition cql_count_pins :: "i64 \<Rightarrow> scylla_db \<Rightarrow> nat" where
  "cql_count_pins cid sc = t_count (\<lambda>p. pn_channel_id p = cid) (pins sc)"

definition cql_insert_pin :: "pin_row \<Rightarrow> scylla_db \<Rightarrow> scylla_db" where
  "cql_insert_pin p sc = sc\<lparr>pins :=
     t_insert p (t_delete (\<lambda>x. pn_channel_id x = pn_channel_id p \<and> pn_message_id x = pn_message_id p) (pins sc))\<rparr>"

definition cql_delete_pin :: "i64 \<Rightarrow> i64 \<Rightarrow> scylla_db \<Rightarrow> scylla_db" where
  "cql_delete_pin cid mid sc = sc\<lparr>pins := t_delete (\<lambda>x. pn_channel_id x = cid \<and> pn_message_id x = mid) (pins sc)\<rparr>"

section \<open>Typed rows\<close>

text \<open>\<open>MsgRow\<close>: the columns that are not \<open>Option\<close> must not be null, or the row does not decode.\<close>

record msg_row =
  mg_id :: i64
  mg_channel_id :: i64
  mg_author_id :: i64
  mg_content :: "ustr option"
  mg_type :: int
  mg_flags :: i64
  mg_edited_at :: "int option"
  mg_pinned :: bool
  mg_mention_everyone :: bool
  mg_mentions :: "i64 list option"
  mg_mention_roles :: "i64 list option"
  mg_embeds :: "json option"
  mg_attachments :: "json option"
  mg_reference_id :: "i64 option"
  mg_deleted :: bool

definition decode_msg_row :: "message_row \<Rightarrow> msg_row option" where
  "decode_msg_row r =
     (case (ms_author_id r, ms_type r, ms_flags r, ms_pinned r, ms_mention_everyone r, ms_deleted r) of
        (Some author, Some ty, Some flags, Some pinned, Some everyone, Some deleted) \<Rightarrow>
          Some \<lparr>mg_id = ms_id r, mg_channel_id = ms_channel_id r, mg_author_id = author, mg_content = ms_content r,
            mg_type = ty, mg_flags = flags, mg_edited_at = ms_edited_at r, mg_pinned = pinned,
            mg_mention_everyone = everyone, mg_mentions = ms_mentions r, mg_mention_roles = ms_mention_roles r,
            mg_embeds = ms_embeds r, mg_attachments = ms_attachments r, mg_reference_id = ms_reference_id r,
            mg_deleted = deleted\<rparr>
      | _ \<Rightarrow> None)"

definition extract_msg_rows :: "message_row list \<Rightarrow> msg_row list" where
  "extract_msg_rows rows = filter (\<lambda>r. \<not> mg_deleted r) (List.map_filter decode_msg_row rows)"

record message_response =
  mp_id :: snowflake
  mp_channel_id :: snowflake
  mp_author_id :: snowflake
  mp_content :: "ustr option"
  mp_timestamp :: int
  mp_edited_timestamp :: "int option"
  mp_type :: int
  mp_flags :: i64
  mp_pinned :: bool
  mp_mention_everyone :: bool
  mp_mentions :: "i64 list"
  mp_mention_roles :: "i64 list"
  mp_embeds :: "json option"
  mp_attachments :: "json option"
  mp_reference_id :: "snowflake option"

definition row_to_response :: "msg_row \<Rightarrow> message_response" where
  "row_to_response r = \<lparr>mp_id = mg_id r, mp_channel_id = mg_channel_id r, mp_author_id = mg_author_id r,
     mp_content = mg_content r, mp_timestamp = created_at (mg_id r), mp_edited_timestamp = mg_edited_at r,
     mp_type = mg_type r, mp_flags = mg_flags r, mp_pinned = mg_pinned r,
     mp_mention_everyone = mg_mention_everyone r, mp_mentions = unwrap_or [] (mg_mentions r),
     mp_mention_roles = unwrap_or [] (mg_mention_roles r), mp_embeds = mg_embeds r,
     mp_attachments = mg_attachments r, mp_reference_id = mg_reference_id r\<rparr>"

section \<open>Helpers\<close>

definition get_channel_server :: "i64 \<Rightarrow> i64 option handler" where
  "get_channel_server cid =
     bind (pg_query (channel_server cid)) (\<lambda>found. ok_or found (NotFound ''Channel not found''))"

definition check_channel_permission :: "i64 \<Rightarrow> snowflake \<Rightarrow> permissions \<Rightarrow> i64 option handler" where
  "check_channel_permission cid uid perm =
     bind (get_channel_server cid) (\<lambda>server.
       case server of
         Some sid \<Rightarrow> andThen (require_permissions sid uid perm) (ret (Some sid))
       | None \<Rightarrow> bind (pg_query (is_dm_recipient cid uid)) (\<lambda>b.
            andThen (ensure b (Forbidden ''Not a recipient of this channel'')) (ret None)))"

text \<open>
  The loop over the buckets: \<open>q b n\<close> is the prepared statement on bucket \<open>b\<close> with \<open>LIMIT n\<close>.
\<close>

fun scan_buckets ::
  "(int \<Rightarrow> nat \<Rightarrow> scylla_db \<Rightarrow> message_row list) \<Rightarrow> nat \<Rightarrow> int list \<Rightarrow> msg_row list \<Rightarrow> msg_row list handler" where
  "scan_buckets q limit [] results = ret results"
| "scan_buckets q limit (b # bs) results =
     (if length results \<ge> limit then ret results
      else bind (scylla_query (q b (limit - length results)))
             (\<lambda>rows. scan_buckets q limit bs (results @ extract_msg_rows rows)))"

definition query_messages :: "i64 \<Rightarrow> i64 option \<Rightarrow> i64 option \<Rightarrow> nat \<Rightarrow> msg_row list handler" where
  "query_messages cid before after limit =
     bind utc_now (\<lambda>now.
       case before of
         Some before_id \<Rightarrow>
           (let min_bucket = max (bucket_from_snowflake before_id - 20) 0
            in scan_buckets (cql_messages_before cid before_id) limit (buckets_before before_id min_bucket) [])
       | None \<Rightarrow> (case after of
           Some after_id \<Rightarrow>
             scan_buckets (cql_messages_after cid after_id) limit
               [bucket_from_snowflake after_id..current_bucket now] []
         | None \<Rightarrow>
             (let current = current_bucket now; min_bucket = max (current - 20) 0
              in scan_buckets (cql_messages_latest cid) limit (rev [min_bucket..current]) [])))"

text \<open>\<open>str::contains\<close>, and the two patterns \<open><@(\d+)>\<close> and \<open><@&(\d+)>\<close> of \<open>regex_lite\<close>, whose \<open>\d\<close> is ASCII.\<close>

fun contains_str :: "ustr \<Rightarrow> ustr \<Rightarrow> bool" where
  "contains_str p [] = (p = [])"
| "contains_str p (c # cs) = (take (length p) (c # cs) = p \<or> contains_str p cs)"

definition is_ascii_digit :: "nat \<Rightarrow> bool" where
  "is_ascii_digit c \<longleftrightarrow> 48 \<le> c \<and> c \<le> 57"

definition parsed_id :: "ustr \<Rightarrow> i64 list" where
  "parsed_id ds = (case parse_i64 (map char_of ds) of Inl _ \<Rightarrow> [] | Inr v \<Rightarrow> [v])"

function scan_mentions :: "ustr \<Rightarrow> ustr \<Rightarrow> i64 list" where
  "scan_mentions opener [] = []"
| "scan_mentions opener (c # cs) =
     (let body = drop (length opener) (c # cs);
          ds = takeWhile is_ascii_digit body;
          rest = dropWhile is_ascii_digit body
      in if take (length opener) (c # cs) = opener \<and> ds \<noteq> [] \<and> rest \<noteq> [] \<and> hd rest = of_char CHR ''>''
         then parsed_id ds @ scan_mentions opener (tl rest)
         else scan_mentions opener cs)"
  by pat_completeness auto
termination
proof (relation "measure (\<lambda>(opener, s). length s)")
  fix opener c cs body ds and rest :: ustr
  assume "body = drop (length opener) (c # cs)" "rest = dropWhile is_ascii_digit body"
    "take (length opener) (c # cs) = opener \<and> ds \<noteq> [] \<and> rest \<noteq> [] \<and> hd rest = of_char CHR ''>''"
  moreover have "length (dropWhile is_ascii_digit body) \<le> length body" by (rule length_dropWhile_le)
  ultimately have "length rest \<le> length (c # cs)" "rest \<noteq> []" by auto
  then show "((opener, tl rest), opener, c # cs) \<in> measure (\<lambda>(opener, s). length s)"
    by (cases rest) auto
qed auto

definition parse_mentions :: "ustr \<Rightarrow> i64 list \<times> i64 list \<times> bool" where
  "parse_mentions content =
     (scan_mentions (lit ''<@'') content, scan_mentions (lit ''<@&'') content,
      contains_str (lit ''@everyone'') content \<or> contains_str (lit ''@here'') content)"

section \<open>Handlers\<close>

record get_messages_query =
  gq_limit :: "int option"
  gq_before :: "i64 option"
  gq_after :: "i64 option"
  gq_around :: "i64 option"

definition clamp_limit :: "int \<Rightarrow> nat" where
  "clamp_limit v = nat (if v < 1 then 1 else if v > 100 then 100 else v)"

definition get_messages :: "snowflake \<Rightarrow> i64 \<Rightarrow> get_messages_query \<Rightarrow> message_response list handler" where
  "get_messages auth cid query =
     andThen (check_channel_permission cid auth READ_MESSAGE_HISTORY)
     (let limit = clamp_limit (unwrap_or 50 (gq_limit query))
      in bind (case gq_around query of
             Some around_id \<Rightarrow>
               (let half = limit div 2
                in bind (query_messages cid (Some around_id) None half) (\<lambda>before.
                   bind (query_messages cid None (Some around_id) half) (\<lambda>after.
                   bind (scylla_query (cql_message_by_id cid (bucket_from_snowflake around_id) around_id)) (\<lambda>target.
                   ret (after @ extract_msg_rows target @ before)))))
           | None \<Rightarrow> query_messages cid (gq_before query) (gq_after query) limit) (\<lambda>rows.
         ret (map row_to_response rows)))"

definition get_message :: "snowflake \<Rightarrow> i64 \<Rightarrow> i64 \<Rightarrow> message_response handler" where
  "get_message auth cid mid =
     andThen (check_channel_permission cid auth READ_MESSAGE_HISTORY)
    (bind (scylla_query (cql_message_by_id cid (bucket_from_snowflake mid) mid)) (\<lambda>rows.
     bind (ok_or (case extract_msg_rows rows of [] \<Rightarrow> None | r # _ \<Rightarrow> Some r) (NotFound ''Message not found'')) (\<lambda>row.
     ret (row_to_response row))))"

record send_message_request =
  sm_content :: "ustr option"
  sm_embeds :: "json option"
  sm_reference :: "i64 option"
  sm_attachments :: "json option"

definition json_given :: "json option \<Rightarrow> bool" where
  "json_given v = (case v of None \<Rightarrow> False | Some j \<Rightarrow> j \<noteq> JNull)"

definition slowmode_key :: "i64 \<Rightarrow> snowflake \<Rightarrow> string" where
  "slowmode_key cid uid = ''slowmode:'' @ show_i64 cid @ '':'' @ show_u64 uid"

definition check_slowmode :: "i64 \<Rightarrow> snowflake \<Rightarrow> int \<Rightarrow> unit handler" where
  "check_slowmode cid auth rate_limit =
     (if rate_limit > 0
      then bind (redis_exists_or_false (slowmode_key cid auth)) (\<lambda>exists.
             ensure (\<not> exists) (RateLimited (of_int rate_limit)))
      else ret ())"

definition check_timeout :: "i64 option \<Rightarrow> snowflake \<Rightarrow> unit handler" where
  "check_timeout server auth =
     (case server of
        None \<Rightarrow> ret ()
      | Some sid \<Rightarrow>
          bind (pg_query (\<lambda>db. case t_find (\<lambda>m. mb_server_id m = sid \<and> mb_user_id m = auth) (members db) of
                 None \<Rightarrow> None | Some m \<Rightarrow> mb_disabled_until m)) (\<lambda>timed_out.
          bind utc_now (\<lambda>now.
            ensure (\<forall>until \<in> set_option timed_out. \<not> until > now) (Forbidden ''You are timed out in this server''))))"

definition may_mention_everyone :: "bool \<Rightarrow> i64 option \<Rightarrow> snowflake \<Rightarrow> bool handler" where
  "may_mention_everyone detected server auth =
     (if detected
      then (case server of Some sid \<Rightarrow> is_ok (require_permissions sid auth MENTION_EVERYONE) | None \<Rightarrow> ret True)
      else ret False)"

definition jopt :: "('a \<Rightarrow> json) \<Rightarrow> 'a option \<Rightarrow> json" where
  "jopt f v = (case v of None \<Rightarrow> JNull | Some x \<Rightarrow> f x)"

text \<open>\<open>serde_json::to_value(&response)\<close>; \<open>rfc3339\<close> is chrono's text of a time.\<close>

definition message_json :: "(int \<Rightarrow> ustr) \<Rightarrow> message_response \<Rightarrow> json" where
  "message_json rfc3339 r = JObj [(''id'', jsnow (mp_id r)), (''channel_id'', jsnow (mp_channel_id r)),
     (''author_id'', jsnow (mp_author_id r)), (''content'', jopt JStr (mp_content r)),
     (''timestamp'', JStr (rfc3339 (mp_timestamp r))),
     (''edited_timestamp'', jopt (\<lambda>t. JStr (rfc3339 t)) (mp_edited_timestamp r)),
     (''type'', JInt (mp_type r)), (''flags'', ji64 (mp_flags r)), (''pinned'', JBool (mp_pinned r)),
     (''mention_everyone'', JBool (mp_mention_everyone r)), (''mentions'', JArr (map ji64 (mp_mentions r))),
     (''mention_roles'', JArr (map ji64 (mp_mention_roles r))), (''embeds'', jopt id (mp_embeds r)),
     (''attachments'', jopt id (mp_attachments r)), (''reference_id'', jopt jsnow (mp_reference_id r))]"

definition channel_messages :: "i64 \<Rightarrow> string" where
  "channel_messages cid = ''channel.'' @ show_i64 cid @ ''.messages''"

definition persist_messages :: "i64 \<Rightarrow> string" where
  "persist_messages cid = ''persist.messages.'' @ show_i64 cid"

definition send_message ::
  "(int \<Rightarrow> ustr) \<Rightarrow> snowflake \<Rightarrow> i64 \<Rightarrow> send_message_request \<Rightarrow> (nat \<times> message_response) handler" where
  "send_message rfc3339 auth cid body =
     bind (check_channel_permission cid auth SEND_MESSAGES) (\<lambda>server.
     andThen (ensure ((\<exists>c \<in> set_option (sm_content body). c \<noteq> []) \<or> json_given (sm_embeds body) \<or>
          json_given (sm_attachments body)) (BadRequest ''Message must have content, embeds, or attachments''))
    (andThen (ensure (\<forall>c \<in> set_option (sm_content body). \<not> length c > 4000)
          (BadRequest ''Content must be 4000 characters or less''))
    (bind (pg_query (\<lambda>db. unwrap_or 0 (map_option ch_rate_limit (t_find (\<lambda>c. ch_id c = cid) (channels db))))) (\<lambda>rate_limit.
     andThen (check_slowmode cid auth rate_limit)
    (andThen (check_timeout server auth)
    (bind fresh_id (\<lambda>mid.
     let b = bucket_from_snowflake mid;
         (users, role_ids, detected) =
           (case sm_content body of None \<Rightarrow> ([], [], False) | Some c \<Rightarrow> parse_mentions c)
     in bind (may_mention_everyone detected server auth) (\<lambda>everyone.
     let ty = (if sm_reference body \<noteq> None then 19 else 0)
     in andThen (scylla_exec (cql_upsert_message cid b mid (\<lambda>r. r\<lparr>ms_author_id := Some auth,
          ms_content := sm_content body, ms_type := Some ty, ms_flags := Some 0, ms_pinned := Some False,
          ms_mention_everyone := Some everyone, ms_mentions := Some users, ms_mention_roles := Some role_ids,
          ms_embeds := sm_embeds body, ms_attachments := sm_attachments body, ms_reference_id := sm_reference body,
          ms_deleted := Some False\<rparr>)))
    (andThen (pg_exec (update_channel_rows (\<lambda>c. ch_id c = cid) (\<lambda>c. c\<lparr>ch_last_message_id := Some mid\<rparr>)))
    (andThen (if rate_limit > 0 then redis_set_ex (slowmode_key cid auth) (RText ''1'') rate_limit else ret ())
    (let response = \<lparr>mp_id = mid, mp_channel_id = cid, mp_author_id = auth, mp_content = sm_content body,
          mp_timestamp = created_at mid, mp_edited_timestamp = None, mp_type = ty, mp_flags = 0, mp_pinned = False,
          mp_mention_everyone = everyone, mp_mentions = users, mp_mention_roles = role_ids,
          mp_embeds = sm_embeds body, mp_attachments = sm_attachments body, mp_reference_id = sm_reference body\<rparr>;
         event = JObj [(''type'', jlit ''MESSAGE_CREATE''), (''channel_id'', ji64 cid),
          (''server_id'', jopt ji64 server), (''message'', message_json rfc3339 response)]
     in andThen (publish (channel_messages cid) event)
    (andThen (case server of Some sid \<Rightarrow> publish (server_events sid) event | None \<Rightarrow> ret ())
    (andThen (publish_durable (persist_messages cid) event)
     (ret (201, response)))))))))))))))"

text \<open>\<open>get_message_author\<close>: the first row, whose author may be a null that does not decode.\<close>

definition message_author :: "i64 \<Rightarrow> int \<Rightarrow> i64 \<Rightarrow> i64 handler" where
  "message_author cid b mid =
     bind (scylla_query (cql_message_by_id cid b mid)) (\<lambda>rows.
       case rows of
         [] \<Rightarrow> throw (NotFound ''Message not found'')
       | r # _ \<Rightarrow> ok_or (ms_author_id r) (Internal ''ScyllaDB error: unexpected null''))"

record edit_message_request =
  em_content :: "ustr option"
  em_embeds :: "json option"

definition may_edit_others :: "i64 option \<Rightarrow> snowflake \<Rightarrow> edit_message_request \<Rightarrow> unit handler" where
  "may_edit_others server auth body =
     andThen (ensure (em_content body = None \<and> em_embeds body = None) (Forbidden ''Can only edit your own messages''))
     (case server of
        Some sid \<Rightarrow> require_permissions sid auth MANAGE_MESSAGES
      | None \<Rightarrow> throw (Forbidden (''Cannot edit others'' @ [CHR 0x27] @ '' messages in DMs'')))"

definition edit_message :: "snowflake \<Rightarrow> i64 \<Rightarrow> i64 \<Rightarrow> edit_message_request \<Rightarrow> message_response handler" where
  "edit_message auth cid mid body =
     bind (check_channel_permission cid auth SEND_MESSAGES) (\<lambda>server.
     let b = bucket_from_snowflake mid
     in bind (message_author cid b mid) (\<lambda>author.
     andThen (if author \<noteq> auth then may_edit_others server auth body else ret ())
    (bind utc_now (\<lambda>now.
     andThen (case em_content body of None \<Rightarrow> ret ()
              | Some content \<Rightarrow> scylla_exec (cql_upsert_message cid b mid
                  (\<lambda>r. r\<lparr>ms_content := Some content, ms_edited_at := Some now\<rparr>)))
    (andThen (case em_embeds body of None \<Rightarrow> ret ()
              | Some embeds \<Rightarrow> scylla_exec (cql_upsert_message cid b mid
                  (\<lambda>r. r\<lparr>ms_embeds := Some embeds, ms_edited_at := Some now\<rparr>)))
    (let event = JObj [(''type'', jlit ''MESSAGE_UPDATE''), (''channel_id'', ji64 cid), (''message_id'', ji64 mid)]
     in andThen (publish (channel_messages cid) event)
    (andThen (publish_durable (persist_messages cid) event)
     (get_message auth cid mid))))))))"

definition delete_message :: "snowflake \<Rightarrow> i64 \<Rightarrow> i64 \<Rightarrow> nat handler" where
  "delete_message auth cid mid =
     andThen (check_channel_permission cid auth VIEW_CHANNEL)
     (let b = bucket_from_snowflake mid
      in bind (message_author cid b mid) (\<lambda>author.
      andThen (if author \<noteq> auth then andThen (check_channel_permission cid auth MANAGE_MESSAGES) (ret ()) else ret ())
     (andThen (scylla_exec (cql_soft_delete cid b mid))
     (let event = JObj [(''type'', jlit ''MESSAGE_DELETE''), (''channel_id'', ji64 cid), (''message_id'', ji64 mid)]
      in andThen (publish (channel_messages cid) event)
     (andThen (publish_durable (persist_messages cid) event)
      (ret 204))))))"

fun soft_delete_all :: "i64 \<Rightarrow> i64 list \<Rightarrow> i64 list \<Rightarrow> i64 list handler" where
  "soft_delete_all cid [] errors = ret errors"
| "soft_delete_all cid (mid # mids) errors =
     bind (is_ok (scylla_exec (cql_soft_delete cid (bucket_from_snowflake mid) mid))) (\<lambda>ok.
       soft_delete_all cid mids (if ok then errors else errors @ [mid]))"

definition bulk_delete :: "snowflake \<Rightarrow> i64 \<Rightarrow> i64 list \<Rightarrow> nat handler" where
  "bulk_delete auth cid mids =
     andThen (check_channel_permission cid auth MANAGE_MESSAGES)
    (andThen (ensure (\<not> (length mids < 2 \<or> length mids > 100)) (BadRequest ''Must provide 2-100 message IDs''))
    (bind (soft_delete_all cid mids []) (\<lambda>errors.
     let deleted_ids = filter (\<lambda>i. i \<notin> set errors) mids;
         event = JObj [(''type'', jlit ''MESSAGE_DELETE_BULK''), (''channel_id'', ji64 cid),
           (''ids'', JArr (map ji64 deleted_ids))]
     in andThen (publish (channel_messages cid) event)
    (andThen (publish_durable (persist_messages cid) event)
     (ret 204)))))"

section \<open>Pins\<close>

text \<open>
  The pins grouped by bucket. The \<open>HashMap\<close> gives the buckets in any order; the model takes them in the
  order of their first pin.
\<close>

fun fetch_pinned :: "i64 \<Rightarrow> (int \<times> i64) list \<Rightarrow> message_response list handler" where
  "fetch_pinned cid [] = ret []"
| "fetch_pinned cid ((b, mid) # rest) =
     bind (scylla_query (cql_message_by_id cid b mid)) (\<lambda>rows.
     bind (fetch_pinned cid rest) (\<lambda>ms. ret (map row_to_response (extract_msg_rows rows) @ ms)))"

definition pins_by_bucket :: "i64 list \<Rightarrow> (int \<times> i64) list" where
  "pins_by_bucket ids =
     concat (map (\<lambda>b. map (\<lambda>i. (b, i)) (filter (\<lambda>i. bucket_from_snowflake i = b) ids))
       (remdups (map bucket_from_snowflake ids)))"

definition get_pins :: "snowflake \<Rightarrow> i64 \<Rightarrow> message_response list handler" where
  "get_pins auth cid =
     andThen (check_channel_permission cid auth VIEW_CHANNEL)
    (bind (scylla_query (cql_pin_ids cid)) (\<lambda>ids. fetch_pinned cid (pins_by_bucket ids)))"

definition pins_event :: "i64 \<Rightarrow> json" where
  "pins_event cid = JObj [(''type'', jlit ''CHANNEL_PINS_UPDATE''), (''channel_id'', ji64 cid)]"

definition message_exists :: "message_row list \<Rightarrow> bool" where
  "message_exists rows = (case rows of [] \<Rightarrow> False | r # _ \<Rightarrow> ms_deleted r = Some False)"

definition pin_message :: "snowflake \<Rightarrow> i64 \<Rightarrow> i64 \<Rightarrow> nat handler" where
  "pin_message auth cid mid =
     andThen (check_channel_permission cid auth MANAGE_MESSAGES)
    (bind (scylla_query (cql_count_pins cid)) (\<lambda>count.
     andThen (ensure (\<not> count \<ge> 50) (BadRequest ''Channel has reached max pins (50)''))
     (let b = bucket_from_snowflake mid
      in bind (scylla_query (cql_message_by_id cid b mid)) (\<lambda>rows.
      andThen (ensure (message_exists rows) (NotFound ''Message not found''))
     (andThen (scylla_exec (cql_set_pinned True cid b mid))
     (bind utc_now (\<lambda>now.
      andThen (scylla_exec (cql_insert_pin \<lparr>pn_channel_id = cid, pn_message_id = mid, pn_pinned_by = auth, pn_pinned_at = now\<rparr>))
     (andThen (publish (channel_messages cid) (pins_event cid))
      (ret 204)))))))))"

definition unpin_message :: "snowflake \<Rightarrow> i64 \<Rightarrow> i64 \<Rightarrow> nat handler" where
  "unpin_message auth cid mid =
     andThen (check_channel_permission cid auth MANAGE_MESSAGES)
    (andThen (scylla_exec (cql_set_pinned False cid (bucket_from_snowflake mid) mid))
    (andThen (scylla_exec (cql_delete_pin cid mid))
    (andThen (publish (channel_messages cid) (pins_event cid))
     (ret 204))))"

end
