(* ===== verification/Moderation.thy ===== *)
theory Moderation
  imports Servers
begin

text \<open>
  \<open>routes/moderation.rs\<close>: warnings with their audit entries, the audit log query, the auto-moderation
  rules and user reports.
\<close>

record warning_response =
  wr_id :: snowflake
  wr_server_id :: snowflake
  wr_user_id :: snowflake
  wr_moderator_id :: "snowflake option"
  wr_reason :: ustr
  wr_created_at :: int

definition warning_response_of :: "warning_row \<Rightarrow> warning_response" where
  "warning_response_of r = \<lparr>wr_id = wa_id r, wr_server_id = wa_server_id r, wr_user_id = wa_user_id r,
     wr_moderator_id = wa_moderator_id r, wr_reason = wa_reason r, wr_created_at = wa_created_at r\<rparr>"

definition new_audit_row :: "i64 \<Rightarrow> i64 \<Rightarrow> snowflake \<Rightarrow> i64 \<Rightarrow> int \<Rightarrow> ustr \<Rightarrow> int \<Rightarrow> audit_row" where
  "new_audit_row aid sid actor target action reason now = \<lparr>al_id = aid, al_server_id = sid, al_user_id = Some actor,
     al_target_id = Some target, al_action_type = action, al_changes = None, al_reason = Some reason,
     al_created_at = now\<rparr>"

definition create_warning :: "snowflake \<Rightarrow> i64 \<Rightarrow> i64 \<Rightarrow> ustr \<Rightarrow> (nat \<times> warning_response) handler" where
  "create_warning auth sid uid reason =
     andThen (require_permissions sid auth MODERATE_MEMBERS)
     (let errs = validate_length ''reason'' 1 512 reason
      in andThen (ensure (errs = []) (Validation errs))
        (andThen (ensure (auth \<noteq> uid) (BadRequest ''Cannot warn yourself''))
        (bind (pg_query (is_member sid uid)) (\<lambda>member.
         andThen (ensure member (NotFound ''Member not found in this server''))
        (bind fresh_id (\<lambda>wid.
         bind utc_now (\<lambda>now.
         andThen (pg_exec (insert_warning \<lparr>wa_id = wid, wa_server_id = sid, wa_user_id = uid,
              wa_moderator_id = Some auth, wa_reason = reason, wa_created_at = now\<rparr>))
        (bind fresh_id (\<lambda>aid.
         andThen (pg_exec (insert_audit (new_audit_row aid sid auth uid 50 reason now)))
         (ret (201, \<lparr>wr_id = wid, wr_server_id = sid, wr_user_id = uid, wr_moderator_id = Some auth,
              wr_reason = reason, wr_created_at = now\<rparr>)))))))))))"

definition get_warnings :: "snowflake \<Rightarrow> i64 \<Rightarrow> i64 \<Rightarrow> warning_response list handler" where
  "get_warnings auth sid uid =
     andThen (require_permissions sid auth MODERATE_MEMBERS)
    (bind (pg_query (\<lambda>db. sort_key (\<lambda>r. - wa_created_at r)
        (filter (\<lambda>r. wa_server_id r = sid \<and> wa_user_id r = uid) (warnings db)))) (\<lambda>rows.
     ret (map warning_response_of rows)))"

definition delete_warning :: "snowflake \<Rightarrow> i64 \<Rightarrow> i64 \<Rightarrow> i64 \<Rightarrow> nat handler" where
  "delete_warning auth sid path_user_id wid =
     andThen (require_permissions sid auth MODERATE_MEMBERS)
    (bind (pg_exec (delete_warning_row wid sid)) (\<lambda>rows_affected.
     andThen (ensure (rows_affected \<noteq> 0) (NotFound ''Warning not found''))
    (bind fresh_id (\<lambda>aid.
     bind utc_now (\<lambda>now.
     andThen (pg_exec (insert_audit (new_audit_row aid sid auth wid 51 (lit ''Warning deleted'') now)))
     (ret 204))))))"

section \<open>Audit log\<close>

record audit_query =
  aq_user_id :: "i64 option"
  aq_action_type :: "int option"
  aq_before :: "i64 option"
  aq_limit :: "i64 option"

definition clamp_int :: "int \<Rightarrow> int \<Rightarrow> int \<Rightarrow> int" where
  "clamp_int lo hi v = (if v < lo then lo else if v > hi then hi else v)"

text \<open>The dynamic \<open>WHERE\<close>: a condition per given parameter, each with its own placeholder.\<close>

definition audit_matches :: "i64 \<Rightarrow> audit_query \<Rightarrow> audit_row \<Rightarrow> bool" where
  "audit_matches sid q r \<longleftrightarrow> al_server_id r = sid \<and>
     (case aq_user_id q of None \<Rightarrow> True | Some u \<Rightarrow> al_user_id r = Some u) \<and>
     (case aq_action_type q of None \<Rightarrow> True | Some a \<Rightarrow> al_action_type r = a) \<and>
     (case aq_before q of None \<Rightarrow> True | Some b \<Rightarrow> sint (al_id r) < sint b)"

record audit_entry =
  ae_id :: snowflake
  ae_user_id :: "snowflake option"
  ae_target_id :: "i64 option"
  ae_action_type :: int
  ae_changes :: "json option"
  ae_reason :: "ustr option"
  ae_created_at :: int

definition audit_entry_of :: "audit_row \<Rightarrow> audit_entry" where
  "audit_entry_of r = \<lparr>ae_id = al_id r, ae_user_id = al_user_id r, ae_target_id = al_target_id r,
     ae_action_type = al_action_type r, ae_changes = al_changes r, ae_reason = al_reason r,
     ae_created_at = al_created_at r\<rparr>"

definition get_audit_log :: "snowflake \<Rightarrow> i64 \<Rightarrow> audit_query \<Rightarrow> audit_entry list handler" where
  "get_audit_log auth sid q =
     andThen (require_permissions sid auth VIEW_AUDIT_LOG)
     (let limit = clamp_int 1 100 (sint (unwrap_or 50 (aq_limit q)))
      in bind (pg_query (\<lambda>db. take (nat limit) (sort_key (\<lambda>r. - sint (al_id r))
           (filter (audit_matches sid q) (audit_log db))))) (\<lambda>rows.
         ret (map audit_entry_of rows)))"

section \<open>Auto-moderation rules and reports\<close>

record auto_mod_response =
  ar_id :: snowflake
  ar_server_id :: snowflake
  ar_name :: ustr
  ar_event_type :: int
  ar_trigger_type :: int
  ar_trigger_metadata :: json
  ar_actions :: json
  ar_enabled :: bool

definition auto_mod_response_of :: "auto_mod_row \<Rightarrow> auto_mod_response" where
  "auto_mod_response_of r = \<lparr>ar_id = am_id r, ar_server_id = am_server_id r, ar_name = am_name r,
     ar_event_type = am_event_type r, ar_trigger_type = am_trigger_type r,
     ar_trigger_metadata = am_trigger_metadata r, ar_actions = am_actions r, ar_enabled = am_enabled r\<rparr>"

record create_auto_mod_request =
  ca_name :: ustr
  ca_event_type :: int
  ca_trigger_type :: int
  ca_trigger_metadata :: json
  ca_actions :: json
  ca_enabled :: "bool option"

definition create_auto_mod_rule ::
  "snowflake \<Rightarrow> i64 \<Rightarrow> create_auto_mod_request \<Rightarrow> (nat \<times> auto_mod_response) handler" where
  "create_auto_mod_rule auth sid body =
     andThen (require_permissions sid auth MANAGE_SERVER)
    (bind fresh_id (\<lambda>rid.
     let row = \<lparr>am_id = rid, am_server_id = sid, am_name = ca_name body, am_event_type = ca_event_type body,
           am_trigger_type = ca_trigger_type body, am_trigger_metadata = ca_trigger_metadata body,
           am_actions = ca_actions body, am_enabled = unwrap_or True (ca_enabled body)\<rparr>
     in andThen (pg_exec (insert_auto_mod row)) (ret (201, auto_mod_response_of row))))"

definition get_auto_mod_rules :: "snowflake \<Rightarrow> i64 \<Rightarrow> auto_mod_response list handler" where
  "get_auto_mod_rules auth sid =
     andThen (require_permissions sid auth MANAGE_SERVER)
    (bind (pg_query (\<lambda>db. filter (\<lambda>r. am_server_id r = sid) (auto_mod_rules db))) (\<lambda>rows.
     ret (map auto_mod_response_of rows)))"

record update_auto_mod_request =
  ua_name :: "ustr option"
  ua_trigger_metadata :: "json option"
  ua_actions :: "json option"
  ua_enabled :: "bool option"

definition update_auto_mod_sets :: "update_auto_mod_request \<Rightarrow> auto_mod_row \<Rightarrow> auto_mod_row" where
  "update_auto_mod_sets b r = r\<lparr>am_name := unwrap_or (am_name r) (ua_name b),
     am_trigger_metadata := unwrap_or (am_trigger_metadata r) (ua_trigger_metadata b),
     am_actions := unwrap_or (am_actions r) (ua_actions b), am_enabled := unwrap_or (am_enabled r) (ua_enabled b)\<rparr>"

definition update_auto_mod_rule :: "snowflake \<Rightarrow> i64 \<Rightarrow> i64 \<Rightarrow> update_auto_mod_request \<Rightarrow> nat handler" where
  "update_auto_mod_rule auth sid rid body =
     andThen (require_permissions sid auth MANAGE_SERVER)
    (andThen (ensure (\<not> (ua_name body = None \<and> ua_trigger_metadata body = None \<and> ua_actions body = None \<and>
          ua_enabled body = None)) (BadRequest ''No fields to update''))
    (andThen (pg_exec (update_auto_mod rid sid (update_auto_mod_sets body)))
     (ret 204)))"

definition delete_auto_mod_rule :: "snowflake \<Rightarrow> i64 \<Rightarrow> i64 \<Rightarrow> nat handler" where
  "delete_auto_mod_rule auth sid rid =
     andThen (require_permissions sid auth MANAGE_SERVER)
    (andThen (pg_exec (delete_auto_mod rid sid))
     (ret 204))"

record create_report_request =
  cp_target_type :: ustr
  cp_target_id :: i64
  cp_reason :: int
  cp_description :: "ustr option"

definition create_report :: "snowflake \<Rightarrow> create_report_request \<Rightarrow> nat handler" where
  "create_report auth body =
     andThen (ensure (cp_target_type body \<in> {lit ''message'', lit ''user'', lit ''server''})
         (BadRequest ''Invalid target_type. Must be: message, user, or server''))
    (bind fresh_id (\<lambda>rid.
     andThen (pg_exec (insert_report \<lparr>rp_id = rid, rp_reporter_id = auth, rp_target_type = cp_target_type body,
          rp_target_id = cp_target_id body, rp_reason = cp_reason body, rp_description = cp_description body\<rparr>))
     (ret 201)))"

end
