(* ===== verification/Guild_System.thy ===== *)
theory Guild_System
  imports Guards Db_Invariant Channels Messages Moderation
begin

text \<open>
  The guild routes as one transition system: a step serves one request, with any failures of the services
  on the way, or changes anything outside PostgreSQL. The invariant of \<open>Db_Invariant\<close> holds in every
  reachable state.
\<close>

section \<open>Every handler keeps the invariant\<close>

lemma keeps_read_only: "read_only m \<Longrightarrow> keeps I m"
  by (auto intro!: keepsI wps_read_only)

text \<open>Inside a transaction only the success case matters: an error rolls back.\<close>

lemma wps_create_server_tx:
  assumes "db_ok s" "\<And>x t. db_ok t \<Longrightarrow> Q x t" "\<And>e t. E e t"
  shows "wps (create_server_tx auth sid body now) Q E s"
  unfolding create_server_tx_def
  by (intro wp assms(2, 3)) (use assms(1) in \<open>auto elim!: ok_new_server
    simp: new_server_row_def everyone_role_row_def new_channel_row_def\<close>)

lemma keeps_create_server: "keeps db_ok (create_server auth body)"
  by (rule keepsI, unfold create_server_def Let_def, intro wp wps_create_server_tx) (auto intro!: wp)

lemma keeps_transfer:
  "db_ok s \<Longrightarrow> wps (transfer_ownership auth sid new_owner) (\<lambda>_. db_ok) (\<lambda>_. db_ok) s"
  unfolding transfer_ownership_def by (intro wp) (auto elim!: ok_update_server_row)

lemma keeps_update_server: "keeps db_ok (update_server auth sid body)"
  by (rule keepsI, unfold update_server_def, intro wp)
    (auto intro!: wp wps_mono [OF keeps_transfer] elim!: ok_update_server_row simp: update_server_sets_def dest: ok_owner)

lemma keeps_delete_server: "keeps db_ok (delete_server verify auth sid password)"
  by (rule keepsI, unfold delete_server_def, intro wp) (auto dest: ok_delete_server)

lemma ok_member_columns:
  "update_member_row sid uid (mb_nickname_update g) db = Inr (db', x) \<Longrightarrow> db_ok db \<Longrightarrow> db_ok db'"
  "update_member_row sid uid (mb_disabled_until_update g') db = Inr (db', x) \<Longrightarrow> db_ok db \<Longrightarrow> db_ok db'"
  by (erule ok_update_member_row; simp)+

lemma keeps_update_member: "keeps db_ok (update_member auth sid uid body)"
  by (rule keepsI, unfold update_member_def Let_def, intro wp wps_for_each [where I = db_ok])
    (auto dest: ok_member_columns ok_clear_member_roles ok_insert_member_role_lenient)

lemma keeps_update_self_member: "keeps db_ok (update_self_member auth sid nick)"
  by (rule keepsI, unfold update_self_member_def, intro wp) (auto dest: ok_member_columns)

lemma keeps_kick_member: "keeps db_ok (kick_member auth sid uid)"
  by (rule keepsI, unfold kick_member_def, intro wp) (auto dest: ok_delete_member ok_counts)

lemma keeps_leave_server: "keeps db_ok (leave_server auth sid)"
  by (rule keepsI, unfold leave_server_def, intro wp) (auto dest: ok_delete_member ok_counts)

lemma deleted_not_member: "delete_member sid uid db = Inr (db', n) \<Longrightarrow> \<not> is_member sid uid db'"
  by (auto simp: delete_member_def is_member_def tbl_simps)

lemma keeps_create_ban: "keeps db_ok (create_ban auth sid uid reason)"
  by (rule keepsI, unfold create_ban_def, intro wp)
    (auto dest: ok_delete_member ok_counts ok_upsert_ban deleted_not_member)

lemma keeps_remove_ban: "keeps db_ok (remove_ban auth sid uid)"
  by (rule keepsI, unfold remove_ban_def, intro wp) (auto dest: ok_delete_ban)

lemma keeps_create_invite: "keeps db_ok (create_invite code auth cid body)"
  by (rule keepsI, unfold create_invite_def Let_def, intro wp) (auto dest: ok_outside)

lemma invites_kept:
  "insert_member a b n db = Inr (db', x) \<Longrightarrow> invites db' = invites db"
  "insert_member_role a b c db = Inr (db', x) \<Longrightarrow> invites db' = invites db"
  "bump_member_count a db = Inr (db', x) \<Longrightarrow> invites db' = invites db"
  by (auto simp: insert_member_def insert_member_role_def bump_member_count_def update_servers_def split: if_splits)

text \<open>The statements of \<open>use_invite\<close> in their order.\<close>

lemma ok_join:
  assumes "bump_invite_uses code d3 = Inr (d4, x4)" "bump_member_count sid d2 = Inr (d3, x3)"
    "insert_member_role sid uid sid d1 = Inr (d2, x2)" "insert_member sid uid now db = Inr (d1, x1)" "db_ok db"
    "\<not> is_banned sid uid db" "t_find (\<lambda>i. iv_code i = code) (invites db) = Some i"
    "iv_max_uses i > 0 \<longrightarrow> iv_uses i < iv_max_uses i"
  shows "db_ok d4"
proof (rule ok_bump_invite [OF assms(1)])
  show "db_ok d3"
    using assms by (auto dest: ok_insert_member ok_insert_member_role ok_counts)
  show "t_find (\<lambda>i. iv_code i = code) (invites d3) = Some i"
    using invites_kept(3) [OF assms(2)] invites_kept(2) [OF assms(3)] invites_kept(1) [OF assms(4)] assms(7) by simp
  show "\<not> (0 < iv_max_uses i \<and> iv_max_uses i \<le> iv_uses i)"
    using assms(8) by auto
qed

lemma wps_use_invite_tx:
  assumes "db_ok s" "\<And>x t. db_ok t \<Longrightarrow> Q x t" "\<And>e t. E e t"
  shows "wps (use_invite_tx auth code) Q E s"
  unfolding use_invite_tx_def Let_def
  by (intro wp assms(2, 3)) (use assms(1) in \<open>auto dest: ok_join simp: invite_used_up_def\<close>)

lemma keeps_use_invite: "keeps db_ok (use_invite auth code)"
  by (rule keepsI, unfold use_invite_def, intro wp wps_use_invite_tx) (auto intro!: wp)

lemma keeps_delete_invite: "keeps db_ok (delete_invite auth code)"
  by (rule keepsI, unfold delete_invite_def Let_def, intro wp) (auto dest: ok_outside)

subsection \<open>Roles and overrides\<close>

lemma wps_parse_bits [wp]: "(\<And>x. Q x s) \<Longrightarrow> (\<And>e. E e s) \<Longrightarrow> wps (parse_bits what v) Q E s"
  unfolding parse_bits_def by (intro wp) auto

lemma wps_fetch_role [wp]: "(\<And>x. Q x s) \<Longrightarrow> (\<And>e. E e s) \<Longrightarrow> wps (fetch_role rid) Q E s"
  unfolding fetch_role_def by (intro wp) auto

definition actor_position :: "i64 \<Rightarrow> snowflake \<Rightarrow> pg_db \<Rightarrow> int" where
  "actor_position sid uid db = (if is_owner sid uid db then i32_max else rank sid uid db)"

lemma wps_get_actor_highest_position [wp]:
  "Q (actor_position sid uid s) s \<Longrightarrow> (\<And>e. E e s) \<Longrightarrow> wps (get_actor_highest_position sid uid) Q E s"
  unfolding get_actor_highest_position_def actor_position_def rank_def by (intro wp) auto

lemma wps_get_roles [wp]: "(\<And>x. Q x s) \<Longrightarrow> (\<And>e. E e s) \<Longrightarrow> wps (get_roles auth sid) Q E s"
  unfolding get_roles_def by (intro wp) auto

lemma ok_role_sets:
  "update_role_rows rid sid (update_role_sets b p) db = Inr (db', x) \<Longrightarrow> db_ok db \<Longrightarrow> db_ok db'"
  "update_role_rows rid sid (ro_position_update g) db = Inr (db', x) \<Longrightarrow> db_ok db \<Longrightarrow> db_ok db'"
  by (erule ok_update_role_rows; simp add: update_role_sets_def)+

lemma keeps_create_role: "keeps db_ok (create_role auth sid body)"
  by (rule keepsI, unfold create_role_def Let_def, intro wp) (auto dest: ok_insert_role)

lemma keeps_update_role: "keeps db_ok (update_role auth sid rid body)"
  by (rule keepsI, unfold update_role_def, intro wp) (auto dest: ok_role_sets)

lemma ok_delete_found_role:
  assumes "delete_role_row rid sid db = Inr (db', x)" "db_ok db"
    "t_find (\<lambda>r. ro_id r = rid \<and> ro_server_id r = sid) (roles db) = Some r'" "\<not> ro_is_default r'"
  shows "db_ok db'"
proof (rule ok_delete_role [OF assms(1, 2)])
  fix r assume "r \<in> set (roles db)" "ro_id r = rid" "ro_server_id r = sid"
  moreover have "r' \<in> set (roles db)" "ro_id r' = rid" using assms(3) by (auto dest: t_find_SomeD)
  moreover have "inj_on ro_id (set (roles db))" using assms(2) by (simp add: db_ok_def keys_ok_def distinct_map)
  ultimately show "\<not> ro_is_default r" using assms(4) by (auto dest: inj_onD)
qed

lemma keeps_delete_role: "keeps db_ok (delete_role auth sid rid)"
  by (rule keepsI, unfold delete_role_def, intro wp) (auto dest: ok_delete_found_role)

lemma wps_check_reorder [wp]:
  "(\<And>x. Q x s) \<Longrightarrow> (\<And>e. E e s) \<Longrightarrow> wps (check_reorder_position sid a upd) Q E s"
  unfolding check_reorder_position_def by (intro wp) auto

lemma keeps_reorder_roles: "keeps db_ok (reorder_roles auth sid body)"
  by (rule keepsI, unfold reorder_roles_def, intro wp wps_for_each [where I = db_ok]) (auto dest: ok_role_sets)

lemma clean_stripped [simp]:
  "clean_row \<lparr>po_channel_id = c, po_target_id = t, po_target_type = y, po_allow_bits = strip_administrator a,
     po_deny_bits = strip_administrator d\<rparr>"
  by (simp add: clean_row_def strip_administrator_def bit_and_iff bit_not_iff)

lemma clean_override_row_of [simp]: "clean_row (override_row_of cid ov)"
  by (simp add: override_row_of_def)

lemma keeps_set_channel_override: "keeps db_ok (set_channel_override auth cid oid body)"
  by (rule keepsI, unfold set_channel_override_def Let_def, intro wp) (auto dest: ok_outside)

lemma keeps_delete_channel_override: "keeps db_ok (delete_channel_override auth cid oid)"
  by (rule keepsI, unfold delete_channel_override_def, intro wp) (auto dest: ok_outside)

subsection \<open>Channels\<close>

lemma wps_fetch_channel [wp]: "(\<And>x. Q x s) \<Longrightarrow> (\<And>e. E e s) \<Longrightarrow> wps (fetch_channel cid) Q E s"
  unfolding fetch_channel_def by (intro wp) auto

lemma wps_check_parent [wp]: "(\<And>x. Q x s) \<Longrightarrow> (\<And>e. E e s) \<Longrightarrow> wps (check_parent sid p) Q E s"
  unfolding check_parent_def by (intro wp) auto

lemma wps_ensure_target_type [wp]: "(\<And>x. Q x s) \<Longrightarrow> (\<And>e. E e s) \<Longrightarrow> wps (ensure_target_type ov) Q E s"
  unfolding ensure_target_type_def by (intro wp) auto

lemma ok_channel_columns:
  "update_channel_rows P (update_channel_sets n b) db = Inr (db', x) \<Longrightarrow> db_ok db \<Longrightarrow> db_ok db'"
  "update_channel_rows P (ch_parent_id_update g1) db = Inr (db', x) \<Longrightarrow> db_ok db \<Longrightarrow> db_ok db'"
  "update_channel_rows P (ch_position_update g2) db = Inr (db', x) \<Longrightarrow> db_ok db \<Longrightarrow> db_ok db'"
  "update_channel_rows P (\<lambda>c. ch_position_update g2 (ch_parent_id_update g1 c)) db = Inr (db', x) \<Longrightarrow> db_ok db \<Longrightarrow> db_ok db'"
  "update_channel_rows P (\<lambda>c. ch_parent_id_update g1 (ch_position_update g2 c)) db = Inr (db', x) \<Longrightarrow> db_ok db \<Longrightarrow> db_ok db'"
  "update_channel_rows P (ch_last_message_id_update g3) db = Inr (db', x) \<Longrightarrow> db_ok db \<Longrightarrow> db_ok db'"
  by (erule ok_update_channel_rows; simp add: update_channel_sets_def)+

lemma keeps_create_channel: "keeps db_ok (create_channel lower alnum auth sid body)"
  by (rule keepsI, unfold create_channel_def Let_def, intro wp wps_for_each [where I = db_ok])
    (auto dest: ok_insert_channel ok_outside)

lemma wps_replace_overrides [wp]:
  "db_ok s \<Longrightarrow> (\<And>t. db_ok t \<Longrightarrow> Q () t) \<Longrightarrow> (\<And>e t. db_ok t \<Longrightarrow> E e t) \<Longrightarrow> wps (replace_overrides cid ovs) Q E s"
  unfolding replace_overrides_def
  by (intro wp wps_for_each [where I = db_ok and xs = ovs]) (auto dest: ok_outside)

lemma keeps_update_channel: "keeps db_ok (update_channel lower alnum auth cid body)"
  by (rule keepsI, unfold update_channel_def Let_def, intro wp) (auto intro!: wp dest: ok_channel_columns)

lemma unique_channel:
  assumes "channel_server_type cid db = Some (srv, ty)" "db_ok db" "c \<in> set (channels db)" "ch_id c = cid"
  shows "ch_server_id c = srv \<and> ch_type c = ty"
proof -
  obtain c' where "t_find (\<lambda>c. ch_id c = cid) (channels db) = Some c'" "ch_server_id c' = srv" "ch_type c' = ty"
    using assms(1) by (auto simp: channel_server_type_def)
  moreover from this have "c' \<in> set (channels db)" "ch_id c' = cid" by (auto dest: t_find_SomeD)
  moreover have "inj_on ch_id (set (channels db))" using assms(2) by (simp add: db_ok_def keys_ok_def distinct_map)
  ultimately show ?thesis using assms(3, 4) by (auto dest: inj_onD)
qed

lemma channel_type_kept:
  assumes "update_channel_rows P (ch_parent_id_update g) db = Inr (db', x)"
  shows "channel_server_type cid db' = channel_server_type cid db"
proof -
  have "channels db' = t_update P (ch_parent_id_update g) (channels db)"
    using assms by (auto simp: update_channel_rows_def split: if_splits)
  moreover have "map_option (\<lambda>c. (ch_server_id c, ch_type c)) (t_find (\<lambda>c. ch_id c = cid) (t_update P (ch_parent_id_update g) t)) =
      map_option (\<lambda>c. (ch_server_id c, ch_type c)) (t_find (\<lambda>c. ch_id c = cid) t)" for t
    by (induction t) (auto simp: t_find_def t_update_def)
  ultimately show ?thesis by (simp add: channel_server_type_def)
qed

lemma ok_delete_found_channel:
  assumes "delete_channel_row cid db = Inr (db', x)" "db_ok db" "channel_server_type cid db = Some (Some sid, ty)"
    and "ty \<noteq> 0 \<or> 1 < t_count (\<lambda>c. ch_server_id c = Some sid \<and> ch_type c = 0) (channels db)"
  shows "db_ok db'"
proof (rule ok_delete_channel [OF assms(1, 2)])
  fix c sid' assume "c \<in> set (channels db)" "ch_id c = cid" "ch_type c = 0" "ch_server_id c = Some sid'"
  with unique_channel [OF assms(3, 2) this(1, 2)] assms(4)
  show "1 < t_count (\<lambda>c. ch_server_id c = Some sid' \<and> ch_type c = 0) (channels db)" by auto
qed

lemma ok_delete_text: "delete_channel_row cid db = Inr (db', x) \<Longrightarrow> db_ok db \<Longrightarrow>
    channel_server_type cid db = Some (Some sid, 0) \<Longrightarrow>
    \<not> t_count (\<lambda>c. ch_server_id c = Some sid \<and> ch_type c = 0) (channels db) \<le> Suc 0 \<Longrightarrow> db_ok db'"
  by (rule ok_delete_found_channel [where ty = 0]) auto

lemma ok_delete_other: "delete_channel_row cid db = Inr (db', x) \<Longrightarrow> db_ok db \<Longrightarrow>
    channel_server_type cid db = Some (Some sid, ty) \<Longrightarrow> ty \<noteq> 0 \<Longrightarrow> db_ok db'"
  by (rule ok_delete_found_channel) auto

lemma ok_delete_category: "delete_channel_row cid db1 = Inr (db', x) \<Longrightarrow>
    update_channel_rows P (ch_parent_id_update g) db = Inr (db1, y) \<Longrightarrow> db_ok db \<Longrightarrow>
    channel_server_type cid db = Some (Some sid, 4) \<Longrightarrow> db_ok db'"
  by (erule ok_delete_other [where ty = 4]) (auto dest: ok_channel_columns simp: channel_type_kept)

lemma keeps_delete_channel: "keeps db_ok (delete_channel auth cid)"
  by (rule keepsI, unfold delete_channel_def, intro wp)
    (auto dest: ok_channel_columns ok_delete_text ok_delete_other ok_delete_category)

lemma keeps_reorder_channels: "keeps db_ok (reorder_channels auth sid body)"
  by (rule keepsI, unfold reorder_channels_def, intro wp wps_for_each [where I = db_ok])
    (auto dest: ok_channel_columns split: option.splits)

lemma keeps_follow_channel: "keeps db_ok (follow_channel token auth cid target)"
  by (rule keepsI, unfold follow_channel_def, intro wp) (auto dest: ok_outside)

subsection \<open>Messages and moderation\<close>

lemma wps_check_channel_permission [wp]:
  "(\<And>x. Q x s) \<Longrightarrow> (\<And>e. E e s) \<Longrightarrow> wps (check_channel_permission cid uid p) Q E s"
  unfolding check_channel_permission_def get_channel_server_def by (intro wp) auto

lemma wps_send_guards [wp]:
  "(\<And>x. Q x s) \<Longrightarrow> (\<And>e. E e s) \<Longrightarrow> wps (check_slowmode cid auth n) Q E s"
  "(\<And>x. Q x s) \<Longrightarrow> (\<And>e. E e s) \<Longrightarrow> wps (check_timeout server auth) Q E s"
  "(\<And>x. Q' x s) \<Longrightarrow> (\<And>e. E e s) \<Longrightarrow> wps (may_mention_everyone d server auth) Q' E s"
  unfolding check_slowmode_def check_timeout_def may_mention_everyone_def by (intro wp; simp)+

lemma keeps_send_message: "keeps db_ok (send_message rfc3339 auth cid body)"
  by (rule keepsI, unfold send_message_def Let_def, intro wp) (auto dest: ok_channel_columns)

lemma keeps_create_warning: "keeps db_ok (create_warning auth sid uid reason)"
  by (rule keepsI, unfold create_warning_def Let_def, intro wp) (auto dest: ok_outside)

lemma keeps_delete_warning: "keeps db_ok (delete_warning auth sid uid wid)"
  by (rule keepsI, unfold delete_warning_def, intro wp) (auto dest: ok_outside)

lemma keeps_auto_mod:
  "keeps db_ok (create_auto_mod_rule auth sid body)" "keeps db_ok (update_auto_mod_rule auth sid rid ub)"
  "keeps db_ok (delete_auto_mod_rule auth sid rid)"
  by (rule keepsI, unfold create_auto_mod_rule_def update_auto_mod_rule_def delete_auto_mod_rule_def Let_def, intro wp;
      auto dest: ok_outside)+

lemma keeps_create_report: "keeps db_ok (create_report auth body)"
  by (rule keepsI, unfold create_report_def, intro wp) (auto dest: ok_outside)

lemmas handlers_keep = keeps_create_server keeps_update_server keeps_delete_server keeps_update_member
  keeps_update_self_member keeps_kick_member keeps_leave_server keeps_create_ban keeps_remove_ban
  keeps_create_invite keeps_use_invite keeps_delete_invite keeps_create_role keeps_update_role keeps_delete_role
  keeps_reorder_roles keeps_set_channel_override keeps_delete_channel_override keeps_create_channel
  keeps_update_channel keeps_delete_channel keeps_reorder_channels keeps_follow_channel keeps_send_message
  keeps_create_warning keeps_delete_warning keeps_auto_mod keeps_create_report

section \<open>The system\<close>

text \<open>The requests that write PostgreSQL, with the values the external code gives them.\<close>

datatype request =
    CreateServer snowflake create_server_request
  | UpdateServer snowflake i64 update_server_request
  | DeleteServer "ustr \<Rightarrow> string \<Rightarrow> string + bool" snowflake i64 ustr
  | UpdateMember snowflake i64 i64 update_member_request
  | UpdateSelfMember snowflake i64 "ustr option option"
  | KickMember snowflake i64 i64
  | LeaveServer snowflake i64
  | CreateBan snowflake i64 i64 "ustr option"
  | RemoveBan snowflake i64 i64
  | CreateInvite string snowflake i64 create_invite_request
  | UseInvite snowflake string
  | DeleteInvite snowflake string
  | CreateRole snowflake i64 create_role_request
  | UpdateRole snowflake i64 i64 update_role_request
  | DeleteRole snowflake i64 i64
  | ReorderRoles snowflake i64 "(i64 \<times> int) list"
  | SetOverride snowflake i64 i64 set_override_request
  | DeleteOverride snowflake i64 i64
  | CreateChannel "ustr \<Rightarrow> ustr" "nat \<Rightarrow> bool" snowflake i64 create_channel_request
  | UpdateChannel "ustr \<Rightarrow> ustr" "nat \<Rightarrow> bool" snowflake i64 update_channel_request
  | DeleteChannel snowflake i64
  | ReorderChannels snowflake i64 "(i64 \<times> int \<times> i64 option option) list"
  | FollowChannel string snowflake i64 i64
  | SendMessage "int \<Rightarrow> ustr" snowflake i64 send_message_request
  | CreateWarning snowflake i64 i64 ustr
  | DeleteWarning snowflake i64 i64 i64
  | CreateAutoMod snowflake i64 create_auto_mod_request
  | UpdateAutoMod snowflake i64 i64 update_auto_mod_request
  | DeleteAutoMod snowflake i64 i64
  | CreateReport snowflake create_report_request

text \<open>The world after a request, whatever the answer was.\<close>

fun serve :: "request \<Rightarrow> world \<Rightarrow> world" where
  "serve (CreateServer a b) w = snd (create_server a b w)"
| "serve (UpdateServer a s b) w = snd (update_server a s b w)"
| "serve (DeleteServer v a s p) w = snd (delete_server v a s p w)"
| "serve (UpdateMember a s u b) w = snd (update_member a s u b w)"
| "serve (UpdateSelfMember a s n) w = snd (update_self_member a s n w)"
| "serve (KickMember a s u) w = snd (kick_member a s u w)"
| "serve (LeaveServer a s) w = snd (leave_server a s w)"
| "serve (CreateBan a s u r) w = snd (create_ban a s u r w)"
| "serve (RemoveBan a s u) w = snd (remove_ban a s u w)"
| "serve (CreateInvite c a ch b) w = snd (create_invite c a ch b w)"
| "serve (UseInvite a c) w = snd (use_invite a c w)"
| "serve (DeleteInvite a c) w = snd (delete_invite a c w)"
| "serve (CreateRole a s b) w = snd (create_role a s b w)"
| "serve (UpdateRole a s r b) w = snd (update_role a s r b w)"
| "serve (DeleteRole a s r) w = snd (delete_role a s r w)"
| "serve (ReorderRoles a s b) w = snd (reorder_roles a s b w)"
| "serve (SetOverride a c t b) w = snd (set_channel_override a c t b w)"
| "serve (DeleteOverride a c t) w = snd (delete_channel_override a c t w)"
| "serve (CreateChannel l n a s b) w = snd (create_channel l n a s b w)"
| "serve (UpdateChannel l n a c b) w = snd (update_channel l n a c b w)"
| "serve (DeleteChannel a c) w = snd (delete_channel a c w)"
| "serve (ReorderChannels a s b) w = snd (reorder_channels a s b w)"
| "serve (FollowChannel t a c d) w = snd (follow_channel t a c d w)"
| "serve (SendMessage f a c b) w = snd (send_message f a c b w)"
| "serve (CreateWarning a s u r) w = snd (create_warning a s u r w)"
| "serve (DeleteWarning a s u x) w = snd (delete_warning a s u x w)"
| "serve (CreateAutoMod a s b) w = snd (create_auto_mod_rule a s b w)"
| "serve (UpdateAutoMod a s r b) w = snd (update_auto_mod_rule a s r b w)"
| "serve (DeleteAutoMod a s r) w = snd (delete_auto_mod_rule a s r w)"
| "serve (CreateReport a b) w = snd (create_report a b w)"

lemma serve_keeps: "db_ok (w_pg w) \<Longrightarrow> db_ok (w_pg (serve req w))"
  by (cases req) (simp_all add: keepsD [OF handlers_keep(1)] handlers_keep [THEN keepsD])

text \<open>
  A step: a request is served, or something happens outside the guild tables: time passes, calls are set
  to fail, other services and other processes write their own state, an account is created.
\<close>

inductive server_step :: "world \<Rightarrow> world \<Rightarrow> bool" where
  served: "server_step w (serve req w)"
| environment: "w_pg w' = (w_pg w)\<lparr>users := us\<rparr> \<Longrightarrow> server_step w w'"

definition no_guilds :: "world \<Rightarrow> bool" where
  "no_guilds w \<longleftrightarrow> servers (w_pg w) = [] \<and> channels (w_pg w) = [] \<and> roles (w_pg w) = [] \<and> members (w_pg w) = [] \<and>
     member_roles (w_pg w) = [] \<and> bans (w_pg w) = [] \<and> invites (w_pg w) = [] \<and> overrides (w_pg w) = []"

lemma db_ok_users [simp]: "db_ok (db\<lparr>users := us\<rparr>) = db_ok db"
  by (simp add: db_ok_defs row_defs)

interpretation guilds: invariant_system no_guilds server_step "\<lambda>w. db_ok (w_pg w)"
proof unfold_locales
  fix w assume "no_guilds w"
  then show "db_ok (w_pg w)" by (simp add: no_guilds_def db_ok_defs invites_within_def overrides_clean_def)
next
  fix w w' assume ok: "db_ok (w_pg w)" and "server_step w w'"
  from this(2) show "db_ok (w_pg w')"
    by (cases rule: server_step.cases) (simp_all add: ok serve_keeps)
qed

end
