(* ===== verification/Demo.thy ===== *)
theory Demo
  imports Guild_System
begin

text \<open>
  A small concrete world for the witnesses: two accounts, 7 and 8; account 7 creates a server, whose Snowflake is
  \<open>home_id\<close>, and bans account 8. The states are computed by rewriting the handlers, statement by statement.
\<close>

definition demo_user :: "i64 \<Rightarrow> user_row" where
  "demo_user i = \<lparr>u_id = i, u_username = lit ''ada'', u_discriminator = 0, u_email = lit ''ada@example.org'',
     u_password_hash = ''hash'', u_avatar = None, u_banner = None, u_bio = None, u_locale = lit ''en-US'', u_flags = 0,
     u_premium_type = 0, u_is_bot = False, u_deleted_at = None, u_created_at = 0\<rparr>"

definition demo_db :: pg_db where
  "demo_db = \<lparr>users = [demo_user 7, demo_user 8], servers = [], channels = [], roles = [], members = [],
     member_roles = [], overrides = [], dm_recipients = [], invites = [], bans = [], webhooks = [], warnings = [],
     audit_log = [], auto_mod_rules = [], reports = [], relationships = [], user_settings = [],
     device_tokens = [], applications = [], commands = [], user_notes = []\<rparr>"

definition demo_now :: int where
  "demo_now = 1704067200005"

definition demo_world :: "pg_db \<Rightarrow> world" where
  "demo_world db = \<lparr>w_pg = db, w_scylla = \<lparr>messages = [], pins = [], reactions = [], read_states = []\<rparr>, w_redis = (\<lambda>_. None), w_published = [],
     w_durable = [], w_gen = \<lparr>g_machine = 1, g_state = 0\<rparr>, w_now = demo_now, w_calls = []\<rparr>"

definition demo_request :: create_server_request where
  "demo_request = \<lparr>cs_name = lit ''home'', cs_icon = None, cs_region = None\<rparr>"

abbreviation home_id :: i64 where
  "home_id \<equiv> 20975616"

lemmas demo_defs = demo_world_def demo_request_def demo_db_def demo_user_def demo_now_def

lemma calm_demo [run]: "calm (demo_world db)"
  by (simp add: demo_world_def calm_def)

lemma demo_world_sel [simp]: "w_pg (demo_world db) = db" "w_now (demo_world db) = demo_now"
  by (simp_all add: demo_world_def)

lemma demo_ids:
  "next_id_ticking \<lparr>g_machine = 1, g_state = 0\<rparr> 5 = (20975616, \<lparr>g_machine = 1, g_state = 20480\<rparr>)"
  "next_id_ticking \<lparr>g_machine = 1, g_state = 20480\<rparr> 5 = (20975617, \<lparr>g_machine = 1, g_state = 20481\<rparr>)"
  "next_id_ticking \<lparr>g_machine = 1, g_state = 20481\<rparr> 5 = (20975618, \<lparr>g_machine = 1, g_state = 20482\<rparr>)"
  "next_id_ticking \<lparr>g_machine = 1, g_state = 20482\<rparr> 5 = (20975619, \<lparr>g_machine = 1, g_state = 20483\<rparr>)"
  by code_simp+

text \<open>What the rewriting of a statement on a concrete database needs.\<close>

lemmas table_defs = t_has_def t_insert_def t_update_def t_delete_def t_count_def t_find_def t_max_def
lemmas fit_defs = server_fits_def channel_fits_def fits_def fits_opt_def channel_ref_ok_def
lemmas stmt_defs = insert_server_def insert_role_def insert_channel_def update_server_row_def insert_member_def
  insert_member_role_def has_member_role_def member_role_refs_def update_servers_def fit_defs row_defs table_defs

definition home_db :: pg_db where
  "home_db = demo_db\<lparr>
     servers := [(new_server_row home_id demo_request 7 demo_now)\<lparr>sv_system_channel_id := Some 20975617\<rparr>],
     channels := [new_channel_row 20975617 home_id 0 (lit ''general'') 0 demo_now,
       new_channel_row 20975618 home_id 2 (lit ''General'') 1 demo_now],
     roles := [everyone_role_row home_id demo_now],
     members := [\<lparr>mb_server_id = home_id, mb_user_id = 7, mb_nickname = None, mb_avatar = None,
       mb_joined_at = demo_now, mb_disabled_until = None, mb_flags = 0\<rparr>],
     member_roles := [\<lparr>mr_server_id = home_id, mr_user_id = 7, mr_role_id = home_id\<rparr>]\<rparr>"

lemmas home_defs = home_db_def new_server_row_def new_channel_row_def everyone_role_row_def demo_defs

lemma create_home: "w_pg (snd (create_server 7 demo_request (demo_world demo_db))) = home_db"
  by (simp only: create_server_def)
    (simp add: run validate_length_def calm_def next_call_def demo_ids LUMIERE_EPOCH_def create_server_tx_def trim_def
      is_whitespace_def stmt_defs fetch_server_def home_defs)

text \<open>A world whose guild tables are \<open>home_db\<close> is reachable: by one request and one step of the environment.\<close>

lemma reach_any: "reach no_guilds server_step w \<Longrightarrow> w_pg w' = w_pg w \<Longrightarrow> reach no_guilds server_step w'"
  by (erule reach_step, rule environment [where us = "users (w_pg w)"]) simp

lemma reach_home: "reach no_guilds server_step (demo_world home_db)"
proof -
  have "reach no_guilds server_step (demo_world demo_db)"
    by (rule reach_init) (simp add: no_guilds_def demo_defs)
  then have "reach no_guilds server_step (serve (CreateServer 7 demo_request) (demo_world demo_db))"
    by (rule reach_step) (rule served)
  then show ?thesis by (rule reach_any) (simp add: create_home)
qed

lemma home_facts:
  "is_owner home_id 7 home_db" "is_member home_id 7 home_db" "\<not> is_owner home_id 8 home_db" "\<not> is_member home_id 8 home_db"
  "is_server home_id home_db" "is_user 7 home_db" "is_user 8 home_db" "\<not> is_banned home_id 8 home_db"
  by (simp_all add: home_defs row_defs t_has_def)

lemma effective_all: "n < 38 \<Longrightarrow> is_owner sid uid db \<Longrightarrow> contains (effective_permissions sid uid db) (flag n)"
  by (auto simp: effective_permissions_def contains_iff bit_flag)

lemma home_may: "may home_id 7 BAN_MEMBERS home_db" "may home_id 7 KICK_MEMBERS home_db"
    "may home_id 7 MANAGE_ROLES home_db" "may home_id 7 MANAGE_CHANNELS home_db" "may home_id 7 CREATE_INVITE home_db"
    "may home_id 7 SEND_MESSAGES home_db" "may home_id 7 MANAGE_SERVER home_db"
  by (simp_all only: may_def home_facts flag_defs) (auto intro!: effective_all home_facts)

definition banned_db :: pg_db where
  "banned_db = update_servers home_id (\<lambda>s. s\<lparr>sv_member_count := 1\<rparr>) (home_db\<lparr>bans := [\<lparr>bn_server_id = home_id,
     bn_user_id = 8, bn_reason = None, bn_banned_by = Some 7, bn_created_at = demo_now\<rparr>]\<rparr>)"

lemma ban_stranger: "w_pg (snd (create_ban 7 home_id 8 None (demo_world home_db))) = banned_db"
  by (simp only: create_ban_def)
    (simp add: run home_facts home_may outranks_def; simp add: run calm_def trim_def is_whitespace_def banned_db_def delete_member_def upsert_ban_def
      refresh_member_count_def member_total_def stmt_defs home_defs)

lemma reach_banned: "reach no_guilds server_step (demo_world banned_db)"
proof -
  have "reach no_guilds server_step (serve (CreateBan 7 home_id 8 None) (demo_world home_db))"
    by (rule reach_step [OF reach_home]) (rule served)
  then show ?thesis by (rule reach_any) (simp add: ban_stranger)
qed

end
