(* ===== verification/Guild_Properties.thy ===== *)
theory Guild_Properties
  imports Demo
begin

text \<open>
  What the guild routes guarantee: the invariants of every reachable state, the outcome of the
  state-changing requests under arbitrary failures, and the limits of what they guarantee.
\<close>

section \<open>Invariants of every reachable state\<close>

text \<open>C1: In every state the routes can reach, whatever calls failed on the way, the owner of every server is
  one of its members: no kick, ban, departure, transfer or half-done request leaves a server whose owner is outside.\<close>

theorem owner_always_member:
  assumes "reach no_guilds server_step w" "is_owner sid uid (w_pg w)"
  shows "is_member sid uid (w_pg w)"
  using guilds.reach_inv [OF assms(1)] assms(2) by (auto simp: db_ok_def owner_joined_def is_owner_def t_has_iff)

theorem owner_always_member_witness:
  "reach no_guilds server_step (demo_world home_db) \<and> is_owner home_id 7 home_db \<and> is_member home_id 7 home_db"
  using owner_always_member [OF reach_home, of home_id 7] reach_home home_facts(1) by simp

text \<open>C2: In every reachable state nobody is both banned from a server and a member of it.\<close>

theorem banned_never_member:
  assumes "reach no_guilds server_step w" "is_banned sid uid (w_pg w)"
  shows "\<not> is_member sid uid (w_pg w)"
  using guilds.reach_inv [OF assms(1)] assms(2) by (auto simp: db_ok_def bans_apart_def is_banned_def t_has_iff)

theorem banned_never_member_witness:
  "is_banned home_id 8 banned_db \<and> \<not> is_member home_id 8 banned_db"
proof -
  have "is_banned home_id 8 banned_db" by (simp add: banned_db_def update_servers_def is_banned_def t_has_def)
  then show ?thesis using banned_never_member [OF reach_banned, of home_id 8] by simp
qed

text \<open>C8: In every reachable state every server has a text channel and its default role: neither a deletion
  nor a creation that failed half way takes away the last one.\<close>

theorem server_always_furnished:
  assumes "reach no_guilds server_step w" "is_server sid (w_pg w)"
  shows "has_text_channel sid (w_pg w) \<and> has_default_role sid (w_pg w)"
  using guilds.reach_inv [OF assms(1)] assms(2) by (auto simp: db_ok_def servers_furnished_def is_server_def t_has_iff)


theorem server_always_furnished_witness:
  "is_server home_id home_db \<and> has_text_channel home_id home_db \<and> has_default_role home_id home_db"
  using server_always_furnished [OF reach_home, of home_id] home_facts(5) by simp

text \<open>C13: In every reachable state no invite was used more often than its limit allows.\<close>

theorem invite_limit_respected:
  assumes "reach no_guilds server_step w" "i \<in> set (invites (w_pg w))" "iv_max_uses i > 0"
  shows "iv_uses i \<le> iv_max_uses i"
  using guilds.reach_inv [OF assms(1)] assms(2, 3) by (auto simp: db_ok_def invites_within_def)

definition five_uses :: create_invite_request where
  "five_uses = \<lparr>ci_max_age = None, ci_max_uses = Some 5, ci_temporary = None\<rparr>"

definition five_row :: invite_row where
  "five_row = \<lparr>iv_code = ''q7'', iv_server_id = home_id, iv_channel_id = 20975617, iv_inviter_id = Some 7, iv_max_uses = 5,
     iv_uses = 0, iv_max_age = 86400, iv_temporary = False, iv_created_at = demo_now\<rparr>"

lemma invited: "w_pg (snd (create_invite ''q7'' 7 20975617 five_uses (demo_world home_db))) = home_db\<lparr>invites := [five_row]\<rparr>"
proof -
  have "channel_server_not_null 20975617 home_db = Inr (Some home_id)"
    by (simp add: channel_server_not_null_def t_find_def home_defs)
  moreover have "insert_invite five_row home_db = Inr (home_db\<lparr>invites := [five_row]\<rparr>, ())"
    by (simp add: insert_invite_def five_row_def home_facts is_channel_def t_has_def t_insert_def) (simp add: home_defs)
  ultimately show ?thesis
    by (simp only: create_invite_def)
      (simp add: run home_facts home_may five_uses_def unwrap_or_def Let_def flip: five_row_def)
qed

theorem invite_limit_respected_witness:
  "\<exists>w. reach no_guilds server_step w \<and> five_row \<in> set (invites (w_pg w)) \<and> iv_uses five_row \<le> iv_max_uses five_row"
proof (intro exI conjI)
  let ?w = "serve (CreateInvite ''q7'' 7 20975617 five_uses) (demo_world home_db)"
  show r: "reach no_guilds server_step ?w"
    by (rule reach_step [OF reach_home]) (rule served)
  show i: "five_row \<in> set (invites (w_pg ?w))"
    by (simp add: invited)
  show "iv_uses five_row \<le> iv_max_uses five_row"
    by (rule invite_limit_respected [OF r i]) (simp add: five_row_def)
qed

text \<open>In every reachable state no channel override grants or denies ADMINISTRATOR: all three routes that
  write overrides strip the bit.\<close>

theorem overrides_never_administrator:
  assumes "reach no_guilds server_step w" "r \<in> set (overrides (w_pg w))"
  shows "\<not> contains (po_allow_bits r) ADMINISTRATOR \<and> \<not> contains (po_deny_bits r) ADMINISTRATOR"
  using guilds.reach_inv [OF assms(1)] assms(2)
  by (auto simp: db_ok_def overrides_clean_def ADMINISTRATOR_def contains_flag)

definition admin_request :: set_override_request where
  "admin_request = \<lparr>so_target_type = 0, so_allow = ''3'', so_deny = ''0''\<rparr>"

definition stripped_row :: override_row where
  "stripped_row = \<lparr>po_channel_id = 20975617, po_target_id = home_id, po_target_type = 0, po_allow_bits = 2, po_deny_bits = 0\<rparr>"

lemma overridden:
  "w_pg (snd (set_channel_override 7 20975617 home_id admin_request (demo_world home_db))) =
     home_db\<lparr>overrides := [stripped_row]\<rparr>"
proof -
  have "channel_server 20975617 home_db = Some (Some home_id)"
    by (simp add: channel_server_def t_find_def home_defs)
  moreover have "parse_i64 ''3'' = Inr 3" "parse_i64 ''0'' = Inr 0" "strip_administrator 3 = 2" "strip_administrator 0 = 0"
    by (simp_all add: parse_i64_def digit_of_def strip_administrator_def)
  moreover have "forbidden_bits 2 perms_all = 0"
    by code_simp
  moreover have "effective_permissions home_id 7 home_db = perms_all"
    by (simp add: effective_permissions_def home_facts)
  moreover have "upsert_override stripped_row home_db = Inr (home_db\<lparr>overrides := [stripped_row]\<rparr>, ())"
    by (simp add: upsert_override_def insert_override_def stripped_row_def is_channel_def t_has_def t_insert_def)
      (simp add: home_defs)
  ultimately show ?thesis
    by (simp only: set_channel_override_def)
      (simp add: run home_facts home_may admin_request_def parse_bits_def flip: stripped_row_def)
qed

theorem overrides_never_administrator_witness:
  "\<exists>w. reach no_guilds server_step w \<and> stripped_row \<in> set (overrides (w_pg w)) \<and>
     \<not> contains (po_allow_bits stripped_row) ADMINISTRATOR"
proof (intro exI conjI)
  let ?w = "serve (SetOverride 7 20975617 home_id admin_request) (demo_world home_db)"
  show r: "reach no_guilds server_step ?w"
    by (rule reach_step [OF reach_home]) (rule served)
  show i: "stripped_row \<in> set (overrides (w_pg ?w))"
    by (simp add: overridden)
  show "\<not> contains (po_allow_bits stripped_row) ADMINISTRATOR"
    using overrides_never_administrator [OF r i] by blast
qed

section \<open>Who may remove whom\<close>

text \<open>The effect of a removal on the guild tables, row order aside.\<close>

definition departed :: "i64 \<Rightarrow> i64 \<Rightarrow> pg_db \<Rightarrow> pg_db \<Rightarrow> bool" where
  "departed sid uid s t \<longleftrightarrow>
     (\<forall>a b. is_member a b t \<longleftrightarrow> is_member a b s \<and> \<not> (a = sid \<and> b = uid)) \<and>
     set (member_roles t) = {m \<in> set (member_roles s). \<not> (mr_server_id m = sid \<and> mr_user_id m = uid)} \<and>
     map sv_id (servers t) = map sv_id (servers s) \<and> map sv_owner_id (servers t) = map sv_owner_id (servers s) \<and>
     channels t = channels s \<and> roles t = roles s"

definition count_right :: "i64 \<Rightarrow> pg_db \<Rightarrow> bool" where
  "count_right sid t \<longleftrightarrow> (\<forall>v \<in> set (servers t). sv_id v = sid \<longrightarrow> sv_member_count v = member_total sid t)"

definition may_remove :: "permissions \<Rightarrow> snowflake \<Rightarrow> i64 \<Rightarrow> i64 \<Rightarrow> pg_db \<Rightarrow> bool" where
  "may_remove p auth sid uid s \<longleftrightarrow> may sid auth p s \<and> \<not> is_owner sid uid s \<and> outranks sid auth uid s"

lemma departed_delete: "delete_member sid uid s = Inr (t, n) \<Longrightarrow> departed sid uid s t"
  by (auto simp: delete_member_def departed_def is_member_def tbl_simps)

lemma deleted_count: "delete_member sid uid s = Inr (t, n) \<Longrightarrow> n = 0 \<longleftrightarrow> \<not> is_member sid uid s"
  by (auto simp: delete_member_def is_member_def t_has_iff t_count_def filter_empty_conv)

lemma deleted_none: "delete_member sid uid s = Inr (t, 0) \<Longrightarrow> \<not> is_member sid uid s"
  by (drule deleted_count) simp

lemma departed_refresh:
  assumes "refresh_member_count sid t = Inr (t', x)" "departed sid uid s t"
  shows "departed sid uid s t' \<and> count_right sid t'"
proof -
  have t': "t' = update_servers sid (\<lambda>v. v\<lparr>sv_member_count := member_total sid t\<rparr>) t"
    using assms(1) by (simp add: refresh_member_count_def)
  have "departed sid uid s t'"
    using assms(2) by (simp add: t' departed_def update_servers_def map_t_update_same)
  moreover have "count_right sid t'"
    unfolding t' count_right_def update_servers_def
    by (simp, rule all_t_updateI) (simp_all add: member_total_def)
  ultimately show ?thesis ..
qed

lemma departed_ban:
  assumes "upsert_ban sid uid reason by_id now t = Inr (t', x)" "departed sid uid s t"
  shows "departed sid uid s t' \<and> is_banned sid uid t'"
proof -
  have "is_banned sid uid t'"
    using assms(1)
    by (auto simp: upsert_ban_def is_banned_def t_has_iff ex_t_update_same set_t_insert split: if_splits)
  moreover have "departed sid uid s t'"
    using assms by (auto simp: upsert_ban_def departed_def is_member_def split: if_splits)
  ultimately show ?thesis by simp
qed

lemma banned_refresh: "refresh_member_count sid t = Inr (t', x) \<Longrightarrow> is_banned a b t' = is_banned a b t"
  by (auto simp: refresh_member_count_def is_banned_def update_servers_def)

lemma wps_kick_member:
  "wps (kick_member auth sid uid)
     (\<lambda>r t. r = 204 \<and> may_remove KICK_MEMBERS auth sid uid s \<and> is_member sid uid s \<and> departed sid uid s t \<and> count_right sid t)
     (\<lambda>e t. t = s \<or> may_remove KICK_MEMBERS auth sid uid s \<and> departed sid uid s t) s"
  unfolding kick_member_def
  by (intro wp) (auto simp: may_remove_def deleted_count dest: departed_delete departed_refresh)

text \<open>C3: Kicking: whatever calls fail, a kick succeeds only for a caller with KICK_MEMBERS who is the owner or
  stands strictly above the target, never against the owner, and only on a member; then the target and
  its role assignments are gone, nobody else is touched and the member count is exact. An error leaves the database as it was, or
  the caller was entitled to the removal that did happen.\<close>

theorem kick_member_outcome:
  "case kick_member auth sid uid w of
     (Inr r, w') \<Rightarrow> r = 204 \<and> may_remove KICK_MEMBERS auth sid uid (w_pg w) \<and> is_member sid uid (w_pg w) \<and>
       departed sid uid (w_pg w) (w_pg w') \<and> count_right sid (w_pg w')
   | (Inl e, w') \<Rightarrow> w_pg w' = w_pg w \<or>
       may_remove KICK_MEMBERS auth sid uid (w_pg w) \<and> departed sid uid (w_pg w) (w_pg w')"
  using wps_kick_member [of auth sid uid "w_pg w"] unfolding wps_def by (auto split: prod.splits sum.splits)

lemma wps_create_ban:
  "wps (create_ban auth sid uid reason)
     (\<lambda>r t. r = 204 \<and> may_remove BAN_MEMBERS auth sid uid s \<and> is_banned sid uid t \<and> departed sid uid s t \<and> count_right sid t)
     (\<lambda>e t. t = s \<or> may_remove BAN_MEMBERS auth sid uid s \<and> departed sid uid s t) s"
  unfolding create_ban_def
  by (intro wp) (auto simp: may_remove_def banned_refresh dest: departed_delete departed_ban departed_refresh)

text \<open>Banning: success means the caller had BAN_MEMBERS and stood above the target, who is not the owner;
  then the target is banned, is no member and holds no role, nobody else is touched and the member count is exact. An error
  leaves the database as it was or comes after a removal the caller was entitled to.\<close>

theorem create_ban_outcome:
  "case create_ban auth sid uid reason w of
     (Inr r, w') \<Rightarrow> r = 204 \<and> may_remove BAN_MEMBERS auth sid uid (w_pg w) \<and> is_banned sid uid (w_pg w') \<and>
       departed sid uid (w_pg w) (w_pg w') \<and> count_right sid (w_pg w')
   | (Inl e, w') \<Rightarrow> w_pg w' = w_pg w \<or>
       may_remove BAN_MEMBERS auth sid uid (w_pg w) \<and> departed sid uid (w_pg w) (w_pg w')"
  using wps_create_ban [of auth sid uid reason "w_pg w"] unfolding wps_def by (auto split: prod.splits sum.splits)

section \<open>All or nothing: creating and joining a server\<close>

definition created :: "i64 \<Rightarrow> snowflake \<Rightarrow> pg_db \<Rightarrow> pg_db \<Rightarrow> bool" where
  "created sid auth s t \<longleftrightarrow>
     \<not> is_server sid s \<and> (\<forall>a. is_server a t \<longleftrightarrow> a = sid \<or> is_server a s) \<and> is_owner sid auth t \<and>
     (\<forall>a b. is_member a b t \<longleftrightarrow> (a = sid \<and> b = auth) \<or> is_member a b s) \<and> has_member_role sid auth sid t \<and>
     has_default_role sid t \<and> has_text_channel sid t \<and>
     (\<exists>c \<in> set (channels t). ch_server_id c = Some sid \<and> ch_type c = 2)"

lemma created_by:
  assumes s1: "insert_server row db = Inr (d1, x1)" "sv_id row = sid" "sv_owner_id row = auth"
    and s2: "insert_role role d1 = Inr (d2, x2)" "ro_id role = sid" "ro_server_id role = sid" "ro_is_default role"
    and s3: "insert_channel c1 d2 = Inr (d3, x3)" "ch_server_id c1 = Some sid" "ch_type c1 = 0"
    and s4: "insert_channel c2 d3 = Inr (d4, x4)" "ch_server_id c2 = Some sid" "ch_type c2 = 2"
    and s5: "update_server_row sid (sv_system_channel_id_update g) d4 = Inr (d5, x5)"
    and s6: "insert_member sid auth now d5 = Inr (d6, x6)"
    and s7: "insert_member_role sid auth sid d6 = Inr (d7, x7)"
  shows "created sid auth db d7"
proof -
  have d1: "\<not> is_server sid db" "d1 = db\<lparr>servers := t_insert row (servers db)\<rparr>"
    using s1 by (auto simp: insert_server_def split: if_splits)
  have d2: "d2 = d1\<lparr>roles := t_insert role (roles d1)\<rparr>"
    using s2(1) by (auto simp: insert_role_def split: if_splits)
  have d4: "d4 = d2\<lparr>channels := t_insert c2 (t_insert c1 (channels d2))\<rparr>"
    using s3(1) s4(1) by (auto simp: insert_channel_def split: if_splits)
  have d5: "d5 = d4\<lparr>servers := t_update (\<lambda>s. sv_id s = sid) (sv_system_channel_id_update g) (servers d4)\<rparr>"
    using s5 by (auto simp: update_server_row_def update_servers_def split: if_splits)
  obtain m where d6: "d6 = d5\<lparr>members := t_insert m (members d5)\<rparr>" "mb_server_id m = sid" "mb_user_id m = auth"
    using s6 by (auto simp: insert_member_def split: if_splits)
  have d7: "d7 = d6\<lparr>member_roles := t_insert \<lparr>mr_server_id = sid, mr_user_id = auth, mr_role_id = sid\<rparr> (member_roles d6)\<rparr>"
    using s7 by (auto simp: insert_member_role_def split: if_splits)
  note ds = d1(2) d2 d4 d5 d6(1) d7
  have "is_server a d7 \<longleftrightarrow> a = sid \<or> is_server a db" for a
    using s1(2) unfolding ds by (auto simp: is_server_def t_has_iff ex_t_update_same set_t_insert)
  moreover have "is_owner sid auth d7"
    using s1(2, 3) unfolding ds by (simp add: is_owner_def t_has_iff ex_t_update_same set_t_insert)
  moreover have "is_member a b d7 \<longleftrightarrow> (a = sid \<and> b = auth) \<or> is_member a b db" for a b
    unfolding ds by (auto simp: is_member_def tbl_simps d6(2, 3))
  moreover have "has_member_role sid auth sid d7" "has_default_role sid d7" "has_text_channel sid d7"
    "\<exists>c \<in> set (channels d7). ch_server_id c = Some sid \<and> ch_type c = 2"
    using s2 s3 s4 unfolding ds
    by (auto simp: has_member_role_def has_default_role_def has_text_channel_def t_has_iff set_t_insert)
  ultimately show ?thesis using d1(1) by (simp add: created_def)
qed

lemma wps_created:
  assumes "\<And>x t. created sid auth s t \<Longrightarrow> Q x t" "\<And>e t. E e t"
  shows "wps (create_server_tx auth sid body now) Q E s"
  unfolding create_server_tx_def
  by (intro wp assms(2) assms(1))
    (auto elim!: created_by simp: new_server_row_def everyone_role_row_def new_channel_row_def)

lemma found_server: "t_find (\<lambda>x. sv_id x = sid) t = Some r \<Longrightarrow> sr_id (server_response_of r) = sid"
  by (auto simp: server_response_of_def dest: t_find_SomeD)

lemma wps_create_server:
  "wps (create_server auth body)
     (\<lambda>r t. fst r = 201 \<and> 2 \<le> length (cs_name body) \<and> length (cs_name body) \<le> 100 \<and>
        t_count (\<lambda>m. mb_user_id m = auth) (members s) < 100 \<and> created (sr_id (snd r)) auth s t)
     (\<lambda>e t. t = s \<or> (\<exists>sid. created sid auth s t)) s"
  unfolding create_server_def Let_def
  by (intro wp wps_created) (auto intro!: wp simp: found_server validate_length_def split: if_splits)

text \<open>Creating a server is all or nothing: with any failures, also a commit whose acknowledgement is lost, either
  the database is as before or the whole server is there, owned and joined by its creator, with the
  default role assigned, a text and a voice channel, and nothing else changed. Success means it is there, under the identifier
  of the answer, for a creator below the limit of 100 servers and a name of 2 to 100 characters.\<close>

theorem create_server_outcome:
  "case create_server auth body w of
     (Inr r, w') \<Rightarrow> fst r = 201 \<and> 2 \<le> length (cs_name body) \<and> length (cs_name body) \<le> 100 \<and>
       t_count (\<lambda>m. mb_user_id m = auth) (members (w_pg w)) < 100 \<and> created (sr_id (snd r)) auth (w_pg w) (w_pg w')
   | (Inl e, w') \<Rightarrow> w_pg w' = w_pg w \<or> (\<exists>sid. created sid auth (w_pg w) (w_pg w'))"
  using wps_create_server [of auth body "w_pg w"] unfolding wps_def by (auto split: prod.splits sum.splits)

definition joined :: "string \<Rightarrow> snowflake \<Rightarrow> pg_db \<Rightarrow> pg_db \<Rightarrow> bool" where
  "joined code auth s t \<longleftrightarrow>
     (\<exists>i. t_find (\<lambda>i. iv_code i = code) (invites s) = Some i \<and> \<not> invite_used_up (iv_max_uses i) (iv_uses i) \<and>
        \<not> is_member (iv_server_id i) auth s \<and> \<not> is_banned (iv_server_id i) auth s \<and>
        (\<forall>a b. is_member a b t \<longleftrightarrow> (a = iv_server_id i \<and> b = auth) \<or> is_member a b s) \<and>
        has_member_role (iv_server_id i) auth (iv_server_id i) t \<and>
        invites t = t_update (\<lambda>i. iv_code i = code) (\<lambda>i. i\<lparr>iv_uses := iv_uses i + 1\<rparr>) (invites s))"

lemma joined_by:
  assumes "bump_invite_uses code d3 = Inr (d4, x4)" "bump_member_count (iv_server_id i) d2 = Inr (d3, x3)"
    "insert_member_role (iv_server_id i) uid (iv_server_id i) d1 = Inr (d2, x2)"
    "insert_member (iv_server_id i) uid now db = Inr (d1, x1)"
    "\<not> is_banned (iv_server_id i) uid db" "t_find (\<lambda>i. iv_code i = code) (invites db) = Some i"
    "\<not> invite_used_up (iv_max_uses i) (iv_uses i)"
  shows "joined code uid db d4"
proof -
  obtain m where d1: "d1 = db\<lparr>members := t_insert m (members db)\<rparr>" "mb_server_id m = iv_server_id i" "mb_user_id m = uid"
      "\<not> is_member (iv_server_id i) uid db"
    using assms(4) by (auto simp: insert_member_def split: if_splits)
  have d2: "d2 = d1\<lparr>member_roles := t_insert \<lparr>mr_server_id = iv_server_id i, mr_user_id = uid,
      mr_role_id = iv_server_id i\<rparr> (member_roles d1)\<rparr>"
    using assms(3) by (auto simp: insert_member_role_def split: if_splits)
  have d4: "d4 = d3\<lparr>invites := t_update (\<lambda>i. iv_code i = code) (\<lambda>i. i\<lparr>iv_uses := iv_uses i + 1\<rparr>) (invites d3)\<rparr>"
    "d3 = update_servers (iv_server_id i) (\<lambda>s. s\<lparr>sv_member_count := sv_member_count s + 1\<rparr>) d2"
    using assms(1, 2) by (simp_all add: bump_invite_uses_def bump_member_count_def)
  have "is_member a b d4 \<longleftrightarrow> (a = iv_server_id i \<and> b = uid) \<or> is_member a b db" for a b
    unfolding d4 d2 d1(1) by (auto simp: update_servers_def is_member_def tbl_simps d1(2, 3))
  moreover have "has_member_role (iv_server_id i) uid (iv_server_id i) d4"
    unfolding d4 d2 by (simp add: update_servers_def has_member_role_def tbl_simps)
  moreover have "invites d4 = t_update (\<lambda>i. iv_code i = code) (\<lambda>i. i\<lparr>iv_uses := iv_uses i + 1\<rparr>) (invites db)"
    unfolding d4 d2 d1(1) by (simp add: update_servers_def)
  ultimately show ?thesis using assms(5-7) d1(4) unfolding joined_def by blast
qed

definition already_in :: "string \<Rightarrow> snowflake \<Rightarrow> pg_db \<Rightarrow> bool" where
  "already_in code auth s \<longleftrightarrow>
     (\<exists>i. t_find (\<lambda>i. iv_code i = code) (invites s) = Some i \<and> is_member (iv_server_id i) auth s)"

lemma wps_joined:
  assumes "\<And>k. already_in code auth s \<Longrightarrow> Q (True, k) s" "\<And>k t. joined code auth s t \<Longrightarrow> Q (False, k) t" "\<And>e t. E e t"
  shows "wps (use_invite_tx auth code) Q E s"
  unfolding use_invite_tx_def Let_def
  by (intro wp assms(3)) (auto intro!: assms(1, 2) elim!: joined_by simp: already_in_def)

lemma wps_use_invite:
  "wps (use_invite auth code) (\<lambda>r t. already_in code auth s \<and> t = s \<or> joined code auth s t)
     (\<lambda>e t. t = s \<or> joined code auth s t) s"
  unfolding use_invite_def by (intro wp wps_joined) (auto intro!: wp)

text \<open>C4: Joining by invite is all or nothing: with any failures, either nothing changed, or the user, who was
  neither a member nor banned, is now a member with the default role and exactly this invite, which had
  a use left, counts one use more. Success means that, or that the user was a member already.\<close>

theorem use_invite_outcome:
  "case use_invite auth code w of
     (Inr r, w') \<Rightarrow> already_in code auth (w_pg w) \<and> w_pg w' = w_pg w \<or> joined code auth (w_pg w) (w_pg w')
   | (Inl e, w') \<Rightarrow> w_pg w' = w_pg w \<or> joined code auth (w_pg w) (w_pg w')"
  using wps_use_invite [of auth code "w_pg w"] unfolding wps_def by (auto split: prod.splits sum.splits)

end
