(* ===== verification/Role_Properties.thy ===== *)
theory Role_Properties
  imports Demo
begin

text \<open>
  Roles and ownership: what the guards of the role routes achieve, and two things they do not stop: a role
  of another server can be assigned and counts there, and a transfer of ownership is kept when the rest of the
  same request is refused.
\<close>

section \<open>No escalation through role edits\<close>

lemma forbidden_none: "forbidden_bits b p = 0 \<longleftrightarrow> contains p b"
proof -
  have "n < 64" if "bit b n" for n using bit_imp_le_length [OF that] by simp
  then have "forbidden_bits b p = 0 \<longleftrightarrow> (\<forall>n. \<not> (bit b n \<and> \<not> bit p n))"
    by (auto simp: forbidden_bits_def bit_eq_iff bit_and_iff bit_not_iff)
  then show ?thesis by (auto simp: contains_iff)
qed

lemma run_get_actor_highest_position [run]:
  "calm w \<Longrightarrow> get_actor_highest_position sid uid w = (Inr (actor_position sid uid (w_pg w)), w)"
  by (simp add: get_actor_highest_position_def actor_position_def rank_def run)

definition no_escalation :: "snowflake \<Rightarrow> i64 \<Rightarrow> pg_db \<Rightarrow> pg_db \<Rightarrow> bool" where
  "no_escalation auth sid s t \<longleftrightarrow>
     (\<forall>r' \<in> set (roles t).
        (\<exists>r \<in> set (roles s). ro_id r = ro_id r' \<and> ro_server_id r = ro_server_id r' \<and> ro_permissions r = ro_permissions r') \<or>
        (may sid auth MANAGE_ROLES s \<and> ro_server_id r' = sid \<and>
         contains (effective_permissions sid auth s) (ro_permissions r')))"

lemma no_escalation_refl [simp]: "no_escalation auth sid s s"
  by (auto simp: no_escalation_def)

lemma no_escalation_insert:
  assumes "insert_role r s = Inr (t, x)" "may sid auth MANAGE_ROLES s" "ro_server_id r = sid"
    "contains (effective_permissions sid auth s) (ro_permissions r)"
  shows "no_escalation auth sid s t"
  using assms by (auto simp: insert_role_def no_escalation_def tbl_simps split: if_splits)

lemma no_escalation_update:
  assumes "update_role_rows rid sid (update_role_sets b p) s = Inr (t, x)" "may sid auth MANAGE_ROLES s"
    "p = None \<or> (\<exists>bits. p = Some bits \<and> contains (effective_permissions sid auth s) bits)"
  shows "no_escalation auth sid s t"
proof -
  have t: "t = s\<lparr>roles := t_update (\<lambda>r. ro_id r = rid \<and> ro_server_id r = sid) (update_role_sets b p) (roles s)\<rparr>"
    using assms(1) by (auto simp: update_role_rows_def split: if_splits)
  show ?thesis
    unfolding no_escalation_def t using assms(2, 3)
    by (simp, intro all_t_updateI) (auto simp: update_role_sets_def unwrap_or_def)
qed

lemma contains_zero [simp]: "contains p 0"
  by (simp add: contains_def)

lemma wps_create_role_safe:
  "wps (create_role auth sid body) (\<lambda>_. no_escalation auth sid s) (\<lambda>_. no_escalation auth sid s) s"
  unfolding create_role_def Let_def by (intro wp) (auto simp: forbidden_none elim!: no_escalation_insert)

lemma wps_update_role_safe:
  "wps (update_role auth sid rid body) (\<lambda>_. no_escalation auth sid s) (\<lambda>_. no_escalation auth sid s) s"
  unfolding update_role_def by (intro wp) (auto simp: forbidden_none elim!: no_escalation_update)

lemma wps_end: "wps m (\<lambda>_. P) (\<lambda>_. P) (w_pg w) \<Longrightarrow> P (w_pg (snd (m w)))"
  by (cases "m w", cases "fst (m w)") (auto dest: wpsD)

text \<open>C5: Creating and editing roles never escalates: whatever the request and whatever fails, each role
  afterwards either carries the permissions it had, or belongs to the server of the request, whose caller may manage
  roles there, and carries only permissions the caller has.\<close>

theorem role_edits_never_escalate:
  "no_escalation auth sid (w_pg w) (w_pg (snd (create_role auth sid cbody w))) \<and>
   no_escalation auth sid (w_pg w) (w_pg (snd (update_role auth sid rid ubody w)))"
  using wps_end [OF wps_create_role_safe] wps_end [OF wps_update_role_safe] by blast

section \<open>The hierarchy\<close>

definition roles_guarded :: "snowflake \<Rightarrow> i64 \<Rightarrow> pg_db \<Rightarrow> pg_db \<Rightarrow> bool" where
  "roles_guarded auth sid s t \<longleftrightarrow>
     (\<forall>r \<in> set (roles s). r \<notin> set (roles t) \<longrightarrow>
        may sid auth MANAGE_ROLES s \<and> ro_server_id r = sid \<and>
        (ro_position r < actor_position sid auth s \<or> actor_position sid auth s = i32_max))"

lemma roles_guarded_refl [simp]: "roles_guarded auth sid s s"
  by (simp add: roles_guarded_def)

lemma unique_role:
  assumes "distinct (map ro_id (roles s))" "t_find P (roles s) = Some r'" "\<And>r. P r \<Longrightarrow> ro_id r = rid"
    "r \<in> set (roles s)" "ro_id r = rid"
  shows "r = r'"
proof -
  have "r' \<in> set (roles s)" "ro_id r' = rid" using assms(2, 3) by (auto dest: t_find_SomeD)
  with assms(1, 4, 5) show ?thesis by (auto simp: distinct_map dest: inj_onD)
qed

lemma guarded_update:
  assumes "update_role_rows rid sid f s = Inr (t, x)" "distinct (map ro_id (roles s))" "may sid auth MANAGE_ROLES s"
    "t_find (\<lambda>r. ro_id r = rid \<and> ro_server_id r = sid) (roles s) = Some r'"
    "ro_position r' < actor_position sid auth s \<or> actor_position sid auth s = i32_max"
  shows "roles_guarded auth sid s t"
proof -
  have t: "roles t = t_update (\<lambda>r. ro_id r = rid \<and> ro_server_id r = sid) f (roles s)"
    using assms(1) by (auto simp: update_role_rows_def split: if_splits)
  have "r = r'" if "r \<in> set (roles s)" "ro_id r = rid" for r
    by (rule unique_role [OF assms(2, 4) _ that]) simp
  then show ?thesis
    using assms(3, 5) t_find_SomeD [OF assms(4)] unfolding roles_guarded_def t by (auto simp: set_t_update)
qed

lemma guarded_delete:
  assumes "delete_role_row rid sid s = Inr (t, x)" "distinct (map ro_id (roles s))" "may sid auth MANAGE_ROLES s"
    "t_find (\<lambda>r. ro_id r = rid) (roles s) = Some r'"
    "ro_position r' < actor_position sid auth s \<or> actor_position sid auth s = i32_max"
  shows "roles_guarded auth sid s t"
proof -
  have t: "roles t = t_delete (\<lambda>r. ro_id r = rid \<and> ro_server_id r = sid) (roles s)"
    using assms(1) by (auto simp: delete_role_row_def Let_def)
  have "r = r'" if "r \<in> set (roles s)" "ro_id r = rid" for r
    by (rule unique_role [OF assms(2, 4) _ that]) simp
  then show ?thesis
    using assms(3, 5) unfolding roles_guarded_def t by (auto simp: set_t_delete)
qed

lemma wps_update_role_guarded:
  assumes "distinct (map ro_id (roles s))"
  shows "wps (update_role auth sid rid body) (\<lambda>_. roles_guarded auth sid s) (\<lambda>_. roles_guarded auth sid s) s"
  unfolding update_role_def
  by (intro wp) (use assms in \<open>auto simp: role_position_of_def not_le elim!: guarded_update\<close>)

lemma wps_delete_role_guarded:
  assumes "distinct (map ro_id (roles s))"
  shows "wps (delete_role auth sid rid) (\<lambda>_. roles_guarded auth sid s) (\<lambda>_. roles_guarded auth sid s) s"
  unfolding delete_role_def
  by (intro wp) (use assms in \<open>auto simp: not_le elim!: guarded_delete\<close>)


definition rename_role :: update_role_request where
  "rename_role = \<lparr>ur_name = Some (lit ''all''), ur_color = None, ur_hoist = None, ur_icon = None, ur_mentionable = None,
     ur_permissions = None, ur_position = None\<rparr>"


section \<open>What the guards do not stop\<close>

text \<open>
  A request to \<open>update_member\<close> that only replaces the roles of a member.
\<close>

definition assign_roles :: "i64 list \<Rightarrow> update_member_request" where
  "assign_roles rids = \<lparr>um_nickname = None, um_roles = Some rids, um_disabled_until = None\<rparr>"

lemma declared_MANAGE_ROLES: "from_bits_truncate MANAGE_ROLES = MANAGE_ROLES"
  by code_simp

lemma read_only_get_member: "w_pg (snd (get_member a b c w)) = w_pg w"
proof -
  have "read_only (get_member a b c)" unfolding get_member_def by (rule read_only_wps) (intro wp, auto)
  then show ?thesis by (simp add: read_only_def)
qed

definition assigned :: "i64 \<Rightarrow> i64 \<Rightarrow> i64 \<Rightarrow> pg_db \<Rightarrow> pg_db" where
  "assigned sid uid rid db =
     (let cleared = db\<lparr>member_roles := t_delete (\<lambda>m. mr_server_id m = sid \<and> mr_user_id m = uid \<and> mr_role_id m \<noteq> sid) (member_roles db)\<rparr>
      in if has_member_role sid uid rid cleared then cleared
         else cleared\<lparr>member_roles := t_insert \<lparr>mr_server_id = sid, mr_user_id = uid, mr_role_id = rid\<rparr> (member_roles cleared)\<rparr>)"

lemma assigned_facts:
  "has_member_role sid uid rid (assigned sid uid rid db)" "roles (assigned sid uid rid db) = roles db"
  by (auto simp: assigned_def Let_def has_member_role_def tbl_simps)

lemma run_assign:
  assumes "calm w" "is_owner sid auth (w_pg w)" "is_member sid auth (w_pg w)" "r \<in> set (roles (w_pg w))"
  shows "w_pg (snd (update_member auth sid auth (assign_roles [ro_id r]) w)) = assigned sid auth (ro_id r) (w_pg w)"
proof -
  have "outranks sid auth auth (w_pg w)" "effective_permissions sid auth (w_pg w) = perms_all"
    "t_has (\<lambda>x. ro_id x = ro_id r) (roles (w_pg w))"
    using assms(2, 4) by (auto simp: outranks_def effective_permissions_def t_has_iff)
  then show ?thesis
    using assms(1-3) by (simp only: update_member_def)
      (simp add: run assign_roles_def Let_def clear_member_roles_def insert_member_role_lenient_def
        insert_member_role_def member_role_refs_def assigned_def declared_MANAGE_ROLES read_only_get_member)
qed

text \<open>C37: The roles that \<open>update_member\<close> assigns are not checked to belong to the server: the owner of any server
  who names a role of another server gets every declared permission of that role in that other server, without any right there.\<close>

theorem foreign_role_escalates:
  assumes "calm w" "is_owner own auth (w_pg w)" "is_member own auth (w_pg w)"
    and "r \<in> set (roles (w_pg w))" "bit (ro_permissions r) n" "n < 38"
  shows "bit (effective_permissions (ro_server_id r) auth
           (w_pg (snd (update_member auth own auth (assign_roles [ro_id r]) w)))) n"
proof -
  have "has_member_role own auth (ro_id r) (assigned own auth (ro_id r) (w_pg w))"
    "r \<in> set (roles (assigned own auth (ro_id r) (w_pg w)))"
    using assms(4) by (simp_all add: assigned_facts)
  then show ?thesis
    using assms(5, 6) unfolding run_assign [OF assms(1-4)] bit_effective
    by (fastforce simp: has_member_role_def t_has_iff)
qed

text \<open>Account 7 owns the server \<open>home_id\<close>; the server 5 belongs to account 8 and has an administrator role.\<close>

definition admin_role :: role_row where
  "admin_role = (everyone_role_row 5 demo_now)\<lparr>ro_id := 99, ro_name := lit ''admin'', ro_permissions := 1, ro_is_default := False\<rparr>"

definition two_servers :: pg_db where
  "two_servers = home_db\<lparr>
     servers := new_server_row 5 demo_request 8 demo_now # servers home_db,
     roles := [everyone_role_row home_id demo_now, everyone_role_row 5 demo_now, admin_role],
     members := [\<lparr>mb_server_id = home_id, mb_user_id = 7, mb_nickname = None, mb_avatar = None,
         mb_joined_at = demo_now, mb_disabled_until = None, mb_flags = 0\<rparr>,
       \<lparr>mb_server_id = 5, mb_user_id = 7, mb_nickname = None, mb_avatar = None,
         mb_joined_at = demo_now, mb_disabled_until = None, mb_flags = 0\<rparr>]\<rparr>"

lemma two_servers_facts:
  "is_owner home_id 7 two_servers" "\<not> is_owner 5 7 two_servers" "is_member home_id 7 two_servers" "admin_role \<in> set (roles two_servers)"
  "ro_id admin_role = 99" "ro_server_id admin_role = 5" "bit (ro_permissions admin_role) 0"
  by (simp_all add: two_servers_def admin_role_def home_defs row_defs t_has_def)

theorem foreign_role_escalates_witness:
  "\<not> bit (effective_permissions 5 7 two_servers) 0 \<and>
   bit (effective_permissions 5 7 (w_pg (snd (update_member 7 home_id 7 (assign_roles [99]) (demo_world two_servers))))) 0"
proof
  show "\<not> bit (effective_permissions 5 7 two_servers) 0"
    by (simp add: bit_effective two_servers_facts) (simp add: two_servers_def admin_role_def home_defs everyone_role_row_def, code_simp)
  show "bit (effective_permissions 5 7 (w_pg (snd (update_member 7 home_id 7 (assign_roles [99]) (demo_world two_servers))))) 0"
    using foreign_role_escalates [of "demo_world two_servers" home_id 7 admin_role 0]
    by (simp add: two_servers_facts calm_demo)
qed

definition handed_over :: "i64 \<Rightarrow> i64 \<Rightarrow> pg_db \<Rightarrow> pg_db" where
  "handed_over sid new db = update_servers sid (\<lambda>s. s\<lparr>sv_owner_id := new\<rparr>) db"

lemma owner_handed_over: "is_owner sid auth db \<Longrightarrow> is_owner sid new (handed_over sid new db)"
proof -
  assume "is_owner sid auth db"
  then obtain v where v: "v \<in> set (servers db)" "sv_id v = sid" by (auto simp: is_owner_def t_has_iff)
  then have "v\<lparr>sv_owner_id := new\<rparr> \<in> set (servers (handed_over sid new db))"
    unfolding handed_over_def update_servers_def by (simp add: set_t_update)
  then show ?thesis unfolding is_owner_def t_has_iff using v(2) by (intro bexI) auto
qed

text \<open>A transfer of ownership is not undone when the rest of the same request is refused: the former owner,
  who keeps no right to manage the server, gets an error and the server has the new owner all the same.\<close>

theorem transfer_survives_refusal:
  assumes "calm w" "is_owner sid auth (w_pg w)" "is_member sid new (w_pg w)"
    and "update_server_row sid (\<lambda>s. s\<lparr>sv_owner_id := new\<rparr>) (w_pg w) = Inr (handed_over sid new (w_pg w), ())"
    and "us_owner_id body = Some new" "update_server_has_other_fields body" "\<not> may sid auth MANAGE_SERVER (handed_over sid new (w_pg w))"
  shows "(\<exists>why. fst (update_server auth sid body w) = Inl (Forbidden why)) \<and>
         is_owner sid new (w_pg (snd (update_server auth sid body w)))"
  using assms owner_handed_over [OF assms(2), of new]
  by (simp only: update_server_def transfer_ownership_def) (simp add: run)

definition rename_and_leave :: update_server_request where
  "rename_and_leave = \<lparr>us_name = Some (lit ''mine''), us_icon = None, us_banner = None, us_description = None, us_region = None,
     us_verification_level = None, us_default_message_notifications = None, us_explicit_content_filter = None,
     us_system_channel_id = None, us_rules_channel_id = None, us_owner_id = Some 8\<rparr>"

definition duo_db :: pg_db where
  "duo_db = home_db\<lparr>members := \<lparr>mb_server_id = home_id, mb_user_id = 8, mb_nickname = None, mb_avatar = None,
     mb_joined_at = demo_now, mb_disabled_until = None, mb_flags = 0\<rparr> # members home_db\<rparr>"

lemma duo_transfer:
  "is_owner home_id 7 duo_db" "is_member home_id 8 duo_db"
  "update_server_row home_id (\<lambda>s. s\<lparr>sv_owner_id := 8\<rparr>) duo_db =
     Inr (handed_over home_id 8 duo_db, ())"
  "\<not> is_owner home_id 7 (handed_over home_id 8 duo_db)"
  by (simp_all add: duo_db_def handed_over_def stmt_defs home_defs trim_def is_whitespace_def)

lemma duo_default: "\<not> may home_id 7 MANAGE_SERVER (handed_over home_id 8 duo_db)"
proof -
  have "\<not> bit (effective_permissions home_id 7 (handed_over home_id 8 duo_db)) 2"
    by (simp add: bit_effective duo_transfer)
      (simp add: duo_db_def handed_over_def update_servers_def home_defs everyone_role_row_def, code_simp)
  then show ?thesis by (simp add: may_def MANAGE_SERVER_def contains_flag)
qed

theorem transfer_survives_refusal_witness:
  "is_owner home_id 8 (w_pg (snd (update_server 7 home_id rename_and_leave (demo_world duo_db))))"
  using transfer_survives_refusal [of "demo_world duo_db" home_id 7 8 rename_and_leave]
  by (simp add: duo_transfer duo_default calm_demo rename_and_leave_def update_server_has_other_fields_def)

end
