(* ===== verification/Message_System.thy ===== *)
theory Message_System
  imports Messages Guards
begin

text \<open>
  The message store as a transition system. A second weakest-precondition calculus follows PostgreSQL
  and ScyllaDB together, under every failure; with it, what each message route does to the store, and the invariant
  that all of them keep.
\<close>

section \<open>Weakest preconditions on both databases\<close>

definition wpm ::
  "'a handler \<Rightarrow> ('a \<Rightarrow> pg_db \<Rightarrow> scylla_db \<Rightarrow> bool) \<Rightarrow> (app_error \<Rightarrow> pg_db \<Rightarrow> scylla_db \<Rightarrow> bool) \<Rightarrow>
   pg_db \<Rightarrow> scylla_db \<Rightarrow> bool" where
  "wpm m Q E s c \<longleftrightarrow>
     (\<forall>w. w_pg w = s \<longrightarrow> w_scylla w = c \<longrightarrow>
        (case m w of (Inl e, w') \<Rightarrow> E e (w_pg w') (w_scylla w') | (Inr x, w') \<Rightarrow> Q x (w_pg w') (w_scylla w')))"

named_theorems wpm_rules \<open>weakest-precondition rules over PostgreSQL and ScyllaDB\<close>

lemma next_call_both: "next_call w = (o', w') \<Longrightarrow> w_pg w' = w_pg w \<and> w_scylla w' = w_scylla w"
  by (auto simp: next_call_def split: list.splits)

lemma wpm_ret [wpm_rules]: "Q x s c \<Longrightarrow> wpm (ret x) Q E s c"
  by (simp add: wpm_def ret_def)

lemma wpm_throw [wpm_rules]: "E e s c \<Longrightarrow> wpm (throw e) Q E s c"
  by (simp add: wpm_def throw_def)

lemma wpm_bind [wpm_rules]: "wpm m (\<lambda>x. wpm (k x) Q E) E s c \<Longrightarrow> wpm (bind m k) Q E s c"
  unfolding wpm_def bind_def by (auto split: prod.splits sum.splits)

lemma wpm_if [wpm_rules]:
  "(b \<Longrightarrow> wpm m Q E s c) \<Longrightarrow> (\<not> b \<Longrightarrow> wpm n Q E s c) \<Longrightarrow> wpm (if b then m else n) Q E s c"
  by simp

lemma wpm_let [wpm_rules]: "wpm (f v) Q E s c \<Longrightarrow> wpm (let x = v in f x) Q E s c"
  by simp

lemma wpm_option [wpm_rules]:
  "(v = None \<Longrightarrow> wpm m Q E s c) \<Longrightarrow> (\<And>x. v = Some x \<Longrightarrow> wpm (k x) Q E s c) \<Longrightarrow>
   wpm (case v of None \<Rightarrow> m | Some x \<Rightarrow> k x) Q E s c"
  by (cases v) simp_all

lemma wpm_list [wpm_rules]:
  "(v = [] \<Longrightarrow> wpm m Q E s c) \<Longrightarrow> (\<And>x xs. v = x # xs \<Longrightarrow> wpm (k x xs) Q E s c) \<Longrightarrow>
   wpm (case v of [] \<Rightarrow> m | x # xs \<Rightarrow> k x xs) Q E s c"
  by (cases v) simp_all

lemma wpm_pair [wpm_rules]:
  "(\<And>a b. p = (a, b) \<Longrightarrow> wpm (k a b) Q E s c) \<Longrightarrow> wpm (case p of (a, b) \<Rightarrow> k a b) Q E s c"
  by (cases p) simp

lemma wpm_ensure [wpm_rules]: "(b \<Longrightarrow> Q () s c) \<Longrightarrow> (\<not> b \<Longrightarrow> E e s c) \<Longrightarrow> wpm (ensure b e) Q E s c"
  by (simp add: wpm_def ensure_def ret_def throw_def)

lemma wpm_ok_or [wpm_rules]:
  "(\<And>x. v = Some x \<Longrightarrow> Q x s c) \<Longrightarrow> (v = None \<Longrightarrow> E e s c) \<Longrightarrow> wpm (ok_or v e) Q E s c"
  by (cases v) (simp_all add: wpm_def ok_or_def ret_def throw_def)

lemma wpm_query [wpm_rules]:
  "Q (q s) s c \<Longrightarrow> (\<And>m. E (db_error m) s c) \<Longrightarrow> wpm (pg_query q) Q E s c"
  by (auto simp: wpm_def pg_query_def Let_def dest: next_call_both split: prod.splits)

lemma wpm_exec [wpm_rules]:
  assumes "\<And>db x. st s = Inr (db, x) \<Longrightarrow> Q x db c"
    and "\<And>m. E (db_error m) s c" and "\<And>db x m. st s = Inr (db, x) \<Longrightarrow> E (db_error m) db c"
  shows "wpm (pg_exec st) Q E s c"
  using assms
  by (auto simp: wpm_def pg_exec_def Let_def dest: next_call_both split: prod.splits sum.splits call_outcome.splits)

lemma wpm_fetch_one [wpm_rules]:
  "(\<And>x. q s = Some x \<Longrightarrow> Q x s c) \<Longrightarrow> (\<And>m. E (db_error m) s c) \<Longrightarrow> wpm (fetch_one q) Q E s c"
  unfolding fetch_one_def by (intro wpm_rules) auto

lemma wpm_publish [wpm_rules]:
  "Q () s c \<Longrightarrow> wpm (publish a p) Q E s c" "Q () s c \<Longrightarrow> wpm (publish_durable a p) Q E s c"
  by (auto simp: wpm_def publish_def publish_durable_def Let_def dest: next_call_both split: prod.splits)

lemma wpm_fresh_id [wpm_rules]: "(\<And>i. Q i s c) \<Longrightarrow> wpm fresh_id Q E s c"
  by (auto simp: wpm_def fresh_id_def split: prod.splits)

lemma wpm_now [wpm_rules]: "(\<And>t. Q t s c) \<Longrightarrow> wpm utc_now Q E s c"
  by (simp add: wpm_def utc_now_def)

lemma wpm_scylla_query [wpm_rules]: "Q (q c) s c \<Longrightarrow> E scylla_error s c \<Longrightarrow> wpm (scylla_query q) Q E s c"
  by (auto simp: wpm_def scylla_query_def Let_def dest: next_call_both split: prod.splits)

lemma wpm_scylla_exec [wpm_rules]:
  "Q () s (f c) \<Longrightarrow> E scylla_error s c \<Longrightarrow> E scylla_error s (f c) \<Longrightarrow> wpm (scylla_exec f) Q E s c"
  by (auto simp: wpm_def scylla_exec_def Let_def dest: next_call_both split: prod.splits)

lemma wpm_redis_call [wpm_rules]:
  "(\<And>x. Q x s c) \<Longrightarrow> (\<And>e. E e s c) \<Longrightarrow> wpm (redis_call cmd) Q E s c"
  by (auto simp: wpm_def redis_call_def Let_def dest: next_call_both
      split: prod.splits sum.splits call_outcome.splits)

lemma wpm_or_else [wpm_rules]: "wpm m Q (\<lambda>_. Q d) s c \<Longrightarrow> wpm (or_else d m) Q E s c"
  unfolding wpm_def or_else_def by (fastforce split: prod.splits sum.splits)

lemma wpm_redis [wpm_rules]:
  "(\<And>b. Q b s c) \<Longrightarrow> wpm (redis_exists_or_false k) Q E s c"
  "Q' () s c \<Longrightarrow> wpm (redis_set_ex k v n) Q' E s c"
  unfolding redis_exists_or_false_def redis_set_ex_def by (intro wpm_rules; simp)+

lemma wpm_is_ok [wpm_rules]: "wpm m (\<lambda>_. Q True) (\<lambda>_. Q False) s c \<Longrightarrow> wpm (is_ok m) Q E s c"
  unfolding wpm_def is_ok_def by (fastforce split: prod.splits sum.splits)

lemma wpm_mono:
  assumes "wpm m Q E s c" "\<And>x t d. Q x t d \<Longrightarrow> Q' x t d" "\<And>e t d. E e t d \<Longrightarrow> E' e t d"
  shows "wpm m Q' E' s c"
  using assms unfolding wpm_def by (auto split: prod.splits sum.splits)

text \<open>The rule of a guard: it may assume what it checked.\<close>

lemma wpm_require_permissions [wpm_rules]:
  "(may sid uid p s \<Longrightarrow> Q () s c) \<Longrightarrow> (\<And>e. E e s c) \<Longrightarrow> wpm (require_permissions sid uid p) Q E s c"
  unfolding require_permissions_def require_member_def get_user_permissions_def may_def effective_permissions_def
  by (intro wpm_rules) auto

text \<open>Who may do something in a channel: by permission in the server, or as a recipient of the conversation.\<close>

definition channel_may :: "i64 \<Rightarrow> snowflake \<Rightarrow> permissions \<Rightarrow> pg_db \<Rightarrow> bool" where
  "channel_may cid uid p db =
     (case channel_server cid db of
        None \<Rightarrow> False
      | Some (Some sid) \<Rightarrow> may sid uid p db
      | Some None \<Rightarrow> is_dm_recipient cid uid db)"

lemma wpm_check_channel_permission [wpm_rules]:
  "(\<And>v. channel_may cid uid p s \<Longrightarrow> channel_server cid s = Some v \<Longrightarrow> Q v s c) \<Longrightarrow> (\<And>e. E e s c) \<Longrightarrow>
   wpm (check_channel_permission cid uid p) Q E s c"
  unfolding check_channel_permission_def get_channel_server_def by (intro wpm_rules) (auto simp: channel_may_def)

lemma run_check_channel_permission [run]:
  "calm w \<Longrightarrow> channel_may cid uid p (w_pg w) \<Longrightarrow>
   check_channel_permission cid uid p w = (Inr (the (channel_server cid (w_pg w))), w)"
  by (auto simp: check_channel_permission_def get_channel_server_def channel_may_def may_def run split: option.splits)

lemma first_message: "cql_message_by_id cid b mid c = r # rs \<Longrightarrow> r \<in> set (messages c) \<and> message_key cid b mid r"
  unfolding cql_message_by_id_def by (drule arg_cong [of _ _ set]) auto

lemma wpm_message_author [wpm_rules]:
  "(\<And>r a. r \<in> set (messages c) \<Longrightarrow> message_key cid b mid r \<Longrightarrow> ms_author_id r = Some a \<Longrightarrow> Q a s c) \<Longrightarrow>
   (\<And>e. E e s c) \<Longrightarrow> wpm (message_author cid b mid) Q E s c"
  unfolding message_author_def
  by (intro wpm_rules) (auto dest: first_message)

lemma wpm_send_guards [wpm_rules]:
  "Q () s c \<Longrightarrow> (\<And>e. E e s c) \<Longrightarrow> wpm (check_slowmode cid auth rate) Q E s c"
  "Q () s c \<Longrightarrow> (\<And>e. E e s c) \<Longrightarrow> wpm (check_timeout server auth) Q E s c"
  "(\<And>b. Q' b s c) \<Longrightarrow> (\<And>e. E e s c) \<Longrightarrow> wpm (may_mention_everyone detected server auth) Q' E s c"
  unfolding check_slowmode_def check_timeout_def may_mention_everyone_def by ((intro wpm_rules; simp)+)

section \<open>The invariant of the store\<close>

text \<open>
  Every message lies in the partition of its identifier, where the readers look for it; a message with
  an author is a whole one, which decodes (the upserts leave rows without author behind); a message and a
  pin exist once per channel; no channel has more than 50 pins.
\<close>

definition message_ok :: "message_row \<Rightarrow> bool" where
  "message_ok r \<longleftrightarrow> ms_bucket r = bucket_from_snowflake (ms_id r) \<and>
     (ms_author_id r \<noteq> None \<longrightarrow> decode_msg_row r \<noteq> None)"

definition message_at :: "message_row \<Rightarrow> i64 \<times> i64" where
  "message_at r = (ms_channel_id r, ms_id r)"

definition pin_at :: "pin_row \<Rightarrow> i64 \<times> i64" where
  "pin_at p = (pn_channel_id p, pn_message_id p)"

definition store_ok :: "scylla_db \<Rightarrow> bool" where
  "store_ok sc \<longleftrightarrow> (\<forall>r \<in> set (messages sc). message_ok r) \<and> distinct (map message_at (messages sc)) \<and>
     distinct (map pin_at (pins sc)) \<and> (\<forall>cid. cql_count_pins cid sc \<le> 50)"

lemma decode_None_iff:
  "decode_msg_row r = None \<longleftrightarrow> ms_author_id r = None \<or> ms_type r = None \<or> ms_flags r = None \<or> ms_pinned r = None \<or>
     ms_mention_everyone r = None \<or> ms_deleted r = None"
  by (auto simp: decode_msg_row_def split: option.split)

text \<open>A write that keeps the key and the wholeness of a row.\<close>

definition tame :: "(message_row \<Rightarrow> message_row) \<Rightarrow> bool" where
  "tame f \<longleftrightarrow> (\<forall>r. ms_channel_id (f r) = ms_channel_id r \<and> ms_bucket (f r) = ms_bucket r \<and> ms_id (f r) = ms_id r \<and>
     (message_ok r \<longrightarrow> message_ok (f r)))"

lemma ok_upsert:
  assumes "store_ok sc" "b = bucket_from_snowflake mid" "tame f"
  shows "store_ok (cql_upsert_message cid b mid f sc)"
proof -
  have blank: "message_ok (f (blank_message cid b mid))" "message_at (f (blank_message cid b mid)) = (cid, mid)"
    using assms(2, 3) by (simp_all add: tame_def message_ok_def message_at_def blank_message_def)
  have at: "message_at (f r) = message_at r" for r
    using assms(3) by (simp add: tame_def message_at_def)
  have count: "cql_count_pins c' (cql_upsert_message cid b mid f sc) = cql_count_pins c' sc" for c'
    by (simp add: cql_count_pins_def cql_upsert_message_def)
  show ?thesis
  proof (cases "t_has (message_key cid b mid) (messages sc)")
    case True
    then show ?thesis
      using assms(1, 3) count
      by (auto simp: store_ok_def cql_upsert_message_def map_t_update_same at set_t_update tame_def)
  next
    case False
    have "(cid, mid) \<notin> message_at ` set (messages sc)"
    proof
      assume "(cid, mid) \<in> message_at ` set (messages sc)"
      then obtain r where r: "r \<in> set (messages sc)" "ms_channel_id r = cid" "ms_id r = mid"
        by (auto simp: message_at_def)
      then have "ms_bucket r = b" using assms(1, 2) by (auto simp: store_ok_def message_ok_def)
      with r False show False by (auto simp: t_has_iff message_key_def)
    qed
    then show ?thesis
      using assms(1) False blank count
      by (auto simp: store_ok_def cql_upsert_message_def t_insert_def)
  qed
qed

lemma tame_writes [simp]:
  "tame (\<lambda>r. r\<lparr>ms_deleted := Some d\<rparr>)" "tame (\<lambda>r. r\<lparr>ms_pinned := Some v\<rparr>)"
  "tame (\<lambda>r. r\<lparr>ms_content := Some x, ms_edited_at := Some n\<rparr>)" "tame (\<lambda>r. r\<lparr>ms_embeds := Some j, ms_edited_at := Some n\<rparr>)"
  "tame (\<lambda>r. r\<lparr>ms_author_id := Some a, ms_content := ct, ms_type := Some ty, ms_flags := Some fl, ms_pinned := Some v,
     ms_mention_everyone := Some ev, ms_mentions := us, ms_mention_roles := rs, ms_embeds := em, ms_attachments := at,
     ms_reference_id := rf, ms_deleted := Some d\<rparr>)"
  by (simp_all add: tame_def message_ok_def decode_None_iff del: not_None_eq)

lemma ok_insert_pin:
  assumes "store_ok sc" "\<not> cql_count_pins (pn_channel_id p) sc \<ge> 50"
  shows "store_ok (cql_insert_pin p sc)"
proof -
  let ?old = "t_delete (\<lambda>x. pn_channel_id x = pn_channel_id p \<and> pn_message_id x = pn_message_id p) (pins sc)"
  have "pin_at p \<notin> pin_at ` set ?old" by (auto simp: set_t_delete pin_at_def)
  moreover have "cql_count_pins c (cql_insert_pin p sc) \<le> 50" for c
  proof -
    have "t_count (\<lambda>x. pn_channel_id x = c) ?old \<le> cql_count_pins c sc"
      unfolding cql_count_pins_def by (rule t_count_delete_le)
    moreover have "cql_count_pins c sc \<le> 50" using assms(1) by (simp add: store_ok_def)
    ultimately show ?thesis
      using assms(2) by (cases "c = pn_channel_id p") (simp_all add: cql_insert_pin_def cql_count_pins_def t_count_insert)
  qed
  ultimately show ?thesis
    using assms(1) unfolding store_ok_def
    by (simp add: cql_insert_pin_def t_insert_def distinct_map_t_delete)
qed

lemma ok_delete_pin: "store_ok sc \<Longrightarrow> store_ok (cql_delete_pin cid mid sc)"
  by (auto simp: store_ok_def cql_delete_pin_def cql_count_pins_def distinct_map_t_delete
      intro: order_trans [OF t_count_delete_le])

section \<open>The system\<close>

datatype message_request =
    Send "int \<Rightarrow> ustr" snowflake i64 send_message_request
  | Edit snowflake i64 i64 edit_message_request
  | Delete snowflake i64 i64
  | BulkDelete snowflake i64 "i64 list"
  | Pin snowflake i64 i64
  | Unpin snowflake i64 i64

fun serve_message :: "message_request \<Rightarrow> world \<Rightarrow> world" where
  "serve_message (Send f a c b) w = snd (send_message f a c b w)"
| "serve_message (Edit a c m b) w = snd (edit_message a c m b w)"
| "serve_message (Delete a c m) w = snd (delete_message a c m w)"
| "serve_message (BulkDelete a c ms) w = snd (bulk_delete a c ms w)"
| "serve_message (Pin a c m) w = snd (pin_message a c m w)"
| "serve_message (Unpin a c m) w = snd (unpin_message a c m w)"

definition holds :: "(scylla_db \<Rightarrow> bool) \<Rightarrow> 'a handler \<Rightarrow> bool" where
  "holds I m \<longleftrightarrow> (\<forall>s c. I c \<longrightarrow> wpm m (\<lambda>_ _. I) (\<lambda>_ _. I) s c)"

lemma wpmD:
  assumes "wpm m (\<lambda>_. P) (\<lambda>_. P) (w_pg w) (w_scylla w)"
  shows "P (w_pg (snd (m w))) (w_scylla (snd (m w)))"
  using assms unfolding wpm_def by (cases "m w", cases "fst (m w)") fastforce+

lemma holdsD: "holds I m \<Longrightarrow> I (w_scylla w) \<Longrightarrow> I (w_scylla (snd (m w)))"
  unfolding holds_def by (rule wpmD) blast

lemma wpm_get_message [wpm_rules]: "(\<And>x. Q x s c) \<Longrightarrow> (\<And>e. E e s c) \<Longrightarrow> wpm (get_message auth cid mid) Q E s c"
  unfolding get_message_def by (intro wpm_rules) auto

lemma ok_soft_delete: "store_ok sc \<Longrightarrow> store_ok (cql_soft_delete cid (bucket_from_snowflake mid) mid sc)"
  by (simp add: cql_soft_delete_def ok_upsert)

lemma ok_set_pinned: "store_ok sc \<Longrightarrow> store_ok (cql_set_pinned v cid (bucket_from_snowflake mid) mid sc)"
  by (simp add: cql_set_pinned_def ok_upsert)

lemma count_set_pinned [simp]: "cql_count_pins c (cql_set_pinned v cid b mid sc) = cql_count_pins c sc"
  by (simp add: cql_set_pinned_def cql_upsert_message_def cql_count_pins_def)

lemmas store_writes = ok_upsert ok_soft_delete ok_set_pinned ok_insert_pin ok_delete_pin

lemma holds_send: "holds store_ok (send_message f auth cid body)"
  unfolding holds_def send_message_def
  by (intro allI impI wpm_rules) (auto intro!: store_writes)

lemma holds_edit: "holds store_ok (edit_message auth cid mid body)"
  unfolding holds_def edit_message_def may_edit_others_def
  by (intro allI impI wpm_rules) (auto intro!: store_writes)

lemma holds_delete: "holds store_ok (delete_message auth cid mid)"
  unfolding holds_def delete_message_def by (intro allI impI wpm_rules) (auto intro!: store_writes)

lemma wpm_soft_delete_all:
  "store_ok c \<Longrightarrow> (\<And>x d. store_ok d \<Longrightarrow> Q x s d) \<Longrightarrow> wpm (soft_delete_all cid mids errors) Q E s c"
proof (induction mids arbitrary: errors c)
  case (Cons mid mids)
  then show ?case by (simp only: soft_delete_all.simps, intro wpm_rules Cons.IH) (auto intro!: store_writes)
qed (simp add: wpm_ret)

lemma holds_bulk: "holds store_ok (bulk_delete auth cid mids)"
  unfolding holds_def bulk_delete_def by (intro allI impI wpm_rules wpm_soft_delete_all) (auto intro!: wpm_rules)

lemma holds_pin: "holds store_ok (pin_message auth cid mid)"
  unfolding holds_def pin_message_def
  by (intro allI impI wpm_rules) (auto intro!: store_writes)

lemma holds_unpin: "holds store_ok (unpin_message auth cid mid)"
  unfolding holds_def unpin_message_def by (intro allI impI wpm_rules) (auto intro!: store_writes)

lemma serve_message_holds: "store_ok (w_scylla w) \<Longrightarrow> store_ok (w_scylla (serve_message req w))"
  by (cases req) (simp_all add: holdsD holds_send holds_edit holds_delete holds_bulk holds_pin holds_unpin)

text \<open>A step: a message request, or anything outside the store.\<close>

inductive message_step :: "world \<Rightarrow> world \<Rightarrow> bool" where
  message_served: "message_step w (serve_message req w)"
| message_environment: "w_scylla w' = w_scylla w \<Longrightarrow> message_step w w'"

definition no_messages :: "world \<Rightarrow> bool" where
  "no_messages w \<longleftrightarrow> messages (w_scylla w) = [] \<and> pins (w_scylla w) = []"

interpretation store: invariant_system no_messages message_step "\<lambda>w. store_ok (w_scylla w)"
proof unfold_locales
  fix w assume "no_messages w"
  then show "store_ok (w_scylla w)" by (simp add: no_messages_def store_ok_def cql_count_pins_def t_count_def)
next
  fix w w' assume ok: "store_ok (w_scylla w)" and "message_step w w'"
  from this(2) show "store_ok (w_scylla w')"
    by (cases rule: message_step.cases) (simp_all add: ok serve_message_holds)
qed

end
