(* ===== verification/Message_Properties.thy ===== *)
theory Message_Properties
  imports Message_System Demo "HOL-Library.Multiset"
begin

text \<open>
  What the message routes guarantee: the partitions and the pin limit in every reachable state, who may change
  a message and how, what the readers return, and what they miss.
\<close>

section \<open>Editing and deleting\<close>

lemma upsert_existing:
  "r \<in> set (messages c) \<Longrightarrow> message_key cid b mid r \<Longrightarrow>
   cql_upsert_message cid b mid f c = c\<lparr>messages := t_update (message_key cid b mid) f (messages c)\<rparr>"
  by (auto simp: cql_upsert_message_def t_has_iff)

text \<open>
  The store \<open>d\<close> is \<open>c\<close> with new text, embeds and edit time in the one message of \<open>auth\<close> that the request names.
\<close>

definition retouch ::
  "(message_row \<Rightarrow> ustr option) \<Rightarrow> (message_row \<Rightarrow> json option) \<Rightarrow> (message_row \<Rightarrow> int option) \<Rightarrow> message_row \<Rightarrow> message_row" where
  "retouch content embeds edited r = r\<lparr>ms_content := content r, ms_embeds := embeds r, ms_edited_at := edited r\<rparr>"

definition edited_own :: "snowflake \<Rightarrow> i64 \<Rightarrow> i64 \<Rightarrow> scylla_db \<Rightarrow> scylla_db \<Rightarrow> bool" where
  "edited_own auth cid mid c d \<longleftrightarrow>
     (\<exists>r ct em ed. r \<in> set (messages c) \<and> message_key cid (bucket_from_snowflake mid) mid r \<and> ms_author_id r = Some auth \<and>
        d = c\<lparr>messages := t_update (message_key cid (bucket_from_snowflake mid) mid) (retouch ct em ed) (messages c)\<rparr>)"

lemma retouch_key [simp]:
  "message_key cid b mid (retouch ct em ed r) = message_key cid b mid r" "ms_author_id (retouch ct em ed r) = ms_author_id r"
  by (simp_all add: message_key_def retouch_def)

lemma retouch_retouch:
  "retouch ct' em' ed' (retouch ct em ed r) =
     retouch (\<lambda>r. ct' (retouch ct em ed r)) (\<lambda>r. em' (retouch ct em ed r)) (\<lambda>r. ed' (retouch ct em ed r)) r"
  by (simp add: retouch_def)

lemma t_update_twice:
  "(\<And>r. P (f r) = P r) \<Longrightarrow> t_update P g (t_update P f t) = t_update P (\<lambda>r. g (f r)) t"
  by (simp add: t_update_def)

lemma edit_writes:
  "(\<lambda>r. r\<lparr>ms_content := Some x, ms_edited_at := Some n\<rparr>) = retouch (\<lambda>_. Some x) ms_embeds (\<lambda>_. Some n)"
  "(\<lambda>r. r\<lparr>ms_embeds := Some j, ms_edited_at := Some n\<rparr>) = retouch ms_content (\<lambda>_. Some j) (\<lambda>_. Some n)"
  by (auto simp: retouch_def)

lemma edited_once:
  "r \<in> set (messages c) \<Longrightarrow> message_key cid (bucket_from_snowflake mid) mid r \<Longrightarrow> ms_author_id r = Some auth \<Longrightarrow>
   edited_own auth cid mid c (cql_upsert_message cid (bucket_from_snowflake mid) mid (retouch ct em ed) c)"
  unfolding edited_own_def by (auto simp: upsert_existing)

lemma edited_twice:
  assumes "r \<in> set (messages c)" "message_key cid (bucket_from_snowflake mid) mid r" "ms_author_id r = Some auth"
  shows "edited_own auth cid mid c (cql_upsert_message cid (bucket_from_snowflake mid) mid (retouch ct' em' ed')
           (cql_upsert_message cid (bucket_from_snowflake mid) mid (retouch ct em ed) c))"
proof -
  let ?k = "message_key cid (bucket_from_snowflake mid) mid"
  let ?d = "c\<lparr>messages := t_update ?k (retouch ct em ed) (messages c)\<rparr>"
  have "retouch ct em ed r \<in> set (messages ?d)" using assms(1, 2) by (auto simp: set_t_update)
  then have "cql_upsert_message cid (bucket_from_snowflake mid) mid (retouch ct' em' ed') ?d =
      c\<lparr>messages := t_update ?k (\<lambda>r. retouch ct' em' ed' (retouch ct em ed r)) (messages c)\<rparr>"
    using assms(2) by (simp add: upsert_existing [of "retouch ct em ed r"] t_update_twice)
  then show ?thesis
    unfolding upsert_existing [OF assms(1, 2)] edited_own_def retouch_retouch using assms by blast
qed

lemma wpm_edit_message:
  "wpm (edit_message auth cid mid body)
     (\<lambda>_ _ d. channel_may cid auth SEND_MESSAGES s \<and> (d = c \<or> edited_own auth cid mid c d))
     (\<lambda>_ _ d. d = c \<or> channel_may cid auth SEND_MESSAGES s \<and> edited_own auth cid mid c d) s c"
  unfolding edit_message_def may_edit_others_def edit_writes
  by (intro wpm_rules) (auto intro: edited_once edited_twice)

text \<open>C6: Editing: whatever fails, a request to edit a message changes nothing but text, embeds and edit time, in
  the one message it names, and only when the caller wrote that message and may send messages in the
  channel; nobody edits a message of somebody else.\<close>

theorem edit_message_outcome:
  "case edit_message auth cid mid body w of
     (Inr r, w') \<Rightarrow> channel_may cid auth SEND_MESSAGES (w_pg w) \<and>
       (w_scylla w' = w_scylla w \<or> edited_own auth cid mid (w_scylla w) (w_scylla w'))
   | (Inl e, w') \<Rightarrow> w_scylla w' = w_scylla w \<or>
       channel_may cid auth SEND_MESSAGES (w_pg w) \<and> edited_own auth cid mid (w_scylla w) (w_scylla w')"
  using wpm_edit_message [of auth cid mid body "w_pg w" "w_scylla w"] unfolding wpm_def
  by (auto split: prod.splits sum.splits)

definition marked_deleted :: "i64 \<Rightarrow> i64 \<Rightarrow> scylla_db \<Rightarrow> scylla_db \<Rightarrow> bool" where
  "marked_deleted cid mid c d \<longleftrightarrow>
     d = c\<lparr>messages := t_update (message_key cid (bucket_from_snowflake mid) mid) (\<lambda>r. r\<lparr>ms_deleted := Some True\<rparr>) (messages c)\<rparr>"

definition may_delete :: "snowflake \<Rightarrow> i64 \<Rightarrow> i64 \<Rightarrow> pg_db \<Rightarrow> scylla_db \<Rightarrow> bool" where
  "may_delete auth cid mid s c \<longleftrightarrow> channel_may cid auth VIEW_CHANNEL s \<and>
     (\<exists>r a. r \<in> set (messages c) \<and> message_key cid (bucket_from_snowflake mid) mid r \<and> ms_author_id r = Some a \<and>
        (a = auth \<or> channel_may cid auth MANAGE_MESSAGES s))"

lemma soft_delete_existing:
  "r \<in> set (messages c) \<Longrightarrow> message_key cid (bucket_from_snowflake mid) mid r \<Longrightarrow>
   marked_deleted cid mid c (cql_soft_delete cid (bucket_from_snowflake mid) mid c)"
  by (simp add: marked_deleted_def cql_soft_delete_def upsert_existing)

lemma wpm_delete_message:
  "wpm (delete_message auth cid mid)
     (\<lambda>r _ d. r = 204 \<and> may_delete auth cid mid s c \<and> marked_deleted cid mid c d)
     (\<lambda>_ _ d. d = c \<or> may_delete auth cid mid s c \<and> marked_deleted cid mid c d) s c"
  unfolding delete_message_def
  by (intro wpm_rules) (auto intro: soft_delete_existing simp: may_delete_def)

text \<open>Deleting: success means that the message exists, that its author or somebody who may manage messages
  asked, and that it is now marked deleted and nothing else changed; after an error nothing changed, or that did.\<close>

theorem delete_message_outcome:
  "case delete_message auth cid mid w of
     (Inr r, w') \<Rightarrow> r = 204 \<and> may_delete auth cid mid (w_pg w) (w_scylla w) \<and>
       marked_deleted cid mid (w_scylla w) (w_scylla w')
   | (Inl e, w') \<Rightarrow> w_scylla w' = w_scylla w \<or>
       may_delete auth cid mid (w_pg w) (w_scylla w) \<and> marked_deleted cid mid (w_scylla w) (w_scylla w')"
  using wpm_delete_message [of auth cid mid "w_pg w" "w_scylla w"] unfolding wpm_def
  by (auto split: prod.splits sum.splits)


section \<open>Reading the history\<close>

text \<open>What a request for messages may see: the decoded, undeleted messages of the channel on the right side of its anchor.\<close>

definition beyond :: "i64 option \<Rightarrow> i64 option \<Rightarrow> i64 \<Rightarrow> bool" where
  "beyond before after i =
     (case before of Some b \<Rightarrow> sint i < sint b | None \<Rightarrow> (case after of Some a \<Rightarrow> sint a < sint i | None \<Rightarrow> True))"

definition visible :: "i64 \<Rightarrow> i64 option \<Rightarrow> i64 option \<Rightarrow> scylla_db \<Rightarrow> msg_row set" where
  "visible cid before after sc =
     {r. \<exists>m \<in> set (messages sc). ms_channel_id m = cid \<and> decode_msg_row m = Some r \<and> \<not> mg_deleted r \<and>
        beyond before after (ms_id m)}"

lemma extract_simps [simp]:
  "extract_msg_rows [] = []"
  "extract_msg_rows (m # ms) =
     (case decode_msg_row m of None \<Rightarrow> extract_msg_rows ms
      | Some r \<Rightarrow> if mg_deleted r then extract_msg_rows ms else r # extract_msg_rows ms)"
  by (auto simp: extract_msg_rows_def List.map_filter_def split: option.split)

lemma length_extract: "length (extract_msg_rows ms) \<le> length ms"
  by (induction ms) (auto split: option.split)

lemma set_extract: "set (extract_msg_rows ms) = {r. \<exists>m \<in> set ms. decode_msg_row m = Some r \<and> \<not> mg_deleted r}"
  by (induction ms) (auto split: option.split)

lemma wpm_scan_buckets:
  assumes "\<And>b n. length (q b n c) \<le> n" "\<And>b n. set (extract_msg_rows (q b n c)) \<subseteq> V"
    "length rs \<le> limit" "set rs \<subseteq> V"
  shows "wpm (scan_buckets q limit bs rs) (\<lambda>xs t d. t = s \<and> d = c \<and> length xs \<le> limit \<and> set xs \<subseteq> V)
           (\<lambda>_ t d. t = s \<and> d = c) s c"
  using assms(3, 4)
proof (induction bs arbitrary: rs)
  case (Cons b bs)
  have "length (rs @ extract_msg_rows (q b (limit - length rs) c)) \<le> limit"
    using Cons.prems(1) assms(1) [of b "limit - length rs"] length_extract [of "q b (limit - length rs) c"] by simp
  then show ?case
    using Cons.prems assms(2) by (simp only: scan_buckets.simps, intro wpm_rules Cons.IH) auto
qed (simp add: wpm_ret)

lemma bucket_limits:
  "length (cql_messages_before cid a b n c) \<le> n" "length (cql_messages_after cid a b n c) \<le> n"
  "length (cql_messages_latest cid b n c) \<le> n"
  by (simp_all add: cql_messages_before_def cql_messages_after_def cql_messages_latest_def)

lemma bucket_rows:
  "set (extract_msg_rows (cql_messages_before cid a b n c)) \<subseteq> visible cid (Some a) x c"
  "set (extract_msg_rows (cql_messages_after cid a b n c)) \<subseteq> visible cid None (Some a) c"
  "set (extract_msg_rows (cql_messages_latest cid b n c)) \<subseteq> visible cid None None c"
  by (auto simp: cql_messages_before_def cql_messages_after_def cql_messages_latest_def set_extract visible_def beyond_def
      dest!: in_set_takeD)

lemma wpm_query_messages:
  "wpm (query_messages cid before after limit)
     (\<lambda>xs t d. t = s \<and> d = c \<and> length xs \<le> limit \<and> set xs \<subseteq> visible cid before after c) (\<lambda>_ t d. t = s \<and> d = c) s c"
  unfolding query_messages_def Let_def by (intro wpm_rules wpm_scan_buckets) (auto intro: bucket_rows [THEN subsetD] bucket_limits)

text \<open>Reading messages is safe: whatever fails, the stores are left alone, and an answer has at most as many
  messages as asked for, all of the channel, none deleted, and all on the asked side of the anchor.\<close>

theorem query_messages_sound:
  "case query_messages cid before after limit w of
     (Inr rs, w') \<Rightarrow> w_pg w' = w_pg w \<and> w_scylla w' = w_scylla w \<and> length rs \<le> limit \<and>
       set rs \<subseteq> visible cid before after (w_scylla w)
   | (Inl e, w') \<Rightarrow> w_pg w' = w_pg w \<and> w_scylla w' = w_scylla w"
  using wpm_query_messages [of cid before after limit "w_pg w" "w_scylla w"] unfolding wpm_def
  by (auto split: prod.splits sum.splits)

text \<open>
  The reference: all messages of the window, sorted, and the first \<open>limit\<close> of them. The window reaches back
  20 partitions before the anchor or the present.
\<close>

definition channel_rows :: "i64 \<Rightarrow> i64 option \<Rightarrow> i64 option \<Rightarrow> scylla_db \<Rightarrow> message_row list" where
  "channel_rows cid before after sc = filter (\<lambda>m. ms_channel_id m = cid \<and> beyond before after (ms_id m)) (messages sc)"

definition message_window :: "i64 \<Rightarrow> i64 option \<Rightarrow> i64 option \<Rightarrow> int \<Rightarrow> scylla_db \<Rightarrow> message_row list" where
  "message_window cid before after now sc =
     (let part = (\<lambda>m. bucket_from_snowflake (ms_id m)); present = current_bucket now; rows = channel_rows cid before after sc
      in case before of
           Some b \<Rightarrow> sort_key (\<lambda>m. - sint (ms_id m)) (filter (\<lambda>m. bucket_from_snowflake b - 20 \<le> part m) rows)
         | None \<Rightarrow> (case after of
             Some a \<Rightarrow> sort_key (\<lambda>m. sint (ms_id m)) (filter (\<lambda>m. part m \<le> present) rows)
           | None \<Rightarrow> sort_key (\<lambda>m. - sint (ms_id m)) (filter (\<lambda>m. present - 20 \<le> part m \<and> part m \<le> present) rows)))"

text \<open>Sorting a list cut into ranges of the key.\<close>

lemma sort_key_split:
  fixes k :: "'a \<Rightarrow> int"
  assumes "\<And>x y. x \<in> set xs \<Longrightarrow> y \<in> set xs \<Longrightarrow> P x \<Longrightarrow> R y \<Longrightarrow> k x < k y"
  shows "sort_key k (filter P xs) @ sort_key k (filter R xs) = sort_key k (filter (\<lambda>x. P x \<or> R x) xs)"
proof (rule properties_for_sort_key [symmetric])
  have apart: "\<not> (P x \<and> R x)" if "x \<in> set xs" for x using assms [OF that that] by auto
  then show "mset (sort_key k (filter P xs) @ sort_key k (filter R xs)) = mset (filter (\<lambda>x. P x \<or> R x) xs)"
    by (induction xs) auto
  show "sorted (map k (sort_key k (filter P xs) @ sort_key k (filter R xs)))"
    using assms by (auto simp: sorted_append intro: less_imp_le)
  show "filter (\<lambda>x. k y = k x) (sort_key k (filter P xs) @ sort_key k (filter R xs)) =
      filter (\<lambda>x. k y = k x) (filter (\<lambda>x. P x \<or> R x) xs)" if y: "y \<in> set (sort_key k (filter P xs) @ sort_key k (filter R xs))" for y
  proof -
    have "filter (\<lambda>x. k y = k x) (sort_key k zs) = filter (\<lambda>x. k y = k x) zs" for zs
      using sort_key_stable [of k "k y" zs] by (simp add: eq_commute)
    moreover have "filter (\<lambda>x. P x \<and> k y = k x) xs @ filter (\<lambda>x. R x \<and> k y = k x) xs = filter (\<lambda>x. (P x \<or> R x) \<and> k y = k x) xs"
    proof (cases "P y")
      case True
      then have "filter (\<lambda>x. R x \<and> k y = k x) xs = []" "filter (\<lambda>x. P x \<and> k y = k x) xs = filter (\<lambda>x. (P x \<or> R x) \<and> k y = k x) xs"
        using assms [of y] y by (fastforce simp: filter_empty_conv intro!: filter_cong)+
      then show ?thesis by simp
    next
      case False
      then have "R y" "y \<in> set xs" using y by auto
      then have "filter (\<lambda>x. P x \<and> k y = k x) xs = []" "filter (\<lambda>x. R x \<and> k y = k x) xs = filter (\<lambda>x. (P x \<or> R x) \<and> k y = k x) xs"
        using assms [of _ y] by (fastforce simp: filter_empty_conv intro!: filter_cong)+
      then show ?thesis by simp
    qed
    ultimately show ?thesis by (simp add: filter_filter)
  qed
qed

lemma concat_ranges:
  fixes k :: "'a \<Rightarrow> int" and part :: "'a \<Rightarrow> int"
  assumes "\<And>x y. x \<in> set xs \<Longrightarrow> y \<in> set xs \<Longrightarrow> prior (part x) (part y) \<Longrightarrow> k x < k y" "sorted_wrt prior bs"
  shows "concat (map (\<lambda>b. sort_key k (filter (\<lambda>x. part x = b) xs)) bs) = sort_key k (filter (\<lambda>x. part x \<in> set bs) xs)"
  using assms(2)
proof (induction bs)
  case (Cons b bs)
  then have "concat (map (\<lambda>b. sort_key k (filter (\<lambda>x. part x = b) xs)) (b # bs)) =
      sort_key k (filter (\<lambda>x. part x = b) xs) @ sort_key k (filter (\<lambda>x. part x \<in> set bs) xs)" by simp
  also have "\<dots> = sort_key k (filter (\<lambda>x. part x = b \<or> part x \<in> set bs) xs)"
    using Cons.prems by (intro sort_key_split) (auto intro: assms(1))
  finally show ?case by simp
qed simp

definition shown :: "message_row \<Rightarrow> bool" where
  "shown m \<longleftrightarrow> (\<exists>r. decode_msg_row m = Some r \<and> \<not> mg_deleted r)"

lemma extract_shown:
  "(\<And>m. m \<in> set ms \<Longrightarrow> shown m) \<Longrightarrow> extract_msg_rows ms = map (\<lambda>m. the (decode_msg_row m)) ms"
proof (induction ms)
  case (Cons m ms)
  moreover obtain r where "decode_msg_row m = Some r" "\<not> mg_deleted r" using Cons.prems [of m] by (auto simp: shown_def)
  ultimately show ?case by simp
qed simp

lemma run_scan_buckets:
  assumes "calm w" "\<And>b n. q b n (w_scylla w) = take n (full b)" "\<And>b m. m \<in> set (full b) \<Longrightarrow> shown m"
  shows "scan_buckets q limit bs rs w =
    (Inr (rs @ take (limit - length rs) (map (\<lambda>m. the (decode_msg_row m)) (concat (map full bs)))), w)"
proof (induction bs arbitrary: rs)
  case (Cons b bs)
  let ?n = "limit - length rs" and ?dec = "map (\<lambda>m. the (decode_msg_row m))"
  have x: "extract_msg_rows (take ?n (full b)) = take ?n (?dec (full b))"
    using extract_shown [of "take ?n (full b)"] assms(3) by (auto simp: take_map dest: in_set_takeD)
  have "limit - length (rs @ take ?n (?dec (full b))) = ?n - length (full b)" by (simp add: min_def)
  then show ?case
    using Cons.IH assms(1) by (simp add: run assms(2) x take_append)
qed (simp add: run)

lemma sint_uint_nonneg: "0 \<le> sint (a :: i64) \<Longrightarrow> uint a = sint a"
  using sint_lt [of a] by (simp add: uint_sint take_bit_int_eq_self)

lemma bucket_sint:
  assumes "0 \<le> sint a" "0 \<le> sint b" "bucket_from_snowflake a < bucket_from_snowflake b"
  shows "sint a < sint b"
proof -
  have "\<not> b \<le> a" using bucket_mono [of b a] assms(3) by auto
  then show ?thesis
    using sint_uint_nonneg [OF assms(1)] sint_uint_nonneg [OF assms(2)] by (simp add: word_le_def)
qed

text \<open>A channel in which every stored message is shown; identifiers are below \<open>2 ^ 63\<close>, as they are until the year 2093.\<close>

definition unbroken :: "i64 \<Rightarrow> scylla_db \<Rightarrow> bool" where
  "unbroken cid sc \<longleftrightarrow> (\<forall>m \<in> set (messages sc). ms_channel_id m = cid \<longrightarrow> shown m \<and> 0 \<le> sint (ms_id m))"

lemma scanned:
  fixes k :: "i64 \<Rightarrow> int"
  assumes "calm w" "store_ok (w_scylla w)" "unbroken cid (w_scylla w)" "sorted_wrt prior bs"
    and prior: "\<And>i j. 0 \<le> sint i \<Longrightarrow> 0 \<le> sint j \<Longrightarrow> prior (bucket_from_snowflake i) (bucket_from_snowflake j) \<Longrightarrow> k i < k j"
    and q: "\<forall>b n. q b n (w_scylla w) =
          take n (sort_key (\<lambda>m. k (ms_id m)) (filter (\<lambda>m. ms_bucket m = b) (channel_rows cid before after (w_scylla w))))"
  shows "scan_buckets q limit bs [] w = (Inr (map (\<lambda>m. the (decode_msg_row m)) (take limit (sort_key (\<lambda>m. k (ms_id m))
     (filter (\<lambda>m. bucket_from_snowflake (ms_id m) \<in> set bs) (channel_rows cid before after (w_scylla w)))))), w)"
proof -
  let ?xs = "channel_rows cid before after (w_scylla w)" and ?k = "\<lambda>m. k (ms_id m)"
  let ?full = "\<lambda>b. sort_key ?k (filter (\<lambda>m. ms_bucket m = b) ?xs)"
  have xs: "ms_bucket m = bucket_from_snowflake (ms_id m)" "shown m" "0 \<le> sint (ms_id m)" if "m \<in> set ?xs" for m
    using that assms(2, 3) by (auto simp: channel_rows_def store_ok_def message_ok_def unbroken_def)
  have part: "filter (\<lambda>m. ms_bucket m \<in> set bs) ?xs = filter (\<lambda>m. bucket_from_snowflake (ms_id m) \<in> set bs) ?xs"
    by (rule filter_cong) (simp_all add: xs)
  have "concat (map ?full bs) = sort_key ?k (filter (\<lambda>m. ms_bucket m \<in> set bs) ?xs)"
    using assms(4) by (rule concat_ranges [rotated]) (simp add: xs prior)
  moreover have "scan_buckets q limit bs [] w =
      (Inr ([] @ take (limit - length ([] :: msg_row list)) (map (\<lambda>m. the (decode_msg_row m)) (concat (map ?full bs)))), w)"
    by (rule run_scan_buckets [where full = ?full, OF assms(1)]) (use q xs in auto)
  ultimately show ?thesis by (simp add: part take_map)
qed

lemma upto_orders: "sorted_wrt (<) [i..j]" "sorted_wrt (>) (rev [i..j])" for i j :: int
  by (simp_all add: sorted_wrt_rev strict_sorted_iff)

lemmas scanned_up = scanned [OF _ _ _ upto_orders(1), where k = sint, OF _ _ _ bucket_sint]
lemmas scanned_down = scanned [OF _ _ _ upto_orders(2), where k = "\<lambda>i. - sint i", unfolded neg_less_iff_less, OF _ _ _ bucket_sint]

lemma bucket_query_rows:
  "cql_messages_before cid a b n c =
     take n (sort_key (\<lambda>m. - sint (ms_id m)) (filter (\<lambda>m. ms_bucket m = b) (channel_rows cid (Some a) x c)))"
  "cql_messages_after cid a b n c =
     take n (sort_key (\<lambda>m. sint (ms_id m)) (filter (\<lambda>m. ms_bucket m = b) (channel_rows cid None (Some a) c)))"
  "cql_messages_latest cid b n c =
     take n (sort_key (\<lambda>m. - sint (ms_id m)) (filter (\<lambda>m. ms_bucket m = b) (channel_rows cid None None c)))"
  by (simp_all add: cql_messages_before_def cql_messages_after_def cql_messages_latest_def channel_rows_def beyond_def conj_ac)



section \<open>Sending\<close>

definition sendable :: "snowflake \<Rightarrow> i64 \<Rightarrow> send_message_request \<Rightarrow> pg_db \<Rightarrow> bool" where
  "sendable auth cid body s \<longleftrightarrow> channel_may cid auth SEND_MESSAGES s \<and>
     (case sm_content body of None \<Rightarrow> True | Some t \<Rightarrow> length t \<le> 4000) \<and>
     ((\<exists>t. sm_content body = Some t \<and> t \<noteq> []) \<or> json_given (sm_embeds body) \<or> json_given (sm_attachments body))"

text \<open>
  The store \<open>d\<close> is \<open>c\<close> with the message of the answer in the partition of its identifier: the written
  row, unless an edited one was there, reads back as the answer and is not deleted.
\<close>

definition stored :: "snowflake \<Rightarrow> i64 \<Rightarrow> send_message_request \<Rightarrow> message_response \<Rightarrow> scylla_db \<Rightarrow> scylla_db \<Rightarrow> bool" where
  "stored auth cid body resp c d \<longleftrightarrow>
     mp_channel_id resp = cid \<and> mp_author_id resp = auth \<and> mp_content resp = sm_content body \<and>
     mp_embeds resp = sm_embeds body \<and> mp_attachments resp = sm_attachments body \<and> mp_reference_id resp = sm_reference body \<and>
     (\<exists>f. d = cql_upsert_message cid (bucket_from_snowflake (mp_id resp)) (mp_id resp) f c \<and>
        (\<forall>r. ms_channel_id r = cid \<and> ms_id r = mp_id resp \<and> ms_edited_at r = None \<longrightarrow>
           extract_msg_rows [f r] \<noteq> [] \<and> row_to_response (hd (extract_msg_rows [f r])) = resp \<and>
           ms_channel_id (f r) = cid \<and> ms_id (f r) = mp_id resp \<and> ms_bucket (f r) = ms_bucket r))"

lemma stored_message:
  "stored auth cid body \<lparr>mp_id = mid, mp_channel_id = cid, mp_author_id = auth, mp_content = sm_content body,
       mp_timestamp = created_at mid, mp_edited_timestamp = None, mp_type = ty, mp_flags = 0, mp_pinned = False,
       mp_mention_everyone = everyone, mp_mentions = us, mp_mention_roles = rs, mp_embeds = sm_embeds body,
       mp_attachments = sm_attachments body, mp_reference_id = sm_reference body\<rparr> c
     (cql_upsert_message cid (bucket_from_snowflake mid) mid (\<lambda>r. r\<lparr>ms_author_id := Some auth, ms_content := sm_content body,
       ms_type := Some ty, ms_flags := Some 0, ms_pinned := Some False, ms_mention_everyone := Some everyone,
       ms_mentions := Some us, ms_mention_roles := Some rs, ms_embeds := sm_embeds body,
       ms_attachments := sm_attachments body, ms_reference_id := sm_reference body, ms_deleted := Some False\<rparr>) c)"
  unfolding stored_def by (simp, intro exI conjI, rule refl) (simp add: decode_msg_row_def row_to_response_def unwrap_or_def)

lemma sendableI:
  "channel_may cid auth SEND_MESSAGES s \<Longrightarrow>
   (\<exists>c \<in> set_option (sm_content body). c \<noteq> []) \<or> json_given (sm_embeds body) \<or> json_given (sm_attachments body) \<Longrightarrow>
   \<forall>c \<in> set_option (sm_content body). \<not> 4000 < length c \<Longrightarrow> sendable auth cid body s"
  by (auto simp: sendable_def split: option.split)

lemma wpm_send:
  assumes "\<And>e. E e s c" "\<And>resp t d. sendable auth cid body s \<Longrightarrow> stored auth cid body resp c d \<Longrightarrow> Q (201, resp) t d"
    "\<And>e resp t d. sendable auth cid body s \<Longrightarrow> stored auth cid body resp c d \<Longrightarrow> E e t d"
  shows "wpm (send_message rfc3339 auth cid body) Q E s c"
  unfolding send_message_def Let_def
  by (intro wpm_rules assms(1)) (rule assms(2, 3) [OF sendableI stored_message]; assumption)+

text \<open>C9: Sending: success means that the caller may write in the channel, that the message has text of at most 4000
  characters, embeds or attachments, and that exactly this message is now in the store, in the partition of
  its identifier, and reads back as the answer; after an error the store is as it was, or has just that message.\<close>

theorem send_message_outcome:
  "case send_message rfc3339 auth cid body w of
     (Inr r, w') \<Rightarrow> fst r = 201 \<and> sendable auth cid body (w_pg w) \<and> stored auth cid body (snd r) (w_scylla w) (w_scylla w')
   | (Inl e, w') \<Rightarrow> w_scylla w' = w_scylla w \<or>
       sendable auth cid body (w_pg w) \<and> (\<exists>resp. stored auth cid body resp (w_scylla w) (w_scylla w'))"
proof -
  have "wpm (send_message rfc3339 auth cid body)
     (\<lambda>r _ d. fst r = 201 \<and> sendable auth cid body (w_pg w) \<and> stored auth cid body (snd r) (w_scylla w) d)
     (\<lambda>_ _ d. d = w_scylla w \<or> sendable auth cid body (w_pg w) \<and> (\<exists>resp. stored auth cid body resp (w_scylla w) d))
     (w_pg w) (w_scylla w)"
    by (rule wpm_send) auto
  then show ?thesis unfolding wpm_def by (auto split: prod.splits sum.splits)
qed

text \<open>C10: Whatever was sent can be read: when a send succeeded with an identifier that was free in the channel, anybody
  who may read the history gets, under the identifier of the answer, exactly the message of the answer.\<close>

theorem sent_message_readable:
  assumes "send_message rfc3339 auth cid body w = (Inr (code, resp), w')"
    and "message_at ` set (messages (w_scylla w)) \<inter> {(cid, mp_id resp)} = {}"
    and "calm w'" "channel_may cid reader READ_MESSAGE_HISTORY (w_pg w')"
  shows "get_message reader cid (mp_id resp) w' = (Inr resp, w')"
proof -
  let ?b = "bucket_from_snowflake (mp_id resp)"
  have "wpm (send_message rfc3339 auth cid body) (\<lambda>r _ d. stored auth cid body (snd r) (w_scylla w) d) (\<lambda>_ _ _. True)
      (w_pg w) (w_scylla w)" by (rule wpm_send) auto
  then have "stored auth cid body resp (w_scylla w) (w_scylla w')" using assms(1) by (auto simp: wpm_def)
  then obtain f where d: "w_scylla w' = cql_upsert_message cid ?b (mp_id resp) f (w_scylla w)"
    and f: "\<And>r. ms_channel_id r = cid \<Longrightarrow> ms_id r = mp_id resp \<Longrightarrow> ms_edited_at r = None \<Longrightarrow>
      extract_msg_rows [f r] \<noteq> [] \<and> row_to_response (hd (extract_msg_rows [f r])) = resp \<and>
      ms_channel_id (f r) = cid \<and> ms_id (f r) = mp_id resp \<and> ms_bucket (f r) = ms_bucket r"
    unfolding stored_def by blast
  let ?new = "f (blank_message cid ?b (mp_id resp))"
  have none: "\<not> message_key cid b (mp_id resp) r" if "r \<in> set (messages (w_scylla w))" for r b
    using that assms(2) by (auto simp: message_at_def message_key_def)
  then have "messages (w_scylla w') = messages (w_scylla w) @ [?new]"
    by (simp add: d cql_upsert_message_def t_has_iff t_insert_def)
  moreover have new: "extract_msg_rows [?new] \<noteq> []" "row_to_response (hd (extract_msg_rows [?new])) = resp"
    "message_key cid ?b (mp_id resp) ?new"
    using f [of "blank_message cid ?b (mp_id resp)"] by (simp_all add: blank_message_def message_key_def)
  moreover have "filter (message_key cid ?b (mp_id resp)) (messages (w_scylla w)) = []"
    using none by (simp add: filter_empty_conv)
  ultimately have "cql_message_by_id cid ?b (mp_id resp) (w_scylla w') = [?new]"
    by (simp add: cql_message_by_id_def)
  then show ?thesis
    using new assms(3, 4) by (cases "extract_msg_rows [?new]") (simp_all add: get_message_def run)
qed


section \<open>A concrete message\<close>

text \<open>In the world of \<open>Demo\<close>, account 7 writes one message and pins it.\<close>

definition hello :: send_message_request where
  "hello = \<lparr>sm_content = Some (lit ''hi''), sm_embeds = None, sm_reference = None, sm_attachments = None\<rparr>"

definition hello_row :: message_row where
  "hello_row = \<lparr>ms_channel_id = 20975617, ms_bucket = 0, ms_id = 20975616, ms_author_id = Some 7, ms_content = Some (lit ''hi''),
     ms_type = Some 0, ms_flags = Some 0, ms_edited_at = None, ms_pinned = Some False, ms_mention_everyone = Some False,
     ms_mentions = Some [], ms_mention_roles = Some [], ms_embeds = None, ms_attachments = None, ms_reference_id = None,
     ms_deleted = Some False\<rparr>"

definition hello_response :: message_response where
  "hello_response = \<lparr>mp_id = 20975616, mp_channel_id = 20975617, mp_author_id = 7, mp_content = Some (lit ''hi''),
     mp_timestamp = 1704067200005, mp_edited_timestamp = None, mp_type = 0, mp_flags = 0, mp_pinned = False,
     mp_mention_everyone = False, mp_mentions = [], mp_mention_roles = [], mp_embeds = None, mp_attachments = None,
     mp_reference_id = None\<rparr>"

definition sent_db :: pg_db where
  "sent_db = home_db\<lparr>channels := map (\<lambda>c. if ch_id c = 20975617 then c\<lparr>ch_last_message_id := Some 20975616\<rparr> else c) (channels home_db)\<rparr>"

definition sent_world :: world where
  "sent_world = snd (send_message (\<lambda>_. []) 7 20975617 hello (demo_world home_db))"

lemma demo_world_more [simp]:
  "w_scylla (demo_world db) = \<lparr>messages = [], pins = [], reactions = [], read_states = []\<rparr>" "w_gen (demo_world db) = \<lparr>g_machine = 1, g_state = 0\<rparr>"
  by (simp_all add: demo_world_def)

lemma demo_id: "next_id_ticking \<lparr>g_machine = 1, g_state = 0\<rparr> (of_int demo_now - LUMIERE_EPOCH) = (20975616, \<lparr>g_machine = 1, g_state = 20480\<rparr>)"
  using demo_ids(1) by (simp add: demo_now_def LUMIERE_EPOCH_def)

lemma home_channel: "channel_server 20975617 home_db = Some (Some home_id)"
  by (simp add: channel_server_def t_find_def home_defs)

lemma hello_facts:
  "bucket_from_snowflake 20975616 = 0" "created_at 20975616 = 1704067200005" "parse_mentions [104, 105] = ([], [], False)"
  by code_simp+

lemma hello_sent:
  "let (r, w') = send_message (\<lambda>_. []) 7 20975617 hello (demo_world home_db)
   in r = Inr (201, hello_response) \<and> w_scylla w' = \<lparr>messages = [hello_row], pins = [], reactions = [], read_states = []\<rparr> \<and> w_pg w' = sent_db \<and>
      calm w' \<and> w_now w' = demo_now \<and> w_durable w' \<noteq> w_durable (demo_world home_db)"
proof -
  have rate: "unwrap_or 0 (map_option ch_rate_limit (t_find (\<lambda>c. ch_id c = 20975617) (channels home_db))) = 0"
    by (simp add: t_find_def unwrap_or_def home_defs)
  have out: "(case t_find (\<lambda>m. mb_server_id m = home_id \<and> mb_user_id m = 7) (members home_db) of
       None \<Rightarrow> None | Some m \<Rightarrow> mb_disabled_until m) = None"
    by (simp add: t_find_def home_defs)
  have upd: "update_channel_rows (\<lambda>c. ch_id c = 20975617) (\<lambda>c. c\<lparr>ch_last_message_id := Some 20975616\<rparr>) home_db = Inr (sent_db, ())"
    by (simp add: update_channel_rows_def sent_db_def fit_defs table_defs home_defs trim_def is_whitespace_def)
  have may: "channel_may 20975617 7 SEND_MESSAGES home_db"
    by (simp add: channel_may_def home_channel home_may)
  have store: "cql_upsert_message 20975617 0 20975616 (\<lambda>r. r\<lparr>ms_author_id := Some 7, ms_content := Some (lit ''hi''),
       ms_type := Some 0, ms_flags := Some 0, ms_pinned := Some False, ms_mention_everyone := Some False,
       ms_mentions := Some [], ms_mention_roles := Some [], ms_embeds := None, ms_attachments := None,
       ms_reference_id := None, ms_deleted := Some False\<rparr>) \<lparr>messages = [], pins = [], reactions = [], read_states = []\<rparr> = \<lparr>messages = [hello_row], pins = [], reactions = [], read_states = []\<rparr>"
    by (simp add: cql_upsert_message_def t_has_def t_insert_def blank_message_def hello_row_def)
  show ?thesis
    using store by (simp only: send_message_def)
      (simp add: run may home_channel rate out upd hello_facts hello_def hello_response_def check_slowmode_def
        check_timeout_def may_mention_everyone_def demo_id Let_def)
qed

lemma sent_facts [simp]:
  "send_message (\<lambda>_. []) 7 20975617 hello (demo_world home_db) = (Inr (201, hello_response), sent_world)"
  "w_scylla sent_world = \<lparr>messages = [hello_row], pins = [], reactions = [], read_states = []\<rparr>" "w_pg sent_world = sent_db" "calm sent_world" "w_now sent_world = demo_now"
  "w_durable sent_world \<noteq> w_durable (demo_world home_db)"
  using hello_sent by (auto simp: sent_world_def split: prod.splits)

lemma reach_sent: "reach no_messages message_step sent_world"
proof -
  have "reach no_messages message_step (demo_world home_db)"
    by (rule reach_init) (simp add: no_messages_def)
  then have "reach no_messages message_step (serve_message (Send (\<lambda>_. []) 7 20975617 hello) (demo_world home_db))"
    by (rule reach_step) (rule message_served)
  then show ?thesis by simp
qed

lemma sent_may: "channel_may 20975617 7 READ_MESSAGE_HISTORY sent_db" "channel_may 20975617 7 MANAGE_MESSAGES sent_db"
proof -
  have o: "is_owner home_id 7 sent_db" "is_member home_id 7 sent_db" "channel_server 20975617 sent_db = Some (Some home_id)"
    using home_facts by (simp_all add: sent_db_def is_owner_def is_member_def) (simp add: channel_server_def t_find_def home_defs)
  then show "channel_may 20975617 7 READ_MESSAGE_HISTORY sent_db" "channel_may 20975617 7 MANAGE_MESSAGES sent_db"
    by (simp_all only: channel_may_def may_def flag_defs) (auto intro!: effective_all)
qed

theorem sent_message_readable_witness:
  "get_message 7 20975617 20975616 sent_world = (Inr hello_response, sent_world)"
  using sent_message_readable [of "\<lambda>_. []" 7 20975617 hello "demo_world home_db" 201 hello_response sent_world 7]
  by (simp add: sent_may) (simp add: hello_response_def)



section \<open>What the readers miss\<close>

lemma extract_none: "(\<And>m. m \<in> set ms \<Longrightarrow> \<not> shown m) \<Longrightarrow> extract_msg_rows ms = []"
proof (induction ms)
  case (Cons m ms)
  then have "\<not> shown m" "extract_msg_rows ms = []" by simp_all
  then show ?case by (auto simp: shown_def split: option.split)
qed simp

lemma run_scan_none:
  "calm w \<Longrightarrow> (\<And>b. extract_msg_rows (q b limit (w_scylla w)) = []) \<Longrightarrow> scan_buckets q limit bs [] w = (Inr [], w)"
  by (induction bs) (simp_all add: run)

text \<open>The limit of the query counts deleted rows: where the newest \<open>limit\<close> rows of every partition are deleted, a
  reader gets an empty page, however many undeleted messages are older, and nothing tells it to go on.\<close>

theorem deleted_messages_hide_older:
  assumes "calm w" "\<forall>b. \<forall>m \<in> set (cql_messages_latest cid b limit (w_scylla w)). \<not> shown m"
  shows "query_messages cid None None limit w = (Inr [], w)"
  using assms by (simp add: query_messages_def run Let_def run_scan_none extract_none)

definition hidden_store :: scylla_db where
  "hidden_store = \<lparr>messages = [hello_row, hello_row\<lparr>ms_id := 20975617, ms_deleted := Some True\<rparr>], pins = [], reactions = [], read_states = []\<rparr>"

theorem deleted_messages_hide_older_witness:
  "query_messages 20975617 None None 1 (sent_world\<lparr>w_scylla := hidden_store\<rparr>) = (Inr [], sent_world\<lparr>w_scylla := hidden_store\<rparr>) \<and>
   visible 20975617 None None hidden_store \<noteq> {}"
proof
  have "cql_messages_latest 20975617 b 1 hidden_store = (if b = 0 then [hello_row\<lparr>ms_id := 20975617, ms_deleted := Some True\<rparr>] else [])" for b
    by (cases "b = 0") (simp_all add: cql_messages_latest_def hidden_store_def hello_row_def)
  then have none: "\<forall>m \<in> set (cql_messages_latest 20975617 b 1 hidden_store). \<not> shown m" for b
    by (simp add: shown_def decode_msg_row_def hello_row_def)
  show "query_messages 20975617 None None 1 (sent_world\<lparr>w_scylla := hidden_store\<rparr>) = (Inr [], sent_world\<lparr>w_scylla := hidden_store\<rparr>)"
  proof (rule deleted_messages_hide_older)
    show "calm (sent_world\<lparr>w_scylla := hidden_store\<rparr>)" by (simp only: calm_updates sent_facts)
    show "\<forall>b. \<forall>m \<in> set (cql_messages_latest 20975617 b 1 (w_scylla (sent_world\<lparr>w_scylla := hidden_store\<rparr>))). \<not> shown m"
      using none by simp
  qed
  have "hello_row \<in> set (messages hidden_store)" by (simp add: hidden_store_def)
  moreover have "decode_msg_row hello_row = Some (the (decode_msg_row hello_row)) \<and> \<not> mg_deleted (the (decode_msg_row hello_row)) \<and>
      ms_channel_id hello_row = 20975617"
    by (simp add: decode_msg_row_def hello_row_def)
  ultimately have "the (decode_msg_row hello_row) \<in> visible 20975617 None None hidden_store"
    unfolding visible_def beyond_def by fastforce
  then show "visible 20975617 None None hidden_store \<noteq> {}" by blast
qed

section \<open>Pins\<close>


definition pinned_world :: world where
  "pinned_world = snd (pin_message 7 20975617 20975616 sent_world)"

lemma pinned_store:
  "pins (w_scylla pinned_world) = [\<lparr>pn_channel_id = 20975617, pn_message_id = 20975616, pn_pinned_by = 7, pn_pinned_at = demo_now\<rparr>]"
proof -
  have "message_exists (cql_message_by_id 20975617 0 20975616 \<lparr>messages = [hello_row], pins = [], reactions = [], read_states = []\<rparr>)"
    by (simp add: message_exists_def cql_message_by_id_def message_key_def hello_row_def)
  then show ?thesis
    by (simp only: pinned_world_def pin_message_def)
      (simp add: run sent_may hello_facts Let_def cql_count_pins_def t_count_def cql_set_pinned_def cql_upsert_message_def
        cql_insert_pin_def t_insert_def t_delete_def)
qed


end
