(* ===== verification/Sessions.thy ===== *)
theory Sessions
  imports Servers
begin

text \<open>
  \<open>lumiere-auth\<close>: tokens (\<open>jwt.rs\<close>), the refresh sessions in Redis (\<open>session.rs\<close>) and the extractor of the
  authenticated user (\<open>middleware.rs\<close>). The signature (\<open>jsonwebtoken\<close>) and the random identifier of a token
  are parameters: \<open>encode claims secret\<close> gives the token or an error, \<open>decode now token secret\<close> the claims of a
  token whose signature and expiry are good. \<open>JSON\<close> text written by \<open>serde_json\<close> is kept as its value.
\<close>

section \<open>Tokens\<close>

datatype token_type = Access | Refresh

record claims =
  cl_sub :: string
  cl_exp :: u64
  cl_iat :: u64
  cl_jti :: string
  cl_token_type :: token_type

type_synonym encoder = "claims \<Rightarrow> string \<Rightarrow> string + string"
type_synonym decoder = "int \<Rightarrow> string \<Rightarrow> string \<Rightarrow> claims option"

definition timestamp_secs :: "int \<Rightarrow> i64" where
  "timestamp_secs now = of_int (now div 1000)"

definition new_claims :: "string \<Rightarrow> snowflake \<Rightarrow> int \<Rightarrow> u64 \<Rightarrow> token_type \<Rightarrow> claims" where
  "new_claims jti uid now ttl ty = \<lparr>cl_sub = show_u64 uid, cl_exp = timestamp_secs now + ttl,
     cl_iat = timestamp_secs now, cl_jti = jti, cl_token_type = ty\<rparr>"

definition create_token :: "encoder \<Rightarrow> string \<Rightarrow> snowflake \<Rightarrow> string \<Rightarrow> u64 \<Rightarrow> token_type \<Rightarrow> (string \<times> string) handler" where
  "create_token encode jti uid secret ttl ty =
     bind utc_now (\<lambda>now.
       case encode (new_claims jti uid now ttl ty) secret of
         Inl m \<Rightarrow> throw (Internal m)
       | Inr token \<Rightarrow> ret (token, jti))"

definition create_access_token :: "encoder \<Rightarrow> string \<Rightarrow> snowflake \<Rightarrow> string \<Rightarrow> u64 \<Rightarrow> (string \<times> string) handler" where
  "create_access_token encode jti uid secret ttl = create_token encode jti uid secret ttl Access"

definition create_refresh_token :: "encoder \<Rightarrow> string \<Rightarrow> snowflake \<Rightarrow> string \<Rightarrow> u64 \<Rightarrow> (string \<times> string) handler" where
  "create_refresh_token encode jti uid secret ttl = create_token encode jti uid secret ttl Refresh"

definition verify_token :: "decoder \<Rightarrow> int \<Rightarrow> string \<Rightarrow> string \<Rightarrow> claims option" where
  "verify_token decode now token secret = decode now token secret"

section \<open>The authenticated user\<close>

record auth_user =
  au_id :: snowflake
  au_jti :: string

datatype auth_error = MissingToken | InvalidToken

text \<open>\<open>header\<close> is the \<open>Authorization\<close> header; \<open>Some None\<close> is one that is not visible ASCII.\<close>

definition extract_bearer_token :: "string option option \<Rightarrow> auth_error + string" where
  "extract_bearer_token header =
     (case header of
        None \<Rightarrow> Inl MissingToken
      | Some None \<Rightarrow> Inl InvalidToken
      | Some (Some h) \<Rightarrow> if take 7 h = ''Bearer '' then Inr (drop 7 h) else Inl InvalidToken)"

definition from_request_parts :: "decoder \<Rightarrow> string \<Rightarrow> int \<Rightarrow> string option option \<Rightarrow> auth_error + auth_user" where
  "from_request_parts decode secret now header =
     (case extract_bearer_token header of
        Inl e \<Rightarrow> Inl e
      | Inr token \<Rightarrow>
          (case verify_token decode now token secret of
             None \<Rightarrow> Inl InvalidToken
           | Some c \<Rightarrow>
               if cl_token_type c \<noteq> Access then Inl InvalidToken
               else case parse_u64 (cl_sub c) of
                 Inl _ \<Rightarrow> Inl InvalidToken
               | Inr uid \<Rightarrow> Inr \<lparr>au_id = uid, au_jti = cl_jti c\<rparr>))"

definition maybe_from_request_parts :: "decoder \<Rightarrow> string \<Rightarrow> int \<Rightarrow> string option option \<Rightarrow> auth_user option" where
  "maybe_from_request_parts decode secret now header =
     (case from_request_parts decode secret now header of Inl _ \<Rightarrow> None | Inr u \<Rightarrow> Some u)"

definition auth_error_response :: "auth_error \<Rightarrow> nat \<times> json" where
  "auth_error_response e =
     (401, JObj [(''error'', JObj [(''code'', jlit ''UNAUTHORIZED''),
        (''message'', jlit (case e of MissingToken \<Rightarrow> ''Missing authorization token''
                            | InvalidToken \<Rightarrow> ''Invalid or expired token''))])])"

section \<open>Sessions\<close>

record session =
  ss_user_id :: string
  ss_jti :: string
  ss_device_info :: "ustr option"
  ss_ip :: "ustr option"
  ss_created_at :: i64
  ss_last_active :: i64

definition jopt_str :: "ustr option \<Rightarrow> json" where
  "jopt_str v = (case v of None \<Rightarrow> JNull | Some u \<Rightarrow> JStr u)"

definition session_json :: "session \<Rightarrow> json" where
  "session_json s = JObj [(''user_id'', jlit (ss_user_id s)), (''jti'', jlit (ss_jti s)),
     (''device_info'', jopt_str (ss_device_info s)), (''ip'', jopt_str (ss_ip s)),
     (''created_at'', ji64 (ss_created_at s)), (''last_active'', ji64 (ss_last_active s))]"

text \<open>What \<open>derive(Deserialize)\<close> reads: a missing \<open>Option\<close> is \<open>None\<close>, another missing field is an error.\<close>

definition json_text :: "json option \<Rightarrow> string + string" where
  "json_text j = (case j of
      Some (JStr u) \<Rightarrow> if list_all (\<lambda>c. c < 256) u then Inr (map char_of u) else Inl ''invalid string''
    | Some _ \<Rightarrow> Inl ''invalid type'' | None \<Rightarrow> Inl ''missing field'')"

definition json_opt_ustr :: "json option \<Rightarrow> string + ustr option" where
  "json_opt_ustr j = (case j of
      None \<Rightarrow> Inr None | Some JNull \<Rightarrow> Inr None | Some (JStr u) \<Rightarrow> Inr (Some u) | Some _ \<Rightarrow> Inl ''invalid type'')"

definition json_i64 :: "json option \<Rightarrow> string + i64" where
  "json_i64 j = (case j of
      Some (JInt n) \<Rightarrow> if - (2 ^ 63) \<le> n \<and> n < 2 ^ 63 then Inr (of_int n) else Inl ''invalid value''
    | Some _ \<Rightarrow> Inl ''invalid type'' | None \<Rightarrow> Inl ''missing field'')"

definition session_of_json :: "json \<Rightarrow> string + session" where
  "session_of_json j = (case j of
      JObj m \<Rightarrow>
        (case (json_text (map_of m ''user_id''), json_text (map_of m ''jti''), json_opt_ustr (map_of m ''device_info''),
               json_opt_ustr (map_of m ''ip''), json_i64 (map_of m ''created_at''), json_i64 (map_of m ''last_active'')) of
           (Inr u, Inr jti, Inr d, Inr ip, Inr c, Inr l) \<Rightarrow>
             Inr \<lparr>ss_user_id = u, ss_jti = jti, ss_device_info = d, ss_ip = ip, ss_created_at = c, ss_last_active = l\<rparr>
         | _ \<Rightarrow> Inl ''invalid session'')
    | _ \<Rightarrow> Inl ''invalid type'')"

definition refresh_key :: "string \<Rightarrow> string" where
  "refresh_key jti = ''refresh:'' @ jti"

definition user_sessions_key :: "string \<Rightarrow> string" where
  "user_sessions_key uid = ''user_sessions:'' @ uid"

definition create_session :: "string \<Rightarrow> string \<Rightarrow> u64 \<Rightarrow> ustr option \<Rightarrow> ustr option \<Rightarrow> unit handler" where
  "create_session uid jti ttl device_info ip =
     bind utc_now (\<lambda>now.
     let s = \<lparr>ss_user_id = uid, ss_jti = jti, ss_device_info = device_info, ss_ip = ip,
              ss_created_at = timestamp_secs now, ss_last_active = timestamp_secs now\<rparr>
     in andThen (redis_call (cmd_set_ex (refresh_key jti) (RJson (session_json s)) (uint ttl)))
        (redis_call (cmd_sadd (user_sessions_key uid) jti)))"

text \<open>\<open>serde_json::from_str(&json)?\<close> on what Redis gave.\<close>

definition read_session :: "redis_value \<Rightarrow> session handler" where
  "read_session v = (case v of
      RJson j \<Rightarrow> (case session_of_json j of Inl m \<Rightarrow> throw (Internal m) | Inr s \<Rightarrow> ret s)
    | _ \<Rightarrow> throw (Internal ''invalid session''))"

definition get_session :: "string \<Rightarrow> session option handler" where
  "get_session jti =
     bind (redis_call (cmd_get (refresh_key jti))) (\<lambda>v.
       case v of None \<Rightarrow> ret None | Some x \<Rightarrow> bind (read_session x) (\<lambda>s. ret (Some s)))"

definition revoke_session :: "string \<Rightarrow> string \<Rightarrow> unit handler" where
  "revoke_session jti uid =
     andThen (redis_call (cmd_del (refresh_key jti))) (redis_call (cmd_srem (user_sessions_key uid) jti))"

definition revoke_all_sessions :: "string \<Rightarrow> unit handler" where
  "revoke_all_sessions uid =
     bind (redis_call (cmd_smembers (user_sessions_key uid))) (\<lambda>jtis.
     andThen (for_each (\<lambda>jti. redis_call (cmd_del (refresh_key jti))) jtis)
       (redis_call (cmd_del (user_sessions_key uid))))"

definition touch_session :: "string \<Rightarrow> unit handler" where
  "touch_session jti =
     bind (redis_call (cmd_get (refresh_key jti))) (\<lambda>v.
       case v of
         None \<Rightarrow> ret ()
       | Some x \<Rightarrow>
           bind (read_session x) (\<lambda>s.
           bind utc_now (\<lambda>now.
           bind (redis_call (cmd_ttl (refresh_key jti))) (\<lambda>ttl.
             if ttl > 0
             then redis_call (cmd_set_ex (refresh_key jti) (RJson (session_json (s\<lparr>ss_last_active := timestamp_secs now\<rparr>))) ttl)
             else ret ()))))"

section \<open>The session codec\<close>

lemma json_text_lit [simp]: "json_text (Some (jlit s)) = Inr s"
proof -
  have "list_all (\<lambda>c. c < 256) (lit s)" by (auto simp: lit_def list_all_iff)
  moreover have "map char_of (lit s) = s" by (simp add: lit_def comp_def)
  ultimately show ?thesis by (simp add: json_text_def)
qed

lemma json_opt_ustr_jopt [simp]: "json_opt_ustr (Some (jopt_str v)) = Inr v"
  by (simp add: json_opt_ustr_def jopt_str_def split: option.split)

lemma json_i64_ji64 [simp]: "json_i64 (Some (ji64 x)) = Inr x"
  using sint_ge [of x] sint_lt [of x] by (simp add: json_i64_def ji64_def)

lemma session_of_json_json [simp]: "session_of_json (session_json s) = Inr s"
  by (simp add: session_of_json_def session_json_def)

interpretation session_codec: text_codec session_json session_of_json
  by unfold_locales simp

end
