(* ===== verification/Rate_Limit.thy ===== *)
theory Rate_Limit
  imports Sessions Complex_Main
begin

text \<open>
  \<open>middleware/rate_limit.rs\<close>: the token bucket (a Lua script in Redis), its middleware and response headers,
  the identifier of a caller, and the blocking of addresses after failed logins.

  The numbers of the script are IEEE doubles and the stored ones go through \<open>tostring\<close>, which prints 14
  digits. The bucket is written over the rationals with the two roundings as parameters: \<open>fl\<close> after each
  arithmetic operation whose result need not be an integer, \<open>txt\<close> for a number that is stored and read back.
\<close>

section \<open>The token bucket\<close>

record bucket =
  bk_tokens :: rat
  bk_last :: int

type_synonym bucket_store = "string \<Rightarrow> (bucket \<times> int) option"

definition bucket_at :: "int \<Rightarrow> bucket_store \<Rightarrow> string \<Rightarrow> bucket option" where
  "bucket_at now st k = (case st k of None \<Rightarrow> None | Some (b, t) \<Rightarrow> if now < t then Some b else None)"

text \<open>The tokens at \<open>now\<close>: a new bucket is full, an old one is refilled for the time since its last use.\<close>

definition refilled :: "(rat \<Rightarrow> rat) \<Rightarrow> nat \<Rightarrow> int \<Rightarrow> int \<Rightarrow> bucket option \<Rightarrow> rat" where
  "refilled fl rate window_ms now b =
     (let tokens = (case b of None \<Rightarrow> of_nat rate | Some x \<Rightarrow> bk_tokens x);
          last = (case b of None \<Rightarrow> now | Some x \<Rightarrow> bk_last x);
          elapsed = max 0 (now - last);
          refill = fl (fl (of_int (elapsed * int rate)) / of_int window_ms)
      in min (of_nat rate) (fl (tokens + refill)))"

text \<open>The reply \<open>{allowed, retry_after_ms, remaining}\<close> and the new store.\<close>

definition rate_limit_script ::
  "(rat \<Rightarrow> rat) \<Rightarrow> (rat \<Rightarrow> rat) \<Rightarrow> string \<Rightarrow> nat \<Rightarrow> nat \<Rightarrow> int \<Rightarrow> bucket_store \<Rightarrow> (bool \<times> int \<times> int) \<times> bucket_store" where
  "rate_limit_script fl txt k rate window now st =
     (let window_ms = int window * 1000;
          tokens = refilled fl rate window_ms now (bucket_at now st k)
      in if tokens < 1
         then ((False, \<lceil>fl (fl (fl (1 - tokens) * of_int window_ms) / of_nat rate)\<rceil>, \<lfloor>tokens\<rfloor>), st)
         else let left = fl (tokens - 1)
              in ((True, 0, \<lfloor>left\<rfloor>),
                  st(k \<mapsto> (\<lparr>bk_tokens = txt left, bk_last = now\<rparr>, now + int window * 2 * 1000))))"

record rate_limit_config =
  rl_prefix :: string
  rl_max_requests :: nat
  rl_window_seconds :: nat

definition global_limit :: rate_limit_config where
  "global_limit = \<lparr>rl_prefix = ''rl:global'', rl_max_requests = 120, rl_window_seconds = 1\<rparr>"

definition auth_register_limit :: rate_limit_config where
  "auth_register_limit = \<lparr>rl_prefix = ''rl:register'', rl_max_requests = 5, rl_window_seconds = 3600\<rparr>"

definition auth_login_limit :: rate_limit_config where
  "auth_login_limit = \<lparr>rl_prefix = ''rl:login'', rl_max_requests = 10, rl_window_seconds = 600\<rparr>"

definition message_send_limit :: rate_limit_config where
  "message_send_limit = \<lparr>rl_prefix = ''rl:msg'', rl_max_requests = 5, rl_window_seconds = 5\<rparr>"

definition reaction_limit :: rate_limit_config where
  "reaction_limit = \<lparr>rl_prefix = ''rl:react'', rl_max_requests = 4, rl_window_seconds = 1\<rparr>"

record rate_limit_result =
  rr_allowed :: bool
  rr_remaining :: "32 word"
  rr_limit :: nat
  rr_retry_after :: "32 word option"

text \<open>\<open>None\<close>: the script could not be run.\<close>

definition check_rate_limit ::
  "(rat \<Rightarrow> rat) \<Rightarrow> (rat \<Rightarrow> rat) \<Rightarrow> call_outcome \<Rightarrow> rate_limit_config \<Rightarrow> string \<Rightarrow> int \<Rightarrow> bucket_store \<Rightarrow>
   rate_limit_result option \<times> bucket_store" where
  "check_rate_limit fl txt outcome config identifier now st =
     (let k = rl_prefix config @ '':'' @ identifier;
          ((allowed, wait, remaining), st') =
            rate_limit_script fl txt k (rl_max_requests config) (rl_window_seconds config) now st
      in case outcome of
           Fails \<Rightarrow> (None, st)
         | Unacknowledged \<Rightarrow> (None, st')
         | Succeeds \<Rightarrow> (Some \<lparr>rr_allowed = allowed, rr_remaining = of_int remaining, rr_limit = rl_max_requests config,
               rr_retry_after = (if allowed then None else Some (of_int wait))\<rparr>, st'))"

section \<open>Who is asking\<close>

text \<open>
  What the middleware reads of a request: the peer address when the server was started with connection
  information, and the headers, each as text if it is visible ASCII (\<open>Some None\<close>: present, not text).
\<close>

record request_info =
  rq_peer :: "string option"
  rq_authorization :: "string option option"
  rq_forwarded_for :: "string option option"
  rq_real_ip :: "string option option"

text \<open>\<open>str::split(c)\<close>: the pieces, one more than there are separators.\<close>

fun split_on :: "char \<Rightarrow> string \<Rightarrow> string list" where
  "split_on c [] = [[]]"
| "split_on c (x # xs) =
     (if x = c then [] # split_on c xs
      else case split_on c xs of [] \<Rightarrow> [[x]] | p # ps \<Rightarrow> (x # p) # ps)"

text \<open>\<open>trim\<close> on text that is visible ASCII, a space or a tab.\<close>

definition is_blank :: "char \<Rightarrow> bool" where
  "is_blank c \<longleftrightarrow> is_whitespace (of_char c)"

definition trim_text :: "string \<Rightarrow> string" where
  "trim_text s = rev (dropWhile is_blank (rev (dropWhile is_blank s)))"

definition header_text :: "string option option \<Rightarrow> string option" where
  "header_text h = (case h of Some (Some v) \<Rightarrow> Some v | _ \<Rightarrow> None)"

definition extract_client_ip :: "request_info \<Rightarrow> string" where
  "extract_client_ip r =
     (case rq_peer r of
        Some ip \<Rightarrow> ''ip:'' @ ip
      | None \<Rightarrow>
          (case header_text (rq_forwarded_for r) of
             Some v \<Rightarrow> ''ip:'' @ trim_text (hd (split_on CHR '','' v))
           | None \<Rightarrow>
               (case header_text (rq_real_ip r) of
                  Some v \<Rightarrow> ''ip:'' @ trim_text v
                | None \<Rightarrow> ''ip:unknown'')))"

text \<open>\<open>sub_of\<close> stands for base64, JSON and the look-up of \<open>sub\<close>: the subject a payload names, if any.\<close>

definition extract_user_id_from_token :: "(string \<Rightarrow> string option) \<Rightarrow> string \<Rightarrow> string option" where
  "extract_user_id_from_token sub_of token =
     (let parts = split_on CHR ''.'' token
      in if length parts \<noteq> 3 then None else sub_of (parts ! 1))"

definition extract_identifier :: "(string \<Rightarrow> string option) \<Rightarrow> request_info \<Rightarrow> string" where
  "extract_identifier sub_of r =
     (case header_text (rq_authorization r) of
        Some v \<Rightarrow>
          (case if take 7 v = ''Bearer '' then extract_user_id_from_token sub_of (drop 7 v) else None of
             Some uid \<Rightarrow> ''user:'' @ uid
           | None \<Rightarrow> extract_client_ip r)
      | None \<Rightarrow> extract_client_ip r)"

section \<open>The middleware\<close>

datatype verdict = Forward "rate_limit_result option" | Refuse rate_limit_result

definition limit_by ::
  "(rat \<Rightarrow> rat) \<Rightarrow> (rat \<Rightarrow> rat) \<Rightarrow> call_outcome \<Rightarrow> rate_limit_config \<Rightarrow> string \<Rightarrow> int \<Rightarrow> bucket_store \<Rightarrow> verdict \<times> bucket_store" where
  "limit_by fl txt outcome config identifier now st =
     (case check_rate_limit fl txt outcome config identifier now st of
        (None, st') \<Rightarrow> (Forward None, st')
      | (Some r, st') \<Rightarrow> (if rr_allowed r then Forward (Some r) else Refuse r, st'))"

definition global_rate_limit_middleware ::
  "(rat \<Rightarrow> rat) \<Rightarrow> (rat \<Rightarrow> rat) \<Rightarrow> (string \<Rightarrow> string option) \<Rightarrow> call_outcome \<Rightarrow> request_info \<Rightarrow> int \<Rightarrow> bucket_store \<Rightarrow>
   verdict \<times> bucket_store" where
  "global_rate_limit_middleware fl txt sub_of outcome req now st =
     limit_by fl txt outcome global_limit (extract_identifier sub_of req) now st"

definition route_rate_limit ::
  "(rat \<Rightarrow> rat) \<Rightarrow> (rat \<Rightarrow> rat) \<Rightarrow> (string \<Rightarrow> string option) \<Rightarrow> rate_limit_config \<Rightarrow> call_outcome \<Rightarrow> request_info \<Rightarrow> int \<Rightarrow>
   bucket_store \<Rightarrow> verdict \<times> bucket_store" where
  "route_rate_limit fl txt sub_of config outcome req now st =
     limit_by fl txt outcome config (extract_identifier sub_of req) now st"

definition ip_rate_limit ::
  "(rat \<Rightarrow> rat) \<Rightarrow> (rat \<Rightarrow> rat) \<Rightarrow> rate_limit_config \<Rightarrow> call_outcome \<Rightarrow> request_info \<Rightarrow> int \<Rightarrow> bucket_store \<Rightarrow>
   verdict \<times> bucket_store" where
  "ip_rate_limit fl txt config outcome req now st = limit_by fl txt outcome config (extract_client_ip req) now st"

record limited_response =
  lr_status :: nat
  lr_body_retry_after :: "32 word"
  lr_headers :: "(string \<times> string) list"

definition rate_limit_response :: "int \<Rightarrow> rate_limit_result \<Rightarrow> limited_response" where
  "rate_limit_response now r =
     (let retry_after = unwrap_or 1 (rr_retry_after r);
          reset = (of_int (now div 1000) :: u64) + ucast retry_after
      in \<lparr>lr_status = 429, lr_body_retry_after = retry_after,
          lr_headers = [(''x-ratelimit-limit'', show_nat (rr_limit r)), (''x-ratelimit-remaining'', ''0''),
            (''x-ratelimit-reset'', show_u64 reset), (''retry-after'', show_nat (unat retry_after))]\<rparr>)"

definition add_rate_limit_headers :: "int \<Rightarrow> rate_limit_result \<Rightarrow> (string \<times> string) list" where
  "add_rate_limit_headers now r =
     [(''x-ratelimit-limit'', show_nat (rr_limit r)), (''x-ratelimit-remaining'', show_nat (unat (rr_remaining r))),
      (''x-ratelimit-reset'', show_u64 (of_int (now div 1000) + 1))]"

section \<open>Blocking an address after failed logins\<close>

definition LOGIN_FAIL_MAX :: int where "LOGIN_FAIL_MAX = 10"
definition LOGIN_BLOCK_SECONDS :: int where "LOGIN_BLOCK_SECONDS = 1800"

definition block_key :: "string \<Rightarrow> string" where
  "block_key ip = ''ip_block:'' @ ip"

definition fail_key :: "string \<Rightarrow> string" where
  "fail_key ip = ''ip_fail:'' @ ip"

definition is_login_blocked :: "string \<Rightarrow> bool handler" where
  "is_login_blocked ip = bind (redis_call (cmd_get (block_key ip))) (\<lambda>v. ret (v \<noteq> None))"

definition record_login_failure :: "string \<Rightarrow> unit handler" where
  "record_login_failure ip =
     bind (redis_call (cmd_incr_expire (fail_key ip) LOGIN_BLOCK_SECONDS)) (\<lambda>count.
       if count \<ge> LOGIN_FAIL_MAX then redis_set_ex (block_key ip) (RText ''1'') LOGIN_BLOCK_SECONDS else ret ())"

definition clear_login_failures :: "string \<Rightarrow> unit handler" where
  "clear_login_failures ip = or_else () (redis_call (cmd_del (fail_key ip)))"

end
