(* ===== verification/Rate_Properties.thy ===== *)
theory Rate_Properties
  imports Rate_Limit
begin

text \<open>
  What the token bucket of \<open>middleware/rate_limit.rs\<close> enforces, and what it does not: the bound on the requests
  let through, with the rounding of Lua's numbers; the unit of the answer; and the bucket that unsigned tokens select.
\<close>

section \<open>The bound\<close>

text \<open>How many of the requests at the times \<open>ts\<close> one bucket lets through.\<close>

fun admitted :: "(rat \<Rightarrow> rat) \<Rightarrow> (rat \<Rightarrow> rat) \<Rightarrow> string \<Rightarrow> nat \<Rightarrow> nat \<Rightarrow> int list \<Rightarrow> bucket_store \<Rightarrow> nat" where
  "admitted fl txt k rate window [] st = 0"
| "admitted fl txt k rate window (t # ts) st =
     (let ((allowed, _, _), st') = rate_limit_script fl txt k rate window t st
      in (if allowed then 1 else 0) + admitted fl txt k rate window ts st')"

text \<open>A rounding of non-negative numbers that errs upwards by at most the factor \<open>1 + u\<close>.\<close>

definition rounds_within :: "rat \<Rightarrow> (rat \<Rightarrow> rat) \<Rightarrow> bool" where
  "rounds_within u f \<longleftrightarrow> (\<forall>x \<ge> 0. 0 \<le> f x \<and> f x \<le> x * (1 + u))"

text \<open>What the bucket holds at a time, without rounding.\<close>

definition ideal :: "nat \<Rightarrow> nat \<Rightarrow> int \<Rightarrow> (bucket \<times> int) option \<Rightarrow> rat" where
  "ideal rate window t b = (case b of
      None \<Rightarrow> of_nat rate
    | Some (x, _) \<Rightarrow> min (of_nat rate) (bk_tokens x + of_int (t - bk_last x) * of_nat rate / of_int (int window * 1000)))"

definition slack :: "rat \<Rightarrow> nat \<Rightarrow> rat" where
  "slack u rate = of_nat rate * ((1 + u) ^ 3 + (1 + u) ^ 2 - 2)"

text \<open>A bucket as the script leaves it.\<close>

definition bucket_ok :: "nat \<Rightarrow> int \<Rightarrow> (bucket \<times> int) option \<Rightarrow> bool" where
  "bucket_ok window t b = (case b of
      None \<Rightarrow> True
    | Some (x, e) \<Rightarrow> 0 \<le> bk_tokens x \<and> bk_last x \<le> t \<and> e = bk_last x + int window * 2 * 1000)"

lemma refilled_le:
  assumes u: "0 \<le> u" "rounds_within u fl" and b: "bucket_ok window t (st k)" and w: "0 < window"
  shows "0 \<le> refilled fl rate (int window * 1000) t (bucket_at t st k)"
    and "refilled fl rate (int window * 1000) t (bucket_at t st k) \<le> ideal rate window t (st k) + of_nat rate * ((1 + u) ^ 3 - 1)"
proof -
  let ?w = "of_int (int window * 1000) :: rat"
  let ?r = "of_nat rate :: rat"
  have pos: "?w > 0" using w by simp
  have fl: "0 \<le> fl x" "fl x \<le> x * (1 + u)" if "0 \<le> x" for x using u(2) that by (auto simp: rounds_within_def)
  have bound: "0 \<le> fl (a + fl (fl e / ?w)) \<and> fl (a + fl (fl e / ?w)) \<le> (a + e / ?w) * (1 + u) ^ 3" if "0 \<le> a" "0 \<le> e" for a e
  proof -
    have e: "0 \<le> fl e / ?w" "fl e / ?w \<le> e * (1 + u) / ?w"
      using fl [OF that(2)] pos by (simp_all add: divide_right_mono)
    have r: "0 \<le> fl (fl e / ?w)" "fl (fl e / ?w) \<le> e / ?w * (1 + u) ^ 2"
    proof -
      show "0 \<le> fl (fl e / ?w)" using fl(1) [OF e(1)] .
      have "fl (fl e / ?w) \<le> fl e / ?w * (1 + u)" using fl(2) [OF e(1)] .
      also have "\<dots> \<le> e * (1 + u) / ?w * (1 + u)" using e(2) u(1) by (intro mult_right_mono) auto
      finally show "fl (fl e / ?w) \<le> e / ?w * (1 + u) ^ 2" by (simp add: power2_eq_square algebra_simps)
    qed
    have s: "0 \<le> a + fl (fl e / ?w)" using that(1) r(1) by simp
    have "a * 1 \<le> a * (1 + u) ^ 2" using that(1) u(1) by (intro mult_left_mono) auto
    then have "a + fl (fl e / ?w) \<le> (a + e / ?w) * (1 + u) ^ 2" using r(2) by (simp add: distrib_right)
    then have "(a + fl (fl e / ?w)) * (1 + u) \<le> (a + e / ?w) * (1 + u) ^ 2 * (1 + u)"
      using u(1) by (intro mult_right_mono) auto
    also have "\<dots> = (a + e / ?w) * (1 + u) ^ 3" by (simp add: power3_eq_cube power2_eq_square)
    finally show ?thesis using fl [OF s] by auto
  qed
  have c: "1 \<le> (1 + u) ^ 3" using u(1) by simp
  have cap: "min ?r (x * (1 + u) ^ 3) \<le> min ?r x + ?r * ((1 + u) ^ 3 - 1)" if "0 \<le> x" for x
  proof (cases "?r \<le> x")
    case True
    have "0 \<le> ?r * ((1 + u) ^ 3 - 1)" using c by (intro mult_nonneg_nonneg) auto
    then show ?thesis using True by (simp add: min_def)
  next
    case False
    then have "x * ((1 + u) ^ 3 - 1) \<le> ?r * ((1 + u) ^ 3 - 1)" using c by (intro mult_right_mono) auto
    then show ?thesis using False by (simp add: min_def algebra_simps)
  qed
  have "0 \<le> refilled fl rate (int window * 1000) t (bucket_at t st k) \<and>
    refilled fl rate (int window * 1000) t (bucket_at t st k) \<le> ideal rate window t (st k) + ?r * ((1 + u) ^ 3 - 1)"
  proof (cases "bucket_at t st k")
    case None
    have full: "ideal rate window t (st k) = ?r"
    proof (cases "st k")
      case (Some p)
      obtain x e where p: "st k = Some (x, e)" using Some by (cases p) auto
      then have "bk_last x + int window * 2 * 1000 \<le> t" "0 \<le> bk_tokens x"
        using None b by (auto simp: bucket_at_def bucket_ok_def split: if_splits)
      then have "of_int (2 * (int window * 1000)) \<le> (of_int (t - bk_last x) :: rat)"
        unfolding of_int_le_iff by simp
      then have "2 * ?w * ?r \<le> of_int (t - bk_last x) * ?r" by (intro mult_right_mono) auto
      then have "2 * ?r \<le> of_int (t - bk_last x) * ?r / ?w" using pos by (simp add: pos_le_divide_eq mult.commute)
      then have "?r \<le> bk_tokens x + of_int (t - bk_last x) * ?r / ?w" using \<open>0 \<le> bk_tokens x\<close> by linarith
      then show ?thesis by (simp add: ideal_def p)
    qed (simp add: ideal_def)
    have "?r + ?r * ((1 + u) ^ 3 - 1) = ?r * (1 + u) ^ 3" by (simp add: right_diff_distrib)
    then show ?thesis using bound [of ?r 0] c full
      by (simp add: None refilled_def Let_def min_le_iff_disj)
  next
    case (Some x)
    then obtain e where p: "st k = Some (x, e)" by (auto simp: bucket_at_def split: option.splits if_splits)
    have x: "0 \<le> bk_tokens x" "bk_last x \<le> t" using b by (simp_all add: p bucket_ok_def)
    let ?e = "of_int (max 0 (t - bk_last x) * int rate) :: rat"
    have e: "?e = of_int (t - bk_last x) * ?r" "0 \<le> ?e" using x(2) by (simp_all add: max_def)
    have "0 \<le> bk_tokens x + ?e / ?w" using x(1) e(2) pos by (simp add: divide_nonneg_nonneg)
    note c1 = cap [OF this] and b1 = bound [OF x(1) e(2)]
    have ref: "refilled fl rate (int window * 1000) t (bucket_at t st k) = min ?r (fl (bk_tokens x + fl (fl ?e / ?w)))"
      by (simp only: refilled_def Some option.case Let_def)
    have idl: "ideal rate window t (st k) = min ?r (bk_tokens x + ?e / ?w)"
      by (simp only: ideal_def p option.case prod.case e(1))
    have "min ?r (fl (bk_tokens x + fl (fl ?e / ?w))) \<le> min ?r ((bk_tokens x + ?e / ?w) * (1 + u) ^ 3)"
      using b1 by (intro min.mono) auto
    then have "min ?r (fl (bk_tokens x + fl (fl ?e / ?w))) \<le> min ?r (bk_tokens x + ?e / ?w) + ?r * ((1 + u) ^ 3 - 1)"
      using c1 by (rule order_trans)
    moreover have "0 \<le> min ?r (fl (bk_tokens x + fl (fl ?e / ?w)))" using b1 by simp
    ultimately show ?thesis unfolding ref idl by blast
  qed
  then show "0 \<le> refilled fl rate (int window * 1000) t (bucket_at t st k)"
    "refilled fl rate (int window * 1000) t (bucket_at t st k) \<le> ideal rate window t (st k) + ?r * ((1 + u) ^ 3 - 1)" by auto
qed


lemma ideal_later:
  assumes "bucket_ok window t b" "t \<le> t'" "0 < window"
  shows "ideal rate window t' b \<le> ideal rate window t b + of_int (t' - t) * of_nat rate / of_int (int window * 1000)"
proof (cases b)
  case None
  then show ?thesis using assms by (simp add: ideal_def divide_nonneg_nonneg)
next
  case (Some p)
  obtain x e where p: "b = Some (x, e)" using Some by (cases p) auto
  have "(of_int (t' - bk_last x) :: rat) = of_int (t - bk_last x) + of_int (t' - t)" by simp
  then have "of_int (t' - bk_last x) * of_nat rate / of_int (int window * 1000) =
      of_int (t - bk_last x) * of_nat rate / of_int (int window * 1000) +
      (of_int (t' - t) * of_nat rate / of_int (int window * 1000) :: rat)"
    by (metis add_divide_distrib distrib_right)
  moreover have "0 \<le> (of_int (t' - t) * of_nat rate / of_int (int window * 1000) :: rat)"
    using assms by (simp add: divide_nonneg_nonneg)
  ultimately show ?thesis unfolding ideal_def p option.case prod.case by linarith
qed

lemma script_step:
  assumes u: "0 \<le> u" "rounds_within u fl" "rounds_within u txt"
    and b: "bucket_ok window t (st k)" and w: "0 < window"
    and s: "rate_limit_script fl txt k rate window t st = ((allowed, x, y), st')"
  shows "bucket_ok window t (st' k)"
    and "(if allowed then 1 - slack u rate else 0) + ideal rate window t (st' k) \<le> ideal rate window t (st k)"
proof -
  let ?tok = "refilled fl rate (int window * 1000) t (bucket_at t st k)"
  have "bucket_ok window t (st' k) \<and>
    (if allowed then 1 - slack u rate else 0) + ideal rate window t (st' k) \<le> ideal rate window t (st k)"
  proof (cases "?tok < 1")
    case True
    then show ?thesis using s b by (auto simp: rate_limit_script_def Let_def)
  next
    case False
    let ?left = "txt (fl (?tok - 1))"
    have st': "st' k = Some (\<lparr>bk_tokens = ?left, bk_last = t\<rparr>, t + int window * 2 * 1000)" "allowed"
      using s False by (auto simp: rate_limit_script_def Let_def)
    have nn: "0 \<le> ?tok - 1" using False by simp
    have f: "0 \<le> fl (?tok - 1)" "fl (?tok - 1) \<le> (?tok - 1) * (1 + u)" using u(2) nn by (auto simp: rounds_within_def)
    have t: "0 \<le> ?left" "?left \<le> fl (?tok - 1) * (1 + u)" using u(3) f(1) by (auto simp: rounds_within_def)
    have "fl (?tok - 1) * (1 + u) \<le> (?tok - 1) * (1 + u) * (1 + u)" using f(2) u(1) by (intro mult_right_mono) auto
    then have left: "?left \<le> (?tok - 1) * (1 + u) ^ 2" using t(2) by (simp add: power2_eq_square mult.assoc)
    have "?tok \<le> of_nat rate" by (simp add: refilled_def Let_def)
    then have "(?tok - 1) * ((1 + u) ^ 2 - 1) \<le> of_nat rate * ((1 + u) ^ 2 - 1)"
      using u(1) by (intro mult_right_mono) auto
    then have "?left \<le> ?tok - 1 + of_nat rate * ((1 + u) ^ 2 - 1)"
      using left by (simp add: right_diff_distrib)
    also have "\<dots> \<le> ideal rate window t (st k) + of_nat rate * ((1 + u) ^ 3 - 1) - 1 + of_nat rate * ((1 + u) ^ 2 - 1)"
      using refilled_le(2) [where st = st and k = k and t = t and window = window and rate = rate, OF u(1, 2) b w] by linarith
    also have "\<dots> = ideal rate window t (st k) - (1 - slack u rate)"
      by (simp add: slack_def algebra_simps)
    finally have "?left \<le> ideal rate window t (st k) - (1 - slack u rate)" .
    moreover have "ideal rate window t (st' k) \<le> ?left" by (simp add: ideal_def st'(1) min_le_iff_disj)
    moreover have "bucket_ok window t (st' k)" using t(1) by (simp add: bucket_ok_def st'(1))
    ultimately show ?thesis using st'(2) by auto
  qed
  then show "bucket_ok window t (st' k)"
    "(if allowed then 1 - slack u rate else 0) + ideal rate window t (st' k) \<le> ideal rate window t (st k)" by auto
qed

lemma bucket_ok_later: "bucket_ok window t b \<Longrightarrow> t \<le> t' \<Longrightarrow> bucket_ok window t' b"
  by (auto simp: bucket_ok_def split: option.splits)

lemma ideal_nonneg: "bucket_ok window t b \<Longrightarrow> 0 \<le> ideal rate window t b"
  by (auto simp: bucket_ok_def ideal_def split: option.splits intro!: add_nonneg_nonneg divide_nonneg_nonneg)

lemma admitted_le:
  assumes "0 \<le> u" "rounds_within u fl" "rounds_within u txt" "0 < window"
  shows "bucket_ok window t (st k) \<Longrightarrow> sorted (t # ts) \<Longrightarrow>
    of_nat (admitted fl txt k rate window ts st) * (1 - slack u rate) \<le>
      ideal rate window t (st k) + of_int (last (t # ts) - t) * of_nat rate / of_int (int window * 1000)"
proof (induction ts arbitrary: t st)
  case Nil
  then show ?case by (simp add: ideal_nonneg)
next
  case (Cons t' ts)
  obtain allowed x y st' where s: "rate_limit_script fl txt k rate window t' st = ((allowed, x, y), st')"
    by (metis prod_cases3 surj_pair)
  have ok: "bucket_ok window t' (st k)" using Cons.prems by (auto intro: bucket_ok_later)
  note step = script_step [where k = k, OF assms(1-3) ok assms(4) s]
  let ?d = "\<lambda>a b. of_int (a - b) * of_nat rate / of_int (int window * 1000) :: rat"
  have ih: "of_nat (admitted fl txt k rate window ts st') * (1 - slack u rate) \<le> ideal rate window t' (st' k) + ?d (last (t' # ts)) t'"
    using Cons.IH [where t = t' and st = st', OF step(1)] Cons.prems(2) by simp
  have lat: "ideal rate window t' (st k) \<le> ideal rate window t (st k) + ?d t' t"
    using Cons.prems assms(4) by (intro ideal_later) auto
  have "(of_int (last (t' # ts) - t) :: rat) = of_int (last (t' # ts) - t') + of_int (t' - t)" by simp
  then have d: "?d (last (t' # ts)) t = ?d (last (t' # ts)) t' + ?d t' t"
    by (metis add_divide_distrib distrib_right)
  have "of_nat (admitted fl txt k rate window (t' # ts) st) * (1 - slack u rate) =
      (if allowed then 1 - slack u rate else 0) + of_nat (admitted fl txt k rate window ts st') * (1 - slack u rate)"
    by (simp add: s algebra_simps)
  then show ?case using ih lat d step(2) by simp
qed

text \<open>C15: A bucket of \<open>rate\<close> tokens per window lets through at most what it holds plus what the time between the
  first and the last request refills, up to the rounding of the numbers (\<open>slack\<close>, zero for exact arithmetic).\<close>

theorem rate_limit_bound:
  assumes "0 \<le> u" "rounds_within u fl" "rounds_within u txt" "0 < window" "st k = None" "sorted (t # ts)"
  shows "of_nat (admitted fl txt k rate window (t # ts) st) * (1 - slack u rate) \<le>
    of_nat rate + of_int (last (t # ts) - t) * of_nat rate / of_int (int window * 1000)"
proof -
  have "bucket_ok window t (st k)" using assms(5) by (simp add: bucket_ok_def)
  moreover have "sorted (t # t # ts)" using assms(6) by simp
  ultimately have "of_nat (admitted fl txt k rate window (t # ts) st) * (1 - slack u rate) \<le>
      ideal rate window t (st k) + of_int (last (t # t # ts) - t) * of_nat rate / of_int (int window * 1000)"
    by (rule admitted_le [OF assms(1-4)])
  then show ?thesis using assms(5) by (simp add: ideal_def)
qed

theorem rate_limit_bound_witness:
  "admitted id id ''rl:msg:user:7'' 5 5 [0, 0, 0, 0, 0, 0, 500] (\<lambda>_. None) = 5 \<and>
   of_nat (admitted id id ''rl:msg:user:7'' 5 5 [0, 0, 0, 0, 0, 0, 500] (\<lambda>_. None)) * (1 - slack 0 5) \<le> (5.5 :: rat)"
proof
  show "admitted id id ''rl:msg:user:7'' 5 5 [0, 0, 0, 0, 0, 0, 500] (\<lambda>_. None) = 5"
    by (simp add: rate_limit_script_def refilled_def bucket_at_def Let_def)
  show "of_nat (admitted id id ''rl:msg:user:7'' 5 5 [0, 0, 0, 0, 0, 0, 500] (\<lambda>_. None)) * (1 - slack 0 5) \<le> (5.5 :: rat)"
    using rate_limit_bound [of 0 id id 5 "\<lambda>_. None" "''rl:msg:user:7''" 0 "[0, 0, 0, 0, 0, 500]" 5]
    by (simp add: rounds_within_def)
qed

lemma unsigned_wait:
  assumes "0 \<le> n" "n < 2 ^ 32"
  shows "uint (of_int n :: 32 word) = n"
  using assms by (simp add: uint_word_of_int)

lemma wait_enough:
  assumes "rate_limit_script id id k rate window now st = ((False, wait, r), st')"
    and "0 < rate" "0 < window" "bucket_ok window now (st k)"
  shows "0 \<le> wait" "wait \<le> int window * 1000" "fst (fst (rate_limit_script id id k rate window (now + wait) st))"
proof -
  let ?w = "of_int (int window * 1000) :: rat" and ?r = "of_nat rate :: rat"
  let ?tok = "refilled id rate (int window * 1000) now (bucket_at now st k)"
  have pos: "0 < ?w" "1 \<le> ?r" using assms(2, 3) by simp_all
  have low: "?tok < 1" and wait: "wait = \<lceil>(1 - ?tok) * ?w / ?r\<rceil>"
    using assms(1) by (auto simp: rate_limit_script_def Let_def split: if_splits)
  obtain x e where p: "st k = Some (x, e)" "now < e"
    using low pos by (cases "st k") (auto simp: refilled_def bucket_at_def Let_def split: if_splits)
  have x: "0 \<le> bk_tokens x" "bk_last x \<le> now" using assms(4) by (simp_all add: p bucket_ok_def)
  have at: "refilled id rate (int window * 1000) t (Some x) = min ?r (bk_tokens x + of_int (t - bk_last x) * ?r / ?w)"
    if "bk_last x \<le> t" for t
    using that by (simp add: refilled_def Let_def max_def)
  have tok: "?tok = bk_tokens x + of_int (now - bk_last x) * ?r / ?w" "0 \<le> ?tok"
  proof -
    have n: "0 \<le> bk_tokens x + of_int (now - bk_last x) * ?r / ?w"
      using x pos by (intro add_nonneg_nonneg divide_nonneg_nonneg mult_nonneg_nonneg) simp_all
    have "?tok = min ?r (bk_tokens x + of_int (now - bk_last x) * ?r / ?w)"
      using at [OF x(2)] p by (simp add: bucket_at_def)
    with low pos n show "?tok = bk_tokens x + of_int (now - bk_last x) * ?r / ?w" "0 \<le> ?tok" by auto
  qed
  have q: "0 \<le> (1 - ?tok) * ?w / ?r" "(1 - ?tok) * ?w / ?r \<le> ?w"
  proof -
    show "0 \<le> (1 - ?tok) * ?w / ?r" using low pos by (intro divide_nonneg_nonneg mult_nonneg_nonneg) auto
    have "(1 - ?tok) * ?w \<le> ?w * ?r"
      using mult_right_mono [of "1 - ?tok" 1 ?w] mult_left_mono [of 1 ?r ?w] tok(2) pos by linarith
    then show "(1 - ?tok) * ?w / ?r \<le> ?w" using pos by (simp add: pos_divide_le_eq)
  qed
  show w0: "0 \<le> wait" using q(1) unfolding wait by (simp add: zero_le_ceiling)
  show "wait \<le> int window * 1000" using q(2) unfolding wait by (simp add: ceiling_le_iff)
  have "(1 - ?tok) * ?w / ?r \<le> of_int wait" unfolding wait by (rule le_of_int_ceiling)
  then have "1 - ?tok \<le> of_int wait * ?r / ?w" using pos by (simp add: pos_divide_le_eq pos_le_divide_eq)
  moreover have "(of_int (now + wait - bk_last x) :: rat) = of_int (now - bk_last x) + of_int wait" by simp
  then have "of_int (now + wait - bk_last x) * ?r / ?w = of_int (now - bk_last x) * ?r / ?w + of_int wait * ?r / ?w"
    by (metis add_divide_distrib distrib_right)
  ultimately have "1 \<le> bk_tokens x + of_int (now + wait - bk_last x) * ?r / ?w" using tok(1) by linarith
  then have "1 \<le> refilled id rate (int window * 1000) (now + wait) (bucket_at (now + wait) st k)"
    using at [of "now + wait"] x(2) w0 pos by (auto simp: bucket_at_def p refilled_def Let_def)
  then show "fst (fst (rate_limit_script id id k rate window (now + wait) st))"
    by (simp add: rate_limit_script_def Let_def)
qed

lemma check_succeeds:
  "check_rate_limit fl txt Succeeds config ident now st =
     (let ((allowed, wait, remaining), st') = rate_limit_script fl txt (rl_prefix config @ '':'' @ ident)
            (rl_max_requests config) (rl_window_seconds config) now st
      in (Some \<lparr>rr_allowed = allowed, rr_remaining = of_int remaining, rr_limit = rl_max_requests config,
            rr_retry_after = (if allowed then None else Some (of_int wait))\<rparr>, st'))"
  by (simp add: check_rate_limit_def Let_def split: prod.split)

text \<open>A refused caller who waits as many milliseconds as the \<open>retry-after\<close> header says is let through: the header,
  which HTTP reads in seconds, holds milliseconds.\<close>

theorem retry_after_in_milliseconds:
  assumes "check_rate_limit id id Succeeds config ident now st = (Some r, st')" "rr_retry_after r = Some delay"
    and "0 < rl_max_requests config" "0 < rl_window_seconds config" "rl_window_seconds config * 1000 < 2 ^ 32"
    and "bucket_ok (rl_window_seconds config) now (st (rl_prefix config @ '':'' @ ident))"
  shows "(\<exists>r'. fst (check_rate_limit id id Succeeds config ident (now + uint delay) st) = Some r' \<and> rr_allowed r') \<and>
    (''retry-after'', show_nat (unat delay)) \<in> set (lr_headers (rate_limit_response now r))"
proof -
  let ?k = "rl_prefix config @ '':'' @ ident"
  obtain ok wait rem st1 where s:
    "rate_limit_script id id ?k (rl_max_requests config) (rl_window_seconds config) now st = ((ok, wait, rem), st1)"
    by (metis prod_cases3 surj_pair)
  have no: "\<not> ok" and d: "delay = of_int wait"
    using assms(1, 2) unfolding check_succeeds s by (auto split: if_splits)
  have s: "rate_limit_script id id ?k (rl_max_requests config) (rl_window_seconds config) now st = ((False, wait, rem), st1)"
    using s no by simp
  note w = wait_enough [OF s assms(3, 4, 6)]
  have "uint delay = wait" unfolding d using w(1, 2) assms(5) by (intro unsigned_wait) auto
  then have "\<exists>r'. fst (check_rate_limit id id Succeeds config ident (now + uint delay) st) = Some r' \<and> rr_allowed r'"
    using w(3) unfolding check_succeeds by (auto split: prod.split)
  then show ?thesis by (simp add: rate_limit_response_def assms(2) unwrap_or_def)
qed

definition spent_store :: bucket_store where
  "spent_store = (\<lambda>_. Some (\<lparr>bk_tokens = 0, bk_last = 0\<rparr>, 10000))"

theorem retry_after_in_milliseconds_witness:
  "check_rate_limit id id Succeeds message_send_limit ''user:7'' 0 spent_store =
     (Some \<lparr>rr_allowed = False, rr_remaining = 0, rr_limit = 5, rr_retry_after = Some 1000\<rparr>, spent_store) \<and>
   (''retry-after'', ''1000'') \<in> set (lr_headers (rate_limit_response 0
      \<lparr>rr_allowed = False, rr_remaining = 0, rr_limit = 5, rr_retry_after = Some 1000\<rparr>))"
proof -
  have c: "check_rate_limit id id Succeeds message_send_limit ''user:7'' 0 spent_store =
     (Some \<lparr>rr_allowed = False, rr_remaining = 0, rr_limit = 5, rr_retry_after = Some 1000\<rparr>, spent_store)"
    by (simp add: check_rate_limit_def message_send_limit_def rate_limit_script_def refilled_def bucket_at_def
        spent_store_def Let_def)
  moreover have "show_nat (unat (1000 :: 32 word)) = ''1000''" by code_simp
  moreover have "bucket_ok 5 0 (spent_store k)" for k by (simp add: bucket_ok_def spent_store_def)
  ultimately show ?thesis
    using retry_after_in_milliseconds [OF c, of 1000] by (simp add: message_send_limit_def)
qed

text \<open>A request with a token that nobody signed: only its payload is looked at.\<close>

definition forged :: "string \<Rightarrow> request_info" where
  "forged payload = \<lparr>rq_peer = None, rq_authorization = Some (Some (''Bearer h.'' @ payload @ ''.s'')),
     rq_forwarded_for = None, rq_real_ip = None\<rparr>"

fun forwarded :: "(rat \<Rightarrow> rat) \<Rightarrow> (rat \<Rightarrow> rat) \<Rightarrow> (string \<Rightarrow> string option) \<Rightarrow> int \<Rightarrow> request_info list \<Rightarrow> bucket_store \<Rightarrow> nat" where
  "forwarded fl txt sub_of now [] st = 0"
| "forwarded fl txt sub_of now (r # rs) st =
     (case global_rate_limit_middleware fl txt sub_of Succeeds r now st of
        (Forward _, st') \<Rightarrow> 1 + forwarded fl txt sub_of now rs st'
      | (Refuse _, st') \<Rightarrow> forwarded fl txt sub_of now rs st')"

lemma split_on_none: "c \<notin> set s \<Longrightarrow> split_on c s = [s]"
  by (induction s) auto

lemma split_on_append: "c \<notin> set a \<Longrightarrow> split_on c (a @ c # b) = a # split_on c b"
  by (induction a) auto

lemma forged_identifier:
  assumes "CHR ''.'' \<notin> set payload" "sub_of payload = Some u"
  shows "extract_identifier sub_of (forged payload) = ''user:'' @ u"
proof -
  have "split_on CHR ''.'' (''h.'' @ payload @ ''.s'') = [''h'', payload, ''s'']"
    using split_on_append [of "CHR ''.''" "''h''"] split_on_append [OF assms(1), of "''s''"] by simp
  then show ?thesis
    by (simp add: extract_identifier_def forged_def header_text_def extract_user_id_from_token_def assms(2))
qed

text \<open>Whoever puts a new subject into each unsigned token is never limited: all of his requests are forwarded, however
  many there are.\<close>

theorem forged_subjects_not_limited:
  assumes "distinct us" "\<And>u. u \<in> set us \<Longrightarrow> CHR ''.'' \<notin> set (enc u) \<and> sub_of (enc u) = Some u"
    and "\<And>n. fl (of_int n) = of_int n" "\<And>u. u \<in> set us \<Longrightarrow> st (''rl:global:user:'' @ u) = None"
  shows "forwarded fl txt sub_of now (map (\<lambda>u. forged (enc u)) us) st = length us"
  using assms(1, 2, 4)
proof (induction us arbitrary: st)
  case (Cons u us)
  let ?k = "''rl:global:user:'' @ u"
  have i: "extract_identifier sub_of (forged (enc u)) = ''user:'' @ u" using Cons.prems(2) by (intro forged_identifier) auto
  have z: "fl 0 = 0" "fl 120 = 120" "fl 119 = 119" using assms(3) [of 0] assms(3) [of 120] assms(3) [of 119] by simp_all
  have s: "rate_limit_script fl txt ?k 120 1 now st = ((True, 0, 119), st(?k \<mapsto> (\<lparr>bk_tokens = txt 119, bk_last = now\<rparr>, now + 2000)))"
    using Cons.prems(3) [of u] by (simp add: rate_limit_script_def refilled_def bucket_at_def Let_def z)
  have "forwarded fl txt sub_of now (map (\<lambda>u. forged (enc u)) us) (st(?k \<mapsto> (\<lparr>bk_tokens = txt 119, bk_last = now\<rparr>, now + 2000))) = length us"
    using Cons.prems by (intro Cons.IH) auto
  then show ?case
    using s by (simp add: global_rate_limit_middleware_def limit_by_def check_rate_limit_def global_limit_def i)
qed simp

theorem forged_subjects_not_limited_witness:
  "forwarded id id Some 0 (map forged (map (\<lambda>n. replicate n CHR ''a'') [0..<200])) (\<lambda>_. None) = 200"
proof -
  have d: "distinct (map (\<lambda>n. replicate n CHR ''a'') [0..<200])"
    by (auto simp: distinct_map inj_on_def dest: arg_cong [of _ _ length])
  have p: "CHR ''.'' \<notin> set (id u) \<and> Some (id u) = Some u" if "u \<in> set (map (\<lambda>n. replicate n CHR ''a'') [0..<200])" for u
    using that by auto
  show ?thesis
    using forged_subjects_not_limited [OF d p, of id "\<lambda>_. None" id 0] by simp
qed

end
