(* ===== verification/Auth.thy ===== *)
theory Auth
  imports Rate_Limit
begin

text \<open>
  \<open>routes/auth.rs\<close>: registration, login, refresh and logout. The external functions come in one record: argon2
  (\<open>hash_password\<close>, \<open>verify_password\<close>), the token signature, the address syntax of the \<open>validator\<close> crate and
  \<open>str::to_lowercase\<close>; the random token identifiers are arguments of the handlers that draw them.
\<close>

record auth_external =
  ax_hash_password :: "ustr \<Rightarrow> string + string"
  ax_verify_password :: "ustr \<Rightarrow> string \<Rightarrow> string + bool"
  ax_encode :: encoder
  ax_decode :: decoder
  ax_valid_email :: "ustr \<Rightarrow> bool"
  ax_lowercase :: "ustr \<Rightarrow> ustr"

record auth_config =
  ac_jwt_secret :: string
  ac_access_token_ttl :: u64
  ac_refresh_token_ttl :: u64

record register_request =
  rg_username :: ustr
  rg_email :: ustr
  rg_password :: ustr

record login_request =
  lg_email :: ustr
  lg_password :: ustr

record user_response =
  ur_id :: snowflake
  ur_username :: ustr
  ur_email :: ustr
  ur_avatar :: "ustr option"
  ur_bio :: "ustr option"
  ur_created_at :: int

record auth_response =
  ar_user :: user_response
  ar_access_token :: string
  ar_refresh_token :: string

definition validate_register :: "(ustr \<Rightarrow> bool) \<Rightarrow> register_request \<Rightarrow> field_error list" where
  "validate_register valid_email b =
     validate_length ''username'' 2 32 (rg_username b) @
     (if valid_email (rg_email b) then [] else [\<lparr>fe_field = ''email'', fe_message = ''Invalid email''\<rparr>]) @
     validate_length ''password'' 8 128 (rg_password b)"

definition new_user_row :: "i64 \<Rightarrow> ustr \<Rightarrow> ustr \<Rightarrow> string \<Rightarrow> bool \<Rightarrow> int \<Rightarrow> user_row" where
  "new_user_row uid username email hash is_bot now = \<lparr>u_id = uid, u_username = username, u_discriminator = 0,
     u_email = email, u_password_hash = hash, u_avatar = None, u_banner = None, u_bio = None,
     u_locale = lit ''en-US'', u_flags = 0, u_premium_type = 0, u_is_bot = is_bot, u_deleted_at = None,
     u_created_at = now\<rparr>"

text \<open>The two tokens and the stored session that end registration and login.\<close>

definition open_session ::
  "auth_external \<Rightarrow> auth_config \<Rightarrow> string \<Rightarrow> string \<Rightarrow> snowflake \<Rightarrow> (string \<times> string) handler" where
  "open_session ext cfg access_jti refresh_jti uid =
     bind (create_access_token (ax_encode ext) access_jti uid (ac_jwt_secret cfg) (ac_access_token_ttl cfg)) (\<lambda>(access, _).
     bind (create_refresh_token (ax_encode ext) refresh_jti uid (ac_jwt_secret cfg) (ac_refresh_token_ttl cfg)) (\<lambda>(refresh, jti).
     andThen (create_session (show_u64 uid) jti (ac_refresh_token_ttl cfg) None None)
       (ret (access, refresh))))"

definition register_account ::
  "auth_external \<Rightarrow> auth_config \<Rightarrow> string \<Rightarrow> string \<Rightarrow> register_request \<Rightarrow> (nat \<times> auth_response) handler" where
  "register_account ext cfg access_jti refresh_jti body =
     (let errs = validate_register (ax_valid_email ext) body
      in if errs \<noteq> [] then throw (Validation errs)
         else let email = trim (ax_lowercase ext (rg_email body)); username = trim (rg_username body)
         in bind (pg_query (\<lambda>db. t_has (\<lambda>u. u_email u = email \<or> u_username u = username) (users db))) (\<lambda>exists.
            andThen (ensure (\<not> exists) (AlreadyExists ''Email or username already taken''))
            (case ax_hash_password ext (rg_password body) of
               Inl m \<Rightarrow> throw (Internal m)
             | Inr hash \<Rightarrow>
                 bind fresh_id (\<lambda>uid.
                 bind utc_now (\<lambda>now.
                 andThen (pg_exec (insert_user (new_user_row uid username email hash False now)))
                (andThen (pg_exec (insert_settings uid))
                (bind (open_session ext cfg access_jti refresh_jti uid) (\<lambda>(access, refresh).
                 ret (201, \<lparr>ar_user = \<lparr>ur_id = uid, ur_username = username, ur_email = email, ur_avatar = None,
                         ur_bio = None, ur_created_at = now\<rparr>,
                       ar_access_token = access, ar_refresh_token = refresh\<rparr>)))))))))"

definition bad_credentials :: app_error where
  "bad_credentials = Unauthorized ''Invalid email or password''"

text \<open>\<open>body\<close> is \<open>None\<close> when the JSON of the request does not parse.\<close>

definition login ::
  "auth_external \<Rightarrow> auth_config \<Rightarrow> string \<Rightarrow> string \<Rightarrow> request_info \<Rightarrow> login_request option \<Rightarrow> auth_response handler" where
  "login ext cfg access_jti refresh_jti req body =
     (let client_ip = extract_client_ip req
      in bind (is_login_blocked client_ip) (\<lambda>blocked.
         andThen (ensure (\<not> blocked) (RateLimited 1800))
        (bind (ok_or body (BadRequest ''Invalid request body'')) (\<lambda>b.
         let email = trim (ax_lowercase ext (lg_email b))
         in bind (pg_query (\<lambda>db. t_find (\<lambda>u. u_email u = email \<and> u_deleted_at u = None) (users db))) (\<lambda>row.
            case row of
              None \<Rightarrow> andThen (or_else () (record_login_failure client_ip)) (throw bad_credentials)
            | Some u \<Rightarrow>
                (case ax_verify_password ext (lg_password b) (u_password_hash u) of
                   Inl m \<Rightarrow> throw (Internal m)
                 | Inr valid \<Rightarrow>
                     if \<not> valid then andThen (or_else () (record_login_failure client_ip)) (throw bad_credentials)
                     else andThen (or_else () (clear_login_failures client_ip))
                         (bind (open_session ext cfg access_jti refresh_jti (u_id u)) (\<lambda>(access, refresh).
                          ret \<lparr>ar_user = \<lparr>ur_id = u_id u, ur_username = u_username u, ur_email = email,
                                  ur_avatar = u_avatar u, ur_bio = u_bio u, ur_created_at = u_created_at u\<rparr>,
                               ar_access_token = access, ar_refresh_token = refresh\<rparr>))))))))"

text \<open>
  \<open>refresh\<close> in its two halves: the token is checked and its session read; then the session is revoked and a
  new one made. Other requests may run between them.
\<close>

definition refresh_check :: "auth_external \<Rightarrow> auth_config \<Rightarrow> string \<Rightarrow> (claims \<times> session \<times> snowflake) handler" where
  "refresh_check ext cfg token =
     bind utc_now (\<lambda>now.
     bind (ok_or (verify_token (ax_decode ext) now token (ac_jwt_secret cfg)) (Unauthorized ''Invalid refresh token'')) (\<lambda>c.
     andThen (ensure (cl_token_type c = Refresh) (Unauthorized ''Not a refresh token''))
    (bind (get_session (cl_jti c)) (\<lambda>found.
     bind (ok_or found (Unauthorized ''Session revoked'')) (\<lambda>s.
       case parse_u64 (ss_user_id s) of
         Inl _ \<Rightarrow> throw (Internal ''Invalid user_id in session'')
       | Inr uid \<Rightarrow> ret (c, s, uid))))))"

definition refresh_rotate ::
  "auth_external \<Rightarrow> auth_config \<Rightarrow> string \<Rightarrow> string \<Rightarrow> claims \<times> session \<times> snowflake \<Rightarrow> (string \<times> string) handler" where
  "refresh_rotate ext cfg access_jti refresh_jti found =
     (case found of (c, s, uid) \<Rightarrow>
        andThen (revoke_session (cl_jti c) (ss_user_id s))
       (bind (create_access_token (ax_encode ext) access_jti uid (ac_jwt_secret cfg) (ac_access_token_ttl cfg)) (\<lambda>(access, _).
        bind (create_refresh_token (ax_encode ext) refresh_jti uid (ac_jwt_secret cfg) (ac_refresh_token_ttl cfg)) (\<lambda>(refresh, jti).
        andThen (create_session (ss_user_id s) jti (ac_refresh_token_ttl cfg) (ss_device_info s) (ss_ip s))
          (ret (access, refresh))))))"

definition refresh_tokens ::
  "auth_external \<Rightarrow> auth_config \<Rightarrow> string \<Rightarrow> string \<Rightarrow> string \<Rightarrow> (string \<times> string) handler" where
  "refresh_tokens ext cfg access_jti refresh_jti token =
     bind (refresh_check ext cfg token) (refresh_rotate ext cfg access_jti refresh_jti)"

definition logout :: "snowflake \<Rightarrow> nat handler" where
  "logout auth = andThen (revoke_all_sessions (show_u64 auth)) (ret 204)"

definition logout_all :: "snowflake \<Rightarrow> nat handler" where
  "logout_all auth = andThen (revoke_all_sessions (show_u64 auth)) (ret 204)"

end
