(* ===== verification/Handler_Logic.thy ===== *)
theory Handler_Logic
  imports World
begin

text \<open>
  Weakest preconditions over everything a client or another service can observe: the databases, Redis, the
  published events and the clock. The state of a rule is a world without its list of call outcomes and its
  identifier generator, so a rule covers every failure and every identifier.
\<close>

definition obs :: "world \<Rightarrow> world" where
  "obs w = w\<lparr>w_calls := [], w_gen := \<lparr>g_machine = 0, g_state = 0\<rparr>\<rparr>"

lemma obs_sel [simp]:
  "w_pg (obs w) = w_pg w" "w_scylla (obs w) = w_scylla w" "w_redis (obs w) = w_redis w" "w_now (obs w) = w_now w"
  "w_published (obs w) = w_published w" "w_durable (obs w) = w_durable w"
  by (simp_all add: obs_def)

lemma obs_upd [simp]:
  "obs (w\<lparr>w_pg := db\<rparr>) = (obs w)\<lparr>w_pg := db\<rparr>" "obs (w\<lparr>w_scylla := sc\<rparr>) = (obs w)\<lparr>w_scylla := sc\<rparr>"
  "obs (w\<lparr>w_redis := rd\<rparr>) = (obs w)\<lparr>w_redis := rd\<rparr>" "obs (w\<lparr>w_published := p\<rparr>) = (obs w)\<lparr>w_published := p\<rparr>"
  "obs (w\<lparr>w_durable := p\<rparr>) = (obs w)\<lparr>w_durable := p\<rparr>" "obs (w\<lparr>w_gen := g\<rparr>) = obs w" "obs (w\<lparr>w_calls := cs\<rparr>) = obs w"
  by (simp_all add: obs_def)

definition wpo :: "'a handler \<Rightarrow> ('a \<Rightarrow> world \<Rightarrow> bool) \<Rightarrow> (app_error \<Rightarrow> world \<Rightarrow> bool) \<Rightarrow> world \<Rightarrow> bool" where
  "wpo m Q E v \<longleftrightarrow>
     (\<forall>w. obs w = v \<longrightarrow> (case m w of (Inl e, w') \<Rightarrow> E e (obs w') | (Inr x, w') \<Rightarrow> Q x (obs w')))"

named_theorems wpo_rules \<open>weakest-precondition rules over the observable world\<close>

lemma wpoD:
  assumes "wpo m Q E (obs w)"
  shows "m w = (Inr x, w') \<Longrightarrow> Q x (obs w')" "m w = (Inl e, w') \<Longrightarrow> E e (obs w')"
  using assms unfolding wpo_def by fastforce+

lemma wpo_mono:
  assumes "wpo m Q E v" "\<And>x u. Q x u \<Longrightarrow> Q' x u" "\<And>e u. E e u \<Longrightarrow> E' e u"
  shows "wpo m Q' E' v"
  using assms unfolding wpo_def by (auto split: prod.splits sum.splits)

lemma wpo_conj:
  assumes "wpo m Q E v" "wpo m Q' E' v"
  shows "wpo m (\<lambda>x u. Q x u \<and> Q' x u) (\<lambda>e u. E e u \<and> E' e u) v"
  using assms unfolding wpo_def by (auto split: prod.splits sum.splits)

lemma wpo_ret [wpo_rules]: "Q x v \<Longrightarrow> wpo (ret x) Q E v"
  by (simp add: wpo_def ret_def)

lemma wpo_throw [wpo_rules]: "E e v \<Longrightarrow> wpo (throw e) Q E v"
  by (simp add: wpo_def throw_def)

lemma wpo_bind [wpo_rules]: "wpo m (\<lambda>x. wpo (k x) Q E) E v \<Longrightarrow> wpo (bind m k) Q E v"
  unfolding wpo_def bind_def by (auto split: prod.splits sum.splits)

lemma wpo_if [wpo_rules]: "(b \<Longrightarrow> wpo m Q E v) \<Longrightarrow> (\<not> b \<Longrightarrow> wpo n Q E v) \<Longrightarrow> wpo (if b then m else n) Q E v"
  by simp

lemma wpo_let [wpo_rules]: "wpo (f a) Q E v \<Longrightarrow> wpo (let x = a in f x) Q E v"
  by simp

lemma wpo_option [wpo_rules]:
  "(a = None \<Longrightarrow> wpo m Q E v) \<Longrightarrow> (\<And>x. a = Some x \<Longrightarrow> wpo (k x) Q E v) \<Longrightarrow>
   wpo (case a of None \<Rightarrow> m | Some x \<Rightarrow> k x) Q E v"
  by (cases a) simp_all

lemma wpo_sum [wpo_rules]:
  "(\<And>m. a = Inl m \<Longrightarrow> wpo (f m) Q E v) \<Longrightarrow> (\<And>x. a = Inr x \<Longrightarrow> wpo (k x) Q E v) \<Longrightarrow>
   wpo (case a of Inl m \<Rightarrow> f m | Inr x \<Rightarrow> k x) Q E v"
  by (cases a) simp_all

lemma wpo_list [wpo_rules]:
  "(a = [] \<Longrightarrow> wpo m Q E v) \<Longrightarrow> (\<And>x xs. a = x # xs \<Longrightarrow> wpo (k x xs) Q E v) \<Longrightarrow>
   wpo (case a of [] \<Rightarrow> m | x # xs \<Rightarrow> k x xs) Q E v"
  by (cases a) simp_all

lemma wpo_pair [wpo_rules]:
  "(\<And>a b. p = (a, b) \<Longrightarrow> wpo (k a b) Q E v) \<Longrightarrow> wpo (case p of (a, b) \<Rightarrow> k a b) Q E v"
  by (cases p) simp

lemma wpo_ensure [wpo_rules]: "(b \<Longrightarrow> Q () v) \<Longrightarrow> (\<not> b \<Longrightarrow> E e v) \<Longrightarrow> wpo (ensure b e) Q E v"
  by (simp add: wpo_def ensure_def ret_def throw_def)

lemma wpo_ok_or [wpo_rules]:
  "(\<And>x. a = Some x \<Longrightarrow> Q x v) \<Longrightarrow> (a = None \<Longrightarrow> E e v) \<Longrightarrow> wpo (ok_or a e) Q E v"
  by (cases a) (simp_all add: wpo_def ok_or_def ret_def throw_def)

lemma wpo_or_else [wpo_rules]: "wpo m Q (\<lambda>_. Q d) v \<Longrightarrow> wpo (or_else d m) Q E v"
  unfolding wpo_def or_else_def by (fastforce split: prod.splits sum.splits)

lemma wpo_is_ok [wpo_rules]: "wpo m (\<lambda>_. Q True) (\<lambda>_. Q False) v \<Longrightarrow> wpo (is_ok m) Q E v"
  unfolding wpo_def is_ok_def by (fastforce split: prod.splits sum.splits)

lemma next_call_obs: "next_call w = (c, w') \<Longrightarrow> obs w' = obs w"
  by (auto simp: next_call_def split: list.splits)

lemma next_call_same:
  assumes "next_call w = (c, w')"
  shows "w_pg w' = w_pg w" "w_scylla w' = w_scylla w" "w_redis w' = w_redis w" "w_now w' = w_now w"
    "w_published w' = w_published w" "w_durable w' = w_durable w"
  using assms by (auto simp: next_call_def split: list.splits)

lemma wpo_query [wpo_rules]:
  "Q (q (w_pg v)) v \<Longrightarrow> (\<And>m. E (db_error m) v) \<Longrightarrow> wpo (pg_query q) Q E v"
  by (auto simp: wpo_def pg_query_def Let_def next_call_obs next_call_same split: prod.splits)

lemma wpo_exec [wpo_rules]:
  assumes "\<And>db x. st (w_pg v) = Inr (db, x) \<Longrightarrow> Q x (v\<lparr>w_pg := db\<rparr>)"
    and "\<And>m. E (db_error m) v" and "\<And>db x m. st (w_pg v) = Inr (db, x) \<Longrightarrow> E (db_error m) (v\<lparr>w_pg := db\<rparr>)"
  shows "wpo (pg_exec st) Q E v"
  using assms
  by (auto simp: wpo_def pg_exec_def Let_def next_call_obs next_call_same
      split: prod.splits sum.splits call_outcome.splits)

lemma wpo_fetch_one [wpo_rules]:
  "(\<And>x. q (w_pg v) = Some x \<Longrightarrow> Q x v) \<Longrightarrow> (\<And>m. E (db_error m) v) \<Longrightarrow> wpo (fetch_one q) Q E v"
  unfolding fetch_one_def by (intro wpo_rules) auto

lemma wpo_publish [wpo_rules]:
  "Q () v \<Longrightarrow> Q () (v\<lparr>w_published := w_published v @ [(a, p)]\<rparr>) \<Longrightarrow> wpo (publish a p) Q E v"
  "Q () v \<Longrightarrow> Q () (v\<lparr>w_durable := w_durable v @ [(a, p)]\<rparr>) \<Longrightarrow> wpo (publish_durable a p) Q E v"
  by (auto simp: wpo_def publish_def publish_durable_def Let_def next_call_obs next_call_same split: prod.splits)

lemma wpo_fresh_id [wpo_rules]: "(\<And>i. Q i v) \<Longrightarrow> wpo fresh_id Q E v"
  by (auto simp: wpo_def fresh_id_def split: prod.splits)

lemma wpo_now [wpo_rules]: "Q (w_now v) v \<Longrightarrow> wpo utc_now Q E v"
  by (auto simp: wpo_def utc_now_def)

lemma wpo_scylla [wpo_rules]:
  "Q (q (w_scylla v)) v \<Longrightarrow> E scylla_error v \<Longrightarrow> wpo (scylla_query q) Q E v"
  "Q' () (v\<lparr>w_scylla := f (w_scylla v)\<rparr>) \<Longrightarrow> E scylla_error v \<Longrightarrow> E scylla_error (v\<lparr>w_scylla := f (w_scylla v)\<rparr>) \<Longrightarrow>
   wpo (scylla_exec f) Q' E v"
  by (auto simp: wpo_def scylla_query_def scylla_exec_def Let_def next_call_obs next_call_same split: prod.splits)

lemma wpo_redis_call [wpo_rules]:
  assumes "\<And>st x. cmd (w_now v) (w_redis v) = Inr (st, x) \<Longrightarrow> Q x (v\<lparr>w_redis := st\<rparr>)"
    and "E redis_error v" and "\<And>m. cmd (w_now v) (w_redis v) = Inl m \<Longrightarrow> E (Internal (''Redis error: '' @ m)) v"
    and "\<And>st x. cmd (w_now v) (w_redis v) = Inr (st, x) \<Longrightarrow> E redis_error (v\<lparr>w_redis := st\<rparr>)"
  shows "wpo (redis_call cmd) Q E v"
  using assms
  by (auto simp: wpo_def redis_call_def Let_def next_call_obs next_call_same
      split: prod.splits sum.splits call_outcome.splits)

lemma wpo_redis [wpo_rules]:
  "(\<And>b. Q b v) \<Longrightarrow> wpo (redis_exists_or_false k) Q E v"
  "Q' () v \<Longrightarrow> Q' () (v\<lparr>w_redis := (w_redis v)(k \<mapsto> (x, Some (w_now v + n * 1000)))\<rparr>) \<Longrightarrow> wpo (redis_set_ex k x n) Q' E v"
  unfolding redis_exists_or_false_def redis_set_ex_def
  by (intro wpo_rules; auto simp: cmd_exists_def cmd_set_ex_def split: if_splits)+

lemma wpo_for_each:
  assumes "I v" "\<And>x u. x \<in> set xs \<Longrightarrow> I u \<Longrightarrow> wpo (f x) (\<lambda>_. I) E u" "\<And>u. I u \<Longrightarrow> Q () u"
  shows "wpo (for_each f xs) Q E v"
  using assms
proof (induction xs arbitrary: v)
  case Nil
  then show ?case by (simp add: wpo_ret)
next
  case (Cons x xs)
  have "wpo (f x) (\<lambda>_. I) E v" using Cons.prems by simp
  then have "wpo (f x) (\<lambda>_. wpo (for_each f xs) Q E) E v"
    by (rule wpo_mono) (auto intro!: Cons.IH Cons.prems)
  then show ?case by (simp add: wpo_bind)
qed

text \<open>The same loop with a postcondition that grows with the list.\<close>

lemma wpo_for_each_prefix:
  assumes "I [] v" "\<And>ys x u. I ys u \<Longrightarrow> wpo (f x) (\<lambda>_. I (ys @ [x])) E u"
  shows "wpo (for_each f xs) (\<lambda>_. I xs) E v"
proof -
  have "I ys u \<Longrightarrow> wpo (for_each f xs) (\<lambda>_. I (ys @ xs)) E u" for ys u
  proof (induction xs arbitrary: ys u)
    case Nil
    then show ?case by (simp add: wpo_ret)
  next
    case (Cons x xs)
    have "wpo (f x) (\<lambda>_. wpo (for_each f xs) (\<lambda>_. I (ys @ x # xs)) E) E u"
      by (rule wpo_mono [OF assms(2) [OF Cons.prems]]) (use Cons.IH [of "ys @ [x]" for x] in auto)
    then show ?case by (simp add: wpo_bind)
  qed
  from this [OF assms(1)] show ?thesis by simp
qed

end
