(* ===== verification/Session_Properties.thy ===== *)
theory Session_Properties
  imports Auth Handler_Logic
begin

text \<open>
  The life of refresh sessions: an invariant of the Redis store that \<open>create_session\<close>, \<open>revoke_session\<close>,
  \<open>revoke_all_sessions\<close> and \<open>touch_session\<close> keep whatever calls fail, and with it what logout and refresh promise.
\<close>

section \<open>The invariant and the commands\<close>

definition session_value :: "int \<Rightarrow> redis_store \<Rightarrow> string \<Rightarrow> redis_value option" where
  "session_value now st jti = redis_value_at now st (refresh_key jti)"

definition indexed :: "redis_store \<Rightarrow> string \<Rightarrow> string \<Rightarrow> bool" where
  "indexed st uid jti \<longleftrightarrow> (\<exists>ms. st (user_sessions_key uid) = Some (RMembers ms, None) \<and> jti \<in> set ms)"

text \<open>Every session handed out to a user that still lives is in the user's index; an index is a set that never expires.\<close>

definition index_ok :: "redis_store \<Rightarrow> bool" where
  "index_ok st \<longleftrightarrow> (\<forall>uid v t. st (user_sessions_key uid) = Some (v, t) \<longrightarrow> (\<exists>ms. v = RMembers ms) \<and> t = None)"

definition sessions_ok :: "(string \<times> string) list \<Rightarrow> int \<Rightarrow> redis_store \<Rightarrow> bool" where
  "sessions_ok h now st \<longleftrightarrow>
     (\<forall>jti uid. (jti, uid) \<in> set h \<longrightarrow> session_value now st jti \<noteq> None \<longrightarrow> indexed st uid jti) \<and> index_ok st"

abbreviation at_world :: "(int \<Rightarrow> redis_store \<Rightarrow> bool) \<Rightarrow> world \<Rightarrow> bool" where
  "at_world P w \<equiv> P (w_now w) (w_redis w)"

lemma key_facts [simp]:
  "refresh_key a = refresh_key b \<longleftrightarrow> a = b" "user_sessions_key a = user_sessions_key b \<longleftrightarrow> a = b"
  "refresh_key a \<noteq> user_sessions_key b" "user_sessions_key b \<noteq> refresh_key a"
  by (simp_all add: refresh_key_def user_sessions_key_def)

lemma value_after [simp]:
  "session_value now (st(refresh_key j := x)) i =
     (if i = j then (case x of None \<Rightarrow> None | Some (y, None) \<Rightarrow> Some y | Some (y, Some t) \<Rightarrow> if now < t then Some y else None)
      else session_value now st i)"
  "session_value now (st(user_sessions_key u := x)) i = session_value now st i"
  by (auto simp: session_value_def redis_value_at_def redis_at_def split: option.split)

lemma indexed_after [simp]:
  "indexed (st(refresh_key j := x)) u i = indexed st u i"
  "indexed (st(user_sessions_key u' := x)) u i =
     (if u = u' then (\<exists>ms. x = Some (RMembers ms, None) \<and> i \<in> set ms) else indexed st u i)"
  by (auto simp: indexed_def)

lemma index_ok_after [simp]:
  "index_ok (st(refresh_key j := x)) = index_ok st"
  "index_ok st \<Longrightarrow> index_ok (st(user_sessions_key u := Some (RMembers ms, None)))"
  "index_ok st \<Longrightarrow> index_ok (st(user_sessions_key u := None))"
  by (auto simp: index_ok_def)

lemma index_cases:
  assumes "index_ok st"
  obtains "st (user_sessions_key u) = None" | ms where "st (user_sessions_key u) = Some (RMembers ms, None)"
  using assms by (cases "st (user_sessions_key u)") (force simp: index_ok_def)+

lemma ok_drop: "sessions_ok h now st \<Longrightarrow> sessions_ok h now (st(refresh_key j := None))"
  by (simp add: sessions_ok_def)

lemma ok_store:
  "sessions_ok h now st \<Longrightarrow> (\<And>u. (j, u) \<in> set h \<Longrightarrow> indexed st u j) \<Longrightarrow> sessions_ok h now (st(refresh_key j := x))"
  by (simp add: sessions_ok_def)

lemma sadd_result:
  assumes "cmd_sadd (user_sessions_key u) j now st = Inr (st', x)" "index_ok st"
  shows "\<exists>ms. st' = st(user_sessions_key u \<mapsto> (RMembers ms, None)) \<and> j \<in> set ms \<and> (\<forall>i. indexed st u i \<longrightarrow> i \<in> set ms)"
  by (rule index_cases [OF assms(2), of u])
    (use assms(1) in \<open>auto simp: cmd_sadd_def redis_at_def indexed_def\<close>)

lemma ok_add:
  assumes "cmd_sadd (user_sessions_key u) j now st = Inr (st', x)" "sessions_ok h now st"
  shows "sessions_ok ((j, u) # h) now st'"
  using sadd_result [OF assms(1)] assms(2) by (auto simp: sessions_ok_def)

lemma ok_less: "sessions_ok (x # h) now st \<Longrightarrow> sessions_ok h now st"
  by (auto simp: sessions_ok_def)

lemma srem_result:
  assumes "cmd_srem (user_sessions_key u) j now st = Inr (st', x)" "index_ok st"
  shows "st' = st \<or> st' = st(user_sessions_key u := None) \<and> (\<forall>i. indexed st u i \<longrightarrow> i = j) \<or>
    (\<exists>ms. st' = st(user_sessions_key u \<mapsto> (RMembers ms, None)) \<and> (\<forall>i. indexed st u i \<longrightarrow> i = j \<or> i \<in> set ms))"
  by (rule index_cases [OF assms(2), of u])
    (use assms(1) in \<open>auto simp: cmd_srem_def redis_at_def indexed_def Let_def filter_empty_conv split: if_splits\<close>)

lemma ok_remove:
  assumes "cmd_srem (user_sessions_key u) j now st = Inr (st', x)" "sessions_ok h now st" "session_value now st j = None"
  shows "sessions_ok h now st'"
  using srem_result [OF assms(1)] assms(2, 3) by (fastforce simp: sessions_ok_def)

section \<open>The operations\<close>

lemma wpo_create_session:
  assumes "at_world (sessions_ok h) v" "\<And>u. (jti, u) \<notin> set h"
  shows "wpo (create_session uid jti ttl d ip) (\<lambda>_. at_world (sessions_ok ((jti, uid) # h))) (\<lambda>_. at_world (sessions_ok h)) v"
proof -
  have set: "sessions_ok h (w_now v) ((w_redis v)(refresh_key jti := x))" for x
    using assms by (intro ok_store) auto
  show ?thesis
    unfolding create_session_def Let_def
    by (intro wpo_rules)
      (auto simp: cmd_set_ex_def assms set split: if_splits intro: ok_add [OF _ set] ok_less [OF ok_add [OF _ set]])
qed

lemma wpo_revoke_session:
  assumes "at_world (sessions_ok h) v"
  shows "wpo (revoke_session jti uid) (\<lambda>_. at_world (sessions_ok h)) (\<lambda>_. at_world (sessions_ok h)) v"
  unfolding revoke_session_def
  by (intro wpo_rules) (use assms in \<open>auto simp: cmd_del_def ok_drop dest: ok_remove [OF _ ok_drop]\<close>)

text \<open>\<open>revoke_all_sessions\<close>: after the loop the sessions of the index are gone; then the index goes too.\<close>

definition all_revoked :: "(string \<times> string) list \<Rightarrow> string \<Rightarrow> int \<Rightarrow> redis_store \<Rightarrow> bool" where
  "all_revoked h uid now st \<longleftrightarrow> sessions_ok h now st \<and> (\<forall>j. (j, uid) \<in> set h \<longrightarrow> session_value now st j = None)"

definition partly_revoked :: "(string \<times> string) list \<Rightarrow> redis_store \<Rightarrow> string list \<Rightarrow> int \<Rightarrow> redis_store \<Rightarrow> bool" where
  "partly_revoked h st0 js now st \<longleftrightarrow>
     sessions_ok h now st \<and> (\<forall>j \<in> set js. session_value now st j = None) \<and> (\<forall>u i. indexed st u i = indexed st0 u i)"

lemma smembers_result:
  "cmd_smembers (user_sessions_key uid) now st = Inr (st', js) \<Longrightarrow> st' = st \<and> (\<forall>i. indexed st uid i \<longrightarrow> i \<in> set js)"
  by (auto simp: cmd_smembers_def redis_value_at_def redis_at_def indexed_def
      split: option.splits redis_value.splits)

lemma partly_all:
  assumes "partly_revoked h st0 js now st" "\<And>i. indexed st0 uid i \<Longrightarrow> i \<in> set js"
  shows "all_revoked h uid now (st(user_sessions_key uid := None))" "sessions_ok h now st" "sessions_ok h now (st(user_sessions_key uid := None))"
proof -
  have dead: "session_value now st j = None" if "(j, uid) \<in> set h" for j
    using assms that unfolding partly_revoked_def sessions_ok_def by metis
  then show "all_revoked h uid now (st(user_sessions_key uid := None))"
    using assms(1) by (auto simp: all_revoked_def partly_revoked_def sessions_ok_def)
  then show "sessions_ok h now (st(user_sessions_key uid := None))" by (simp add: all_revoked_def)
  show "sessions_ok h now st" using assms(1) by (simp add: partly_revoked_def)
qed

lemma wpo_revoke_all:
  assumes "at_world (sessions_ok h) v"
  shows "wpo (revoke_all_sessions uid) (\<lambda>_. at_world (all_revoked h uid)) (\<lambda>_. at_world (sessions_ok h)) v"
proof -
  let ?I = "\<lambda>js. at_world (partly_revoked h (w_redis v) js)"
  have loop: "wpo (for_each (\<lambda>jti. redis_call (cmd_del (refresh_key jti))) js) (\<lambda>_. ?I js) (\<lambda>_. at_world (sessions_ok h)) v" for js
  proof (rule wpo_for_each_prefix [where I = ?I])
    show "?I [] v" using assms by (simp add: partly_revoked_def)
    show "wpo (redis_call (cmd_del (refresh_key x))) (\<lambda>_. ?I (ys @ [x])) (\<lambda>_. at_world (sessions_ok h)) u" if "?I ys u" for ys x u
      using that by (intro wpo_rules) (auto simp: cmd_del_def partly_revoked_def ok_drop)
  qed
  have last: "wpo (for_each (\<lambda>jti. redis_call (cmd_del (refresh_key jti))) js)
      (\<lambda>_. wpo (redis_call (cmd_del (user_sessions_key uid))) (\<lambda>_. at_world (all_revoked h uid)) (\<lambda>_. at_world (sessions_ok h)))
      (\<lambda>_. at_world (sessions_ok h)) v" if "\<forall>i. indexed (w_redis v) uid i \<longrightarrow> i \<in> set js" for js
    by (rule wpo_mono [OF loop], intro wpo_rules)
      (use that in \<open>auto simp: cmd_del_def intro: partly_all\<close>)
  show ?thesis
    unfolding revoke_all_sessions_def
    by (intro wpo_bind wpo_redis_call) (use assms last in \<open>auto dest!: smembers_result\<close>)
qed

lemma wpo_read_session [wpo_rules]:
  "(\<And>j s. r = RJson j \<Longrightarrow> session_of_json j = Inr s \<Longrightarrow> Q s v) \<Longrightarrow> (\<And>e. E e v) \<Longrightarrow> wpo (read_session r) Q E v"
  unfolding read_session_def by (cases r) (auto intro!: wpo_rules)

lemma cmd_get_same: "cmd_get k now st = Inr (st', x) \<Longrightarrow> st' = st \<and> redis_value_at now st k = x"
  by (auto simp: cmd_get_def split: option.splits redis_value.splits)

lemma wpo_get_session:
  assumes "at_world (sessions_ok h) v"
  shows "wpo (get_session jti) (\<lambda>_. at_world (sessions_ok h)) (\<lambda>_. at_world (sessions_ok h)) v"
  unfolding get_session_def by (intro wpo_rules) (use assms in \<open>auto dest!: cmd_get_same\<close>)

lemma wpo_touch_session:
  assumes "at_world (sessions_ok h) v"
  shows "wpo (touch_session jti) (\<lambda>_. at_world (sessions_ok h)) (\<lambda>_. at_world (sessions_ok h)) v"
proof -
  have "sessions_ok h (w_now v) ((w_redis v)(refresh_key jti \<mapsto> x))"
    if "redis_value_at (w_now v) (w_redis v) (refresh_key jti) = Some y" for x y
    using assms that by (intro ok_store) (auto simp: sessions_ok_def session_value_def)
  then show ?thesis
    unfolding touch_session_def
    by (intro wpo_rules) (use assms in \<open>auto dest!: cmd_get_same simp: cmd_ttl_def cmd_set_ex_def split: if_splits\<close>)
qed

section \<open>The session system\<close>

text \<open>
  A state: the world and the sessions handed out, each with its user. A new identifier is one that was never
  used (21 random characters). Between two operations time passes and other code changes keys of its own.
\<close>

definition is_session_key :: "string \<Rightarrow> bool" where
  "is_session_key k \<longleftrightarrow> (\<exists>x. k = refresh_key x \<or> k = user_sessions_key x)"

inductive session_step :: "world \<times> (string \<times> string) list \<Rightarrow> world \<times> (string \<times> string) list \<Rightarrow> bool" where
  created: "create_session uid jti ttl d ip w = (Inr (), w') \<Longrightarrow> jti \<notin> fst ` set h \<Longrightarrow> session_step (w, h) (w', (jti, uid) # h)"
| create_failed: "create_session uid jti ttl d ip w = (Inl e, w') \<Longrightarrow> jti \<notin> fst ` set h \<Longrightarrow> session_step (w, h) (w', h)"
| revoked: "session_step (w, h) (snd (revoke_session jti uid w), h)"
| all_revoked: "session_step (w, h) (snd (revoke_all_sessions uid w), h)"
| looked_up: "session_step (w, h) (snd (get_session jti w), h)"
| touched: "session_step (w, h) (snd (touch_session jti w), h)"
| elsewhere: "(\<And>k. is_session_key k \<Longrightarrow> w_redis w' k = w_redis w k) \<Longrightarrow> w_now w \<le> w_now w' \<Longrightarrow> session_step (w, h) (w', h)"

definition no_sessions :: "world \<times> (string \<times> string) list \<Rightarrow> bool" where
  "no_sessions s \<longleftrightarrow> snd s = [] \<and> w_redis (fst s) = (\<lambda>_. None)"

lemma ok_after:
  assumes "\<And>v. at_world (sessions_ok h) v \<Longrightarrow> wpo m (\<lambda>_. at_world (sessions_ok h)) (\<lambda>_. at_world (sessions_ok h)) v"
    and "at_world (sessions_ok h) w"
  shows "at_world (sessions_ok h) (snd (m w))"
proof -
  have "wpo m (\<lambda>_. at_world (sessions_ok h)) (\<lambda>_. at_world (sessions_ok h)) (obs w)"
    using assms by simp
  from wpoD [OF this] show ?thesis by (cases "m w"; cases "fst (m w)") fastforce+
qed

lemma wpo_revoke_all_ok:
  "at_world (sessions_ok h) v \<Longrightarrow> wpo (revoke_all_sessions uid) (\<lambda>_. at_world (sessions_ok h)) (\<lambda>_. at_world (sessions_ok h)) v"
  by (rule wpo_mono [OF wpo_revoke_all]) (auto simp: all_revoked_def)

lemmas operations_ok = ok_after [OF wpo_revoke_session] ok_after [OF wpo_get_session] ok_after [OF wpo_touch_session]
  ok_after [OF wpo_revoke_all_ok]

lemma ok_later:
  assumes "sessions_ok h now st" "now \<le> now'" "\<And>k. is_session_key k \<Longrightarrow> st' k = st k"
  shows "sessions_ok h now' st'"
proof -
  have same: "st' (refresh_key j) = st (refresh_key j)" "st' (user_sessions_key j) = st (user_sessions_key j)" for j
    using assms(3) by (auto simp: is_session_key_def)
  have "session_value now st j \<noteq> None" if "session_value now' st' j \<noteq> None" for j
    using that assms(2) by (auto simp: session_value_def redis_value_at_def redis_at_def same split: option.splits if_splits)
  then show ?thesis using assms(1) by (simp add: sessions_ok_def indexed_def index_ok_def same)
qed

interpretation sessions: invariant_system no_sessions session_step "\<lambda>(w, h). at_world (sessions_ok h) w"
proof unfold_locales
  fix s :: "world \<times> (string \<times> string) list" assume "no_sessions s"
  then show "case s of (w, h) \<Rightarrow> at_world (sessions_ok h) w"
    by (auto simp: no_sessions_def sessions_ok_def session_value_def redis_value_at_def redis_at_def index_ok_def)
next
  fix s t assume ok: "case s of (w, h) \<Rightarrow> at_world (sessions_ok h) w" and "session_step s t"
  from this(2) show "case t of (w, h) \<Rightarrow> at_world (sessions_ok h) w"
  proof (cases rule: session_step.cases)
    case (created uid jti ttl d ip w w' h)
    have "wpo (create_session uid jti ttl d ip) (\<lambda>_. at_world (sessions_ok ((jti, uid) # h))) (\<lambda>_. at_world (sessions_ok h)) (obs w)"
      using ok created by (intro wpo_create_session) (auto simp: rev_image_eqI)
    from wpoD(1) [OF this created(3)] show ?thesis using created by simp
  next
    case (create_failed uid jti ttl d ip w e w' h)
    have "wpo (create_session uid jti ttl d ip) (\<lambda>_. at_world (sessions_ok ((jti, uid) # h))) (\<lambda>_. at_world (sessions_ok h)) (obs w)"
      using ok create_failed by (intro wpo_create_session) (auto simp: rev_image_eqI)
    from wpoD(2) [OF this create_failed(3)] show ?thesis using create_failed by simp
  qed (use ok in \<open>auto intro: operations_ok ok_later\<close>)
qed

end
