(* ===== verification/Auth_Properties.thy ===== *)
theory Auth_Properties
  imports Session_Properties Demo
begin

text \<open>
  What \<open>routes/auth.rs\<close> promises: logout ends every session, a refresh token works once (but two requests that
  overlap both get tokens), who a login lets in and what a failed one tells, the blocking of an address, registration,
  and which tokens authenticate a request.
\<close>

section \<open>Logout\<close>

lemma get_dead_session:
  assumes "session_value (w_now w) (w_redis w) jti = None"
  shows "fst (get_session jti w) = Inr None \<or> fst (get_session jti w) = Inl redis_error"
proof -
  have "wpo (get_session jti) (\<lambda>x _. x = None) (\<lambda>e _. e = redis_error) (obs w)"
    unfolding get_session_def
    by (intro wpo_rules) (use assms in \<open>auto simp: session_value_def cmd_get_def\<close>)
  from wpoD [OF this] show ?thesis by (cases "get_session jti w"; cases "fst (get_session jti w)") auto
qed

text \<open>C14: After a successful logout no session that was ever handed out to the user can be found, in any state that
  logins, refreshes, other logouts, failures of Redis and the passage of time can lead to.\<close>

theorem logout_ends_sessions:
  assumes "reach no_sessions session_step (w, h)" "logout auth w = (Inr code, w')" "(jti, show_u64 auth) \<in> set h"
  shows "fst (get_session jti w') = Inr None \<or> fst (get_session jti w') = Inl redis_error"
proof (rule get_dead_session)
  have ok: "at_world (sessions_ok h) (obs w)" using sessions.reach_inv [OF assms(1)] by simp
  have "wpo (logout auth) (\<lambda>_. at_world (all_revoked h (show_u64 auth))) (\<lambda>_ _. True) (obs w)"
    unfolding logout_def by (rule wpo_bind, rule wpo_mono [OF wpo_revoke_all [OF ok]]) (auto intro: wpo_ret)
  from wpoD(1) [OF this assms(2)] show "session_value (w_now w') (w_redis w') jti = None"
    using assms(3) by (simp add: all_revoked_def)
qed

definition three_hours :: "u64" where "three_hours = 10800"

lemma reach_logged_in:
  assumes "create_session (show_u64 7) ''abc'' three_hours None None (demo_world db) = (Inr (), w)"
  shows "reach no_sessions session_step (w, [(''abc'', show_u64 7)])"
proof -
  have "reach no_sessions session_step (demo_world db, [])"
    by (rule reach_init) (simp add: no_sessions_def demo_world_def)
  then show ?thesis by (rule reach_step) (rule created [OF assms], simp)
qed

definition logged_in :: world where
  "logged_in = snd (create_session (show_u64 7) ''abc'' three_hours None None (demo_world demo_db))"

lemma create_demo_session:
  "create_session (show_u64 7) ''abc'' three_hours None None (demo_world demo_db) = (Inr (), logged_in)"
  "session_value (w_now logged_in) (w_redis logged_in) ''abc'' \<noteq> None" "calm logged_in"
  "w_redis logged_in (user_sessions_key (show_u64 7)) = Some (RMembers [''abc''], None)"
  by (simp_all add: logged_in_def create_session_def run calm_def Let_def cmd_set_ex_def cmd_sadd_def three_hours_def
      redis_at_def demo_world_def session_value_def redis_value_at_def)

theorem logout_ends_sessions_witness:
  "session_value (w_now logged_in) (w_redis logged_in) ''abc'' \<noteq> None \<and> fst (logout 7 logged_in) = Inr 204 \<and>
   (fst (get_session ''abc'' (snd (logout 7 logged_in))) = Inr None \<or>
    fst (get_session ''abc'' (snd (logout 7 logged_in))) = Inl redis_error)"
proof -
  have ok: "fst (logout 7 logged_in) = Inr 204"
    by (simp add: logout_def revoke_all_sessions_def run create_demo_session cmd_smembers_def redis_value_at_def
        redis_at_def cmd_del_def)
  then have "logout 7 logged_in = (Inr 204, snd (logout 7 logged_in))" by (cases "logout 7 logged_in") simp
  from logout_ends_sessions [OF reach_logged_in [OF create_demo_session(1)] this, of "''abc''"]
  show ?thesis using ok create_demo_session(2) by simp
qed

section \<open>Refresh\<close>

lemma redis_same [simp]: "(v :: world)\<lparr>w_redis := w_redis v\<rparr> = v"
  by simp

definition holds_session :: "world \<Rightarrow> string \<Rightarrow> session \<Rightarrow> bool" where
  "holds_session w jti s \<longleftrightarrow>
     (\<exists>j. session_value (w_now w) (w_redis w) jti = Some (RJson j) \<and> session_of_json j = Inr s)"

lemma wpo_find_session [wpo_rules]:
  assumes "\<And>s. holds_session v jti s \<Longrightarrow> Q (Some s) v" "Q None v" "\<And>e. E e v"
  shows "wpo (get_session jti) Q E v"
  unfolding get_session_def
  by (intro wpo_rules) (auto intro!: assms dest!: cmd_get_same simp: holds_session_def session_value_def)

lemma wpo_refresh_check [wpo_rules]:
  assumes "\<And>c s uid. verify_token (ax_decode ext) (w_now v) token (ac_jwt_secret cfg) = Some c \<Longrightarrow>
      cl_token_type c = Refresh \<Longrightarrow> holds_session v (cl_jti c) s \<Longrightarrow> parse_u64 (ss_user_id s) = Inr uid \<Longrightarrow> Q (c, s, uid) v"
    and "\<And>e. E e v"
  shows "wpo (refresh_check ext cfg token) Q E v"
  unfolding refresh_check_def by (intro wpo_rules) (use assms in auto)

lemma wpo_create_token [wpo_rules]:
  assumes "\<And>token. encode (new_claims jti uid (w_now v) ttl ty) secret = Inr token \<Longrightarrow> Q (token, jti) v" "\<And>e. E e v"
  shows "wpo (create_token encode jti uid secret ttl ty) Q E v"
  unfolding create_token_def by (intro wpo_rules) (use assms in auto)

definition new_session :: "string \<Rightarrow> string \<Rightarrow> ustr option \<Rightarrow> ustr option \<Rightarrow> int \<Rightarrow> session" where
  "new_session uid jti d ip now = \<lparr>ss_user_id = uid, ss_jti = jti, ss_device_info = d, ss_ip = ip,
     ss_created_at = timestamp_secs now, ss_last_active = timestamp_secs now\<rparr>"

lemma sadd_value: "cmd_sadd (user_sessions_key u) j now st = Inr (st', x) \<Longrightarrow> session_value now st' i = session_value now st i"
  by (auto simp: cmd_sadd_def split: option.splits redis_value.splits)

lemma srem_value: "cmd_srem (user_sessions_key u) j now st = Inr (st', x) \<Longrightarrow> session_value now st' i = session_value now st i"
  by (auto simp: cmd_srem_def Let_def split: option.splits redis_value.splits if_splits)

lemma wpo_new_session [wpo_rules]:
  assumes "\<And>st. session_value (w_now v) st jti = Some (RJson (session_json (new_session uid jti d ip (w_now v)))) \<Longrightarrow>
      (\<And>i. i \<noteq> jti \<Longrightarrow> session_value (w_now v) st i = session_value (w_now v) (w_redis v) i) \<Longrightarrow> Q () (v\<lparr>w_redis := st\<rparr>)"
    and "\<And>e st. E e (v\<lparr>w_redis := st\<rparr>)"
  shows "wpo (create_session uid jti ttl d ip) Q E v"
proof -
  have "E e v" for e using assms(2) [of e "w_redis v"] by simp
  moreover have "0 < uint ttl" if "uint ttl \<noteq> 0" using that uint_nonnegative [of ttl] by linarith
  ultimately show ?thesis
    unfolding create_session_def Let_def new_session_def [symmetric]
    by (intro wpo_rules) (auto intro!: assms simp: cmd_set_ex_def sadd_value split: if_splits)
qed

text \<open>A refresh that succeeded leaves the session of its token dead.\<close>

lemma wpo_refresh_tokens:
  assumes "\<And>c. verify_token (ax_decode ext) (w_now v) token (ac_jwt_secret cfg) = Some c \<Longrightarrow> cl_jti c \<noteq> refresh_jti"
  shows "wpo (refresh_tokens ext cfg access_jti refresh_jti token)
    (\<lambda>_ u. \<exists>c. verify_token (ax_decode ext) (w_now u) token (ac_jwt_secret cfg) = Some c \<and>
      session_value (w_now u) (w_redis u) (cl_jti c) = None) (\<lambda>_ _. True) v"
  unfolding refresh_tokens_def refresh_rotate_def revoke_session_def create_access_token_def create_refresh_token_def
  by (intro wpo_rules) (use assms in \<open>auto simp: cmd_del_def srem_value\<close>)

text \<open>A refresh token works once: after a refresh that succeeded, a second one with the same token fails, whatever
  identifiers it draws.\<close>

theorem refresh_works_once:
  assumes "refresh_tokens ext cfg access_jti refresh_jti token w = (Inr pair, w')"
    and "\<And>c. verify_token (ax_decode ext) (w_now w) token (ac_jwt_secret cfg) = Some c \<Longrightarrow> cl_jti c \<noteq> refresh_jti"
  shows "\<exists>e. fst (refresh_tokens ext cfg access_jti' refresh_jti' token w') = Inl e"
proof -
  have "wpo (refresh_tokens ext cfg access_jti refresh_jti token)
    (\<lambda>_ u. \<exists>c. verify_token (ax_decode ext) (w_now u) token (ac_jwt_secret cfg) = Some c \<and>
      session_value (w_now u) (w_redis u) (cl_jti c) = None) (\<lambda>_ _. True) (obs w)"
    by (rule wpo_refresh_tokens) (use assms(2) in simp)
  from wpoD(1) [OF this assms(1)] obtain c where
    c: "verify_token (ax_decode ext) (w_now w') token (ac_jwt_secret cfg) = Some c"
      "session_value (w_now w') (w_redis w') (cl_jti c) = None" by auto
  have "wpo (refresh_tokens ext cfg access_jti' refresh_jti' token) (\<lambda>_ _. False) (\<lambda>_ _. True) (obs w')"
    unfolding refresh_tokens_def by (intro wpo_rules) (use c in \<open>auto simp: holds_session_def\<close>)
  from wpoD(1) [OF this] show ?thesis
    by (cases "refresh_tokens ext cfg access_jti' refresh_jti' token w'"; cases "fst (refresh_tokens ext cfg access_jti' refresh_jti' token w')") auto
qed

text \<open>A token library for the witnesses: a token is its identifier, and \<open>abc\<close> is a refresh token of account 7.\<close>

definition demo_claims :: claims where
  "demo_claims = \<lparr>cl_sub = show_u64 7, cl_exp = 2000000000, cl_iat = 1704067200, cl_jti = ''abc'', cl_token_type = Refresh\<rparr>"

definition demo_ext :: auth_external where
  "demo_ext = \<lparr>ax_hash_password = (\<lambda>_. Inr ''hash''), ax_verify_password = (\<lambda>p h. Inr (p = lit h)),
     ax_encode = (\<lambda>c _. Inr (cl_jti c)), ax_decode = (\<lambda>_ t _. if t = ''abc'' then Some demo_claims else None),
     ax_valid_email = (\<lambda>_. True), ax_lowercase = id\<rparr>"

definition demo_cfg :: auth_config where
  "demo_cfg = \<lparr>ac_jwt_secret = ''secret'', ac_access_token_ttl = 900, ac_refresh_token_ttl = three_hours\<rparr>"

lemma demo_check:
  "\<exists>s. refresh_check demo_ext demo_cfg ''abc'' logged_in = (Inr (demo_claims, s, 7), logged_in) \<and> ss_user_id s = show_u64 7"
  by (simp add: logged_in_def create_session_def three_hours_def Let_def refresh_check_def get_session_def read_session_def
      run calm_def demo_world_def demo_ext_def demo_claims_def verify_token_def cmd_get_def cmd_set_ex_def cmd_sadd_def
      redis_value_at_def redis_at_def)

lemma run_revoke:
  assumes "calm w" "index_ok (w_redis w)"
  shows "\<exists>st. revoke_session jti uid w = (Inr (), w\<lparr>w_redis := st\<rparr>) \<and> index_ok st \<and> session_value (w_now w) st jti = None \<and>
    (\<forall>i. i \<noteq> jti \<longrightarrow> session_value (w_now w) st i = session_value (w_now w) (w_redis w) i)"
proof -
  let ?st = "(w_redis w)(refresh_key jti := None)"
  have ok: "index_ok ?st" using assms(2) by simp
  obtain st where st: "cmd_srem (user_sessions_key uid) jti (w_now w) ?st = Inr (st, ())"
    by (rule index_cases [OF ok, of uid]) (auto simp: cmd_srem_def redis_at_def Let_def)
  have "index_ok st" using srem_result [OF st ok] ok by auto
  then show ?thesis
    using srem_value [OF st] assms(1) by (intro exI [of _ st]) (simp add: revoke_session_def run cmd_del_def st)
qed

lemma run_create:
  assumes "calm w" "index_ok (w_redis w)" "0 < uint ttl"
  shows "\<exists>st. create_session uid jti ttl d ip w = (Inr (), w\<lparr>w_redis := st\<rparr>) \<and> index_ok st \<and> session_value (w_now w) st jti \<noteq> None \<and>
    (\<forall>i. i \<noteq> jti \<longrightarrow> session_value (w_now w) st i = session_value (w_now w) (w_redis w) i)"
proof -
  let ?st = "(w_redis w)(refresh_key jti \<mapsto> (RJson (session_json (new_session uid jti d ip (w_now w))), Some (w_now w + uint ttl * 1000)))"
  have ok: "index_ok ?st" using assms(2) by simp
  obtain st where st: "cmd_sadd (user_sessions_key uid) jti (w_now w) ?st = Inr (st, ())"
    by (rule index_cases [OF ok, of uid]) (auto simp: cmd_sadd_def redis_at_def)
  have "index_ok st" using sadd_result [OF st ok] ok by auto
  then show ?thesis
    using sadd_value [OF st] assms(1, 3)
    by (intro exI [of _ st]) (simp add: create_session_def Let_def run cmd_set_ex_def new_session_def [symmetric] st)
qed

lemma run_rotate:
  assumes "calm w" "index_ok (w_redis w)" "0 < uint (ac_refresh_token_ttl cfg)" "\<And>c s. \<exists>t. ax_encode ext c s = Inr t"
    and "refresh_jti \<noteq> cl_jti c"
  shows "\<exists>p st. refresh_rotate ext cfg access_jti refresh_jti (c, s, uid) w = (Inr p, w\<lparr>w_redis := st\<rparr>) \<and> index_ok st \<and>
    session_value (w_now w) st refresh_jti \<noteq> None \<and>
    (\<forall>i. i \<noteq> refresh_jti \<longrightarrow> i \<noteq> cl_jti c \<longrightarrow> session_value (w_now w) st i = session_value (w_now w) (w_redis w) i)"
proof -
  obtain st1 where st1: "revoke_session (cl_jti c) (ss_user_id s) w = (Inr (), w\<lparr>w_redis := st1\<rparr>)" "index_ok st1"
    "\<forall>i. i \<noteq> cl_jti c \<longrightarrow> session_value (w_now w) st1 i = session_value (w_now w) (w_redis w) i"
    using run_revoke [OF assms(1, 2)] by blast
  let ?w = "w\<lparr>w_redis := st1\<rparr>"
  have "calm ?w" "index_ok (w_redis ?w)" using assms(1) st1(2) by (simp_all add: run)
  from run_create [OF this assms(3), of "ss_user_id s" refresh_jti "ss_device_info s" "ss_ip s"] obtain st2 where
    st2: "create_session (ss_user_id s) refresh_jti (ac_refresh_token_ttl cfg) (ss_device_info s) (ss_ip s) ?w = (Inr (), ?w\<lparr>w_redis := st2\<rparr>)"
      "index_ok st2" "session_value (w_now w) st2 refresh_jti \<noteq> None"
      "\<forall>i. i \<noteq> refresh_jti \<longrightarrow> session_value (w_now w) st2 i = session_value (w_now w) st1 i"
    by auto
  have tok: "\<exists>t. create_token (ax_encode ext) jti u secret ttl ty w' = (Inr (t, jti), w')" for jti u secret ttl ty w'
    using assms(4) [of "new_claims jti u (w_now w') ttl ty" secret] by (auto simp: create_token_def run)
  obtain t1 where t1: "create_token (ax_encode ext) access_jti uid (ac_jwt_secret cfg) (ac_access_token_ttl cfg) Access ?w = (Inr (t1, access_jti), ?w)"
    using tok by blast
  obtain t2 where t2: "create_token (ax_encode ext) refresh_jti uid (ac_jwt_secret cfg) (ac_refresh_token_ttl cfg) Refresh ?w = (Inr (t2, refresh_jti), ?w)"
    using tok by blast
  have "refresh_rotate ext cfg access_jti refresh_jti (c, s, uid) w = (Inr (t1, t2), w\<lparr>w_redis := st2\<rparr>)"
    using st1(1) st2(1) t1 t2 by (simp add: refresh_rotate_def create_access_token_def create_refresh_token_def run_bind run_ret)
  then show ?thesis using st1 st2 by (intro exI [of _ "(t1, t2)"] exI [of _ st2]) auto
qed

text \<open>A limit of the code: the check of a refresh token and its revocation are separate calls, so two requests that
  both check the token before either revokes it both get tokens, and both new sessions live.\<close>

theorem refresh_race:
  assumes "calm w" "index_ok (w_redis w)" "0 < uint (ac_refresh_token_ttl cfg)" "\<And>c s. \<exists>t. ax_encode ext c s = Inr t"
    and "refresh_check ext cfg token w = (Inr (c, s, uid), w)" "refresh_check ext cfg token w = (Inr (c', s', uid'), w)"
    and "distinct [jti1, jti2, cl_jti c]"
  shows "\<exists>p1 p2 w1 w2. refresh_rotate ext cfg a1 jti1 (c, s, uid) w = (Inr p1, w1) \<and>
    refresh_rotate ext cfg a2 jti2 (c', s', uid') w1 = (Inr p2, w2) \<and>
    session_value (w_now w2) (w_redis w2) jti1 \<noteq> None \<and> session_value (w_now w2) (w_redis w2) jti2 \<noteq> None"
proof -
  have same: "c' = c" "s' = s" "uid' = uid" using assms(5, 6) by simp_all
  have ne: "jti1 \<noteq> cl_jti c" "jti2 \<noteq> cl_jti c" "jti1 \<noteq> jti2" using assms(7) by auto
  from run_rotate [OF assms(1-4) ne(1)] obtain p1 st1 where
    r1: "refresh_rotate ext cfg a1 jti1 (c, s, uid) w = (Inr p1, w\<lparr>w_redis := st1\<rparr>)" "index_ok st1"
      "session_value (w_now w) st1 jti1 \<noteq> None" by blast
  let ?w = "w\<lparr>w_redis := st1\<rparr>"
  have "calm ?w" "index_ok (w_redis ?w)" using assms(1) r1(2) by (simp_all add: run)
  from run_rotate [OF this assms(3, 4) ne(2), of a2 s uid] obtain p2 st2 where
    r2: "refresh_rotate ext cfg a2 jti2 (c, s, uid) ?w = (Inr p2, ?w\<lparr>w_redis := st2\<rparr>)"
      "session_value (w_now w) st2 jti2 \<noteq> None"
      "\<forall>i. i \<noteq> jti2 \<longrightarrow> i \<noteq> cl_jti c \<longrightarrow> session_value (w_now w) st2 i = session_value (w_now w) st1 i" by auto
  have "session_value (w_now w) st2 jti1 \<noteq> None" using r2(3) r1(3) ne by auto
  then show ?thesis
    unfolding same using r1(1) r2(1, 2)
    by (intro exI [of _ p1] exI [of _ p2] exI [of _ ?w] exI [of _ "?w\<lparr>w_redis := st2\<rparr>"]) simp
qed

lemma logged_in_ok: "index_ok (w_redis logged_in)"
  by (auto simp: index_ok_def logged_in_def create_session_def run calm_def Let_def cmd_set_ex_def cmd_sadd_def three_hours_def
      redis_at_def demo_world_def)

lemma demo_cfg_ttl: "0 < uint (ac_refresh_token_ttl demo_cfg)"
  by (simp add: demo_cfg_def three_hours_def)

lemma demo_encodes: "\<exists>t. ax_encode demo_ext c s = Inr t"
  by (simp add: demo_ext_def)

lemma demo_refresh: "\<exists>p w'. refresh_tokens demo_ext demo_cfg ''a1'' ''r1'' ''abc'' logged_in = (Inr p, w')"
proof -
  obtain s where s: "refresh_check demo_ext demo_cfg ''abc'' logged_in = (Inr (demo_claims, s, 7), logged_in)"
    using demo_check by blast
  have "''r1'' \<noteq> cl_jti demo_claims" by (simp add: demo_claims_def)
  from run_rotate [OF create_demo_session(3) logged_in_ok demo_cfg_ttl demo_encodes this]
  show ?thesis by (simp add: refresh_tokens_def run_bind s) blast
qed

theorem refresh_works_once_witness:
  "\<exists>p w' e. refresh_tokens demo_ext demo_cfg ''a1'' ''r1'' ''abc'' logged_in = (Inr p, w') \<and>
     fst (refresh_tokens demo_ext demo_cfg ''a2'' ''r2'' ''abc'' w') = Inl e"
proof -
  obtain p w' where r: "refresh_tokens demo_ext demo_cfg ''a1'' ''r1'' ''abc'' logged_in = (Inr p, w')"
    using demo_refresh by blast
  have "cl_jti c \<noteq> ''r1''" if "verify_token (ax_decode demo_ext) (w_now logged_in) ''abc'' (ac_jwt_secret demo_cfg) = Some c" for c
    using that by (auto simp: verify_token_def demo_ext_def demo_claims_def)
  from refresh_works_once [OF r this] show ?thesis using r by blast
qed

theorem refresh_race_witness:
  "\<exists>p1 p2 w1 w2 s. refresh_check demo_ext demo_cfg ''abc'' logged_in = (Inr (demo_claims, s, 7), logged_in) \<and>
     refresh_rotate demo_ext demo_cfg ''a1'' ''r1'' (demo_claims, s, 7) logged_in = (Inr p1, w1) \<and>
     refresh_rotate demo_ext demo_cfg ''a2'' ''r2'' (demo_claims, s, 7) w1 = (Inr p2, w2) \<and>
     session_value (w_now w2) (w_redis w2) ''r1'' \<noteq> None \<and> session_value (w_now w2) (w_redis w2) ''r2'' \<noteq> None"
proof -
  obtain s where s: "refresh_check demo_ext demo_cfg ''abc'' logged_in = (Inr (demo_claims, s, 7), logged_in)"
    using demo_check by blast
  have "distinct [''r1'', ''r2'', cl_jti demo_claims]" by (simp add: demo_claims_def)
  from refresh_race [OF create_demo_session(3) logged_in_ok demo_cfg_ttl demo_encodes s s this, of "''a1''" "''a2''"]
  show ?thesis using s by blast
qed

section \<open>Login\<close>

definition address_blocked :: "world \<Rightarrow> string \<Rightarrow> bool" where
  "address_blocked w ip \<longleftrightarrow> redis_value_at (w_now w) (w_redis w) (block_key ip) \<noteq> None"

lemma wpo_is_login_blocked [wpo_rules]:
  assumes "Q (address_blocked v ip) v" "\<And>e. E e v"
  shows "wpo (is_login_blocked ip) Q E v"
  unfolding is_login_blocked_def
  by (intro wpo_rules) (use assms in \<open>auto dest!: cmd_get_same simp: address_blocked_def\<close>)

lemma wpo_record_failure [wpo_rules]:
  assumes "\<And>x st. Q x (v\<lparr>w_redis := st\<rparr>)" "\<And>e st. E e (v\<lparr>w_redis := st\<rparr>)"
  shows "wpo (record_login_failure ip) Q E v"
proof -
  have "E e v" for e using assms(2) [of e "w_redis v"] by simp
  moreover have "Q x v" for x using assms(1) [of x "w_redis v"] by simp
  ultimately show ?thesis
    unfolding record_login_failure_def by (intro wpo_rules) (auto intro: assms)
qed

lemma wpo_clear_failures [wpo_rules]:
  assumes "\<And>st. Q () (v\<lparr>w_redis := st\<rparr>)"
  shows "wpo (clear_login_failures ip) Q E v"
proof -
  have "Q () v" using assms [of "w_redis v"] by simp
  then show ?thesis unfolding clear_login_failures_def by (intro wpo_rules) (auto intro: assms)
qed

lemma wpo_open_session [wpo_rules]:
  assumes "\<And>access refresh st. ax_encode ext (new_claims access_jti uid (w_now v) (ac_access_token_ttl cfg) Access) (ac_jwt_secret cfg) = Inr access \<Longrightarrow>
      ax_encode ext (new_claims refresh_jti uid (w_now v) (ac_refresh_token_ttl cfg) Refresh) (ac_jwt_secret cfg) = Inr refresh \<Longrightarrow>
      session_value (w_now v) st refresh_jti = Some (RJson (session_json (new_session (show_u64 uid) refresh_jti None None (w_now v)))) \<Longrightarrow>
      Q (access, refresh) (v\<lparr>w_redis := st\<rparr>)"
    and "\<And>e st. E e (v\<lparr>w_redis := st\<rparr>)"
  shows "wpo (open_session ext cfg access_jti refresh_jti uid) Q E v"
proof -
  have "E e v" for e using assms(2) [of e "w_redis v"] by simp
  then show ?thesis
    unfolding open_session_def create_access_token_def create_refresh_token_def
    by (intro wpo_rules) (auto intro: assms)
qed


subsection \<open>Blocking an address\<close>

lemma block_keys [simp]:
  "block_key a = block_key b \<longleftrightarrow> a = b" "fail_key a = fail_key b \<longleftrightarrow> a = b" "block_key a \<noteq> fail_key b" "fail_key b \<noteq> block_key a"
  "fail_key a \<noteq> user_sessions_key b" "fail_key a \<noteq> refresh_key b" "refresh_key b \<noteq> fail_key a"
  by (simp_all add: block_key_def fail_key_def user_sessions_key_def refresh_key_def)

lemma run_is_login_blocked:
  "calm w \<Longrightarrow> redis_value_at (w_now w) (w_redis w) (block_key ip) = None \<Longrightarrow> is_login_blocked ip w = (Inr False, w)"
  "calm w \<Longrightarrow> redis_value_at (w_now w) (w_redis w) (block_key ip) = Some (RText t) \<Longrightarrow> is_login_blocked ip w = (Inr True, w)"
  by (simp_all add: is_login_blocked_def run cmd_get_def)

lemma run_login:
  assumes "calm w" "redis_value_at (w_now w) (w_redis w) (block_key (extract_client_ip req)) = None"
    and "\<And>c s. \<exists>t. ax_encode ext c s = Inr t" "index_ok (w_redis w)" "0 < uint (ac_refresh_token_ttl cfg)"
    and "t_find (\<lambda>u. u_email u = trim (ax_lowercase ext (lg_email b)) \<and> u_deleted_at u = None) (users (w_pg w)) = Some u"
    and "ax_verify_password ext (lg_password b) (u_password_hash u) = Inr True"
  shows "\<exists>resp w'. login ext cfg a j req (Some b) w = (Inr resp, w')"
proof -
  let ?w = "w\<lparr>w_redis := (w_redis w)(fail_key (extract_client_ip req) := None)\<rparr>"
  have "calm ?w" "index_ok (w_redis ?w)" using assms(1, 4) by (auto simp: run index_ok_def)
  from run_create [OF this assms(5), of "show_u64 (u_id u)" j None None]
  obtain st where st: "create_session (show_u64 (u_id u)) j (ac_refresh_token_ttl cfg) None None ?w = (Inr (), ?w\<lparr>w_redis := st\<rparr>)"
    by auto
  obtain t1 t2 where t: "ax_encode ext (new_claims a (u_id u) (w_now w) (ac_access_token_ttl cfg) Access) (ac_jwt_secret cfg) = Inr t1"
    "ax_encode ext (new_claims j (u_id u) (w_now w) (ac_refresh_token_ttl cfg) Refresh) (ac_jwt_secret cfg) = Inr t2"
    using assms(3) by meson
  show ?thesis using assms(1, 2, 6, 7) st t
    by (simp add: login_def Let_def run run_is_login_blocked clear_login_failures_def cmd_del_def open_session_def
        create_access_token_def create_refresh_token_def create_token_def)
qed

lemma open_session_error:
  assumes "open_session ext cfg a j uid w = (Inl e, w')"
  shows "\<exists>m. e = Internal m"
proof -
  have "wpo (open_session ext cfg a j uid) (\<lambda>_ _. True) (\<lambda>e _. \<exists>m. e = Internal m) (obs w)"
    unfolding open_session_def create_access_token_def create_refresh_token_def create_token_def create_session_def Let_def
    by (intro wpo_rules) (auto simp: redis_error_def)
  from wpoD(2) [OF this assms] show ?thesis .
qed

text \<open>What a login that answers with bad credentials has done: it has counted the failure.\<close>

lemma refused_login:
  assumes "calm w" "redis_value_at (w_now w) (w_redis w) (block_key (extract_client_ip req)) = None"
    and "login ext cfg a j req body w = (Inl bad_credentials, w')"
  shows "w' = snd (record_login_failure (extract_client_ip req) w)"
proof -
  let ?ip = "extract_client_ip req"
  obtain b where b: "body = Some b"
    using assms(1-3) by (cases body) (simp_all add: login_def Let_def run run_is_login_blocked bad_credentials_def)
  let ?u = "t_find (\<lambda>u. u_email u = trim (ax_lowercase ext (lg_email b)) \<and> u_deleted_at u = None) (users (w_pg w))"
  show ?thesis
  proof (cases ?u)
    case None
    then show ?thesis using assms
      by (auto simp: login_def Let_def run run_is_login_blocked b split: prod.splits sum.splits)
  next
    case (Some u)
    have "ax_verify_password ext (lg_password b) (u_password_hash u) = Inr False"
    proof (cases "ax_verify_password ext (lg_password b) (u_password_hash u)")
      case (Inl m)
      then show ?thesis using assms Some by (simp add: login_def Let_def run run_is_login_blocked b bad_credentials_def)
    next
      case (Inr ok)
      have False if ok
        using assms Some Inr that open_session_error [of ext cfg a j "u_id u"]
        by (auto simp: login_def Let_def run run_is_login_blocked b clear_login_failures_def cmd_del_def bad_credentials_def
            split: prod.splits sum.splits)
      then show ?thesis using Inr by (cases ok) auto
    qed
    then show ?thesis using assms Some
      by (auto simp: login_def Let_def run run_is_login_blocked b split: prod.splits sum.splits)
  qed
qed

text \<open>A series of logins from one address at the given times that are all refused, and the world they leave.\<close>

fun refused_logins ::
  "auth_external \<Rightarrow> auth_config \<Rightarrow> request_info \<Rightarrow> (int \<times> login_request option) list \<Rightarrow> world \<Rightarrow> world option" where
  "refused_logins ext cfg req [] w = Some w"
| "refused_logins ext cfg req ((t, b) # xs) w =
     (case login ext cfg [] [] req b (w\<lparr>w_now := t\<rparr>) of
        (Inl e, w') \<Rightarrow> if e = bad_credentials then refused_logins ext cfg req xs w' else None
      | (Inr _, _) \<Rightarrow> None)"

definition counted :: "string \<Rightarrow> int \<Rightarrow> int \<Rightarrow> world \<Rightarrow> bool" where
  "counted ip n e w \<longleftrightarrow> calm w \<and> 0 < n \<and> w_redis w (fail_key ip) = Some (RCount n, Some e) \<and>
     (n < 10 \<longrightarrow> w_redis w (block_key ip) = None) \<and>
     (10 \<le> n \<longrightarrow> w_redis w (block_key ip) = Some (RText ''1'', Some (w_now w + 1800000)))"

lemma first_failure:
  assumes "calm w" "w_redis w (fail_key ip) = None" "w_redis w (block_key ip) = None"
  shows "counted ip 1 (w_now w + 1800000) (snd (record_login_failure ip w))"
  using assms by (simp add: counted_def record_login_failure_def run cmd_incr_expire_def redis_at_def LOGIN_BLOCK_SECONDS_def LOGIN_FAIL_MAX_def)

lemma next_failure:
  assumes "counted ip n e w" "t < e" "n < 10"
  shows "counted ip (n + 1) e (snd (record_login_failure ip (w\<lparr>w_now := t\<rparr>)))"
  using assms
  by (simp add: counted_def record_login_failure_def run calm_def next_call_def cmd_incr_expire_def redis_at_def
      LOGIN_BLOCK_SECONDS_def LOGIN_FAIL_MAX_def redis_call_def redis_set_ex_def or_else_def cmd_set_ex_def bind_def ret_def)

lemma more_failures:
  assumes "counted ip n e w" "extract_client_ip req = ip" "refused_logins ext cfg req xs w = Some w'"
    and "n + int (length xs) \<le> 10" "\<forall>x \<in> set xs. fst x < e"
  shows "counted ip (n + int (length xs)) e w' \<and> w_now w' = (if xs = [] then w_now w else fst (last xs))"
  using assms
proof (induction xs arbitrary: n w)
  case (Cons x xs)
  obtain t b where x: "x = (t, b)" by (cases x)
  obtain w1 where l: "login ext cfg [] [] req b (w\<lparr>w_now := t\<rparr>) = (Inl bad_credentials, w1)" "refused_logins ext cfg req xs w1 = Some w'"
    using Cons.prems(3) by (auto simp: x split: prod.splits sum.splits if_splits)
  have "calm (w\<lparr>w_now := t\<rparr>)" "redis_value_at (w_now (w\<lparr>w_now := t\<rparr>)) (w_redis (w\<lparr>w_now := t\<rparr>)) (block_key (extract_client_ip req)) = None"
    using Cons.prems by (simp_all add: counted_def calm_def redis_value_at_def redis_at_def)
  from refused_login [OF this l(1)] have w1: "w1 = snd (record_login_failure ip (w\<lparr>w_now := t\<rparr>))" using Cons.prems(2) by simp
  have c: "counted ip (n + 1) e w1" unfolding w1 using Cons.prems by (intro next_failure) (auto simp: x)
  have "w_now w1 = t"
    unfolding w1 by (auto simp: record_login_failure_def bind_def redis_call_def next_call_def redis_set_ex_def or_else_def ret_def
        split: prod.splits sum.splits list.splits call_outcome.splits)
  then show ?case using Cons.IH [OF c Cons.prems(2) l(2)] Cons.prems(4, 5) by (auto simp: x add.assoc)
qed simp

lemma sorted_last: "sorted (map f xs) \<Longrightarrow> x \<in> set xs \<Longrightarrow> f x \<le> f (last xs)"
  by (induction xs) auto

text \<open>Ten logins from one address that are all refused, the last within half an hour of the first, block the address: for
  half an hour after the tenth every login from it is refused, also one with the right password.\<close>

theorem ten_failures_block:
  assumes "calm w" "w_redis w (fail_key (extract_client_ip req)) = None" "w_redis w (block_key (extract_client_ip req)) = None"
    and "refused_logins ext cfg req attempts w = Some w'" "length attempts = 10"
    and "sorted (map fst attempts)" "fst (last attempts) < fst (hd attempts) + 1800000"
    and "t < fst (last attempts) + 1800000"
  shows "fst (login ext cfg a j req body (w'\<lparr>w_now := t\<rparr>)) = Inl (RateLimited 1800)"
proof -
  let ?ip = "extract_client_ip req"
  obtain t0 b xs where at: "attempts = (t0, b) # xs" "length xs = 9" using assms(5) by (cases attempts) auto
  obtain w1 where l: "login ext cfg [] [] req b (w\<lparr>w_now := t0\<rparr>) = (Inl bad_credentials, w1)" "refused_logins ext cfg req xs w1 = Some w'"
    using assms(4) by (auto simp: at split: prod.splits sum.splits if_splits)
  have "calm (w\<lparr>w_now := t0\<rparr>)" "redis_value_at (w_now (w\<lparr>w_now := t0\<rparr>)) (w_redis (w\<lparr>w_now := t0\<rparr>)) (block_key ?ip) = None"
    using assms(1, 3) by (simp_all add: calm_def redis_value_at_def redis_at_def)
  from refused_login [OF this l(1)] have w1: "w1 = snd (record_login_failure ?ip (w\<lparr>w_now := t0\<rparr>))" .
  have c: "counted ?ip 1 (t0 + 1800000) w1"
    unfolding w1 using first_failure [of "w\<lparr>w_now := t0\<rparr>" ?ip] assms(1-3) by (simp add: calm_def)
  have "fst x < t0 + 1800000" if "x \<in> set xs" for x
  proof -
    have "sorted (map fst xs)" "xs \<noteq> []" using assms(6) at by auto
    from sorted_last [OF this(1) that] this(2) have "fst x \<le> fst (last attempts)" using at by simp
    then show ?thesis using assms(7) at by auto
  qed
  then have "counted ?ip (1 + int (length xs)) (t0 + 1800000) w' \<and> w_now w' = fst (last xs)"
    using more_failures [OF c refl l(2)] at(2) by auto
  then have "calm w'" "w_redis w' (block_key ?ip) = Some (RText ''1'', Some (fst (last attempts) + 1800000))"
    using at by (auto simp: counted_def)
  then have "is_login_blocked ?ip (w'\<lparr>w_now := t\<rparr>) = (Inr True, w'\<lparr>w_now := t\<rparr>)"
    using assms(8) by (intro run_is_login_blocked(2)) (auto simp: calm_def redis_value_at_def redis_at_def)
  then show ?thesis by (simp add: login_def Let_def run_bind run_ensure)
qed

definition from_address :: "string \<Rightarrow> request_info" where
  "from_address ip = \<lparr>rq_peer = None, rq_authorization = None, rq_forwarded_for = Some (Some ip), rq_real_ip = None\<rparr>"

definition wrong_password :: login_request where
  "wrong_password = \<lparr>lg_email = lit ''ada@example.org'', lg_password = lit ''guess''\<rparr>"

definition right_password :: login_request where
  "right_password = \<lparr>lg_email = lit ''ada@example.org'', lg_password = lit ''hash''\<rparr>"

lemma ip_of_address: "extract_client_ip (from_address ''10.0.0.1'') = ''ip:10.0.0.1''"
  by (simp add: extract_client_ip_def from_address_def header_text_def trim_text_def is_blank_def is_whitespace_def)

lemma trim_ada: "trim (lit ''ada@example.org'') = lit ''ada@example.org''"
  by (simp add: trim_def is_whitespace_def)

lemma guess_refused:
  assumes "calm w" "w_pg w = demo_db" "redis_value_at (w_now w) (w_redis w) (block_key ''ip:10.0.0.1'') = None"
  shows "login demo_ext demo_cfg [] [] (from_address ''10.0.0.1'') (Some wrong_password) w =
    (Inl bad_credentials, snd (record_login_failure ''ip:10.0.0.1'' w))"
proof -
  have "t_find (\<lambda>u. u_email u = lit ''ada@example.org'' \<and> u_deleted_at u = None) (users demo_db) = Some (demo_user 7)"
    by (simp add: demo_db_def demo_user_def t_find_def)
  moreover have "lit (u_password_hash (demo_user 7)) \<noteq> lit ''guess''" by (simp add: demo_user_def del: lit_simps)
  ultimately show ?thesis
    using assms trim_ada
    by (simp add: login_def Let_def run ip_of_address run_is_login_blocked wrong_password_def demo_ext_def split: prod.split sum.split)
qed

lemma record_keeps_pg: "w_pg (snd (record_login_failure ip w)) = w_pg w"
proof -
  have "wpo (record_login_failure ip) (\<lambda>_ v. w_pg v = w_pg w) (\<lambda>_ v. w_pg v = w_pg w) (obs w)"
    by (intro wpo_rules) simp_all
  from wpoD [OF this] show ?thesis by (cases "record_login_failure ip w"; cases "fst (record_login_failure ip w)") auto
qed

lemma guesses_refused:
  assumes "counted ''ip:10.0.0.1'' n e w" "w_pg w = demo_db" "n + int (length ts) \<le> 10" "\<forall>t \<in> set ts. t < e"
  shows "\<exists>w'. refused_logins demo_ext demo_cfg (from_address ''10.0.0.1'') (map (\<lambda>t. (t, Some wrong_password)) ts) w = Some w'"
  using assms
proof (induction ts arbitrary: n w)
  case (Cons t ts)
  let ?w = "w\<lparr>w_now := t\<rparr>"
  have "calm ?w" "w_pg ?w = demo_db" "redis_value_at (w_now ?w) (w_redis ?w) (block_key ''ip:10.0.0.1'') = None"
    using Cons.prems by (auto simp: counted_def calm_def redis_value_at_def redis_at_def)
  note g = guess_refused [OF this]
  have "counted ''ip:10.0.0.1'' (n + 1) e (snd (record_login_failure ''ip:10.0.0.1'' ?w))"
    using Cons.prems by (intro next_failure) auto
  from Cons.IH [OF this] Cons.prems(2-4) g show ?case
    by (auto simp: record_keeps_pg)
qed simp

lemma ten_guesses:
  "\<exists>w'. refused_logins demo_ext demo_cfg (from_address ''10.0.0.1'')
     (map (\<lambda>t. (t, Some wrong_password)) [0, 1, 2, 3, 4, 5, 6, 7, 8, 9]) (demo_world demo_db) = Some w'"
proof -
  let ?w = "(demo_world demo_db)\<lparr>w_now := 0\<rparr>"
  have c: "calm ?w" "w_pg ?w = demo_db" "w_redis ?w = (\<lambda>_. None)" by (simp_all add: demo_world_def calm_def)
  then have "redis_value_at (w_now ?w) (w_redis ?w) (block_key ''ip:10.0.0.1'') = None" by (simp add: redis_value_at_def redis_at_def)
  note g = guess_refused [OF c(1, 2) this]
  have "counted ''ip:10.0.0.1'' 1 (w_now ?w + 1800000) (snd (record_login_failure ''ip:10.0.0.1'' ?w))"
    using c by (intro first_failure) simp_all
  then have "counted ''ip:10.0.0.1'' 1 1800000 (snd (record_login_failure ''ip:10.0.0.1'' ?w))" by simp
  from guesses_refused [OF this, of "[1, 2, 3, 4, 5, 6, 7, 8, 9]"] g show ?thesis
    by (auto simp: record_keeps_pg)
qed

theorem ten_failures_block_witness:
  "\<exists>w'. refused_logins demo_ext demo_cfg (from_address ''10.0.0.1'')
      (map (\<lambda>t. (t, Some wrong_password)) [0, 1, 2, 3, 4, 5, 6, 7, 8, 9]) (demo_world demo_db) = Some w' \<and>
    fst (login demo_ext demo_cfg ''a'' ''r'' (from_address ''10.0.0.1'') (Some right_password) (w'\<lparr>w_now := 1000\<rparr>)) = Inl (RateLimited 1800)"
proof -
  obtain w' where w': "refused_logins demo_ext demo_cfg (from_address ''10.0.0.1'')
      (map (\<lambda>t. (t, Some wrong_password)) [0, 1, 2, 3, 4, 5, 6, 7, 8, 9]) (demo_world demo_db) = Some w'"
    using ten_guesses by blast
  have "w_redis (demo_world demo_db) = (\<lambda>_. None)" by (simp add: demo_world_def)
  then have "fst (login demo_ext demo_cfg ''a'' ''r'' (from_address ''10.0.0.1'') (Some right_password) (w'\<lparr>w_now := 1000\<rparr>)) = Inl (RateLimited 1800)"
    by (intro ten_failures_block [OF calm_demo _ _ w']) simp_all
  then show ?thesis using w' by blast
qed

text \<open>A limit of the code: the server is started without connection information, so the address of a client is what the
  client writes into \<open>x-forwarded-for\<close>. With another value there a blocked client logs in.\<close>

theorem login_block_evaded:
  assumes "calm w" "redis_value_at (w_now w) (w_redis w) (block_key (extract_client_ip (from_address ip1))) = Some (RText ''1'')"
    and "redis_value_at (w_now w) (w_redis w) (block_key (extract_client_ip (from_address ip2))) = None"
    and "t_find (\<lambda>u. u_email u = trim (ax_lowercase ext (lg_email b)) \<and> u_deleted_at u = None) (users (w_pg w)) = Some u"
    and "ax_verify_password ext (lg_password b) (u_password_hash u) = Inr True"
    and "\<And>c s. \<exists>t. ax_encode ext c s = Inr t" "index_ok (w_redis w)" "0 < uint (ac_refresh_token_ttl cfg)"
  shows "fst (login ext cfg a j (from_address ip1) (Some b) w) = Inl (RateLimited 1800) \<and>
    (\<exists>resp. fst (login ext cfg a j (from_address ip2) (Some b) w) = Inr resp)"
proof
  show "fst (login ext cfg a j (from_address ip1) (Some b) w) = Inl (RateLimited 1800)"
    using run_is_login_blocked(2) [OF assms(1, 2)] by (simp add: login_def Let_def run_bind run_ensure)
  show "\<exists>resp. fst (login ext cfg a j (from_address ip2) (Some b) w) = Inr resp"
    using run_login [OF assms(1, 3, 6, 7, 8, 4, 5)] by (metis fst_conv)
qed

definition blocked_world :: world where
  "blocked_world = (demo_world demo_db)\<lparr>w_redis := (\<lambda>_. None)(block_key ''ip:10.0.0.1'' \<mapsto> (RText ''1'', Some (demo_now + 1800000)))\<rparr>"

lemma ada_found:
  "t_find (\<lambda>u. u_email u = trim (ax_lowercase demo_ext (lg_email right_password)) \<and> u_deleted_at u = None) (users demo_db) = Some (demo_user 7)"
  using trim_ada by (simp add: right_password_def demo_ext_def t_find_def demo_db_def demo_user_def del: lit_simps)

theorem login_block_evaded_witness:
  "fst (login demo_ext demo_cfg ''a'' ''r'' (from_address ''10.0.0.1'') (Some right_password) blocked_world) = Inl (RateLimited 1800) \<and>
   (\<exists>resp. fst (login demo_ext demo_cfg ''a'' ''r'' (from_address ''10.0.0.2'') (Some right_password) blocked_world) = Inr resp)"
proof (rule login_block_evaded)
  have two: "extract_client_ip (from_address ''10.0.0.2'') = ''ip:10.0.0.2''"
    by (simp add: extract_client_ip_def from_address_def header_text_def trim_text_def is_blank_def is_whitespace_def)
  show "redis_value_at (w_now blocked_world) (w_redis blocked_world) (block_key (extract_client_ip (from_address ''10.0.0.1''))) = Some (RText ''1'')"
    unfolding ip_of_address by (simp add: blocked_world_def redis_value_at_def redis_at_def)
  show "redis_value_at (w_now blocked_world) (w_redis blocked_world) (block_key (extract_client_ip (from_address ''10.0.0.2''))) = None"
    unfolding two by (simp add: blocked_world_def redis_value_at_def redis_at_def)
  show "index_ok (w_redis blocked_world)" by (auto simp: index_ok_def blocked_world_def block_key_def user_sessions_key_def)
  show "t_find (\<lambda>u. u_email u = trim (ax_lowercase demo_ext (lg_email right_password)) \<and> u_deleted_at u = None) (users (w_pg blocked_world)) = Some (demo_user 7)"
    using ada_found by (simp add: blocked_world_def)
  show "ax_verify_password demo_ext (lg_password right_password) (u_password_hash (demo_user 7)) = Inr True"
    by (simp add: demo_ext_def right_password_def demo_user_def)
qed (simp_all add: blocked_world_def demo_world_def calm_def demo_encodes demo_cfg_ttl)


section \<open>Registration\<close>

definition with_user :: "user_row \<Rightarrow> pg_db \<Rightarrow> pg_db" where
  "with_user row db = db\<lparr>users := t_insert row (users db)\<rparr>"

definition with_account :: "user_row \<Rightarrow> pg_db \<Rightarrow> pg_db" where
  "with_account row db = (with_user row db)\<lparr>user_settings := t_insert (default_settings (u_id row)) (user_settings db)\<rparr>"

definition name_free :: "ustr \<Rightarrow> ustr \<Rightarrow> pg_db \<Rightarrow> bool" where
  "name_free username email db \<longleftrightarrow> \<not> t_has (\<lambda>u. u_email u = email \<or> u_username u = username) (users db)"

text \<open>The row that a registration makes, for an identifier and a hash of the password.\<close>

definition registered_row :: "auth_external \<Rightarrow> register_request \<Rightarrow> i64 \<Rightarrow> string \<Rightarrow> int \<Rightarrow> user_row" where
  "registered_row ext body uid hash now =
     new_user_row uid (trim (rg_username body)) (trim (ax_lowercase ext (rg_email body))) hash False now"

lemma insert_user_result: "insert_user r db = Inr (db', x) \<Longrightarrow> db' = with_user r db"
  by (auto simp: insert_user_def with_user_def split: if_splits)

lemma insert_settings_result: "insert_settings (u_id r) (with_user r db) = Inr (db', x) \<Longrightarrow> db' = with_account r db"
  by (auto simp: insert_settings_def with_account_def with_user_def split: if_splits)

lemma id_of_new_user [simp]: "u_id (new_user_row uid n e h b t) = uid"
  by (simp add: new_user_row_def)

text \<open>A registration that succeeds had a free name and email; it adds exactly the account, with the hash of the password
  and default settings, and stores the session of its refresh token. One that fails leaves the tables as they were, or
  (when a later step failed) leaves the account, with or without its settings.\<close>

theorem register_outcome:
  assumes "register_account ext cfg access_jti refresh_jti body w = (r, w')"
  shows "case r of
      Inr (code, resp) \<Rightarrow> code = 201 \<and>
        name_free (trim (rg_username body)) (trim (ax_lowercase ext (rg_email body))) (w_pg w) \<and>
        (\<exists>uid hash. ax_hash_password ext (rg_password body) = Inr hash \<and> ur_id (ar_user resp) = uid \<and>
          w_pg w' = with_account (registered_row ext body uid hash (w_now w)) (w_pg w) \<and>
          holds_session w' refresh_jti (new_session (show_u64 uid) refresh_jti None None (w_now w)))
    | Inl e \<Rightarrow> w_pg w' = w_pg w \<or>
        (\<exists>uid hash. w_pg w' = with_user (registered_row ext body uid hash (w_now w)) (w_pg w) \<or>
          w_pg w' = with_account (registered_row ext body uid hash (w_now w)) (w_pg w))"
proof -
  let ?Q = "\<lambda>(code, resp) v. code = 201 \<and>
        name_free (trim (rg_username body)) (trim (ax_lowercase ext (rg_email body))) (w_pg w) \<and>
        (\<exists>uid hash. ax_hash_password ext (rg_password body) = Inr hash \<and> ur_id (ar_user resp) = uid \<and>
          w_pg v = with_account (registered_row ext body uid hash (w_now w)) (w_pg w) \<and>
          (\<exists>j. session_value (w_now v) (w_redis v) refresh_jti = Some (RJson j) \<and>
             session_of_json j = Inr (new_session (show_u64 uid) refresh_jti None None (w_now w))))"
  let ?E = "\<lambda>e v. w_pg v = w_pg w \<or>
        (\<exists>uid hash. w_pg v = with_user (registered_row ext body uid hash (w_now w)) (w_pg w) \<or>
          w_pg v = with_account (registered_row ext body uid hash (w_now w)) (w_pg w))"
  have set: "insert_settings uid (with_user (registered_row ext body uid h t) db) = Inr (db', x) \<Longrightarrow>
      db' = with_account (registered_row ext body uid h t) db" for uid h t db db' x
    using insert_settings_result [of "registered_row ext body uid h t" db db' x] by (simp add: registered_row_def)
  have "wpo (register_account ext cfg access_jti refresh_jti body) ?Q ?E (obs w)"
    unfolding register_account_def Let_def
    by (intro wpo_rules) (auto dest!: insert_user_result set simp: registered_row_def [symmetric] name_free_def)
  from wpoD [OF this] assms show ?thesis by (cases r) (auto simp: holds_session_def)
qed

section \<open>Tokens\<close>

text \<open>An access token authenticates the user it was made for, with the identifier it was made with; a refresh token
  authenticates nobody. The hypothesis on the token library is that it decodes what it encoded.\<close>

theorem access_token_authenticates:
  assumes "create_access_token encode jti uid secret ttl w = (Inr (token, jti'), w')"
    and "create_refresh_token encode jti uid secret ttl' w = (Inr (token', jti''), w'')"
    and "\<And>c t. encode c secret = Inr t \<Longrightarrow> decode now t secret = Some c"
  shows "from_request_parts decode secret now (Some (Some (''Bearer '' @ token))) = Inr \<lparr>au_id = uid, au_jti = jti\<rparr> \<and>
    from_request_parts decode secret now (Some (Some (''Bearer '' @ token'))) = Inl InvalidToken"
proof -
  have "encode (new_claims jti uid (w_now w) ttl Access) secret = Inr token"
    using assms(1) by (auto simp: create_access_token_def create_token_def run split: sum.splits)
  moreover have "encode (new_claims jti uid (w_now w) ttl' Refresh) secret = Inr token'"
    using assms(2) by (auto simp: create_refresh_token_def create_token_def run split: sum.splits)
  ultimately show ?thesis
    using assms(3) by (simp add: from_request_parts_def extract_bearer_token_def verify_token_def new_claims_def)
qed

theorem access_token_authenticates_witness:
  "(let c1 = new_claims ''j'' 7 demo_now 900 Access; c2 = new_claims ''j'' 7 demo_now 900 Refresh;
        encode = (\<lambda>c s. if c = c1 then Inr ''t1'' else if c = c2 then Inr ''t2'' else Inl ''unused'');
        decode = (\<lambda>n t s. if t = ''t1'' then Some c1 else if t = ''t2'' then Some c2 else None)
    in from_request_parts decode ''secret'' demo_now (Some (Some (''Bearer '' @ ''t1''))) = Inr \<lparr>au_id = 7, au_jti = ''j''\<rparr> \<and>
       from_request_parts decode ''secret'' demo_now (Some (Some (''Bearer '' @ ''t2''))) = Inl InvalidToken)"
proof -
  define c1 where "c1 = new_claims ''j'' 7 demo_now 900 Access"
  define c2 where "c2 = new_claims ''j'' 7 demo_now 900 Refresh"
  define encode :: encoder where "encode = (\<lambda>c s. if c = c1 then Inr ''t1'' else if c = c2 then Inr ''t2'' else Inl ''unused'')"
  define decode :: decoder where "decode = (\<lambda>n t s. if t = ''t1'' then Some c1 else if t = ''t2'' then Some c2 else None)"
  have ne: "c1 \<noteq> c2" by (simp add: c1_def c2_def new_claims_def)
  have "create_access_token encode ''j'' 7 ''secret'' 900 (demo_world demo_db) = (Inr (''t1'', ''j''), demo_world demo_db)"
    by (simp add: create_access_token_def create_token_def run encode_def c1_def)
  moreover have "create_refresh_token encode ''j'' 7 ''secret'' 900 (demo_world demo_db) = (Inr (''t2'', ''j''), demo_world demo_db)"
    using ne by (simp add: create_refresh_token_def create_token_def run encode_def c2_def)
  moreover have "decode demo_now t ''secret'' = Some c" if "encode c ''secret'' = Inr t" for c t
    using that by (auto simp: encode_def decode_def split: if_splits)
  ultimately have "from_request_parts decode ''secret'' demo_now (Some (Some (''Bearer '' @ ''t1''))) = Inr \<lparr>au_id = 7, au_jti = ''j''\<rparr> \<and>
       from_request_parts decode ''secret'' demo_now (Some (Some (''Bearer '' @ ''t2''))) = Inl InvalidToken"
    by (rule access_token_authenticates)
  then show ?thesis unfolding Let_def decode_def c1_def c2_def .
qed

definition bob :: register_request where
  "bob = \<lparr>rg_username = lit ''bob'', rg_email = lit ''bob@example.org'', rg_password = lit ''longenough''\<rparr>"

lemma demo_register:
  "\<exists>resp w'. register_account demo_ext demo_cfg ''a'' ''r'' bob (demo_world demo_db) = (Inr (201, resp), w')"
  by (simp add: register_account_def Let_def bob_def validate_register_def validate_length_def demo_ext_def demo_cfg_def three_hours_def
      trim_def is_whitespace_def run calm_def next_call_def demo_ids LUMIERE_EPOCH_def insert_user_def user_fits_def
      new_user_row_def insert_settings_def stmt_defs demo_defs open_session_def create_access_token_def create_refresh_token_def
      create_token_def create_session_def cmd_set_ex_def cmd_sadd_def redis_at_def)

theorem register_outcome_witness:
  "\<exists>resp w'. register_account demo_ext demo_cfg ''a'' ''r'' bob (demo_world demo_db) = (Inr (201, resp), w') \<and>
     holds_session w' ''r'' (new_session (show_u64 (ur_id (ar_user resp))) ''r'' None None demo_now)"
proof -
  obtain resp w' where r: "register_account demo_ext demo_cfg ''a'' ''r'' bob (demo_world demo_db) = (Inr (201, resp), w')"
    using demo_register by blast
  from register_outcome [OF r] show ?thesis using r by auto
qed

end
