(* ===== verification/Users.thy ===== *)
theory Users
  imports Sessions
begin

text \<open>
  \<open>routes/users.rs\<close>: profiles, relationships, conversations, settings, presence and notes. The text form of a time
  (\<open>to_rfc3339\<close>) and argon2 are parameters of the handlers that use them.
\<close>

section \<open>Profile\<close>

record full_user =
  fu_id :: snowflake
  fu_username :: ustr
  fu_discriminator :: int
  fu_email :: ustr
  fu_avatar :: "ustr option"
  fu_banner :: "ustr option"
  fu_bio :: "ustr option"
  fu_locale :: ustr
  fu_flags :: i64
  fu_premium_type :: int
  fu_is_bot :: bool
  fu_created_at :: int

definition full_user_of :: "user_row \<Rightarrow> full_user" where
  "full_user_of u = \<lparr>fu_id = u_id u, fu_username = u_username u, fu_discriminator = u_discriminator u,
     fu_email = u_email u, fu_avatar = u_avatar u, fu_banner = u_banner u, fu_bio = u_bio u, fu_locale = u_locale u,
     fu_flags = u_flags u, fu_premium_type = u_premium_type u, fu_is_bot = u_is_bot u, fu_created_at = u_created_at u\<rparr>"

definition live_user :: "i64 \<Rightarrow> pg_db \<Rightarrow> user_row option" where
  "live_user uid db = t_find (\<lambda>u. u_id u = uid \<and> u_deleted_at u = None) (users db)"

definition get_me :: "snowflake \<Rightarrow> full_user handler" where
  "get_me auth =
     bind (pg_query (live_user auth)) (\<lambda>row.
     bind (ok_or row (NotFound ''User not found'')) (\<lambda>u. ret (full_user_of u)))"

definition get_user :: "snowflake \<Rightarrow> i64 \<Rightarrow> public_user handler" where
  "get_user auth uid =
     bind (pg_query (live_user uid)) (\<lambda>row.
     bind (ok_or row (NotFound ''User not found'')) (\<lambda>u. ret (public_user_of u)))"

record update_profile_request =
  up_username :: "ustr option"
  up_avatar :: "ustr option option"
  up_banner :: "ustr option option"
  up_bio :: "ustr option"
  up_locale :: "ustr option"

definition validate_opt :: "string \<Rightarrow> nat \<Rightarrow> nat \<Rightarrow> ustr option \<Rightarrow> field_error list" where
  "validate_opt field lo hi v = (case v of None \<Rightarrow> [] | Some s \<Rightarrow> validate_length field lo hi s)"

definition validate_profile :: "update_profile_request \<Rightarrow> field_error list" where
  "validate_profile b = validate_opt ''username'' 2 32 (up_username b) @ validate_opt ''bio'' 0 190 (up_bio b) @
     validate_opt ''locale'' 0 10 (up_locale b)"

definition username_change_key :: "snowflake \<Rightarrow> string" where
  "username_change_key uid = ''username_change:'' @ show_u64 uid"

definition check_username_change :: "snowflake \<Rightarrow> ustr \<Rightarrow> unit handler" where
  "check_username_change auth username_val =
     bind (or_else 0 (redis_call (cmd_incr_expire (username_change_key auth) 3600))) (\<lambda>count.
     andThen (ensure (\<not> count > 2) (RateLimited 3600))
    (bind (pg_query (\<lambda>db. t_has (\<lambda>u. u_username u = trim username_val \<and> u_id u \<noteq> auth) (users db))) (\<lambda>exists.
     ensure (\<not> exists) (AlreadyExists ''Username already taken''))))"

definition update_profile_sets :: "update_profile_request \<Rightarrow> user_row \<Rightarrow> user_row" where
  "update_profile_sets b u = u\<lparr>
     u_username := unwrap_or (u_username u) (map_option trim (up_username b)),
     u_avatar := unwrap_or (u_avatar u) (up_avatar b),
     u_banner := unwrap_or (u_banner u) (up_banner b),
     u_bio := (case up_bio b of None \<Rightarrow> u_bio u | Some x \<Rightarrow> Some x),
     u_locale := unwrap_or (u_locale u) (up_locale b)\<rparr>"

definition profile_unchanged :: "update_profile_request \<Rightarrow> bool" where
  "profile_unchanged b \<longleftrightarrow>
     up_username b = None \<and> up_avatar b = None \<and> up_banner b = None \<and> up_bio b = None \<and> up_locale b = None"

definition update_me :: "snowflake \<Rightarrow> update_profile_request \<Rightarrow> full_user handler" where
  "update_me auth body =
     (let errs = validate_profile body
      in if errs \<noteq> [] then throw (Validation errs)
         else andThen (case up_username body of None \<Rightarrow> ret () | Some name \<Rightarrow> check_username_change auth name)
             (andThen (ensure (\<not> profile_unchanged body) (BadRequest ''No fields to update''))
             (bind (pg_exec (update_live_user auth (update_profile_sets body))) (\<lambda>row.
              bind (ok_or row (NotFound ''User not found'')) (\<lambda>u. ret (full_user_of u))))))"

definition delete_me :: "(ustr \<Rightarrow> string \<Rightarrow> string + bool) \<Rightarrow> snowflake \<Rightarrow> ustr \<Rightarrow> nat handler" where
  "delete_me verify_password auth password =
     bind (pg_query (\<lambda>db. map_option u_password_hash (live_user auth db))) (\<lambda>found.
     bind (ok_or found (NotFound ''User not found'')) (\<lambda>hash.
       case verify_password password hash of
         Inl m \<Rightarrow> throw (Internal m)
       | Inr valid \<Rightarrow>
           andThen (ensure valid (Unauthorized ''Invalid password''))
          (bind (pg_query (\<lambda>db. t_has (\<lambda>s. sv_owner_id s = auth) (servers db))) (\<lambda>owns_servers.
           andThen (ensure (\<not> owns_servers) (BadRequest ''Transfer ownership of all servers before deleting your account''))
          (bind utc_now (\<lambda>now.
           andThen (pg_exec (soft_delete_user auth now))
          (andThen (revoke_all_sessions (show_u64 auth)) (ret 204))))))))"

record partial_server =
  ps_id :: snowflake
  ps_name :: ustr
  ps_icon :: "ustr option"
  ps_owner_id :: snowflake
  ps_member_count :: int
  ps_features :: "ustr list"

definition partial_server_of :: "server_row \<Rightarrow> partial_server" where
  "partial_server_of s = \<lparr>ps_id = sv_id s, ps_name = sv_name s, ps_icon = sv_icon s, ps_owner_id = sv_owner_id s,
     ps_member_count = sv_member_count s, ps_features = sv_features s\<rparr>"

text \<open>\<open>servers s JOIN server_members sm ON sm.server_id = s.id WHERE sm.user_id = $1 ORDER BY sm.joined_at DESC\<close>\<close>

definition joined_servers :: "i64 \<Rightarrow> pg_db \<Rightarrow> server_row list" where
  "joined_servers uid db = map fst (sort_key (\<lambda>(s, m). - mb_joined_at m)
     (concat (map (\<lambda>s. map (\<lambda>m. (s, m)) (filter (\<lambda>m. mb_server_id m = sv_id s \<and> mb_user_id m = uid) (members db)))
       (servers db))))"

definition get_my_servers :: "snowflake \<Rightarrow> partial_server list handler" where
  "get_my_servers auth = bind (pg_query (joined_servers auth)) (\<lambda>rows. ret (map partial_server_of rows))"

section \<open>Relationships\<close>

text \<open>Types: 1 friend, 2 blocked, 3 incoming request, 4 outgoing request.\<close>

record relationship =
  re_id :: snowflake
  re_type :: int
  re_user :: public_user
  re_created_at :: int

definition relationship_rows :: "i64 \<Rightarrow> pg_db \<Rightarrow> (relationship_row \<times> user_row) list" where
  "relationship_rows uid db = sort_key (\<lambda>(r, u). - rl_created_at r)
     (concat (map (\<lambda>r. map (\<lambda>u. (r, u)) (filter (\<lambda>u. u_id u = rl_target_id r \<and> u_deleted_at u = None) (users db)))
       (filter (\<lambda>r. rl_user_id r = uid) (relationships db))))"

definition get_relationships :: "snowflake \<Rightarrow> relationship list handler" where
  "get_relationships auth =
     bind (pg_query (relationship_rows auth)) (\<lambda>rows.
     ret (map (\<lambda>(r, u). \<lparr>re_id = rl_target_id r, re_type = rl_type r, re_user = public_user_of u,
       re_created_at = rl_created_at r\<rparr>) rows))"

definition relation_type :: "i64 \<Rightarrow> i64 \<Rightarrow> pg_db \<Rightarrow> int option" where
  "relation_type a b db = map_option rl_type (t_find (\<lambda>r. rl_user_id r = a \<and> rl_target_id r = b) (relationships db))"

definition has_relation :: "i64 \<Rightarrow> i64 \<Rightarrow> int \<Rightarrow> pg_db \<Rightarrow> bool" where
  "has_relation a b ty db = t_has (\<lambda>r. rl_user_id r = a \<and> rl_target_id r = b \<and> rl_type r = ty) (relationships db)"

definition any_relation :: "i64 \<Rightarrow> i64 \<Rightarrow> pg_db \<Rightarrow> bool" where
  "any_relation a b db = t_has (\<lambda>r. rl_user_id r = a \<and> rl_target_id r = b) (relationships db)"

record create_relationship_request =
  cr_username :: "ustr option"
  cr_user_id :: "i64 option"

definition relationships_subject :: "u64 \<Rightarrow> string" where
  "relationships_subject uid = ''user.'' @ show_u64 uid @ ''.relationships''"

definition relationships_subject_i64 :: "i64 \<Rightarrow> string" where
  "relationships_subject_i64 uid = ''user.'' @ show_i64 uid @ ''.relationships''"

definition resolve_target :: "create_relationship_request \<Rightarrow> i64 handler" where
  "resolve_target body =
     (case cr_user_id body of
        Some uid \<Rightarrow> ret uid
      | None \<Rightarrow>
          (case cr_username body of
             Some name \<Rightarrow>
               bind (pg_query (\<lambda>db. t_find (\<lambda>u. u_username u = name \<and> u_deleted_at u = None) (users db))) (\<lambda>row.
               bind (ok_or row (NotFound ''User not found'')) (\<lambda>u. ret (u_id u)))
           | None \<Rightarrow> throw (BadRequest ''Must provide username or user_id'')))"

definition accept_request :: "snowflake \<Rightarrow> i64 \<Rightarrow> nat handler" where
  "accept_request auth target =
     andThen (pg_exec (set_pair_type auth target 1))
     (let event = JObj [(''type'', jlit ''RELATIONSHIP_ADD''), (''user_id'', jsnow auth), (''target_id'', ji64 target),
            (''relationship_type'', JInt 1)]
      in andThen (publish (relationships_subject auth) event)
        (andThen (publish (relationships_subject_i64 target) event) (ret 204)))"

definition send_request :: "snowflake \<Rightarrow> i64 \<Rightarrow> nat handler" where
  "send_request auth target =
     bind utc_now (\<lambda>now.
     andThen (pg_exec (insert_relationships
         \<lparr>rl_user_id = auth, rl_target_id = target, rl_type = 4, rl_created_at = now\<rparr>
         \<lparr>rl_user_id = target, rl_target_id = auth, rl_type = 3, rl_created_at = now\<rparr>))
    (andThen (publish (relationships_subject auth)
         (JObj [(''type'', jlit ''RELATIONSHIP_ADD''), (''user_id'', jsnow auth), (''target_id'', ji64 target),
            (''relationship_type'', JInt 4)]))
    (andThen (publish (relationships_subject_i64 target)
         (JObj [(''type'', jlit ''RELATIONSHIP_ADD''), (''user_id'', ji64 target), (''target_id'', JInt (uint auth)),
            (''relationship_type'', JInt 3)]))
     (ret 204))))"

definition user_exists :: "i64 \<Rightarrow> pg_db \<Rightarrow> bool" where
  "user_exists uid db = t_has (\<lambda>u. u_id u = uid \<and> u_deleted_at u = None) (users db)"

definition create_relationship :: "snowflake \<Rightarrow> create_relationship_request \<Rightarrow> nat handler" where
  "create_relationship auth body =
     bind (resolve_target body) (\<lambda>target.
     andThen (ensure (target \<noteq> auth) (BadRequest ''Cannot send friend request to yourself''))
    (andThen (if cr_user_id body \<noteq> None
              then bind (pg_query (user_exists target)) (\<lambda>b. ensure b (NotFound ''User not found''))
              else ret ())
    (bind (pg_query (has_relation target auth 2)) (\<lambda>blocked.
     andThen (ensure (\<not> blocked) (BadRequest ''Cannot send friend request to this user''))
    (bind (pg_query (has_relation auth target 2)) (\<lambda>we_blocked.
     andThen (ensure (\<not> we_blocked) (BadRequest ''You have blocked this user. Unblock them first.''))
    (bind (pg_query (has_relation auth target 3)) (\<lambda>incoming.
     if incoming then accept_request auth target
     else bind (pg_query (any_relation auth target)) (\<lambda>existing.
          andThen (ensure (\<not> existing) (AlreadyExists ''Relationship already exists''))
            (send_request auth target))))))))))"

definition removal_event :: "snowflake \<Rightarrow> i64 \<Rightarrow> json" where
  "removal_event auth target =
     JObj [(''type'', jlit ''RELATIONSHIP_REMOVE''), (''user_id'', jsnow auth), (''target_id'', ji64 target)]"

definition remove_relationship :: "snowflake \<Rightarrow> i64 \<Rightarrow> nat handler" where
  "remove_relationship auth target =
     bind (pg_exec (delete_pair auth target)) (\<lambda>n.
     andThen (ensure (n \<noteq> 0) (NotFound ''Relationship not found''))
    (andThen (publish (relationships_subject auth) (removal_event auth target))
    (andThen (publish (relationships_subject_i64 target) (removal_event auth target))
     (ret 204))))"

definition block_user :: "snowflake \<Rightarrow> i64 \<Rightarrow> int \<Rightarrow> nat handler" where
  "block_user auth target rel_type =
     andThen (ensure (rel_type = 2) (BadRequest ''Only type 2 (block) is supported via PUT''))
    (andThen (ensure (target \<noteq> auth) (BadRequest ''Cannot block yourself''))
    (bind (pg_query (user_exists target)) (\<lambda>found.
     andThen (ensure found (NotFound ''User not found''))
    (andThen (pg_exec (delete_pair auth target))
    (bind utc_now (\<lambda>now.
     andThen (pg_exec (insert_relationship \<lparr>rl_user_id = auth, rl_target_id = target, rl_type = 2, rl_created_at = now\<rparr>))
    (andThen (publish (relationships_subject_i64 target) (removal_event auth target))
     (ret 204))))))))"

section \<open>Conversations\<close>

record dm_channel =
  dc_id :: snowflake
  dc_type :: int
  dc_recipients :: "public_user list"
  dc_last_message_id :: "snowflake option"
  dc_name :: "ustr option"
  dc_icon :: "ustr option"

text \<open>\<open>ORDER BY c.last_message_id DESC NULLS LAST\<close>\<close>

definition dm_channel_rows :: "i64 \<Rightarrow> pg_db \<Rightarrow> channel_row list" where
  "dm_channel_rows uid db =
     sort_key (\<lambda>c. case ch_last_message_id c of Some m \<Rightarrow> - sint m | None \<Rightarrow> 2 ^ 63)
       (concat (map (\<lambda>c. map (\<lambda>_. c) (filter (\<lambda>d. dm_channel_id d = ch_id c \<and> dm_user_id d = uid) (dm_recipients db)))
         (filter (\<lambda>c. ch_type c \<in> {1, 3}) (channels db))))"

definition recipient_rows :: "i64 list \<Rightarrow> i64 \<Rightarrow> pg_db \<Rightarrow> (i64 \<times> public_user) list" where
  "recipient_rows cids uid db =
     concat (map (\<lambda>d. map (\<lambda>u. (dm_channel_id d, public_user_of u))
         (filter (\<lambda>u. u_id u = dm_user_id d \<and> u_deleted_at u = None) (users db)))
       (filter (\<lambda>d. dm_channel_id d \<in> set cids \<and> dm_user_id d \<noteq> uid) (dm_recipients db)))"

text \<open>The loop that takes the recipients of each channel out of the map.\<close>

fun assemble_dms :: "(i64 \<Rightarrow> public_user list) \<Rightarrow> channel_row list \<Rightarrow> dm_channel list" where
  "assemble_dms m [] = []"
| "assemble_dms m (c # cs) =
     \<lparr>dc_id = ch_id c, dc_type = ch_type c, dc_recipients = m (ch_id c), dc_last_message_id = ch_last_message_id c,
       dc_name = ch_name c, dc_icon = ch_icon c\<rparr> # assemble_dms (m(ch_id c := [])) cs"

definition get_dm_channels :: "snowflake \<Rightarrow> dm_channel list handler" where
  "get_dm_channels auth =
     bind (pg_query (dm_channel_rows auth)) (\<lambda>rows.
     bind (pg_query (recipient_rows (map ch_id rows) auth)) (\<lambda>all.
     ret (assemble_dms (\<lambda>cid. map snd (filter (\<lambda>p. fst p = cid) all)) rows)))"

record create_dm_request =
  cd_recipient_id :: "i64 option"
  cd_recipients :: "i64 list option"

definition dm_recipient_ids :: "create_dm_request \<Rightarrow> i64 list handler" where
  "dm_recipient_ids body =
     (case cd_recipient_id body of
        Some i \<Rightarrow> ret [i]
      | None \<Rightarrow> ok_or (cd_recipients body) (BadRequest ''Must provide recipient_id or recipients''))"

text \<open>The join of two recipients on a channel of type 1: its first row.\<close>

definition existing_dm :: "i64 \<Rightarrow> i64 \<Rightarrow> pg_db \<Rightarrow> i64 option" where
  "existing_dm a b db =
     map_option ch_id (t_find (\<lambda>c. ch_type c = 1 \<and> is_dm_recipient (ch_id c) a db \<and> is_dm_recipient (ch_id c) b db)
       (channels db))"

definition dm_channel_row :: "i64 \<Rightarrow> int \<Rightarrow> int \<Rightarrow> channel_row" where
  "dm_channel_row cid ty now = \<lparr>ch_id = cid, ch_server_id = None, ch_parent_id = None, ch_type = ty, ch_name = None,
     ch_topic = None, ch_position = 0, ch_bitrate = None, ch_user_limit = None, ch_rate_limit = 0, ch_nsfw = False,
     ch_last_message_id = None, ch_icon = None, ch_e2ee_enabled = False, ch_created_at = now\<rparr>"

definition open_dm :: "snowflake \<Rightarrow> i64 list \<Rightarrow> (nat \<times> dm_channel) handler" where
  "open_dm auth recipient_ids =
     bind fresh_id (\<lambda>cid.
     let ty = (if length recipient_ids = 1 then 1 else 3)
     in bind utc_now (\<lambda>now.
        andThen (pg_exec (insert_channel (dm_channel_row cid ty now)))
       (andThen (for_each (\<lambda>uid. pg_exec (insert_dm_recipient cid uid)) (auth # recipient_ids))
       (bind (pg_query (\<lambda>db. map public_user_of
            (filter (\<lambda>u. u_id u \<in> set recipient_ids \<and> u_id u \<noteq> auth \<and> u_deleted_at u = None) (users db)))) (\<lambda>recipients.
        ret (201, \<lparr>dc_id = cid, dc_type = ty, dc_recipients = recipients, dc_last_message_id = None,
          dc_name = None, dc_icon = None\<rparr>))))))"

definition create_dm_channel :: "snowflake \<Rightarrow> create_dm_request \<Rightarrow> (nat \<times> dm_channel) handler" where
  "create_dm_channel auth body =
     bind (dm_recipient_ids body) (\<lambda>recipient_ids.
     andThen (ensure (recipient_ids \<noteq> []) (BadRequest ''Must provide at least one recipient''))
    (andThen (ensure (\<not> length recipient_ids > 9) (BadRequest ''Group DM limited to 10 users''))
    (andThen (ensure (recipient_ids \<noteq> [auth]) (BadRequest ''Cannot create DM with yourself''))
     (case recipient_ids of
        [other] \<Rightarrow>
          bind (pg_query (has_relation other auth 2)) (\<lambda>blocked.
          andThen (ensure (\<not> blocked) (Forbidden ''Cannot send DM to this user''))
         (bind (pg_query (existing_dm auth other)) (\<lambda>existing.
            case existing of
              Some cid \<Rightarrow>
                bind (pg_query (live_user other)) (\<lambda>row.
                bind (ok_or row (NotFound ''Recipient not found'')) (\<lambda>u.
                ret (200, \<lparr>dc_id = cid, dc_type = 1, dc_recipients = [public_user_of u], dc_last_message_id = None,
                  dc_name = None, dc_icon = None\<rparr>)))
            | None \<Rightarrow> open_dm auth recipient_ids)))
      | _ \<Rightarrow> open_dm auth recipient_ids))))"

section \<open>Settings and presence\<close>

definition get_settings :: "snowflake \<Rightarrow> settings_row handler" where
  "get_settings auth =
     bind (pg_query (\<lambda>db. t_find (\<lambda>r. st_user_id r = auth) (user_settings db))) (\<lambda>row.
     ok_or row (NotFound ''Settings not found''))"

record update_settings_request =
  ut_theme :: "ustr option"
  ut_message_display :: "ustr option"
  ut_locale :: "ustr option"
  ut_show_current_game :: "bool option"
  ut_inline_attachment_media :: "bool option"
  ut_inline_embed_media :: "bool option"
  ut_render_embeds :: "bool option"
  ut_render_reactions :: "bool option"
  ut_animate_emoji :: "bool option"
  ut_enable_tts :: "bool option"
  ut_status :: "ustr option"
  ut_custom_status :: "json option option"
  ut_dm_notifications :: "bool option"
  ut_friend_request_notifications :: "bool option"

definition valid_statuses :: "ustr list" where
  "valid_statuses = [lit ''online'', lit ''idle'', lit ''dnd'', lit ''invisible'']"

definition invalid_status :: app_error where
  "invalid_status = BadRequest ''Invalid status. Must be one of: online, idle, dnd, invisible''"

definition settings_unchanged :: "update_settings_request \<Rightarrow> bool" where
  "settings_unchanged b \<longleftrightarrow>
     ut_theme b = None \<and> ut_message_display b = None \<and> ut_locale b = None \<and> ut_show_current_game b = None \<and>
     ut_inline_attachment_media b = None \<and> ut_inline_embed_media b = None \<and> ut_render_embeds b = None \<and>
     ut_render_reactions b = None \<and> ut_animate_emoji b = None \<and> ut_enable_tts b = None \<and> ut_status b = None \<and>
     ut_custom_status b = None \<and> ut_dm_notifications b = None \<and> ut_friend_request_notifications b = None"

definition update_settings_sets :: "update_settings_request \<Rightarrow> settings_row \<Rightarrow> settings_row" where
  "update_settings_sets b r = r\<lparr>
     st_theme := unwrap_or (st_theme r) (ut_theme b),
     st_message_display := unwrap_or (st_message_display r) (ut_message_display b),
     st_locale := unwrap_or (st_locale r) (ut_locale b),
     st_show_current_game := unwrap_or (st_show_current_game r) (ut_show_current_game b),
     st_inline_attachment_media := unwrap_or (st_inline_attachment_media r) (ut_inline_attachment_media b),
     st_inline_embed_media := unwrap_or (st_inline_embed_media r) (ut_inline_embed_media b),
     st_render_embeds := unwrap_or (st_render_embeds r) (ut_render_embeds b),
     st_render_reactions := unwrap_or (st_render_reactions r) (ut_render_reactions b),
     st_animate_emoji := unwrap_or (st_animate_emoji r) (ut_animate_emoji b),
     st_enable_tts := unwrap_or (st_enable_tts r) (ut_enable_tts b),
     st_status := unwrap_or (st_status r) (ut_status b),
     st_custom_status := unwrap_or (st_custom_status r) (ut_custom_status b),
     st_dm_notifications := unwrap_or (st_dm_notifications r) (ut_dm_notifications b),
     st_friend_request_notifications := unwrap_or (st_friend_request_notifications r) (ut_friend_request_notifications b)\<rparr>"

definition jopt_json :: "json option \<Rightarrow> json" where
  "jopt_json v = (case v of None \<Rightarrow> JNull | Some j \<Rightarrow> j)"

definition presence_key :: "u64 \<Rightarrow> string" where
  "presence_key uid = ''presence:'' @ show_u64 uid"

definition presence_event :: "u64 \<Rightarrow> ustr \<Rightarrow> json option \<Rightarrow> json" where
  "presence_event uid status custom_status =
     JObj [(''type'', jlit ''PRESENCE_UPDATE''), (''user_id'', jsnow uid), (''status'', JStr status),
       (''custom_status'', jopt_json custom_status)]"

definition update_presence_in_redis :: "(int \<Rightarrow> ustr) \<Rightarrow> snowflake \<Rightarrow> ustr \<Rightarrow> json option \<Rightarrow> unit handler" where
  "update_presence_in_redis rfc3339 uid status custom_status =
     bind utc_now (\<lambda>now.
     andThen (redis_set_ex (presence_key uid) (RJson (JObj [(''status'', JStr status),
         (''custom_status'', jopt_json custom_status), (''last_active'', JStr (rfc3339 now))])) 300)
     (if status \<noteq> lit ''invisible''
      then publish (''user.'' @ show_u64 uid @ ''.presence'') (presence_event uid status custom_status)
      else ret ()))"

definition update_settings :: "(int \<Rightarrow> ustr) \<Rightarrow> snowflake \<Rightarrow> update_settings_request \<Rightarrow> settings_row handler" where
  "update_settings rfc3339 auth body =
     andThen (case ut_status body of None \<Rightarrow> ret () | Some s \<Rightarrow> ensure (s \<in> set valid_statuses) invalid_status)
    (andThen (ensure (\<not> settings_unchanged body) (BadRequest ''No fields to update''))
    (bind (pg_exec (update_settings_row auth (update_settings_sets body))) (\<lambda>found.
     bind (ok_or found (NotFound ''Settings not found'')) (\<lambda>row.
     andThen (if ut_status body \<noteq> None \<or> ut_custom_status body \<noteq> None
              then update_presence_in_redis rfc3339 auth (st_status row) (st_custom_status row) else ret ())
       (ret row)))))"

definition update_presence :: "(int \<Rightarrow> ustr) \<Rightarrow> snowflake \<Rightarrow> ustr \<Rightarrow> json option \<Rightarrow> nat handler" where
  "update_presence rfc3339 auth status custom_status =
     andThen (ensure (status \<in> set valid_statuses) invalid_status)
    (andThen (pg_exec (update_settings_row auth (\<lambda>r. r\<lparr>st_status := status, st_custom_status := custom_status\<rparr>)))
    (andThen (update_presence_in_redis rfc3339 auth status custom_status)
     (ret 204)))"

section \<open>Notes\<close>

definition get_note :: "snowflake \<Rightarrow> i64 \<Rightarrow> ustr option handler" where
  "get_note auth target =
     bind (pg_query (\<lambda>db. t_find (\<lambda>n. nt_user_id n = auth \<and> nt_target_id n = target) (user_notes db))) (\<lambda>row.
     ret (map_option nt_note row))"

definition set_note :: "snowflake \<Rightarrow> i64 \<Rightarrow> ustr \<Rightarrow> nat handler" where
  "set_note auth target note =
     andThen (ensure (\<not> length note > 256) (BadRequest ''Note must be 256 characters or less''))
    (andThen (if note = [] then pg_exec (delete_note auth target) else pg_exec (upsert_note auth target note))
     (ret 204))"

end
