(* ===== verification/Relation_Properties.thy ===== *)
theory Relation_Properties
  imports Users Handler_Logic Demo
begin

text \<open>
  The relationship routes as a state machine on pairs of users. The two rows of the table
  \<open>relationships\<close> for a pair encode one of six situations; every request moves along the edges of
  the machine \<open>link_next\<close>, and no failure leads outside of it.
\<close>

section \<open>The situation of a pair\<close>

datatype link = Strangers | Friends | Asked i64 | Blocked i64 | Broken

definition link_of :: "i64 \<Rightarrow> i64 \<Rightarrow> int option \<Rightarrow> int option \<Rightarrow> link" where
  "link_of a b x y =
     (if x = None \<and> y = None then Strangers
      else if x = Some 1 \<and> y = Some 1 then Friends
      else if x = Some 4 \<and> y = Some 3 then Asked a
      else if x = Some 3 \<and> y = Some 4 then Asked b
      else if x = Some 2 \<and> y = None then Blocked a
      else if x = None \<and> y = Some 2 then Blocked b
      else Broken)"

definition link_between :: "i64 \<Rightarrow> i64 \<Rightarrow> pg_db \<Rightarrow> link" where
  "link_between a b db = link_of a b (relation_type a b db) (relation_type b a db)"

definition relation_keys_ok :: "pg_db \<Rightarrow> bool" where
  "relation_keys_ok db \<longleftrightarrow> distinct (map (\<lambda>r. (rl_user_id r, rl_target_id r)) (relationships db))"

definition relations_ok :: "pg_db \<Rightarrow> bool" where
  "relations_ok db \<longleftrightarrow> relation_keys_ok db \<and> (\<forall>a b. link_between a b db \<noteq> Broken) \<and> (\<forall>a. relation_type a a db = None)"

lemma link_of_swap: "a \<noteq> b \<Longrightarrow> link_of b a y x = link_of a b x y"
  by (auto simp: link_of_def)

lemma link_of_range: "link_of a b x y \<in> {Strangers, Friends, Asked a, Asked b, Blocked a, Blocked b, Broken}"
  by (simp add: link_of_def)

lemma blocked_row: "link_of a b x y = Blocked c \<Longrightarrow> x \<noteq> None \<or> y \<noteq> None"
  by (cases "x = None \<and> y = None") (simp_all add: link_of_def)

lemma link_self: "relation_type a a db = None \<Longrightarrow> link_between a a db = Strangers"
  by (simp add: link_between_def link_of_def)

section \<open>The statements\<close>

lemma relation_insert:
  assumes "insert_relationship r db = Inr (db', u)"
  shows "relation_type (rl_user_id r) (rl_target_id r) db = None"
    "relation_type a b db' =
       (if (a, b) = (rl_user_id r, rl_target_id r) then Some (rl_type r) else relation_type a b db)"
    "relation_keys_ok db \<Longrightarrow> relation_keys_ok db'"
proof -
  have new: "\<not> t_has (\<lambda>x. rl_user_id x = rl_user_id r \<and> rl_target_id x = rl_target_id r) (relationships db)"
    and db': "db' = db\<lparr>relationships := t_insert r (relationships db)\<rparr>"
    using assms by (auto simp: insert_relationship_def split: if_splits)
  then show gone: "relation_type (rl_user_id r) (rl_target_id r) db = None"
    by (auto simp: relation_type_def t_has_find)
  show "relation_type a b db' =
       (if (a, b) = (rl_user_id r, rl_target_id r) then Some (rl_type r) else relation_type a b db)"
    using gone by (auto simp: db' relation_type_def find_insert split: option.splits)
  show "relation_keys_ok db \<Longrightarrow> relation_keys_ok db'"
    unfolding relation_keys_ok_def db' using new by (auto intro!: distinct_map_t_insert)
qed

lemma relation_insert_two:
  assumes "insert_relationships r r' db = Inr (db', u)" "(rl_user_id r, rl_target_id r) \<noteq> (rl_user_id r', rl_target_id r')"
  shows "relation_type a b db' =
       (if (a, b) = (rl_user_id r', rl_target_id r') then Some (rl_type r')
        else if (a, b) = (rl_user_id r, rl_target_id r) then Some (rl_type r) else relation_type a b db)"
    "relation_keys_ok db \<Longrightarrow> relation_keys_ok db'"
proof -
  obtain d where d: "insert_relationship r db = Inr (d, ())" "insert_relationship r' d = Inr (db', u)"
    using assms(1) by (auto simp: insert_relationships_def split: sum.splits)
  show "relation_type a b db' =
       (if (a, b) = (rl_user_id r', rl_target_id r') then Some (rl_type r')
        else if (a, b) = (rl_user_id r, rl_target_id r) then Some (rl_type r) else relation_type a b db)"
    using assms(2) by (auto simp: relation_insert(2) [OF d(1)] relation_insert(2) [OF d(2)])
  show "relation_keys_ok db \<Longrightarrow> relation_keys_ok db'"
    using relation_insert(3) [OF d(1)] relation_insert(3) [OF d(2)] by simp
qed

lemma relation_set_pair:
  assumes "set_pair_type x y ty db = Inr (db', u)"
  shows "relation_type a b db' =
       (if (a, b) = (x, y) \<or> (a, b) = (y, x) then map_option (\<lambda>_. ty) (relation_type a b db) else relation_type a b db)"
    "relation_keys_ok db' = relation_keys_ok db"
proof -
  have db': "db' = db\<lparr>relationships := t_update (is_pair x y) (\<lambda>r. r\<lparr>rl_type := ty\<rparr>) (relationships db)\<rparr>"
    using assms by (simp add: set_pair_type_def)
  show "relation_type a b db' =
       (if (a, b) = (x, y) \<or> (a, b) = (y, x) then map_option (\<lambda>_. ty) (relation_type a b db) else relation_type a b db)"
  proof (cases "(a, b) = (x, y) \<or> (a, b) = (y, x)")
    case True
    then have "t_find (\<lambda>r. rl_user_id r = a \<and> rl_target_id r = b) (relationships db') =
        map_option (\<lambda>r. r\<lparr>rl_type := ty\<rparr>) (t_find (\<lambda>r. rl_user_id r = a \<and> rl_target_id r = b) (relationships db))"
      unfolding db' by (simp, intro find_update(1)) (auto simp: is_pair_def)
    then show ?thesis using True by (simp add: relation_type_def option.map_comp comp_def)
  next
    case False
    then have "t_find (\<lambda>r. rl_user_id r = a \<and> rl_target_id r = b) (relationships db') =
        t_find (\<lambda>r. rl_user_id r = a \<and> rl_target_id r = b) (relationships db)"
      unfolding db' by (simp, intro find_update(2)) (auto simp: is_pair_def)
    then show ?thesis unfolding if_not_P [OF False] by (simp add: relation_type_def)
  qed
  show "relation_keys_ok db' = relation_keys_ok db"
    by (simp add: relation_keys_ok_def db' map_t_update_same)
qed

lemma relation_delete_pair:
  assumes "delete_pair x y db = Inr (db', n)"
  shows "relation_type a b db' = (if (a, b) = (x, y) \<or> (a, b) = (y, x) then None else relation_type a b db)"
    "relation_keys_ok db \<Longrightarrow> relation_keys_ok db'"
    "n = 0 \<longleftrightarrow> relation_type x y db = None \<and> relation_type y x db = None"
proof -
  have db': "db' = db\<lparr>relationships := t_delete (is_pair x y) (relationships db)\<rparr>"
    and n: "n = t_count (is_pair x y) (relationships db)"
    using assms by (simp_all add: delete_pair_def)
  show "relation_type a b db' = (if (a, b) = (x, y) \<or> (a, b) = (y, x) then None else relation_type a b db)"
  proof (cases "(a, b) = (x, y) \<or> (a, b) = (y, x)")
    case True
    then have "t_find (\<lambda>r. rl_user_id r = a \<and> rl_target_id r = b) (relationships db') = None"
      unfolding db' by (simp, intro find_delete(2)) (auto simp: is_pair_def)
    then show ?thesis using True by (simp add: relation_type_def)
  next
    case False
    then have "t_find (\<lambda>r. rl_user_id r = a \<and> rl_target_id r = b) (relationships db') =
        t_find (\<lambda>r. rl_user_id r = a \<and> rl_target_id r = b) (relationships db)"
      unfolding db' by (simp, intro find_delete(1)) (auto simp: is_pair_def)
    then show ?thesis unfolding if_not_P [OF False] by (simp add: relation_type_def)
  qed
  show "relation_keys_ok db \<Longrightarrow> relation_keys_ok db'"
    by (simp add: relation_keys_ok_def db' distinct_map_t_delete)
  show "n = 0 \<longleftrightarrow> relation_type x y db = None \<and> relation_type y x db = None"
    using t_count_pos [of "is_pair x y" "relationships db"]
    by (auto simp: n relation_type_def t_find_None_iff is_pair_def)
qed

text \<open>What the guards read.\<close>

lemma has_relation_iff:
  assumes "relation_keys_ok db"
  shows "has_relation a b ty db \<longleftrightarrow> relation_type a b db = Some ty"
proof
  assume "has_relation a b ty db"
  then obtain r where r: "r \<in> set (relationships db)" "rl_user_id r = a" "rl_target_id r = b" "rl_type r = ty"
    by (auto simp: has_relation_def t_has_iff)
  show "relation_type a b db = Some ty"
    using find_key [OF assms [unfolded relation_keys_ok_def] r(1)] r by (simp add: relation_type_def)
next
  assume "relation_type a b db = Some ty"
  then show "has_relation a b ty db"
    by (auto simp: has_relation_def relation_type_def t_has_iff dest: t_find_SomeD)
qed

lemma any_relation_iff: "any_relation a b db \<longleftrightarrow> relation_type a b db \<noteq> None"
  by (simp add: any_relation_def relation_type_def t_has_find)

section \<open>The machine\<close>

datatype relation_request = Ask create_relationship_request | Unlink i64 | Block i64 int

definition relate :: "i64 \<Rightarrow> relation_request \<Rightarrow> nat handler" where
  "relate me req = (case req of
      Ask body \<Rightarrow> create_relationship me body
    | Unlink other \<Rightarrow> remove_relationship me other
    | Block other ty \<Rightarrow> block_user me other ty)"

definition named_user :: "relation_request \<Rightarrow> pg_db \<Rightarrow> i64 option" where
  "named_user req db = (case req of
      Ask body \<Rightarrow>
        (case cr_user_id body of
           Some i \<Rightarrow> Some i
         | None \<Rightarrow> (case cr_username body of
             None \<Rightarrow> None
           | Some name \<Rightarrow> map_option u_id (t_find (\<lambda>u. u_username u = name \<and> u_deleted_at u = None) (users db))))
    | Unlink other \<Rightarrow> Some other
    | Block other ty \<Rightarrow> Some other)"

text \<open>The edges; \<open>None\<close> is a refusal.\<close>

definition link_next :: "i64 \<Rightarrow> relation_request \<Rightarrow> link \<Rightarrow> link option" where
  "link_next me req l = (case req of
      Ask _ \<Rightarrow> (case l of Strangers \<Rightarrow> Some (Asked me) | Asked who \<Rightarrow> if who = me then None else Some Friends | _ \<Rightarrow> None)
    | Unlink _ \<Rightarrow> if l = Strangers then None else Some Strangers
    | Block _ _ \<Rightarrow> Some (Blocked me))"

definition others_kept :: "i64 \<Rightarrow> i64 \<Rightarrow> pg_db \<Rightarrow> pg_db \<Rightarrow> bool" where
  "others_kept x y s t \<longleftrightarrow>
     (\<forall>a b. (a, b) \<noteq> (x, y) \<longrightarrow> (a, b) \<noteq> (y, x) \<longrightarrow> relation_type a b t = relation_type a b s)"

text \<open>A transition of one pair: the other pairs keep their rows, and the keys stay unique.\<close>

definition moves :: "i64 \<Rightarrow> i64 \<Rightarrow> link set \<Rightarrow> pg_db \<Rightarrow> pg_db \<Rightarrow> bool" where
  "moves x y L s t \<longleftrightarrow> relation_keys_ok t \<and> others_kept x y s t \<and> link_between x y t \<in> L \<and>
     (x = y \<longrightarrow> relation_type x y t = relation_type x y s)"

lemma moves_refl: "relation_keys_ok s \<Longrightarrow> link_between x y s \<in> L \<Longrightarrow> moves x y L s s"
  by (simp add: moves_def others_kept_def)

lemma moves_ok:
  assumes "relations_ok s" "moves x y L s t" "Broken \<notin> L"
  shows "relations_ok t"
proof -
  have same: "relation_type a b t = relation_type a b s" if "(a, b) \<noteq> (x, y)" "(a, b) \<noteq> (y, x)" for a b
    using assms(2) that by (simp add: moves_def others_kept_def)
  have pair: "link_between x y t \<noteq> Broken" using assms(2, 3) by (auto simp: moves_def)
  have "link_between a b t \<noteq> Broken" for a b
  proof -
    consider "(a, b) = (x, y)" | "(a, b) = (y, x)" "a \<noteq> b" | "(a, b) \<noteq> (x, y)" "(a, b) \<noteq> (y, x)" by blast
    then show ?thesis
    proof cases
      case 1 then show ?thesis using pair by simp
    next
      case 2 then show ?thesis
        using pair link_of_swap [of x y "relation_type y x t" "relation_type x y t"] by (simp add: link_between_def)
    next
      case 3
      then have "link_between a b t = link_between a b s" using same [of a b] same [of b a] by (auto simp: link_between_def)
      then show ?thesis using assms(1) by (simp add: relations_ok_def)
    qed
  qed
  moreover have "relation_type a a t = None" for a
    using same [of a a] assms by (cases "x = y \<and> a = x") (auto simp: relations_ok_def moves_def)
  ultimately show ?thesis using assms(2) by (simp add: relations_ok_def moves_def)
qed

text \<open>One request: what it may leave behind when it succeeds, and when it does not.\<close>

definition linked :: "i64 \<Rightarrow> relation_request \<Rightarrow> pg_db \<Rightarrow> pg_db \<Rightarrow> bool" where
  "linked me req s t \<longleftrightarrow> (\<exists>other l. named_user req s = Some other \<and>
     link_next me req (link_between me other s) = Some l \<and> moves me other {l} s t)"

definition unlinked :: "i64 \<Rightarrow> relation_request \<Rightarrow> pg_db \<Rightarrow> pg_db \<Rightarrow> bool" where
  "unlinked me req s t \<longleftrightarrow> (\<exists>other ty. req = Block other ty \<and> moves me other {Strangers} s t)"

lemma linkedI:
  "named_user req s = Some other \<Longrightarrow> link_next me req (link_between me other s) = Some l \<Longrightarrow> moves me other {l} s t \<Longrightarrow>
   linked me req s t"
  by (auto simp: linked_def)

lemma wps_resolve_target:
  assumes "\<And>other. named_user (Ask body) s = Some other \<Longrightarrow> Q other s" "\<And>e. E e s"
  shows "wps (resolve_target body) Q E s"
  unfolding resolve_target_def by (intro wp) (use assms in \<open>auto simp: named_user_def\<close>)

lemma ok_parts:
  assumes "relations_ok s"
  shows "relation_keys_ok s" "link_between a b s \<noteq> Broken" "relation_type a a s = None"
  using assms by (auto simp: relations_ok_def)

lemma accepted:
  assumes "relations_ok s" "has_relation me other 3 s" "set_pair_type me other 1 s = Inr (t, u)"
    "named_user (Ask body) s = Some other"
  shows "linked me (Ask body) s t"
proof -
  have x: "relation_type me other s = Some 3" using assms(2) has_relation_iff ok_parts [OF assms(1)] by auto
  then have ne: "me \<noteq> other" using ok_parts(3) [OF assms(1), of me] by auto
  have y: "relation_type other me s = Some 4"
    using ok_parts(2) [OF assms(1), of me other] x by (auto simp: link_between_def link_of_def split: if_splits)
  show ?thesis
    by (rule linkedI [OF assms(4), where l = Friends])
      (use ne x y relation_set_pair [OF assms(3)] ok_parts(1) [OF assms(1)] in
        \<open>auto simp: link_next_def link_between_def link_of_def moves_def others_kept_def\<close>)
qed

lemma asked:
  assumes "relations_ok s" "\<not> has_relation other me 2 s" "\<not> any_relation me other s" "other \<noteq> me"
    "insert_relationships \<lparr>rl_user_id = me, rl_target_id = other, rl_type = 4, rl_created_at = now\<rparr>
       \<lparr>rl_user_id = other, rl_target_id = me, rl_type = 3, rl_created_at = now\<rparr> s = Inr (t, u)"
    "named_user (Ask body) s = Some other"
  shows "linked me (Ask body) s t"
proof -
  have x: "relation_type me other s = None" using assms(3) by (simp add: any_relation_iff)
  have "relation_type other me s \<noteq> Some 2"
    using assms(2) has_relation_iff ok_parts [OF assms(1)] by auto
  then have y: "relation_type other me s = None"
    using ok_parts(2) [OF assms(1), of me other] x by (auto simp: link_between_def link_of_def split: if_splits)
  have two: "relation_keys_ok t" "relation_type a b t = (if (a, b) = (other, me) then Some 3
      else if (a, b) = (me, other) then Some 4 else relation_type a b s)" for a b
    using relation_insert_two [OF assms(5)] assms(4) ok_parts(1) [OF assms(1)] by simp_all
  show ?thesis
    by (rule linkedI [OF assms(6), where l = "Asked me"])
      (use assms(4) x y two in \<open>auto simp: link_next_def link_between_def link_of_def moves_def others_kept_def\<close>)
qed

lemma wps_create_relationship:
  assumes ok: "relations_ok s"
  shows "wps (create_relationship me body) (\<lambda>_. linked me (Ask body) s) (\<lambda>_ t. t = s \<or> linked me (Ask body) s t) s"
  unfolding create_relationship_def accept_request_def send_request_def Let_def
  by (intro wp wps_resolve_target) (auto intro: accepted [OF ok] asked [OF ok])

lemma dropped:
  assumes "relations_ok s" "delete_pair me other s = Inr (t, n)"
  shows "moves me other {Strangers} s t"
  using relation_delete_pair [OF assms(2)] ok_parts [OF assms(1)]
  by (auto simp: moves_def others_kept_def link_between_def link_of_def)

lemma removed:
  assumes "relations_ok s" "delete_pair me other s = Inr (t, n)" "n \<noteq> 0"
  shows "linked me (Unlink other) s t"
proof (rule linkedI [OF _ _ dropped [OF assms(1, 2)]])
  show "named_user (Unlink other) s = Some other" by (simp add: named_user_def)
  show "link_next me (Unlink other) (link_between me other s) = Some Strangers"
    using relation_delete_pair(3) [OF assms(2)] assms(3) by (auto simp: link_next_def link_between_def link_of_def split: if_splits)
qed

lemma wps_remove_relationship:
  assumes ok: "relations_ok s"
  shows "wps (remove_relationship me other) (\<lambda>_. linked me (Unlink other) s)
    (\<lambda>_ t. moves me other {Strangers, link_between me other s} s t) s"
  unfolding remove_relationship_def
  by (intro wp) (auto intro: removed [OF ok] moves_refl ok_parts [OF ok] dest: dropped [OF ok] simp: moves_def others_kept_def)

lemma blocked:
  assumes "relations_ok s" "delete_pair me other s = Inr (d, n)" "other \<noteq> me"
    "insert_relationship \<lparr>rl_user_id = me, rl_target_id = other, rl_type = 2, rl_created_at = now\<rparr> d = Inr (t, u)"
  shows "linked me (Block other ty) s t"
proof (rule linkedI)
  show "named_user (Block other ty) s = Some other" by (simp add: named_user_def)
  show "link_next me (Block other ty) (link_between me other s) = Some (Blocked me)" by (simp add: link_next_def)
  show "moves me other {Blocked me} s t"
    using relation_delete_pair [OF assms(2)] relation_insert [OF assms(4)] ok_parts [OF assms(1)] assms(3)
    by (auto simp: moves_def others_kept_def link_between_def link_of_def)
qed

lemma wps_block_user:
  assumes ok: "relations_ok s"
  shows "wps (block_user me other ty) (\<lambda>_. linked me (Block other ty) s)
    (\<lambda>_ t. t = s \<or> linked me (Block other ty) s t \<or> unlinked me (Block other ty) s t) s"
  unfolding block_user_def
  by (intro wp) (auto intro: blocked [OF ok] dest: dropped [OF ok] simp: unlinked_def)

section \<open>The relationship system\<close>

lemma request_simps:
  "named_user (Unlink i) s = Some i" "named_user (Block i ty) s = Some i"
  "link_next me (Unlink i) l = (if l = Strangers then None else Some Strangers)"
  "link_next me (Block i ty) l = Some (Blocked me)"
  by (simp_all add: named_user_def link_next_def)

text \<open>A step serves one request, with any failures on the way, or is work of other code, which leaves the table alone.\<close>

inductive relation_step :: "world \<Rightarrow> world \<Rightarrow> bool" where
  related: "relation_step w (snd (relate me req w))"
| elsewhere: "relationships (w_pg w') = relationships (w_pg w) \<Longrightarrow> relation_step w w'"

definition no_relations :: "world \<Rightarrow> bool" where
  "no_relations w \<longleftrightarrow> relationships (w_pg w) = []"

lemma wps_relate:
  assumes "relations_ok s"
  shows "wps (relate me req) (\<lambda>_. linked me req s)
    (\<lambda>_ t. t = s \<or> linked me req s t \<or> unlinked me req s t \<or>
       (\<exists>other. req = Unlink other \<and> moves me other {Strangers, link_between me other s} s t)) s"
  unfolding relate_def
  by (cases req) (auto intro: wps_mono [OF wps_create_relationship [OF assms]]
      wps_mono [OF wps_remove_relationship [OF assms]] wps_mono [OF wps_block_user [OF assms]])

lemma next_not_broken: "link_next me req l = Some l' \<Longrightarrow> l' \<noteq> Broken"
  by (auto simp: link_next_def split: relation_request.splits link.splits if_splits)

lemma linked_ok: "relations_ok s \<Longrightarrow> linked me req s t \<Longrightarrow> relations_ok t"
  by (auto simp: linked_def elim!: moves_ok dest: next_not_broken)

lemma relate_ok:
  assumes "relations_ok (w_pg w)"
  shows "relations_ok (w_pg (snd (relate me req w)))"
proof (rule keepsD [where I = relations_ok, OF _ assms], rule keepsI)
  fix s assume ok: "relations_ok s"
  show "wps (relate me req) (\<lambda>_. relations_ok) (\<lambda>_. relations_ok) s"
    by (rule wps_mono [OF wps_relate [OF ok]])
      (use ok ok_parts(2) [OF ok, symmetric] in \<open>auto simp: unlinked_def intro: linked_ok [OF ok] moves_ok [OF ok]\<close>)
qed

lemma relations_ok_same:
  assumes "relationships t = relationships s"
  shows "relations_ok t = relations_ok s" "relation_type a b t = relation_type a b s"
  by (simp_all add: relations_ok_def relation_keys_ok_def link_between_def relation_type_def assms)

interpretation relations: invariant_system no_relations relation_step "\<lambda>w. relations_ok (w_pg w)"
proof unfold_locales
  fix w assume "no_relations w"
  then show "relations_ok (w_pg w)"
    by (simp add: no_relations_def relations_ok_def relation_keys_ok_def link_between_def relation_type_def t_find_def link_of_def)
next
  fix w w' assume "relations_ok (w_pg w)" "relation_step w w'"
  from this(2, 1) show "relations_ok (w_pg w')"
    by (cases rule: relation_step.cases) (auto intro: relate_ok dest: relations_ok_same(1))
qed

text \<open>C19: The two rows of a pair always agree: in every state that requests, whatever fails on the way, can lead to, the
  rows of two users encode strangers, friends, a request with its sender or a block with its author, both users see
  the same situation, and nobody is related to himself.\<close>

theorem relations_always_agree:
  assumes "reach no_relations relation_step w"
  shows "link_between a b (w_pg w) \<in> {Strangers, Friends, Asked a, Asked b, Blocked a, Blocked b} \<and>
    link_between b a (w_pg w) = link_between a b (w_pg w) \<and> link_between a a (w_pg w) = Strangers"
proof -
  note ok = ok_parts [OF relations.reach_inv [OF assms]]
  have range: "link_between a b (w_pg w) \<in> {Strangers, Friends, Asked a, Asked b, Blocked a, Blocked b}"
    using ok(2) [of a b] link_of_range unfolding link_between_def by blast
  have "link_between b a (w_pg w) = link_between a b (w_pg w)"
    by (cases "a = b") (simp_all add: link_between_def link_of_swap)
  with range show ?thesis using link_self [OF ok(3)] by blast
qed

text \<open>C20: The routes refine the machine: a request that succeeds takes the pair of caller and target along its edge of
  \<open>link_next\<close>; one that fails leaves the pair alone, or has taken the edge without the answer arriving, or, when a block
  is cut short between its two statements, leaves strangers. No other pair changes.\<close>

theorem relation_machine_refined:
  assumes "reach no_relations relation_step w" "relate me req w = (r, w')" "named_user req (w_pg w) = Some other"
  shows "(case r of
      Inr _ \<Rightarrow> link_next me req (link_between me other (w_pg w)) = Some (link_between me other (w_pg w'))
    | Inl _ \<Rightarrow> link_between me other (w_pg w') = link_between me other (w_pg w) \<or>
        link_next me req (link_between me other (w_pg w)) = Some (link_between me other (w_pg w')) \<or>
        (\<exists>ty. req = Block other ty) \<and> link_between me other (w_pg w') = Strangers) \<and>
    ({a, b} = {me, other} \<or> link_between a b (w_pg w') = link_between a b (w_pg w))"
proof -
  note w = wpsD [OF wps_relate [OF relations.reach_inv [OF assms(1)]], of me req]
  have E: "r = Inl e \<Longrightarrow> w_pg w' = w_pg w \<or> linked me req (w_pg w) (w_pg w') \<or> unlinked me req (w_pg w) (w_pg w') \<or>
      (\<exists>o'. req = Unlink o' \<and> moves me o' {Strangers, link_between me o' (w_pg w)} (w_pg w) (w_pg w'))" for e
    using w(2) assms(2) by simp
  have Q: "r = Inr x \<Longrightarrow> linked me req (w_pg w) (w_pg w')" for x
    using w(1) assms(2) by simp
  have edge: "case r of
      Inr _ \<Rightarrow> link_next me req (link_between me other (w_pg w)) = Some (link_between me other (w_pg w'))
    | Inl _ \<Rightarrow> link_between me other (w_pg w') = link_between me other (w_pg w) \<or>
        link_next me req (link_between me other (w_pg w)) = Some (link_between me other (w_pg w')) \<or>
        (\<exists>ty. req = Block other ty) \<and> link_between me other (w_pg w') = Strangers"
  proof (cases r)
    case (Inr x)
    then show ?thesis using Q assms(3) by (auto simp: linked_def moves_def)
  next
    case (Inl e)
    then show ?thesis using E [OF Inl] assms(3)
      by (auto simp: linked_def unlinked_def moves_def request_simps)
  qed
  have "w_pg w' = w_pg w \<or> others_kept me other (w_pg w) (w_pg w')"
    using E Q assms(3) by (cases r) (auto simp: linked_def unlinked_def moves_def request_simps)
  then have "{a, b} = {me, other} \<or> link_between a b (w_pg w') = link_between a b (w_pg w)"
    by (cases "{a, b} = {me, other}") (auto simp: others_kept_def link_between_def doubleton_eq_iff)
  with edge show ?thesis by blast
qed

section \<open>A block binds only its author\<close>

abbreviation ask_id :: "i64 \<Rightarrow> relation_request" where
  "ask_id other \<equiv> Ask \<lparr>cr_username = None, cr_user_id = Some other\<rparr>"

lemma run_unlink:
  assumes "calm w" "relation_type me other (w_pg w) \<noteq> None \<or> relation_type other me (w_pg w) \<noteq> None"
  shows "\<exists>w1. relate me (Unlink other) w = (Inr 204, w1) \<and> calm w1 \<and> delete_pair me other (w_pg w) =
    Inr (w_pg w1, t_count (is_pair me other) (relationships (w_pg w))) \<and> users (w_pg w1) = users (w_pg w)"
proof -
  have "t_count (is_pair me other) (relationships (w_pg w)) \<noteq> 0"
    using relation_delete_pair(3) [of me other "w_pg w"] assms(2) by (auto simp: delete_pair_def)
  then show ?thesis
    using assms(1) by (simp add: relate_def remove_relationship_def run delete_pair_def)
qed

lemma run_ask:
  assumes "calm w" "relations_ok (w_pg w)" "relation_type me other (w_pg w) = None" "relation_type other me (w_pg w) = None"
    "me \<noteq> other" "user_exists other (w_pg w)" "is_user me (w_pg w)"
  shows "\<exists>w1. relate me (ask_id other) w = (Inr 204, w1) \<and> calm w1"
proof -
  have none: "\<not> has_relation other me 2 (w_pg w)" "\<not> has_relation me other 2 (w_pg w)" "\<not> has_relation me other 3 (w_pg w)"
    "\<not> any_relation me other (w_pg w)"
    using assms(3, 4) has_relation_iff [OF ok_parts(1) [OF assms(2)]] by (simp_all add: any_relation_iff)
  have users: "is_user other (w_pg w)" using assms(6) by (auto simp: user_exists_def is_user_def t_has_iff)
  have fresh: "\<not> t_has (\<lambda>x. rl_user_id x = me \<and> rl_target_id x = other) (relationships (w_pg w))"
    "\<not> t_has (\<lambda>x. rl_user_id x = other \<and> rl_target_id x = me) (relationships (w_pg w))"
    using assms(3, 4) by (simp_all add: relation_type_def t_has_find)
  have insert: "\<exists>db. insert_relationships \<lparr>rl_user_id = me, rl_target_id = other, rl_type = 4, rl_created_at = now\<rparr>
       \<lparr>rl_user_id = other, rl_target_id = me, rl_type = 3, rl_created_at = now\<rparr> (w_pg w) = Inr (db, ())" for now
    using fresh users assms(5, 7)
    by (simp add: insert_relationships_def insert_relationship_def is_user_def) (auto simp: tbl_simps)
  obtain db where "insert_relationships \<lparr>rl_user_id = me, rl_target_id = other, rl_type = 4, rl_created_at = w_now w\<rparr>
       \<lparr>rl_user_id = other, rl_target_id = me, rl_type = 3, rl_created_at = w_now w\<rparr> (w_pg w) = Inr (db, ())"
    using insert by blast
  then show ?thesis
    using assms(1, 5, 6) none
    by (simp add: relate_def create_relationship_def resolve_target_def send_request_def run)
qed

text \<open>A limit of the code: a block does not hold against the blocked user. He can delete the relationship himself,
  which removes the block, and his next friend request goes through.\<close>

theorem blocked_user_lifts_block:
  assumes "reach no_relations relation_step w" "link_between me other (w_pg w) = Blocked other" "calm w"
    "user_exists other (w_pg w)" "is_user me (w_pg w)"
  shows "\<exists>w1 w2. relate me (Unlink other) w = (Inr 204, w1) \<and> relate me (ask_id other) w1 = (Inr 204, w2) \<and>
    link_between me other (w_pg w2) = Asked me"
proof -
  have ok: "relations_ok (w_pg w)" by (rule relations.reach_inv [OF assms(1)])
  have "relation_type me other (w_pg w) \<noteq> None \<or> relation_type other me (w_pg w) \<noteq> None" "me \<noteq> other"
    using assms(2) link_self [OF ok_parts(3) [OF ok], of me] blocked_row [of me other]
    by (auto simp: link_between_def simp del: not_None_eq)
  then obtain w1 n where w1: "relate me (Unlink other) w = (Inr 204, w1)" "calm w1"
      "delete_pair me other (w_pg w) = Inr (w_pg w1, n)" "users (w_pg w1) = users (w_pg w)"
    using run_unlink [OF assms(3)] by blast
  have r1: "reach no_relations relation_step w1"
    using reach_step [OF assms(1) related [of w me "Unlink other"]] w1(1) by simp
  have live: "user_exists other (w_pg w1)" "is_user me (w_pg w1)"
    using assms(4, 5) w1(4) by (simp_all add: user_exists_def is_user_def)
  obtain w2 where w2: "relate me (ask_id other) w1 = (Inr 204, w2)"
    using run_ask [OF w1(2) relations.reach_inv [OF r1] _ _ \<open>me \<noteq> other\<close> live] relation_delete_pair(1) [OF w1(3)] by auto
  have "link_between me other (w_pg w1) = Strangers"
    using relation_delete_pair(1) [OF w1(3)] by (simp add: link_between_def link_of_def)
  then have "link_between me other (w_pg w2) = Asked me"
    using wpsD(1) [OF wps_relate [OF relations.reach_inv [OF r1]] w2]
    by (auto simp: linked_def moves_def named_user_def link_next_def)
  then show ?thesis using w1(1) w2 by blast
qed

section \<open>Witnesses\<close>

text \<open>Account 8 blocks account 7.\<close>

definition block_world :: world where
  "block_world = snd (relate 8 (Block 7 2) (demo_world demo_db))"

lemma reach_blocked: "reach no_relations relation_step block_world"
proof -
  have "reach no_relations relation_step (demo_world demo_db)"
    by (rule reach_init) (simp add: no_relations_def demo_db_def)
  then show ?thesis unfolding block_world_def by (rule reach_step) (rule related)
qed

lemma blocked_facts:
  "fst (relate 8 (Block 7 2) (demo_world demo_db)) = Inr 204" "calm block_world"
  "users (w_pg block_world) = [demo_user 7, demo_user 8]"
  "relationships (w_pg block_world) = [\<lparr>rl_user_id = 8, rl_target_id = 7, rl_type = 2, rl_created_at = demo_now\<rparr>]"
  by (simp_all add: block_world_def relate_def block_user_def user_exists_def delete_pair_def insert_relationship_def
      is_user_def table_defs demo_db_def demo_user_def run)

lemma blocked_link: "link_between 7 8 (w_pg block_world) = Blocked 8"
  by (simp add: link_between_def relation_type_def blocked_facts t_find_def link_of_def)

theorem relations_always_agree_witness:
  "link_between 7 8 (w_pg block_world) = Blocked 8 \<and> link_between 8 7 (w_pg block_world) = Blocked 8 \<and>
   link_between 7 7 (w_pg block_world) = Strangers"
  using relations_always_agree [OF reach_blocked, of 7 8] blocked_link by simp

theorem relation_machine_refined_witness:
  "link_between 8 7 demo_db = Strangers \<and> fst (relate 8 (Block 7 2) (demo_world demo_db)) = Inr 204 \<and>
   link_next 8 (Block 7 2) (link_between 8 7 demo_db) = Some (link_between 8 7 (w_pg block_world))"
proof -
  have r: "reach no_relations relation_step (demo_world demo_db)"
    by (rule reach_init) (simp add: no_relations_def demo_db_def)
  have "relate 8 (Block 7 2) (demo_world demo_db) = (Inr 204, block_world)"
    using blocked_facts(1) by (cases "relate 8 (Block 7 2) (demo_world demo_db)") (simp add: block_world_def)
  from relation_machine_refined [OF r this, of 7] show ?thesis
    using blocked_facts(1) by (simp add: request_simps link_between_def relation_type_def demo_db_def t_find_def link_of_def)
qed

theorem blocked_user_lifts_block_witness:
  "link_between 7 8 (w_pg block_world) = Blocked 8 \<and>
   (\<exists>w1 w2. relate 7 (Unlink 8) block_world = (Inr 204, w1) \<and> relate 7 (ask_id 8) w1 = (Inr 204, w2) \<and>
     link_between 7 8 (w_pg w2) = Asked 7)"
proof -
  have "user_exists 8 (w_pg block_world)" "is_user 7 (w_pg block_world)"
    by (simp_all add: user_exists_def is_user_def blocked_facts t_has_def demo_user_def)
  from blocked_user_lifts_block [OF reach_blocked blocked_link blocked_facts(2) this] show ?thesis
    using blocked_link by simp
qed

end
