(* ===== verification/User_Properties.thy ===== *)
theory User_Properties
  imports Users Auth_Properties
begin

text \<open>
  Properties of \<open>routes/users.rs\<close> beyond relationships: private notes, one-to-one conversations and the deletion of
  an account.
\<close>

section \<open>Notes\<close>

definition note_at :: "i64 \<Rightarrow> i64 \<Rightarrow> pg_db \<Rightarrow> ustr option" where
  "note_at a b db = map_option nt_note (t_find (\<lambda>n. nt_user_id n = a \<and> nt_target_id n = b) (user_notes db))"

abbreviation noted :: "i64 \<Rightarrow> i64 \<Rightarrow> ustr \<Rightarrow> pg_db \<Rightarrow> i64 \<Rightarrow> i64 \<Rightarrow> ustr option" where
  "noted a b note db x y \<equiv> if (x, y) = (a, b) then if note = [] then None else Some note else note_at x y db"

lemma note_at_delete:
  assumes "delete_note a b db = Inr (db', u)"
  shows "note_at x y db' = noted a b [] db x y"
proof (cases "(x, y) = (a, b)")
  case True
  then show ?thesis using assms by (auto simp: delete_note_def note_at_def intro!: find_delete(2))
next
  case False
  have "t_find (\<lambda>n. nt_user_id n = x \<and> nt_target_id n = y) (user_notes db') =
      t_find (\<lambda>n. nt_user_id n = x \<and> nt_target_id n = y) (user_notes db)"
    using assms False by (auto simp: delete_note_def intro!: find_delete(1))
  then show ?thesis unfolding if_not_P [OF False] by (simp add: note_at_def)
qed

lemma note_at_upsert:
  assumes "upsert_note a b note db = Inr (db', u)" "note \<noteq> []"
  shows "note_at x y db' = noted a b note db x y"
proof (cases "t_has (\<lambda>n. nt_user_id n = a \<and> nt_target_id n = b) (user_notes db)")
  case False
  then have "db' = db\<lparr>user_notes := t_insert \<lparr>nt_user_id = a, nt_target_id = b, nt_note = note\<rparr> (user_notes db)\<rparr>"
    using assms by (auto simp: upsert_note_def split: if_splits)
  then show ?thesis
    using assms(2) False by (auto simp: note_at_def find_insert t_has_find split: option.split)
next
  case True
  then have db': "user_notes db' = t_update (\<lambda>n. nt_user_id n = a \<and> nt_target_id n = b) (\<lambda>n. n\<lparr>nt_note := note\<rparr>) (user_notes db)"
    using assms by (auto simp: upsert_note_def split: if_splits)
  show ?thesis
  proof (cases "(x, y) = (a, b)")
    case True
    have "t_find (\<lambda>n. nt_user_id n = a \<and> nt_target_id n = b) (user_notes db') =
        map_option (\<lambda>n. n\<lparr>nt_note := note\<rparr>) (t_find (\<lambda>n. nt_user_id n = a \<and> nt_target_id n = b) (user_notes db))"
      unfolding db' by (rule find_update(1)) auto
    then show ?thesis
      using assms(2) True \<open>t_has _ _\<close> by (auto simp: note_at_def t_has_find)
  next
    case False
    have "t_find (\<lambda>n. nt_user_id n = x \<and> nt_target_id n = y) (user_notes db') =
        t_find (\<lambda>n. nt_user_id n = x \<and> nt_target_id n = y) (user_notes db)"
      unfolding db' by (rule find_update(2)) (use False in auto)
    then show ?thesis unfolding if_not_P [OF False] by (simp add: note_at_def)
  qed
qed

lemma wps_set_note:
  "wps (set_note a b note) (\<lambda>_ t. \<forall>x y. note_at x y t = noted a b note s x y)
     (\<lambda>_ t. t = s \<or> (\<forall>x y. note_at x y t = noted a b note s x y)) s"
  unfolding set_note_def by (intro wp) (auto simp: note_at_delete note_at_upsert)

lemma wps_get_note: "wps (get_note a b) (\<lambda>n t. n = note_at a b s \<and> t = s) (\<lambda>_ t. t = s) s"
  unfolding get_note_def by (intro wp) (auto simp: note_at_def)

text \<open>A note reads back: after a successful \<open>set_note\<close>, whatever failed on the way and whoever asks about whom, an
  answer of \<open>get_note\<close> is the text for the author of the note (nothing when it was empty) and what it was before for
  every other pair.\<close>

theorem note_roundtrip:
  assumes "set_note auth target note w = (Inr code, w1)" "get_note reader about w1 = (Inr answer, w2)"
  shows "answer = (if (reader, about) = (auth, target) then if note = [] then None else Some note
    else note_at reader about (w_pg w))"
  using wpsD(1) [OF wps_set_note assms(1)] wpsD(1) [OF wps_get_note assms(2)] by simp

theorem note_roundtrip_witness:
  "fst (get_note 7 8 (snd (set_note 7 8 (lit ''met at the station'') (demo_world demo_db)))) = Inr (Some (lit ''met at the station''))"
proof -
  obtain w1 where 1: "set_note 7 8 (lit ''met at the station'') (demo_world demo_db) = (Inr 204, w1)" and c: "calm w1"
    by (simp add: set_note_def upsert_note_def fits_def is_user_def table_defs run demo_db_def demo_user_def)
  have 2: "get_note 7 8 w1 = (Inr (note_at 7 8 (w_pg w1)), w1)"
    by (simp add: get_note_def note_at_def run c)
  show ?thesis using note_roundtrip [OF 1 2] by (simp only: 1 2 snd_conv fst_conv) simp
qed

section \<open>One-to-one conversations\<close>

abbreviation direct :: "i64 \<Rightarrow> create_dm_request" where
  "direct other \<equiv> \<lparr>cd_recipient_id = Some other, cd_recipients = None\<rparr>"

lemma existing_dm_swap: "existing_dm a b db = existing_dm b a db"
  unfolding existing_dm_def by (simp add: conj_ac)

lemma insert_recipient_result:
  "insert_dm_recipient cid uid db = Inr (db', u) \<Longrightarrow>
   channels db' = channels db \<and> (is_dm_recipient c x db' \<longleftrightarrow> is_dm_recipient c x db \<or> (c, x) = (cid, uid))"
  by (auto simp: insert_dm_recipient_def is_dm_recipient_def tbl_simps split: if_splits)

lemma opened:
  assumes "existing_dm a b s = None" "insert_channel (dm_channel_row cid 1 now) s = Inr (d1, u1)"
    "insert_dm_recipient cid a d1 = Inr (d2, u2)" "insert_dm_recipient cid b d2 = Inr (d3, u3)"
  shows "existing_dm a b d3 = Some cid"
proof -
  note r = insert_recipient_result [OF assms(3)] insert_recipient_result [OF assms(4)]
  have d1: "d1 = s\<lparr>channels := t_insert (dm_channel_row cid 1 now) (channels s)\<rparr>" and new: "\<not> is_channel cid s"
    using assms(2) by (auto simp: insert_channel_def dm_channel_row_def split: if_splits)
  let ?P = "\<lambda>db c. ch_type c = 1 \<and> is_dm_recipient (ch_id c) a db \<and> is_dm_recipient (ch_id c) b db"
  have old: "\<not> ?P d3 c" if "c \<in> set (channels s)" for c
  proof -
    have "ch_id c \<noteq> cid" using that new by (auto simp: is_channel_def t_has_iff)
    moreover have "\<not> ?P s c" using assms(1) that by (auto simp: existing_dm_def t_find_None_iff)
    ultimately show ?thesis using r by (auto simp: d1 is_dm_recipient_def)
  qed
  have "t_find (?P d3) (t_insert (dm_channel_row cid 1 now) (channels s)) = Some (dm_channel_row cid 1 now)"
  proof -
    have "t_find (?P d3) (channels s) = None" using old by (auto simp: t_find_None_iff)
    then show ?thesis using r by (simp add: find_insert dm_channel_row_def)
  qed
  then show ?thesis using r by (simp add: existing_dm_def d1 dm_channel_row_def)
qed

lemma wps_open_direct:
  assumes "existing_dm a b s = None"
  shows "wps (open_dm a [b]) (\<lambda>x t. existing_dm a b t = Some (dc_id (snd x))) (\<lambda>_ _. True) s"
  unfolding open_dm_def for_each.simps Let_def
  by (simp, intro wp) (auto dest: opened [OF assms])

lemma wps_create_direct:
  "wps (create_dm_channel a (direct b)) (\<lambda>x t. existing_dm a b t = Some (dc_id (snd x)) \<and>
     (\<forall>cid. existing_dm a b s = Some cid \<longrightarrow> fst x = 200 \<and> dc_id (snd x) = cid)) (\<lambda>_ _. True) s"
  unfolding create_dm_channel_def dm_recipient_ids_def
  by (simp, rule wps_bind, rule wps_ret, simp, intro wp) (auto intro: wps_mono [OF wps_open_direct])

text \<open>Two users have one conversation: after one of them opened it, whatever failed on the way, each later request
  of either that succeeds answers with the same channel and creates none, as long as nobody deletes it.\<close>

theorem conversation_opened_once:
  assumes "create_dm_channel a (direct b) w = (Inr (code, c), w1)"
    and "{x, y} = {a, b}" "existing_dm a b (w_pg w2) = existing_dm a b (w_pg w1)"
    and "create_dm_channel x (direct y) w2 = (Inr (code', c'), w3)"
  shows "code' = 200 \<and> dc_id c' = dc_id c"
proof -
  have "existing_dm a b (w_pg w1) = Some (dc_id c)"
    using wpsD(1) [OF wps_create_direct assms(1)] by simp
  then have "existing_dm x y (w_pg w2) = Some (dc_id c)"
    using assms(2, 3) existing_dm_swap [of a b] by (auto simp: doubleton_eq_iff)
  then show ?thesis using wpsD(1) [OF wps_create_direct assms(4)] by simp
qed

lemma demo_direct:
  "\<exists>c w1. create_dm_channel 7 (direct 8) (demo_world demo_db) = (Inr (201, c), w1) \<and> dc_id c = home_id \<and>
     existing_dm 7 8 (w_pg w1) = Some home_id \<and> calm w1 \<and> users (w_pg w1) = users demo_db \<and> relationships (w_pg w1) = []"
  by (simp add: create_dm_channel_def dm_recipient_ids_def run has_relation_def existing_dm_def open_dm_def
      dm_channel_row_def stmt_defs insert_dm_recipient_def is_dm_recipient_def demo_ids LUMIERE_EPOCH_def demo_defs calm_def next_call_def)

lemma run_known_direct:
  assumes "calm w" "existing_dm a b (w_pg w) = Some cid" "relationships (w_pg w) = []" "live_user b (w_pg w) = Some u" "a \<noteq> b"
  shows "\<exists>c. create_dm_channel a (direct b) w = (Inr (200, c), w)"
  using assms by (simp add: create_dm_channel_def dm_recipient_ids_def run has_relation_def t_has_def)

theorem conversation_opened_once_witness:
  "\<exists>c w1 c' w3. create_dm_channel 7 (direct 8) (demo_world demo_db) = (Inr (201, c), w1) \<and>
     create_dm_channel 8 (direct 7) w1 = (Inr (200, c'), w3) \<and> dc_id c' = dc_id c \<and> dc_id c = home_id"
proof -
  obtain c w1 where 1: "create_dm_channel 7 (direct 8) (demo_world demo_db) = (Inr (201, c), w1)" "dc_id c = home_id"
      "existing_dm 7 8 (w_pg w1) = Some home_id" "calm w1" "users (w_pg w1) = users demo_db" "relationships (w_pg w1) = []"
    using demo_direct by blast
  have "live_user 7 (w_pg w1) = Some (demo_user 7)"
    by (simp add: live_user_def 1(5) demo_db_def t_find_def demo_user_def)
  then obtain c' where 2: "create_dm_channel 8 (direct 7) w1 = (Inr (200, c'), w1)"
    using run_known_direct [OF 1(4), of 8 7 home_id "demo_user 7"] 1(3, 6) existing_dm_swap [of 8 7] by auto
  have "dc_id c' = dc_id c"
    using conversation_opened_once [OF 1(1) _ refl 2] by (simp add: insert_commute)
  then show ?thesis using 1(1, 2) 2 by blast
qed

section \<open>Deleting an account\<close>

lemma wpo_revoke_all_pg:
  assumes "w_pg v = d"
  shows "wpo (revoke_all_sessions uid) (\<lambda>_ u. w_pg u = d) (\<lambda>_ _. True) v"
  unfolding revoke_all_sessions_def
  by (intro wpo_bind wpo_redis_call wpo_for_each [where I = "\<lambda>u. w_pg u = d"]) (use assms in auto)

definition account_deleted :: "(ustr \<Rightarrow> string \<Rightarrow> string + bool) \<Rightarrow> snowflake \<Rightarrow> ustr \<Rightarrow> pg_db \<Rightarrow> pg_db \<Rightarrow> bool" where
  "account_deleted verify auth password s t \<longleftrightarrow>
     (\<exists>u. live_user auth s = Some u \<and> verify password (u_password_hash u) = Inr True) \<and>
     \<not> t_has (\<lambda>r. sv_owner_id r = auth) (servers t) \<and> live_user auth t = None \<and> t = s\<lparr>users := users t\<rparr> \<and>
     (\<forall>i. i \<noteq> auth \<longrightarrow> live_user i t = live_user i s)"

lemma find_update_other:
  "(\<And>r. D r \<Longrightarrow> \<not> P r \<and> \<not> P (f r)) \<Longrightarrow> t_find P (t_update D f t) = t_find P t"
  unfolding t_find_def t_update_def by (induction t) auto

lemma soft_deleted:
  assumes "soft_delete_user auth now s = Inr (t, u)"
  shows "live_user auth t = None" "i \<noteq> auth \<Longrightarrow> live_user i t = live_user i s" "t = s\<lparr>users := users t\<rparr>" "servers t = servers s"
proof -
  have t: "t = s\<lparr>users := t_update (\<lambda>u. u_id u = auth) (\<lambda>u. u\<lparr>u_deleted_at := Some now\<rparr>) (users s)\<rparr>"
    using assms by (simp add: soft_delete_user_def)
  show "live_user auth t = None"
    unfolding t live_user_def t_find_None_iff by (simp add: tbl_simps ball_Un)
  show "t = s\<lparr>users := users t\<rparr>" unfolding t by simp
  show "servers t = servers s" unfolding t by simp
  show "i \<noteq> auth \<Longrightarrow> live_user i t = live_user i s"
    unfolding t live_user_def by (simp, rule find_update_other) auto
qed

lemma wpo_delete_me:
  assumes "at_world (sessions_ok h) v"
  shows "wpo (delete_me verify auth password)
    (\<lambda>_ u. account_deleted verify auth password (w_pg v) (w_pg u) \<and> at_world (all_revoked h (show_u64 auth)) u) (\<lambda>_ _. True) v"
proof -
  have revoke: "wpo (revoke_all_sessions (show_u64 auth)) (\<lambda>_ u. w_pg u = d \<and> at_world (all_revoked h (show_u64 auth)) u) (\<lambda>_ _. True)
      (v\<lparr>w_pg := d\<rparr>)" for d
    by (rule wpo_mono [OF wpo_conj [OF wpo_revoke_all_pg [OF refl] wpo_revoke_all]]) (use assms in auto)
  show ?thesis
    unfolding delete_me_def
    by (intro wpo_rules wpo_mono [OF revoke])
      (auto simp: account_deleted_def map_option_case soft_deleted split: option.splits)
qed

text \<open>Deleting an account needs its password and that it owns no server; when it succeeds nobody can log in or be
  found under it, none of its sessions can be refreshed, in any reachable session store, and no other account and no
  other table has changed.\<close>

theorem deleted_account_gone:
  assumes "reach no_sessions session_step (w, h)" "delete_me verify auth password w = (Inr code, w')"
  shows "account_deleted verify auth password (w_pg w) (w_pg w') \<and>
    ((jti, show_u64 auth) \<in> set h \<longrightarrow> fst (get_session jti w') = Inr None \<or> fst (get_session jti w') = Inl redis_error)"
proof -
  have "at_world (sessions_ok h) (obs w)" using sessions.reach_inv [OF assms(1)] by simp
  from wpoD(1) [OF wpo_delete_me [OF this] assms(2)]
  show ?thesis
    by (auto simp: all_revoked_def intro!: get_dead_session)
qed

theorem deleted_account_gone_witness:
  "fst (delete_me (\<lambda>p h. Inr (h = ''hash'')) 7 (lit ''secret'') logged_in) = Inr 204 \<and>
   account_deleted (\<lambda>p h. Inr (h = ''hash'')) 7 (lit ''secret'') demo_db
     (w_pg (snd (delete_me (\<lambda>p h. Inr (h = ''hash'')) 7 (lit ''secret'') logged_in)))"
proof -
  have pg: "w_pg logged_in = demo_db"
    by (simp add: logged_in_def create_session_def run calm_def Let_def cmd_set_ex_def cmd_sadd_def three_hours_def
      redis_at_def demo_world_def)
  have ok: "fst (delete_me (\<lambda>p h. Inr (h = ''hash'')) 7 (lit ''secret'') logged_in) = Inr 204"
    by (simp add: delete_me_def run create_demo_session pg live_user_def demo_db_def table_defs demo_user_def
      soft_delete_user_def revoke_all_sessions_def cmd_smembers_def redis_value_at_def redis_at_def cmd_del_def)
  then have "delete_me (\<lambda>p h. Inr (h = ''hash'')) 7 (lit ''secret'') logged_in =
      (Inr 204, snd (delete_me (\<lambda>p h. Inr (h = ''hash'')) 7 (lit ''secret'') logged_in))"
    by (metis prod.collapse)
  from deleted_account_gone [OF reach_logged_in [OF create_demo_session(1)] this] ok show ?thesis by (simp only: pg)
qed

end
