(* ===== verification/Webhooks.thy ===== *)
theory Webhooks
  imports Auth Channels Messages
begin

text \<open>
  \<open>routes/webhooks.rs\<close>: webhooks, applications with their bot accounts, and slash commands. \<open>digest\<close> is the
  hexadecimal SHA-256 of a text, \<open>base64\<close> the standard encoding of a text; the random tokens are arguments of the
  handlers that draw them.
\<close>

section \<open>Webhooks\<close>

record webhook_response =
  whr_id :: snowflake
  whr_channel_id :: snowflake
  whr_name :: ustr
  whr_avatar :: "ustr option"
  whr_token :: "string option"
  whr_type :: int

definition webhook_response_of :: "webhook_row \<Rightarrow> webhook_response" where
  "webhook_response_of r = \<lparr>whr_id = wh_id r, whr_channel_id = wh_channel_id r, whr_name = wh_name r,
     whr_avatar = wh_avatar r, whr_token = None, whr_type = wh_type r\<rparr>"

record create_webhook_request =
  cw_name :: ustr
  cw_avatar :: "ustr option"

definition create_webhook ::
  "(string \<Rightarrow> string) \<Rightarrow> string \<Rightarrow> snowflake \<Rightarrow> i64 \<Rightarrow> create_webhook_request \<Rightarrow> (nat \<times> webhook_response) handler" where
  "create_webhook digest token auth cid body =
     bind (pg_query (channel_server cid)) (\<lambda>found.
     bind (ok_or found (NotFound ''Channel not found'')) (\<lambda>server.
     bind (ok_or server (BadRequest ''Cannot create webhooks for DMs'')) (\<lambda>sid.
     andThen (require_permissions sid auth MANAGE_WEBHOOKS)
    (bind fresh_id (\<lambda>wid.
     bind utc_now (\<lambda>now.
     andThen (pg_exec (insert_webhook \<lparr>wh_id = wid, wh_server_id = sid, wh_channel_id = cid, wh_creator_id = Some auth,
          wh_name = cw_name body, wh_avatar = None, wh_token = digest token, wh_type = 1, wh_created_at = now\<rparr>))
     (ret (201, \<lparr>whr_id = wid, whr_channel_id = cid, whr_name = cw_name body, whr_avatar = cw_avatar body,
        whr_token = Some token, whr_type = 1\<rparr>))))))))"

definition get_channel_webhooks :: "snowflake \<Rightarrow> i64 \<Rightarrow> webhook_response list handler" where
  "get_channel_webhooks auth cid =
     bind (pg_query (channel_server cid)) (\<lambda>found.
     bind (ok_or (unwrap_or None found) (NotFound ''Channel not found'')) (\<lambda>sid.
     andThen (require_permissions sid auth MANAGE_WEBHOOKS)
    (bind (pg_query (\<lambda>db. filter (\<lambda>r. wh_channel_id r = cid) (webhooks db))) (\<lambda>rows.
     ret (map webhook_response_of rows)))))"

definition webhook_row_at :: "i64 \<Rightarrow> pg_db \<Rightarrow> webhook_row option" where
  "webhook_row_at wid db = t_find (\<lambda>r. wh_id r = wid) (webhooks db)"

text \<open>The server of the webhook and \<open>MANAGE_WEBHOOKS\<close> in it: the guard of the three routes below.\<close>

definition require_webhook :: "snowflake \<Rightarrow> i64 \<Rightarrow> unit handler" where
  "require_webhook auth wid =
     bind (pg_query (\<lambda>db. map_option wh_server_id (webhook_row_at wid db))) (\<lambda>found.
     bind (ok_or found (NotFound ''Webhook not found'')) (\<lambda>sid.
     require_permissions sid auth MANAGE_WEBHOOKS))"

definition get_webhook :: "snowflake \<Rightarrow> i64 \<Rightarrow> webhook_response handler" where
  "get_webhook auth wid =
     andThen (require_webhook auth wid)
    (bind (pg_query (webhook_row_at wid)) (\<lambda>row.
     bind (ok_or row (NotFound ''Webhook not found'')) (\<lambda>r. ret (webhook_response_of r))))"

record update_webhook_request =
  uw_name :: "ustr option"
  uw_avatar :: "ustr option option"
  uw_channel_id :: "i64 option"

definition update_webhook :: "snowflake \<Rightarrow> i64 \<Rightarrow> update_webhook_request \<Rightarrow> webhook_response handler" where
  "update_webhook auth wid body =
     andThen (require_webhook auth wid)
    (andThen (case uw_name body of None \<Rightarrow> ret ()
        | Some n \<Rightarrow> pg_exec (update_webhook_row wid (\<lambda>r. r\<lparr>wh_name := n\<rparr>)))
    (andThen (case uw_avatar body of None \<Rightarrow> ret ()
        | Some a \<Rightarrow> pg_exec (update_webhook_row wid (\<lambda>r. r\<lparr>wh_avatar := a\<rparr>)))
    (andThen (case uw_channel_id body of None \<Rightarrow> ret ()
        | Some c \<Rightarrow> pg_exec (update_webhook_row wid (\<lambda>r. r\<lparr>wh_channel_id := c\<rparr>)))
     (get_webhook auth wid))))"

definition delete_webhook :: "snowflake \<Rightarrow> i64 \<Rightarrow> nat handler" where
  "delete_webhook auth wid =
     andThen (require_webhook auth wid)
    (andThen (pg_exec (delete_webhook_row wid))
     (ret 204))"

text \<open>\<open>body["content"].as_str().unwrap_or("")\<close>, and \<open>body.get(k).and_then(as_str)\<close>.\<close>

definition json_get :: "string \<Rightarrow> json \<Rightarrow> json option" where
  "json_get k j = (case j of JObj m \<Rightarrow> map_of m k | _ \<Rightarrow> None)"

definition json_get_str :: "string \<Rightarrow> json \<Rightarrow> ustr option" where
  "json_get_str k j = (case json_get k j of Some (JStr s) \<Rightarrow> Some s | _ \<Rightarrow> None)"

definition webhook_event :: "i64 \<Rightarrow> i64 \<Rightarrow> snowflake \<Rightarrow> ustr \<Rightarrow> ustr \<Rightarrow> json" where
  "webhook_event cid wid mid name content =
     JObj [(''type'', jlit ''MESSAGE_CREATE''), (''channel_id'', ji64 cid), (''webhook_id'', ji64 wid),
       (''message'', JObj [(''id'', jsnow mid), (''channel_id'', ji64 cid), (''content'', JStr content),
          (''author'', JObj [(''id'', ji64 wid), (''username'', JStr name), (''bot'', JBool True)]),
          (''webhook_id'', ji64 wid)])]"

definition cql_insert_webhook_message :: "i64 \<Rightarrow> int \<Rightarrow> i64 \<Rightarrow> i64 \<Rightarrow> ustr \<Rightarrow> scylla_db \<Rightarrow> scylla_db" where
  "cql_insert_webhook_message cid b mid wid content = cql_upsert_message cid b mid (\<lambda>r. r\<lparr>ms_author_id := Some wid,
     ms_content := Some content, ms_type := Some 0, ms_flags := Some 0, ms_pinned := Some False,
     ms_mention_everyone := Some False, ms_deleted := Some False\<rparr>)"

definition execute_webhook :: "(string \<Rightarrow> string) \<Rightarrow> i64 \<Rightarrow> string \<Rightarrow> json \<Rightarrow> nat handler" where
  "execute_webhook digest wid token body =
     (let content = unwrap_or [] (json_get_str ''content'' body)
      in andThen (ensure (content \<noteq> []) (BadRequest ''Content must not be empty''))
        (andThen (ensure (\<not> length content > 4000) (BadRequest ''Content must be 4000 characters or less''))
        (bind (pg_query (\<lambda>db. t_find (\<lambda>r. wh_id r = wid \<and> wh_token r = digest token) (webhooks db))) (\<lambda>row.
         bind (ok_or row (Unauthorized ''Invalid webhook token'')) (\<lambda>r.
         bind fresh_id (\<lambda>mid.
         andThen (scylla_exec (cql_insert_webhook_message (wh_channel_id r) (bucket_from_snowflake mid) mid wid content))
        (andThen (publish (channel_messages (wh_channel_id r)) (webhook_event (wh_channel_id r) wid mid (wh_name r) content))
         (ret 204))))))))"

section \<open>Applications\<close>

record application_response =
  apr_id :: snowflake
  apr_name :: ustr
  apr_description :: "ustr option"
  apr_icon :: "ustr option"
  apr_bot_id :: "snowflake option"

record create_application_request =
  nap_name :: ustr
  nap_description :: "ustr option"

definition bot_token_of :: "(string \<Rightarrow> string) \<Rightarrow> string \<Rightarrow> u64 \<Rightarrow> string" where
  "bot_token_of base64 random bot_id = ''Bot '' @ base64 (show_u64 bot_id) @ ''.'' @ random"

definition bot_user_row :: "i64 \<Rightarrow> i64 \<Rightarrow> ustr \<Rightarrow> string \<Rightarrow> int \<Rightarrow> user_row" where
  "bot_user_row bot_id app_id name hash now =
     new_user_row bot_id (name @ lit '' Bot'') (lit (''bot+'' @ show_u64 app_id @ ''@lumiere.internal'')) hash True now"

definition create_application_tx ::
  "snowflake \<Rightarrow> snowflake \<Rightarrow> snowflake \<Rightarrow> create_application_request \<Rightarrow> string \<Rightarrow> int \<Rightarrow> unit handler" where
  "create_application_tx auth app_id bot_id body hash now =
     andThen (pg_exec (insert_user (bot_user_row bot_id app_id (nap_name body) hash now)))
       (pg_exec (insert_application \<lparr>ap_id = app_id, ap_owner_id = auth, ap_name = nap_name body,
          ap_description = nap_description body, ap_icon = None, ap_bot_id = Some bot_id,
          ap_bot_token_hash = Some hash\<rparr>))"

definition create_application ::
  "(string \<Rightarrow> string) \<Rightarrow> (string \<Rightarrow> string) \<Rightarrow> string \<Rightarrow> snowflake \<Rightarrow> create_application_request \<Rightarrow> (nat \<times> json) handler" where
  "create_application digest base64 random auth body =
     bind fresh_id (\<lambda>app_id.
     bind fresh_id (\<lambda>bot_id.
     let token = bot_token_of base64 random bot_id; hash = digest token
     in bind utc_now (\<lambda>now.
        andThen (transaction (create_application_tx auth app_id bot_id body hash now))
        (ret (201, JObj [(''id'', jsnow app_id), (''name'', JStr (nap_name body)), (''bot_id'', jsnow bot_id),
           (''bot_token'', jlit token)])))))"

definition application_response_of :: "application_row \<Rightarrow> application_response" where
  "application_response_of r = \<lparr>apr_id = ap_id r, apr_name = ap_name r, apr_description = ap_description r,
     apr_icon = ap_icon r, apr_bot_id = ap_bot_id r\<rparr>"

definition get_my_applications :: "snowflake \<Rightarrow> application_response list handler" where
  "get_my_applications auth =
     bind (pg_query (\<lambda>db. filter (\<lambda>r. ap_owner_id r = auth) (applications db))) (\<lambda>rows.
     ret (map application_response_of rows))"

record update_application_request =
  uap_name :: "ustr option"
  uap_description :: "ustr option option"
  uap_icon :: "ustr option option"

definition own_application :: "snowflake \<Rightarrow> i64 \<Rightarrow> application_row \<Rightarrow> bool" where
  "own_application auth app_id r \<longleftrightarrow> ap_id r = app_id \<and> ap_owner_id r = auth"

definition update_application :: "snowflake \<Rightarrow> i64 \<Rightarrow> update_application_request \<Rightarrow> nat handler" where
  "update_application auth app_id body =
     andThen (case uap_name body of None \<Rightarrow> ret ()
        | Some n \<Rightarrow> pg_exec (update_applications (own_application auth app_id) (\<lambda>r. r\<lparr>ap_name := n\<rparr>)))
    (andThen (case uap_description body of None \<Rightarrow> ret ()
        | Some d \<Rightarrow> pg_exec (update_applications (own_application auth app_id) (\<lambda>r. r\<lparr>ap_description := d\<rparr>)))
     (ret 204))"

definition reset_bot_token ::
  "(string \<Rightarrow> string) \<Rightarrow> (string \<Rightarrow> string) \<Rightarrow> string \<Rightarrow> snowflake \<Rightarrow> i64 \<Rightarrow> json handler" where
  "reset_bot_token digest base64 random auth app_id =
     bind (pg_query (\<lambda>db. t_find (own_application auth app_id) (applications db))) (\<lambda>row.
     bind (ok_or (case row of None \<Rightarrow> None | Some r \<Rightarrow> ap_bot_id r) (NotFound ''Application not found'')) (\<lambda>bot_id.
     let token = bot_token_of base64 random bot_id
     in andThen (pg_exec (update_applications (\<lambda>r. ap_id r = app_id) (\<lambda>r. r\<lparr>ap_bot_token_hash := Some (digest token)\<rparr>)))
        (ret (JObj [(''token'', jlit token)]))))"

section \<open>Slash commands\<close>

record command_response =
  co_id :: snowflake
  co_application_id :: snowflake
  co_name :: ustr
  co_description :: ustr
  co_options :: json

record create_command_request =
  ccm_name :: ustr
  ccm_description :: ustr
  ccm_options :: "json option"
  ccm_server_id :: "i64 option"

definition require_application :: "snowflake \<Rightarrow> i64 \<Rightarrow> unit handler" where
  "require_application auth app_id =
     bind (pg_query (\<lambda>db. t_has (own_application auth app_id) (applications db))) (\<lambda>exists.
     ensure exists (Forbidden ''Not the application owner''))"

definition create_command :: "snowflake \<Rightarrow> i64 \<Rightarrow> create_command_request \<Rightarrow> (nat \<times> command_response) handler" where
  "create_command auth app_id body =
     andThen (ensure (\<not> (ccm_name body = [] \<or> utf8_len (ccm_name body) > 32))
          (BadRequest ''Command name must be between 1 and 32 characters''))
    (andThen (ensure (\<not> utf8_len (ccm_description body) > 100)
          (BadRequest ''Command description must be 100 characters or less''))
    (andThen (require_application auth app_id)
    (bind fresh_id (\<lambda>cid.
     let options = unwrap_or (JArr []) (ccm_options body)
     in andThen (pg_exec (insert_command \<lparr>cm_id = cid, cm_application_id = app_id, cm_server_id = ccm_server_id body,
          cm_name = ccm_name body, cm_description = ccm_description body, cm_options = options\<rparr>))
        (ret (201, \<lparr>co_id = cid, co_application_id = app_id, co_name = ccm_name body,
           co_description = ccm_description body, co_options = options\<rparr>))))))"

definition get_commands :: "snowflake \<Rightarrow> i64 \<Rightarrow> command_response list handler" where
  "get_commands auth app_id =
     bind (pg_query (\<lambda>db. filter (\<lambda>r. cm_application_id r = app_id) (commands db))) (\<lambda>rows.
     ret (map (\<lambda>r. \<lparr>co_id = cm_id r, co_application_id = cm_application_id r, co_name = cm_name r,
       co_description = cm_description r, co_options = cm_options r\<rparr>) rows))"

definition update_command :: "snowflake \<Rightarrow> i64 \<Rightarrow> i64 \<Rightarrow> json \<Rightarrow> nat handler" where
  "update_command auth app_id cid body =
     andThen (require_application auth app_id)
    (andThen (case json_get_str ''name'' body of None \<Rightarrow> ret ()
        | Some n \<Rightarrow> pg_exec (update_command_row cid app_id (\<lambda>r. r\<lparr>cm_name := n\<rparr>)))
    (andThen (case json_get_str ''description'' body of None \<Rightarrow> ret ()
        | Some d \<Rightarrow> pg_exec (update_command_row cid app_id (\<lambda>r. r\<lparr>cm_description := d\<rparr>)))
    (andThen (case json_get ''options'' body of None \<Rightarrow> ret ()
        | Some v \<Rightarrow> pg_exec (update_command_row cid app_id (\<lambda>r. r\<lparr>cm_options := v\<rparr>)))
     (ret 204))))"

definition delete_command :: "snowflake \<Rightarrow> i64 \<Rightarrow> i64 \<Rightarrow> nat handler" where
  "delete_command auth app_id cid =
     andThen (require_application auth app_id)
    (andThen (pg_exec (delete_command_row cid app_id))
     (ret 204))"

end
