(* ===== verification/Webhook_Properties.thy ===== *)
theory Webhook_Properties
  imports Webhooks Handler_Logic Demo
begin

text \<open>
  What the webhook and application routes promise: who can post through a webhook and where the message goes, and
  that an application and its bot account come together.
\<close>

section \<open>Executing a webhook\<close>

definition posted :: "i64 \<Rightarrow> string \<Rightarrow> ustr \<Rightarrow> pg_db \<Rightarrow> scylla_db \<Rightarrow> scylla_db \<Rightarrow> bool" where
  "posted wid hash content db sc sc' \<longleftrightarrow>
     (\<exists>r mid. r \<in> set (webhooks db) \<and> wh_id r = wid \<and> wh_token r = hash \<and>
        sc' = cql_insert_webhook_message (wh_channel_id r) (bucket_from_snowflake mid) mid wid content sc)"

lemma wpo_execute_webhook:
  "wpo (execute_webhook digest wid token body)
     (\<lambda>code u. code = 204 \<and> w_pg u = w_pg v \<and> w_redis u = w_redis v \<and>
        (\<exists>content. json_get_str ''content'' body = Some content \<and> content \<noteq> [] \<and> length content \<le> 4000 \<and>
           posted wid (digest token) content (w_pg v) (w_scylla v) (w_scylla u)))
     (\<lambda>_ u. w_pg u = w_pg v \<and> w_redis u = w_redis v \<and> (w_scylla u = w_scylla v \<or>
        (\<exists>content. json_get_str ''content'' body = Some content \<and>
           posted wid (digest token) content (w_pg v) (w_scylla v) (w_scylla u)))) v"
  unfolding execute_webhook_def
  by (intro wpo_rules) (auto simp: posted_def unwrap_or_def dest!: t_find_SomeD split: option.splits)

text \<open>C21: Only the token of a webhook posts through it: a request that succeeds, and one that fails after it wrote, presented
  a token whose hash is stored with the webhook, and wrote exactly one message, the given text of 1 to 4000 characters
  in the webhook's channel; every other failure wrote nothing, and no request changes PostgreSQL or Redis.\<close>

theorem execute_webhook_outcome:
  assumes "execute_webhook digest wid token body w = (r, w')"
  shows "w_pg w' = w_pg w \<and> w_redis w' = w_redis w \<and>
    (case r of
       Inr code \<Rightarrow> code = 204 \<and> (\<exists>content. json_get_str ''content'' body = Some content \<and> content \<noteq> [] \<and>
         length content \<le> 4000 \<and> posted wid (digest token) content (w_pg w) (w_scylla w) (w_scylla w'))
     | Inl e \<Rightarrow> w_scylla w' = w_scylla w \<or> (\<exists>content. json_get_str ''content'' body = Some content \<and>
         posted wid (digest token) content (w_pg w) (w_scylla w) (w_scylla w')))"
  using wpoD [OF wpo_execute_webhook [of digest wid token body "obs w"]] assms by (cases r) auto

text \<open>A webhook of account 7's server, and a conversation that account 7 is not part of.\<close>

definition hook_row :: webhook_row where
  "hook_row = \<lparr>wh_id = 50, wh_server_id = home_id, wh_channel_id = 20975617, wh_creator_id = Some 7,
     wh_name = lit ''bridge'', wh_avatar = None, wh_token = ''#secret'', wh_type = 1, wh_created_at = demo_now\<rparr>"

definition hook_db :: pg_db where
  "hook_db = home_db\<lparr>webhooks := [hook_row],
     channels := channels home_db @ [(new_channel_row 77 home_id 1 (lit ''private'') 0 demo_now)\<lparr>ch_server_id := None\<rparr>],
     dm_recipients := [\<lparr>dm_channel_id = 77, dm_user_id = 8\<rparr>, \<lparr>dm_channel_id = 77, dm_user_id = 9\<rparr>]\<rparr>"

definition hello_body :: json where
  "hello_body = JObj [(''content'', jlit ''hello'')]"

lemma hello_content: "json_get_str ''content'' hello_body = Some (lit ''hello'')"
  by (simp add: json_get_str_def json_get_def hello_body_def)

lemma run_execute_webhook:
  assumes "calm w" "json_get_str ''content'' body = Some content" "content \<noteq> []" "length content \<le> 4000"
    "t_find (\<lambda>r. wh_id r = wid \<and> wh_token r = digest token) (webhooks (w_pg w)) = Some r"
  shows "\<exists>w' mid. execute_webhook digest wid token body w = (Inr 204, w') \<and>
    w_scylla w' = cql_insert_webhook_message (wh_channel_id r) (bucket_from_snowflake mid) mid wid content (w_scylla w)"
  using assms by (auto simp: execute_webhook_def run Let_def unwrap_or_def split: prod.split)

lemma inserted_message:
  "\<exists>m \<in> set (messages (cql_insert_webhook_message c b mid wid content sc)).
     ms_channel_id m = c \<and> ms_author_id m = Some wid \<and> ms_content m = Some content"
proof (cases "t_has (message_key c b mid) (messages sc)")
  case True
  then obtain m where "m \<in> set (messages sc)" "message_key c b mid m" by (auto simp: t_has_iff)
  then show ?thesis using True
    unfolding cql_insert_webhook_message_def cql_upsert_message_def
    by (simp add: set_t_update) (rule UnI1 bexI [rotated] imageI | simp add: message_key_def)+
next
  case False
  then show ?thesis
    by (simp add: cql_insert_webhook_message_def cql_upsert_message_def set_t_insert blank_message_def)
qed

theorem execute_webhook_outcome_witness:
  "\<exists>w'. execute_webhook (\<lambda>t. CHR ''#'' # t) 50 ''secret'' hello_body (demo_world hook_db) = (Inr 204, w') \<and>
     posted 50 ''#secret'' (lit ''hello'') hook_db (w_scylla (demo_world hook_db)) (w_scylla w')"
proof -
  obtain w' mid where "execute_webhook (\<lambda>t. CHR ''#'' # t) 50 ''secret'' hello_body (demo_world hook_db) = (Inr 204, w')"
    using run_execute_webhook [OF calm_demo hello_content, of 50 "\<lambda>t. CHR ''#'' # t" "''secret''" hook_db hook_row]
    by (auto simp: hook_db_def hook_row_def t_find_def)
  with execute_webhook_outcome [OF this] show ?thesis by (auto simp: hello_content)
qed

section \<open>Moving a webhook\<close>

abbreviation move_to :: "i64 \<Rightarrow> update_webhook_request" where
  "move_to c \<equiv> \<lparr>uw_name = None, uw_avatar = None, uw_channel_id = Some c\<rparr>"

lemma may_webhooks: "may sid uid p (db\<lparr>webhooks := x\<rparr>) = may sid uid p db"
  "is_member sid uid (db\<lparr>webhooks := x\<rparr>) = is_member sid uid db"
  by (simp_all add: may_def is_member_def effective_permissions_def role_permission_rows_def is_owner_def)

lemma run_move_webhook:
  assumes "calm w" "webhook_row_at wid (w_pg w) = Some r" "may (wh_server_id r) auth MANAGE_WEBHOOKS (w_pg w)"
    "is_channel c (w_pg w)" "\<And>x. x \<in> set (webhooks (w_pg w)) \<Longrightarrow> webhook_fits x"
  shows "\<exists>a w'. update_webhook auth wid (move_to c) w = (Inr a, w') \<and> calm w' \<and>
    webhooks (w_pg w') = t_update (\<lambda>r. wh_id r = wid) (\<lambda>r. r\<lparr>wh_channel_id := c\<rparr>) (webhooks (w_pg w))"
proof -
  let ?ws = "t_update (\<lambda>r. wh_id r = wid) (\<lambda>r. r\<lparr>wh_channel_id := c\<rparr>) (webhooks (w_pg w))"
  have upd: "update_webhook_row wid (\<lambda>r. r\<lparr>wh_channel_id := c\<rparr>) (w_pg w) = Inr ((w_pg w)\<lparr>webhooks := ?ws\<rparr>, ())"
    using assms(4, 5) by (simp add: update_webhook_row_def webhook_fits_def)
  have found: "webhook_row_at wid ((w_pg w)\<lparr>webhooks := ?ws\<rparr>) = Some (r\<lparr>wh_channel_id := c\<rparr>)"
    using assms(2) by (simp add: webhook_row_at_def find_update(1))
  have member: "is_member (wh_server_id r) auth (w_pg w)" using assms(3) by (simp add: may_def)
  show ?thesis
    using assms(1, 2, 3) member
    by (simp add: update_webhook_def require_webhook_def get_webhook_def run upd found may_webhooks)
qed

text \<open>A limit of the code: moving a webhook asks for no right in the place it moves to. Whoever may manage the webhooks
  of one server can point one at any channel that exists, of another server or a conversation of other people, and
  with the webhook's token post there.\<close>

theorem webhook_moves_anywhere:
  assumes "calm w" "webhook_row_at wid (w_pg w) = Some r" "may (wh_server_id r) auth MANAGE_WEBHOOKS (w_pg w)"
    and "is_channel c (w_pg w)" "\<And>x. x \<in> set (webhooks (w_pg w)) \<Longrightarrow> webhook_fits x" "wh_token r = digest token"
    and "json_get_str ''content'' body = Some content" "content \<noteq> []" "length content \<le> 4000"
  shows "\<exists>a w1 w2. update_webhook auth wid (move_to c) w = (Inr a, w1) \<and>
    execute_webhook digest wid token body w1 = (Inr 204, w2) \<and>
    (\<exists>m \<in> set (messages (w_scylla w2)). ms_channel_id m = c \<and> ms_author_id m = Some wid \<and> ms_content m = Some content)"
proof -
  obtain a w1 where 1: "update_webhook auth wid (move_to c) w = (Inr a, w1)" "calm w1"
      "webhooks (w_pg w1) = t_update (\<lambda>r. wh_id r = wid) (\<lambda>r. r\<lparr>wh_channel_id := c\<rparr>) (webhooks (w_pg w))"
    using run_move_webhook [OF assms(1-5)] by blast
  have "t_find (\<lambda>r. wh_id r = wid \<and> wh_token r = digest token) (webhooks (w_pg w)) \<noteq> None"
    using assms(2, 6) by (auto simp: webhook_row_at_def t_find_None_iff dest: t_find_SomeD)
  then obtain r' where "t_find (\<lambda>r. wh_id r = wid \<and> wh_token r = digest token) (webhooks (w_pg w)) = Some r'" by auto
  then have "t_find (\<lambda>r. wh_id r = wid \<and> wh_token r = digest token) (webhooks (w_pg w1)) = Some (r'\<lparr>wh_channel_id := c\<rparr>)"
    unfolding 1(3) by (subst find_update(1)) auto
  from run_execute_webhook [of w1 body content wid digest token, OF 1(2) assms(7-9) this] obtain w2 mid where
    2: "execute_webhook digest wid token body w1 = (Inr 204, w2)" and
    "w_scylla w2 = cql_insert_webhook_message c (bucket_from_snowflake mid) mid wid content (w_scylla w1)"
    by auto
  then have "\<exists>m \<in> set (messages (w_scylla w2)). ms_channel_id m = c \<and> ms_author_id m = Some wid \<and> ms_content m = Some content"
    using inserted_message [of c _ mid wid content "w_scylla w1"] by simp
  then show ?thesis using 1(1) 2 by blast
qed

theorem webhook_moves_anywhere_witness:
  "is_dm_recipient 77 8 hook_db \<and> \<not> is_dm_recipient 77 7 hook_db \<and>
   (\<exists>a w1 w2. update_webhook 7 50 (move_to 77) (demo_world hook_db) = (Inr a, w1) \<and>
    execute_webhook (\<lambda>t. CHR ''#'' # t) 50 ''secret'' hello_body w1 = (Inr 204, w2) \<and>
    (\<exists>m \<in> set (messages (w_scylla w2)). ms_channel_id m = 77 \<and> ms_author_id m = Some 50 \<and> ms_content m = Some (lit ''hello'')))"
proof -
  have row: "webhook_row_at 50 (w_pg (demo_world hook_db)) = Some hook_row"
    by (simp add: webhook_row_at_def hook_db_def hook_row_def t_find_def)
  have same: "is_owner home_id 7 hook_db" "is_member home_id 7 hook_db"
    using home_facts(1, 2) by (simp_all add: hook_db_def is_owner_def is_member_def)
  have may: "may (wh_server_id hook_row) 7 MANAGE_WEBHOOKS (w_pg (demo_world hook_db))"
    by (simp only: may_def demo_world_sel hook_row_def webhook_row.select_convs same flag_defs) (auto intro!: effective_all same)
  have chan: "is_channel 77 (w_pg (demo_world hook_db))"
    by (simp add: is_channel_def hook_db_def t_has_def new_channel_row_def)
  have fit: "x \<in> set (webhooks (w_pg (demo_world hook_db))) \<Longrightarrow> webhook_fits x" for x
    by (simp add: hook_db_def hook_row_def webhook_fits_def fits_def fits_opt_def)
  have "is_dm_recipient 77 8 hook_db" "\<not> is_dm_recipient 77 7 hook_db"
    by (simp_all add: is_dm_recipient_def hook_db_def t_has_def)
  then show ?thesis
    using webhook_moves_anywhere [OF calm_demo row may chan fit, where digest = "\<lambda>t. CHR ''#'' # t" and token = "''secret''",
        OF _ _ hello_content] by (simp add: hook_row_def)
qed

section \<open>Applications and commands\<close>

definition application_born :: "snowflake \<Rightarrow> create_application_request \<Rightarrow> pg_db \<Rightarrow> pg_db \<Rightarrow> bool" where
  "application_born auth body s t \<longleftrightarrow> (\<exists>app_id bot_id hash now.
     t = s\<lparr>users := users s @ [bot_user_row bot_id app_id (nap_name body) hash now],
           applications := applications s @ [\<lparr>ap_id = app_id, ap_owner_id = auth, ap_name = nap_name body,
              ap_description = nap_description body, ap_icon = None, ap_bot_id = Some bot_id, ap_bot_token_hash = Some hash\<rparr>]\<rparr> \<and>
     \<not> t_has (\<lambda>u. u_id u = bot_id) (users s) \<and> \<not> t_has (\<lambda>a. ap_id a = app_id) (applications s))"

lemma born:
  assumes "insert_user (bot_user_row bot_id app_id (nap_name body) hash now) s = Inr (d, u1)"
    "insert_application \<lparr>ap_id = app_id, ap_owner_id = auth, ap_name = nap_name body,
       ap_description = nap_description body, ap_icon = None, ap_bot_id = Some bot_id, ap_bot_token_hash = Some hash\<rparr> d = Inr (t, u2)"
  shows "application_born auth body s t"
proof -
  have d: "d = s\<lparr>users := users s @ [bot_user_row bot_id app_id (nap_name body) hash now]\<rparr>" "\<not> t_has (\<lambda>u. u_id u = bot_id) (users s)"
    using assms(1) by (auto simp: insert_user_def t_insert_def bot_user_row_def new_user_row_def t_has_iff split: if_splits)
  have t: "t = d\<lparr>applications := applications d @ [\<lparr>ap_id = app_id, ap_owner_id = auth, ap_name = nap_name body,
       ap_description = nap_description body, ap_icon = None, ap_bot_id = Some bot_id, ap_bot_token_hash = Some hash\<rparr>]\<rparr>"
      "\<not> t_has (\<lambda>a. ap_id a = app_id) (applications d)"
    using assms(2) by (auto simp: insert_application_def t_insert_def t_has_iff split: if_splits)
  show ?thesis
    unfolding application_born_def
    by (rule exI [of _ app_id], rule exI [of _ bot_id], rule exI [of _ hash], rule exI [of _ now]) (use d t in simp)
qed

lemma wps_create_application:
  "wps (create_application digest base64 random auth body) (\<lambda>_. application_born auth body s)
     (\<lambda>_ t. t = s \<or> application_born auth body s t) s"
  unfolding create_application_def create_application_tx_def Let_def
  by (intro wp) (auto intro: born intro!: wps_ret)

text \<open>An application and its bot account come together or not at all, whatever fails: a request that succeeds added
  both, one that fails added both (a commit without an answer) or nothing.\<close>

theorem application_with_bot:
  "case create_application digest base64 random auth body w of
     (Inr _, w') \<Rightarrow> application_born auth body (w_pg w) (w_pg w')
   | (Inl _, w') \<Rightarrow> w_pg w' = w_pg w \<or> application_born auth body (w_pg w) (w_pg w')"
  using wpsD [OF wps_create_application [of digest base64 random auth body "w_pg w"]] by (auto split: prod.split sum.split)

text \<open>The slash commands of an application.\<close>

datatype command_request =
    CreateCommand create_command_request
  | UpdateCommand i64 json
  | DeleteCommand i64

definition serve_command :: "snowflake \<Rightarrow> i64 \<Rightarrow> command_request \<Rightarrow> nat handler" where
  "serve_command auth app_id req = (case req of
      CreateCommand body \<Rightarrow> bind (create_command auth app_id body) (\<lambda>(code, _). ret code)
    | UpdateCommand cid body \<Rightarrow> update_command auth app_id cid body
    | DeleteCommand cid \<Rightarrow> delete_command auth app_id cid)"

definition command_names_ok :: "pg_db \<Rightarrow> bool" where
  "command_names_ok db \<longleftrightarrow>
     distinct (map cm_id (commands db)) \<and> distinct (map (\<lambda>r. (cm_application_id r, cm_server_id r, cm_name r)) (commands db))"

text \<open>What a request on the application may leave: other applications' commands and every other table are as before,
  one name per application and server, and nothing changes without the owner.\<close>

definition command_change :: "snowflake \<Rightarrow> i64 \<Rightarrow> pg_db \<Rightarrow> pg_db \<Rightarrow> bool" where
  "command_change auth app_id s t \<longleftrightarrow> t = s \<or>
     t_has (own_application auth app_id) (applications s) \<and> command_names_ok t \<and>
     (\<exists>cs. t = s\<lparr>commands := cs\<rparr> \<and>
        filter (\<lambda>r. cm_application_id r \<noteq> app_id) cs = filter (\<lambda>r. cm_application_id r \<noteq> app_id) (commands s))"

lemma change_trans:
  assumes "command_change auth app_id s t" "command_change auth app_id t u"
  shows "command_change auth app_id s u"
proof (cases "t = s \<or> u = t")
  case True
  then show ?thesis using assms by auto
next
  case False
  then obtain cs ds where "t = s\<lparr>commands := cs\<rparr>" "u = t\<lparr>commands := ds\<rparr>" "t_has (own_application auth app_id) (applications s)"
      "command_names_ok u" "filter (\<lambda>r. cm_application_id r \<noteq> app_id) cs = filter (\<lambda>r. cm_application_id r \<noteq> app_id) (commands s)"
      "filter (\<lambda>r. cm_application_id r \<noteq> app_id) ds = filter (\<lambda>r. cm_application_id r \<noteq> app_id) (commands t)"
    using assms unfolding command_change_def by blast
  then show ?thesis unfolding command_change_def by (intro disjI2 conjI exI [of _ ds]) simp_all
qed

lemma filter_update_other:
  "(\<And>r. P r \<Longrightarrow> \<not> Q r) \<Longrightarrow> (\<And>r. P r \<Longrightarrow> \<not> Q (f r)) \<Longrightarrow> filter Q (t_update P f t) = filter Q t"
  unfolding t_update_def by (induction t) auto

lemma distinct_update_one:
  assumes "distinct (map cm_id cs)" "distinct (map k cs)" "\<And>r. P r \<longleftrightarrow> cm_id r = cid \<and> Q r"
    "\<And>r x. r \<in> set cs \<Longrightarrow> P r \<Longrightarrow> x \<in> set cs \<Longrightarrow> cm_id x \<noteq> cid \<Longrightarrow> k x \<noteq> k (f r)"
  shows "distinct (map k (t_update P f cs))"
  using assms(1, 2, 4) unfolding t_update_def
proof (induction cs)
  case (Cons c cs)
  have IH: "distinct (map k (map (\<lambda>r. if P r then f r else r) cs))" using Cons by auto
  have "k (if P c then f c else c) \<notin> k ` (\<lambda>r. if P r then f r else r) ` set cs"
  proof
    assume "k (if P c then f c else c) \<in> k ` (\<lambda>r. if P r then f r else r) ` set cs"
    then obtain x where x: "x \<in> set cs" "k (if P c then f c else c) = k (if P x then f x else x)" by auto
    have id: "cm_id x \<noteq> cm_id c" using Cons.prems(1) x(1) by (auto simp: rev_image_eqI)
    have key: "k x \<noteq> k c" using Cons.prems(2) x(1) by (auto simp: rev_image_eqI)
    show False
    proof (cases "P c")
      case True
      then have "\<not> P x" "cm_id x \<noteq> cid" using id assms(3) by auto
      then show False using x True Cons.prems(3) [of c x] by simp
    next
      case False
      show False
      proof (cases "P x")
        case True
        then have "cm_id c \<noteq> cid" using id assms(3) by auto
        then show False using x True \<open>\<not> P c\<close> Cons.prems(3) [of x c] by simp
      next
        case False
        then show False using x key \<open>\<not> P c\<close> by simp
      qed
    qed
  qed
  then show ?case using IH by auto
qed simp

lemma change_names: "command_change auth app_id s t \<Longrightarrow> command_names_ok s \<Longrightarrow> command_names_ok t"
  by (auto simp: command_change_def)

lemma inserted_command:
  assumes "insert_command r s = Inr (t, u)" "command_names_ok s" "cm_application_id r = app_id"
    "t_has (own_application auth app_id) (applications s)"
  shows "command_change auth app_id s t"
proof -
  have t: "t = s\<lparr>commands := t_insert r (commands s)\<rparr>" "\<not> t_has (\<lambda>x. cm_id x = cm_id r \<or> same_command r x) (commands s)"
    using assms(1) by (auto simp: insert_command_def split: if_splits)
  have "command_names_ok t"
    using assms(2) t(2) unfolding command_names_ok_def
    by (auto simp: t(1) t_insert_def t_has_iff same_command_def)
  then show ?thesis
    unfolding command_change_def using assms(3, 4) t(1)
    by (intro disjI2 conjI exI [of _ "t_insert r (commands s)"]) (auto simp: t_insert_def)
qed

lemma updated_command:
  assumes "update_command_row cid app_id f s = Inr (t, u)" "command_names_ok s"
    "t_has (own_application auth app_id) (applications s)"
    "\<And>r. cm_id (f r) = cm_id r \<and> cm_application_id (f r) = cm_application_id r"
  shows "command_change auth app_id s t"
proof (cases "t_find (\<lambda>r. cm_id r = cid \<and> cm_application_id r = app_id) (commands s)")
  case None
  then show ?thesis using assms(1) by (simp add: update_command_row_def command_change_def)
next
  case (Some r)
  let ?P = "\<lambda>r. cm_id r = cid \<and> cm_application_id r = app_id"
  let ?k = "\<lambda>r. (cm_application_id r, cm_server_id r, cm_name r)"
  have r: "r \<in> set (commands s)" "?P r" using t_find_SomeD [OF Some] by auto
  have t: "t = s\<lparr>commands := t_update ?P f (commands s)\<rparr>"
    and free: "\<not> t_has (\<lambda>x. cm_id x \<noteq> cid \<and> same_command (f r) x) (commands s)"
    using assms(1) Some by (auto simp: update_command_row_def split: if_splits)
  have one: "x = r" if "x \<in> set (commands s)" "?P x" for x
    using that r assms(2) by (auto simp: command_names_ok_def distinct_map inj_on_def)
  have "distinct (map ?k (t_update ?P f (commands s)))"
  proof (rule distinct_update_one [where cid = cid and Q = "\<lambda>r. cm_application_id r = app_id"])
    show "?k x \<noteq> ?k (f y)" if "y \<in> set (commands s)" "?P y" "x \<in> set (commands s)" "cm_id x \<noteq> cid" for x y
      using one [OF that(1, 2)] free that(3, 4) by (auto simp: t_has_iff same_command_def)
  qed (use assms(2) in \<open>auto simp: command_names_ok_def\<close>)
  moreover have "map cm_id (t_update ?P f (commands s)) = map cm_id (commands s)"
    by (rule map_t_update_same) (simp add: assms(4))
  ultimately have "command_names_ok t" using assms(2) by (simp add: command_names_ok_def t)
  then show ?thesis
    unfolding command_change_def using assms(3)
    by (intro disjI2 conjI exI [of _ "t_update ?P f (commands s)"]) (auto simp: t assms(4) intro!: filter_update_other)
qed

lemma deleted_command:
  assumes "delete_command_row cid app_id s = Inr (t, u)" "command_names_ok s"
    "t_has (own_application auth app_id) (applications s)"
  shows "command_change auth app_id s t"
proof -
  let ?cs = "t_delete (\<lambda>r. cm_id r = cid \<and> cm_application_id r = app_id) (commands s)"
  have t: "t = s\<lparr>commands := ?cs\<rparr>" using assms(1) by (simp add: delete_command_row_def)
  have "command_names_ok t" using assms(2) by (simp add: command_names_ok_def t distinct_map_t_delete)
  then show ?thesis
    unfolding command_change_def using assms(3)
    by (intro disjI2 conjI exI [of _ ?cs]) (auto simp: t t_delete_def intro: filter_cong)
qed

lemma wps_require_application [wp]:
  "(t_has (own_application auth app_id) (applications s) \<Longrightarrow> Q () s) \<Longrightarrow> (\<And>e. E e s) \<Longrightarrow> wps (require_application auth app_id) Q E s"
  unfolding require_application_def by (intro wp) auto

definition command_safe :: "snowflake \<Rightarrow> i64 \<Rightarrow> pg_db \<Rightarrow> pg_db \<Rightarrow> bool" where
  "command_safe auth app_id s t \<longleftrightarrow>
     command_change auth app_id s t \<and> command_names_ok t \<and> t_has (own_application auth app_id) (applications t)"

lemma safe_step:
  assumes "command_safe auth app_id s t" "command_change auth app_id t u"
  shows "command_safe auth app_id s u"
proof -
  have "applications u = applications t" using assms(2) by (auto simp: command_change_def)
  then show ?thesis
    using assms change_trans change_names unfolding command_safe_def by metis
qed

lemma wps_update_row:
  assumes "command_safe auth app_id s t" "\<And>u. command_safe auth app_id s u \<Longrightarrow> Q () u"
    "\<And>r. cm_id (f r) = cm_id r \<and> cm_application_id (f r) = cm_application_id r"
  shows "wps (pg_exec (update_command_row cid app_id f)) Q (\<lambda>_ u. command_change auth app_id s u) t"
proof -
  have "command_safe auth app_id s u" if "update_command_row cid app_id f t = Inr (u, x)" for u x
    by (rule safe_step [OF assms(1)], rule updated_command [OF that _ _ assms(3)])
      (use assms(1) in \<open>simp_all add: command_safe_def\<close>)
  then show ?thesis
    using assms by (intro wp) (auto simp: command_safe_def)
qed

lemma wps_serve_command:
  assumes "command_names_ok s"
  shows "wps (serve_command auth app_id req) (\<lambda>_. command_change auth app_id s) (\<lambda>_. command_change auth app_id s) s"
proof -
  have refl: "command_change auth app_id s s" by (simp add: command_change_def)
  have safe: "t_has (own_application auth app_id) (applications s) \<Longrightarrow> command_safe auth app_id s s"
    using assms refl by (simp add: command_safe_def)
  show ?thesis
  proof (cases req)
    case (CreateCommand body)
    show ?thesis
      unfolding serve_command_def CreateCommand command_request.case create_command_def Let_def
      by (intro wp) (use assms refl in \<open>auto intro: inserted_command wps_ret\<close>)
  next
    case (UpdateCommand cid body)
    have opt: "wps (case v of None \<Rightarrow> ret () | Some x \<Rightarrow> pg_exec (update_command_row cid app_id (f x))) Q
        (\<lambda>_. command_change auth app_id s) t"
      if "command_safe auth app_id s t" "\<And>u. command_safe auth app_id s u \<Longrightarrow> Q () u"
        "\<And>x r. cm_id (f x r) = cm_id r \<and> cm_application_id (f x r) = cm_application_id r" for v f Q t
      using that by (cases v) (auto intro: wps_ret wps_update_row)
    show ?thesis
      unfolding serve_command_def UpdateCommand command_request.case update_command_def
      by (intro wps_bind wps_require_application opt wps_ret) (use safe refl in \<open>auto simp: command_safe_def\<close>)
  next
    case (DeleteCommand cid)
    show ?thesis
      unfolding serve_command_def DeleteCommand command_request.case delete_command_def
      by (intro wp) (use assms refl in \<open>auto intro: deleted_command\<close>)
  qed
qed

text \<open>The commands of an application belong to its owner: whatever request on an application is served, and whatever
  fails on the way, the database is as before unless the caller owns the application, no other application's
  commands and no other table change, and names stay unique per application and server.\<close>

theorem commands_only_by_owner:
  assumes "command_names_ok (w_pg w)"
  shows "command_change auth app_id (w_pg w) (w_pg (snd (serve_command auth app_id req w)))"
  using wpsD [OF wps_serve_command [OF assms, of auth app_id req]]
  by (cases "serve_command auth app_id req w"; cases "fst (serve_command auth app_id req w)") auto

definition command_db :: pg_db where
  "command_db = demo_db\<lparr>applications := [\<lparr>ap_id = 60, ap_owner_id = 7, ap_name = lit ''helper'', ap_description = None,
     ap_icon = None, ap_bot_id = None, ap_bot_token_hash = None\<rparr>],
   commands := [\<lparr>cm_id = 61, cm_application_id = 60, cm_server_id = None, cm_name = lit ''ping'',
     cm_description = lit ''answers'', cm_options = JArr []\<rparr>]\<rparr>"

theorem commands_only_by_owner_witness:
  "command_change 8 60 command_db (w_pg (snd (serve_command 8 60 (DeleteCommand 61) (demo_world command_db)))) \<and>
   w_pg (snd (serve_command 8 60 (DeleteCommand 61) (demo_world command_db))) = command_db"
proof -
  have "command_names_ok (w_pg (demo_world command_db))"
    by (simp add: command_names_ok_def command_db_def)
  from commands_only_by_owner [OF this, of 8 60 "DeleteCommand 61"] show ?thesis
    by (simp add: command_change_def own_application_def command_db_def t_has_def)
qed

end
