(* ===== verification/Reactions.thy ===== *)
theory Reactions
  imports Channels Messages Sessions
begin

text \<open>
  \<open>routes/reactions.rs\<close> and \<open>routes/typing.rs\<close> with the CQL statements of \<open>lumiere-db/src/lib.rs\<close> they run: reactions,
  the typing indicator and read states. A table of ScyllaDB is a list of rows with one row per primary key; within a
  partition rows come back in the order of the clustering columns.
\<close>

section \<open>CQL statements\<close>

definition reaction_key :: "i64 \<Rightarrow> i64 \<Rightarrow> ustr \<Rightarrow> i64 \<Rightarrow> reaction_row \<Rightarrow> bool" where
  "reaction_key cid mid emoji uid r \<longleftrightarrow>
     rc_channel_id r = cid \<and> rc_message_id r = mid \<and> rc_emoji r = emoji \<and> rc_user_id r = uid"

definition cql_insert_reaction :: "i64 \<Rightarrow> i64 \<Rightarrow> ustr \<Rightarrow> i64 \<Rightarrow> int \<Rightarrow> scylla_db \<Rightarrow> scylla_db" where
  "cql_insert_reaction cid mid emoji uid now sc = sc\<lparr>reactions :=
     t_insert \<lparr>rc_channel_id = cid, rc_message_id = mid, rc_emoji = emoji, rc_user_id = uid, rc_created_at = Some now\<rparr>
       (t_delete (reaction_key cid mid emoji uid) (reactions sc))\<rparr>"

definition cql_delete_reactions :: "(reaction_row \<Rightarrow> bool) \<Rightarrow> scylla_db \<Rightarrow> scylla_db" where
  "cql_delete_reactions P sc = sc\<lparr>reactions := t_delete P (reactions sc)\<rparr>"

definition cql_get_reactors :: "i64 \<Rightarrow> i64 \<Rightarrow> ustr \<Rightarrow> i64 option \<Rightarrow> nat \<Rightarrow> scylla_db \<Rightarrow> i64 list" where
  "cql_get_reactors cid mid emoji after lim sc = take lim (sort_key sint (map rc_user_id
     (filter (\<lambda>r. rc_channel_id r = cid \<and> rc_message_id r = mid \<and> rc_emoji r = emoji \<and>
        (case after of None \<Rightarrow> True | Some a \<Rightarrow> sint a < sint (rc_user_id r))) (reactions sc))))"

definition cql_upsert_read_state :: "i64 \<Rightarrow> i64 \<Rightarrow> i64 \<Rightarrow> int \<Rightarrow> scylla_db \<Rightarrow> scylla_db" where
  "cql_upsert_read_state uid cid mid now sc = sc\<lparr>read_states :=
     t_insert \<lparr>rs_user_id = uid, rs_channel_id = cid, rs_last_message_id = Some mid, rs_mention_count = Some 0,
          rs_updated_at = Some now\<rparr>
       (t_delete (\<lambda>r. rs_user_id r = uid \<and> rs_channel_id r = cid) (read_states sc))\<rparr>"

definition cql_get_unread :: "i64 \<Rightarrow> scylla_db \<Rightarrow> read_state_row list" where
  "cql_get_unread uid sc =
     take 1000 (sort_key (\<lambda>r. sint (rs_channel_id r)) (filter (\<lambda>r. rs_user_id r = uid) (read_states sc)))"

section \<open>Reactions\<close>

record reaction_user =
  ru_id :: snowflake
  ru_username :: ustr
  ru_avatar :: "ustr option"

definition check_emoji :: "ustr \<Rightarrow> unit handler" where
  "check_emoji emoji = ensure (\<not> (emoji = [] \<or> utf8_len emoji > 100)) (BadRequest ''Invalid emoji'')"

definition reaction_event :: "string \<Rightarrow> i64 \<Rightarrow> i64 \<Rightarrow> (string \<times> json) list \<Rightarrow> json" where
  "reaction_event ty cid mid extra =
     JObj ([(''type'', jlit ty), (''channel_id'', ji64 cid), (''message_id'', ji64 mid)] @ extra)"

definition add_reaction :: "snowflake \<Rightarrow> i64 \<Rightarrow> i64 \<Rightarrow> ustr \<Rightarrow> nat handler" where
  "add_reaction auth cid mid emoji =
     andThen (check_emoji emoji)
    (andThen (check_channel_permission cid auth ADD_REACTIONS)
    (bind utc_now (\<lambda>now.
     andThen (scylla_exec (cql_insert_reaction cid mid emoji auth now))
    (andThen (publish (channel_messages cid)
        (reaction_event ''MESSAGE_REACTION_ADD'' cid mid [(''user_id'', jsnow auth), (''emoji'', JStr emoji)]))
     (ret 204)))))"

definition remove_own_reaction :: "snowflake \<Rightarrow> i64 \<Rightarrow> i64 \<Rightarrow> ustr \<Rightarrow> nat handler" where
  "remove_own_reaction auth cid mid emoji =
     andThen (check_emoji emoji)
    (andThen (check_channel_permission cid auth VIEW_CHANNEL)
    (andThen (scylla_exec (cql_delete_reactions (reaction_key cid mid emoji auth)))
    (andThen (publish (channel_messages cid)
        (reaction_event ''MESSAGE_REACTION_REMOVE'' cid mid [(''user_id'', jsnow auth), (''emoji'', JStr emoji)]))
     (ret 204))))"

definition remove_user_reaction :: "snowflake \<Rightarrow> i64 \<Rightarrow> i64 \<Rightarrow> ustr \<Rightarrow> i64 \<Rightarrow> nat handler" where
  "remove_user_reaction auth cid mid emoji uid =
     andThen (check_emoji emoji)
    (andThen (check_channel_permission cid auth MANAGE_MESSAGES)
    (andThen (scylla_exec (cql_delete_reactions (reaction_key cid mid emoji uid)))
    (andThen (publish (channel_messages cid)
        (reaction_event ''MESSAGE_REACTION_REMOVE'' cid mid [(''user_id'', ji64 uid), (''emoji'', JStr emoji)]))
     (ret 204))))"

definition reactor_limit :: "int option \<Rightarrow> nat" where
  "reactor_limit lim = clamp_limit (unwrap_or 25 lim)"

text \<open>\<open>user_map\<close>: the later of two rows with the same identifier wins.\<close>

definition reaction_users :: "i64 list \<Rightarrow> pg_db \<Rightarrow> i64 \<Rightarrow> reaction_user option" where
  "reaction_users ids db uid = map_option (\<lambda>u. \<lparr>ru_id = uid, ru_username = u_username u, ru_avatar = u_avatar u\<rparr>)
     (t_find (\<lambda>u. u_id u = uid) (rev (filter (\<lambda>u. u_id u \<in> set ids \<and> u_deleted_at u = None) (users db))))"

definition get_reactors ::
  "snowflake \<Rightarrow> i64 \<Rightarrow> i64 \<Rightarrow> ustr \<Rightarrow> int option \<Rightarrow> i64 option \<Rightarrow> reaction_user list handler" where
  "get_reactors auth cid mid emoji lim after =
     andThen (check_emoji emoji)
    (andThen (check_channel_permission cid auth VIEW_CHANNEL)
    (bind (scylla_query (cql_get_reactors cid mid emoji after (reactor_limit lim))) (\<lambda>ids.
     if ids = [] then ret []
     else bind (pg_query (reaction_users ids)) (\<lambda>user_map. ret (List.map_filter user_map ids)))))"

definition remove_all_reactions :: "snowflake \<Rightarrow> i64 \<Rightarrow> i64 \<Rightarrow> nat handler" where
  "remove_all_reactions auth cid mid =
     andThen (check_channel_permission cid auth MANAGE_MESSAGES)
    (andThen (scylla_exec (cql_delete_reactions (\<lambda>r. rc_channel_id r = cid \<and> rc_message_id r = mid)))
    (andThen (publish (channel_messages cid) (reaction_event ''MESSAGE_REACTION_REMOVE_ALL'' cid mid []))
     (ret 204)))"

definition remove_all_emoji_reactions :: "snowflake \<Rightarrow> i64 \<Rightarrow> i64 \<Rightarrow> ustr \<Rightarrow> nat handler" where
  "remove_all_emoji_reactions auth cid mid emoji =
     andThen (check_emoji emoji)
    (andThen (check_channel_permission cid auth MANAGE_MESSAGES)
    (andThen (scylla_exec (cql_delete_reactions (\<lambda>r. rc_channel_id r = cid \<and> rc_message_id r = mid \<and> rc_emoji r = emoji)))
    (andThen (publish (channel_messages cid)
        (reaction_event ''MESSAGE_REACTION_REMOVE_EMOJI'' cid mid [(''emoji'', JStr emoji)]))
     (ret 204))))"

section \<open>Typing\<close>

definition typing_key :: "i64 \<Rightarrow> snowflake \<Rightarrow> string" where
  "typing_key cid uid = ''typing:'' @ show_i64 cid @ '':'' @ show_u64 uid"

definition typing_event :: "i64 \<Rightarrow> snowflake \<Rightarrow> int \<Rightarrow> json" where
  "typing_event cid uid now = JObj [(''type'', jlit ''TYPING_START''), (''channel_id'', ji64 cid),
     (''user_id'', jsnow uid), (''timestamp'', ji64 (timestamp_secs now))]"

definition send_typing :: "snowflake \<Rightarrow> i64 \<Rightarrow> nat handler" where
  "send_typing auth cid =
     bind (check_channel_permission cid auth SEND_MESSAGES) (\<lambda>server.
     bind (or_else False (redis_call (cmd_set_nx_ex (typing_key cid auth) (RText ''1'') 10))) (\<lambda>set.
     if \<not> set then ret 204
     else bind utc_now (\<lambda>now.
          let event = typing_event cid auth now
          in andThen (publish (''channel.'' @ show_i64 cid @ ''.typing'') event)
            (andThen (case server of Some sid \<Rightarrow> publish (server_events sid) event | None \<Rightarrow> ret ())
             (ret 204)))))"

section \<open>Read states\<close>

definition ack_message :: "snowflake \<Rightarrow> i64 \<Rightarrow> i64 \<Rightarrow> nat handler" where
  "ack_message auth cid mid =
     andThen (check_channel_permission cid auth VIEW_CHANNEL)
    (bind utc_now (\<lambda>now.
     andThen (scylla_exec (cql_upsert_read_state auth cid mid now))
    (andThen (publish (''user.'' @ show_u64 auth @ ''.ack'')
        (JObj [(''type'', jlit ''MESSAGE_ACK''), (''channel_id'', ji64 cid), (''message_id'', ji64 mid)]))
     (ret 204))))"

definition ack_server :: "snowflake \<Rightarrow> i64 \<Rightarrow> nat handler" where
  "ack_server auth sid =
     andThen (require_member sid auth)
    (bind (pg_query (\<lambda>db. filter (\<lambda>c. ch_server_id c = Some sid) (channels db))) (\<lambda>chans.
     bind utc_now (\<lambda>now.
     andThen (for_each (\<lambda>c. case ch_last_message_id c of
          None \<Rightarrow> ret ()
        | Some mid \<Rightarrow> or_else () (scylla_exec (cql_upsert_read_state auth (ch_id c) mid now))) chans)
     (ret 204))))"

record unread_info =
  ui_channel_id :: snowflake
  ui_last_message_id :: "snowflake option"
  ui_mention_count :: int

definition unread_of_row :: "read_state_row \<Rightarrow> unread_info option" where
  "unread_of_row r = (case (rs_last_message_id r, rs_mention_count r) of
      (Some mid, Some n) \<Rightarrow> Some \<lparr>ui_channel_id = rs_channel_id r, ui_last_message_id = Some mid, ui_mention_count = n\<rparr>
    | _ \<Rightarrow> None)"

definition get_unread :: "snowflake \<Rightarrow> unread_info list handler" where
  "get_unread auth =
     bind (scylla_query (cql_get_unread auth)) (\<lambda>rows. ret (List.map_filter unread_of_row rows))"

end
