(* ===== verification/Devices.thy ===== *)
theory Devices
  imports Channels Sessions
begin

text \<open>
  Device tokens: \<open>pg_store.rs\<close> of \<open>lumiere-push\<close> and \<open>routes/devices.rs\<close>. A push error reaches the client as an
  internal error. A panic (a byte index inside a character) ends the request without an answer; the model gives it
  as an internal error of its own.
\<close>

section \<open>The store\<close>

datatype platform = Ios | Android

record device_token =
  dt_id :: "snowflake option"
  dt_token :: ustr
  dt_platform :: platform
  dt_user_id :: snowflake
  dt_device_name :: "ustr option"

fun platform_to_i16 :: "platform \<Rightarrow> int" where
  "platform_to_i16 Ios = 0"
| "platform_to_i16 Android = 1"

definition platform_from_i16 :: "int \<Rightarrow> string + platform" where
  "platform_from_i16 v = (if v = 0 then Inr Ios else if v = 1 then Inr Android else Inl ''Unknown platform value'')"

definition device_token_of :: "device_token_row \<Rightarrow> string + device_token" where
  "device_token_of r = (case platform_from_i16 (dv_platform r) of
      Inl m \<Rightarrow> Inl m
    | Inr p \<Rightarrow> Inr \<lparr>dt_id = Some (dv_id r), dt_token = dv_token r, dt_platform = p, dt_user_id = dv_user_id r,
        dt_device_name = None\<rparr>)"

text \<open>\<open>collect::<Result<Vec<_>, _>>()\<close>: the first error, or all values.\<close>

fun collect_results :: "('e + 'a) list \<Rightarrow> 'e + 'a list" where
  "collect_results [] = Inr []"
| "collect_results (Inl e # rs) = Inl e"
| "collect_results (Inr x # rs) = (case collect_results rs of Inl e \<Rightarrow> Inl e | Inr xs \<Rightarrow> Inr (x # xs))"

text \<open>\<open>map_err\<close> on a call: the error becomes the internal error of the route.\<close>

definition push_error :: "string \<Rightarrow> 'a handler \<Rightarrow> 'a handler" where
  "push_error m h w = (case h w of (Inl _, w') \<Rightarrow> (Inl (Internal m), w') | (Inr x, w') \<Rightarrow> (Inr x, w'))"

definition store_register :: "snowflake \<Rightarrow> snowflake \<Rightarrow> platform \<Rightarrow> ustr \<Rightarrow> unit handler" where
  "store_register i uid p token =
     bind utc_now (\<lambda>now.
     push_error ''Failed to register device token'' (pg_exec (upsert_device_token
       \<lparr>dv_id = i, dv_user_id = uid, dv_platform = platform_to_i16 p, dv_token = token, dv_created_at = now\<rparr>)))"

definition unregister_by_id :: "snowflake \<Rightarrow> snowflake \<Rightarrow> bool handler" where
  "unregister_by_id uid i =
     bind (push_error ''Failed to unregister device''
       (pg_exec (delete_device_tokens (\<lambda>r. dv_id r = i \<and> dv_user_id r = uid)))) (\<lambda>n. ret (n > 0))"

definition store_unregister :: "snowflake \<Rightarrow> ustr \<Rightarrow> bool handler" where
  "store_unregister uid token =
     bind (push_error ''Failed to unregister device''
       (pg_exec (delete_device_tokens (\<lambda>r. dv_user_id r = uid \<and> dv_token r = token)))) (\<lambda>n. ret (n > 0))"

definition device_rows :: "snowflake \<Rightarrow> pg_db \<Rightarrow> device_token_row list" where
  "device_rows uid db = sort_key (\<lambda>r. - dv_created_at r) (filter (\<lambda>r. dv_user_id r = uid) (device_tokens db))"

definition get_tokens :: "snowflake \<Rightarrow> device_token list handler" where
  "get_tokens uid =
     bind (push_error ''Failed to get device tokens'' (pg_query (device_rows uid))) (\<lambda>rows.
       case collect_results (map device_token_of rows) of Inl m \<Rightarrow> throw (Internal m) | Inr ts \<Rightarrow> ret ts)"

definition remove_invalid_token :: "ustr \<Rightarrow> unit handler" where
  "remove_invalid_token token =
     bind (push_error ''Failed to remove invalid token''
       (pg_exec (delete_device_tokens (\<lambda>r. dv_token r = token)))) (\<lambda>_. ret ())"

section \<open>Routes\<close>

text \<open>Slices of a \<open>str\<close> by byte index: \<open>None\<close> is the panic when the index is not at the start of a character.\<close>

definition utf8_width :: "nat \<Rightarrow> nat" where
  "utf8_width c = utf8_len [c]"

fun take_bytes :: "nat \<Rightarrow> ustr \<Rightarrow> ustr option" where
  "take_bytes n [] = (if n = 0 then Some [] else None)"
| "take_bytes n (c # cs) =
     (if n = 0 then Some []
      else if utf8_width c \<le> n then map_option (Cons c) (take_bytes (n - utf8_width c) cs) else None)"

fun drop_bytes :: "nat \<Rightarrow> ustr \<Rightarrow> ustr option" where
  "drop_bytes n [] = (if n = 0 then Some [] else None)"
| "drop_bytes n (c # cs) =
     (if n = 0 then Some (c # cs) else if utf8_width c \<le> n then drop_bytes (n - utf8_width c) cs else None)"

definition mask_token :: "ustr \<Rightarrow> ustr option" where
  "mask_token token =
     (if utf8_len token > 8
      then (case (take_bytes 4 token, drop_bytes (utf8_len token - 4) token) of
              (Some a, Some b) \<Rightarrow> Some (a @ lit ''...'' @ b)
            | _ \<Rightarrow> None)
      else Some (lit ''****''))"

definition panicked :: app_error where
  "panicked = Internal ''panicked: byte index is not a char boundary''"

record device_response =
  dr_id :: snowflake
  dr_token :: ustr
  dr_platform :: platform

definition register_device :: "snowflake \<Rightarrow> ustr \<Rightarrow> platform \<Rightarrow> (nat \<times> device_response) handler" where
  "register_device auth token p =
     (let errs = validate_length ''token'' 1 512 token
      in if errs \<noteq> [] then throw (Validation errs)
         else bind (push_error ''Database error'' (pg_query (\<lambda>db. t_count (\<lambda>r. dv_user_id r = auth) (device_tokens db)))) (\<lambda>count.
              andThen (ensure (\<not> count \<ge> 10) (BadRequest ''Too many registered devices (maximum 10)''))
             (bind fresh_id (\<lambda>i.
              andThen (store_register i auth p token)
             (bind (ok_or (mask_token token) panicked) (\<lambda>masked.
              ret (201, \<lparr>dr_id = i, dr_token = masked, dr_platform = p\<rparr>)))))))"

definition list_devices :: "snowflake \<Rightarrow> device_response list handler" where
  "list_devices auth =
     bind (get_tokens auth) (\<lambda>ts.
     ok_or (those (map (\<lambda>d. map_option (\<lambda>masked. \<lparr>dr_id = unwrap_or 0 (dt_id d), dr_token = masked,
       dr_platform = dt_platform d\<rparr>) (mask_token (dt_token d))) ts)) panicked)"

definition unregister_device :: "snowflake \<Rightarrow> i64 \<Rightarrow> nat handler" where
  "unregister_device auth i =
     bind (unregister_by_id auth i) (\<lambda>removed.
     andThen (ensure removed (NotFound ''Device not found''))
     (ret 204))"

end
