(* ===== verification/Interaction_Properties.thy ===== *)
theory Interaction_Properties
  imports Reactions Devices Message_System Handler_Logic Demo
begin

text \<open>
  What the reaction, read-state and device routes promise: who can add or remove a reaction, that an
  acknowledgement reads back, and the bound on device tokens.
\<close>

section \<open>Reactions\<close>

datatype reaction_request =
    React i64 ustr
  | Unreact i64 ustr
  | UnreactUser i64 ustr i64
  | ClearReactions i64
  | ClearEmoji i64 ustr

definition serve_reaction :: "snowflake \<Rightarrow> i64 \<Rightarrow> reaction_request \<Rightarrow> nat handler" where
  "serve_reaction auth cid req = (case req of
      React mid emoji \<Rightarrow> add_reaction auth cid mid emoji
    | Unreact mid emoji \<Rightarrow> remove_own_reaction auth cid mid emoji
    | UnreactUser mid emoji uid \<Rightarrow> remove_user_reaction auth cid mid emoji uid
    | ClearReactions mid \<Rightarrow> remove_all_reactions auth cid mid
    | ClearEmoji mid emoji \<Rightarrow> remove_all_emoji_reactions auth cid mid emoji)"

definition same_reaction :: "reaction_row \<Rightarrow> reaction_row \<Rightarrow> bool" where
  "same_reaction r x \<longleftrightarrow> reaction_key (rc_channel_id r) (rc_message_id r) (rc_emoji r) (rc_user_id r) x"

text \<open>The table afterwards: every new key is a reaction of the caller in this channel, every key that is gone was one of
  his own or he may manage messages there, and nothing outside the table and the channel has changed.\<close>

definition reactions_guarded :: "snowflake \<Rightarrow> i64 \<Rightarrow> pg_db \<Rightarrow> scylla_db \<Rightarrow> scylla_db \<Rightarrow> bool" where
  "reactions_guarded auth cid db sc sc' \<longleftrightarrow>
     sc' = sc\<lparr>reactions := reactions sc'\<rparr> \<and>
     (\<forall>r \<in> set (reactions sc'). t_has (same_reaction r) (reactions sc) \<or>
        rc_channel_id r = cid \<and> rc_user_id r = auth \<and> channel_may cid auth ADD_REACTIONS db) \<and>
     (\<forall>r \<in> set (reactions sc). t_has (same_reaction r) (reactions sc') \<or>
        rc_channel_id r = cid \<and>
          (rc_user_id r = auth \<and> channel_may cid auth VIEW_CHANNEL db \<or> channel_may cid auth MANAGE_MESSAGES db))"

lemma same_reaction_refl [simp]: "same_reaction r r"
  by (simp add: same_reaction_def reaction_key_def)

lemma has_same_reaction [simp]: "r \<in> set t \<Longrightarrow> t_has (same_reaction r) t"
  by (auto simp: t_has_iff intro: bexI [of _ r])

lemma guarded_refl [simp]: "reactions_guarded auth cid db sc sc"
  by (auto simp: reactions_guarded_def)

lemma guarded_insert:
  assumes "channel_may cid auth ADD_REACTIONS db"
  shows "reactions_guarded auth cid db sc (cql_insert_reaction cid mid emoji auth now sc)"
proof -
  let ?sc = "cql_insert_reaction cid mid emoji auth now sc"
  have "t_has (same_reaction r) (reactions ?sc)" if "r \<in> set (reactions sc)" for r
  proof (cases "reaction_key cid mid emoji auth r")
    case True
    then show ?thesis
      by (auto simp: t_has_iff cql_insert_reaction_def set_t_insert same_reaction_def reaction_key_def)
  next
    case False
    then have "r \<in> set (reactions ?sc)" using that by (simp add: cql_insert_reaction_def set_t_insert set_t_delete)
    then show ?thesis by simp
  qed
  moreover have "t_has (same_reaction r) (reactions sc) \<or> rc_channel_id r = cid \<and> rc_user_id r = auth"
    if "r \<in> set (reactions ?sc)" for r
    using that by (auto simp: cql_insert_reaction_def set_t_insert set_t_delete)
  moreover have "?sc = sc\<lparr>reactions := reactions ?sc\<rparr>" by (simp add: cql_insert_reaction_def)
  ultimately show ?thesis unfolding reactions_guarded_def using assms by blast
qed

lemma reactions_guarded_delete:
  assumes "\<And>r. P r \<Longrightarrow> rc_channel_id r = cid \<and>
      (rc_user_id r = auth \<and> channel_may cid auth VIEW_CHANNEL db \<or> channel_may cid auth MANAGE_MESSAGES db)"
  shows "reactions_guarded auth cid db sc (cql_delete_reactions P sc)"
proof -
  let ?sc = "cql_delete_reactions P sc"
  have "P r \<or> t_has (same_reaction r) (reactions ?sc)" if "r \<in> set (reactions sc)" for r
  proof (cases "P r")
    case False
    then have "r \<in> set (reactions ?sc)" using that by (simp add: cql_delete_reactions_def set_t_delete)
    then show ?thesis by simp
  qed simp
  moreover have "t_has (same_reaction r) (reactions sc)" if "r \<in> set (reactions ?sc)" for r
    using that by (simp add: cql_delete_reactions_def set_t_delete)
  moreover have "?sc = sc\<lparr>reactions := reactions ?sc\<rparr>" by (simp add: cql_delete_reactions_def)
  ultimately show ?thesis unfolding reactions_guarded_def using assms by blast
qed

lemma wpm_serve_reaction:
  "wpm (serve_reaction auth cid req) (\<lambda>_ t c. t = s \<and> reactions_guarded auth cid s sc c)
     (\<lambda>_ t c. t = s \<and> reactions_guarded auth cid s sc c) s sc"
  unfolding serve_reaction_def
  by (cases req; simp add: add_reaction_def remove_own_reaction_def remove_user_reaction_def remove_all_reactions_def
      remove_all_emoji_reactions_def check_emoji_def; intro wpm_rules)
    (auto intro: guarded_insert reactions_guarded_delete simp: reaction_key_def)

text \<open>C22: Reactions are guarded: whatever request is served in a channel, and whatever fails on the way, only the caller's own
  reactions are added, with \<open>ADD_REACTIONS\<close>; a reaction that disappears was the caller's own or he may manage the
  messages of the channel; and no other channel, table or database changes.\<close>

theorem reactions_always_guarded:
  assumes "serve_reaction auth cid req w = (r, w')"
  shows "w_pg w' = w_pg w \<and> reactions_guarded auth cid (w_pg w) (w_scylla w) (w_scylla w')"
  using wpmD [where P = "\<lambda>t c. t = w_pg w \<and> reactions_guarded auth cid (w_pg w) (w_scylla w) c", OF wpm_serve_reaction] assms
  by (metis snd_conv)

section \<open>Read states\<close>

lemma wpm_InrD: "wpm m Q E (w_pg w) (w_scylla w) \<Longrightarrow> m w = (Inr x, w') \<Longrightarrow> Q x (w_pg w') (w_scylla w')"
  unfolding wpm_def by fastforce

lemma wpm_ack_message:
  "wpm (ack_message auth cid mid) (\<lambda>_ t c. \<exists>now. t = s \<and> c = cql_upsert_read_state auth cid mid now sc)
     (\<lambda>_ _ _. True) s sc"
  unfolding ack_message_def by (intro wpm_rules) auto

lemma unread_after_ack:
  assumes "t_count (\<lambda>r. rs_user_id r = auth) (read_states sc) < 1000"
  shows "{u \<in> set (List.map_filter unread_of_row (cql_get_unread auth (cql_upsert_read_state auth cid mid now sc))).
      ui_channel_id u = cid} = {\<lparr>ui_channel_id = cid, ui_last_message_id = Some mid, ui_mention_count = 0\<rparr>}"
proof -
  let ?row = "\<lparr>rs_user_id = auth, rs_channel_id = cid, rs_last_message_id = Some mid, rs_mention_count = Some 0,
      rs_updated_at = Some now\<rparr>"
  let ?rest = "filter (\<lambda>r. rs_user_id r = auth \<and> rs_channel_id r \<noteq> cid) (read_states sc)"
  let ?mine = "filter (\<lambda>r. rs_user_id r = auth) (read_states (cql_upsert_read_state auth cid mid now sc))"
  have mine: "?mine = ?rest @ [?row]"
    by (auto simp: cql_upsert_read_state_def t_insert_def t_delete_def intro!: filter_cong)
  have "?rest = filter (\<lambda>r. rs_channel_id r \<noteq> cid) (filter (\<lambda>r. rs_user_id r = auth) (read_states sc))"
    by (simp add: conj_commute)
  then have "length ?rest \<le> length (filter (\<lambda>r. rs_user_id r = auth) (read_states sc))"
    by (metis length_filter_le)
  then have "length ?mine \<le> 1000" using assms unfolding mine by (simp add: t_count_def)
  then have "cql_get_unread auth (cql_upsert_read_state auth cid mid now sc) = sort_key (\<lambda>r. sint (rs_channel_id r)) ?mine"
    unfolding cql_get_unread_def by (intro take_all) simp
  then have rows: "set (cql_get_unread auth (cql_upsert_read_state auth cid mid now sc)) = insert ?row (set ?rest)"
    unfolding mine by simp
  have filtered: "set (List.map_filter f xs) = {y. \<exists>x \<in> set xs. f x = Some y}" for f :: "read_state_row \<Rightarrow> unread_info option" and xs
    by (induction xs) (auto simp: List.map_filter_simps split: option.splits)
  have mine_row: "unread_of_row ?row = Some \<lparr>ui_channel_id = cid, ui_last_message_id = Some mid, ui_mention_count = 0\<rparr>"
    by (simp add: unread_of_row_def)
  have chan: "ui_channel_id u = rs_channel_id r" if "unread_of_row r = Some u" for r u
    using that by (auto simp: unread_of_row_def split: option.splits)
  have "u = \<lparr>ui_channel_id = cid, ui_last_message_id = Some mid, ui_mention_count = 0\<rparr>"
    if "unread_of_row r = Some u" "r = ?row \<or> r \<in> set ?rest" "ui_channel_id u = cid" for r u
    using that chan [OF that(1)] mine_row by auto
  moreover have "ui_channel_id \<lparr>ui_channel_id = cid, ui_last_message_id = Some mid, ui_mention_count = 0\<rparr> = cid" by simp
  ultimately show ?thesis unfolding filtered rows using mine_row by blast
qed

text \<open>An acknowledgement reads back: after a successful \<open>ack_message\<close> the answer of \<open>get_unread\<close> has exactly one entry
  for the channel, with that message and no mentions, for users with read states in fewer than 1000 channels.\<close>

theorem ack_reads_back:
  assumes "ack_message auth cid mid w = (Inr code, w1)" "get_unread auth w1 = (Inr us, w2)"
    and "t_count (\<lambda>r. rs_user_id r = auth) (read_states (w_scylla w)) < 1000"
  shows "{u \<in> set us. ui_channel_id u = cid} = {\<lparr>ui_channel_id = cid, ui_last_message_id = Some mid, ui_mention_count = 0\<rparr>}"
proof -
  obtain now where "w_scylla w1 = cql_upsert_read_state auth cid mid now (w_scylla w)"
    using wpm_InrD [OF wpm_ack_message assms(1)] by blast
  moreover have "us = List.map_filter unread_of_row (cql_get_unread auth (w_scylla w1))"
  proof -
    have "wpm (get_unread auth) (\<lambda>us _ c. us = List.map_filter unread_of_row (cql_get_unread auth (w_scylla w1)))
        (\<lambda>_ _ _. True) (w_pg w1) (w_scylla w1)"
      unfolding get_unread_def by (intro wpm_rules) auto
    from wpm_InrD [OF this assms(2)] show ?thesis .
  qed
  ultimately show ?thesis using unread_after_ack [OF assms(3)] by simp
qed

lemma home_channel_may: "n < 38 \<Longrightarrow> channel_may 20975617 7 (flag n) home_db"
proof -
  assume "n < 38"
  then have "may home_id 7 (flag n) home_db" by (simp only: may_def home_facts) (auto intro!: effective_all home_facts)
  moreover have "channel_server 20975617 home_db = Some (Some home_id)"
    by (simp add: channel_server_def home_db_def t_find_def new_channel_row_def)
  ultimately show ?thesis by (simp add: channel_may_def)
qed

lemma demo_may: "channel_may 20975617 7 ADD_REACTIONS home_db" "channel_may 20975617 7 VIEW_CHANNEL home_db"
  by (simp_all only: flag_defs) (rule home_channel_may; simp)+

theorem reactions_always_guarded_witness:
  "\<exists>w'. serve_reaction 7 20975617 (React 5 (lit ''+1'')) (demo_world home_db) = (Inr 204, w') \<and>
     length (reactions (w_scylla w')) = 1 \<and>
     reactions_guarded 7 20975617 home_db (w_scylla (demo_world home_db)) (w_scylla w')"
proof -
  obtain w' where 1: "serve_reaction 7 20975617 (React 5 (lit ''+1'')) (demo_world home_db) = (Inr 204, w')"
      "length (reactions (w_scylla w')) = 1"
    using demo_may by (auto simp: serve_reaction_def add_reaction_def check_emoji_def utf8_len_def run cql_insert_reaction_def
        t_insert_def t_delete_def demo_world_def calm_def)
  with reactions_always_guarded [OF 1(1)] show ?thesis by auto
qed

theorem ack_reads_back_witness:
  "\<exists>w1 us w2. ack_message 7 20975617 5 (demo_world home_db) = (Inr 204, w1) \<and> get_unread 7 w1 = (Inr us, w2) \<and>
     {u \<in> set us. ui_channel_id u = 20975617} = {\<lparr>ui_channel_id = 20975617, ui_last_message_id = Some 5, ui_mention_count = 0\<rparr>}"
proof -
  obtain w1 where 1: "ack_message 7 20975617 5 (demo_world home_db) = (Inr 204, w1)" "calm w1"
    using demo_may by (simp add: ack_message_def run)
  obtain us w2 where 2: "get_unread 7 w1 = (Inr us, w2)"
    using 1(2) by (simp add: get_unread_def run)
  have "t_count (\<lambda>r. rs_user_id r = 7) (read_states (w_scylla (demo_world home_db))) < 1000"
    by (simp add: demo_world_def t_count_def)
  from ack_reads_back [OF 1(1) 2 this] show ?thesis using 1(1) 2 by blast
qed

section \<open>Device tokens\<close>

definition devices_ok :: "pg_db \<Rightarrow> bool" where
  "devices_ok db \<longleftrightarrow>
     (\<forall>uid. t_count (\<lambda>r. dv_user_id r = uid) (device_tokens db) \<le> 10) \<and>
     distinct (map (\<lambda>r. (dv_user_id r, dv_token r)) (device_tokens db)) \<and>
     (\<forall>r \<in> set (device_tokens db). dv_platform r \<in> {0, 1})"

datatype device_request = RegisterDevice snowflake ustr platform | UnregisterDevice snowflake i64 | DeadToken ustr

definition serve_device :: "device_request \<Rightarrow> unit handler" where
  "serve_device req = (case req of
      RegisterDevice auth token p \<Rightarrow> bind (register_device auth token p) (\<lambda>_. ret ())
    | UnregisterDevice auth i \<Rightarrow> bind (unregister_device auth i) (\<lambda>_. ret ())
    | DeadToken token \<Rightarrow> remove_invalid_token token)"

lemma wps_push_error [wp]: "wps m Q (\<lambda>_. E (Internal e)) s \<Longrightarrow> wps (push_error e m) Q E s"
  unfolding wps_def push_error_def by (fastforce split: prod.splits sum.splits)

lemma devices_delete:
  assumes "devices_ok db" "delete_device_tokens P db = Inr (db', n)"
  shows "devices_ok db'"
proof -
  have "db' = db\<lparr>device_tokens := t_delete P (device_tokens db)\<rparr>" using assms(2) by (simp add: delete_device_tokens_def)
  moreover have "t_count (\<lambda>r. dv_user_id r = uid) (t_delete P (device_tokens db)) \<le> 10" for uid
    by (rule le_trans [OF t_count_delete_le]) (use assms(1) in \<open>simp add: devices_ok_def\<close>)
  ultimately show ?thesis using assms(1) by (simp add: devices_ok_def distinct_map_t_delete set_t_delete)
qed

lemma devices_upsert:
  assumes "devices_ok db" "upsert_device_token r db = Inr (db', u)" "dv_platform r \<in> {0, 1}"
    "t_count (\<lambda>x. dv_user_id x = dv_user_id r) (device_tokens db) < 10"
  shows "devices_ok db'"
proof (cases "t_has (\<lambda>x. dv_user_id x = dv_user_id r \<and> dv_token x = dv_token r) (device_tokens db)")
  case True
  then have db': "db' = db\<lparr>device_tokens := t_update (\<lambda>x. dv_user_id x = dv_user_id r \<and> dv_token x = dv_token r)
      (\<lambda>x. x\<lparr>dv_platform := dv_platform r\<rparr>) (device_tokens db)\<rparr>"
    using assms(2) by (auto simp: upsert_device_token_def split: if_splits)
  show ?thesis
    using assms(1, 3) unfolding devices_ok_def
    by (auto simp: db' t_count_update_same map_t_update_same set_t_update)
next
  case False
  then have db': "db' = db\<lparr>device_tokens := t_insert r (device_tokens db)\<rparr>"
    using assms(2) by (auto simp: upsert_device_token_def split: if_splits)
  have "distinct (map (\<lambda>r. (dv_user_id r, dv_token r)) (t_insert r (device_tokens db)))"
    using assms(1) False by (intro distinct_map_t_insert) (auto simp: devices_ok_def)
  then show ?thesis
    using assms(1, 3, 4) unfolding devices_ok_def by (auto simp: db' t_count_insert set_t_insert Suc_le_eq)
qed

lemma platform_stored: "platform_to_i16 p \<in> {0, 1}"
  by (cases p) auto

lemma keeps_serve_device: "keeps devices_ok (serve_device req)"
proof (rule keepsI)
  fix s assume ok: "devices_ok s"
  show "wps (serve_device req) (\<lambda>_. devices_ok) (\<lambda>_. devices_ok) s"
  proof (cases req)
    case (RegisterDevice auth token p)
    have "devices_ok db" if "upsert_device_token \<lparr>dv_id = i, dv_user_id = auth, dv_platform = platform_to_i16 p,
          dv_token = token, dv_created_at = now\<rparr> s = Inr (db, u)"
        "t_count (\<lambda>r. dv_user_id r = auth) (device_tokens s) < 10" for i now db u
      using devices_upsert [OF ok that(1)] that(2) platform_stored [of p] by simp
    then show ?thesis
      unfolding serve_device_def RegisterDevice device_request.case register_device_def store_register_def Let_def
      by (intro wp) (use ok in auto)
  next
    case (UnregisterDevice auth i)
    show ?thesis
      unfolding serve_device_def UnregisterDevice device_request.case unregister_device_def unregister_by_id_def
      by (intro wp) (use ok in \<open>auto intro: devices_delete\<close>)
  next
    case (DeadToken token)
    show ?thesis
      unfolding serve_device_def DeadToken device_request.case remove_invalid_token_def
      by (intro wp) (use ok in \<open>auto intro: devices_delete\<close>)
  qed
qed

inductive device_step :: "world \<Rightarrow> world \<Rightarrow> bool" where
  device_served: "device_step w (snd (serve_device req w))"
| devices_untouched: "device_tokens (w_pg w') = device_tokens (w_pg w) \<Longrightarrow> device_step w w'"

definition no_devices :: "world \<Rightarrow> bool" where
  "no_devices w \<longleftrightarrow> device_tokens (w_pg w) = []"

interpretation devices: invariant_system no_devices device_step "\<lambda>w. devices_ok (w_pg w)"
proof unfold_locales
  fix w assume "no_devices w"
  then show "devices_ok (w_pg w)" by (simp add: no_devices_def devices_ok_def t_count_def)
next
  fix w w' assume ok: "devices_ok (w_pg w)" and "device_step w w'"
  from this(2) show "devices_ok (w_pg w')"
  proof (cases rule: device_step.cases)
    case (device_served req)
    then show ?thesis using keepsD [OF keeps_serve_device ok] by simp
  next
    case devices_untouched
    then show ?thesis using ok by (simp add: devices_ok_def)
  qed
qed

text \<open>C23: No account ever has more than 10 device tokens, none twice, and every stored token has a platform that reads back,
  in every state that registrations, removals, invalid tokens and failures can lead to.\<close>

theorem device_tokens_bounded:
  assumes "reach no_devices device_step w"
  shows "t_count (\<lambda>r. dv_user_id r = uid) (device_tokens (w_pg w)) \<le> 10 \<and>
    distinct (map (\<lambda>r. (dv_user_id r, dv_token r)) (device_tokens (w_pg w))) \<and>
    (\<exists>ts. collect_results (map device_token_of (device_rows uid (w_pg w))) = Inr ts)"
proof -
  note ok = devices.reach_inv [OF assms, unfolded devices_ok_def]
  have all: "\<exists>ts. collect_results (map device_token_of rs) = Inr ts" if "\<forall>r \<in> set rs. dv_platform r \<in> {0, 1}" for rs
    using that by (induction rs) (auto simp: device_token_of_def platform_from_i16_def split: sum.splits)
  have "\<exists>ts. collect_results (map device_token_of (device_rows uid (w_pg w))) = Inr ts"
    by (rule all) (use ok in \<open>auto simp: device_rows_def\<close>)
  with ok show ?thesis by blast
qed

lemma upsert_stores:
  assumes "upsert_device_token r db = Inr (db', u)"
  shows "t_has (\<lambda>x. dv_user_id x = dv_user_id r \<and> dv_token x = dv_token r) (device_tokens db')"
proof (cases "t_has (\<lambda>x. dv_user_id x = dv_user_id r \<and> dv_token x = dv_token r) (device_tokens db)")
  case True
  let ?P = "\<lambda>x. dv_user_id x = dv_user_id r \<and> dv_token x = dv_token r"
  have db': "device_tokens db' = t_update ?P (\<lambda>x. x\<lparr>dv_platform := dv_platform r\<rparr>) (device_tokens db)"
    using assms True by (auto simp: upsert_device_token_def split: if_splits)
  have "(\<exists>x \<in> set (t_update ?P (\<lambda>x. x\<lparr>dv_platform := dv_platform r\<rparr>) (device_tokens db)). ?P x) \<longleftrightarrow>
      (\<exists>x \<in> set (device_tokens db). ?P x)"
    by (rule ex_t_update_same) simp
  then show ?thesis using True unfolding t_has_iff db' by simp
next
  case False
  then show ?thesis using assms by (auto simp: upsert_device_token_def tbl_simps split: if_splits)
qed

text \<open>A limit of the code: the mask shown to the user slices the token by bytes. A token with a character across byte 4
  (or across the last four) is stored, and then the request panics; from then on the list of the user's devices
  panics too, as long as the token is stored.\<close>

theorem bad_token_breaks_list:
  assumes "reach no_devices device_step w" "calm w" "mask_token token = None" "token \<noteq> []" "length token \<le> 512"
    and "t_count (\<lambda>r. dv_user_id r = auth) (device_tokens (w_pg w)) < 10"
    and "upsert_device_token \<lparr>dv_id = fst (next_id_ticking (w_gen w) (of_int (w_now w) - LUMIERE_EPOCH)), dv_user_id = auth,
      dv_platform = platform_to_i16 p, dv_token = token, dv_created_at = w_now w\<rparr> (w_pg w) = Inr (db, ())"
  shows "\<exists>w'. register_device auth token p w = (Inl panicked, w') \<and>
    t_has (\<lambda>r. dv_user_id r = auth \<and> dv_token r = token) (device_tokens (w_pg w')) \<and>
    list_devices auth w' = (Inl panicked, w')"
proof -
  obtain i g where ig: "next_id_ticking (w_gen w) (of_int (w_now w) - LUMIERE_EPOCH) = (i, g)" by fastforce
  let ?w = "w\<lparr>w_gen := g, w_pg := db\<rparr>"
  have reg: "register_device auth token p w = (Inl panicked, ?w)"
    using assms ig by (simp add: register_device_def validate_length_def store_register_def push_error_def run Suc_le_eq)
  have has: "t_has (\<lambda>r. dv_user_id r = auth \<and> dv_token r = token) (device_tokens db)"
    using upsert_stores [OF assms(7)] by simp
  have "reach no_devices device_step (snd (serve_device (RegisterDevice auth token p) w))"
    by (rule reach_step [OF assms(1) device_served])
  then have "devices_ok db"
    using devices.reach_inv reg by (fastforce simp: serve_device_def run)
  then have ok: "\<forall>r \<in> set (device_rows auth db). dv_platform r \<in> {0, 1}" by (auto simp: devices_ok_def device_rows_def)
  have tokens: "\<exists>ts. collect_results (map device_token_of rs) = Inr ts \<and> map dt_token ts = map dv_token rs"
    if "\<forall>r \<in> set rs. dv_platform r \<in> {0, 1}" for rs
    using that by (induction rs) (auto simp: device_token_of_def platform_from_i16_def split: sum.splits)
  obtain ts where ts: "collect_results (map device_token_of (device_rows auth db)) = Inr ts"
      "map dt_token ts = map dv_token (device_rows auth db)"
    using tokens [OF ok] by blast
  have "token \<in> set (map dt_token ts)" using has by (auto simp: ts(2) device_rows_def t_has_iff)
  then have none: "those (map (\<lambda>d. map_option (\<lambda>masked. \<lparr>dr_id = unwrap_or 0 (dt_id d), dr_token = masked,
       dr_platform = dt_platform d\<rparr>) (mask_token (dt_token d))) ts) = None"
    using assms(3) by (induction ts) (auto split: option.splits)
  have "calm ?w" using assms(2) by (simp add: run)
  then have "list_devices auth ?w = (Inl panicked, ?w)"
    using ts(1) none by (simp add: list_devices_def get_tokens_def push_error_def run)
  then show ?thesis using reg has by auto
qed

definition bad_token :: ustr where
  "bad_token = lit ''abc'' @ [233] @ lit ''defgh''"

lemma bad_token_mask: "mask_token bad_token = None"
  by (simp add: mask_token_def bad_token_def utf8_len_def utf8_width_def lit_simps)

lemma reach_demo_devices: "reach no_devices device_step (demo_world demo_db)"
  by (rule reach_init) (simp add: no_devices_def demo_db_def)

theorem bad_token_breaks_list_witness:
  "\<exists>w'. register_device 7 bad_token Ios (demo_world demo_db) = (Inl panicked, w') \<and>
    t_has (\<lambda>r. dv_user_id r = 7 \<and> dv_token r = bad_token) (device_tokens (w_pg w')) \<and>
    list_devices 7 w' = (Inl panicked, w')"
proof -
  have "\<exists>db. upsert_device_token \<lparr>dv_id = fst (next_id_ticking (w_gen (demo_world demo_db)) (of_int (w_now (demo_world demo_db)) - LUMIERE_EPOCH)),
      dv_user_id = 7, dv_platform = platform_to_i16 Ios, dv_token = bad_token, dv_created_at = w_now (demo_world demo_db)\<rparr>
      (w_pg (demo_world demo_db)) = Inr (db, ())"
    by (simp add: upsert_device_token_def fits_def bad_token_def lit_simps demo_db_def table_defs is_user_def demo_user_def)
  then obtain db where "upsert_device_token \<lparr>dv_id = fst (next_id_ticking (w_gen (demo_world demo_db)) (of_int (w_now (demo_world demo_db)) - LUMIERE_EPOCH)),
      dv_user_id = 7, dv_platform = platform_to_i16 Ios, dv_token = bad_token, dv_created_at = w_now (demo_world demo_db)\<rparr>
      (w_pg (demo_world demo_db)) = Inr (db, ())" ..
  from bad_token_breaks_list [OF reach_demo_devices calm_demo bad_token_mask _ _ _ this] show ?thesis
    by (simp add: bad_token_def lit_simps demo_db_def t_count_def)
qed

definition device_world :: world where
  "device_world = snd (serve_device (RegisterDevice 7 (lit ''0123456789abcdef'') Android) (demo_world demo_db))"

theorem device_tokens_bounded_witness:
  "t_count (\<lambda>r. dv_user_id r = 7) (device_tokens (w_pg device_world)) = 1 \<and>
   distinct (map (\<lambda>r. (dv_user_id r, dv_token r)) (device_tokens (w_pg device_world))) \<and>
   (\<exists>ts. collect_results (map device_token_of (device_rows 7 (w_pg device_world))) = Inr ts)"
proof -
  have r: "reach no_devices device_step device_world"
    unfolding device_world_def by (rule reach_step [OF reach_demo_devices device_served])
  have "t_count (\<lambda>r. dv_user_id r = 7) (device_tokens (w_pg device_world)) = 1"
    by (simp add: device_world_def serve_device_def register_device_def validate_length_def store_register_def push_error_def
        run upsert_device_token_def fits_def is_user_def table_defs mask_token_def utf8_len_def utf8_width_def demo_defs calm_def
        next_call_def split: prod.split)
  then show ?thesis using device_tokens_bounded [OF r] by blast
qed

end
