(* ===== verification/Gateway_Protocol.thy ===== *)
theory Gateway_Protocol
  imports Webhooks
begin

text \<open>
  \<open>lumiere-gateway/src/protocol.rs\<close>: the opcodes, the message envelope and the payloads of the client, with what their
  \<open>Serialize\<close> and \<open>Deserialize\<close> instances write and read. Text is parsed by \<open>serde_json\<close> into a \<open>json\<close> value first;
  numbers are integers, a fraction is an error for every type here. A Rust \<open>String\<close> used as a key or a token is its
  sequence of UTF-8 bytes.
\<close>

section \<open>Text as bytes\<close>

definition utf8_char :: "nat \<Rightarrow> nat list" where
  "utf8_char c =
     (if c < 128 then [c]
      else if c < 2048 then [192 + c div 64, 128 + c mod 64]
      else if c < 65536 then [224 + c div 4096, 128 + c div 64 mod 64, 128 + c mod 64]
      else [240 + c div 262144, 128 + c div 4096 mod 64, 128 + c div 64 mod 64, 128 + c mod 64])"

definition utf8_bytes :: "ustr \<Rightarrow> string" where
  "utf8_bytes s = map char_of (concat (map utf8_char s))"

lemma utf8_ascii: "list_all (\<lambda>c. (of_char c :: nat) < 128) s \<Longrightarrow> utf8_bytes (lit s) = s"
  by (induction s) (simp_all add: utf8_bytes_def utf8_char_def lit_def)

lemma digits_ascii: "list_all (\<lambda>c. (of_char c :: nat) < 128) (show_nat n)"
proof (induction n rule: show_nat.induct)
  case (1 n)
  have "(of_char (digit_char d) :: nat) < 128" if "d < 10" for d
    using that by (simp add: digit_char_def of_char_of)
  then show ?case
    using 1 by (cases "n < 10") (simp_all add: show_nat.simps [of n])
qed

lemma utf8_show_u64 [simp]: "utf8_bytes (lit (show_u64 x)) = show_u64 x"
  by (simp add: utf8_ascii digits_ascii show_u64_def)

section \<open>Opcodes\<close>

datatype opcode =
    Dispatch | Heartbeat | Identify | PresenceUpdate | VoiceStateUpdate | Resume | Reconnect
  | InvalidSession | Hello | HeartbeatAck

fun opcode_u8 :: "opcode \<Rightarrow> int" where
  "opcode_u8 Dispatch = 0"
| "opcode_u8 Heartbeat = 1"
| "opcode_u8 Identify = 2"
| "opcode_u8 PresenceUpdate = 3"
| "opcode_u8 VoiceStateUpdate = 4"
| "opcode_u8 Resume = 6"
| "opcode_u8 Reconnect = 7"
| "opcode_u8 InvalidSession = 9"
| "opcode_u8 Hello = 10"
| "opcode_u8 HeartbeatAck = 11"

definition opcode_serialize :: "opcode \<Rightarrow> json" where
  "opcode_serialize x = JInt (opcode_u8 x)"

definition opcode_deserialize :: "json \<Rightarrow> string + opcode" where
  "opcode_deserialize j =
     (case j of
        JInt v \<Rightarrow>
          if v < 0 \<or> v > 255 then Inl ''invalid value, expected u8''
          else if v = 0 then Inr Dispatch
          else if v = 1 then Inr Heartbeat
          else if v = 2 then Inr Identify
          else if v = 3 then Inr PresenceUpdate
          else if v = 4 then Inr VoiceStateUpdate
          else if v = 6 then Inr Resume
          else if v = 7 then Inr Reconnect
          else if v = 9 then Inr InvalidSession
          else if v = 10 then Inr Hello
          else if v = 11 then Inr HeartbeatAck
          else Inl (''unknown opcode: '' @ show_nat (nat v))
      | _ \<Rightarrow> Inl ''invalid type, expected u8'')"

lemma opcode_trip: "opcode_deserialize (opcode_serialize x) = Inr x"
  by (cases x) (simp_all add: opcode_serialize_def opcode_deserialize_def)

interpretation opcodes: text_codec opcode_serialize opcode_deserialize
  by unfold_locales (rule opcode_trip)

section \<open>What derived instances read\<close>

text \<open>
  The fields of a struct: by name in an object, where a known name twice is an error and others are ignored, or by
  position in an array of the right length. An absent field is \<open>None\<close>.
\<close>

definition struct_fields :: "string list \<Rightarrow> json \<Rightarrow> string + (string \<Rightarrow> json option)" where
  "struct_fields names j =
     (case j of
        JObj m \<Rightarrow>
          if distinct (filter (\<lambda>k. k \<in> set names) (map fst m)) then Inr (map_of m) else Inl ''duplicate field''
      | JArr vs \<Rightarrow> if length vs = length names then Inr (map_of (zip names vs)) else Inl ''invalid length''
      | _ \<Rightarrow> Inl ''invalid type'')"

definition required :: "(json \<Rightarrow> string + 'a) \<Rightarrow> json option \<Rightarrow> string + 'a" where
  "required f v = (case v of None \<Rightarrow> Inl ''missing field'' | Some j \<Rightarrow> f j)"

definition optional :: "(json \<Rightarrow> string + 'a) \<Rightarrow> json option \<Rightarrow> string + 'a option" where
  "optional f v = (case v of None \<Rightarrow> Inr None | Some JNull \<Rightarrow> Inr None
     | Some j \<Rightarrow> (case f j of Inl m \<Rightarrow> Inl m | Inr x \<Rightarrow> Inr (Some x)))"

definition de_string :: "json \<Rightarrow> string + ustr" where
  "de_string j = (case j of JStr s \<Rightarrow> Inr s | _ \<Rightarrow> Inl ''invalid type, expected a string'')"

definition de_bool :: "json \<Rightarrow> string + bool" where
  "de_bool j = (case j of JBool b \<Rightarrow> Inr b | _ \<Rightarrow> Inl ''invalid type, expected a boolean'')"

definition de_unsigned :: "nat \<Rightarrow> json \<Rightarrow> string + int" where
  "de_unsigned bits j =
     (case j of JInt v \<Rightarrow> if 0 \<le> v \<and> v < 2 ^ bits then Inr v else Inl ''invalid value'' | _ \<Rightarrow> Inl ''invalid type'')"

definition de_u64 :: "json \<Rightarrow> string + u64" where
  "de_u64 j = map_sum id of_int (de_unsigned 64 j)"

definition de_u8 :: "json \<Rightarrow> string + u8" where
  "de_u8 j = map_sum id of_int (de_unsigned 8 j)"

abbreviation and_then :: "string + 'a \<Rightarrow> ('a \<Rightarrow> string + 'b) \<Rightarrow> string + 'b" where
  "and_then r f \<equiv> (case r of Inl m \<Rightarrow> Inl m | Inr x \<Rightarrow> f x)"

text \<open>\<open>Deserialize for Snowflake\<close> on a JSON value: a number that fits neither type is a float.\<close>

definition de_snowflake :: "json \<Rightarrow> string + snowflake" where
  "de_snowflake j = snowflake_deserialize
     (case j of
        JStr s \<Rightarrow> StrInput (utf8_bytes s)
      | JInt v \<Rightarrow> if 0 \<le> v \<and> v < 2 ^ 64 then U64Input (of_int v)
                  else if - (2 ^ 63) \<le> v \<and> v < 0 then I64Input (of_int v) else OtherInput
      | _ \<Rightarrow> OtherInput)"

lemma de_snowflake_jsnow [simp]: "de_snowflake (jsnow x) = Inr x"
  by (simp add: de_snowflake_def jsnow_def)

definition ju64 :: "u64 \<Rightarrow> json" where
  "ju64 x = JInt (uint x)"

lemma de_u64_ju64 [simp]: "de_u64 (ju64 x) = Inr x"
  using uint_lt2p [of x] by (simp add: de_u64_def ju64_def de_unsigned_def)

section \<open>The envelope\<close>

record gateway_message =
  gm_op :: opcode
  gm_d :: "json option"
  gm_s :: "u64 option"
  gm_t :: "ustr option"

definition given :: "string \<Rightarrow> ('a \<Rightarrow> json) \<Rightarrow> 'a option \<Rightarrow> (string \<times> json) list" where
  "given k f v = (case v of None \<Rightarrow> [] | Some x \<Rightarrow> [(k, f x)])"

definition gateway_serialize :: "gateway_message \<Rightarrow> json" where
  "gateway_serialize m = JObj ((''op'', opcode_serialize (gm_op m)) #
     given ''d'' (\<lambda>j. j) (gm_d m) @ given ''s'' ju64 (gm_s m) @ given ''t'' JStr (gm_t m))"

definition gateway_deserialize :: "json \<Rightarrow> string + gateway_message" where
  "gateway_deserialize j =
     and_then (struct_fields [''op'', ''d'', ''s'', ''t''] j) (\<lambda>fs.
     and_then (required opcode_deserialize (fs ''op'')) (\<lambda>op.
     and_then (optional Inr (fs ''d'')) (\<lambda>d.
     and_then (optional de_u64 (fs ''s'')) (\<lambda>s.
     and_then (optional de_string (fs ''t'')) (\<lambda>t.
       Inr \<lparr>gm_op = op, gm_d = d, gm_s = s, gm_t = t\<rparr>)))))"

definition hello_message :: "u64 \<Rightarrow> gateway_message" where
  "hello_message interval = \<lparr>gm_op = Hello, gm_d = Some (JObj [(''heartbeat_interval'', ju64 interval)]), gm_s = None, gm_t = None\<rparr>"

definition heartbeat_ack :: gateway_message where
  "heartbeat_ack = \<lparr>gm_op = HeartbeatAck, gm_d = None, gm_s = None, gm_t = None\<rparr>"

definition dispatch :: "ustr \<Rightarrow> u64 \<Rightarrow> json \<Rightarrow> gateway_message" where
  "dispatch event_name seqno data = \<lparr>gm_op = Dispatch, gm_d = Some data, gm_s = Some seqno, gm_t = Some event_name\<rparr>"

definition invalid_session :: "bool \<Rightarrow> gateway_message" where
  "invalid_session resumable = \<lparr>gm_op = InvalidSession, gm_d = Some (JBool resumable), gm_s = None, gm_t = None\<rparr>"

definition reconnect :: gateway_message where
  "reconnect = \<lparr>gm_op = Reconnect, gm_d = None, gm_s = None, gm_t = None\<rparr>"

section \<open>The payloads of the client\<close>

record connection_properties =
  cp_os :: "ustr option"
  cp_browser :: "ustr option"
  cp_device :: "ustr option"

record presence_payload =
  pp_status :: "ustr option"
  pp_custom_status :: "json option"

record identify_payload =
  ip_token :: ustr
  ip_properties :: "connection_properties option"
  ip_presence :: "presence_payload option"
  ip_compress :: "bool option"
  ip_large_threshold :: "u8 option"

record resume_payload =
  rp_token :: ustr
  rp_session_id :: ustr
  rp_sequence :: u64

definition de_properties :: "json \<Rightarrow> string + connection_properties" where
  "de_properties j =
     and_then (struct_fields [''os'', ''browser'', ''device''] j) (\<lambda>fs.
     and_then (optional de_string (fs ''os'')) (\<lambda>os.
     and_then (optional de_string (fs ''browser'')) (\<lambda>browser.
     and_then (optional de_string (fs ''device'')) (\<lambda>device.
       Inr \<lparr>cp_os = os, cp_browser = browser, cp_device = device\<rparr>))))"

definition de_presence :: "json \<Rightarrow> string + presence_payload" where
  "de_presence j =
     and_then (struct_fields [''status'', ''custom_status''] j) (\<lambda>fs.
     and_then (optional de_string (fs ''status'')) (\<lambda>status.
     and_then (optional Inr (fs ''custom_status'')) (\<lambda>custom_status.
       Inr \<lparr>pp_status = status, pp_custom_status = custom_status\<rparr>)))"

definition de_identify :: "json \<Rightarrow> string + identify_payload" where
  "de_identify j =
     and_then (struct_fields [''token'', ''properties'', ''presence'', ''compress'', ''large_threshold''] j) (\<lambda>fs.
     and_then (required de_string (fs ''token'')) (\<lambda>token.
     and_then (optional de_properties (fs ''properties'')) (\<lambda>properties.
     and_then (optional de_presence (fs ''presence'')) (\<lambda>presence.
     and_then (optional de_bool (fs ''compress'')) (\<lambda>compress.
     and_then (optional de_u8 (fs ''large_threshold'')) (\<lambda>large_threshold.
       Inr \<lparr>ip_token = token, ip_properties = properties, ip_presence = presence, ip_compress = compress,
         ip_large_threshold = large_threshold\<rparr>))))))"

definition de_resume :: "json \<Rightarrow> string + resume_payload" where
  "de_resume j =
     and_then (struct_fields [''token'', ''session_id'', ''sequence''] j) (\<lambda>fs.
     and_then (required de_string (fs ''token'')) (\<lambda>token.
     and_then (required de_string (fs ''session_id'')) (\<lambda>session_id.
     and_then (required de_u64 (fs ''sequence'')) (\<lambda>seqno.
       Inr \<lparr>rp_token = token, rp_session_id = session_id, rp_sequence = seqno\<rparr>))))"

section \<open>The envelope survives the wire\<close>

text \<open>\<open>Some(Value::Null)\<close> is written as \<open>null\<close> and read back as \<open>None\<close>; nothing else is lost.\<close>

definition read_back :: "gateway_message \<Rightarrow> gateway_message" where
  "read_back m = m\<lparr>gm_d := (if gm_d m = Some JNull then None else gm_d m)\<rparr>"

lemma optional_simps [simp]:
  "optional f None = Inr None" "optional de_u64 (Some (ju64 x)) = Inr (Some x)"
  "optional de_string (Some (JStr t)) = Inr (Some t)" "optional Inr (Some j) = Inr (if j = JNull then None else Some j)"
  by (auto simp: optional_def ju64_def de_string_def split: json.split sum.split)
    (metis de_u64_ju64 ju64_def sum.inject(2) sum.distinct(1))+

lemma gateway_trip: "gateway_deserialize (gateway_serialize m) = Inr (read_back m)"
  by (cases m; cases "gm_d m"; cases "gm_s m"; cases "gm_t m")
    (auto simp: gateway_serialize_def gateway_deserialize_def given_def struct_fields_def required_def
      opcode_trip read_back_def)

end
