(* ===== verification/Gateway.thy ===== *)
theory Gateway
  imports Gateway_Protocol Users
begin

text \<open>
  \<open>lumiere-gateway/src/session.rs\<close> and \<open>handler.rs\<close>. The state holds the two maps of \<open>SessionManager\<close>, the sessions behind
  their \<open>Arc\<close>s, and the tasks of every connection: the read loop, the sender task with its bounded channel, the NATS
  listeners and the timer of the offline message. Each function below is one task running between two points where
  another task may run; \<open>Gateway_System\<close> interleaves them. Of every task the state keeps what the next step needs.

  Parameters: the token signature, the text form of a time, and the random session identifier.
\<close>

section \<open>State\<close>

definition HEARTBEAT_INTERVAL_MS :: u64 where "HEARTBEAT_INTERVAL_MS = 41250"
definition HEARTBEAT_TIMEOUT_MS :: int where "HEARTBEAT_TIMEOUT_MS = 61875"
definition MAX_COMMANDS_PER_MINUTE :: nat where "MAX_COMMANDS_PER_MINUTE = 120"
definition SESSION_BUFFER_TTL :: int where "SESSION_BUFFER_TTL = 300"
definition OUTBOUND_CHANNEL_CAPACITY :: nat where "OUTBOUND_CHANNEL_CAPACITY = 1024"

lemmas gateway_constants = HEARTBEAT_INTERVAL_MS_def HEARTBEAT_TIMEOUT_MS_def MAX_COMMANDS_PER_MINUTE_def
  SESSION_BUFFER_TTL_def OUTBOUND_CHANNEL_CAPACITY_def

text \<open>\<open>gs_sender\<close> is the connection whose channel the session sends to.\<close>

record gateway_session =
  gs_id :: string
  gs_user :: snowflake
  gs_sequence :: u64
  gs_sender :: nat
  gs_last_heartbeat :: u64
  gs_connected_at :: int

text \<open>The channel of a connection, and what its sender task has written to the socket.\<close>

record outbound =
  ob_queue :: "gateway_message list"
  ob_closed :: bool
  ob_wire :: "gateway_message list"

datatype listener_phase = Starting | Waiting | Numbered gateway_message | Buffered gateway_message | Stopped

record listener =
  ln_subject :: string
  ln_session :: nat
  ln_inbox :: "json list"
  ln_phase :: listener_phase

text \<open>A connection reads, has left its loop, has stored its session for a resume, or is gone.\<close>

datatype connection_phase = Reading | Closing | Stored | Gone

record connection =
  cn_session :: "nat option"
  cn_handles :: "nat list"
  cn_command_count :: nat
  cn_window_start :: int
  cn_idle_since :: int
  cn_phase :: connection_phase

text \<open>
  \<open>gw_arcs\<close> holds the sessions by address, \<open>gw_connections\<close> and \<open>gw_out\<close> are by connection. The first \<open>gw_delivered\<close>
  messages published on NATS have reached the subscriptions. A timer is its time and its user.
\<close>

record gateway =
  gw_world :: world
  gw_arcs :: "gateway_session list"
  gw_sessions :: "string \<Rightarrow> nat option"
  gw_user_sessions :: "u64 \<Rightarrow> string list option"
  gw_out :: "outbound list"
  gw_listeners :: "listener list"
  gw_connections :: "connection list"
  gw_timers :: "(int \<times> u64) list"
  gw_delivered :: nat

type_synonym 'a gateway_handler = "gateway \<Rightarrow> (app_error + 'a) \<times> gateway"

definition gret :: "'a \<Rightarrow> 'a gateway_handler" where
  "gret x g = (Inr x, g)"

definition gbind :: "'a gateway_handler \<Rightarrow> ('a \<Rightarrow> 'b gateway_handler) \<Rightarrow> 'b gateway_handler" where
  "gbind m k g = (case m g of (Inl e, g') \<Rightarrow> (Inl e, g') | (Inr x, g') \<Rightarrow> k x g')"

text \<open>A call of a service, and a step on the shared state that cannot fail.\<close>

definition gcall :: "'a handler \<Rightarrow> 'a gateway_handler" where
  "gcall h g = (case h (gw_world g) of (r, w) \<Rightarrow> (r, g\<lparr>gw_world := w\<rparr>))"

definition gdo :: "(gateway \<Rightarrow> gateway) \<Rightarrow> unit gateway_handler" where
  "gdo f g = (Inr (), f g)"

abbreviation gthen :: "'a gateway_handler \<Rightarrow> 'b gateway_handler \<Rightarrow> 'b gateway_handler" where
  "gthen m n \<equiv> gbind m (\<lambda>_. n)"

section \<open>The session manager\<close>

definition register_session :: "nat \<Rightarrow> gateway \<Rightarrow> gateway" where
  "register_session a g =
     (let s = gw_arcs g ! a
      in g\<lparr>gw_sessions := (gw_sessions g)(gs_id s \<mapsto> a),
           gw_user_sessions := (gw_user_sessions g)(gs_user s \<mapsto> unwrap_or [] (gw_user_sessions g (gs_user s)) @ [gs_id s])\<rparr>)"

text \<open>
  \<open>remove\<close> touches the maps three times: the session is taken out, its identifier is dropped from the list of its user,
  and, when the list is empty then, the entry of the user is dropped. Another task can run between them.
\<close>

definition take_session :: "string \<Rightarrow> gateway \<Rightarrow> nat option \<times> gateway" where
  "take_session sid g =
     (case gw_sessions g sid of
        None \<Rightarrow> (None, g)
      | Some a \<Rightarrow> (Some a, g\<lparr>gw_sessions := (gw_sessions g)(sid := None)\<rparr>))"

definition retain_others :: "string \<Rightarrow> u64 \<Rightarrow> gateway \<Rightarrow> bool \<times> gateway" where
  "retain_others sid uid g =
     (case gw_user_sessions g uid of
        None \<Rightarrow> (False, g)
      | Some ids \<Rightarrow> (let rest = filter (\<lambda>s. s \<noteq> sid) ids
                     in (rest = [], g\<lparr>gw_user_sessions := (gw_user_sessions g)(uid \<mapsto> rest)\<rparr>)))"

definition drop_entry :: "u64 \<Rightarrow> gateway \<Rightarrow> gateway" where
  "drop_entry uid g = g\<lparr>gw_user_sessions := (gw_user_sessions g)(uid := None)\<rparr>"

definition remove_session :: "string \<Rightarrow> gateway \<Rightarrow> nat option \<times> gateway" where
  "remove_session sid g =
     (case take_session sid g of
        (None, g1) \<Rightarrow> (None, g1)
      | (Some a, g1) \<Rightarrow>
          (let uid = gs_user (gw_arcs g1 ! a)
           in case retain_others sid uid g1 of (none_left, g2) \<Rightarrow> (Some a, if none_left then drop_entry uid g2 else g2)))"

definition find_session :: "string \<Rightarrow> gateway \<Rightarrow> nat option" where
  "find_session sid g = gw_sessions g sid"

text \<open>\<open>try_send\<close> on the channel of a connection: false when it is closed or full.\<close>

definition try_send :: "nat \<Rightarrow> gateway_message \<Rightarrow> gateway \<Rightarrow> bool \<times> gateway" where
  "try_send c m g =
     (let b = gw_out g ! c
      in if ob_closed b \<or> length (ob_queue b) \<ge> OUTBOUND_CHANNEL_CAPACITY then (False, g)
         else (True, g\<lparr>gw_out := (gw_out g)[c := b\<lparr>ob_queue := ob_queue b @ [m]\<rparr>]\<rparr>))"

abbreviation send :: "nat \<Rightarrow> gateway_message \<Rightarrow> gateway \<Rightarrow> gateway" where
  "send c m g \<equiv> snd (try_send c m g)"

definition dispatch_to_user :: "u64 \<Rightarrow> gateway_message \<Rightarrow> gateway \<Rightarrow> gateway" where
  "dispatch_to_user uid m g =
     (case gw_user_sessions g uid of
        None \<Rightarrow> g
      | Some ids \<Rightarrow> fold (\<lambda>sid h. case gw_sessions h sid of None \<Rightarrow> h | Some a \<Rightarrow> send (gs_sender (gw_arcs h ! a)) m h) ids g)"

definition next_sequence :: "nat \<Rightarrow> gateway \<Rightarrow> u64 \<times> gateway" where
  "next_sequence a g =
     (let s = gw_arcs g ! a; n = gs_sequence s + 1
      in (n, g\<lparr>gw_arcs := (gw_arcs g)[a := s\<lparr>gs_sequence := n\<rparr>]\<rparr>))"

section \<open>Redis lists\<close>

definition cmd_rpush :: "string \<Rightarrow> json \<Rightarrow> unit redis_cmd" where
  "cmd_rpush k v now st =
     (case redis_at now st k of
        None \<Rightarrow> Inr (st(k \<mapsto> (RList [v], None)), ())
      | Some (RList vs, t) \<Rightarrow> Inr (st(k \<mapsto> (RList (vs @ [v]), t)), ())
      | Some _ \<Rightarrow> Inl wrong_type)"

text \<open>\<open>LTRIM k -n -1\<close> keeps the last \<open>n\<close> entries.\<close>

definition cmd_ltrim_last :: "string \<Rightarrow> nat \<Rightarrow> unit redis_cmd" where
  "cmd_ltrim_last k n now st =
     (case redis_at now st k of
        None \<Rightarrow> Inr (st, ())
      | Some (RList vs, t) \<Rightarrow> Inr (st(k \<mapsto> (RList (drop (length vs - n) vs), t)), ())
      | Some _ \<Rightarrow> Inl wrong_type)"

definition cmd_lrange :: "string \<Rightarrow> json list redis_cmd" where
  "cmd_lrange k now st =
     (case redis_value_at now st k of None \<Rightarrow> Inr (st, []) | Some (RList vs) \<Rightarrow> Inr (st, vs) | Some _ \<Rightarrow> Inl wrong_type)"

text \<open>A pipeline runs every command, whatever the others answer; the code drops the answers.\<close>

definition cmd_pipe :: "unit redis_cmd list \<Rightarrow> unit redis_cmd" where
  "cmd_pipe cmds now st = Inr (fold (\<lambda>c s. case c now s of Inl _ \<Rightarrow> s | Inr (s', _) \<Rightarrow> s') cmds st, ())"

definition session_key :: "string \<Rightarrow> string" where
  "session_key sid = ''gateway_session:'' @ sid"

definition events_key :: "string \<Rightarrow> string" where
  "events_key sid = ''gateway_events:'' @ sid"

definition buffer_event :: "string \<Rightarrow> gateway_message \<Rightarrow> unit handler" where
  "buffer_event sid event =
     (if gm_op event \<noteq> Dispatch then ret ()
      else or_else () (redis_call (cmd_pipe [cmd_rpush (events_key sid) (gateway_serialize event),
        cmd_ltrim_last (events_key sid) 1000, cmd_expire (events_key sid) SESSION_BUFFER_TTL])))"

text \<open>The events of the buffer that a client has not seen, in the order of the buffer.\<close>

definition missed_events :: "u64 \<Rightarrow> json list \<Rightarrow> gateway_message list" where
  "missed_events seen js = concat (map (\<lambda>j. case gateway_deserialize j of
       Inl _ \<Rightarrow> []
     | Inr m \<Rightarrow> (case gm_s m of None \<Rightarrow> [] | Some n \<Rightarrow> if n > seen then [m] else [])) js)"

definition replay_events :: "string \<Rightarrow> u64 \<Rightarrow> nat \<Rightarrow> nat gateway_handler" where
  "replay_events sid seen c =
     gbind (gcall (or_else [] (redis_call (cmd_lrange (events_key sid))))) (\<lambda>events.
     let missed = missed_events seen events
     in gthen (gdo (fold (send c) missed))
       (gthen (gcall (or_else () (redis_call (cmd_del (events_key sid)))))
       (gret (length missed))))"

section \<open>Identify\<close>

definition authenticate :: "decoder \<Rightarrow> string \<Rightarrow> ustr \<Rightarrow> snowflake handler" where
  "authenticate decode secret token =
     bind utc_now (\<lambda>now.
     bind (ok_or (verify_token decode now (utf8_bytes token) secret) (Internal ''Invalid token'')) (\<lambda>c.
     andThen (ensure (cl_token_type c = Access) (Internal ''Not an access token''))
    (case parse_u64 (cl_sub c) of Inl _ \<Rightarrow> throw (Internal ''Invalid snowflake'') | Inr uid \<Rightarrow> ret uid)))"

definition gateway_user :: "snowflake \<Rightarrow> user_row handler" where
  "gateway_user uid =
     bind (pg_query (\<lambda>db. t_find (\<lambda>u. u_id u = uid \<and> u_deleted_at u = None) (users db))) (\<lambda>row.
     ok_or row (Internal ''User not found''))"

definition gateway_servers :: "snowflake \<Rightarrow> pg_db \<Rightarrow> server_row list" where
  "gateway_servers uid db = concat (map (\<lambda>m. filter (\<lambda>s. sv_id s = mb_server_id m) (servers db))
     (filter (\<lambda>m. mb_user_id m = uid) (members db)))"

definition gateway_dms :: "snowflake \<Rightarrow> pg_db \<Rightarrow> channel_row list" where
  "gateway_dms uid db = concat (map (\<lambda>r. filter (\<lambda>c. ch_id c = dm_channel_id r \<and> ch_type c \<in> {1, 3}) (channels db))
     (filter (\<lambda>r. dm_user_id r = uid) (dm_recipients db)))"

text \<open>A new \<open>Arc<GatewaySession>\<close>, registered.\<close>

definition open_gateway_session :: "string \<Rightarrow> snowflake \<Rightarrow> u64 \<Rightarrow> nat \<Rightarrow> nat gateway_handler" where
  "open_gateway_session sid uid start c g =
     (let a = length (gw_arcs g); now = w_now (gw_world g);
          s = \<lparr>gs_id = sid, gs_user = uid, gs_sequence = start, gs_sender = c, gs_last_heartbeat = of_int now,
               gs_connected_at = now\<rparr>
      in (Inr a, register_session a (g\<lparr>gw_arcs := gw_arcs g @ [s]\<rparr>)))"

definition ready_data :: "user_row \<Rightarrow> server_row list \<Rightarrow> channel_row list \<Rightarrow> string \<Rightarrow> json" where
  "ready_data u svs dms sid = JObj
     [(''user'', JObj [(''id'', jlit (show_i64 (u_id u))), (''username'', JStr (u_username u)),
        (''discriminator'', JInt (u_discriminator u)), (''avatar'', jopt_str (u_avatar u)),
        (''banner'', jopt_str (u_banner u)), (''bio'', jopt_str (u_bio u))]),
      (''servers'', JArr (map (\<lambda>s. JObj [(''id'', jlit (show_i64 (sv_id s))), (''name'', JStr (sv_name s)),
        (''icon'', jopt_str (sv_icon s)), (''owner_id'', jlit (show_i64 (sv_owner_id s))),
        (''member_count'', JInt (sv_member_count s))]) svs)),
      (''private_channels'', JArr (map (\<lambda>d. JObj [(''id'', jlit (show_i64 (ch_id d))), (''type'', JInt (ch_type d))]) dms)),
      (''session_id'', jlit sid)]"

definition listen_subjects :: "snowflake \<Rightarrow> server_row list \<Rightarrow> channel_row list \<Rightarrow> string list" where
  "listen_subjects uid svs dms =
     (''user.'' @ show_u64 uid @ ''.>'') # map (\<lambda>s. ''server.'' @ show_i64 (sv_id s) @ ''.>'') svs @
     map (\<lambda>d. ''channel.'' @ show_i64 (ch_id d) @ ''.>'') dms"

definition subscribe_and_forward :: "nat \<Rightarrow> string \<Rightarrow> listener" where
  "subscribe_and_forward a subject = \<lparr>ln_subject = subject, ln_session = a, ln_inbox = [], ln_phase = Starting\<rparr>"

definition spawn_nats_listener :: "nat \<Rightarrow> snowflake \<Rightarrow> server_row list \<Rightarrow> channel_row list \<Rightarrow> nat list gateway_handler" where
  "spawn_nats_listener a uid svs dms g =
     (let ls = map (subscribe_and_forward a) (listen_subjects uid svs dms); n = length (gw_listeners g)
      in (Inr [n ..< n + length ls], g\<lparr>gw_listeners := gw_listeners g @ ls\<rparr>))"

definition user_presence_subject :: "snowflake \<Rightarrow> string" where
  "user_presence_subject uid = ''user.'' @ show_u64 uid @ ''.presence''"

definition simple_presence_event :: "snowflake \<Rightarrow> string \<Rightarrow> json" where
  "simple_presence_event uid status = JObj [(''type'', jlit ''PRESENCE_UPDATE''), (''user_id'', jsnow uid), (''status'', jlit status)]"

text \<open>\<open>tx.try_send(GatewayMessage::dispatch(name, next_sequence(&session), data))\<close>\<close>

definition dispatch_numbered :: "nat \<Rightarrow> nat \<Rightarrow> string \<Rightarrow> json \<Rightarrow> unit gateway_handler" where
  "dispatch_numbered a c name data g =
     (case next_sequence a g of (n, g1) \<Rightarrow> (Inr (), send c (dispatch (lit name) n data) g1))"

definition handle_identify ::
  "decoder \<Rightarrow> string \<Rightarrow> string \<Rightarrow> identify_payload \<Rightarrow> nat \<Rightarrow> (nat \<times> nat list) gateway_handler" where
  "handle_identify decode secret sid payload c =
     gbind (gcall (authenticate decode secret (ip_token payload))) (\<lambda>uid.
     gbind (gcall (gateway_user uid)) (\<lambda>u.
     gbind (gcall (pg_query (gateway_servers uid))) (\<lambda>svs.
     gbind (gcall (pg_query (gateway_dms uid))) (\<lambda>dms.
     gbind (open_gateway_session sid uid 0 c) (\<lambda>a.
     gthen (dispatch_numbered a c ''READY'' (ready_data u svs dms sid))
    (gbind (spawn_nats_listener a uid svs dms) (\<lambda>handles.
     gthen (gcall (publish (user_presence_subject uid) (simple_presence_event uid ''online'')))
    (gthen (gcall (for_each (\<lambda>s. publish (server_events (sv_id s)) (simple_presence_event uid ''online'')) svs))
    (gret (a, handles))))))))))"

section \<open>Resume\<close>

text \<open>The user of the stored session; every other content of the key is an error.\<close>

definition stored_user :: "redis_value option \<Rightarrow> ustr option" where
  "stored_user v = (case v of Some (RJson j) \<Rightarrow> json_get_str ''user_id'' j | _ \<Rightarrow> None)"

definition handle_resume ::
  "decoder \<Rightarrow> string \<Rightarrow> resume_payload \<Rightarrow> nat \<Rightarrow> (nat \<times> nat list) gateway_handler" where
  "handle_resume decode secret payload c =
     (let sid = utf8_bytes (rp_session_id payload) in
     gbind (gcall (authenticate decode secret (rp_token payload))) (\<lambda>uid.
     gbind (gcall (redis_call (cmd_get (session_key sid)))) (\<lambda>found.
     gthen (gcall (ensure (found \<noteq> None) (Internal ''Session expired'')))
    (gbind (gcall (ok_or (stored_user found) (Internal ''Invalid session data''))) (\<lambda>stored.
     gthen (gcall (ensure (stored = lit (show_u64 uid)) (Internal ''Session user mismatch'')))
    (gthen (gcall (redis_call (cmd_del (session_key sid))))
    (gbind (open_gateway_session sid uid (rp_sequence payload) c) (\<lambda>a.
     gthen (replay_events sid (rp_sequence payload) c)
    (gthen (dispatch_numbered a c ''RESUMED'' (JObj []))
    (gbind (gcall (pg_query (gateway_servers uid))) (\<lambda>svs.
     gbind (gcall (pg_query (gateway_dms uid))) (\<lambda>dms.
     gbind (spawn_nats_listener a uid svs dms) (\<lambda>handles.
     gret (a, handles))))))))))))))"

section \<open>Presence\<close>

text \<open>\<open>data["status"]\<close> and \<open>data.get("custom_status")\<close>\<close>

definition handle_presence_update :: "(int \<Rightarrow> ustr) \<Rightarrow> snowflake \<Rightarrow> json \<Rightarrow> unit handler" where
  "handle_presence_update rfc3339 uid data =
     (let status = unwrap_or (lit ''online'') (json_get_str ''status'' data); custom_status = json_get ''custom_status'' data
      in if status \<notin> set [lit ''online'', lit ''idle'', lit ''dnd'', lit ''invisible''] then ret ()
         else bind utc_now (\<lambda>now.
           andThen (redis_set_ex (presence_key uid) (RJson (JObj [(''status'', JStr status),
             (''custom_status'', jopt_json custom_status), (''last_active'', JStr (rfc3339 now))])) 300)
          (if status \<noteq> lit ''invisible''
           then andThen (publish (user_presence_subject uid) (presence_event uid status custom_status))
               (bind (or_else [] (pg_query (\<lambda>db. map mb_server_id (filter (\<lambda>m. mb_user_id m = uid) (members db))))) (\<lambda>sids.
                for_each (\<lambda>sid. publish (server_events sid) (presence_event uid status custom_status)) sids))
           else ret ())))"

section \<open>The read loop of a connection\<close>

record gateway_external =
  gx_decode :: decoder
  gx_secret :: string
  gx_rfc3339 :: "int \<Rightarrow> ustr"

text \<open>What \<open>ws_stream.next()\<close> gives. \<open>Text None\<close> is a text frame that is not JSON.\<close>

datatype frame = Text "json option" | Binary | Ping | Pong | CloseFrame | StreamError | StreamEnd

definition set_connection :: "nat \<Rightarrow> (connection \<Rightarrow> connection) \<Rightarrow> gateway \<Rightarrow> gateway" where
  "set_connection c f g = g\<lparr>gw_connections := (gw_connections g)[c := f (gw_connections g ! c)]\<rparr>"

definition set_listener :: "nat \<Rightarrow> (listener \<Rightarrow> listener) \<Rightarrow> gateway \<Rightarrow> gateway" where
  "set_listener l f g = g\<lparr>gw_listeners := (gw_listeners g)[l := f (gw_listeners g ! l)]\<rparr>"

definition abort_listeners :: "nat list \<Rightarrow> gateway \<Rightarrow> gateway" where
  "abort_listeners = fold (\<lambda>l. set_listener l (\<lambda>x. x\<lparr>ln_phase := Stopped\<rparr>))"

definition break_loop :: "nat \<Rightarrow> gateway \<Rightarrow> gateway" where
  "break_loop c = set_connection c (\<lambda>x. x\<lparr>cn_phase := Closing\<rparr>)"

definition handle_heartbeat :: "nat \<Rightarrow> gateway \<Rightarrow> gateway" where
  "handle_heartbeat c g =
     (let g1 = (case cn_session (gw_connections g ! c) of
          None \<Rightarrow> g
        | Some a \<Rightarrow>
            (let s = gw_arcs g ! a
             in snd (gcall (or_else () (redis_call (cmd_expire (presence_key (gs_user s)) 300)))
                  (g\<lparr>gw_arcs := (gw_arcs g)[a := s\<lparr>gs_last_heartbeat := of_int (w_now (gw_world g))\<rparr>]\<rparr>))))
      in send c heartbeat_ack g1)"

text \<open>A payload that is missing or does not parse, and a handler that fails, end the loop after \<open>InvalidSession\<close>.\<close>

definition refuse :: "nat \<Rightarrow> gateway \<Rightarrow> gateway" where
  "refuse c g = break_loop c (send c (invalid_session False) g)"

definition on_identify :: "gateway_external \<Rightarrow> string \<Rightarrow> nat \<Rightarrow> json option \<Rightarrow> gateway \<Rightarrow> gateway" where
  "on_identify ext sid c d g =
     (if cn_session (gw_connections g ! c) \<noteq> None then break_loop c g
      else case Option.bind d (\<lambda>j. case de_identify j of Inl _ \<Rightarrow> None | Inr p \<Rightarrow> Some p) of
        None \<Rightarrow> refuse c g
      | Some p \<Rightarrow>
          (case handle_identify (gx_decode ext) (gx_secret ext) sid p c g of
             (Inl _, g1) \<Rightarrow> refuse c g1
           | (Inr (a, handles), g1) \<Rightarrow> set_connection c (\<lambda>x. x\<lparr>cn_session := Some a, cn_handles := handles\<rparr>) g1))"

definition on_resume :: "gateway_external \<Rightarrow> nat \<Rightarrow> json option \<Rightarrow> gateway \<Rightarrow> gateway" where
  "on_resume ext c d g =
     (case Option.bind d (\<lambda>j. case de_resume j of Inl _ \<Rightarrow> None | Inr p \<Rightarrow> Some p) of
        None \<Rightarrow> refuse c g
      | Some p \<Rightarrow>
          (case handle_resume (gx_decode ext) (gx_secret ext) p c g of
             (Inl _, g1) \<Rightarrow> refuse c g1
           | (Inr (a, handles), g1) \<Rightarrow>
               set_connection c (\<lambda>x. x\<lparr>cn_session := Some a, cn_handles := handles\<rparr>)
                 (abort_listeners (cn_handles (gw_connections g1 ! c)) g1)))"

definition on_presence :: "gateway_external \<Rightarrow> nat \<Rightarrow> json option \<Rightarrow> gateway \<Rightarrow> gateway" where
  "on_presence ext c d g =
     (case (cn_session (gw_connections g ! c), d) of
        (Some a, Some data) \<Rightarrow> snd (gcall (handle_presence_update (gx_rfc3339 ext) (gs_user (gw_arcs g ! a)) data) g)
      | _ \<Rightarrow> g)"

definition handle_message :: "gateway_external \<Rightarrow> string \<Rightarrow> nat \<Rightarrow> gateway_message \<Rightarrow> gateway \<Rightarrow> gateway" where
  "handle_message ext sid c m g =
     (case gm_op m of
        Identify \<Rightarrow> on_identify ext sid c (gm_d m) g
      | Heartbeat \<Rightarrow> handle_heartbeat c g
      | Resume \<Rightarrow> on_resume ext c (gm_d m) g
      | PresenceUpdate \<Rightarrow> on_presence ext c (gm_d m) g
      | _ \<Rightarrow> g)"

text \<open>The window of the command limit after a command at time \<open>now\<close>.\<close>

definition count_command :: "int \<Rightarrow> connection \<Rightarrow> connection" where
  "count_command now x =
     (if now - cn_window_start x > 60000 then x\<lparr>cn_command_count := 1, cn_window_start := now\<rparr>
      else x\<lparr>cn_command_count := cn_command_count x + 1\<rparr>)"

definition handle_text :: "gateway_external \<Rightarrow> string \<Rightarrow> nat \<Rightarrow> json option \<Rightarrow> gateway \<Rightarrow> gateway" where
  "handle_text ext sid c body g =
     (let g1 = set_connection c (count_command (w_now (gw_world g))) g
      in if cn_command_count (gw_connections g1 ! c) > MAX_COMMANDS_PER_MINUTE then break_loop c g1
         else case Option.bind body (\<lambda>j. case gateway_deserialize j of Inl _ \<Rightarrow> None | Inr m \<Rightarrow> Some m) of
           None \<Rightarrow> refuse c g1
         | Some m \<Rightarrow> handle_message ext sid c m g1)"

text \<open>One turn of the loop. \<open>sid\<close> is the random identifier that an \<open>Identify\<close> draws.\<close>

definition handle_frame :: "gateway_external \<Rightarrow> string \<Rightarrow> nat \<Rightarrow> frame \<Rightarrow> gateway \<Rightarrow> gateway" where
  "handle_frame ext sid c f g =
     (let g0 = set_connection c (\<lambda>x. x\<lparr>cn_idle_since := w_now (gw_world g)\<rparr>) g
      in case f of
           Text body \<Rightarrow> handle_text ext sid c body g0
         | CloseFrame \<Rightarrow> break_loop c g0
         | StreamError \<Rightarrow> break_loop c g0
         | StreamEnd \<Rightarrow> break_loop c g0
         | _ \<Rightarrow> g0)"

section \<open>Beginning and end of a connection\<close>

text \<open>The upgrade: the new connection has \<open>Hello\<close> on the wire.\<close>

definition ws_upgrade :: "gateway \<Rightarrow> gateway" where
  "ws_upgrade g =
     (let now = w_now (gw_world g)
      in g\<lparr>gw_connections := gw_connections g @ [\<lparr>cn_session = None, cn_handles = [], cn_command_count = 0,
             cn_window_start = now, cn_idle_since = now, cn_phase = Reading\<rparr>],
           gw_out := gw_out g @ [\<lparr>ob_queue = [], ob_closed = False, ob_wire = [hello_message HEARTBEAT_INTERVAL_MS]\<rparr>]\<rparr>)"

text \<open>\<open>timeout(HEARTBEAT_TIMEOUT_MS, ws_stream.next())\<close> has run out.\<close>

definition idle_expired :: "nat \<Rightarrow> gateway \<Rightarrow> bool" where
  "idle_expired c g \<longleftrightarrow> w_now (gw_world g) - cn_idle_since (gw_connections g ! c) \<ge> HEARTBEAT_TIMEOUT_MS"

text \<open>
  After the loop: the listeners are aborted, the sender task has 200 milliseconds to write what is queued, of which it
  manages \<open>n\<close> messages, and is aborted; then the session is stored for a resume.
\<close>

definition close_channel :: "nat \<Rightarrow> nat \<Rightarrow> gateway \<Rightarrow> gateway" where
  "close_channel c n g =
     (let b = gw_out g ! c
      in g\<lparr>gw_out := (gw_out g)[c := \<lparr>ob_queue = [], ob_closed = True,
           ob_wire = ob_wire b @ (if ob_closed b then [] else take n (ob_queue b))\<rparr>]\<rparr>)"

definition session_data :: "snowflake \<Rightarrow> u64 \<Rightarrow> json" where
  "session_data uid n = JObj [(''user_id'', jlit (show_u64 uid)), (''sequence'', ju64 n)]"

definition store_session :: "nat \<Rightarrow> gateway \<Rightarrow> gateway" where
  "store_session a g =
     (let s = gw_arcs g ! a
      in snd (gcall (redis_set_ex (session_key (gs_id s)) (RJson (session_data (gs_user s) (gs_sequence s))) SESSION_BUFFER_TTL) g))"

definition close_connection :: "nat \<Rightarrow> nat \<Rightarrow> gateway \<Rightarrow> gateway" where
  "close_connection c n g =
     (let x = gw_connections g ! c; g1 = close_channel c n (abort_listeners (cn_handles x) g)
      in case cn_session x of
           None \<Rightarrow> set_connection c (\<lambda>x. x\<lparr>cn_phase := Gone\<rparr>) g1
         | Some a \<Rightarrow> set_connection c (\<lambda>x. x\<lparr>cn_phase := Stored\<rparr>) (store_session a g1))"

text \<open>Then the session leaves the manager, and a timer of ten seconds starts.\<close>

definition leave :: "nat \<Rightarrow> gateway \<Rightarrow> gateway" where
  "leave c g =
     (case cn_session (gw_connections g ! c) of
        None \<Rightarrow> g
      | Some a \<Rightarrow>
          (let s = gw_arcs g ! a; g1 = snd (remove_session (gs_id s) g)
           in set_connection c (\<lambda>x. x\<lparr>cn_phase := Gone\<rparr>)
                (g1\<lparr>gw_timers := gw_timers g1 @ [(w_now (gw_world g1) + 10000, gs_user s)]\<rparr>)))"

definition go_offline :: "u64 \<Rightarrow> gateway \<Rightarrow> gateway" where
  "go_offline uid g =
     (if gw_user_sessions g uid = None
      then snd (gcall (publish (user_presence_subject uid) (simple_presence_event uid ''offline'')) g)
      else g)"

section \<open>The other tasks\<close>

text \<open>The sender task takes the next message; \<open>ok\<close> says whether the socket accepts it.\<close>

definition sender_step :: "nat \<Rightarrow> bool \<Rightarrow> gateway \<Rightarrow> gateway" where
  "sender_step c ok g =
     (let b = gw_out g ! c
      in case ob_queue b of
           [] \<Rightarrow> g
         | m # ms \<Rightarrow> g\<lparr>gw_out := (gw_out g)[c :=
             (if ob_closed b then b else if ok then b\<lparr>ob_queue := ms, ob_wire := ob_wire b @ [m]\<rparr>
              else b\<lparr>ob_queue := [], ob_closed := True\<rparr>)]\<rparr>)"

definition event_type :: "json \<Rightarrow> ustr" where
  "event_type data = unwrap_or (lit ''UNKNOWN'') (json_get_str ''type'' data)"

text \<open>
  One turn of a listener, cut where it waits for a service: the subscription, the next message with its sequence number,
  the buffer in Redis, the channel of the connection.
\<close>

definition listener_step :: "nat \<Rightarrow> gateway \<Rightarrow> gateway" where
  "listener_step l g =
     (let x = gw_listeners g ! l; a = ln_session x; s = gw_arcs g ! a
      in case ln_phase x of
           Starting \<Rightarrow>
             (case next_call (gw_world g) of (out, w) \<Rightarrow>
                set_listener l (\<lambda>x. x\<lparr>ln_phase := (if out = Succeeds then Waiting else Stopped)\<rparr>) (g\<lparr>gw_world := w\<rparr>))
         | Waiting \<Rightarrow>
             (case ln_inbox x of
                [] \<Rightarrow> g
              | data # rest \<Rightarrow>
                  (case next_sequence a g of (n, g1) \<Rightarrow>
                     set_listener l (\<lambda>x. x\<lparr>ln_inbox := rest, ln_phase := Numbered (dispatch (event_type data) n data)\<rparr>) g1))
         | Numbered m \<Rightarrow> set_listener l (\<lambda>x. x\<lparr>ln_phase := Buffered m\<rparr>) (snd (gcall (buffer_event (gs_id s) m) g))
         | Buffered m \<Rightarrow>
             (case try_send (gs_sender s) m g of (sent, g1) \<Rightarrow>
                set_listener l (\<lambda>x. x\<lparr>ln_phase := (if sent then Waiting else Stopped)\<rparr>) g1)
         | Stopped \<Rightarrow> g)"

text \<open>
  NATS hands the next published message to every subscription whose subject matches; \<open>matches\<close> is the matching of NATS.
\<close>

definition subscribed :: "listener \<Rightarrow> bool" where
  "subscribed x \<longleftrightarrow> ln_phase x \<noteq> Starting \<and> ln_phase x \<noteq> Stopped"

definition deliver_next :: "(string \<Rightarrow> string \<Rightarrow> bool) \<Rightarrow> gateway \<Rightarrow> gateway" where
  "deliver_next matches g =
     (if gw_delivered g < length (w_published (gw_world g))
      then case w_published (gw_world g) ! gw_delivered g of (subject, payload) \<Rightarrow>
        g\<lparr>gw_delivered := gw_delivered g + 1,
          gw_listeners := map (\<lambda>x. if subscribed x \<and> matches (ln_subject x) subject
                                   then x\<lparr>ln_inbox := ln_inbox x @ [payload]\<rparr> else x) (gw_listeners g)\<rparr>
      else g)"

end
