(* ===== verification/Gateway_System.thy ===== *)
theory Gateway_System
  imports Gateway
begin

text \<open>
  The tasks of the gateway interleaved: a step relation on the state of \<open>Gateway\<close>, what the handlers do to that state
  (as equations that the invariants share), and three invariants: bounds of every buffer, the index of sessions by user,
  and which listeners run. The rest of the server moves the world between the steps; it never touches the keys of the
  gateway in Redis, which all start with \<open>gateway_\<close>.
\<close>

section \<open>The step relation\<close>

definition gateway_key :: "string \<Rightarrow> bool" where
  "gateway_key k \<longleftrightarrow> take 8 k = ''gateway_''"

definition same_keys :: "world \<Rightarrow> world \<Rightarrow> bool" where
  "same_keys w w' \<longleftrightarrow> (\<forall>k. gateway_key k \<longrightarrow> w_redis w' k = w_redis w k)"

definition world_moves :: "world \<Rightarrow> world \<Rightarrow> bool" where
  "world_moves w w' \<longleftrightarrow> w_now w \<le> w_now w' \<and> (\<exists>ps. w_published w' = w_published w @ ps) \<and> same_keys w w'"

text \<open>\<open>nanoid!(32)\<close> does not repeat an identifier.\<close>

definition fresh_session_id :: "string \<Rightarrow> gateway \<Rightarrow> bool" where
  "fresh_session_id sid g \<longleftrightarrow> sid \<notin> gs_id ` set (gw_arcs g) \<and> w_redis (gw_world g) (session_key sid) = None"

inductive gateway_step :: "gateway_external \<Rightarrow> (string \<Rightarrow> string \<Rightarrow> bool) \<Rightarrow> gateway \<Rightarrow> gateway \<Rightarrow> bool"
  for ext matches where
  gs_connect: "gateway_step ext matches g (ws_upgrade g)"
| gs_frame: "c < length (gw_connections g) \<Longrightarrow> cn_phase (gw_connections g ! c) = Reading \<Longrightarrow> fresh_session_id sid g \<Longrightarrow>
    gateway_step ext matches g (handle_frame ext sid c f g)"
| gs_idle: "c < length (gw_connections g) \<Longrightarrow> cn_phase (gw_connections g ! c) = Reading \<Longrightarrow> idle_expired c g \<Longrightarrow>
    gateway_step ext matches g (break_loop c g)"
| gs_close: "c < length (gw_connections g) \<Longrightarrow> cn_phase (gw_connections g ! c) = Closing \<Longrightarrow>
    gateway_step ext matches g (close_connection c n g)"
| gs_leave: "c < length (gw_connections g) \<Longrightarrow> cn_phase (gw_connections g ! c) = Stored \<Longrightarrow>
    gateway_step ext matches g (leave c g)"
| gs_timer: "gw_timers g = before @ (t, uid) # after \<Longrightarrow> t \<le> w_now (gw_world g) \<Longrightarrow>
    gateway_step ext matches g (go_offline uid (g\<lparr>gw_timers := before @ after\<rparr>))"
| gs_send: "c < length (gw_connections g) \<Longrightarrow> gateway_step ext matches g (sender_step c ok g)"
| gs_listen: "l < length (gw_listeners g) \<Longrightarrow> gateway_step ext matches g (listener_step l g)"
| gs_deliver: "gateway_step ext matches g (deliver_next matches g)"
| gs_world: "world_moves (gw_world g) w \<Longrightarrow> gateway_step ext matches g (g\<lparr>gw_world := w\<rparr>)"

text \<open>A gateway that has just started. Redis may hold sessions and buffers of an earlier run.\<close>

definition buffers_ok :: "world \<Rightarrow> bool" where
  "buffers_ok w \<longleftrightarrow> (\<forall>sid v t. w_redis w (events_key sid) = Some (v, t) \<longrightarrow> (\<exists>js. v = RList js \<and> length js \<le> 1000))"

definition just_started :: "gateway \<Rightarrow> bool" where
  "just_started g \<longleftrightarrow> gw_arcs g = [] \<and> gw_sessions g = Map.empty \<and> gw_user_sessions g = Map.empty \<and> gw_out g = [] \<and>
     gw_listeners g = [] \<and> gw_connections g = [] \<and> gw_timers g = [] \<and> buffers_ok (gw_world g)"

section \<open>Calls that leave the keys of the gateway alone\<close>

named_theorems quiet_intros \<open>handlers that leave the keys of the gateway alone\<close>

definition still :: "world \<Rightarrow> world \<Rightarrow> bool" where
  "still w w' \<longleftrightarrow> same_keys w w' \<and> w_pg w' = w_pg w"

definition quiet :: "'a handler \<Rightarrow> bool" where
  "quiet h \<longleftrightarrow> (\<forall>w. still w (snd (h w)))"

lemma still_refl [simp]: "still w w"
  by (simp add: still_def same_keys_def)

lemma still_trans: "still a b \<Longrightarrow> still b c \<Longrightarrow> still a c"
  by (simp add: still_def same_keys_def)

lemma quietD: "quiet h \<Longrightarrow> h w = (r, w') \<Longrightarrow> still w w'"
  unfolding quiet_def by (metis snd_conv)

lemma quiet_basic [quiet_intros]:
  "quiet (ret x)" "quiet (throw e)" "quiet (ensure b e)" "quiet (ok_or v e)" "quiet utc_now"
  by (simp_all add: quiet_def ret_def throw_def ensure_def ok_or_def utc_now_def split: option.split)

lemma next_call_redis [simp]: "w_redis (snd (next_call w)) = w_redis w" "w_now (snd (next_call w)) = w_now w"
  "w_pg (snd (next_call w)) = w_pg w"
  by (simp_all add: next_call_def split: list.split)

lemma next_call_kept: "next_call w = (out, w') \<Longrightarrow> w_redis w' = w_redis w \<and> w_now w' = w_now w \<and> w_pg w' = w_pg w"
  by (metis next_call_redis snd_conv)

lemma quiet_calls [quiet_intros]: "quiet (pg_query q)" "quiet (publish s p)"
  by (auto simp: quiet_def pg_query_def publish_def still_def same_keys_def Let_def dest: next_call_kept split: prod.split)

lemma quiet_bind [quiet_intros]: "quiet m \<Longrightarrow> (\<And>x. quiet (k x)) \<Longrightarrow> quiet (bind m k)"
  unfolding quiet_def bind_def by (auto split: prod.split sum.split) (metis still_trans snd_conv)+

lemma quiet_or_else [quiet_intros]: "quiet m \<Longrightarrow> quiet (or_else d m)"
  unfolding quiet_def or_else_def by (auto split: prod.split sum.split) (metis snd_conv)+

lemma quiet_for_each [quiet_intros]: "(\<And>x. quiet (f x)) \<Longrightarrow> quiet (for_each f xs)"
  by (induction xs) (auto intro: quiet_intros)

lemma quiet_redis [quiet_intros]:
  assumes "\<And>now st st' x k. cmd now st = Inr (st', x) \<Longrightarrow> gateway_key k \<Longrightarrow> st' k = st k"
  shows "quiet (redis_call cmd)"
  unfolding quiet_def redis_call_def still_def same_keys_def Let_def
  by (auto split: prod.split call_outcome.split sum.split) (metis assms next_call_kept)+

lemma presence_not_gateway [simp]: "gateway_key (presence_key uid) = False"
  by (simp add: gateway_key_def presence_key_def)

lemma gateway_keys [simp]: "gateway_key (session_key sid)" "gateway_key (events_key sid)"
  by (simp_all add: gateway_key_def session_key_def events_key_def)

lemma key_inj [simp]: "session_key a = session_key b \<longleftrightarrow> a = b" "events_key a = events_key b \<longleftrightarrow> a = b"
  "session_key a \<noteq> events_key b" "events_key a \<noteq> session_key b"
  by (simp_all add: session_key_def events_key_def)

lemma quiet_presence [quiet_intros]:
  "quiet (redis_call (cmd_expire (presence_key uid) n))" "quiet (redis_set_ex (presence_key uid) v n)"
  "quiet (redis_call (cmd_get k))"
  unfolding redis_set_ex_def
  by (auto intro!: quiet_intros simp: cmd_expire_def cmd_set_ex_def cmd_get_def
    split: option.splits if_splits redis_value.splits)

lemma quiet_authenticate [quiet_intros]: "quiet (authenticate decode secret token)"
  unfolding authenticate_def by (intro quiet_intros) (auto intro!: quiet_intros split: sum.split)

lemma quiet_gateway_user [quiet_intros]: "quiet (gateway_user uid)"
  unfolding gateway_user_def by (intro quiet_intros)

lemma quiet_presence_update [quiet_intros]: "quiet (handle_presence_update rfc uid data)"
  unfolding handle_presence_update_def Let_def by (auto intro!: quiet_intros)

section \<open>Commands that change the keys of the gateway\<close>

lemma redis_call_cases:
  assumes "redis_call cmd w = (r, w')"
  obtains (kept) "w_redis w' = w_redis w" "\<nexists>x. r = Inr x" "w_pg w' = w_pg w"
  | (executed) st x where "cmd (w_now w) (w_redis w) = Inr (st, x)" "w_redis w' = st" "\<And>y. r = Inr y \<Longrightarrow> y = x" "w_pg w' = w_pg w"
  using assms unfolding redis_call_def Let_def
  by (auto dest: next_call_kept split: prod.splits call_outcome.splits sum.splits)

lemma or_else_cases:
  assumes "or_else d (redis_call cmd) w = (r, w')"
  obtains (kept) "w_redis w' = w_redis w" "r = Inr d" "w_pg w' = w_pg w"
  | (executed) st x where "cmd (w_now w) (w_redis w) = Inr (st, x)" "w_redis w' = st" "r = Inr x \<or> r = Inr d" "w_pg w' = w_pg w"
proof -
  obtain r1 where r1: "redis_call cmd w = (r1, w')" and r: "r = (case r1 of Inl _ \<Rightarrow> Inr d | Inr x \<Rightarrow> Inr x)"
    using assms unfolding or_else_def by (auto split: prod.splits sum.splits)
  from r1 show ?thesis
    by (cases rule: redis_call_cases) (use r that in \<open>auto split: sum.splits\<close>)
qed

lemma or_else_fst: "\<exists>x. fst (or_else d m w) = Inr x"
  by (auto simp: or_else_def split: prod.split sum.split)

lemma or_else_Inl [simp]: "or_else d m w = (Inl e, w') \<longleftrightarrow> False"
  by (auto simp: or_else_def split: prod.split sum.split)

section \<open>Weakest preconditions for the handlers of the gateway\<close>

definition gwp :: "'a gateway_handler \<Rightarrow> ('a \<Rightarrow> gateway \<Rightarrow> bool) \<Rightarrow> (gateway \<Rightarrow> bool) \<Rightarrow> gateway \<Rightarrow> bool" where
  "gwp m Q E g \<longleftrightarrow> (case m g of (Inl _, g') \<Rightarrow> E g' | (Inr x, g') \<Rightarrow> Q x g')"

named_theorems gwp_rules \<open>weakest-precondition rules of the gateway\<close>

lemma gwpD: "gwp m Q E g \<Longrightarrow> m g = (Inr x, g') \<Longrightarrow> Q x g'" "gwp m Q E g \<Longrightarrow> m g = (Inl e, g') \<Longrightarrow> E g'"
  by (simp_all add: gwp_def)

lemma gwp_bind [gwp_rules]: "gwp m (\<lambda>x. gwp (k x) Q E) E g \<Longrightarrow> gwp (gbind m k) Q E g"
  unfolding gwp_def gbind_def by (auto split: prod.splits sum.splits)

lemma gwp_ret [gwp_rules]: "Q x g \<Longrightarrow> gwp (gret x) Q E g"
  by (simp add: gwp_def gret_def)

lemma gwp_do [gwp_rules]: "Q () (f g) \<Longrightarrow> gwp (gdo f) Q E g"
  by (simp add: gwp_def gdo_def)

lemma gwp_let [gwp_rules]: "gwp (f v) Q E g \<Longrightarrow> gwp (let x = v in f x) Q E g"
  by simp

lemma gwp_call:
  assumes "\<And>x w. h (gw_world g) = (Inr x, w) \<Longrightarrow> Q x (g\<lparr>gw_world := w\<rparr>)"
    and "\<And>e w. h (gw_world g) = (Inl e, w) \<Longrightarrow> E (g\<lparr>gw_world := w\<rparr>)"
  shows "gwp (gcall h) Q E g"
  using assms unfolding gwp_def gcall_def by (auto split: prod.split sum.split)

lemma gwp_quiet:
  assumes "quiet h" "\<And>x w. h (gw_world g) = (Inr x, w) \<Longrightarrow> still (gw_world g) w \<Longrightarrow> Q x (g\<lparr>gw_world := w\<rparr>)"
    and "\<And>w. still (gw_world g) w \<Longrightarrow> E (g\<lparr>gw_world := w\<rparr>)"
  shows "gwp (gcall h) Q E g"
  by (rule gwp_call) (use assms quietD in \<open>metis+\<close>)

text \<open>The steps on the shared state as functions.\<close>

definition opened :: "string \<Rightarrow> snowflake \<Rightarrow> u64 \<Rightarrow> nat \<Rightarrow> gateway \<Rightarrow> gateway" where
  "opened sid uid n c g = snd (open_gateway_session sid uid n c g)"

definition numbered :: "nat \<Rightarrow> nat \<Rightarrow> string \<Rightarrow> json \<Rightarrow> gateway \<Rightarrow> gateway" where
  "numbered a c name data g = snd (dispatch_numbered a c name data g)"

definition listening :: "nat \<Rightarrow> snowflake \<Rightarrow> server_row list \<Rightarrow> channel_row list \<Rightarrow> gateway \<Rightarrow> gateway" where
  "listening a uid svs dms g = snd (spawn_nats_listener a uid svs dms g)"

definition new_handles :: "snowflake \<Rightarrow> server_row list \<Rightarrow> channel_row list \<Rightarrow> gateway \<Rightarrow> nat list" where
  "new_handles uid svs dms g = [length (gw_listeners g) ..< length (gw_listeners g) + length (listen_subjects uid svs dms)]"

lemma gwp_open [gwp_rules]:
  "Q (length (gw_arcs g)) (opened sid uid n c g) \<Longrightarrow> gwp (open_gateway_session sid uid n c) Q E g"
  by (simp add: gwp_def opened_def open_gateway_session_def Let_def)

lemma gwp_numbered [gwp_rules]: "Q () (numbered a c name data g) \<Longrightarrow> gwp (dispatch_numbered a c name data) Q E g"
  by (auto simp: gwp_def numbered_def dispatch_numbered_def split: prod.split)

lemma gwp_spawn [gwp_rules]:
  "Q (new_handles uid svs dms g) (listening a uid svs dms g) \<Longrightarrow> gwp (spawn_nats_listener a uid svs dms) Q E g"
  by (simp add: gwp_def listening_def spawn_nats_listener_def new_handles_def Let_def)

section \<open>What each step leaves alone\<close>

lemma send_fields [simp]:
  "gw_world (send c m g) = gw_world g" "gw_arcs (send c m g) = gw_arcs g" "gw_sessions (send c m g) = gw_sessions g"
  "gw_user_sessions (send c m g) = gw_user_sessions g" "gw_listeners (send c m g) = gw_listeners g"
  "gw_connections (send c m g) = gw_connections g" "gw_timers (send c m g) = gw_timers g"
  "length (gw_out (send c m g)) = length (gw_out g)"
  by (simp_all add: try_send_def Let_def)

lemma fold_send_fields [simp]:
  "gw_world (fold (send c) ms g) = gw_world g" "gw_arcs (fold (send c) ms g) = gw_arcs g"
  "gw_sessions (fold (send c) ms g) = gw_sessions g" "gw_user_sessions (fold (send c) ms g) = gw_user_sessions g"
  "gw_listeners (fold (send c) ms g) = gw_listeners g" "gw_connections (fold (send c) ms g) = gw_connections g"
  "gw_timers (fold (send c) ms g) = gw_timers g" "length (gw_out (fold (send c) ms g)) = length (gw_out g)"
  by (induction ms arbitrary: g) simp_all

lemma next_sequence_fields [simp]:
  "gw_world (snd (next_sequence a g)) = gw_world g" "gw_sessions (snd (next_sequence a g)) = gw_sessions g"
  "gw_user_sessions (snd (next_sequence a g)) = gw_user_sessions g" "gw_listeners (snd (next_sequence a g)) = gw_listeners g"
  "gw_connections (snd (next_sequence a g)) = gw_connections g" "gw_out (snd (next_sequence a g)) = gw_out g"
  "gw_timers (snd (next_sequence a g)) = gw_timers g" "length (gw_arcs (snd (next_sequence a g))) = length (gw_arcs g)"
  by (simp_all add: next_sequence_def Let_def)

text \<open>The identity of a session never changes: its identifier, its user and the channel it sends to.\<close>

definition identity :: "gateway_session \<Rightarrow> string \<times> snowflake \<times> nat" where
  "identity s = (gs_id s, gs_user s, gs_sender s)"

definition identities :: "gateway \<Rightarrow> (string \<times> snowflake \<times> nat) list" where
  "identities g = map identity (gw_arcs g)"

lemma nth_upd: "l < length xs \<Longrightarrow> xs[a := x] ! l = (if a = l then x else xs ! l)"
  by (cases "a = l") simp_all

lemma map_upd_same: "(\<And>s. h (f s) = h s) \<Longrightarrow> map h (xs[a := f (xs ! a)]) = map h xs"
  by (rule nth_equalityI) (auto simp: nth_upd)

lemma next_sequence_identities [simp]: "identities (snd (next_sequence a g)) = identities g"
  by (simp add: next_sequence_def Let_def identities_def identity_def map_upd_same)

lemma numbered_eq:
  "numbered a c name data g = send c (dispatch (lit name) (fst (next_sequence a g)) data) (snd (next_sequence a g))"
  by (simp add: numbered_def dispatch_numbered_def split_beta)

lemma numbered_fields [simp]:
  "gw_world (numbered a c name data g) = gw_world g" "gw_sessions (numbered a c name data g) = gw_sessions g"
  "gw_user_sessions (numbered a c name data g) = gw_user_sessions g" "gw_listeners (numbered a c name data g) = gw_listeners g"
  "gw_connections (numbered a c name data g) = gw_connections g" "gw_timers (numbered a c name data g) = gw_timers g"
  "length (gw_out (numbered a c name data g)) = length (gw_out g)"
  "length (gw_arcs (numbered a c name data g)) = length (gw_arcs g)" "identities (numbered a c name data g) = identities g"
  using next_sequence_identities [of a g] by (simp_all add: numbered_eq identities_def)

lemma opened_fields [simp]:
  "gw_world (opened sid uid n c g) = gw_world g" "gw_listeners (opened sid uid n c g) = gw_listeners g"
  "gw_connections (opened sid uid n c g) = gw_connections g" "gw_timers (opened sid uid n c g) = gw_timers g"
  "gw_out (opened sid uid n c g) = gw_out g" "length (gw_arcs (opened sid uid n c g)) = Suc (length (gw_arcs g))"
  "identities (opened sid uid n c g) = identities g @ [(sid, uid, c)]"
  "gw_sessions (opened sid uid n c g) = (gw_sessions g)(sid \<mapsto> length (gw_arcs g))"
  "gw_user_sessions (opened sid uid n c g) =
     (gw_user_sessions g)(uid \<mapsto> unwrap_or [] (gw_user_sessions g uid) @ [sid])"
  by (simp_all add: opened_def open_gateway_session_def register_session_def Let_def identities_def identity_def)

lemma listening_fields [simp]:
  "gw_world (listening a uid svs dms g) = gw_world g" "gw_sessions (listening a uid svs dms g) = gw_sessions g"
  "gw_user_sessions (listening a uid svs dms g) = gw_user_sessions g" "gw_arcs (listening a uid svs dms g) = gw_arcs g"
  "gw_connections (listening a uid svs dms g) = gw_connections g" "gw_timers (listening a uid svs dms g) = gw_timers g"
  "gw_out (listening a uid svs dms g) = gw_out g" "identities (listening a uid svs dms g) = identities g"
  "gw_listeners (listening a uid svs dms g) =
     gw_listeners g @ map (subscribe_and_forward a) (listen_subjects uid svs dms)"
  by (simp_all add: listening_def spawn_nats_listener_def Let_def identities_def)

lemma set_connection_fields [simp]:
  "gw_world (set_connection c f g) = gw_world g" "gw_arcs (set_connection c f g) = gw_arcs g"
  "gw_sessions (set_connection c f g) = gw_sessions g" "gw_user_sessions (set_connection c f g) = gw_user_sessions g"
  "gw_listeners (set_connection c f g) = gw_listeners g" "gw_out (set_connection c f g) = gw_out g"
  "gw_timers (set_connection c f g) = gw_timers g" "identities (set_connection c f g) = identities g"
  "gw_connections (set_connection c f g) = (gw_connections g)[c := f (gw_connections g ! c)]"
  by (simp_all add: set_connection_def identities_def)

lemma set_listener_fields [simp]:
  "gw_world (set_listener l f g) = gw_world g" "gw_arcs (set_listener l f g) = gw_arcs g"
  "gw_sessions (set_listener l f g) = gw_sessions g" "gw_user_sessions (set_listener l f g) = gw_user_sessions g"
  "gw_connections (set_listener l f g) = gw_connections g" "gw_out (set_listener l f g) = gw_out g"
  "gw_timers (set_listener l f g) = gw_timers g" "identities (set_listener l f g) = identities g"
  "gw_listeners (set_listener l f g) = (gw_listeners g)[l := f (gw_listeners g ! l)]"
  by (simp_all add: set_listener_def identities_def)

lemma abort_fields [simp]:
  "gw_world (abort_listeners ls g) = gw_world g" "gw_arcs (abort_listeners ls g) = gw_arcs g"
  "gw_sessions (abort_listeners ls g) = gw_sessions g" "gw_user_sessions (abort_listeners ls g) = gw_user_sessions g"
  "gw_connections (abort_listeners ls g) = gw_connections g" "gw_out (abort_listeners ls g) = gw_out g"
  "gw_timers (abort_listeners ls g) = gw_timers g" "identities (abort_listeners ls g) = identities g"
  "length (gw_listeners (abort_listeners ls g)) = length (gw_listeners g)"
  unfolding abort_listeners_def by (induction ls arbitrary: g) simp_all

lemma abort_nth:
  "l < length (gw_listeners g) \<Longrightarrow> gw_listeners (abort_listeners ls g) ! l =
     (if l \<in> set ls then (gw_listeners g ! l)\<lparr>ln_phase := Stopped\<rparr> else gw_listeners g ! l)"
  unfolding abort_listeners_def by (induction ls arbitrary: g) (auto simp: nth_upd)

lemma identities_simps [simp]:
  "identities (g\<lparr>gw_world := w\<rparr>) = identities g" "identities (g\<lparr>gw_timers := ts\<rparr>) = identities g"
  "identities (send c m g) = identities g" "identities (fold (send c) ms g) = identities g"
  "length (identities g) = length (gw_arcs g)"
  by (simp_all add: identities_def)

section \<open>The two handlers that open a session\<close>

text \<open>
  What an invariant has to survive when a session opens: quiet calls, the opened session, sends, the numbered message
  and the new listeners; and, for a resume, the deletion of the stored session and of the buffer.
\<close>

definition deletes :: "string \<Rightarrow> world \<Rightarrow> world \<Rightarrow> bool" where
  "deletes k w w' \<longleftrightarrow> w_pg w' = w_pg w \<and> (\<forall>k'. gateway_key k' \<longrightarrow> w_redis w' k' = w_redis w k' \<or> (k' = k \<and> w_redis w' k' = None))"

lemma del_deletes:
  "redis_call (cmd_del k) w = (r, w') \<Longrightarrow> deletes k w w'" "or_else () (redis_call (cmd_del k)) w = (r', w') \<Longrightarrow> deletes k w w'"
  unfolding deletes_def
  by (erule redis_call_cases, simp, simp add: cmd_del_def, erule or_else_cases, auto simp: cmd_del_def)

lemma del_done: "redis_call (cmd_del k) w = (Inr x, w') \<Longrightarrow> w_redis w' k = None"
  by (erule redis_call_cases) (auto simp: cmd_del_def)

lemma quiet_lrange [quiet_intros]: "quiet (redis_call (cmd_lrange k))"
  by (intro quiet_intros) (auto simp: cmd_lrange_def split: option.splits redis_value.splits)

lemma gwp_quiet_base:
  assumes "quiet h" "still (gw_world g) w" "\<And>w'. still (gw_world g) w' \<Longrightarrow> E (g\<lparr>gw_world := w'\<rparr>)"
    and "\<And>x w'. h w = (Inr x, w') \<Longrightarrow> still (gw_world g) w' \<Longrightarrow> Q x (g\<lparr>gw_world := w'\<rparr>)"
  shows "gwp (gcall h) Q E (g\<lparr>gw_world := w\<rparr>)"
proof (rule gwp_quiet [OF assms(1)])
  note step = still_trans [OF assms(2)]
  show "h (gw_world (g\<lparr>gw_world := w\<rparr>)) = (Inr x, w') \<Longrightarrow> still (gw_world (g\<lparr>gw_world := w\<rparr>)) w' \<Longrightarrow>
      Q x (g\<lparr>gw_world := w, gw_world := w'\<rparr>)" for x w'
    using assms(4) [of x w'] step [of w'] by simp
  show "still (gw_world (g\<lparr>gw_world := w\<rparr>)) w' \<Longrightarrow> E (g\<lparr>gw_world := w, gw_world := w'\<rparr>)" for w'
    using assms(3) [of w'] step [of w'] by simp
qed

definition never_fails :: "'a handler \<Rightarrow> bool" where
  "never_fails h \<longleftrightarrow> (\<forall>w. \<exists>x. fst (h w) = Inr x)"

lemma never_fails_intros: "never_fails (publish s p)" "never_fails (ret x)" "never_fails (or_else d m)"
  "never_fails m \<Longrightarrow> (\<And>x. never_fails (k x)) \<Longrightarrow> never_fails (bind m k)"
  by (auto simp: never_fails_def publish_def ret_def or_else_fst bind_def Let_def split: prod.splits sum.splits)
    (metis fst_conv sum.distinct(1) Inl_Inr_False)+

lemma never_fails_for_each: "(\<And>x. never_fails (f x)) \<Longrightarrow> never_fails (for_each f xs)"
  by (induction xs) (auto intro: never_fails_intros)

lemma gw_world_self: "gwp m Q E g = gwp m Q E (g\<lparr>gw_world := gw_world g\<rparr>)"
  by simp

lemma gwp_safe:
  assumes "quiet h" "never_fails h" "\<And>x w. still (gw_world g) w \<Longrightarrow> Q x (g\<lparr>gw_world := w\<rparr>)"
  shows "gwp (gcall h) Q E g"
proof (rule gwp_call)
  show "h (gw_world g) = (Inr x, w) \<Longrightarrow> Q x (g\<lparr>gw_world := w\<rparr>)" for x w
    using assms(3) quietD [OF assms(1)] by blast
  show "h (gw_world g) = (Inl e, w) \<Longrightarrow> E (g\<lparr>gw_world := w\<rparr>)" for e w
    using assms(2) unfolding never_fails_def by (metis fst_conv sum.distinct(1))
qed

lemma pg_query_done: "pg_query q w = (Inr x, w') \<Longrightarrow> x = q (w_pg w)"
  by (auto simp: pg_query_def Let_def dest: next_call_kept split: prod.splits if_splits)

lemma gwp_identify:
  assumes refused: "\<And>w. still (gw_world g) w \<Longrightarrow> E (g\<lparr>gw_world := w\<rparr>)"
    and opened: "\<And>uid u w0 svs dms w w'. fst (authenticate decode secret (ip_token p) (gw_world g)) = Inr uid \<Longrightarrow>
      fst (gateway_user uid w0) = Inr u \<Longrightarrow> w_pg w0 = w_pg (gw_world g) \<Longrightarrow>
      svs = gateway_servers uid (w_pg (gw_world g)) \<Longrightarrow> dms = gateway_dms uid (w_pg (gw_world g)) \<Longrightarrow>
      still (gw_world g) w \<Longrightarrow> still (gw_world g) w' \<Longrightarrow>
      Q (length (gw_arcs g), new_handles uid svs dms g)
        ((listening (length (gw_arcs g)) uid svs dms
            (numbered (length (gw_arcs g)) c ''READY'' (ready_data u svs dms sid) (opened sid uid 0 c (g\<lparr>gw_world := w\<rparr>))))
         \<lparr>gw_world := w'\<rparr>)"
  shows "gwp (handle_identify decode secret sid p c) Q E g"
  unfolding handle_identify_def
  apply (rule gwp_bind, subst gw_world_self, rule gwp_quiet_base, rule quiet_authenticate, rule still_refl, erule refused)
  apply (rule gwp_bind, rule gwp_quiet_base, rule quiet_gateway_user, assumption, erule refused)
  apply (rule gwp_bind, rule gwp_quiet_base, rule quiet_calls, assumption, erule refused)
  apply (rule gwp_bind, rule gwp_quiet_base, rule quiet_calls, assumption, erule refused)
  apply (rule gwp_bind, rule gwp_open, rule gwp_bind, rule gwp_numbered, rule gwp_bind, rule gwp_spawn)
  apply (rule gwp_bind, rule gwp_safe, rule quiet_calls, rule never_fails_intros)
  apply (rule gwp_bind, rule gwp_safe, intro quiet_intros, intro never_fails_for_each never_fails_intros)
  apply (rule gwp_ret)
  subgoal premises ps for uid w1 u w2 svs w3 dms w4 x5 w5 x6 w6
  proof -
    have "fst (authenticate decode secret (ip_token p) (gw_world g)) = Inr uid" "fst (gateway_user uid w1) = Inr u"
      "w_pg w1 = w_pg (gw_world g)" "svs = gateway_servers uid (w_pg (gw_world g))" "dms = gateway_dms uid (w_pg (gw_world g))"
      using ps(1, 3) pg_query_done [OF ps(5)] pg_query_done [OF ps(7)] ps(2, 4, 6) by (simp_all add: still_def)
    moreover have "still (gw_world g) w6"
      using ps(8) still_trans [OF still_trans [OF ps(8)], of w5 w6] ps(9, 10) by simp
    ultimately have "Q (length (gw_arcs g), new_handles uid svs dms g)
        ((listening (length (gw_arcs g)) uid svs dms
            (numbered (length (gw_arcs g)) c ''READY'' (ready_data u svs dms sid) (opened sid uid 0 c (g\<lparr>gw_world := w4\<rparr>))))
         \<lparr>gw_world := w6\<rparr>)"
      by (rule opened [OF _ _ _ _ _ ps(8)])
    then show ?thesis by (simp add: new_handles_def)
  qed
  done

lemma world_commutes:
  "send c m (g\<lparr>gw_world := w\<rparr>) = (send c m g)\<lparr>gw_world := w\<rparr>"
  "numbered a c name data (g\<lparr>gw_world := w\<rparr>) = (numbered a c name data g)\<lparr>gw_world := w\<rparr>"
  "listening a uid svs dms (g\<lparr>gw_world := w\<rparr>) = (listening a uid svs dms g)\<lparr>gw_world := w\<rparr>"
  by (simp_all add: numbered_eq try_send_def next_sequence_def listening_def spawn_nats_listener_def Let_def)

lemma fold_send_world: "fold (send c) ms (g\<lparr>gw_world := w\<rparr>) = (fold (send c) ms g)\<lparr>gw_world := w\<rparr>"
  by (induction ms arbitrary: g) (simp_all add: world_commutes)

lemma deletes_same: "still a b \<Longrightarrow> deletes k a b" "deletes k a b \<Longrightarrow> still b c \<Longrightarrow> deletes k a c"
  "still a b \<Longrightarrow> deletes k b c \<Longrightarrow> deletes k a c"
  by (auto simp: deletes_def still_def same_keys_def)

text \<open>The state when a resume has opened its session and sent what the client missed.\<close>

definition rejoined :: "string \<Rightarrow> snowflake \<Rightarrow> u64 \<Rightarrow> nat \<Rightarrow> gateway_message list \<Rightarrow> world \<Rightarrow> gateway \<Rightarrow> gateway" where
  "rejoined sid uid n c ms w g = numbered (length (gw_arcs g)) c ''RESUMED'' (JObj [])
     (fold (send c) ms (opened sid uid n c (g\<lparr>gw_world := w\<rparr>)))"

definition stored_for :: "string \<Rightarrow> snowflake \<Rightarrow> world \<Rightarrow> bool" where
  "stored_for sid uid w \<longleftrightarrow> (\<exists>v t. w_redis w (session_key sid) = Some (v, t) \<and> stored_user (Some v) = Some (lit (show_u64 uid)))"

lemma get_stored:
  assumes "redis_call (cmd_get (session_key sid)) w = (Inr found, w')" "stored_user found = Some u" "still w0 w"
  shows "\<exists>v t. w_redis w0 (session_key sid) = Some (v, t) \<and> stored_user (Some v) = Some u"
  using assms(1)
proof (cases rule: redis_call_cases)
  case kept
  then show ?thesis by blast
next
  case (executed st x)
  from executed(1) have "x = redis_value_at (w_now w) (w_redis w) (session_key sid)"
    by (auto simp: cmd_get_def split: option.splits redis_value.splits)
  then have "redis_value_at (w_now w) (w_redis w) (session_key sid) = found" using executed(3) by simp
  then show ?thesis using assms(2, 3)
    by (auto simp: redis_value_at_def redis_at_def stored_user_def still_def same_keys_def split: option.splits if_splits)
qed

lemma gwp_replay:
  assumes "\<And>x ms w. deletes (events_key sid) (gw_world g) w \<Longrightarrow> Q x ((fold (send c) ms g)\<lparr>gw_world := w\<rparr>)"
  shows "gwp (replay_events sid seen c) Q E g"
  unfolding replay_events_def Let_def
  apply (rule gwp_bind, rule gwp_safe, rule quiet_or_else, rule quiet_lrange, rule never_fails_intros)
  apply (rule gwp_bind, rule gwp_do, rule gwp_bind, rule gwp_call)
  subgoal for js w x w'
    by (rule gwp_ret) (use assms deletes_same(3) del_deletes(2) in \<open>simp add: fold_send_world\<close>)
  subgoal by (simp add: or_else_Inl)
  done

lemma resume_checked:
  assumes "redis_call (cmd_get (session_key sid)) w1 = (Inr found, w2)" "still w0 w1"
    and "ok_or (stored_user found) e w3 = (Inr u, w4)" "ensure (u = lit (show_u64 uid)) e' w4 = (Inr x, w5)"
    and "redis_call (cmd_del (session_key sid)) w5 = (Inr y, w6)" "still w0 w5"
  shows "stored_for sid uid w0 \<and> deletes (session_key sid) w0 w6 \<and> w_redis w6 (session_key sid) = None"
proof -
  have "stored_user found = Some (lit (show_u64 uid))"
    using assms(3, 4) by (auto simp: ok_or_def ensure_def ret_def throw_def split: option.splits if_splits)
  then have "stored_for sid uid w0"
    unfolding stored_for_def by (rule get_stored [OF assms(1) _ assms(2)])
  then show ?thesis using deletes_same(3) [OF assms(6) del_deletes(1) [OF assms(5)]] del_done [OF assms(5)] by blast
qed

lemma gwp_resume:
  fixes p :: resume_payload and g :: gateway
  defines "sid \<equiv> utf8_bytes (rp_session_id p)" and "n \<equiv> rp_sequence p" and "a \<equiv> length (gw_arcs g)"
  assumes refused: "\<And>w. deletes (session_key sid) (gw_world g) w \<Longrightarrow> E (g\<lparr>gw_world := w\<rparr>)"
    and failed: "\<And>uid w w' ms. fst (authenticate decode secret (rp_token p) (gw_world g)) = Inr uid \<Longrightarrow>
      stored_for sid uid (gw_world g) \<Longrightarrow> deletes (session_key sid) (gw_world g) w \<Longrightarrow>
      w_redis w (session_key sid) = None \<Longrightarrow> deletes (events_key sid) w w' \<Longrightarrow>
      E ((rejoined sid uid n c ms w g)\<lparr>gw_world := w'\<rparr>)"
    and opened: "\<And>uid w w' ms svs dms. fst (authenticate decode secret (rp_token p) (gw_world g)) = Inr uid \<Longrightarrow>
      svs = gateway_servers uid (w_pg (gw_world g)) \<Longrightarrow> dms = gateway_dms uid (w_pg (gw_world g)) \<Longrightarrow>
      stored_for sid uid (gw_world g) \<Longrightarrow> deletes (session_key sid) (gw_world g) w \<Longrightarrow>
      w_redis w (session_key sid) = None \<Longrightarrow> deletes (events_key sid) w w' \<Longrightarrow>
      Q (a, new_handles uid svs dms g) ((listening a uid svs dms (rejoined sid uid n c ms w g))\<lparr>gw_world := w'\<rparr>)"
  shows "gwp (handle_resume decode secret p c) Q E g"
  unfolding handle_resume_def Let_def sid_def [symmetric]
  apply (rule gwp_bind, subst gw_world_self, rule gwp_quiet_base, rule quiet_authenticate, rule still_refl,
      rule refused, erule deletes_same)
  apply (rule gwp_bind, rule gwp_quiet_base, rule quiet_presence, assumption, rule refused, erule deletes_same)
  apply (rule gwp_bind, rule gwp_quiet_base, rule quiet_basic, assumption, rule refused, erule deletes_same)
  apply (rule gwp_bind, rule gwp_quiet_base, rule quiet_basic, assumption, rule refused, erule deletes_same)
  apply (rule gwp_bind, rule gwp_quiet_base, rule quiet_basic, assumption, rule refused, erule deletes_same)
  apply (rule gwp_bind, rule gwp_call)
  prefer 2 subgoal by simp (rule refused, erule deletes_same, erule del_deletes)
  apply (rule gwp_bind, rule gwp_open, rule gwp_bind, rule gwp_replay, rule gwp_bind, rule gwp_numbered)
  apply (rule gwp_bind, rule gwp_quiet, rule quiet_calls)
  prefer 2
  subgoal premises ps for uid w1 found w2 x3 w3 u w4 x5 w5 y w6 x7 ms w7 w8
    using failed [of uid w6 w8 ms] resume_checked [OF ps(3) ps(2) ps(7) ps(9) _ ps(10), of y w6] ps(1, 11)
      deletes_same(2) [of "events_key sid" w6 w7 w8] ps(12, 13)
    by (simp add: rejoined_def world_commutes a_def n_def)
  apply (rule gwp_bind, rule gwp_quiet, rule quiet_calls)
  prefer 2
  subgoal premises ps for uid w1 found w2 x3 w3 u w4 x5 w5 y w6 x7 ms w7 svs w8 w9
    using failed [of uid w6 w9 ms] resume_checked [OF ps(3) ps(2) ps(7) ps(9) _ ps(10), of y w6] ps(1, 11)
      deletes_same(2) [of "events_key sid" w6 w7 w9] ps(12) still_trans [of w7 w8 w9] ps(14, 15)
    by (simp add: rejoined_def world_commutes a_def n_def)
  apply (rule gwp_bind, rule gwp_spawn, rule gwp_ret)
  subgoal premises ps for uid w1 found w2 x3 w3 u w4 x5 w5 y w6 x7 ms w7 svs w8 dms w9
  proof -
    have ok: "stored_for sid uid (gw_world g) \<and> deletes (session_key sid) (gw_world g) w6 \<and> w_redis w6 (session_key sid) = None"
      by (rule resume_checked [OF ps(3) ps(2) ps(7) ps(9) _ ps(10), of y w6]) (use ps(11) in simp)
    then have "w_pg w7 = w_pg (gw_world g)" "w_pg w8 = w_pg (gw_world g)"
      using ps(12, 14) by (simp_all add: deletes_def still_def)
    then have "svs = gateway_servers uid (w_pg (gw_world g))" "dms = gateway_dms uid (w_pg (gw_world g))"
      using pg_query_done [OF ps(13)] pg_query_done [OF ps(15)] by simp_all
    moreover have "deletes (events_key sid) w6 w9"
      using deletes_same(2) [of "events_key sid" w6 w7 w9] ps(12) still_trans [of w7 w8 w9] ps(14, 16) by simp
    ultimately show ?thesis using opened [of uid svs dms w6 w9 ms] ok ps(1)
      by (simp add: rejoined_def world_commutes a_def n_def new_handles_def)
  qed
  done

end
