(* ===== verification/Gateway_Invariants.thy ===== *)
theory Gateway_Invariants
  imports Gateway_System
begin

text \<open>
  A contract for invariants of the gateway: what a predicate has to survive so that every step keeps it. The locale
  \<open>frame_contract\<close> covers the primitives of a frame, \<open>step_contract\<close> the other tasks; the three invariants of the gateway
  are interpretations.
\<close>

section \<open>The contract\<close>

text \<open>Keys of the gateway are kept or deleted.\<close>

definition shrinks :: "world \<Rightarrow> world \<Rightarrow> bool" where
  "shrinks w w' \<longleftrightarrow> (\<forall>k. gateway_key k \<longrightarrow> w_redis w' k = w_redis w k \<or> w_redis w' k = None)"

lemma shrinksI: "still w w' \<Longrightarrow> shrinks w w'" "deletes k w w' \<Longrightarrow> shrinks w w'"
  "same_keys w w' \<Longrightarrow> shrinks w w'"
  by (auto simp: still_def same_keys_def deletes_def shrinks_def)

lemma still_sym: "still w w' \<Longrightarrow> still w' w"
  by (simp add: still_def same_keys_def)

definition reading :: "nat \<Rightarrow> gateway \<Rightarrow> bool" where
  "reading c g \<longleftrightarrow> c < length (gw_connections g) \<and> cn_phase (gw_connections g ! c) = Reading"

abbreviation conn :: "gateway \<Rightarrow> nat \<Rightarrow> connection" where
  "conn g c \<equiv> gw_connections g ! c"

text \<open>The end of a handler that has opened session \<open>a\<close>: it listens, the old listeners are aborted, the connection has it.\<close>

definition attach :: "nat \<Rightarrow> nat \<Rightarrow> nat list \<Rightarrow> snowflake \<Rightarrow> server_row list \<Rightarrow> channel_row list \<Rightarrow> gateway \<Rightarrow> gateway" where
  "attach c a old uid svs dms g = set_connection c (\<lambda>x. x\<lparr>cn_session := Some a, cn_handles := new_handles uid svs dms g\<rparr>)
     (abort_listeners old (listening a uid svs dms g))"

locale frame_contract =
  fixes I :: "gateway \<Rightarrow> bool"
  assumes keep_world: "I g \<Longrightarrow> shrinks (gw_world g) w \<Longrightarrow> I (g\<lparr>gw_world := w\<rparr>)"
    and keep_send: "I g \<Longrightarrow> I (send c m g)"
    and keep_arc: "I g \<Longrightarrow> (\<And>s. identity (upd s) = identity s) \<Longrightarrow> I (g\<lparr>gw_arcs := (gw_arcs g)[a := upd (gw_arcs g ! a)]\<rparr>)"
    and keep_open: "I g \<Longrightarrow> reading c g \<Longrightarrow> fresh_session_id sid g \<Longrightarrow> I (opened sid uid n c g)"
    and keep_reopen: "I g \<Longrightarrow> reading c g \<Longrightarrow> stored_for sid uid (gw_world g) \<Longrightarrow>
      deletes (session_key sid) (gw_world g) w \<Longrightarrow> w_redis w (session_key sid) = None \<Longrightarrow>
      I (opened sid uid n c (g\<lparr>gw_world := w\<rparr>))"
    and keep_abort: "I g \<Longrightarrow> I (abort_listeners ls g)"
    and keep_steer: "I g \<Longrightarrow> reading c g \<Longrightarrow> cn_session (f (conn g c)) = cn_session (conn g c) \<Longrightarrow>
      cn_handles (f (conn g c)) = cn_handles (conn g c) \<Longrightarrow>
      cn_phase (f (conn g c)) = Closing \<or> cn_phase (f (conn g c)) = Reading \<and>
        (cn_command_count (f (conn g c)) = cn_command_count (conn g c) \<or> cn_command_count (f (conn g c)) \<le> MAX_COMMANDS_PER_MINUTE) \<Longrightarrow>
      I (set_connection c f g)"
    and keep_attach: "I g \<Longrightarrow> reading c g \<Longrightarrow> a < length (gw_arcs g) \<Longrightarrow> identities g ! a = (sid, uid, c) \<Longrightarrow>
      cn_session (conn g c) = None \<and> old = [] \<or> old = cn_handles (conn g c) \<Longrightarrow> I (attach c a old uid svs dms g)"
begin

lemma keep_next: "I g \<Longrightarrow> I (snd (next_sequence a g))"
  using keep_arc [of g "\<lambda>s. s\<lparr>gs_sequence := gs_sequence s + 1\<rparr>" a]
  by (simp add: next_sequence_def Let_def identity_def)

lemma keep_numbered: "I g \<Longrightarrow> I (numbered a c name data g)"
  by (simp add: numbered_eq keep_send keep_next)

lemma keep_sends: "I g \<Longrightarrow> I (fold (send c) ms g)"
  by (induction ms arbitrary: g) (simp_all add: keep_send)

lemma keep_quiet: "I g \<Longrightarrow> quiet h \<Longrightarrow> I (snd (gcall h g))"
  unfolding gcall_def by (auto intro!: keep_world shrinksI(1) dest: quietD split: prod.split)

lemma keep_break: "I g \<Longrightarrow> reading c g \<Longrightarrow> I (break_loop c g)"
  unfolding break_loop_def by (rule keep_steer) simp_all

lemma keep_refuse: "I g \<Longrightarrow> reading c g \<Longrightarrow> I (refuse c g)"
  unfolding refuse_def by (rule keep_break) (simp_all add: keep_send reading_def)

lemma keep_identify:
  assumes "I g" "reading c g" "fresh_session_id sid g"
  shows "I (on_identify ext sid c d g)"
proof (cases "cn_session (conn g c) = None")
  case False
  then show ?thesis by (simp add: on_identify_def keep_break assms)
next
  case None: True
  have wp: "gwp (handle_identify (gx_decode ext) (gx_secret ext) sid p c)
      (\<lambda>r g'. I (set_connection c (\<lambda>x. x\<lparr>cn_session := Some (fst r), cn_handles := snd r\<rparr>) g')) (\<lambda>g'. I (refuse c g')) g" for p
  proof (rule gwp_identify)
    show "still (gw_world g) w \<Longrightarrow> I (refuse c (g\<lparr>gw_world := w\<rparr>))" for w
      using assms by (intro keep_refuse keep_world shrinksI(1)) (simp_all add: reading_def)
    fix uid u w w' svs dms assume w: "still (gw_world g) w" "still (gw_world g) w'"
    let ?a = "length (gw_arcs g)"
    let ?G = "(numbered ?a c ''READY'' (ready_data u svs dms sid) (opened sid uid 0 c (g\<lparr>gw_world := w\<rparr>)))\<lparr>gw_world := w'\<rparr>"
    have "fresh_session_id sid (g\<lparr>gw_world := w\<rparr>)"
      using assms(3) w(1) by (simp add: fresh_session_id_def still_def same_keys_def)
    moreover have "I (g\<lparr>gw_world := w\<rparr>)" using assms(1) w(1) by (intro keep_world shrinksI)
    ultimately have "I (opened sid uid 0 c (g\<lparr>gw_world := w\<rparr>))"
      using assms(2) by (intro keep_open) (simp_all add: reading_def)
    moreover have "still w w'" by (rule still_trans [OF still_sym [OF w(1)] w(2)])
    ultimately have "I ?G" by (intro keep_world [OF keep_numbered shrinksI(1)]) simp_all
    then have "I (attach c ?a [] uid svs dms ?G)"
      by (rule keep_attach [where sid = sid]) (use assms(2) None in \<open>simp_all add: reading_def nth_append\<close>)
    then show "I (set_connection c (\<lambda>x. x\<lparr>cn_session := Some (fst (?a, new_handles uid svs dms g)),
        cn_handles := snd (?a, new_handles uid svs dms g)\<rparr>)
        ((listening ?a uid svs dms (numbered ?a c ''READY'' (ready_data u svs dms sid) (opened sid uid 0 c (g\<lparr>gw_world := w\<rparr>))))
          \<lparr>gw_world := w'\<rparr>))"
      by (simp add: attach_def new_handles_def world_commutes abort_listeners_def)
  qed
  show ?thesis
    unfolding on_identify_def using None gwpD [OF wp] keep_refuse [OF assms(1, 2)]
    by (auto split: option.split prod.split sum.split)
qed

lemma keep_resume:
  assumes "I g" "reading c g"
  shows "I (on_resume ext c d g)"
proof -
  have wp: "gwp (handle_resume (gx_decode ext) (gx_secret ext) p c)
      (\<lambda>r g'. I (set_connection c (\<lambda>x. x\<lparr>cn_session := Some (fst r), cn_handles := snd r\<rparr>)
         (abort_listeners (cn_handles (conn g' c)) g'))) (\<lambda>g'. I (refuse c g')) g" for p
  proof (rule gwp_resume)
    let ?sid = "utf8_bytes (rp_session_id p)" and ?n = "rp_sequence p" and ?a = "length (gw_arcs g)"
    show "deletes (session_key ?sid) (gw_world g) w \<Longrightarrow> I (refuse c (g\<lparr>gw_world := w\<rparr>))" for w
      using assms by (intro keep_refuse keep_world shrinksI(2)) (simp_all add: reading_def)
    fix uid w w' ms
    assume st: "stored_for ?sid uid (gw_world g)" and w: "deletes (session_key ?sid) (gw_world g) w"
      "w_redis w (session_key ?sid) = None" and w': "deletes (events_key ?sid) w w'"
    let ?G = "(rejoined ?sid uid ?n c ms w g)\<lparr>gw_world := w'\<rparr>"
    have "I (opened ?sid uid ?n c (g\<lparr>gw_world := w\<rparr>))"
      by (rule keep_reopen [OF assms st w])
    then have "I (rejoined ?sid uid ?n c ms w g)"
      unfolding rejoined_def by (intro keep_numbered keep_sends)
    then have G: "I ?G" by (rule keep_world) (use shrinksI(2) [OF w'] in \<open>simp add: rejoined_def\<close>)
    have r: "reading c ?G" "conn ?G c = conn g c" using assms(2) by (simp_all add: reading_def rejoined_def)
    show "I (refuse c ?G)" by (rule keep_refuse [OF G r(1)])
    fix svs dms
    have "I (attach c ?a (cn_handles (conn g c)) uid svs dms ?G)"
      by (rule keep_attach [OF G r(1), where sid = ?sid]) (use r in \<open>simp_all add: rejoined_def nth_append\<close>)
    then show "I (set_connection c (\<lambda>x. x\<lparr>cn_session := Some (fst (?a, new_handles uid svs dms g)),
        cn_handles := snd (?a, new_handles uid svs dms g)\<rparr>)
        (abort_listeners (cn_handles (conn ((listening ?a uid svs dms (rejoined ?sid uid ?n c ms w g))\<lparr>gw_world := w'\<rparr>) c))
          ((listening ?a uid svs dms (rejoined ?sid uid ?n c ms w g))\<lparr>gw_world := w'\<rparr>)))"
      by (simp add: attach_def new_handles_def world_commutes rejoined_def)
  qed
  show ?thesis
    unfolding on_resume_def using gwpD [OF wp] keep_refuse [OF assms]
    by (auto split: option.split prod.split sum.split)
qed

lemma keep_heartbeat:
  assumes "I g" shows "I (handle_heartbeat c g)"
proof -
  have "I (snd (gcall (or_else () (redis_call (cmd_expire (presence_key uid) 300)))
      (g\<lparr>gw_arcs := (gw_arcs g)[a := (gw_arcs g ! a)\<lparr>gs_last_heartbeat := t\<rparr>]\<rparr>)))" for a uid t
    by (rule keep_quiet, rule keep_arc [OF assms]) (auto simp: identity_def intro: quiet_intros)
  then show ?thesis using assms unfolding handle_heartbeat_def Let_def
    by (auto intro!: keep_send split: option.split)
qed

lemma keep_text:
  assumes "I g" "reading c g" "fresh_session_id sid g"
  shows "I (handle_text ext sid c body g)"
proof -
  let ?f = "count_command (w_now (gw_world g))"
  let ?g = "set_connection c ?f g"
  have f: "cn_session (?f x) = cn_session x" "cn_handles (?f x) = cn_handles x" "cn_phase (?f x) = cn_phase x" for x
    by (simp_all add: count_command_def)
  have phase: "cn_phase (conn g c) = Reading" and c: "c < length (gw_connections g)"
    using assms(2) by (simp_all add: reading_def)
  have "break_loop c ?g = set_connection c (\<lambda>x. (?f x)\<lparr>cn_phase := Closing\<rparr>) g"
    using c by (simp add: break_loop_def set_connection_def)
  moreover have "I (set_connection c (\<lambda>x. (?f x)\<lparr>cn_phase := Closing\<rparr>) g)"
    by (rule keep_steer [OF assms(1, 2)]) (simp_all add: f)
  moreover have "I ?g" if "cn_command_count (conn ?g c) \<le> MAX_COMMANDS_PER_MINUTE"
    by (rule keep_steer [OF assms(1, 2)]) (use that c phase in \<open>simp_all add: f\<close>)
  moreover have "reading c ?g" "fresh_session_id sid ?g"
    using c phase assms(3) by (simp_all add: reading_def f fresh_session_id_def)
  ultimately show ?thesis
    using keep_identify keep_resume keep_heartbeat keep_refuse keep_quiet [OF _ quiet_presence_update]
    unfolding handle_text_def handle_message_def on_presence_def Let_def
    by (auto split: option.split opcode.split)
qed

lemma keep_frame:
  assumes "I g" "reading c g" "fresh_session_id sid g"
  shows "I (handle_frame ext sid c f g)"
proof -
  let ?g = "set_connection c (\<lambda>x. x\<lparr>cn_idle_since := w_now (gw_world g)\<rparr>) g"
  have "I ?g" by (rule keep_steer [OF assms(1, 2)]) (use assms(2) in \<open>simp_all add: reading_def\<close>)
  moreover have "reading c ?g" "fresh_session_id sid ?g"
    using assms(2, 3) by (simp_all add: reading_def fresh_session_id_def)
  ultimately show ?thesis unfolding handle_frame_def Let_def
    by (auto simp: keep_text keep_break split: frame.split)
qed

end

text \<open>The other tasks.\<close>

locale step_contract = frame_contract +
  assumes keep_start: "just_started g \<Longrightarrow> I g"
    and keep_connect: "I g \<Longrightarrow> I (ws_upgrade g)"
    and keep_close: "I g \<Longrightarrow> c < length (gw_connections g) \<Longrightarrow> cn_phase (conn g c) = Closing \<Longrightarrow> I (close_connection c n g)"
    and keep_leave: "I g \<Longrightarrow> c < length (gw_connections g) \<Longrightarrow> cn_phase (conn g c) = Stored \<Longrightarrow> I (leave c g)"
    and keep_timers: "I g \<Longrightarrow> I (g\<lparr>gw_timers := ts\<rparr>)"
    and keep_sender: "I g \<Longrightarrow> I (sender_step c ok g)"
    and keep_listen: "I g \<Longrightarrow> l < length (gw_listeners g) \<Longrightarrow> I (listener_step l g)"
    and keep_deliver: "I g \<Longrightarrow> I (deliver_next matches g)"
begin

lemma keep_step: "gateway_step ext matches g g' \<Longrightarrow> I g \<Longrightarrow> I g'"
proof (induction rule: gateway_step.induct)
  case (gs_timer g before t uid after)
  have "quiet (publish (user_presence_subject uid) (simple_presence_event uid ''offline''))" by (rule quiet_calls)
  then show ?case using gs_timer(3) by (auto simp: go_offline_def intro!: keep_quiet keep_timers)
qed (auto simp: reading_def world_moves_def intro!: keep_connect keep_frame keep_break keep_close keep_leave keep_sender
    keep_listen keep_deliver keep_world shrinksI(3))

end

sublocale step_contract < machine: invariant_system just_started "gateway_step ext matches" I for ext matches
  by unfold_locales (auto intro: keep_start keep_step)

end
