(* ===== verification/Gateway_Bounds.thy ===== *)
theory Gateway_Bounds
  imports Gateway_Invariants
begin

text \<open>
  First interpretation of the contract: the channel, the command counter and the buffer of every session are bounded.
\<close>

section \<open>Bounds\<close>

definition room_ok :: "gateway \<Rightarrow> bool" where
  "room_ok g \<longleftrightarrow> length (gw_out g) = length (gw_connections g) \<and>
     (\<forall>b \<in> set (gw_out g). length (ob_queue b) \<le> OUTBOUND_CHANNEL_CAPACITY) \<and>
     (\<forall>x \<in> set (gw_connections g). cn_phase x = Reading \<longrightarrow> cn_command_count x \<le> MAX_COMMANDS_PER_MINUTE) \<and>
     buffers_ok (gw_world g)"

lemma all_upd:
  assumes "\<forall>x \<in> set xs. P x" "c < length xs \<Longrightarrow> P y"
  shows "\<forall>x \<in> set (xs[c := y]). P x"
proof (cases "c < length xs")
  case True
  then show ?thesis using assms set_update_subset_insert [of xs c y] by blast
qed (simp add: assms(1) list_update_beyond)

lemma buffers_cong:
  "(\<And>sid. w_redis w' (events_key sid) = w_redis w (events_key sid)) \<Longrightarrow> buffers_ok w' = buffers_ok w"
  by (simp add: buffers_ok_def)

lemma buffers_shrink: "buffers_ok w \<Longrightarrow> shrinks w w' \<Longrightarrow> buffers_ok w'"
  unfolding buffers_ok_def shrinks_def by (metis gateway_keys(2) option.distinct(1))

lemma pushed_key:
  assumes "\<forall>v t. st k = Some (v, t) \<longrightarrow> (\<exists>js. v = RList js \<and> length js \<le> 1000)"
    and "cmd_pipe [cmd_rpush k e, cmd_ltrim_last k 1000, cmd_expire k n] now st = Inr (st', x)"
  shows "k' \<noteq> k \<Longrightarrow> st' k' = st k'" "st' k = Some (v, t) \<Longrightarrow> \<exists>js. v = RList js \<and> length js \<le> 1000"
proof -
  show "k' \<noteq> k \<Longrightarrow> st' k' = st k'"
    using assms(2) by (auto simp: cmd_pipe_def cmd_rpush_def cmd_ltrim_last_def cmd_expire_def redis_at_def
      split: option.splits redis_value.splits if_splits)
  show "st' k = Some (v, t) \<Longrightarrow> \<exists>js. v = RList js \<and> length js \<le> 1000"
    using assms(2) assms(1) by (cases "st k")
      (auto simp: cmd_pipe_def cmd_rpush_def cmd_ltrim_last_def cmd_expire_def redis_at_def
      split: option.splits redis_value.splits if_splits)
qed

lemma buffers_event: "buffers_ok w \<Longrightarrow> buffers_ok (snd (buffer_event sid m w))"
proof (cases "gm_op m = Dispatch")
  case True
  assume ok: "buffers_ok w"
  obtain r w' where e: "or_else () (redis_call (cmd_pipe [cmd_rpush (events_key sid) (gateway_serialize m),
      cmd_ltrim_last (events_key sid) 1000, cmd_expire (events_key sid) SESSION_BUFFER_TTL])) w = (r, w')" by fastforce
  then have "buffers_ok w'"
  proof (cases rule: or_else_cases)
    case kept
    with ok show ?thesis by (simp add: buffers_ok_def)
  next
    case (executed st x)
    have base: "\<forall>v t. w_redis w (events_key s) = Some (v, t) \<longrightarrow> (\<exists>js. v = RList js \<and> length js \<le> 1000)" for s
      using ok unfolding buffers_ok_def by blast
    note p = pushed_key [OF base [of sid] executed(1)]
    have "\<exists>js. v = RList js \<and> length js \<le> 1000" if "st (events_key s) = Some (v, t)" for s v t
    proof (cases "s = sid")
      case True
      then show ?thesis using p(2) that by blast
    next
      case False
      then show ?thesis using p(1) [of "events_key s"] that base [of s] by (metis key_inj(2))
    qed
    then show ?thesis using executed(2) by (simp add: buffers_ok_def)
  qed
  with True e show ?thesis by (simp add: buffer_event_def)
qed (simp add: buffer_event_def ret_def)

lemma room_world: "room_ok g \<Longrightarrow> buffers_ok w \<Longrightarrow> room_ok (g\<lparr>gw_world := w\<rparr>)"
  by (simp add: room_ok_def)

lemma room_send: "room_ok g \<Longrightarrow> room_ok (send c m g)"
  unfolding room_ok_def try_send_def Let_def by (auto dest!: set_update_subset_insert [THEN subsetD])

lemma room_connection:
  "room_ok g \<Longrightarrow> c < length (gw_connections g) \<Longrightarrow>
   (cn_phase (f (conn g c)) = Reading \<Longrightarrow> cn_command_count (f (conn g c)) \<le> MAX_COMMANDS_PER_MINUTE) \<Longrightarrow> room_ok (set_connection c f g)"
  unfolding room_ok_def by (auto dest!: set_update_subset_insert [THEN subsetD])

lemma room_other:
  "room_ok g \<Longrightarrow> gw_out g' = gw_out g \<Longrightarrow> gw_connections g' = gw_connections g \<Longrightarrow> gw_world g' = gw_world g \<Longrightarrow> room_ok g'"
  by (simp add: room_ok_def)

lemma room_simps [simp]:
  "room_ok (set_listener l f g) = room_ok g" "room_ok (snd (next_sequence a g)) = room_ok g" "room_ok (abort_listeners ls g) = room_ok g"
  "room_ok (opened sid uid n c g) = room_ok g" "room_ok (g\<lparr>gw_timers := ts\<rparr>) = room_ok g" "room_ok (g\<lparr>gw_arcs := as\<rparr>) = room_ok g"
  by (simp_all add: room_ok_def)

lemma room_reading: "room_ok g \<Longrightarrow> reading c g \<Longrightarrow> cn_command_count (conn g c) \<le> MAX_COMMANDS_PER_MINUTE"
  unfolding room_ok_def reading_def by (meson nth_mem)

lemma store_session_fields [simp]:
  "gw_arcs (store_session a g) = gw_arcs g" "gw_out (store_session a g) = gw_out g"
  "gw_listeners (store_session a g) = gw_listeners g" "gw_connections (store_session a g) = gw_connections g"
  "gw_sessions (store_session a g) = gw_sessions g" "gw_user_sessions (store_session a g) = gw_user_sessions g"
  by (simp_all add: store_session_def Let_def gcall_def split: prod.split)

lemma store_session_redis:
  "w_redis (gw_world (store_session a g)) = w_redis (gw_world g) \<or>
   (\<exists>t. w_redis (gw_world (store_session a g)) = (w_redis (gw_world g))(session_key (gs_id (gw_arcs g ! a)) \<mapsto>
     (RJson (session_data (gs_user (gw_arcs g ! a)) (gs_sequence (gw_arcs g ! a))), Some t)))"
proof -
  obtain r w' where e: "or_else () (redis_call (cmd_set_ex (session_key (gs_id (gw_arcs g ! a)))
      (RJson (session_data (gs_user (gw_arcs g ! a)) (gs_sequence (gw_arcs g ! a)))) SESSION_BUFFER_TTL)) (gw_world g) = (r, w')"
    by fastforce
  then have "gw_world (store_session a g) = w'" by (simp add: store_session_def Let_def gcall_def redis_set_ex_def)
  with e show ?thesis by (cases rule: or_else_cases) (auto simp: cmd_set_ex_def gateway_constants)
qed

lemma close_channel_fields [simp]:
  "gw_arcs (close_channel c n g) = gw_arcs g" "gw_world (close_channel c n g) = gw_world g"
  "gw_listeners (close_channel c n g) = gw_listeners g" "gw_connections (close_channel c n g) = gw_connections g"
  "gw_sessions (close_channel c n g) = gw_sessions g" "gw_user_sessions (close_channel c n g) = gw_user_sessions g"
  by (simp_all add: close_channel_def Let_def)

lemma room_close:
  assumes "room_ok g" "c < length (gw_connections g)"
  shows "room_ok (close_connection c n g)"
proof -
  have b: "buffers_ok (gw_world (store_session a h))" if "buffers_ok (gw_world h)" for a h
    using store_session_redis [of a h] that by (auto simp: buffers_cong [of "gw_world (store_session a h)" "gw_world h"])
  have "room_ok (close_channel c n (abort_listeners ls g))" for ls
    using assms(1) unfolding room_ok_def
    by (auto simp: close_channel_def Let_def gateway_constants dest!: set_update_subset_insert [THEN subsetD])
  then have "room_ok (store_session a (close_channel c n (abort_listeners ls g)))"
    "room_ok (close_channel c n (abort_listeners ls g))" for a ls
    by (auto simp: room_ok_def intro: b)
  then show ?thesis using assms(2) unfolding close_connection_def Let_def
    by (auto intro!: room_connection split: option.split)
qed

lemma remove_session_fields [simp]:
  "gw_arcs (snd (remove_session sid g)) = gw_arcs g" "gw_out (snd (remove_session sid g)) = gw_out g"
  "gw_listeners (snd (remove_session sid g)) = gw_listeners g" "gw_connections (snd (remove_session sid g)) = gw_connections g"
  "gw_world (snd (remove_session sid g)) = gw_world g" "gw_timers (snd (remove_session sid g)) = gw_timers g"
  by (auto simp: remove_session_def take_session_def retain_others_def drop_entry_def Let_def split: option.split)

lemma room_start: "just_started g \<Longrightarrow> room_ok g"
  by (simp add: just_started_def room_ok_def)

lemma room_listen:
  assumes "room_ok g" shows "room_ok (listener_step l g)"
proof -
  have "room_ok (snd (gcall (buffer_event sid m) g))" for sid m
    using room_world [OF assms] buffers_event assms by (auto simp: gcall_def room_ok_def split: prod.split) (metis snd_conv)
  moreover have "room_ok (g\<lparr>gw_world := snd (next_call (gw_world g))\<rparr>)"
    using assms buffers_cong [of "snd (next_call (gw_world g))" "gw_world g"] by (auto simp: room_ok_def)
  ultimately show ?thesis
    using assms room_send [OF assms] unfolding listener_step_def Let_def
    by (auto simp: split_beta split: listener_phase.split list.split)
qed

interpretation room: step_contract room_ok
proof unfold_locales
  fix g w assume "room_ok g" "shrinks (gw_world g) w"
  then show "room_ok (g\<lparr>gw_world := w\<rparr>)" by (auto intro: room_world buffers_shrink simp: room_ok_def)
next
  fix g c sid uid n w assume "room_ok g" "deletes (session_key sid) (gw_world g) w"
  then have "room_ok (g\<lparr>gw_world := w\<rparr>)" by (auto intro: room_world buffers_shrink shrinksI simp: room_ok_def)
  then show "room_ok (opened sid uid n c (g\<lparr>gw_world := w\<rparr>))" by (rule room_other) simp_all
next
  fix g c f assume "room_ok g" "reading c g"
  then show "room_ok (set_connection c f g)" if
    "cn_phase (f (conn g c)) = Closing \<or> cn_phase (f (conn g c)) = Reading \<and>
        (cn_command_count (f (conn g c)) = cn_command_count (conn g c) \<or> cn_command_count (f (conn g c)) \<le> MAX_COMMANDS_PER_MINUTE)"
    using that room_reading [of g c] by (intro room_connection) (auto simp: reading_def)
next
  fix g c a old uid svs dms assume ok: "room_ok g" "reading c g"
  have "room_ok (abort_listeners old (listening a uid svs dms g))" by (rule room_other [OF ok(1)]) simp_all
  then show "room_ok (attach c a old uid svs dms g)" unfolding attach_def
    using room_reading [OF ok] ok(2) by (intro room_connection) (auto simp: reading_def)
next
  fix g assume "room_ok g"
  then show "room_ok (ws_upgrade g)" by (simp add: room_ok_def ws_upgrade_def Let_def)
next
  fix g c assume "room_ok g" "c < length (gw_connections g)"
  then show "room_ok (leave c g)" unfolding leave_def Let_def
    by (auto intro!: room_connection split: option.split) (simp_all add: room_ok_def)
next
  fix g c ok assume r: "room_ok g"
  show "room_ok (sender_step c ok g)"
  proof (cases "ob_queue (gw_out g ! c)")
    case (Cons m ms)
    have "length (m # ms) \<le> OUTBOUND_CHANNEL_CAPACITY" if "c < length (gw_out g)"
      using r that Cons nth_mem unfolding room_ok_def by metis
    then have "\<forall>b \<in> set ((gw_out g)[c := (if ob_closed (gw_out g ! c) then gw_out g ! c
        else if ok then (gw_out g ! c)\<lparr>ob_queue := ms, ob_wire := ob_wire (gw_out g ! c) @ [m]\<rparr>
        else (gw_out g ! c)\<lparr>ob_queue := [], ob_closed := True\<rparr>)]). length (ob_queue b) \<le> OUTBOUND_CHANNEL_CAPACITY"
      using r Cons by (intro all_upd) (simp_all add: room_ok_def)
    with r Cons show ?thesis by (simp add: sender_step_def room_ok_def Let_def)
  qed (simp add: sender_step_def r)
next
  fix g matches assume "room_ok g"
  then show "room_ok (deliver_next matches g)" by (auto simp: deliver_next_def room_ok_def split: prod.split)
qed (simp_all add: room_send room_close room_listen room_start)

end
