(* ===== verification/Gateway_Index.thy ===== *)
theory Gateway_Index
  imports Gateway_Bounds
begin

text \<open>
  Second interpretation of the contract: the two maps of \<open>SessionManager\<close> agree, whatever tasks run between the steps
  of a connection, and what Redis stores for a resume belongs to the user of the session.
\<close>

definition owned :: "gateway \<Rightarrow> string \<Rightarrow> snowflake \<Rightarrow> bool" where
  "owned g sid uid \<longleftrightarrow> (\<exists>c. (sid, uid, c) \<in> set (identities g))"

definition user_list :: "gateway \<Rightarrow> snowflake \<Rightarrow> string list" where
  "user_list g uid = unwrap_or [] (gw_user_sessions g uid)"

definition user_index_ok :: "gateway \<Rightarrow> bool" where
  "user_index_ok g \<longleftrightarrow>
     (\<forall>sid a. gw_sessions g sid = Some a \<longrightarrow> a < length (gw_arcs g) \<and> fst (identities g ! a) = sid) \<and>
     (\<forall>uid sid. sid \<in> set (user_list g uid) \<longleftrightarrow> gw_sessions g sid \<noteq> None \<and> owned g sid uid) \<and>
     (\<forall>uid. gw_user_sessions g uid \<noteq> Some []) \<and>
     (\<forall>sid u u'. owned g sid u \<longrightarrow> owned g sid u' \<longrightarrow> u = u') \<and>
     (\<forall>sid u v t. owned g sid u \<longrightarrow> w_redis (gw_world g) (session_key sid) = Some (v, t) \<longrightarrow>
        stored_user (Some v) = Some (lit (show_u64 u))) \<and>
     (\<forall>x \<in> set (gw_connections g). \<forall>a. cn_session x = Some a \<longrightarrow> a < length (gw_arcs g))"

lemma index_parts:
  assumes "user_index_ok g"
  shows "gw_sessions g sid = Some a \<Longrightarrow> a < length (gw_arcs g)" "gw_sessions g sid = Some a \<Longrightarrow> fst (identities g ! a) = sid"
    "sid \<in> set (user_list g uid) \<longleftrightarrow> gw_sessions g sid \<noteq> None \<and> owned g sid uid" "gw_user_sessions g uid \<noteq> Some []"
    "owned g sid u \<Longrightarrow> owned g sid u' \<Longrightarrow> u = u'"
    "owned g sid u \<Longrightarrow> w_redis (gw_world g) (session_key sid) = Some (v, t) \<Longrightarrow> stored_user (Some v) = Some (lit (show_u64 u))"
    "x \<in> set (gw_connections g) \<Longrightarrow> cn_session x = Some a \<Longrightarrow> a < length (gw_arcs g)"
  using assms unfolding user_index_ok_def by blast+

lemma index_cong:
  assumes "identities g' = identities g" "gw_sessions g' = gw_sessions g" "gw_user_sessions g' = gw_user_sessions g"
    and "\<And>sid. w_redis (gw_world g') (session_key sid) = w_redis (gw_world g) (session_key sid) \<or>
      w_redis (gw_world g') (session_key sid) = None"
    and "\<And>x a. x \<in> set (gw_connections g') \<Longrightarrow> cn_session x = Some a \<Longrightarrow> a < length (gw_arcs g)" "user_index_ok g"
  shows "user_index_ok g'"
proof -
  have n: "length (gw_arcs g') = length (gw_arcs g)" using assms(1) by (metis identities_simps(5))
  note ip = index_parts [OF assms(6)]
  have "stored_user (Some v) = Some (lit (show_u64 u))"
    if "owned g sid u" "w_redis (gw_world g') (session_key sid) = Some (v, t)" for sid u v t
    using ip(6) [OF that(1)] assms(4) [of sid] that(2) by fastforce
  then show ?thesis using assms(1, 2, 3, 5) n ip(1-5) unfolding user_index_ok_def owned_def user_list_def by simp
qed

lemma owned_opened: "owned (opened sid uid n c g) s u \<longleftrightarrow> owned g s u \<or> s = sid \<and> u = uid"
  by (auto simp: owned_def)

lemma index_open:
  assumes "user_index_ok g" "\<And>u. owned g sid u \<Longrightarrow> u = uid" "w_redis (gw_world g) (session_key sid) = None"
  shows "user_index_ok (opened sid uid n c g)"
proof -
  note ip = index_parts [OF assms(1)]
  have ul: "user_list (opened sid uid n c g) u = (if u = uid then user_list g uid @ [sid] else user_list g u)" for u
    by (auto simp: user_list_def unwrap_or_def)
  have "s \<in> set (user_list (opened sid uid n c g) u) \<longleftrightarrow>
      gw_sessions (opened sid uid n c g) s \<noteq> None \<and> owned (opened sid uid n c g) s u" for s u
    using ip(3) [of s u] assms(2) by (auto simp: ul owned_opened)
  moreover have "gw_user_sessions (opened sid uid n c g) u \<noteq> Some []" for u using ip(4) by simp
  moreover have "stored_user (Some v) = Some (lit (show_u64 u))"
    if "owned (opened sid uid n c g) s u" "w_redis (gw_world (opened sid uid n c g)) (session_key s) = Some (v, t)" for s u v t
    using that ip(6) assms(3) by (auto simp: owned_opened)
  moreover have "a < length (gw_arcs (opened sid uid n c g)) \<and> fst (identities (opened sid uid n c g) ! a) = s"
    if "gw_sessions (opened sid uid n c g) s = Some a" for s a
    using that ip(1, 2) [of s a] by (auto simp: nth_append split: if_splits)
  moreover have "u = u'" if "owned (opened sid uid n c g) s u" "owned (opened sid uid n c g) s u'" for s u u'
    using that ip(5) assms(2) by (auto simp: owned_opened)
  moreover have "a < length (gw_arcs (opened sid uid n c g))"
    if "x \<in> set (gw_connections (opened sid uid n c g))" "cn_session x = Some a" for x a
    using that ip(7) by fastforce
  ultimately show ?thesis unfolding user_index_ok_def by blast
qed

lemma show_u64_inj: "show_u64 a = show_u64 b \<longleftrightarrow> a = b"
  by (rule u64_codec.enc_inj)

lemma owned_stored: "user_index_ok g \<Longrightarrow> stored_for sid uid (gw_world g) \<Longrightarrow> owned g sid u \<Longrightarrow> u = uid"
  unfolding stored_for_def using index_parts(6) show_u64_inj by fastforce

lemma identity_nth: "a < length (gw_arcs g) \<Longrightarrow> identities g ! a = (gs_id (gw_arcs g ! a), gs_user (gw_arcs g ! a), gs_sender (gw_arcs g ! a))"
  by (simp add: identities_def identity_def)

lemma owned_nth: "a < length (gw_arcs g) \<Longrightarrow> owned g (gs_id (gw_arcs g ! a)) (gs_user (gw_arcs g ! a))"
  unfolding owned_def by (metis identity_nth nth_mem identities_simps(5))

lemma index_store:
  assumes "user_index_ok g" "a < length (gw_arcs g)" shows "user_index_ok (store_session a g)"
proof -
  let ?s = "gw_arcs g ! a"
  note ip = index_parts [OF assms(1)]
  have ids: "identities (store_session a g) = identities g" by (simp add: identities_def)
  have "stored_user (Some v) = Some (lit (show_u64 u))"
    if "owned g sid u" "w_redis (gw_world (store_session a g)) (session_key sid) = Some (v, t)" for sid u v t
    using store_session_redis [of a g]
  proof (elim disjE exE)
    assume "w_redis (gw_world (store_session a g)) = w_redis (gw_world g)"
    then show ?thesis using that ip(6) by simp
  next
    fix t' assume e: "w_redis (gw_world (store_session a g)) = (w_redis (gw_world g))(session_key (gs_id ?s) \<mapsto>
        (RJson (session_data (gs_user ?s) (gs_sequence ?s)), Some t'))"
    show ?thesis
    proof (cases "sid = gs_id ?s")
      case True
      then have "u = gs_user ?s" using ip(5) that(1) owned_nth [OF assms(2)] by blast
      with True e that(2) show ?thesis by (auto simp: stored_user_def session_data_def json_get_str_def json_get_def)
    next
      case False
      with e that ip(6) show ?thesis by simp
    qed
  qed
  then show ?thesis using ip(1-5,7) unfolding user_index_ok_def owned_def user_list_def ids by simp
qed

lemma index_remove:
  assumes "user_index_ok g" shows "user_index_ok (snd (remove_session sid g))"
proof (cases "gw_sessions g sid")
  case None
  then show ?thesis using assms by (simp add: remove_session_def take_session_def)
next
  case (Some a)
  note ip = index_parts [OF assms]
  let ?uid = "gs_user (gw_arcs g ! a)" and ?g = "snd (remove_session sid g)"
  have a: "a < length (gw_arcs g)" "owned g sid ?uid"
    using ip(1, 2) [OF Some] owned_nth [of a g] identity_nth [of a g] by auto
  have ids: "identities ?g = identities g" by (simp add: identities_def)
  have ss: "gw_sessions ?g = (gw_sessions g)(sid := None)"
    using Some by (auto simp: remove_session_def take_session_def retain_others_def drop_entry_def Let_def split: option.split)
  have us: "gw_user_sessions ?g u = (if u = ?uid \<and> filter (\<lambda>s. s \<noteq> sid) (user_list g u) = [] then None
      else if u = ?uid then Some (filter (\<lambda>s. s \<noteq> sid) (user_list g u)) else gw_user_sessions g u)" for u
    using Some ip(3) [of sid ?uid] a(2)
    by (auto simp: remove_session_def take_session_def retain_others_def drop_entry_def user_list_def unwrap_or_def Let_def
        split: option.split if_splits)
  have "s \<in> set (user_list ?g u) \<longleftrightarrow> gw_sessions ?g s \<noteq> None \<and> owned g s u" for s u
  proof (cases "s = sid")
    case True
    have "sid \<notin> set (user_list ?g u)"
      using ip(3) [of sid u] ip(5) [OF a(2), of u] unfolding user_list_def us by (auto simp: unwrap_or_def split: if_splits)
    with True ss show ?thesis by simp
  next
    case False
    then show ?thesis using ip(3) [of s u] ss unfolding user_list_def us
      by (auto simp: unwrap_or_def filter_empty_conv user_list_def)
  qed
  moreover have "gw_user_sessions ?g u \<noteq> Some []" for u using ip(4) us by auto
  ultimately show ?thesis using ip(1, 2, 5, 6, 7) ss unfolding user_index_ok_def owned_def ids by (auto split: if_splits)
qed

lemma index_same:
  assumes "user_index_ok g" "identities g' = identities g" "gw_sessions g' = gw_sessions g" "gw_user_sessions g' = gw_user_sessions g"
    "gw_connections g' = gw_connections g"
    and "\<And>sid. w_redis (gw_world g') (session_key sid) = w_redis (gw_world g) (session_key sid) \<or>
      w_redis (gw_world g') (session_key sid) = None"
  shows "user_index_ok g'"
  by (rule index_cong [OF assms(2, 3, 4, 6) _ assms(1)]) (use index_parts(7) [OF assms(1)] assms(5) in simp)

lemma index_connection:
  assumes "user_index_ok g" "c < length (gw_connections g)"
    and "\<And>a. cn_session (f (conn g c)) = Some a \<Longrightarrow> cn_session (conn g c) \<noteq> Some a \<Longrightarrow> a < length (gw_arcs g)"
  shows "user_index_ok (set_connection c f g)"
proof (rule index_cong [OF _ _ _ _ _ assms(1)])
  have c: "\<forall>x \<in> set (gw_connections g). \<forall>a. cn_session x = Some a \<longrightarrow> a < length (gw_arcs g)"
    using index_parts(7) [OF assms(1)] by blast
  moreover have "\<forall>a. cn_session (f (conn g c)) = Some a \<longrightarrow> a < length (gw_arcs g)"
    using assms(2, 3) c nth_mem by blast
  ultimately have "\<forall>x \<in> set ((gw_connections g)[c := f (conn g c)]). \<forall>a. cn_session x = Some a \<longrightarrow> a < length (gw_arcs g)"
    by (rule all_upd)
  then show "x \<in> set (gw_connections (set_connection c f g)) \<Longrightarrow> cn_session x = Some a \<Longrightarrow> a < length (gw_arcs g)" for x a
    by simp
qed simp_all

lemma session_valid: "user_index_ok g \<Longrightarrow> c < length (gw_connections g) \<Longrightarrow> cn_session (conn g c) = Some a \<Longrightarrow> a < length (gw_arcs g)"
  using index_parts(7) nth_mem by blast

lemma index_close:
  assumes "user_index_ok g" "c < length (gw_connections g)" shows "user_index_ok (close_connection c n g)"
proof -
  let ?h = "close_channel c n (abort_listeners (cn_handles (conn g c)) g)"
  have h: "user_index_ok ?h" by (rule index_same [OF assms(1)]) (simp_all add: identities_def)
  then show ?thesis using assms(2) index_store [OF h] session_valid [OF assms] unfolding close_connection_def Let_def
    by (auto intro!: index_connection split: option.split)
qed

lemma index_leave:
  assumes "user_index_ok g" "c < length (gw_connections g)" shows "user_index_ok (leave c g)"
proof (cases "cn_session (conn g c)")
  case (Some a)
  let ?h = "snd (remove_session (gs_id (gw_arcs g ! a)) g)"
  have "user_index_ok (?h\<lparr>gw_timers := ts\<rparr>)" for ts
    by (rule index_same [OF index_remove [OF assms(1)]]) simp_all
  then show ?thesis using Some assms(2) unfolding leave_def Let_def by (auto intro!: index_connection)
qed (simp add: leave_def assms(1))

lemma buffer_event_session_keys: "w_redis (snd (buffer_event sid m w)) (session_key s) = w_redis w (session_key s)"
proof (cases "gm_op m = Dispatch")
  case True
  obtain r w' where e: "or_else () (redis_call (cmd_pipe [cmd_rpush (events_key sid) (gateway_serialize m),
      cmd_ltrim_last (events_key sid) 1000, cmd_expire (events_key sid) SESSION_BUFFER_TTL])) w = (r, w')" by fastforce
  then have "w_redis w' (session_key s) = w_redis w (session_key s)"
    by (cases rule: or_else_cases) (auto simp: cmd_pipe_def cmd_rpush_def cmd_ltrim_last_def cmd_expire_def
      split: option.splits redis_value.splits prod.splits)
  with True e show ?thesis by (simp add: buffer_event_def)
qed (simp add: buffer_event_def ret_def)

lemma index_listen:
  assumes "user_index_ok g" shows "user_index_ok (listener_step l g)"
proof -
  have "user_index_ok (set_listener l f (snd (gcall (buffer_event sid m) g)))" for f sid m
    by (rule index_same [OF assms]) (simp_all add: gcall_def split_beta buffer_event_session_keys)
  moreover have "user_index_ok (set_listener l f (g\<lparr>gw_world := snd (next_call (gw_world g))\<rparr>))" for f
    by (rule index_same [OF assms]) simp_all
  moreover have "user_index_ok (set_listener l f (snd (next_sequence a g)))" "user_index_ok (set_listener l f (send c m g))" for f a c m
    by (rule index_same [OF assms]; simp)+
  ultimately show ?thesis using assms unfolding listener_step_def Let_def
    by (auto simp: split_beta split: listener_phase.split list.split)
qed

lemma index_world:
  assumes "user_index_ok g" "shrinks (gw_world g) w" shows "user_index_ok (g\<lparr>gw_world := w\<rparr>)"
proof (rule index_same [OF assms(1)])
  show "w_redis (gw_world (g\<lparr>gw_world := w\<rparr>)) (session_key sid) = w_redis (gw_world g) (session_key sid) \<or>
      w_redis (gw_world (g\<lparr>gw_world := w\<rparr>)) (session_key sid) = None" for sid
    using assms(2) [unfolded shrinks_def, rule_format, OF gateway_keys(1)] by simp
qed simp_all

interpretation index: step_contract user_index_ok
proof unfold_locales
  show "user_index_ok g \<Longrightarrow> shrinks (gw_world g) w \<Longrightarrow> user_index_ok (g\<lparr>gw_world := w\<rparr>)" for g w by (rule index_world)
next
  fix g c m assume "user_index_ok g"
  then show "user_index_ok (send c m g)" by (rule index_same) simp_all
next
  fix g :: gateway and upd a assume "user_index_ok g" "\<And>s. identity (upd s) = identity s"
  then show "user_index_ok (g\<lparr>gw_arcs := (gw_arcs g)[a := upd (gw_arcs g ! a)]\<rparr>)"
    by - (rule index_same, assumption, simp_all add: identities_def map_upd_same)
next
  fix g c sid uid n assume "user_index_ok g" "fresh_session_id sid g"
  then show "user_index_ok (opened sid uid n c g)"
    by (intro index_open) (force simp: fresh_session_id_def owned_def identities_def identity_def)+
next
  fix g c sid uid n w
  assume g: "user_index_ok g" "stored_for sid uid (gw_world g)" "deletes (session_key sid) (gw_world g) w" "w_redis w (session_key sid) = None"
  have "user_index_ok (g\<lparr>gw_world := w\<rparr>)" by (rule index_world [OF g(1) shrinksI(2) [OF g(3)]])
  then show "user_index_ok (opened sid uid n c (g\<lparr>gw_world := w\<rparr>))"
    by (rule index_open) (use owned_stored [OF g(1, 2)] g(4) in \<open>simp_all add: owned_def\<close>)
next
  fix g ls assume "user_index_ok g"
  then show "user_index_ok (abort_listeners ls g)" by (rule index_same) simp_all
next
  fix g c and f :: "connection \<Rightarrow> connection" assume "user_index_ok g" "reading c g" "cn_session (f (conn g c)) = cn_session (conn g c)"
  then show "user_index_ok (set_connection c f g)" by - (rule index_connection, simp_all add: reading_def)
next
  fix g c a sid uid old u svs dms assume g: "user_index_ok g" "reading c g" "a < length (gw_arcs g)"
  have "user_index_ok (abort_listeners old (listening a u svs dms g))" by (rule index_same [OF g(1)]) simp_all
  then show "user_index_ok (attach c a old u svs dms g)" unfolding attach_def
    by (rule index_connection) (use g in \<open>simp_all add: reading_def\<close>)
next
  fix g assume "just_started g"
  then show "user_index_ok g" by (simp add: just_started_def user_index_ok_def user_list_def owned_def identities_def unwrap_or_def)
next
  fix g assume g: "user_index_ok g"
  show "user_index_ok (ws_upgrade g)"
    by (rule index_cong [OF _ _ _ _ _ g]) (use index_parts(7) [OF g] in \<open>auto simp: ws_upgrade_def Let_def identities_def\<close>)
next
  fix g ts assume "user_index_ok g"
  then show "user_index_ok (g\<lparr>gw_timers := ts\<rparr>)" by (rule index_same) simp_all
next
  fix g c ok assume "user_index_ok g"
  then show "user_index_ok (sender_step c ok g)"
    by (rule index_same) (simp_all add: sender_step_def Let_def identities_def split: list.split)
next
  fix g matches assume "user_index_ok g"
  then show "user_index_ok (deliver_next matches g)"
    by (rule index_same) (simp_all add: deliver_next_def identities_def split: prod.split)
qed (simp_all add: index_close index_leave index_listen)

end
