(* ===== verification/Gateway_Listeners.thy ===== *)
theory Gateway_Listeners
  imports Gateway_Bounds
begin

text \<open>
  Third interpretation of the contract: a NATS listener runs only for a connection that still reads or has just left its
  loop, and every such connection knows its listeners. So nothing numbers or buffers events once a connection is gone.
\<close>

definition runs :: "gateway \<Rightarrow> nat \<Rightarrow> bool" where
  "runs g l \<longleftrightarrow> l < length (gw_listeners g) \<and> ln_phase (gw_listeners g ! l) \<noteq> Stopped"

definition home :: "gateway \<Rightarrow> nat \<Rightarrow> nat" where
  "home g l = snd (snd (identities g ! ln_session (gw_listeners g ! l)))"

definition at_home :: "gateway \<Rightarrow> nat \<Rightarrow> bool" where
  "at_home g l \<longleftrightarrow> ln_session (gw_listeners g ! l) < length (gw_arcs g) \<and> home g l < length (gw_connections g) \<and>
     l \<in> set (cn_handles (conn g (home g l))) \<and> cn_phase (conn g (home g l)) \<in> {Reading, Closing}"

definition listeners_ok :: "gateway \<Rightarrow> bool" where
  "listeners_ok g \<longleftrightarrow> (\<forall>l. runs g l \<longrightarrow> at_home g l) \<and>
     (\<forall>x \<in> set (gw_connections g). cn_session x = None \<longrightarrow> cn_handles x = [])"

lemma listeners_parts:
  "listeners_ok g \<Longrightarrow> runs g l \<Longrightarrow> at_home g l"
  "listeners_ok g \<Longrightarrow> x \<in> set (gw_connections g) \<Longrightarrow> cn_session x = None \<Longrightarrow> cn_handles x = []"
  by (simp_all add: listeners_ok_def)

text \<open>Sessions may be added, listeners may stop, and a connection may move on as long as it keeps its handles.\<close>

lemma listeners_cong:
  assumes "listeners_ok g" "\<exists>new. identities g' = identities g @ new"
    and "\<And>l. runs g' l \<Longrightarrow> runs g l \<and> ln_session (gw_listeners g' ! l) = ln_session (gw_listeners g ! l)"
    and "\<And>c. c < length (gw_connections g) \<Longrightarrow> c < length (gw_connections g')"
    and "\<And>c l. c < length (gw_connections g) \<Longrightarrow> runs g' l \<Longrightarrow> l \<in> set (cn_handles (conn g c)) \<Longrightarrow>
      cn_phase (conn g c) \<in> {Reading, Closing} \<Longrightarrow> home g l = c \<Longrightarrow>
      l \<in> set (cn_handles (conn g' c)) \<and> cn_phase (conn g' c) \<in> {Reading, Closing}"
    and "\<And>x. x \<in> set (gw_connections g') \<Longrightarrow> cn_session x = None \<Longrightarrow> cn_handles x = []"
  shows "listeners_ok g'"
proof -
  from assms(2) obtain new where new: "identities g' = identities g @ new" by blast
  have len: "length (gw_arcs g) \<le> length (gw_arcs g')" using arg_cong [OF new, of length] by simp
  have "at_home g' l" if r: "runs g' l" for l
  proof -
    have s: "runs g l" "ln_session (gw_listeners g' ! l) = ln_session (gw_listeners g ! l)" using assms(3) [OF r] by simp_all
    then have h: "at_home g l" using listeners_parts(1) [OF assms(1)] by blast
    have "home g' l = home g l" using h s(2) new by (simp add: home_def at_home_def nth_append)
    moreover have "l \<in> set (cn_handles (conn g' (home g l))) \<and> cn_phase (conn g' (home g l)) \<in> {Reading, Closing}"
      by (rule assms(5) [OF _ r]) (use h in \<open>simp_all add: at_home_def\<close>)
    ultimately show ?thesis using h s(2) len assms(4) by (simp add: at_home_def)
  qed
  then show ?thesis using assms(6) by (simp add: listeners_ok_def)
qed

lemma listeners_same:
  assumes "listeners_ok g" "identities g' = identities g" "gw_connections g' = gw_connections g"
    and "\<And>l. runs g' l \<Longrightarrow> runs g l \<and> ln_session (gw_listeners g' ! l) = ln_session (gw_listeners g ! l)"
  shows "listeners_ok g'"
  by (rule listeners_cong [OF assms(1)]) (use assms listeners_parts(2) [OF assms(1)] in simp_all)

lemma listeners_kept:
  assumes "listeners_ok g" "identities g' = identities g" "gw_connections g' = gw_connections g" "gw_listeners g' = gw_listeners g"
  shows "listeners_ok g'"
  by (rule listeners_same [OF assms(1-3)]) (use assms(4) in \<open>simp add: runs_def\<close>)

lemma runs_abort: "runs (abort_listeners ls g) l \<longleftrightarrow> runs g l \<and> l \<notin> set ls"
  by (auto simp: runs_def abort_nth split: if_splits)

lemma abort_session: "l < length (gw_listeners g) \<Longrightarrow> ln_session (gw_listeners (abort_listeners ls g) ! l) = ln_session (gw_listeners g ! l)"
  by (simp add: abort_nth)

lemma listeners_connection:
  assumes "listeners_ok g" "c < length (gw_connections g)" "cn_handles (f (conn g c)) = cn_handles (conn g c)"
    and "cn_session (f (conn g c)) = cn_session (conn g c)"
    and "cn_phase (f (conn g c)) \<in> {Reading, Closing} \<or> (\<forall>l \<in> set (cn_handles (conn g c)). runs g l \<longrightarrow> home g l \<noteq> c)"
  shows "listeners_ok (set_connection c f g)"
proof (rule listeners_cong [OF assms(1)])
  have "\<forall>x \<in> set ((gw_connections g)[c := f (conn g c)]). cn_session x = None \<longrightarrow> cn_handles x = []"
    using assms(2, 3, 4) listeners_parts(2) [OF assms(1)] by (intro all_upd) simp_all
  then show "x \<in> set (gw_connections (set_connection c f g)) \<Longrightarrow> cn_session x = None \<Longrightarrow> cn_handles x = []" for x by simp
qed (use assms(2, 3, 5) in \<open>auto simp: runs_def nth_list_update\<close>)

lemma listeners_listener:
  assumes "listeners_ok g" "\<And>x. ln_session (f x) = ln_session x" "l < length (gw_listeners g) \<Longrightarrow> ln_phase (gw_listeners g ! l) \<noteq> Stopped"
  shows "listeners_ok (set_listener l f g)"
  by (rule listeners_same [OF assms(1)]) (use assms(2, 3) in \<open>auto simp: runs_def nth_upd split: if_splits\<close>)

lemma listeners_attach:
  assumes "listeners_ok g" "reading c g" "a < length (gw_arcs g)" "identities g ! a = (sid, uid, c)"
    and old: "cn_session (conn g c) = None \<and> old = [] \<or> old = cn_handles (conn g c)"
  shows "listeners_ok (attach c a old u svs dms g)"
proof -
  let ?n = "length (gw_listeners g)" and ?g = "attach c a old u svs dms g" and ?subs = "listen_subjects u svs dms"
  have c: "c < length (gw_connections g)" "cn_phase (conn g c) = Reading" using assms(2) by (simp_all add: reading_def)
  have oldh: "set old = set (cn_handles (conn g c))"
    using old listeners_parts(2) [OF assms(1) nth_mem [OF c(1)]] by auto
  have ids: "identities ?g = identities g" "length (gw_arcs ?g) = length (gw_arcs g)" by (simp_all add: attach_def)
  have conns: "gw_connections ?g = (gw_connections g)[c := (conn g c)\<lparr>cn_session := Some a, cn_handles := new_handles u svs dms g\<rparr>]"
    by (simp add: attach_def)
  have len: "length (gw_listeners ?g) = ?n + length ?subs" by (simp add: attach_def)
  have "at_home ?g l" if r: "runs ?g l" for l
  proof (cases "l < ?n")
    case True
    have s: "ln_session (gw_listeners ?g ! l) = ln_session (gw_listeners g ! l)"
      using True by (simp add: attach_def abort_nth nth_append)
    have rg: "runs g l" "l \<notin> set old"
      using r True by (auto simp: attach_def runs_def abort_nth nth_append split: if_splits)
    then have h: "at_home g l" using listeners_parts(1) [OF assms(1)] by blast
    then have "home g l \<noteq> c" using rg(2) oldh by (auto simp: at_home_def)
    moreover have "home ?g l = home g l" by (simp add: home_def s ids)
    ultimately show ?thesis using h by (simp add: at_home_def s ids conns)
  next
    case False
    then have l: "?n \<le> l" "l < ?n + length ?subs" using r len by (auto simp: runs_def)
    then have s: "ln_session (gw_listeners ?g ! l) = a"
      by (simp add: attach_def abort_nth nth_append subscribe_and_forward_def)
    then have "home ?g l = c" using assms(4) by (simp add: home_def ids)
    then show ?thesis using l c assms(3) by (simp add: at_home_def s ids conns new_handles_def)
  qed
  moreover have "\<forall>x \<in> set (gw_connections ?g). cn_session x = None \<longrightarrow> cn_handles x = []"
    unfolding conns using listeners_parts(2) [OF assms(1)] by (intro all_upd) simp_all
  ultimately show ?thesis unfolding listeners_ok_def by blast
qed

lemma listeners_close:
  assumes "listeners_ok g" "c < length (gw_connections g)" shows "listeners_ok (close_connection c n g)"
proof -
  let ?h = "abort_listeners (cn_handles (conn g c)) g"
  have h: "listeners_ok ?h"
    by (rule listeners_same [OF assms(1)]) (simp_all add: runs_abort, simp add: runs_def abort_session)
  have none: "\<forall>l \<in> set (cn_handles (conn g c)). \<not> runs ?h l" by (simp add: runs_abort)
  have k: "listeners_ok (close_channel c n ?h)" "listeners_ok (store_session a (close_channel c n ?h))" for a
    by (rule listeners_kept [OF h]; simp add: identities_def)+
  have none': "\<forall>l \<in> set (cn_handles (conn g c)). \<not> runs (close_channel c n ?h) l"
    "\<forall>l \<in> set (cn_handles (conn g c)). \<not> runs (store_session a (close_channel c n ?h)) l" for a
    using none by (simp_all add: runs_def)
  show ?thesis unfolding close_connection_def Let_def using assms(2) k none'
    by (auto intro!: listeners_connection split: option.split)
qed

lemma listeners_leave:
  assumes "listeners_ok g" "c < length (gw_connections g)" "cn_phase (conn g c) = Stored" shows "listeners_ok (leave c g)"
proof (cases "cn_session (conn g c)")
  case (Some a)
  let ?h = "(snd (remove_session (gs_id (gw_arcs g ! a)) g))"
  have h: "listeners_ok (?h\<lparr>gw_timers := ts\<rparr>)" for ts
    by (rule listeners_kept [OF assms(1)]) (simp_all add: identities_def)
  have "home g l \<noteq> c" if "l \<in> set (cn_handles (conn g c))" "runs g l" for l
    using listeners_parts(1) [OF assms(1) that(2)] assms(3) by (auto simp: at_home_def)
  moreover have "home (?h\<lparr>gw_timers := ts\<rparr>) l = home g l" "runs (?h\<lparr>gw_timers := ts\<rparr>) l = runs g l" for ts l
    by (simp_all add: home_def runs_def identities_def)
  ultimately show ?thesis unfolding leave_def Let_def using Some assms(2)
    by simp (rule listeners_connection [OF h], simp_all)
qed (simp add: leave_def assms(1))

lemma listeners_listen:
  assumes "listeners_ok g" shows "listeners_ok (listener_step l g)"
proof (cases "ln_phase (gw_listeners g ! l) = Stopped")
  case False
  let ?buffered = "\<lambda>sid m. snd (gcall (buffer_event sid m) g)"
  have kept: "listeners_ok (?buffered sid m)" "listeners_ok (g\<lparr>gw_world := w\<rparr>)" "listeners_ok (send c m g)"
    "listeners_ok (snd (next_sequence a g))" for sid m w c a
    by (rule listeners_kept [OF assms]; simp add: gcall_def split_beta)+
  have ls: "gw_listeners (?buffered sid m) = gw_listeners g" for sid m by (simp add: gcall_def split_beta)
  show ?thesis unfolding listener_step_def Let_def using False assms
    by (auto simp: split_beta ls intro!: listeners_listener kept split: listener_phase.split list.split)
qed (simp add: listener_step_def assms)

interpretation listeners: step_contract listeners_ok
proof unfold_locales
  fix g :: gateway and upd a assume "listeners_ok g" "\<And>s. identity (upd s) = identity s"
  then show "listeners_ok (g\<lparr>gw_arcs := (gw_arcs g)[a := upd (gw_arcs g ! a)]\<rparr>)"
    by - (rule listeners_kept, assumption, simp_all add: identities_def map_upd_same)
next
  have opened: "listeners_ok (opened sid uid n c g)" if "listeners_ok g" for sid uid n c g
    by (rule listeners_cong [OF that]) (use listeners_parts(2) [OF that] in \<open>simp_all add: runs_def\<close>)
  then show "listeners_ok (opened sid uid n c g)" if "listeners_ok g" for sid uid n c g using that by blast
  show "listeners_ok (opened sid uid n c (g\<lparr>gw_world := w\<rparr>))" if "listeners_ok g" for sid uid n c g w
    by (rule opened, rule listeners_kept [OF that]) simp_all
next
  fix g ls assume g: "listeners_ok g"
  show "listeners_ok (abort_listeners ls g)"
    by (rule listeners_same [OF g]) (simp_all add: runs_abort, simp add: runs_def abort_session)
next
  fix g c and f :: "connection \<Rightarrow> connection"
  assume "listeners_ok g" "reading c g" "cn_session (f (conn g c)) = cn_session (conn g c)"
    "cn_handles (f (conn g c)) = cn_handles (conn g c)"
    "cn_phase (f (conn g c)) = Closing \<or> cn_phase (f (conn g c)) = Reading \<and>
        (cn_command_count (f (conn g c)) = cn_command_count (conn g c) \<or> cn_command_count (f (conn g c)) \<le> MAX_COMMANDS_PER_MINUTE)"
  then show "listeners_ok (set_connection c f g)" by - (rule listeners_connection, auto simp: reading_def)
next
  fix g assume "just_started g"
  then show "listeners_ok g" by (simp add: just_started_def listeners_ok_def runs_def)
next
  fix g assume g: "listeners_ok g"
  show "listeners_ok (ws_upgrade g)"
    by (rule listeners_cong [OF g])
      (use listeners_parts(2) [OF g] in \<open>auto simp: ws_upgrade_def Let_def identities_def runs_def nth_append\<close>)
next
  fix g c ok assume g: "listeners_ok g"
  show "listeners_ok (sender_step c ok g)"
    by (rule listeners_kept [OF g]) (simp_all add: sender_step_def Let_def identities_def split: list.split)
next
  fix g matches assume g: "listeners_ok g"
  show "listeners_ok (deliver_next matches g)"
    by (rule listeners_same [OF g]) (auto simp: deliver_next_def identities_def runs_def split: prod.split if_splits)
qed (simp_all add: listeners_attach listeners_close listeners_leave listeners_listen,
  (rule listeners_kept, assumption, simp_all)+)

end
