(* ===== verification/Gateway_References.thy ===== *)
theory Gateway_References
  imports Gateway_Bounds
begin

text \<open>
  Fourth interpretation of the contract: no reference of the state dangles. Sessions, listeners and handles are numbers into
  lists; every one of them is in range, so no \<open>!\<close> of the model is ever read out of range in a reachable state.
\<close>

definition refs_ok :: "gateway \<Rightarrow> bool" where
  "refs_ok g \<longleftrightarrow> (\<forall>i \<in> set (identities g). snd (snd i) < length (gw_connections g)) \<and>
     (\<forall>x \<in> set (gw_listeners g). ln_session x < length (gw_arcs g)) \<and>
     (\<forall>x \<in> set (gw_connections g). \<forall>l \<in> set (cn_handles x). l < length (gw_listeners g)) \<and>
     (\<forall>x \<in> set (gw_connections g). \<forall>a. cn_session x = Some a \<longrightarrow> a < length (gw_arcs g)) \<and>
     (\<forall>sid a. gw_sessions g sid = Some a \<longrightarrow> a < length (gw_arcs g))"

lemma refs_parts:
  assumes "refs_ok g"
  shows "\<forall>i \<in> set (identities g). snd (snd i) < length (gw_connections g)"
    "\<forall>x \<in> set (gw_listeners g). ln_session x < length (gw_arcs g)"
    "\<forall>x \<in> set (gw_connections g). \<forall>l \<in> set (cn_handles x). l < length (gw_listeners g)"
    "\<forall>x \<in> set (gw_connections g). \<forall>a. cn_session x = Some a \<longrightarrow> a < length (gw_arcs g)"
    "gw_sessions g sid = Some a \<Longrightarrow> a < length (gw_arcs g)"
  using assms by (simp_all add: refs_ok_def)

text \<open>The lists may grow and their entries may change as long as the references stay in range.\<close>

lemma refs_same:
  assumes "refs_ok g" "identities g' = identities g" "length (gw_connections g') = length (gw_connections g)"
    and "map ln_session (gw_listeners g') = map ln_session (gw_listeners g)"
    and "\<And>x. x \<in> set (gw_connections g') \<Longrightarrow> \<exists>y \<in> set (gw_connections g). cn_handles x = cn_handles y \<and> cn_session x = cn_session y"
    and "gw_sessions g' \<subseteq>\<^sub>m gw_sessions g"
  shows "refs_ok g'"
proof -
  have len: "length (gw_arcs g') = length (gw_arcs g)" using arg_cong [OF assms(2), of length] by simp
  have ls: "ln_session ` set (gw_listeners g') = ln_session ` set (gw_listeners g)" "length (gw_listeners g') = length (gw_listeners g)"
    using assms(4) by (metis list.set_map, metis length_map)
  show ?thesis
    unfolding refs_ok_def using refs_parts [OF assms(1)] assms(2, 3, 5, 6) len ls
    by (auto simp: map_le_def dom_def) (metis (no_types, lifting) image_eqI image_iff, metis+)
qed

lemma refs_kept:
  assumes "refs_ok g" "identities g' = identities g" "gw_connections g' = gw_connections g"
    and "map ln_session (gw_listeners g') = map ln_session (gw_listeners g)" "gw_sessions g' \<subseteq>\<^sub>m gw_sessions g"
  shows "refs_ok g'"
  by (rule refs_same [OF assms(1, 2) _ assms(4) _ assms(5)]) (use assms(3) in auto)

lemma refs_connection:
  assumes "refs_ok g" "cn_handles (f (conn g c)) = cn_handles (conn g c)" "cn_session (f (conn g c)) = cn_session (conn g c)"
  shows "refs_ok (set_connection c f g)"
proof (rule refs_same [OF assms(1)])
  fix x assume x: "x \<in> set (gw_connections (set_connection c f g))"
  show "\<exists>y \<in> set (gw_connections g). cn_handles x = cn_handles y \<and> cn_session x = cn_session y"
  proof (cases "c < length (gw_connections g)")
    case True
    then have "conn g c \<in> set (gw_connections g)" by simp
    then show ?thesis using x assms(2, 3) set_update_subset_insert [of "gw_connections g" c "f (conn g c)"] by auto
  qed (use x in \<open>auto simp: list_update_beyond\<close>)
qed simp_all

lemma refs_grow:
  assumes "refs_ok g" "identities g' = identities g @ [(sid, uid, c)]" "c < length (gw_connections g)"
    and "gw_connections g' = gw_connections g" "gw_listeners g' = gw_listeners g"
    and "gw_sessions g' = (gw_sessions g)(sid \<mapsto> length (gw_arcs g))"
  shows "refs_ok g'"
proof -
  have len: "length (gw_arcs g') = Suc (length (gw_arcs g))" using arg_cong [OF assms(2), of length] by simp
  have "a < length (gw_arcs g')" if "gw_sessions g' s = Some a" for s a
    using that refs_parts(5) [OF assms(1), of s a] by (auto simp: assms(6) len split: if_splits)
  then show ?thesis
    unfolding refs_ok_def using refs_parts(1-4) [OF assms(1)] assms(3) by (auto simp: assms(2, 4, 5) len less_Suc_eq)
qed

lemma map_sessions_abort: "map ln_session (gw_listeners (abort_listeners ls g)) = map ln_session (gw_listeners g)"
  unfolding abort_listeners_def by (induction ls arbitrary: g) (simp_all add: map_upd_same)

lemma refs_attach:
  assumes "refs_ok g" "c < length (gw_connections g)" "a < length (gw_arcs g)"
  shows "refs_ok (attach c a old uid svs dms g)"
proof -
  let ?h = "abort_listeners old (listening a uid svs dms g)" and ?n = "length (gw_listeners g) + length (listen_subjects uid svs dms)"
  let ?x = "(conn g c)\<lparr>cn_session := Some a, cn_handles := new_handles uid svs dms g\<rparr>"
  have len: "length (gw_listeners ?h) = ?n" by simp
  have "map ln_session (gw_listeners ?h) = map ln_session (gw_listeners g) @ replicate (length (listen_subjects uid svs dms)) a"
    unfolding map_sessions_abort by (rule nth_equalityI) (simp_all add: nth_append subscribe_and_forward_def)
  then have "ln_session ` set (gw_listeners ?h) \<subseteq> insert a (ln_session ` set (gw_listeners g))"
    by (metis (no_types, lifting) Un_insert_right list.set_map set_append set_replicate_conv_if subset_insertI
      sup_bot_right subset_refl)
  then have ls: "\<forall>x \<in> set (gw_listeners ?h). ln_session x < length (gw_arcs g)"
    using refs_parts(2) [OF assms(1)] assms(3) by auto
  have "\<forall>x \<in> set ((gw_connections g)[c := ?x]). (\<forall>l \<in> set (cn_handles x). l < ?n) \<and>
      (\<forall>b. cn_session x = Some b \<longrightarrow> b < length (gw_arcs g))"
    by (rule all_upd) (use refs_parts(3, 4) [OF assms(1)] assms(3) in \<open>auto simp: new_handles_def trans_less_add1\<close>)
  then show ?thesis
    unfolding refs_ok_def attach_def using refs_parts(1, 5) [OF assms(1)] ls by (simp add: len)
qed

lemma refs_close: assumes "refs_ok g" shows "refs_ok (close_connection c n g)"
proof -
  let ?h = "close_channel c n (abort_listeners (cn_handles (conn g c)) g)"
  have h: "refs_ok ?h" "refs_ok (store_session a ?h)" for a
    by (rule refs_kept [OF assms]; simp add: map_sessions_abort identities_def)+
  show ?thesis unfolding close_connection_def Let_def
    by (auto intro!: refs_connection h split: option.split)
qed

lemma refs_leave: assumes "refs_ok g" shows "refs_ok (leave c g)"
proof (cases "cn_session (conn g c)")
  case (Some a)
  let ?h = "snd (remove_session (gs_id (gw_arcs g ! a)) g)"
  have "gw_sessions ?h \<subseteq>\<^sub>m gw_sessions g"
    by (auto simp: remove_session_def take_session_def retain_others_def drop_entry_def Let_def map_le_def split: option.split)
  then have "refs_ok (?h\<lparr>gw_timers := ts\<rparr>)" for ts
    by (intro refs_kept [OF assms]) (simp_all add: identities_def)
  then show ?thesis unfolding leave_def Let_def using Some by (auto intro!: refs_connection)
qed (simp add: leave_def assms)

lemma refs_listen: assumes "refs_ok g" shows "refs_ok (listener_step l g)"
proof -
  have kept: "refs_ok (snd (gcall (buffer_event sid m) g))" "refs_ok (g\<lparr>gw_world := w\<rparr>)" "refs_ok (send c m g)"
    "refs_ok (snd (next_sequence a g))" for sid m w c a
    by (rule refs_kept [OF assms]; simp add: gcall_def split_beta)+
  have listener: "refs_ok (set_listener l f h)" if "refs_ok h" "\<And>x. ln_session (f x) = ln_session x" for f h
    by (rule refs_kept [OF that(1)]) (simp_all add: map_upd_same that(2))
  show ?thesis unfolding listener_step_def Let_def using assms
    by (auto simp: split_beta intro!: listener kept split: listener_phase.split list.split)
qed

interpretation refs: step_contract refs_ok
proof unfold_locales
  fix g :: gateway and upd a assume "refs_ok g" "\<And>s. identity (upd s) = identity s"
  then show "refs_ok (g\<lparr>gw_arcs := (gw_arcs g)[a := upd (gw_arcs g ! a)]\<rparr>)"
    by - (rule refs_kept, assumption, simp_all add: identities_def map_upd_same)
next
  fix g c sid uid n assume "refs_ok g" "reading c g"
  then show "refs_ok (opened sid uid n c g)" by - (rule refs_grow [where c = c and sid = sid and uid = uid and g = g], simp_all add: reading_def)
next
  fix g c sid uid n w assume g: "refs_ok g" "reading c g"
  have "refs_ok (g\<lparr>gw_world := w\<rparr>)" by (rule refs_kept [OF g(1)]) simp_all
  then show "refs_ok (opened sid uid n c (g\<lparr>gw_world := w\<rparr>))"
    by (rule refs_grow [where c = c and sid = sid and uid = uid]) (use g(2) in \<open>simp_all add: reading_def\<close>)
next
  fix g c and f :: "connection \<Rightarrow> connection"
  assume "refs_ok g" "cn_session (f (conn g c)) = cn_session (conn g c)" "cn_handles (f (conn g c)) = cn_handles (conn g c)"
  then show "refs_ok (set_connection c f g)" by (simp add: refs_connection)
next
  fix g assume "just_started g"
  then show "refs_ok g" by (simp add: just_started_def refs_ok_def identities_def)
next
  fix g assume "refs_ok g"
  then show "refs_ok (ws_upgrade g)" by (auto simp: ws_upgrade_def refs_ok_def identities_def Let_def less_SucI)
next
  fix g c ok assume g: "refs_ok g"
  show "refs_ok (sender_step c ok g)"
    by (rule refs_kept [OF g]) (simp_all add: sender_step_def Let_def identities_def split: list.split)
next
  fix g matches assume g: "refs_ok g"
  have "map (ln_session \<circ> (\<lambda>x. if P x then x\<lparr>ln_inbox := ln_inbox x @ [q]\<rparr> else x)) xs = map ln_session xs" for P q xs
    by simp
  then show "refs_ok (deliver_next matches g)"
    by (intro refs_kept [OF g]) (simp_all add: deliver_next_def identities_def split: prod.split)
qed (simp_all add: refs_attach refs_close refs_leave refs_listen reading_def,
  (rule refs_kept, assumption, simp_all add: map_sessions_abort)+)

end
