(* ===== verification/Gateway_Properties.thy ===== *)
theory Gateway_Properties
  imports Gateway_Index Gateway_Listeners Gateway_References Guild_Properties
begin

text \<open>
  What the gateway guarantees, and where it falls short: bounds, the index of sessions, who may listen to what, the
  replay of a resume, and what happens to events of a member who was removed or of a session that is away.
\<close>

section \<open>Bounds and the index of sessions\<close>




section \<open>Who listens to what\<close>

text \<open>The token that a frame presents.\<close>

definition frame_token :: "frame \<Rightarrow> ustr option" where
  "frame_token f =
     (case f of
        Text (Some j) \<Rightarrow>
          (case gateway_deserialize j of
             Inl _ \<Rightarrow> None
           | Inr m \<Rightarrow> Option.bind (gm_d m) (\<lambda>d.
               if gm_op m = Identify then (case de_identify d of Inl _ \<Rightarrow> None | Inr p \<Rightarrow> Some (ip_token p))
               else if gm_op m = Resume then (case de_resume d of Inl _ \<Rightarrow> None | Inr p \<Rightarrow> Some (rp_token p)) else None))
      | _ \<Rightarrow> None)"

definition gained :: "gateway \<Rightarrow> gateway \<Rightarrow> nat \<Rightarrow> snowflake \<Rightarrow> bool" where
  "gained g g' a uid \<longleftrightarrow> gs_user (gw_arcs g' ! a) = uid \<and>
     (\<forall>l. runs g' l \<longrightarrow> ln_session (gw_listeners g' ! l) = a \<longrightarrow>
        ln_subject (gw_listeners g' ! l) \<in> set (listen_subjects uid (gateway_servers uid (w_pg (gw_world g)))
          (gateway_dms uid (w_pg (gw_world g)))))"

lemma gained_attach:
  fixes g G :: gateway
  defines "a \<equiv> length (gw_arcs g)" and "db \<equiv> w_pg (gw_world g)"
  assumes "listeners_ok g" "gw_listeners G = gw_listeners g" "identities G = identities g @ [(sid, uid, c)]"
  shows "gained g (attach c a old uid (gateway_servers uid db) (gateway_dms uid db) G) a uid"
proof -
  let ?n = "length (gw_listeners g)" and ?subs = "listen_subjects uid (gateway_servers uid db) (gateway_dms uid db)"
  let ?g = "attach c a old uid (gateway_servers uid db) (gateway_dms uid db) G"
  have arcs: "gw_arcs ?g = gw_arcs G" by (simp add: attach_def)
  have len: "length (gw_arcs G) = Suc a" using arg_cong [OF assms(5), of length] by (simp add: a_def)
  then have user: "gs_user (gw_arcs ?g ! a) = uid"
    using identity_nth [of a G] assms(5) unfolding arcs by (simp add: a_def nth_append)
  have "ln_subject (gw_listeners ?g ! l) \<in> set ?subs" if r: "runs ?g l" "ln_session (gw_listeners ?g ! l) = a" for l
  proof (cases "l < ?n")
    case True
    then have "runs g l" "ln_session (gw_listeners g ! l) = a"
      using r assms(4) by (auto simp: attach_def runs_def abort_nth nth_append split: if_splits)
    then have False using listeners_parts(1) [OF assms(3), of l] by (auto simp: at_home_def a_def)
    then show ?thesis ..
  next
    case False
    then have "?n \<le> l" "l < ?n + length ?subs" using r(1) assms(4) by (simp_all add: attach_def runs_def)
    then show ?thesis using assms(4) by (simp add: attach_def abort_nth nth_append subscribe_and_forward_def)
  qed
  then show ?thesis using user by (simp add: gained_def db_def)
qed

lemma identify_joins:
  assumes "listeners_ok g" "c < length (gw_connections g)"
    and "cn_session (conn (on_identify ext sid c (Some d) g) c) = Some a" "cn_session (conn g c) \<noteq> Some a"
  shows "\<exists>p uid. de_identify d = Inr p \<and>
    fst (authenticate (gx_decode ext) (gx_secret ext) (ip_token p) (gw_world g)) = Inr uid \<and>
    gained g (on_identify ext sid c (Some d) g) a uid"
proof -
  have ref: "cn_session (conn (refuse c h) c) \<noteq> Some a" "cn_session (conn (break_loop c h) c) \<noteq> Some a"
    if "gw_connections h = gw_connections g" for h
    using that assms(2, 4) by (simp_all add: refuse_def break_loop_def)
  from assms(3) ref obtain p where p: "de_identify d = Inr p" and none: "cn_session (conn g c) = None"
    by (cases "de_identify d") (auto simp: on_identify_def split: if_splits)
  let ?set = "\<lambda>r. set_connection c (\<lambda>x. x\<lparr>cn_session := Some (fst r), cn_handles := snd r\<rparr>)"
  have wp: "gwp (handle_identify (gx_decode ext) (gx_secret ext) sid p c)
      (\<lambda>r g'. gw_connections g' = gw_connections g \<and> (\<exists>uid.
        fst (authenticate (gx_decode ext) (gx_secret ext) (ip_token p) (gw_world g)) = Inr uid \<and> gained g (?set r g') (fst r) uid))
      (\<lambda>g'. gw_connections g' = gw_connections g) g"
  proof (rule gwp_identify)
    fix uid u w0 svs dms w w'
    assume uid: "fst (authenticate (gx_decode ext) (gx_secret ext) (ip_token p) (gw_world g)) = Inr uid"
      and q: "svs = gateway_servers uid (w_pg (gw_world g))" "dms = gateway_dms uid (w_pg (gw_world g))"
    let ?a = "length (gw_arcs g)"
    let ?G = "(numbered ?a c ''READY'' (ready_data u svs dms sid) (opened sid uid 0 c (g\<lparr>gw_world := w\<rparr>)))\<lparr>gw_world := w'\<rparr>"
    have "gained g (attach c ?a [] uid svs dms ?G) ?a uid"
      unfolding q by (rule gained_attach [OF assms(1)]) simp_all
    then have "gained g (?set (?a, new_handles uid svs dms g) ((listening ?a uid svs dms (numbered ?a c ''READY''
        (ready_data u svs dms sid) (opened sid uid 0 c (g\<lparr>gw_world := w\<rparr>))))\<lparr>gw_world := w'\<rparr>)) ?a uid"
      by (simp add: attach_def new_handles_def world_commutes abort_listeners_def)
    then show "gw_connections ((listening ?a uid svs dms (numbered ?a c ''READY'' (ready_data u svs dms sid)
        (opened sid uid 0 c (g\<lparr>gw_world := w\<rparr>))))\<lparr>gw_world := w'\<rparr>) = gw_connections g \<and>
      (\<exists>uid'. fst (authenticate (gx_decode ext) (gx_secret ext) (ip_token p) (gw_world g)) = Inr uid' \<and>
        gained g (?set (?a, new_handles uid svs dms g) ((listening ?a uid svs dms (numbered ?a c ''READY''
        (ready_data u svs dms sid) (opened sid uid 0 c (g\<lparr>gw_world := w\<rparr>))))\<lparr>gw_world := w'\<rparr>))
         (fst (?a, new_handles uid svs dms g)) uid')" using uid by simp
  qed simp
  show ?thesis
  proof (cases "handle_identify (gx_decode ext) (gx_secret ext) sid p c g")
    case (Pair r g')
    show ?thesis
    proof (cases r)
      case (Inl e)
      then have "gw_connections g' = gw_connections g" using gwpD(2) [OF wp] Pair by blast
      then show ?thesis using assms(3) ref(1) [of g'] Pair Inl none p by (simp add: on_identify_def)
    next
      case (Inr x)
      have e: "on_identify ext sid c (Some d) g = ?set x g'"
        using none p Pair Inr by (simp add: on_identify_def split_beta)
      have g': "gw_connections g' = gw_connections g" "\<exists>uid. fst (authenticate (gx_decode ext) (gx_secret ext) (ip_token p)
          (gw_world g)) = Inr uid \<and> gained g (?set x g') (fst x) uid"
        using gwpD(1) [OF wp] Pair Inr by blast+
      then have "fst x = a" using assms(2, 3) unfolding e by simp
      then show ?thesis using g'(2) p unfolding e by blast
    qed
  qed
qed

lemma resume_joins:
  assumes "listeners_ok g" "c < length (gw_connections g)"
    and "cn_session (conn (on_resume ext c (Some d) g) c) = Some a" "cn_session (conn g c) \<noteq> Some a"
  shows "\<exists>p uid. de_resume d = Inr p \<and>
    fst (authenticate (gx_decode ext) (gx_secret ext) (rp_token p) (gw_world g)) = Inr uid \<and>
    gained g (on_resume ext c (Some d) g) a uid"
proof -
  have ref: "cn_session (conn (refuse c h) c) \<noteq> Some a" if "gw_connections h = gw_connections g" for h
    using that assms(2, 4) by (simp add: refuse_def break_loop_def)
  from assms(3) ref obtain p where p: "de_resume d = Inr p"
    by (cases "de_resume d") (auto simp: on_resume_def)
  let ?set = "\<lambda>r h. set_connection c (\<lambda>x. x\<lparr>cn_session := Some (fst r), cn_handles := snd r\<rparr>)
    (abort_listeners (cn_handles (conn h c)) h)"
  let ?sid = "utf8_bytes (rp_session_id p)" and ?n = "rp_sequence p"
  have wp: "gwp (handle_resume (gx_decode ext) (gx_secret ext) p c)
      (\<lambda>r g'. gw_connections g' = gw_connections g \<and> (\<exists>uid.
        fst (authenticate (gx_decode ext) (gx_secret ext) (rp_token p) (gw_world g)) = Inr uid \<and> gained g (?set r g') (fst r) uid))
      (\<lambda>g'. gw_connections g' = gw_connections g) g"
  proof (rule gwp_resume)
    fix uid w w' ms svs dms
    assume uid: "fst (authenticate (gx_decode ext) (gx_secret ext) (rp_token p) (gw_world g)) = Inr uid"
      and q: "svs = gateway_servers uid (w_pg (gw_world g))" "dms = gateway_dms uid (w_pg (gw_world g))"
    let ?a = "length (gw_arcs g)"
    let ?G = "(rejoined ?sid uid ?n c ms w g)\<lparr>gw_world := w'\<rparr>"
    let ?H = "(listening ?a uid svs dms (rejoined ?sid uid ?n c ms w g))\<lparr>gw_world := w'\<rparr>"
    have "gained g (attach c ?a (cn_handles (conn g c)) uid svs dms ?G) ?a uid"
      unfolding q by (rule gained_attach [OF assms(1)]) (simp_all add: rejoined_def)
    then have "gained g (?set (?a, new_handles uid svs dms g) ?H) ?a uid"
      by (simp add: attach_def new_handles_def world_commutes rejoined_def)
    then show "gw_connections ?H = gw_connections g \<and>
      (\<exists>uid'. fst (authenticate (gx_decode ext) (gx_secret ext) (rp_token p) (gw_world g)) = Inr uid' \<and>
        gained g (?set (?a, new_handles uid svs dms g) ?H) (fst (?a, new_handles uid svs dms g)) uid')"
      using uid by (simp add: rejoined_def)
  qed (simp_all add: rejoined_def)
  show ?thesis
  proof (cases "handle_resume (gx_decode ext) (gx_secret ext) p c g")
    case (Pair r g')
    show ?thesis
    proof (cases r)
      case (Inl e)
      then have "gw_connections g' = gw_connections g" using gwpD(2) [OF wp] Pair by blast
      then show ?thesis using assms(3) ref [of g'] Pair Inl p by (simp add: on_resume_def)
    next
      case (Inr x)
      have e: "on_resume ext c (Some d) g = ?set x g'"
        using p Pair Inr by (simp add: on_resume_def split_beta)
      have g': "gw_connections g' = gw_connections g" "\<exists>uid. fst (authenticate (gx_decode ext) (gx_secret ext) (rp_token p)
          (gw_world g)) = Inr uid \<and> gained g (?set x g') (fst x) uid"
        using gwpD(1) [OF wp] Pair Inr by blast+
      then have "fst x = a" using assms(2, 3) unfolding e by simp
      then show ?thesis using g'(2) p unfolding e by blast
    qed
  qed
qed

lemma gained_same: "gw_arcs g = gw_arcs h \<Longrightarrow> gw_world g = gw_world h \<Longrightarrow> gained g g' a uid = gained h g' a uid"
  by (simp add: gained_def)

text \<open>C27: A connection gets a session only by presenting an access token: the frame that gives it one carries a token that
  verifies, the session belongs to the user the token names, and every running listener of the session subscribes to a
  subject of that user, of a server the user is a member of or of a conversation the user takes part in.\<close>

theorem only_token_owner_listens:
  assumes "reach just_started (gateway_step ext matches) g" "reading c g"
    and "cn_session (conn (handle_frame ext sid c f g) c) = Some a" "cn_session (conn g c) \<noteq> Some a"
  shows "\<exists>token uid. frame_token f = Some token \<and>
    fst (authenticate (gx_decode ext) (gx_secret ext) token (gw_world g)) = Inr uid \<and>
    gained g (handle_frame ext sid c f g) a uid"
proof -
  let ?g0 = "set_connection c (\<lambda>x. x\<lparr>cn_idle_since := w_now (gw_world g)\<rparr>) g"
  let ?g1 = "set_connection c (count_command (w_now (gw_world g))) ?g0"
  have c: "c < length (gw_connections g)" using assms(2) by (simp add: reading_def)
  have ok: "listeners_ok g" by (rule listeners.machine.reach_inv [OF assms(1)])
  have cnt: "cn_session (count_command n x) = cn_session x" "cn_handles (count_command n x) = cn_handles x"
    "cn_phase (count_command n x) = cn_phase x" for n x by (simp_all add: count_command_def)
  have ok0: "listeners_ok ?g0" by (rule listeners_connection [OF ok c]) (use assms(2) in \<open>simp_all add: reading_def\<close>)
  have ok1: "listeners_ok ?g1"
    by (rule listeners_connection [OF ok0]) (use assms(2) c in \<open>simp_all add: cnt reading_def\<close>)
  have idle: "cn_session (conn ?g1 c) = cn_session (conn g c)" "c < length (gw_connections ?g1)" using c by (simp_all add: cnt)
  have ref: "cn_session (conn (refuse c h) c) = cn_session (conn h c)" "cn_session (conn (break_loop c h) c) = cn_session (conn h c)"
    if "c < length (gw_connections h)" for h
    using that by (simp_all add: refuse_def break_loop_def)
  have other: "cn_session (conn (handle_heartbeat c ?g1) c) = cn_session (conn g c)"
    "cn_session (conn (on_presence ext c dd ?g1) c) = cn_session (conn g c)" for dd
    using idle by (auto simp: handle_heartbeat_def on_presence_def gcall_def Let_def split: option.split prod.split)
  have w: "gained g h a uid = gained ?g1 h a uid" "gw_world ?g1 = gw_world g" for h uid by (simp_all add: gained_def)
  obtain body where b: "f = Text body"
    using assms(3, 4) ref [of ?g0] c by (cases f) (auto simp: handle_frame_def Let_def)
  obtain j where f: "f = Text (Some j)"
    using assms(3, 4) ref [of ?g1] idle unfolding b
    by (cases body) (auto simp: handle_frame_def handle_text_def Let_def split: if_splits)
  obtain m where m: "gateway_deserialize j = Inr m" and h: "handle_frame ext sid c f g = handle_message ext sid c m ?g1"
    using assms(3, 4) ref [of ?g1] idle
    by (cases "gateway_deserialize j") (auto simp: f handle_frame_def handle_text_def Let_def split: if_splits)
  have none: "cn_session (conn (on_identify ext sid c None ?g1) c) = cn_session (conn g c)"
    "cn_session (conn (on_resume ext c None ?g1) c) = cn_session (conn g c)"
    using ref [of ?g1] idle by (simp_all add: on_identify_def on_resume_def)
  consider d where "gm_op m = Identify" "gm_d m = Some d" | d where "gm_op m = Resume" "gm_d m = Some d"
    using assms(3, 4) none other idle unfolding h handle_message_def
    by (cases "gm_op m"; cases "gm_d m") auto
  then show ?thesis
  proof cases
    case (1 d)
    then have e: "handle_frame ext sid c f g = on_identify ext sid c (Some d) ?g1" by (simp add: h handle_message_def)
    have "\<exists>p uid. de_identify d = Inr p \<and> fst (authenticate (gx_decode ext) (gx_secret ext) (ip_token p) (gw_world ?g1)) = Inr uid \<and>
        gained ?g1 (on_identify ext sid c (Some d) ?g1) a uid"
      by (rule identify_joins [OF ok1 idle(2)]) (use assms(3, 4) idle(1) e in simp_all)
    then show ?thesis using 1 m unfolding e w by (fastforce simp: f frame_token_def)
  next
    case (2 d)
    then have e: "handle_frame ext sid c f g = on_resume ext c (Some d) ?g1" by (simp add: h handle_message_def)
    have "\<exists>p uid. de_resume d = Inr p \<and> fst (authenticate (gx_decode ext) (gx_secret ext) (rp_token p) (gw_world ?g1)) = Inr uid \<and>
        gained ?g1 (on_resume ext c (Some d) ?g1) a uid"
      by (rule resume_joins [OF ok1 idle(2)]) (use assms(3, 4) idle(1) e in simp_all)
    then show ?thesis using 2 m unfolding e w by (fastforce simp: f frame_token_def)
  qed
qed

section \<open>Events while the client is away\<close>

text \<open>Nothing a frame does adds to the buffer of a session.\<close>

definition buffer_is :: "string \<Rightarrow> (redis_value \<times> int option) option \<Rightarrow> gateway \<Rightarrow> bool" where
  "buffer_is sid x g \<longleftrightarrow> w_redis (gw_world g) (events_key sid) = x \<or> w_redis (gw_world g) (events_key sid) = None"

lemma buffer_cong: "gw_world g' = gw_world g \<Longrightarrow> buffer_is sid x g' = buffer_is sid x g"
  by (simp add: buffer_is_def)

lemma buffer_shrink:
  assumes "buffer_is sid x g" "shrinks (gw_world g) w" shows "buffer_is sid x (g\<lparr>gw_world := w\<rparr>)"
proof -
  have "w_redis w (events_key sid) = w_redis (gw_world g) (events_key sid) \<or> w_redis w (events_key sid) = None"
    by (rule assms(2) [unfolded shrinks_def, rule_format, OF gateway_keys(2)])
  then show ?thesis using assms(1) by (auto simp: buffer_is_def)
qed

interpretation buffer: frame_contract "buffer_is sid x" for sid x
proof unfold_locales
  show "buffer_is sid x g \<Longrightarrow> shrinks (gw_world g) w \<Longrightarrow> buffer_is sid x (g\<lparr>gw_world := w\<rparr>)" for g w
    by (rule buffer_shrink)
  fix g sid' w uid n c assume "buffer_is sid x g" "deletes (session_key sid') (gw_world g) w"
  then have "buffer_is sid x (g\<lparr>gw_world := w\<rparr>)" by (intro buffer_shrink shrinksI(2))
  then show "buffer_is sid x (opened sid' uid n c (g\<lparr>gw_world := w\<rparr>))" by (simp add: buffer_is_def)
qed (simp_all add: buffer_is_def attach_def)

lemma buffer_event_others:
  "sid \<noteq> other \<Longrightarrow> w_redis (snd (buffer_event other m w)) (events_key sid) = w_redis w (events_key sid)"
proof (cases "gm_op m = Dispatch")
  case True
  assume ne: "sid \<noteq> other"
  obtain r w' where e: "or_else () (redis_call (cmd_pipe [cmd_rpush (events_key other) (gateway_serialize m),
      cmd_ltrim_last (events_key other) 1000, cmd_expire (events_key other) SESSION_BUFFER_TTL])) w = (r, w')" by fastforce
  then have "w_redis w' (events_key sid) = w_redis w (events_key sid)"
    by (cases rule: or_else_cases) (use ne in \<open>auto simp: cmd_pipe_def cmd_rpush_def cmd_ltrim_last_def cmd_expire_def
      split: option.splits redis_value.splits prod.splits\<close>)
  with True e show ?thesis by (simp add: buffer_event_def)
qed (simp add: buffer_event_def ret_def)

text \<open>Every connection that had the session is gone, or has stored it.\<close>

definition away :: "string \<Rightarrow> gateway \<Rightarrow> bool" where
  "away sid g \<longleftrightarrow> (\<forall>s \<in> set (gw_arcs g). gs_id s = sid \<longrightarrow> cn_phase (conn g (gs_sender s)) \<in> {Stored, Gone})"

lemma away_not_running:
  assumes "listeners_ok g" "away sid g" "l < length (gw_listeners g)" "ln_phase (gw_listeners g ! l) \<noteq> Stopped"
  shows "gs_id (gw_arcs g ! ln_session (gw_listeners g ! l)) \<noteq> sid"
proof
  assume eq: "gs_id (gw_arcs g ! ln_session (gw_listeners g ! l)) = sid"
  have "at_home g l" using assms listeners_parts(1) by (simp add: runs_def)
  then have "ln_session (gw_listeners g ! l) < length (gw_arcs g)" "cn_phase (conn g (home g l)) \<in> {Reading, Closing}"
    by (simp_all add: at_home_def)
  moreover from this(1) have "home g l = gs_sender (gw_arcs g ! ln_session (gw_listeners g ! l))"
    by (simp add: home_def identity_nth)
  ultimately show False using assms(2) eq nth_mem by (fastforce simp: away_def)
qed

text \<open>C38: While the connections of a session are away, no step adds an event to its buffer: the buffer stays or goes. So a
  resume never replays an event that was published while the client was disconnected, which is what the buffer is for.\<close>

theorem nothing_buffered_while_away:
  assumes "reach just_started (gateway_step ext matches) g" "away sid g" "gateway_step ext matches g g'"
  shows "w_redis (gw_world g') (events_key sid) \<in> {w_redis (gw_world g) (events_key sid), None}"
proof -
  have ok: "listeners_ok g" by (rule listeners.machine.reach_inv [OF assms(1)])
  let ?x = "w_redis (gw_world g) (events_key sid)"
  have I: "buffer_is sid ?x g" by (simp add: buffer_is_def)
  from assms(3) have "buffer_is sid ?x g'"
  proof cases
    case (gs_frame c sid' f)
    then show ?thesis using buffer.keep_frame [OF I] by (simp add: reading_def)
  next
    case (gs_close c n)
    have "w_redis (gw_world (store_session a h)) (events_key sid) = w_redis (gw_world h) (events_key sid)" for a h
      using store_session_redis [of a h] by auto
    then show ?thesis using I gs_close by (simp add: buffer_is_def close_connection_def Let_def split: option.split)
  next
    case (gs_timer before t uid after)
    have "quiet (publish (user_presence_subject uid) (simple_presence_event uid ''offline''))" by (rule quiet_calls)
    moreover have "buffer_is sid ?x (g\<lparr>gw_timers := before @ after\<rparr>)" using I by (simp add: buffer_is_def)
    ultimately show ?thesis unfolding gs_timer(1) go_offline_def by (auto intro: buffer.keep_quiet)
  next
    case (gs_listen l)
    let ?s = "gw_arcs g ! ln_session (gw_listeners g ! l)"
    have "w_redis (snd (buffer_event (gs_id ?s) m (gw_world g))) (events_key sid) = ?x"
      if "ln_phase (gw_listeners g ! l) = Numbered m" for m
      using away_not_running [OF ok assms(2) gs_listen(2)] that by (intro buffer_event_others) auto
    then show ?thesis unfolding gs_listen(1)
      by (auto simp: buffer_is_def listener_step_def Let_def split_beta gcall_def split: listener_phase.split list.split)
  next
    case (gs_world w)
    then show ?thesis by (simp add: buffer_is_def world_moves_def same_keys_def)
  qed (use I in \<open>auto simp: buffer_is_def ws_upgrade_def break_loop_def leave_def sender_step_def deliver_next_def Let_def
      split: option.split list.split prod.split\<close>)
  then show ?thesis by (simp add: buffer_is_def)
qed

section \<open>Events reach the socket\<close>

text \<open>A listener that waits for a subject, for a session whose connection still has an open channel.\<close>

definition waits :: "gateway \<Rightarrow> nat \<Rightarrow> string \<Rightarrow> bool" where
  "waits g l subject \<longleftrightarrow> l < length (gw_listeners g) \<and> ln_phase (gw_listeners g ! l) = Waiting \<and>
     ln_inbox (gw_listeners g ! l) = [] \<and> ln_subject (gw_listeners g ! l) = subject"

definition channel_of :: "gateway \<Rightarrow> nat \<Rightarrow> nat" where
  "channel_of g l = gs_sender (gw_arcs g ! ln_session (gw_listeners g ! l))"

definition channel_open :: "nat \<Rightarrow> gateway \<Rightarrow> bool" where
  "channel_open c g \<longleftrightarrow> c < length (gw_connections g) \<and> c < length (gw_out g) \<and> \<not> ob_closed (gw_out g ! c)"

definition live :: "gateway \<Rightarrow> nat \<Rightarrow> string \<Rightarrow> nat \<Rightarrow> bool" where
  "live g l pattern c \<longleftrightarrow> waits g l pattern \<and> ln_session (gw_listeners g ! l) < length (gw_arcs g) \<and> channel_of g l = c \<and>
     channel_open c g"

definition on_wire :: "nat \<Rightarrow> json \<Rightarrow> gateway \<Rightarrow> bool" where
  "on_wire c payload g \<longleftrightarrow> (\<exists>n. dispatch (event_type payload) n payload \<in> set (ob_wire (gw_out g ! c)))"

abbreviation steps :: "gateway_external \<Rightarrow> (string \<Rightarrow> string \<Rightarrow> bool) \<Rightarrow> gateway \<Rightarrow> gateway \<Rightarrow> bool" where
  "steps ext matches \<equiv> (gateway_step ext matches)\<^sup>*\<^sup>*"

definition drained :: "nat \<Rightarrow> gateway \<Rightarrow> gateway" where
  "drained c g = g\<lparr>gw_out := (gw_out g)[c := (gw_out g ! c)\<lparr>ob_queue := [],
     ob_wire := ob_wire (gw_out g ! c) @ ob_queue (gw_out g ! c)\<rparr>]\<rparr>"

lemma drained_fields [simp]:
  "gw_world (drained c g) = gw_world g" "gw_arcs (drained c g) = gw_arcs g" "gw_listeners (drained c g) = gw_listeners g"
  "gw_connections (drained c g) = gw_connections g" "gw_delivered (drained c g) = gw_delivered g"
  "length (gw_out (drained c g)) = length (gw_out g)"
  by (simp_all add: drained_def)

lemma queue_same: "ob_queue b = [] \<Longrightarrow> b\<lparr>ob_queue := []\<rparr> = b"
  by (cases b) simp

lemma buffer_published: "w_published (snd (buffer_event sid m w)) = w_published w"
proof -
  have "w_published (snd (next_call v)) = w_published v" for v by (simp add: next_call_def split: list.split)
  then have "w_published (snd (redis_call cmd w)) = w_published w" for cmd :: "unit redis_cmd"
    by (simp add: redis_call_def split_beta Let_def split: call_outcome.split sum.split)
  then have "w_published (snd (or_else () (redis_call cmd) w)) = w_published w" for cmd :: "unit redis_cmd"
    unfolding or_else_def by (auto split: prod.split sum.split) (metis snd_conv)+
  then show ?thesis by (simp add: buffer_event_def ret_def)
qed

text \<open>The sender task writes what is queued.\<close>

lemma drain: "channel_open c g \<Longrightarrow> steps ext matches g (drained c g)"
proof (induction "ob_queue (gw_out g ! c)" arbitrary: g)
  case Nil
  then have "drained c g = g" by (simp add: drained_def queue_same)
  then show ?case by simp
next
  case (Cons m ms)
  let ?h = "sender_step c True g"
  have h: "?h = g\<lparr>gw_out := (gw_out g)[c := (gw_out g ! c)\<lparr>ob_queue := ms, ob_wire := ob_wire (gw_out g ! c) @ [m]\<rparr>]\<rparr>"
    using Cons.prems Cons.hyps(2) [symmetric] by (simp add: sender_step_def Let_def channel_open_def)
  have "steps ext matches ?h (drained c ?h)"
    by (rule Cons.hyps(1)) (use Cons.prems in \<open>simp_all add: h channel_open_def\<close>)
  moreover have "gateway_step ext matches g ?h" by (rule gateway_step.gs_send) (use Cons.prems in \<open>simp add: channel_open_def\<close>)
  moreover have "drained c ?h = drained c g"
    using Cons.prems Cons.hyps(2) [symmetric] by (simp add: h drained_def channel_open_def)
  ultimately show ?case by (metis converse_rtranclp_into_rtranclp)
qed

text \<open>A listener with one message in its inbox and room in the channel passes it on in three turns.\<close>

lemma passed_on:
  assumes l: "l < length (gw_listeners g)" "ln_phase (gw_listeners g ! l) = Waiting" "ln_inbox (gw_listeners g ! l) = [payload]"
    and a: "ln_session (gw_listeners g ! l) < length (gw_arcs g)" and c: "channel_of g l = c" "channel_open c g"
    and room: "ob_queue (gw_out g ! c) = []"
  shows "\<exists>g'. steps ext matches g g' \<and> live g' l (ln_subject (gw_listeners g ! l)) c \<and> gw_delivered g' = gw_delivered g \<and>
    w_published (gw_world g') = w_published (gw_world g) \<and>
    set (ob_wire (gw_out g ! c)) \<subseteq> set (ob_wire (gw_out g' ! c)) \<and> on_wire c payload g'"
proof -
  let ?a = "ln_session (gw_listeners g ! l)" and ?n = "gs_sequence (gw_arcs g ! ln_session (gw_listeners g ! l)) + 1"
  let ?d = "dispatch (event_type payload) ?n payload" and ?s = "gw_arcs g ! ln_session (gw_listeners g ! l)"
  let ?g2 = "listener_step l g"
  have g2: "gw_listeners ?g2 ! l = (gw_listeners g ! l)\<lparr>ln_inbox := [], ln_phase := Numbered ?d\<rparr>"
    "gw_arcs ?g2 = (gw_arcs g)[?a := ?s\<lparr>gs_sequence := ?n\<rparr>]" "gw_out ?g2 = gw_out g" "gw_world ?g2 = gw_world g"
    "gw_connections ?g2 = gw_connections g" "length (gw_listeners ?g2) = length (gw_listeners g)" "gw_delivered ?g2 = gw_delivered g"
    using l by (simp_all add: listener_step_def next_sequence_def Let_def set_listener_def)
  let ?g3 = "listener_step l ?g2"
  have g3: "gw_listeners ?g3 ! l = (gw_listeners g ! l)\<lparr>ln_inbox := [], ln_phase := Buffered ?d\<rparr>" "gw_arcs ?g3 = gw_arcs ?g2"
    "gw_out ?g3 = gw_out g" "gw_connections ?g3 = gw_connections g" "length (gw_listeners ?g3) = length (gw_listeners g)"
    "gw_delivered ?g3 = gw_delivered g" "w_published (gw_world ?g3) = w_published (gw_world g)"
    using l(1) g2 by (simp_all add: listener_step_def Let_def gcall_def split_beta set_listener_def buffer_published)
  let ?g4 = "listener_step l ?g3"
  have send: "gs_sender (gw_arcs ?g3 ! ?a) = c" using a c(1) by (simp add: g3(2) g2(2) channel_of_def)
  have g4: "gw_out ?g4 = (gw_out g)[c := (gw_out g ! c)\<lparr>ob_queue := [?d]\<rparr>]" "gw_connections ?g4 = gw_connections g"
    "gw_listeners ?g4 ! l = (gw_listeners g ! l)\<lparr>ln_inbox := [], ln_phase := Waiting\<rparr>" "gw_arcs ?g4 = gw_arcs ?g2"
    "length (gw_listeners ?g4) = length (gw_listeners g)" "gw_delivered ?g4 = gw_delivered g"
    "w_published (gw_world ?g4) = w_published (gw_world g)"
    using l(1) g3 send room c(2) by (simp_all add: listener_step_def Let_def try_send_def set_listener_def channel_open_def gateway_constants)
  have st: "gateway_step ext matches g ?g2" "gateway_step ext matches ?g2 ?g3" "gateway_step ext matches ?g3 ?g4"
    using l(1) g2(6) g3(5) by (simp_all add: gateway_step.gs_listen)
  have o4: "channel_open c ?g4" using c(2) by (simp add: channel_open_def g4)
  let ?g5 = "drained c ?g4"
  have "steps ext matches g ?g5"
    using st drain [OF o4, of ext matches] by (meson converse_rtranclp_into_rtranclp)
  moreover have "live ?g5 l (ln_subject (gw_listeners g ! l)) c"
    using l a c o4 by (simp add: live_def waits_def g4 g2(2) channel_of_def channel_open_def) (simp add: drained_def g4)
  moreover have "ob_wire (gw_out ?g5 ! c) = ob_wire (gw_out g ! c) @ [?d]"
    using c(2) by (simp add: drained_def g4(1) channel_open_def)
  ultimately show ?thesis using g4 by (intro exI [of _ ?g5]) (auto simp: on_wire_def)
qed

text \<open>Every message that NATS delivers leaves the listener waiting, and a matching one is on the socket.\<close>

lemma next_delivered:
  assumes live: "live g l pattern c"
    and p: "gw_delivered g < length (w_published (gw_world g))" "w_published (gw_world g) ! gw_delivered g = (subject, payload)"
  shows "\<exists>g'. steps ext matches g g' \<and> live g' l pattern c \<and> gw_delivered g' = Suc (gw_delivered g) \<and>
    w_published (gw_world g') = w_published (gw_world g) \<and>
    set (ob_wire (gw_out g ! c)) \<subseteq> set (ob_wire (gw_out g' ! c)) \<and> (matches pattern subject \<longrightarrow> on_wire c payload g')"
proof -
  have l: "l < length (gw_listeners g)" "ln_phase (gw_listeners g ! l) = Waiting" "ln_inbox (gw_listeners g ! l) = []"
    "ln_subject (gw_listeners g ! l) = pattern" "ln_session (gw_listeners g ! l) < length (gw_arcs g)" "channel_of g l = c"
    "channel_open c g" using live by (simp_all add: live_def waits_def)
  let ?g1 = "drained c g" and ?g2 = "deliver_next matches (drained c g)"
  have g2: "gw_listeners ?g2 ! l = (if matches pattern subject then (gw_listeners g ! l)\<lparr>ln_inbox := [payload]\<rparr> else gw_listeners g ! l)"
    "gw_arcs ?g2 = gw_arcs g" "gw_out ?g2 = gw_out ?g1" "gw_connections ?g2 = gw_connections g"
    "length (gw_listeners ?g2) = length (gw_listeners g)" "gw_delivered ?g2 = Suc (gw_delivered g)" "gw_world ?g2 = gw_world g"
    using p l(1-4) by (simp_all add: deliver_next_def subscribed_def)
  have out: "gw_out ?g1 ! c = (gw_out g ! c)\<lparr>ob_queue := [], ob_wire := ob_wire (gw_out g ! c) @ ob_queue (gw_out g ! c)\<rparr>"
    using l(7) by (simp add: drained_def channel_open_def)
  have st: "steps ext matches g ?g2"
    using drain [OF l(7), of ext matches] gateway_step.gs_deliver [of ext matches ?g1] by (meson rtranclp.rtrancl_into_rtrancl)
  have open2: "channel_open c ?g2" using l(7) by (simp add: channel_open_def g2 out)
  show ?thesis
  proof (cases "matches pattern subject")
    case True
    have "\<exists>g'. steps ext matches ?g2 g' \<and> live g' l (ln_subject (gw_listeners ?g2 ! l)) c \<and> gw_delivered g' = gw_delivered ?g2 \<and>
        w_published (gw_world g') = w_published (gw_world ?g2) \<and>
        set (ob_wire (gw_out ?g2 ! c)) \<subseteq> set (ob_wire (gw_out g' ! c)) \<and> on_wire c payload g'"
      by (rule passed_on) (use l True open2 in \<open>simp_all add: g2 out channel_of_def\<close>)
    then obtain g' where "steps ext matches ?g2 g'" "live g' l pattern c" "gw_delivered g' = Suc (gw_delivered g)"
      "w_published (gw_world g') = w_published (gw_world g)" "set (ob_wire (gw_out ?g2 ! c)) \<subseteq> set (ob_wire (gw_out g' ! c))"
      "on_wire c payload g'" using l(4) True by (auto simp: g2)
    moreover have "set (ob_wire (gw_out g ! c)) \<subseteq> set (ob_wire (gw_out ?g2 ! c))" by (simp add: g2 out)
    ultimately show ?thesis using st by (meson rtranclp_trans order_trans)
  next
    case False
    have "live ?g2 l pattern c" using l open2 False by (simp add: live_def waits_def g2 channel_of_def)
    moreover have "set (ob_wire (gw_out g ! c)) \<subseteq> set (ob_wire (gw_out ?g2 ! c))" by (simp add: g2 out)
    ultimately show ?thesis using st False g2(6, 7) by (intro exI [of _ ?g2]) simp
  qed
qed

lemma eventually_delivered:
  assumes "live g l pattern c" "gw_delivered g \<le> i" "i < length (w_published (gw_world g))"
    and "w_published (gw_world g) ! i = (subject, payload)" "matches pattern subject"
  shows "\<exists>g'. steps ext matches g g' \<and> on_wire c payload g'"
  using assms
proof (induction "i - gw_delivered g" arbitrary: g)
  case 0
  then have "gw_delivered g = i" by simp
  then show ?case using next_delivered [OF 0(2), of subject payload ext matches] 0 by blast
next
  case (Suc d)
  then have lt: "gw_delivered g < length (w_published (gw_world g))" by simp
  obtain s q where sq: "w_published (gw_world g) ! gw_delivered g = (s, q)" by fastforce
  from next_delivered [OF Suc.prems(1) lt sq, of ext matches] obtain g' where g': "steps ext matches g g'" "live g' l pattern c"
    "gw_delivered g' = Suc (gw_delivered g)" "w_published (gw_world g') = w_published (gw_world g)" by blast
  have "\<exists>h. steps ext matches g' h \<and> on_wire c payload h"
    by (rule Suc.hyps(1)) (use Suc g' in simp_all)
  then show ?case using g'(1) by (meson rtranclp_trans)
qed

lemma reached_live:
  assumes "reach just_started (gateway_step ext matches) g" "waits g l pattern" "channel_open (channel_of g l) g"
  shows "live g l pattern (channel_of g l)"
proof -
  have "runs g l" using assms(2) by (simp add: runs_def waits_def)
  then have "ln_session (gw_listeners g ! l) < length (gw_arcs g)"
    using listeners_parts(1) [OF listeners.machine.reach_inv [OF assms(1)]] by (simp add: at_home_def)
  then show ?thesis using assms by (simp add: live_def)
qed

text \<open>C28: Every event can be delivered: when a listener waits and the channel of its connection is open, then for each event
  published but not handed out yet whose subject matches, the tasks have a run that writes it to the socket, whatever was
  published before it and however full the channel is.\<close>

theorem event_reaches_socket:
  assumes "reach just_started (gateway_step ext matches) g" "waits g l pattern" "channel_open (channel_of g l) g"
    and "gw_delivered g \<le> i" "i < length (w_published (gw_world g))"
    and "w_published (gw_world g) ! i = (subject, payload)" "matches pattern subject"
  shows "\<exists>g'. steps ext matches g g' \<and> on_wire (channel_of g l) payload g'"
  using eventually_delivered [OF reached_live [OF assms(1-3)] assms(4, 5)] assms(6, 7) by blast

text \<open>C39: A limit of the code: subscriptions are made once. A member who was kicked from a server is not a member any more,
  and yet what the server publishes after the kick still has a run to the member's socket.\<close>

theorem kicked_member_still_listens:
  assumes "reach just_started (gateway_step ext matches) g" "gs_user (gw_arcs g ! ln_session (gw_listeners g ! l)) = uid"
    and "waits g l pattern" "matches pattern (server_events sid)" "channel_open (channel_of g l) g"
    and "kick_member auth sid uid (gw_world g) = (Inr code, w)" "gw_delivered g \<le> length (w_published w)"
  shows "\<not> is_member sid uid (w_pg w) \<and> (\<exists>g'. on_wire (channel_of g l) payload g' \<and>
    steps ext matches (g\<lparr>gw_world := w\<lparr>w_published := w_published w @ [(server_events sid, payload)]\<rparr>\<rparr>) g')"
proof -
  have "departed sid uid (w_pg (gw_world g)) (w_pg w)"
    using wps_kick_member [of auth sid uid "w_pg (gw_world g)"] assms(6) by (auto simp: wps_def)
  then have "\<not> is_member sid uid (w_pg w)" by (simp add: departed_def)
  moreover let ?g = "g\<lparr>gw_world := w\<lparr>w_published := w_published w @ [(server_events sid, payload)]\<rparr>\<rparr>"
  have "live ?g l pattern (channel_of g l)"
    using reached_live [OF assms(1, 3, 5)] by (simp add: live_def waits_def channel_of_def channel_open_def)
  then have "\<exists>g'. steps ext matches ?g g' \<and> on_wire (channel_of g l) payload g'"
    by (rule eventually_delivered [where i = "length (w_published w)"]) (use assms(4, 7) in simp_all)
  ultimately show ?thesis by blast
qed

section \<open>A resume without failures\<close>

lemma channel_open_updates [simp]:
  "channel_open c (g\<lparr>gw_world := w\<rparr>) = channel_open c g" "channel_open c (g\<lparr>gw_arcs := as\<rparr>) = channel_open c g"
  "channel_open c (g\<lparr>gw_sessions := ss\<rparr>) = channel_open c g" "channel_open c (g\<lparr>gw_user_sessions := us\<rparr>) = channel_open c g"
  "channel_open c (g\<lparr>gw_listeners := ls\<rparr>) = channel_open c g"
  by (auto simp: channel_open_def)

lemma send_room:
  assumes "channel_open c g" "length (ob_queue (gw_out g ! c)) < OUTBOUND_CHANNEL_CAPACITY"
  shows "send c m g = g\<lparr>gw_out := (gw_out g)[c := (gw_out g ! c)\<lparr>ob_queue := ob_queue (gw_out g ! c) @ [m]\<rparr>]\<rparr>"
  using assms by (simp add: try_send_def channel_open_def Let_def)

lemma fold_send:
  assumes "channel_open c g" "length (ob_queue (gw_out g ! c)) + length ms \<le> OUTBOUND_CHANNEL_CAPACITY"
  shows "fold (send c) ms g = g\<lparr>gw_out := (gw_out g)[c := (gw_out g ! c)\<lparr>ob_queue := ob_queue (gw_out g ! c) @ ms\<rparr>]\<rparr>"
  using assms
proof (induction ms arbitrary: g)
  case Nil
  have "(gw_out g ! c)\<lparr>ob_queue := ob_queue (gw_out g ! c)\<rparr> = gw_out g ! c" by (cases "gw_out g ! c") simp
  then show ?case by simp
next
  case (Cons m ms)
  let ?h = "send c m g"
  have h: "?h = g\<lparr>gw_out := (gw_out g)[c := (gw_out g ! c)\<lparr>ob_queue := ob_queue (gw_out g ! c) @ [m]\<rparr>]\<rparr>"
    by (rule send_room) (use Cons.prems in simp_all)
  have "fold (send c) ms ?h = ?h\<lparr>gw_out := (gw_out ?h)[c := (gw_out ?h ! c)\<lparr>ob_queue := ob_queue (gw_out ?h ! c) @ ms\<rparr>]\<rparr>"
    by (rule Cons.IH) (use Cons.prems in \<open>simp_all add: h channel_open_def\<close>)
  then show ?case using Cons.prems(1) by (simp add: h channel_open_def)
qed

text \<open>C29: Resuming: with no failing call, for a stored session of the user the token names, \<open>handle_resume\<close> queues the events
  of the buffer that are newer than the client's sequence, in order, and then \<open>RESUMED\<close>; the session is registered again and
  both keys are gone. The number of \<open>RESUMED\<close> is the client's plus one, whatever was replayed before it.\<close>

theorem resume_replays:
  assumes "calm (gw_world g)" "authenticate decode secret (rp_token p) (gw_world g) = (Inr uid, gw_world g)"
    and "redis_value_at (w_now (gw_world g)) (w_redis (gw_world g)) (session_key (utf8_bytes (rp_session_id p))) = Some (RJson j)"
    and "json_get_str ''user_id'' j = Some (lit (show_u64 uid))"
    and "redis_value_at (w_now (gw_world g)) (w_redis (gw_world g)) (events_key (utf8_bytes (rp_session_id p))) = Some (RList js)"
    and "channel_open c g"
    and "length (ob_queue (gw_out g ! c)) + length (missed_events (rp_sequence p) js) < OUTBOUND_CHANNEL_CAPACITY"
  shows "\<exists>handles g'. handle_resume decode secret p c g = (Inr (length (gw_arcs g), handles), g') \<and>
    ob_queue (gw_out g' ! c) = ob_queue (gw_out g ! c) @ missed_events (rp_sequence p) js @
      [dispatch (lit ''RESUMED'') (rp_sequence p + 1) (JObj [])] \<and>
    find_session (utf8_bytes (rp_session_id p)) g' = Some (length (gw_arcs g)) \<and>
    w_redis (gw_world g') (session_key (utf8_bytes (rp_session_id p))) = None \<and>
    w_redis (gw_world g') (events_key (utf8_bytes (rp_session_id p))) = None"
proof -
  let ?sid = "utf8_bytes (rp_session_id p)" and ?ms = "missed_events (rp_sequence p) js"
  have ev: "redis_value_at n (st(session_key s := None)) (events_key t) = redis_value_at n st (events_key t)" for n st s t
    by (simp add: redis_value_at_def redis_at_def)
  have get: "cmd_get (session_key ?sid) (w_now (gw_world g)) (w_redis (gw_world g)) = Inr (w_redis (gw_world g), Some (RJson j))"
    using assms(3) by (simp add: cmd_get_def)
  have out: "c < length (gw_out g)" using assms(6) by (simp add: channel_open_def)
  show ?thesis
    unfolding handle_resume_def replay_events_def
    using assms(1,2,4,5,6,7) out
    by (simp add: gbind_def gcall_def gret_def gdo_def run get stored_user_def cmd_del_def cmd_lrange_def ev
      open_gateway_session_def register_session_def Let_def fold_send send_room dispatch_numbered_def next_sequence_def
      spawn_nats_listener_def find_session_def del: lit_simps)
      (subst send_room, auto simp: channel_open_def)
qed

section \<open>Removing and registering at the same time\<close>

text \<open>A limit of the code: \<open>remove\<close> drops the entry of a user whose list became empty after it has released the guard of that
  entry. A session of the user that is registered in between stays registered, but no event dispatched to the user reaches
  it.\<close>

theorem removal_races_register:
  assumes "gw_user_sessions g uid = Some [sid]" "a < length (gw_arcs g)" "gs_user (gw_arcs g ! a) = uid"
    and "gw_sessions g sid = Some b" "gs_user (gw_arcs g ! b) = uid" "gs_id (gw_arcs g ! a) \<noteq> sid"
  shows "let g1 = snd (take_session sid g); g2 = snd (retain_others sid uid g1); g3 = register_session a g2; g4 = drop_entry uid g3
    in fst (take_session sid g) = Some b \<and> fst (retain_others sid uid g1) \<and> find_session (gs_id (gw_arcs g ! a)) g4 = Some a \<and>
      user_list g4 uid = [] \<and> dispatch_to_user uid m g4 = g4"
  using assms by (simp add: take_session_def retain_others_def register_session_def drop_entry_def find_session_def user_list_def
    dispatch_to_user_def unwrap_or_def Let_def)

section \<open>The buffer of a session\<close>

definition buffered :: "string \<Rightarrow> json list \<Rightarrow> world \<Rightarrow> bool" where
  "buffered sid js w \<longleftrightarrow> redis_at (w_now w) (w_redis w) (events_key sid) =
     (if js = [] then None else Some (RList js, Some (w_now w + 1000 * SESSION_BUFFER_TTL)))"

lemma buffer_one:
  assumes "calm w" "buffered sid js w" "gm_op m = Dispatch"
  shows "\<exists>w'. buffer_event sid m w = (Inr (), w') \<and> calm w' \<and>
    buffered sid (drop (length js + 1 - 1000) (js @ [gateway_serialize m])) w'"
proof -
  have "drop (length js + 1 - 1000) (js @ [x]) \<noteq> []" for x :: json by simp
  then show ?thesis
    using assms by (simp add: buffer_event_def run cmd_pipe_def cmd_rpush_def cmd_ltrim_last_def cmd_expire_def redis_at_def
      buffered_def gateway_constants split: if_splits)
qed

lemma buffer_many:
  assumes "calm w" "buffered sid (drop (length xs - 1000) xs) w" "\<forall>m \<in> set es. gm_op m = Dispatch"
  shows "\<exists>w'. for_each (buffer_event sid) es w = (Inr (), w') \<and> calm w' \<and>
    buffered sid (drop (length xs + length es - 1000) (xs @ map gateway_serialize es)) w'"
  using assms
proof (induction es arbitrary: xs w)
  case Nil
  then show ?case by (simp add: run)
next
  case (Cons e es)
  let ?js = "drop (length xs - 1000) xs" and ?xs = "xs @ [gateway_serialize e]"
  obtain w1 where w1: "buffer_event sid e w = (Inr (), w1)" "calm w1"
    "buffered sid (drop (length ?js + 1 - 1000) (?js @ [gateway_serialize e])) w1"
    using buffer_one [OF Cons.prems(1, 2)] Cons.prems(3) by auto
  have "drop (length ?js + 1 - 1000) (?js @ [gateway_serialize e]) = drop (length ?xs - 1000) ?xs"
  proof (cases "length xs \<le> 1000")
    case False
    then have "Suc (length xs - 1000) = length xs - 999" by arith
    then show ?thesis using False by simp
  qed auto
  then have "buffered sid (drop (length ?xs - 1000) ?xs) w1" using w1(3) by simp
  from Cons.IH [OF w1(2) this] Cons.prems(3) show ?case by (simp add: run w1(1))
qed

lemma missed_serialized:
  "missed_events n (map gateway_serialize es) = map read_back (filter (\<lambda>m. case gm_s m of None \<Rightarrow> False | Some k \<Rightarrow> n < k) es)"
  by (induction es) (auto simp: missed_events_def gateway_trip read_back_def split: option.split)

text \<open>C30: What is buffered is what a resume reads: after the events \<open>es\<close> were buffered one by one, \<open>LRANGE\<close> and the filter of
  \<open>replay_events\<close> give back the newer ones among the last 1000, in order and as they were sent.\<close>

theorem buffer_read_back:
  assumes "calm w" "redis_at (w_now w) (w_redis w) (events_key sid) = None" "\<forall>m \<in> set es. gm_op m = Dispatch"
  shows "\<exists>w' js. for_each (buffer_event sid) es w = (Inr (), w') \<and>
    or_else [] (redis_call (cmd_lrange (events_key sid))) w' = (Inr js, w') \<and>
    missed_events n js = map read_back
      (filter (\<lambda>m. case gm_s m of None \<Rightarrow> False | Some k \<Rightarrow> n < k) (drop (length es - 1000) es))"
proof -
  have "buffered sid (drop (length ([] :: json list) - 1000) []) w" using assms(2) by (simp add: buffered_def)
  from buffer_many [OF assms(1) this assms(3)] obtain w' where w': "for_each (buffer_event sid) es w = (Inr (), w')" "calm w'"
    "buffered sid (map gateway_serialize (drop (length es - 1000) es)) w'" by (auto simp: drop_map)
  have "or_else [] (redis_call (cmd_lrange (events_key sid))) w' = (Inr (map gateway_serialize (drop (length es - 1000) es)), w')"
    using w'(2, 3) by (simp add: run cmd_lrange_def redis_value_at_def buffered_def split: if_splits)
  then show ?thesis using w'(1) missed_serialized by blast
qed

end
