(* ===== verification/Gateway_Demo.thy ===== *)
theory Gateway_Demo
  imports Gateway_Properties
begin

text \<open>
  A concrete gateway for the witnesses: account 8, a member of the server \<open>home_id\<close>, connects and identifies.
\<close>

definition crowd_db :: pg_db where
  "crowd_db = home_db\<lparr>members := members home_db @ [\<lparr>mb_server_id = home_id, mb_user_id = 8, mb_nickname = None,
     mb_avatar = None, mb_joined_at = demo_now, mb_disabled_until = None, mb_flags = 0\<rparr>]\<rparr>"

definition gate_claims :: claims where
  "gate_claims = \<lparr>cl_sub = show_u64 8, cl_exp = 2000000000, cl_iat = 1704067200, cl_jti = ''abc'', cl_token_type = Access\<rparr>"

definition gate_ext :: gateway_external where
  "gate_ext = \<lparr>gx_decode = (\<lambda>_ t _. if t = ''abc'' then Some gate_claims else None), gx_secret = ''secret'',
     gx_rfc3339 = (\<lambda>_. lit ''now'')\<rparr>"

text \<open>NATS matches a pattern that ends in \<open>>\<close> by its prefix.\<close>

definition prefix_matches :: "string \<Rightarrow> string \<Rightarrow> bool" where
  "prefix_matches pattern subject \<longleftrightarrow> (let p = butlast pattern in take (length p) subject = p)"

definition idle_gateway :: "world \<Rightarrow> gateway" where
  "idle_gateway w = \<lparr>gw_world = w, gw_arcs = [], gw_sessions = Map.empty, gw_user_sessions = Map.empty, gw_out = [],
     gw_listeners = [], gw_connections = [], gw_timers = [], gw_delivered = 0\<rparr>"

definition identify_frame :: frame where
  "identify_frame = Text (Some (JObj [(''op'', JInt 2), (''d'', JObj [(''token'', jlit ''abc'')])]))"

definition greeted :: gateway where
  "greeted = ws_upgrade (idle_gateway (demo_world crowd_db))"

definition identified :: gateway where
  "identified = handle_frame gate_ext ''s1'' 0 identify_frame greeted"

lemma utf8_abc [simp]: "utf8_bytes (lit ''abc'') = ''abc''"
  by code_simp

lemma gate_token [simp]: "authenticate (gx_decode gate_ext) (gx_secret gate_ext) (lit ''abc'') w = (Inr 8, w)"
  by (simp only: authenticate_def run utf8_abc) (simp add: run verify_token_def gate_ext_def gate_claims_def del: lit_simps)

lemma crowd_servers: "gateway_servers 8 crowd_db = servers home_db" "gateway_dms 8 crowd_db = []"
  "t_find (\<lambda>u. u_id u = 8 \<and> u_deleted_at u = None) (users crowd_db) = Some (demo_user 8)"
  by (simp_all add: gateway_servers_def gateway_dms_def crowd_db_def home_defs t_find_def)

lemma home_text: "show_u64 8 = ''8''" "show_i64 home_id = ''20975616''"
  by (simp_all add: show_u64_def show_i64_def show_nat.simps digit_char_def; code_simp)+

lemma crowd_listens: "listen_subjects 8 (servers home_db) [] = [''user.8.>'', ''server.20975616.>'']"
  by (simp add: listen_subjects_def home_defs home_text)

lemma read_frame: "gateway_deserialize (JObj [(''op'', JInt 2), (''d'', JObj [(''token'', jlit ''abc'')])]) =
    Inr \<lparr>gm_op = Identify, gm_d = Some (JObj [(''token'', jlit ''abc'')]), gm_s = None, gm_t = None\<rparr>"
  "de_identify (JObj [(''token'', jlit ''abc'')]) =
    Inr \<lparr>ip_token = lit ''abc'', ip_properties = None, ip_presence = None, ip_compress = None, ip_large_threshold = None\<rparr>"
  by (simp_all add: gateway_deserialize_def de_identify_def struct_fields_def required_def opcode_deserialize_def de_string_def)

definition online :: json where
  "online = simple_presence_event 8 ''online''"

definition ready :: gateway_message where
  "ready = dispatch (lit ''READY'') 1 (ready_data (demo_user 8) (servers home_db) [] ''s1'')"

lemma identified_eq: "identified = \<lparr>gw_world = (demo_world crowd_db)\<lparr>w_published :=
      [(user_presence_subject 8, online), (server_events home_id, online)]\<rparr>,
    gw_arcs = [\<lparr>gs_id = ''s1'', gs_user = 8, gs_sequence = 1, gs_sender = 0, gs_last_heartbeat = of_int demo_now,
      gs_connected_at = demo_now\<rparr>],
    gw_sessions = [''s1'' \<mapsto> 0], gw_user_sessions = [8 \<mapsto> [''s1'']],
    gw_out = [\<lparr>ob_queue = [ready], ob_closed = False, ob_wire = [hello_message HEARTBEAT_INTERVAL_MS]\<rparr>],
    gw_listeners = [subscribe_and_forward 0 ''user.8.>'', subscribe_and_forward 0 ''server.20975616.>''],
    gw_connections = [\<lparr>cn_session = Some 0, cn_handles = [0, 1], cn_command_count = 1, cn_window_start = demo_now,
      cn_idle_since = demo_now, cn_phase = Reading\<rparr>], gw_timers = [], gw_delivered = 0\<rparr>"
proof -
  have svs: "map sv_id (servers home_db) = [home_id]" by (simp add: home_defs)
  then obtain s where s: "servers home_db = [s]" "sv_id s = home_id" by auto
  show ?thesis
    unfolding identified_def greeted_def identify_frame_def
    by (simp add: handle_frame_def handle_text_def ws_upgrade_def idle_gateway_def Let_def set_connection_def
      count_command_def gateway_constants read_frame handle_message_def on_identify_def del: lit_simps)
      (simp add: handle_identify_def gbind_def gcall_def gret_def gateway_user_def run crowd_servers crowd_listens
        open_gateway_session_def register_session_def dispatch_numbered_def next_sequence_def try_send_def
        spawn_nats_listener_def s online_def ready_def gateway_constants Let_def del: lit_simps,
       simp add: s(1) [symmetric] crowd_listens demo_world_def set_connection_def unwrap_or_def)
qed

section \<open>Witnesses\<close>

text \<open>The run up to the point where the listener of the server has subscribed.\<close>

definition tuned :: gateway where
  "tuned = listener_step 1 identified"

abbreviation "gate_reach \<equiv> reach just_started (gateway_step gate_ext prefix_matches)"

lemma reach_greeted: "gate_reach greeted"
proof -
  have "gate_reach (idle_gateway (demo_world crowd_db))"
    by (rule reach_init) (simp add: just_started_def idle_gateway_def buffers_ok_def demo_world_def)
  then show ?thesis unfolding greeted_def by (rule reach_step) (rule gateway_step.gs_connect)
qed

lemma greeted_facts: "gw_arcs greeted = []" "length (gw_connections greeted) = 1" "conn greeted 0 =
    \<lparr>cn_session = None, cn_handles = [], cn_command_count = 0, cn_window_start = demo_now, cn_idle_since = demo_now,
     cn_phase = Reading\<rparr>" "gw_world greeted = demo_world crowd_db"
  by (simp_all add: greeted_def ws_upgrade_def idle_gateway_def)

lemma reach_identified: "gate_reach identified"
  unfolding identified_def
  by (rule reach_step [OF reach_greeted], rule gateway_step.gs_frame)
    (simp_all add: greeted_facts fresh_session_id_def demo_world_def)

lemma reach_tuned: "gate_reach tuned"
  unfolding tuned_def
  by (rule reach_step [OF reach_identified], rule gateway_step.gs_listen) (simp add: identified_eq)

lemma tuned_eq: "tuned = identified\<lparr>gw_listeners := (gw_listeners identified)[1 := \<lparr>ln_subject = ''server.20975616.>'',
    ln_session = 0, ln_inbox = [], ln_phase = Waiting\<rparr>]\<rparr>"
  by (simp add: tuned_def listener_step_def identified_eq Let_def subscribe_and_forward_def next_call_def demo_world_def
    set_listener_def)

lemma tuned_facts: "waits tuned 1 ''server.20975616.>''" "channel_of tuned 1 = 0" "channel_open (channel_of tuned 1) tuned" "gw_delivered tuned = 0"
  "w_published (gw_world tuned) = [(user_presence_subject 8, online), (server_events home_id, online)]"
  "gs_user (gw_arcs tuned ! ln_session (gw_listeners tuned ! 1)) = 8"
  by (simp_all add: tuned_eq identified_eq waits_def channel_of_def channel_open_def)

lemma home_matches: "prefix_matches ''server.20975616.>'' (server_events home_id)"
  by (simp add: prefix_matches_def server_events_def home_text)




theorem only_token_owner_listens_witness:
  "\<exists>token uid. frame_token identify_frame = Some token \<and>
    fst (authenticate (gx_decode gate_ext) (gx_secret gate_ext) token (gw_world greeted)) = Inr uid \<and>
    gained greeted (handle_frame gate_ext ''s1'' 0 identify_frame greeted) 0 uid"
  by (rule only_token_owner_listens [OF reach_greeted])
    (simp_all add: reading_def greeted_facts identified_def [symmetric], simp add: identified_eq)

theorem event_reaches_socket_witness:
  "\<exists>g'. steps gate_ext prefix_matches tuned g' \<and> on_wire 0 online g'"
proof -
  have "\<exists>g'. steps gate_ext prefix_matches tuned g' \<and> on_wire (channel_of tuned 1) online g'"
    by (rule event_reaches_socket [OF reach_tuned tuned_facts(1, 3) _ _ _ home_matches, of 1])
      (simp_all add: tuned_facts(4, 5))
  then show ?thesis by (simp only: tuned_facts(2))
qed

lemma crowd_facts: "is_owner home_id 7 crowd_db" "\<not> is_owner home_id 8 crowd_db" "is_member home_id 7 crowd_db"
  "is_member home_id 8 crowd_db"
  by (simp_all add: crowd_db_def home_defs row_defs t_has_def)

lemma crowd_may: "may home_id 7 KICK_MEMBERS crowd_db"
  by (simp only: may_def flag_defs) (auto intro!: effective_all crowd_facts)

lemma kick_demo: "fst (kick_member 7 home_id 8 (gw_world tuned)) = Inr 204"
  by (simp only: kick_member_def)
    (simp add: run crowd_facts crowd_may outranks_def tuned_eq identified_eq;
     simp add: crowd_db_def delete_member_def refresh_member_count_def member_total_def stmt_defs home_defs run calm_def)

theorem kicked_member_still_listens_witness:
  "\<not> is_member home_id 8 (w_pg (snd (kick_member 7 home_id 8 (gw_world tuned)))) \<and> (\<exists>g'. on_wire 0 online g' \<and>
    steps gate_ext prefix_matches (tuned\<lparr>gw_world := (snd (kick_member 7 home_id 8 (gw_world tuned)))\<lparr>w_published :=
      w_published (snd (kick_member 7 home_id 8 (gw_world tuned))) @ [(server_events home_id, online)]\<rparr>\<rparr>) g')"
proof -
  have "kick_member 7 home_id 8 (gw_world tuned) = (Inr 204, snd (kick_member 7 home_id 8 (gw_world tuned)))"
    using kick_demo by (metis prod.collapse)
  moreover have "gw_delivered tuned \<le> length (w_published (snd (kick_member 7 home_id 8 (gw_world tuned))))"
    by (simp add: tuned_facts(4))
  ultimately show ?thesis
    using kicked_member_still_listens [OF reach_tuned tuned_facts(6, 1) home_matches tuned_facts(3)]
    unfolding tuned_facts(2) by blast
qed

definition parted :: gateway where
  "parted = close_connection 0 1 (handle_frame gate_ext ''s2'' 0 CloseFrame identified)"

lemma parted_reach: "gate_reach parted" "away ''s1'' parted" "cn_phase (conn parted 0) = Stored"
    "length (gw_connections parted) = 1"
proof -
  have e: "handle_frame gate_ext ''s2'' 0 CloseFrame identified = break_loop 0 identified"
    by (simp add: handle_frame_def identified_eq set_connection_def break_loop_def demo_world_def)
  have "gate_reach (break_loop 0 identified)"
    unfolding e [symmetric] by (rule reach_step [OF reach_identified], rule gateway_step.gs_frame)
      (simp_all add: identified_eq fresh_session_id_def demo_world_def)
  then show "gate_reach parted"
    unfolding parted_def e by (rule reach_step) (rule gateway_step.gs_close, simp_all add: identified_eq break_loop_def)
  have p: "parted = close_connection 0 1 (break_loop 0 identified)" by (simp only: parted_def e)
  show "away ''s1'' parted" "cn_phase (conn parted 0) = Stored" "length (gw_connections parted) = 1"
    unfolding p by (simp_all add: away_def identified_eq close_connection_def break_loop_def Let_def)
qed

theorem nothing_buffered_while_away_witness:
  "w_redis (gw_world (leave 0 parted)) (events_key ''s1'') \<in> {w_redis (gw_world parted) (events_key ''s1''), None}"
  by (rule nothing_buffered_while_away [OF parted_reach(1, 2)], rule gateway_step.gs_leave) (simp_all add: parted_reach)

definition resume_request :: resume_payload where
  "resume_request = \<lparr>rp_token = lit ''abc'', rp_session_id = lit ''s1'', rp_sequence = 1\<rparr>"

definition event_two :: gateway_message where
  "event_two = dispatch (lit ''MESSAGE_CREATE'') 2 (JObj [])"

definition returning :: gateway where
  "returning = ws_upgrade (idle_gateway ((demo_world crowd_db)\<lparr>w_redis :=
     [session_key ''s1'' \<mapsto> (RJson (session_data 8 2), None),
      events_key ''s1'' \<mapsto> (RList [gateway_serialize ready, gateway_serialize event_two], None)]\<rparr>))"

lemma utf8_s1 [simp]: "utf8_bytes (lit ''s1'') = ''s1''"
  by code_simp

lemma missed_demo: "missed_events 1 [gateway_serialize ready, gateway_serialize event_two] = [event_two]"
  by (simp add: missed_events_def gateway_trip read_back_def ready_def event_two_def dispatch_def ready_data_def)

text \<open>The client has seen event 1: event 2 is replayed, and \<open>RESUMED\<close> is number 2 as well.\<close>

theorem resume_replays_witness:
  "\<exists>handles g'. handle_resume (gx_decode gate_ext) (gx_secret gate_ext) resume_request 0 returning = (Inr (0, handles), g') \<and>
    ob_queue (gw_out g' ! 0) = [event_two, dispatch (lit ''RESUMED'') 2 (JObj [])]"
proof -
  have f: "calm (gw_world returning)" "channel_open 0 returning" "ob_queue (gw_out returning ! 0) = []" "gw_arcs returning = []"
    "redis_value_at (w_now (gw_world returning)) (w_redis (gw_world returning)) (session_key (utf8_bytes (rp_session_id resume_request))) =
      Some (RJson (session_data 8 2))"
    "redis_value_at (w_now (gw_world returning)) (w_redis (gw_world returning)) (events_key (utf8_bytes (rp_session_id resume_request))) =
      Some (RList [gateway_serialize ready, gateway_serialize event_two])"
    by (simp_all add: returning_def ws_upgrade_def idle_gateway_def run resume_request_def redis_value_at_def redis_at_def
      channel_open_def del: lit_simps)
  have t: "authenticate (gx_decode gate_ext) (gx_secret gate_ext) (rp_token resume_request) (gw_world returning) = (Inr 8, gw_world returning)"
    by (simp add: resume_request_def del: lit_simps)
  have u: "json_get_str ''user_id'' (session_data 8 2) = Some (lit (show_u64 8))"
    by (simp add: session_data_def json_get_str_def json_get_def del: lit_simps)
  have "length (missed_events (rp_sequence resume_request) [gateway_serialize ready, gateway_serialize event_two]) = 1"
    by (simp add: resume_request_def missed_demo)
  then have "length (ob_queue (gw_out returning ! 0)) +
      length (missed_events (rp_sequence resume_request) [gateway_serialize ready, gateway_serialize event_two]) < OUTBOUND_CHANNEL_CAPACITY"
    by (simp add: f(3) gateway_constants)
  from resume_replays [OF f(1) t f(5) u f(6) f(2) this]
  have "\<exists>handles g'. handle_resume (gx_decode gate_ext) (gx_secret gate_ext) resume_request 0 returning =
      (Inr (length (gw_arcs returning), handles), g') \<and> ob_queue (gw_out g' ! 0) = ob_queue (gw_out returning ! 0) @
      missed_events (rp_sequence resume_request) [gateway_serialize ready, gateway_serialize event_two] @
      [dispatch (lit ''RESUMED'') (rp_sequence resume_request + 1) (JObj [])]" by blast
  moreover have "rp_sequence resume_request = 1" by (simp add: resume_request_def)
  ultimately show ?thesis by (simp add: f(3, 4) missed_demo del: lit_simps)
qed

definition two_sessions :: gateway where
  "two_sessions = identified\<lparr>gw_arcs := gw_arcs identified @ [(gw_arcs identified ! 0)\<lparr>gs_id := ''s2''\<rparr>]\<rparr>"

theorem removal_races_register_witness:
  "let g1 = snd (take_session ''s1'' two_sessions); g2 = snd (retain_others ''s1'' 8 g1); g3 = register_session 1 g2; g4 = drop_entry 8 g3
    in fst (take_session ''s1'' two_sessions) = Some 0 \<and> fst (retain_others ''s1'' 8 g1) \<and>
      find_session (gs_id (gw_arcs two_sessions ! 1)) g4 = Some 1 \<and> user_list g4 8 = [] \<and> dispatch_to_user 8 reconnect g4 = g4"
  by (rule removal_races_register) (simp_all add: two_sessions_def identified_eq)

theorem buffer_read_back_witness:
  "\<exists>w' js. for_each (buffer_event ''s1'') [ready, event_two] (demo_world crowd_db) = (Inr (), w') \<and>
    or_else [] (redis_call (cmd_lrange (events_key ''s1''))) w' = (Inr js, w') \<and> missed_events 1 js = [event_two]"
proof -
  have r: "gm_s ready = Some 1" "gm_s event_two = Some 2" "read_back event_two = event_two" "gm_op ready = Dispatch"
    "gm_op event_two = Dispatch"
    by (simp_all add: ready_def event_two_def dispatch_def read_back_def)
  have "redis_at (w_now (demo_world crowd_db)) (w_redis (demo_world crowd_db)) (events_key ''s1'') = None"
    by (simp add: demo_world_def redis_at_def)
  from buffer_read_back [OF calm_demo this, of "[ready, event_two]" 1] show ?thesis by (simp add: r)
qed

end
