(* ===== verification/Coalescing.thy ===== *)
theory Coalescing
  imports Prelude
begin

text \<open>
  \<open>lumiere-data-services\<close>: the cache in front of the database that lets concurrent callers of one key share one query
  (\<open>cache.rs\<close>, \<open>coalescing.rs\<close>, \<open>redis_cache.rs\<close>). Every call of \<open>DataService::get_or_fetch\<close> is a task; a step is one task
  running between two points where another task can run: the read of Redis, the guard, the two looks at the map, the
  subscription, the fetch, the write to Redis, the broadcast, the removal. A caller may be dropped while it awaits.

  Parameters: the text form of a key, and which values the database may hold for a key. Redis may fail at any call, and an
  entry of the cache may expire at any time.
\<close>

section \<open>State\<close>

datatype data_service_error = RedisFailed string | Serialization string | FetchFailed string | CoalescingFailed

text \<open>
  What a call does next. A channel is a number; a receiver remembers how many values were sent before it subscribed. The
  phases \<open>Lost\<close> and \<open>Holding\<close> are those of a task that found the entry occupied: it holds a clone of the sender.
\<close>

datatype 'v call_phase =
    Looking | Guarding | Calling | Missed
  | Receiving nat nat | Lost nat | Holding nat nat
  | Fetching nat | Writing nat 'v | Fetched nat "string + 'v" | Sent nat 'v | Dropped nat string
  | Finished "data_service_error + 'v" | Cancelled

record ('k, 'v) flight_call =
  fc_key :: 'k
  fc_phase :: "'v call_phase"

text \<open>\<open>fl_in_flight\<close> is the map of requests under way, \<open>fl_channels\<close> the values sent on each channel, \<open>fl_cache\<close> is Redis.\<close>

record ('k, 'v) flight =
  fl_in_flight :: "('k \<times> nat) list"
  fl_channels :: "'v list list"
  fl_calls :: "('k, 'v) flight_call list"
  fl_cache :: "string \<Rightarrow> 'v option"

record 'k data_config =
  dc_prefix :: string
  dc_show_key :: "'k \<Rightarrow> string"
  dc_max_in_flight :: nat

section \<open>Redis\<close>

definition prefixed_key :: "'k data_config \<Rightarrow> string \<Rightarrow> string" where
  "prefixed_key cfg key = dc_prefix cfg @ key"

abbreviation cache_key :: "'k data_config \<Rightarrow> 'k \<Rightarrow> string" where
  "cache_key cfg k \<equiv> prefixed_key cfg (dc_show_key cfg k)"

definition cache_set :: "'k data_config \<Rightarrow> string \<Rightarrow> 'v \<Rightarrow> ('k, 'v) flight \<Rightarrow> ('k, 'v) flight" where
  "cache_set cfg key v s = s\<lparr>fl_cache := (fl_cache s)(prefixed_key cfg key := Some v)\<rparr>"

definition cache_delete :: "'k data_config \<Rightarrow> string \<Rightarrow> ('k, 'v) flight \<Rightarrow> ('k, 'v) flight" where
  "cache_delete cfg key s = s\<lparr>fl_cache := (fl_cache s)(prefixed_key cfg key := None)\<rparr>"

text \<open>One \<open>DEL\<close> of \<open>delete_pattern\<close>: \<open>hit\<close> says which keys of Redis are in its chunk.\<close>

definition cache_delete_pattern :: "(string \<Rightarrow> bool) \<Rightarrow> ('k, 'v) flight \<Rightarrow> ('k, 'v) flight" where
  "cache_delete_pattern hit s = s\<lparr>fl_cache := (\<lambda>k. if hit k then None else fl_cache s k)\<rparr>"

section \<open>The map of requests under way\<close>

definition in_flight_get :: "'k \<Rightarrow> ('k, 'v) flight \<Rightarrow> nat option" where
  "in_flight_get k s = map_of (fl_in_flight s) k"

definition in_flight_insert :: "'k \<Rightarrow> nat \<Rightarrow> ('k, 'v) flight \<Rightarrow> ('k, 'v) flight" where
  "in_flight_insert k ch s = s\<lparr>fl_in_flight := (k, ch) # fl_in_flight s\<rparr>"

definition in_flight_remove :: "'k \<Rightarrow> ('k, 'v) flight \<Rightarrow> ('k, 'v) flight" where
  "in_flight_remove k s = s\<lparr>fl_in_flight := filter (\<lambda>e. fst e \<noteq> k) (fl_in_flight s)\<rparr>"

definition in_flight_count :: "('k, 'v) flight \<Rightarrow> nat" where
  "in_flight_count s = length (fl_in_flight s)"

text \<open>The senders of a channel: the clone in the map, the leader's, and those of tasks that lost the race.\<close>

fun holds_sender :: "'v call_phase \<Rightarrow> nat \<Rightarrow> bool" where
  "holds_sender (Lost ch) c = (c = ch)"
| "holds_sender (Holding ch n) c = (c = ch)"
| "holds_sender (Fetching ch) c = (c = ch)"
| "holds_sender (Writing ch v) c = (c = ch)"
| "holds_sender (Fetched ch r) c = (c = ch)"
| "holds_sender (Sent ch v) c = (c = ch)"
| "holds_sender p c = False"

definition sender_alive :: "nat \<Rightarrow> ('k, 'v) flight \<Rightarrow> bool" where
  "sender_alive ch s \<longleftrightarrow> ch \<in> snd ` set (fl_in_flight s) \<or> (\<exists>c \<in> set (fl_calls s). holds_sender (fc_phase c) ch)"

text \<open>\<open>rx.recv()\<close> of a receiver that subscribed after \<open>n\<close> values: a value, an error when every sender is gone, or it waits.\<close>

definition receive :: "nat \<Rightarrow> nat \<Rightarrow> ('k, 'v) flight \<Rightarrow> (data_service_error + 'v) option" where
  "receive ch n s =
     (if n < length (fl_channels s ! ch) then Some (Inr (fl_channels s ! ch ! n))
      else if \<not> sender_alive ch s then Some (Inl CoalescingFailed) else None)"

section \<open>The steps of a call\<close>

definition set_phase :: "nat \<Rightarrow> 'v call_phase \<Rightarrow> ('k, 'v) flight \<Rightarrow> ('k, 'v) flight" where
  "set_phase t p s = s\<lparr>fl_calls := (fl_calls s)[t := (fl_calls s ! t)\<lparr>fc_phase := p\<rparr>]\<rparr>"

definition open_channel :: "nat \<Rightarrow> 'k \<Rightarrow> ('k, 'v) flight \<Rightarrow> ('k, 'v) flight" where
  "open_channel t k s =
     (let ch = length (fl_channels s)
      in set_phase t (Fetching ch) (in_flight_insert k ch (s\<lparr>fl_channels := fl_channels s @ [[]]\<rparr>)))"

definition broadcast :: "nat \<Rightarrow> 'v \<Rightarrow> ('k, 'v) flight \<Rightarrow> ('k, 'v) flight" where
  "broadcast ch v s = s\<lparr>fl_channels := (fl_channels s)[ch := fl_channels s ! ch @ [v]]\<rparr>"

text \<open>The turns of \<open>DataService::get_or_fetch\<close>: the look into Redis, the guard, and the store of what was fetched.\<close>

definition check_redis :: "'k data_config \<Rightarrow> nat \<Rightarrow> bool \<Rightarrow> ('k, 'v) flight \<Rightarrow> ('k, 'v) flight" where
  "check_redis cfg t ok s =
     (case (ok, fl_cache s (cache_key cfg (fc_key (fl_calls s ! t)))) of
        (True, Some v) \<Rightarrow> set_phase t (Finished (Inr v)) s
      | _ \<Rightarrow> set_phase t Guarding s)"

definition check_limit :: "'k data_config \<Rightarrow> nat \<Rightarrow> ('k, 'v) flight \<Rightarrow> ('k, 'v) flight" where
  "check_limit cfg t s =
     (if dc_max_in_flight cfg > 0 \<and> in_flight_count s \<ge> dc_max_in_flight cfg
      then set_phase t (Finished (Inl (FetchFailed ''too many in-flight requests''))) s
      else set_phase t Calling s)"

definition write_back :: "'k data_config \<Rightarrow> nat \<Rightarrow> bool \<Rightarrow> nat \<Rightarrow> 'v \<Rightarrow> ('k, 'v) flight \<Rightarrow> ('k, 'v) flight" where
  "write_back cfg t ok ch v s =
     set_phase t (Fetched ch (Inr v)) (if ok then cache_set cfg (dc_show_key cfg (fc_key (fl_calls s ! t))) v s else s)"

text \<open>
  A turn of call \<open>t\<close>. \<open>ok\<close> says whether a call of Redis succeeds. The fetch ends by a step of its own.
\<close>

definition advance :: "'k data_config \<Rightarrow> nat \<Rightarrow> bool \<Rightarrow> ('k, 'v) flight \<Rightarrow> ('k, 'v) flight" where
  "advance cfg t ok s =
     (let k = fc_key (fl_calls s ! t)
      in case fc_phase (fl_calls s ! t) of
        Looking \<Rightarrow> check_redis cfg t ok s
      | Guarding \<Rightarrow> check_limit cfg t s
      | Calling \<Rightarrow>
          (case in_flight_get k s of
             Some ch \<Rightarrow> set_phase t (Receiving ch (length (fl_channels s ! ch))) s
           | None \<Rightarrow> set_phase t Missed s)
      | Missed \<Rightarrow>
          (case in_flight_get k s of
             Some ch \<Rightarrow> set_phase t (Lost ch) s
           | None \<Rightarrow> open_channel t k s)
      | Lost ch \<Rightarrow> set_phase t (Holding ch (length (fl_channels s ! ch))) s
      | Receiving ch n \<Rightarrow> (case receive ch n s of None \<Rightarrow> s | Some r \<Rightarrow> set_phase t (Finished r) s)
      | Holding ch n \<Rightarrow> (case receive ch n s of None \<Rightarrow> s | Some r \<Rightarrow> set_phase t (Finished r) s)
      | Writing ch v \<Rightarrow> write_back cfg t ok ch v s
      | Fetched ch (Inr v) \<Rightarrow> set_phase t (Sent ch v) (broadcast ch v s)
      | Fetched ch (Inl e) \<Rightarrow> set_phase t (Dropped ch e) s
      | Sent ch v \<Rightarrow> set_phase t (Finished (Inr v)) (in_flight_remove k s)
      | Dropped ch e \<Rightarrow> set_phase t (Finished (Inl (FetchFailed e))) (in_flight_remove k s)
      | _ \<Rightarrow> s)"

lemmas advance_defs = advance_def check_redis_def check_limit_def write_back_def

definition fetch_done :: "nat \<Rightarrow> string + 'v \<Rightarrow> ('k, 'v) flight \<Rightarrow> ('k, 'v) flight" where
  "fetch_done t r s =
     (case fc_phase (fl_calls s ! t) of
        Fetching ch \<Rightarrow> set_phase t (case r of Inl e \<Rightarrow> Fetched ch (Inl e) | Inr v \<Rightarrow> Writing ch v) s
      | _ \<Rightarrow> s)"

definition get_or_fetch :: "'k \<Rightarrow> ('k, 'v) flight \<Rightarrow> ('k, 'v) flight" where
  "get_or_fetch k s = s\<lparr>fl_calls := fl_calls s @ [\<lparr>fc_key = k, fc_phase = Looking\<rparr>]\<rparr>"

text \<open>A caller can be dropped where it awaits Redis, a receiver or the fetch. Its handles go with it, nothing else.\<close>

fun awaits :: "'v call_phase \<Rightarrow> bool" where
  "awaits Looking = True"
| "awaits (Receiving ch n) = True"
| "awaits (Holding ch n) = True"
| "awaits (Fetching ch) = True"
| "awaits (Writing ch v) = True"
| "awaits p = False"

definition fetching :: "'k \<Rightarrow> nat \<Rightarrow> ('k, 'v) flight \<Rightarrow> bool" where
  "fetching k t s \<longleftrightarrow> t < length (fl_calls s) \<and> fc_key (fl_calls s ! t) = k \<and> (\<exists>ch. fc_phase (fl_calls s ! t) = Fetching ch)"

inductive flight_step :: "'k data_config \<Rightarrow> ('k \<Rightarrow> 'v \<Rightarrow> bool) \<Rightarrow> ('k, 'v) flight \<Rightarrow> ('k, 'v) flight \<Rightarrow> bool"
  for cfg serves where
  fl_call: "flight_step cfg serves s (get_or_fetch k s)"
| fl_advance: "t < length (fl_calls s) \<Longrightarrow> flight_step cfg serves s (advance cfg t ok s)"
| fl_fetched: "t < length (fl_calls s) \<Longrightarrow> \<forall>v. r = Inr v \<longrightarrow> serves (fc_key (fl_calls s ! t)) v \<Longrightarrow>
    flight_step cfg serves s (fetch_done t r s)"
| fl_cancel: "t < length (fl_calls s) \<Longrightarrow> awaits (fc_phase (fl_calls s ! t)) \<Longrightarrow>
    flight_step cfg serves s (set_phase t Cancelled s)"
| fl_invalidate: "flight_step cfg serves s (cache_delete cfg key s)"
| fl_invalidate_pattern: "flight_step cfg serves s (cache_delete_pattern hit s)"

definition flight_start :: "('k, 'v) flight \<Rightarrow> bool" where
  "flight_start s \<longleftrightarrow> fl_in_flight s = [] \<and> fl_channels s = [] \<and> fl_calls s = [] \<and> fl_cache s = Map.empty"

end
