(* ===== verification/Coalescing_Properties.thy ===== *)
theory Coalescing_Properties
  imports Coalescing
begin

text \<open>
  What the coalescing cache guarantees in every interleaving, and two ways in which a caller waits for ever.
\<close>

section \<open>Well-formed states\<close>

fun leads :: "'v call_phase \<Rightarrow> nat option" where
  "leads (Fetching ch) = Some ch"
| "leads (Writing ch v) = Some ch"
| "leads (Fetched ch r) = Some ch"
| "leads (Sent ch v) = Some ch"
| "leads (Dropped ch e) = Some ch"
| "leads p = None"

fun uses :: "'v call_phase \<Rightarrow> nat option" where
  "uses (Receiving ch n) = Some ch"
| "uses (Lost ch) = Some ch"
| "uses (Holding ch n) = Some ch"
| "uses p = leads p"

fun value_of :: "'v call_phase \<Rightarrow> 'v option" where
  "value_of (Writing ch v) = Some v"
| "value_of (Fetched ch (Inr v)) = Some v"
| "value_of (Sent ch v) = Some v"
| "value_of (Finished (Inr v)) = Some v"
| "value_of p = None"

abbreviation phase :: "('k, 'v) flight \<Rightarrow> nat \<Rightarrow> 'v call_phase" where
  "phase s t \<equiv> fc_phase (fl_calls s ! t)"

abbreviation key_of :: "('k, 'v) flight \<Rightarrow> nat \<Rightarrow> 'k" where
  "key_of s t \<equiv> fc_key (fl_calls s ! t)"

abbreviation n_calls :: "('k, 'v) flight \<Rightarrow> nat" where
  "n_calls s \<equiv> length (fl_calls s)"

text \<open>\<open>f\<close> tells for which key a channel was opened.\<close>

definition flight_ok :: "(nat \<Rightarrow> 'k) \<Rightarrow> ('k, 'v) flight \<Rightarrow> bool" where
  "flight_ok f s \<longleftrightarrow> distinct (map fst (fl_in_flight s)) \<and>
     (\<forall>k ch. (k, ch) \<in> set (fl_in_flight s) \<longrightarrow> ch < length (fl_channels s) \<and> f ch = k) \<and>
     (\<forall>t ch. t < n_calls s \<longrightarrow> uses (phase s t) = Some ch \<longrightarrow> ch < length (fl_channels s) \<and> f ch = key_of s t) \<and>
     (\<forall>t ch. t < n_calls s \<longrightarrow> leads (phase s t) = Some ch \<longrightarrow> (key_of s t, ch) \<in> set (fl_in_flight s)) \<and>
     (\<forall>t u ch. t < n_calls s \<longrightarrow> u < n_calls s \<longrightarrow> leads (phase s t) = Some ch \<longrightarrow> leads (phase s u) = Some ch \<longrightarrow> t = u)"

definition values_ok :: "'k data_config \<Rightarrow> ('k \<Rightarrow> 'v \<Rightarrow> bool) \<Rightarrow> (nat \<Rightarrow> 'k) \<Rightarrow> ('k, 'v) flight \<Rightarrow> bool" where
  "values_ok cfg serves f s \<longleftrightarrow>
     (\<forall>ch v. ch < length (fl_channels s) \<longrightarrow> v \<in> set (fl_channels s ! ch) \<longrightarrow> serves (f ch) v) \<and>
     (\<forall>t v. t < n_calls s \<longrightarrow> value_of (phase s t) = Some v \<longrightarrow> serves (key_of s t) v) \<and>
     (\<forall>k v. fl_cache s (cache_key cfg k) = Some v \<longrightarrow> serves k v)"

lemma flight_parts:
  assumes "flight_ok f s"
  shows "distinct (map fst (fl_in_flight s))" "(k, ch) \<in> set (fl_in_flight s) \<Longrightarrow> ch < length (fl_channels s)"
    "(k, ch) \<in> set (fl_in_flight s) \<Longrightarrow> f ch = k"
    "t < n_calls s \<Longrightarrow> uses (phase s t) = Some ch \<Longrightarrow> ch < length (fl_channels s)"
    "t < n_calls s \<Longrightarrow> uses (phase s t) = Some ch \<Longrightarrow> f ch = key_of s t"
    "t < n_calls s \<Longrightarrow> leads (phase s t) = Some ch \<Longrightarrow> (key_of s t, ch) \<in> set (fl_in_flight s)"
    "t < n_calls s \<Longrightarrow> u < n_calls s \<Longrightarrow> leads (phase s t) = Some ch \<Longrightarrow> leads (phase s u) = Some ch \<Longrightarrow> t = u"
  using assms unfolding flight_ok_def by blast+

lemma leads_uses: "leads p = Some ch \<Longrightarrow> uses p = Some ch"
  by (cases p) simp_all

lemma flight_fields [simp]:
  "fl_in_flight (set_phase t p s) = fl_in_flight s" "fl_channels (set_phase t p s) = fl_channels s"
  "fl_cache (set_phase t p s) = fl_cache s" "n_calls (set_phase t p s) = n_calls s"
  "fl_calls (broadcast ch v s) = fl_calls s" "fl_in_flight (broadcast ch v s) = fl_in_flight s" "fl_cache (broadcast ch v s) = fl_cache s"
  "length (fl_channels (broadcast ch v s)) = length (fl_channels s)"
  "fl_calls (in_flight_remove k s) = fl_calls s" "fl_channels (in_flight_remove k s) = fl_channels s"
  "fl_cache (in_flight_remove k s) = fl_cache s"
  "fl_calls (cache_set cfg key v s) = fl_calls s" "fl_channels (cache_set cfg key v s) = fl_channels s"
  "fl_in_flight (cache_set cfg key v s) = fl_in_flight s"
  by (simp_all add: set_phase_def broadcast_def in_flight_remove_def cache_set_def)

lemma call_nth [simp]:
  "t < n_calls s \<Longrightarrow> u < n_calls s \<Longrightarrow> phase (set_phase t p s) u = (if u = t then p else phase s u)"
  "t < n_calls s \<Longrightarrow> u < n_calls s \<Longrightarrow> key_of (set_phase t p s) u = key_of s u"
  by (auto simp: set_phase_def nth_list_update)

text \<open>A call may move to a phase that uses a channel of its key, and leads only what it led before.\<close>

lemma ok_set_phase:
  assumes "flight_ok f s" "t < n_calls s" "\<forall>ch. uses p = Some ch \<longrightarrow> ch < length (fl_channels s) \<and> f ch = key_of s t"
    and "\<forall>ch. leads p = Some ch \<longrightarrow> leads (phase s t) = Some ch"
  shows "flight_ok f (set_phase t p s)"
  unfolding flight_ok_def using assms(2, 3, 4) flight_parts [OF assms(1)]
  by (simp add: all_conj_distrib imp_conjR) (metis (no_types, lifting))

lemma ok_cong:
  assumes "flight_ok f s" "fl_in_flight s' = fl_in_flight s" "length (fl_channels s') = length (fl_channels s)" "fl_calls s' = fl_calls s"
  shows "flight_ok f s'"
  using assms by (simp add: flight_ok_def)

lemma flight_ok_remove:
  assumes "flight_ok f s" "t < n_calls s" "leads (phase s t) = Some ch" "uses p = None"
  shows "flight_ok f (set_phase t p (in_flight_remove (key_of s t) s))"
proof -
  note ok = flight_parts [OF assms(1)]
  have p: "leads p = None" using assms(4) leads_uses [of p] by (cases "leads p") auto
  have other: "key_of s u \<noteq> key_of s t" if "u < n_calls s" "u \<noteq> t" "leads (phase s u) = Some c" for u c
  proof
    assume eq: "key_of s u = key_of s t"
    have "(key_of s t, c) \<in> set (fl_in_flight s)" "(key_of s t, ch) \<in> set (fl_in_flight s)"
      using ok(6) [OF that(1, 3)] ok(6) [OF assms(2, 3)] eq by simp_all
    then have "c = ch" using ok(1) by (metis eq_key_imp_eq_value)
    then show False using ok(7) [OF that(1) assms(2) that(3)] assms(3) that(2) by simp
  qed
  show ?thesis
    unfolding flight_ok_def using assms(2, 4) p ok other
    by (auto simp: in_flight_remove_def distinct_map_filter split: if_splits)
qed

lemma ok_open:
  assumes "flight_ok f s" "t < n_calls s" "in_flight_get (key_of s t) s = None"
  shows "flight_ok (f(length (fl_channels s) := key_of s t)) (open_channel t (key_of s t) s)"
proof -
  note ok = flight_parts [OF assms(1)]
  have new: "key_of s t \<notin> fst ` set (fl_in_flight s)"
    using assms(3) by (simp add: in_flight_get_def map_of_eq_None_iff)
  have lead: "leads (phase s u) \<noteq> Some (length (fl_channels s))" "uses (phase s u) \<noteq> Some (length (fl_channels s))" if "u < n_calls s" for u
    using ok(4) [OF that] leads_uses by (metis less_irrefl)+
  show ?thesis
    unfolding flight_ok_def open_channel_def Let_def using assms(2) ok new lead
    by (auto simp: in_flight_insert_def less_SucI set_phase_def nth_list_update split: if_splits)
qed

text \<open>The channels and the cache keep only values that fit.\<close>

lemma values_parts:
  assumes "values_ok cfg serves f s"
  shows "ch < length (fl_channels s) \<Longrightarrow> v \<in> set (fl_channels s ! ch) \<Longrightarrow> serves (f ch) v"
    "t < n_calls s \<Longrightarrow> value_of (phase s t) = Some v \<Longrightarrow> serves (key_of s t) v"
    "fl_cache s (cache_key cfg k) = Some v \<Longrightarrow> serves k v"
  using assms unfolding values_ok_def by blast+

lemma values_set_phase:
  assumes "values_ok cfg serves f s" "t < n_calls s" "\<forall>v. value_of p = Some v \<longrightarrow> serves (key_of s t) v"
  shows "values_ok cfg serves f (set_phase t p s)"
  using values_parts [OF assms(1)] assms(2, 3) by (simp add: values_ok_def)

lemma values_open:
  assumes "values_ok cfg serves f s" "flight_ok f s" "t < n_calls s"
  shows "values_ok cfg serves (f(length (fl_channels s) := key_of s t)) (open_channel t (key_of s t) s)"
  unfolding values_ok_def open_channel_def Let_def using values_parts [OF assms(1)] assms(3)
  by (auto simp: in_flight_insert_def set_phase_def nth_list_update nth_append split: if_splits)

lemma values_broadcast:
  assumes "values_ok cfg serves f s" "serves (f ch) v"
  shows "values_ok cfg serves f (broadcast ch v s)"
proof -
  have "serves (f c) x" if "c < length (fl_channels s)" "x \<in> set ((fl_channels s)[ch := fl_channels s ! ch @ [v]] ! c)" for c x
    using that values_parts(1) [OF assms(1)] assms(2) by (cases "c = ch") auto
  then show ?thesis using values_parts(2, 3) [OF assms(1)] by (simp add: values_ok_def broadcast_def)
qed

lemma values_cache:
  assumes "values_ok cfg serves f s" "inj (dc_show_key cfg)" "serves k v"
  shows "values_ok cfg serves f (cache_set cfg (dc_show_key cfg k) v s)"
  using values_parts [OF assms(1)] assms(2, 3) unfolding values_ok_def
  by (auto simp: cache_set_def prefixed_key_def inj_eq)

lemma values_cong:
  assumes "values_ok cfg serves f s" "fl_channels s' = fl_channels s" "fl_calls s' = fl_calls s"
    and "\<And>k v. fl_cache s' k = Some v \<Longrightarrow> fl_cache s k = Some v"
  shows "values_ok cfg serves f s'"
  using values_parts [OF assms(1)] assms(2-4) by (simp add: values_ok_def)

definition flight_inv :: "'k data_config \<Rightarrow> ('k \<Rightarrow> 'v \<Rightarrow> bool) \<Rightarrow> ('k, 'v) flight \<Rightarrow> bool" where
  "flight_inv cfg serves s \<longleftrightarrow> (\<exists>f. flight_ok f s \<and> (inj (dc_show_key cfg) \<longrightarrow> values_ok cfg serves f s))"

lemma flight_invI: "flight_ok f s \<Longrightarrow> (inj (dc_show_key cfg) \<Longrightarrow> values_ok cfg serves f s) \<Longrightarrow> flight_inv cfg serves s"
  by (auto simp: flight_inv_def)

text \<open>A change of phase that keeps both parts.\<close>

lemma inv_set_phase:
  assumes "flight_ok f s" "inj (dc_show_key cfg) \<longrightarrow> values_ok cfg serves f s" "t < n_calls s"
    and "\<forall>ch. uses p = Some ch \<longrightarrow> ch < length (fl_channels s) \<and> f ch = key_of s t"
    and "\<forall>ch. leads p = Some ch \<longrightarrow> leads (phase s t) = Some ch"
    and "inj (dc_show_key cfg) \<longrightarrow> (\<forall>v. value_of p = Some v \<longrightarrow> serves (key_of s t) v)"
  shows "flight_inv cfg serves (set_phase t p s)"
  using assms ok_set_phase values_set_phase by (intro flight_invI) blast+

lemma inv_advance:
  fixes s :: "('k, 'v) flight"
  assumes "flight_inv cfg serves s" "t < n_calls s"
  shows "flight_inv cfg serves (advance cfg t ok s)"
proof -
  obtain f where f: "flight_ok f s" and v: "inj (dc_show_key cfg) \<longrightarrow> values_ok cfg serves f s"
    using assms(1) unfolding flight_inv_def by blast
  note parts = flight_parts [OF f]
  note move = inv_set_phase [OF f v assms(2)]
  have get: "ch < length (fl_channels s) \<and> f ch = key_of s t" if "in_flight_get (key_of s t) s = Some ch" for ch
    using that parts(2, 3) map_of_SomeD unfolding in_flight_get_def by metis
  have mine: "ch < length (fl_channels s) \<and> f ch = key_of s t" if "uses (phase s t) = Some ch" for ch
    using parts(4, 5) [OF assms(2) that] by simp
  have fitting: "inj (dc_show_key cfg) \<longrightarrow> serves (key_of s t) x" if "value_of (phase s t) = Some x" for x
    using v values_parts(2) assms(2) that by metis
  have cached: "inj (dc_show_key cfg) \<longrightarrow> serves (key_of s t) x" if "fl_cache s (cache_key cfg (key_of s t)) = Some x" for x
    using v values_parts(3) [of cfg serves f s "key_of s t" x] that by blast
  have answer: "inj (dc_show_key cfg) \<longrightarrow> (\<forall>x. r = Inr x \<longrightarrow> serves (key_of s t) x)"
    if "uses (phase s t) = Some ch" "receive ch n s = Some r" for ch n r
  proof (intro impI allI)
    fix x assume inj: "inj (dc_show_key cfg)" and "r = Inr x"
    then have "n < length (fl_channels s ! ch)" "x = fl_channels s ! ch ! n"
      using that(2) by (auto simp: receive_def split: if_splits)
    then show "serves (key_of s t) x" using values_parts(1) [of cfg serves f s ch x] v inj mine [OF that(1)] by auto
  qed
  show ?thesis
  proof (cases "phase s t")
    case Looking
    then show ?thesis using cached by (auto simp: advance_defs Let_def intro!: move split: option.split bool.split)
  next
    case Guarding
    then show ?thesis by (auto simp: advance_defs Let_def intro!: move)
  next
    case Calling
    then show ?thesis using get by (auto simp: advance_defs Let_def intro!: move split: option.split)
  next
    case Missed
    show ?thesis
    proof (cases "in_flight_get (key_of s t) s")
      case None
      have "flight_inv cfg serves (open_channel t (key_of s t) s)"
        by (rule flight_invI [OF ok_open [OF f assms(2) None]]) (use v values_open f assms(2) in blast)
      then show ?thesis using Missed None by (simp add: advance_defs)
    next
      case (Some ch)
      then show ?thesis using get Missed by (auto simp: advance_defs Let_def intro!: move)
    qed
  next
    case (Receiving ch n)
    then show ?thesis using answer [of ch n] assms(1)
      by (auto simp: advance_defs Let_def intro!: move split: option.split)
        (metis value_of.simps option.inject sum.exhaust option.distinct(1))
  next
    case (Lost ch)
    then show ?thesis using mine by (auto simp: advance_defs Let_def intro!: move)
  next
    case (Holding ch n)
    then show ?thesis using answer [of ch n] assms(1)
      by (auto simp: advance_defs Let_def intro!: move split: option.split)
        (metis value_of.simps option.inject sum.exhaust option.distinct(1))
  next
    case (Writing ch x)
    let ?s = "if ok then cache_set cfg (dc_show_key cfg (key_of s t)) x s else s"
    have s: "fl_calls ?s = fl_calls s" "fl_in_flight ?s = fl_in_flight s" "fl_channels ?s = fl_channels s" by simp_all
    have "flight_ok f ?s" by (rule ok_cong [OF f]) (simp_all add: s)
    moreover have "inj (dc_show_key cfg) \<longrightarrow> values_ok cfg serves f ?s"
      using v fitting [of x] Writing values_cache by auto
    ultimately have "flight_inv cfg serves (set_phase t (Fetched ch (Inr x)) ?s)"
      by (rule inv_set_phase) (use assms(2) Writing mine fitting in \<open>simp_all add: s\<close>)
    then show ?thesis using Writing by (simp add: advance_defs Let_def)
  next
    case (Fetched ch r)
    show ?thesis
    proof (cases r)
      case (Inl e)
      then show ?thesis using Fetched mine by (auto simp: advance_defs Let_def intro!: move)
    next
      case (Inr x)
      have "flight_ok f (broadcast ch x s)" by (rule ok_cong [OF f]) simp_all
      moreover have "inj (dc_show_key cfg) \<longrightarrow> values_ok cfg serves f (broadcast ch x s)"
        using v fitting [of x] Fetched Inr mine values_broadcast by force
      ultimately have "flight_inv cfg serves (set_phase t (Sent ch x) (broadcast ch x s))"
        by (rule inv_set_phase) (use assms(2) Fetched Inr mine fitting in simp_all)
      then show ?thesis using Fetched Inr by (simp add: advance_defs Let_def)
    qed
  next
    case (Sent ch x)
    have "flight_ok f (set_phase t (Finished (Inr x)) (in_flight_remove (key_of s t) s))"
      by (rule flight_ok_remove [OF f assms(2)]) (simp_all add: Sent)
    moreover have "values_ok cfg serves f (set_phase t (Finished (Inr x)) (in_flight_remove (key_of s t) s))" if "inj (dc_show_key cfg)"
      by (rule values_set_phase, rule values_cong) (use v that fitting [of x] Sent assms(2) in auto)
    ultimately have "flight_inv cfg serves (set_phase t (Finished (Inr x)) (in_flight_remove (key_of s t) s))" by (rule flight_invI)
    then show ?thesis using Sent by (simp add: advance_defs Let_def)
  next
    case (Dropped ch e)
    let ?p = "Finished (Inl (FetchFailed e)) :: 'v call_phase"
    have "flight_ok f (set_phase t ?p (in_flight_remove (key_of s t) s))"
      by (rule flight_ok_remove [OF f assms(2)]) (simp_all add: Dropped)
    moreover have "values_ok cfg serves f (set_phase t ?p (in_flight_remove (key_of s t) s))" if "inj (dc_show_key cfg)"
      by (rule values_set_phase, rule values_cong) (use v that assms(2) in auto)
    ultimately have "flight_inv cfg serves (set_phase t ?p (in_flight_remove (key_of s t) s))" by (rule flight_invI)
    then show ?thesis using Dropped by (simp add: advance_defs Let_def)
  qed (use assms(1) in \<open>simp_all add: advance_defs Let_def\<close>)
qed

lemma inv_step:
  assumes "flight_inv cfg serves s" "flight_step cfg serves s s'"
  shows "flight_inv cfg serves s'"
proof -
  obtain f where f: "flight_ok f s" and v: "inj (dc_show_key cfg) \<longrightarrow> values_ok cfg serves f s"
    using assms(1) unfolding flight_inv_def by blast
  have shrink: "flight_inv cfg serves (s\<lparr>fl_cache := c\<rparr>)" if "\<And>k x. c k = Some x \<Longrightarrow> fl_cache s k = Some x" for c
  proof (rule flight_invI)
    show "flight_ok f (s\<lparr>fl_cache := c\<rparr>)" by (rule ok_cong [OF f]) simp_all
    show "inj (dc_show_key cfg) \<Longrightarrow> values_ok cfg serves f (s\<lparr>fl_cache := c\<rparr>)"
      by (rule values_cong [of cfg serves f s]) (use v that in simp_all)
  qed
  from assms(2) show ?thesis
  proof cases
    case (fl_call k)
    have "flight_ok f s'" using f by (auto simp: fl_call get_or_fetch_def flight_ok_def nth_append)
    moreover have "values_ok cfg serves f s'" if "values_ok cfg serves f s"
      using that by (auto simp: fl_call get_or_fetch_def values_ok_def nth_append)
    ultimately show ?thesis using v by (auto intro: flight_invI)
  next
    case (fl_advance t ok)
    then show ?thesis using inv_advance [OF assms(1)] by simp
  next
    case (fl_fetched t r)
    have "ch < length (fl_channels s) \<and> f ch = key_of s t" if "phase s t = Fetching ch" for ch
      using flight_parts(4, 5) [OF f fl_fetched(2)] that by simp
    then show ?thesis
      unfolding fl_fetched(1) fetch_done_def using assms(1) fl_fetched(2, 3)
      by (auto intro!: inv_set_phase [OF f v] split: call_phase.split sum.split)
  next
    case (fl_cancel t)
    then show ?thesis by (auto intro!: inv_set_phase [OF f v])
  next
    case (fl_invalidate key)
    then show ?thesis by (simp add: cache_delete_def) (rule shrink, simp split: if_splits)
  next
    case (fl_invalidate_pattern hit)
    then show ?thesis by (simp add: cache_delete_pattern_def) (rule shrink, simp split: if_splits)
  qed
qed

lemma inv_start: "flight_start s \<Longrightarrow> flight_inv cfg serves s"
  by (rule flight_invI [where f = "\<lambda>_. undefined"]) (simp_all add: flight_start_def flight_ok_def values_ok_def)

interpretation flights: invariant_system flight_start "flight_step cfg serves" "flight_inv cfg serves" for cfg serves
  by unfold_locales (auto intro: inv_start inv_step)

section \<open>What every interleaving guarantees\<close>

abbreviation flight_reach :: "'k data_config \<Rightarrow> ('k \<Rightarrow> 'v \<Rightarrow> bool) \<Rightarrow> ('k, 'v) flight \<Rightarrow> bool" where
  "flight_reach cfg serves \<equiv> reach flight_start (flight_step cfg serves)"

abbreviation flight_run :: "'k data_config \<Rightarrow> ('k \<Rightarrow> 'v \<Rightarrow> bool) \<Rightarrow> ('k, 'v) flight \<Rightarrow> ('k, 'v) flight \<Rightarrow> bool" where
  "flight_run cfg serves \<equiv> (flight_step cfg serves)\<^sup>*\<^sup>*"

text \<open>C34: Whatever the interleaving of the callers, and whoever is dropped: at most one call fetches a key at a time, its key is
  in the map of requests under way, and no key is there twice.\<close>

theorem one_fetch_per_key:
  assumes "flight_reach cfg serves s" "fetching k t s"
  shows "(\<forall>u. fetching k u s \<longrightarrow> u = t) \<and> in_flight_get k s \<noteq> None \<and> distinct (map fst (fl_in_flight s))"
proof -
  obtain f where f: "flight_ok f s"
    using flights.reach_inv [OF assms(1)] unfolding flight_inv_def by blast
  note parts = flight_parts [OF f]
  obtain ch where t: "t < n_calls s" "key_of s t = k" "phase s t = Fetching ch"
    using assms(2) by (auto simp: fetching_def)
  then have ch: "(k, ch) \<in> set (fl_in_flight s)" using parts(6) [of t ch] by simp
  have "u = t" if u: "fetching k u s" for u
  proof -
    obtain c where u: "u < n_calls s" "key_of s u = k" "phase s u = Fetching c" using u by (auto simp: fetching_def)
    then have "(k, c) \<in> set (fl_in_flight s)" using parts(6) [of u c] by simp
    then have "c = ch" using ch parts(1) by (metis eq_key_imp_eq_value)
    then show ?thesis using parts(7) [of u t ch] u t by simp
  qed
  moreover have "in_flight_get k s = Some ch" using ch parts(1) by (simp add: in_flight_get_def)
  ultimately show ?thesis using parts(1) by simp
qed

text \<open>No caller gets the value of another key: when distinct keys have distinct texts, every value a call ends with, from
  Redis, from its own fetch or from that of another caller, is one the database served for the key of the call.\<close>

theorem answers_fit_their_key:
  assumes "flight_reach cfg serves s" "inj (dc_show_key cfg)" "c \<in> set (fl_calls s)" "fc_phase c = Finished (Inr v)"
  shows "serves (fc_key c) v"
proof -
  obtain f where f: "values_ok cfg serves f s"
    using flights.reach_inv [OF assms(1)] assms(2) unfolding flight_inv_def by blast
  obtain t where t: "t < n_calls s" "fl_calls s ! t = c" using assms(3) by (auto simp: in_set_conv_nth)
  then show ?thesis using values_parts(2) [OF f t(1), of v] assms(4) by simp
qed

section \<open>Waiting for a value, and waiting for ever\<close>

text \<open>A channel whose leader is gone gets no value any more.\<close>

definition silent :: "nat \<Rightarrow> ('k, 'v) flight \<Rightarrow> bool" where
  "silent ch s \<longleftrightarrow> ch < length (fl_channels s) \<and> (\<forall>u < n_calls s. leads (phase s u) \<noteq> Some ch)"

lemma advance_channels:
  assumes "ch < length (fl_channels s)" "leads (phase s t) \<noteq> Some ch"
  shows "fl_channels (advance cfg t ok s) ! ch = fl_channels s ! ch \<and> ch < length (fl_channels (advance cfg t ok s))"
  using assms
  by (auto simp: advance_defs Let_def open_channel_def in_flight_insert_def set_phase_def broadcast_def nth_append cache_set_def
    in_flight_remove_def split: call_phase.split option.split sum.split bool.split)

lemma advance_leads:
  assumes "t < n_calls s" "u < n_calls s" "ch < length (fl_channels s)" "leads (phase s u) \<noteq> Some ch"
  shows "leads (phase (advance cfg t ok s) u) \<noteq> Some ch"
proof (cases "u = t")
  case True
  then show ?thesis using assms
    by (auto simp: advance_defs Let_def open_channel_def in_flight_insert_def split: call_phase.split option.split sum.split bool.split)
next
  case False
  then show ?thesis using assms
    by (auto simp: advance_defs Let_def open_channel_def in_flight_insert_def split: call_phase.split option.split sum.split bool.split)
qed

lemma fetch_done_leads: "t < n_calls s \<Longrightarrow> u < n_calls s \<Longrightarrow> leads (phase (fetch_done t r s) u) = leads (phase s u)"
  by (cases "phase s t") (auto simp: fetch_done_def split: sum.split)

lemma run_fields [simp]:
  "n_calls (advance cfg t ok s) = n_calls s" "n_calls (fetch_done t r s) = n_calls s"
  "fl_channels (fetch_done t r s) = fl_channels s" "fl_in_flight (fetch_done t r s) = fl_in_flight s"
  by (auto simp: advance_defs fetch_done_def Let_def open_channel_def in_flight_insert_def split: call_phase.split option.split
    sum.split bool.split)

lemma silent_step:
  assumes "flight_step cfg serves s s'" "silent ch s"
  shows "silent ch s' \<and> fl_channels s' ! ch = fl_channels s ! ch"
  using assms
proof cases
  case (fl_advance t ok)
  then show ?thesis
    using assms(2) advance_channels [of ch s t cfg ok] advance_leads [of t s _ ch cfg ok] by (auto simp: silent_def)
next
  case (fl_fetched t r)
  then show ?thesis using assms(2) by (auto simp: silent_def fetch_done_leads)
qed (use assms(2) in \<open>auto simp: silent_def get_or_fetch_def nth_append less_Suc_eq cache_delete_def cache_delete_pattern_def\<close>)

text \<open>A task that holds a clone of the sender of a silent channel and waits on it.\<close>

definition hanging :: "nat \<Rightarrow> nat \<Rightarrow> nat \<Rightarrow> ('k, 'v) flight \<Rightarrow> bool" where
  "hanging t ch n s \<longleftrightarrow> silent ch s \<and> length (fl_channels s ! ch) \<le> n \<and> t < n_calls s \<and> phase s t \<in> {Holding ch n, Cancelled}"

lemma advance_others:
  assumes "t < n_calls s" "u < n_calls s" "u \<noteq> t"
  shows "phase (advance cfg u ok s) t = phase s t"
  by (cases "phase s u") (use assms in \<open>simp_all add: advance_defs Let_def open_channel_def in_flight_insert_def broadcast_def
    cache_set_def in_flight_remove_def split: option.split sum.split bool.split\<close>)

lemma hanging_step:
  assumes "flight_step cfg serves s s'" "hanging t ch n s"
  shows "hanging t ch n s'"
proof -
  have t: "t < n_calls s" "phase s t \<in> {Holding ch n, Cancelled}" "length (fl_channels s ! ch) \<le> n"
    using assms(2) by (simp_all add: hanging_def)
  have "t < n_calls s' \<and> phase s' t \<in> {Holding ch n, Cancelled}"
    using assms(1)
  proof cases
    case (fl_advance u ok)
    have "phase (advance cfg u ok s) t \<in> {Holding ch n, Cancelled}"
    proof (cases "u = t")
      case True
      have "receive ch n s = None" if "phase s t = Holding ch n"
      proof -
        have "sender_alive ch s"
          unfolding sender_alive_def by (intro disjI2 bexI [of _ "fl_calls s ! t"]) (simp_all add: that t(1))
        then show ?thesis using t(3) by (simp add: receive_def)
      qed
      then show ?thesis using True t(2) by (auto simp: advance_def Let_def)
    next
      case False
      then have "phase (advance cfg u ok s) t = phase s t"
        using t(1) fl_advance by (simp add: advance_others)
      then show ?thesis using t(2) by simp
    qed
    then show ?thesis using fl_advance t(1) by simp
  next
    case (fl_fetched u r)
    then show ?thesis using t by (cases "u = t") (auto simp: fetch_done_def split: call_phase.split sum.split)
  qed (use t in \<open>auto simp: get_or_fetch_def nth_append cache_delete_def cache_delete_pattern_def split: if_splits\<close>)
  then show ?thesis using silent_step [OF assms(1), of ch] assms(2) by (simp add: hanging_def)
qed

text \<open>A limit of the code: a caller that finds the entry occupied only at its second look keeps a clone of the sender while it
  waits. When the leader is gone and has sent nothing since the caller subscribed, because its fetch failed or because it was
  faster, the channel can never close: in every run the caller waits for ever or is dropped.\<close>

theorem loser_waits_forever:
  assumes "t < n_calls s" "phase s t = Holding ch n" "silent ch s" "length (fl_channels s ! ch) \<le> n"
    and "flight_run cfg serves s s'"
  shows "phase s' t \<in> {Holding ch n, Cancelled}"
proof -
  from assms(5) have "hanging t ch n s'"
    by (induction) (use assms(1-4) hanging_step in \<open>auto simp: hanging_def [of t ch n s] intro: hanging_step\<close>)
  then show ?thesis by (simp add: hanging_def)
qed

definition blocked :: "'k \<Rightarrow> nat \<Rightarrow> ('k, 'v) flight \<Rightarrow> bool" where
  "blocked k ch s \<longleftrightarrow> silent ch s \<and> (k, ch) \<in> set (fl_in_flight s)"

lemma advance_keeps_entry:
  assumes "(k, ch) \<in> set (fl_in_flight s)" "key_of s u = k \<longrightarrow> leads (phase s u) = None"
  shows "(k, ch) \<in> set (fl_in_flight (advance cfg u ok s))"
  using assms by (cases "phase s u") (auto simp: advance_defs Let_def open_channel_def in_flight_insert_def in_flight_remove_def
    split: option.split sum.split bool.split)

lemma blocked_step:
  assumes "flight_step cfg serves s s'" "blocked k ch s" "flight_inv cfg serves s"
  shows "blocked k ch s'"
proof -
  obtain f where f: "flight_ok f s" using assms(3) unfolding flight_inv_def by blast
  have b: "silent ch s" "(k, ch) \<in> set (fl_in_flight s)" using assms(2) by (simp_all add: blocked_def)
  have other: "leads (phase s u) = None" if "u < n_calls s" "key_of s u = k" for u
  proof (rule ccontr)
    assume "leads (phase s u) \<noteq> None"
    then obtain c where c: "leads (phase s u) = Some c" by blast
    then have "(k, c) \<in> set (fl_in_flight s)" using flight_parts(6) [OF f that(1)] that(2) by simp
    then have "c = ch" using b(2) flight_parts(1) [OF f] by (metis eq_key_imp_eq_value)
    then show False using that c b(1) by (simp add: silent_def)
  qed
  have "(k, ch) \<in> set (fl_in_flight s')"
    using assms(1)
  proof cases
    case (fl_advance u ok)
    then show ?thesis using advance_keeps_entry [OF b(2)] other [of u] by blast
  qed (use b(2) in \<open>simp_all add: get_or_fetch_def cache_delete_def cache_delete_pattern_def\<close>)
  then show ?thesis using silent_step [OF assms(1) b(1)] by (simp add: blocked_def)
qed

text \<open>A limit of the code: when the caller that fetches a key is dropped, its entry stays in the map. From then on, in every
  run, the key is never fetched again: every caller that does not find it in Redis waits on a channel nobody sends to.\<close>

theorem dropped_leader_blocks_key:
  assumes "flight_reach cfg serves s" "fetching k t s" "flight_run cfg serves (set_phase t Cancelled s) s'"
  shows "in_flight_get k s' \<noteq> None \<and> \<not> fetching k u s'"
proof -
  let ?s = "set_phase t Cancelled s"
  have inv: "flight_inv cfg serves s" by (rule flights.reach_inv [OF assms(1)])
  then obtain f where f: "flight_ok f s" unfolding flight_inv_def by blast
  obtain ch where t: "t < n_calls s" "key_of s t = k" "phase s t = Fetching ch" using assms(2) by (auto simp: fetching_def)
  have "leads (phase ?s v) \<noteq> Some ch" if v: "v < n_calls s" for v
  proof (cases "v = t")
    case False
    then have "leads (phase s v) \<noteq> Some ch" using flight_parts(7) [OF f v t(1), of ch] t(3) by auto
    then show ?thesis using False v t(1) by simp
  qed (use t(1) in simp)
  then have "silent ch ?s" using flight_parts(4) [OF f t(1), of ch] t(3) by (simp add: silent_def)
  then have b: "blocked k ch ?s" using flight_parts(6) [OF f t(1), of ch] t by (simp add: blocked_def)
  have "flight_inv cfg serves ?s" by (rule inv_step [OF inv flight_step.fl_cancel]) (use t in simp_all)
  with assms(3) b have "blocked k ch s' \<and> flight_inv cfg serves s'"
    by (induction) (auto intro: blocked_step inv_step)
  then obtain g where g: "flight_ok g s'" and b: "silent ch s'" "(k, ch) \<in> set (fl_in_flight s')"
    by (auto simp: blocked_def flight_inv_def)
  have "\<not> fetching k u s'"
  proof
    assume "fetching k u s'"
    then obtain c where u: "u < n_calls s'" "key_of s' u = k" "phase s' u = Fetching c" by (auto simp: fetching_def)
    then have "(k, c) \<in> set (fl_in_flight s')" using flight_parts(6) [OF g u(1), of c] by simp
    then have "c = ch" using b(2) flight_parts(1) [OF g] by (metis eq_key_imp_eq_value)
    then have "leads (phase s' u) = Some ch" using u(3) by simp
    then show False using u(1) b(1) unfolding silent_def by blast
  qed
  moreover have "in_flight_get k s' = Some ch" using b(2) flight_parts(1) [OF g] by (simp add: in_flight_get_def)
  ultimately show ?thesis by simp
qed

text \<open>Sharing works: while a call fetches, every call that waits on its channel can end with the value of that one fetch,
  whatever the value and whatever Redis does.\<close>

theorem waiter_gets_the_fetch:
  assumes "u < n_calls s" "t < n_calls s" "phase s u = Fetching ch" "phase s t \<in> {Receiving ch n, Holding ch n}"
    and "ch < length (fl_channels s)" "n = length (fl_channels s ! ch)" "serves (key_of s u) v"
  shows "\<exists>s'. flight_run cfg serves s s' \<and> phase s' t = Finished (Inr v)"
proof -
  have ne: "u \<noteq> t" using assms(3, 4) by auto
  let ?s1 = "fetch_done u (Inr v) s" and ?s2 = "advance cfg u False (fetch_done u (Inr v) s)"
  let ?s3 = "advance cfg u True ?s2" and ?s4 = "advance cfg t True (advance cfg u True ?s2)"
  have s1: "phase ?s1 u = Writing ch v" "phase ?s1 t = phase s t" "fl_channels ?s1 = fl_channels s"
    using assms(1-3) ne by (simp_all add: fetch_done_def)
  have s2: "phase ?s2 u = Fetched ch (Inr v)" "phase ?s2 t = phase s t" "fl_channels ?s2 = fl_channels s"
    using assms(1, 2) ne s1 by (simp_all add: advance_defs Let_def)
  have s3: "fl_channels ?s3 ! ch = fl_channels s ! ch @ [v]" "phase ?s3 t = phase s t"
    using assms(1, 2, 5) ne s2 by (simp_all add: advance_defs Let_def broadcast_def set_phase_def)
  have "receive ch n ?s3 = Some (Inr v)" using assms(6) by (simp add: receive_def s3)
  then have s4: "phase ?s4 t = Finished (Inr v)"
    using assms(2, 4) s3(2) by (auto simp: advance_defs [of cfg t] Let_def)
  have "flight_step cfg serves s ?s1" "flight_step cfg serves ?s1 ?s2" "flight_step cfg serves ?s2 ?s3" "flight_step cfg serves ?s3 ?s4"
    using assms(1, 2, 7) by (auto intro: flight_step.intros)
  then have "flight_run cfg serves s ?s4" by (meson converse_rtranclp_into_rtranclp rtranclp.rtrancl_refl)
  then show ?thesis using s4 by blast
qed

section \<open>Witnesses\<close>

definition demo_cache :: "string data_config" where
  "demo_cache = \<lparr>dc_prefix = ''cache:'', dc_show_key = (\<lambda>k. k), dc_max_in_flight = 100\<rparr>"

definition by_length :: "string \<Rightarrow> nat \<Rightarrow> bool" where
  "by_length k v \<longleftrightarrow> v = length k"

abbreviation turns :: "nat list \<Rightarrow> (string, nat) flight \<Rightarrow> (string, nat) flight" where
  "turns ts s \<equiv> fold (\<lambda>t. advance demo_cache t True) ts s"

text \<open>Two callers of one key that both miss; call 0 leads, call 1 is late.\<close>

definition two_callers :: "(string, nat) flight" where
  "two_callers = get_or_fetch ''k'' (get_or_fetch ''k'' \<lparr>fl_in_flight = [], fl_channels = [], fl_calls = [], fl_cache = (\<lambda>_. None)\<rparr>)"

definition racing :: "(string, nat) flight" where
  "racing = turns [0, 0, 0, 1, 1, 1, 0] two_callers"

definition waiting :: "(string, nat) flight" where
  "waiting = turns [1, 1] racing"

definition lost :: "(string, nat) flight" where
  "lost = turns [1] (turns [0, 0] (fetch_done 0 (Inl ''db is down'') (turns [1] racing)))"

definition served :: "(string, nat) flight" where
  "served = turns [0, 0, 0, 1] (fetch_done 0 (Inr 1) waiting)"

abbreviation "demo_reach \<equiv> flight_reach demo_cache by_length"

lemma n_calls_turns: "n_calls (turns ts s) = n_calls s"
  by (induction ts arbitrary: s) simp_all

lemma reach_turns: "demo_reach s \<Longrightarrow> list_all (\<lambda>t. t < n_calls s) ts \<Longrightarrow> demo_reach (turns ts s)"
proof (induction ts arbitrary: s)
  case (Cons t ts)
  have "demo_reach (advance demo_cache t True s)"
    by (rule reach_step [OF Cons.prems(1)], rule flight_step.fl_advance) (use Cons.prems(2) in simp)
  then show ?case using Cons by simp
qed simp

lemma reach_two: "demo_reach two_callers"
  unfolding two_callers_def
  by (rule reach_step [OF reach_step [OF reach_init]]) (auto simp: flight_start_def intro: flight_step.fl_call)

lemma reach_racing: "demo_reach racing"
  unfolding racing_def by (rule reach_turns [OF reach_two]) (simp add: two_callers_def get_or_fetch_def)

lemma reach_waiting: "demo_reach waiting"
  unfolding waiting_def by (rule reach_turns [OF reach_racing]) (simp add: racing_def n_calls_turns two_callers_def get_or_fetch_def)

lemma demo_sizes: "n_calls racing = 2" "n_calls waiting = 2"
  by (simp_all add: waiting_def racing_def n_calls_turns two_callers_def get_or_fetch_def)

lemma racing_phases: "phase racing 0 = Fetching 0" "key_of racing 0 = ''k''"
  by code_simp+

lemma lost_phases: "phase lost 1 = Holding 0 0" "phase lost 0 = Finished (Inl (FetchFailed ''db is down''))" "fl_channels lost = [[]]"
  "n_calls lost = 2" "phase lost (Suc 0) = Holding 0 0"
  by code_simp+

lemma waiting_phases: "phase waiting 0 = Fetching 0" "phase waiting 1 = Holding 0 0" "fl_channels waiting = [[]]" "key_of waiting 0 = ''k''"
  "phase waiting (Suc 0) = Holding 0 0"
  by code_simp+

lemma served_phases: "fl_calls served ! 1 = \<lparr>fc_key = ''k'', fc_phase = Finished (Inr 1)\<rparr>" "n_calls served = 2"
  by code_simp+

lemma racing_fetch: "fetching ''k'' 0 racing"
  using racing_phases demo_sizes by (simp add: fetching_def)

lemma one_fetch_per_key_witness: "\<not> fetching ''k'' 1 racing \<and> in_flight_get ''k'' racing \<noteq> None"
  using one_fetch_per_key [OF reach_racing racing_fetch] by (metis zero_neq_one)

theorem answers_fit_their_key_witness: "by_length ''k'' 1"
proof -
  have "demo_reach (fetch_done 0 (Inr 1) waiting)"
    by (rule reach_step [OF reach_waiting flight_step.fl_fetched]) (simp_all add: demo_sizes waiting_phases by_length_def)
  then have r: "demo_reach served"
    unfolding served_def by (rule reach_turns) (simp add: demo_sizes)
  have "inj (dc_show_key demo_cache)" by (simp add: demo_cache_def inj_on_def)
  moreover have "fl_calls served ! 1 \<in> set (fl_calls served)" using served_phases(2) by simp
  moreover have "fc_phase (fl_calls served ! 1) = Finished (Inr 1)" by (simp only: served_phases(1) flight_call.simps)
  ultimately have "by_length (fc_key (fl_calls served ! 1)) 1" by (rule answers_fit_their_key [OF r])
  then show ?thesis by (simp only: served_phases(1) flight_call.simps)
qed

theorem loser_waits_forever_witness: "phase (get_or_fetch ''k'' lost) 1 \<in> {Holding 0 0, Cancelled}"
proof (rule loser_waits_forever)
  show "silent 0 lost"
    using lost_phases by (auto simp: silent_def less_2_cases_iff)
  show "flight_run demo_cache by_length lost (get_or_fetch ''k'' lost)"
    by (rule r_into_rtranclp, rule flight_step.fl_call)
qed (simp_all add: lost_phases)

theorem dropped_leader_blocks_key_witness:
  "in_flight_get ''k'' (get_or_fetch ''k'' (set_phase 0 Cancelled racing)) \<noteq> None \<and>
    \<not> fetching ''k'' 2 (get_or_fetch ''k'' (set_phase 0 Cancelled racing))"
  by (rule dropped_leader_blocks_key [OF reach_racing racing_fetch], rule r_into_rtranclp, rule flight_step.fl_call)

theorem waiter_gets_the_fetch_witness:
  "\<exists>s'. flight_run demo_cache by_length waiting s' \<and> phase s' 1 = Finished (Inr 1)"
  by (rule waiter_gets_the_fetch [where u = 0 and ch = 0 and n = 0])
    (simp_all add: waiting_phases demo_sizes by_length_def)

end
