(* ===== verification/Push.thy ===== *)
theory Push
  imports Devices Gateway_Protocol "HOL-Library.Sublist"
begin

text \<open>
  \<open>lumiere-push\<close>: the stores of device tokens, the clients of APNs and FCM, and \<open>PushService\<close> (\<open>lib.rs\<close>, \<open>apns.rs\<close>,
  \<open>fcm.rs\<close>). The state holds the world, the in-memory store, the cached tokens of the two clients, what was sent over HTTP,
  and the replies that the services will give: when they run out, no service answers.

  Parameters: the two signatures and the parsing of a reply. A panic is an outcome of its own, which no \<open>match\<close> catches.
\<close>

section \<open>Data\<close>

type_synonym u32 = "32 word"

datatype push_service_error =
    TokenNotFound snowflake | ApnsError ustr | FcmError ustr | InvalidDeviceToken ustr | PlatformNotConfigured platform | PushInternal app_error

datatype push_failure = PushErr push_service_error | Panic

record push_notification =
  nt_title :: ustr
  nt_body :: ustr
  nt_data :: "(string \<times> ustr) list"
  nt_badge :: "u32 option"
  nt_sound :: "ustr option"
  nt_thread_id :: "ustr option"

definition new_notification :: "ustr \<Rightarrow> ustr \<Rightarrow> push_notification" where
  "new_notification title body = \<lparr>nt_title = title, nt_body = body, nt_data = [], nt_badge = None,
     nt_sound = Some (lit ''default''), nt_thread_id = None\<rparr>"

text \<open>\<open>HashMap::insert\<close>, on an association list\<close>

definition with_data :: "string \<Rightarrow> ustr \<Rightarrow> push_notification \<Rightarrow> push_notification" where
  "with_data k v n = n\<lparr>nt_data := filter (\<lambda>e. fst e \<noteq> k) (nt_data n) @ [(k, v)]\<rparr>"

definition with_badge :: "u32 \<Rightarrow> push_notification \<Rightarrow> push_notification" where
  "with_badge b n = n\<lparr>nt_badge := Some b\<rparr>"

definition with_sound :: "ustr \<Rightarrow> push_notification \<Rightarrow> push_notification" where
  "with_sound s n = n\<lparr>nt_sound := Some s\<rparr>"

definition with_thread_id :: "ustr \<Rightarrow> push_notification \<Rightarrow> push_notification" where
  "with_thread_id t n = n\<lparr>nt_thread_id := Some t\<rparr>"

section \<open>State\<close>

datatype http_request = PostJson ustr ustr json | PostForm ustr ustr

datatype http_reply = Unreachable | Reply int ustr

type_synonym token_cache = "(ustr \<times> int) option"

record push_state =
  pu_world :: world
  pu_memory :: "snowflake \<Rightarrow> device_token list option"
  pu_apns_token :: token_cache
  pu_fcm_token :: token_cache
  pu_replies :: "http_reply list"
  pu_requests :: "http_request list"

type_synonym 'a push_handler = "push_state \<Rightarrow> (push_failure + 'a) \<times> push_state"

definition pret :: "'a \<Rightarrow> 'a push_handler" where
  "pret x s = (Inr x, s)"

definition pfail :: "push_service_error \<Rightarrow> 'a push_handler" where
  "pfail e s = (Inl (PushErr e), s)"

definition ppanic :: "'a push_handler" where
  "ppanic s = (Inl Panic, s)"

definition pbind :: "'a push_handler \<Rightarrow> ('a \<Rightarrow> 'b push_handler) \<Rightarrow> 'b push_handler" where
  "pbind m k s = (case m s of (Inl e, s') \<Rightarrow> (Inl e, s') | (Inr x, s') \<Rightarrow> k x s')"

abbreviation pthen :: "'a push_handler \<Rightarrow> 'b push_handler \<Rightarrow> 'b push_handler" where
  "pthen m n \<equiv> pbind m (\<lambda>_. n)"

definition pget :: "(push_state \<Rightarrow> 'a) \<Rightarrow> 'a push_handler" where
  "pget f s = (Inr (f s), s)"

definition pset :: "(push_state \<Rightarrow> push_state) \<Rightarrow> unit push_handler" where
  "pset f s = (Inr (), f s)"

text \<open>\<open>match\<close> on the result: errors are values, a panic is not.\<close>

definition pmatch :: "'a push_handler \<Rightarrow> (push_service_error + 'a \<Rightarrow> 'b push_handler) \<Rightarrow> 'b push_handler" where
  "pmatch m k s =
     (case m s of
        (Inr x, s') \<Rightarrow> k (Inr x) s'
      | (Inl (PushErr e), s') \<Rightarrow> k (Inl e) s'
      | (Inl Panic, s') \<Rightarrow> (Inl Panic, s'))"

text \<open>A call of the database whose error is replaced by a value.\<close>

definition pworld :: "'a \<Rightarrow> 'a handler \<Rightarrow> 'a push_handler" where
  "pworld d h s = (case h (pu_world s) of
     (Inl _, w) \<Rightarrow> (Inr d, s\<lparr>pu_world := w\<rparr>) | (Inr x, w) \<Rightarrow> (Inr x, s\<lparr>pu_world := w\<rparr>))"

text \<open>One HTTP exchange; \<open>err\<close> is the error when there is no reply.\<close>

definition http_post :: "push_service_error \<Rightarrow> http_request \<Rightarrow> (int \<times> ustr) push_handler" where
  "http_post err q s =
     (let s1 = s\<lparr>pu_requests := pu_requests s @ [q], pu_replies := tl (pu_replies s)\<rparr>
      in case pu_replies s of
           Reply status body # _ \<Rightarrow> (Inr (status, body), s1)
         | _ \<Rightarrow> (Inl (PushErr err), s1))"

record push_external =
  px_apns_sign :: "ustr \<Rightarrow> ustr \<Rightarrow> int \<Rightarrow> string + ustr"
  px_google_sign :: "ustr \<Rightarrow> int \<Rightarrow> int \<Rightarrow> string + ustr"
  px_parse :: "ustr \<Rightarrow> json option"

section \<open>The stores of device tokens\<close>

definition memory_register :: "device_token \<Rightarrow> (snowflake \<Rightarrow> device_token list option) \<Rightarrow> snowflake \<Rightarrow> device_token list option" where
  "memory_register d m = m(dt_user_id d \<mapsto>
     filter (\<lambda>e. dt_token e \<noteq> dt_token d) (unwrap_or [] (m (dt_user_id d))) @ [d])"

definition memory_unregister_all :: "snowflake \<Rightarrow> (snowflake \<Rightarrow> device_token list option) \<Rightarrow> snowflake \<Rightarrow> device_token list option" where
  "memory_unregister_all uid m = m(uid := None)"

definition memory_get_tokens :: "snowflake \<Rightarrow> (snowflake \<Rightarrow> device_token list option) \<Rightarrow> device_token list" where
  "memory_get_tokens uid m = unwrap_or [] (m uid)"

definition memory_unregister ::
  "snowflake \<Rightarrow> ustr \<Rightarrow> (snowflake \<Rightarrow> device_token list option) \<Rightarrow> bool \<times> (snowflake \<Rightarrow> device_token list option)" where
  "memory_unregister uid token m =
     (case m uid of
        None \<Rightarrow> (False, m)
      | Some ds \<Rightarrow> (let rest = filter (\<lambda>d. dt_token d \<noteq> token) ds in (length rest < length ds, m(uid \<mapsto> rest))))"

definition memory_remove_invalid ::
  "ustr \<Rightarrow> (snowflake \<Rightarrow> device_token list option) \<Rightarrow> snowflake \<Rightarrow> device_token list option" where
  "memory_remove_invalid token m = (\<lambda>uid. map_option (filter (\<lambda>d. dt_token d \<noteq> token)) (m uid))"

datatype token_store = InMemory | Postgres

definition backend_get_tokens :: "token_store \<Rightarrow> snowflake \<Rightarrow> device_token list push_handler" where
  "backend_get_tokens b uid =
     (case b of
        InMemory \<Rightarrow> pget (\<lambda>s. memory_get_tokens uid (pu_memory s))
      | Postgres \<Rightarrow> pworld [] (get_tokens uid))"

definition backend_remove_invalid_token :: "token_store \<Rightarrow> ustr \<Rightarrow> unit push_handler" where
  "backend_remove_invalid_token b token =
     (case b of
        InMemory \<Rightarrow> pset (\<lambda>s. s\<lparr>pu_memory := memory_remove_invalid token (pu_memory s)\<rparr>)
      | Postgres \<Rightarrow> pworld () (remove_invalid_token token))"

definition backend_unregister :: "token_store \<Rightarrow> snowflake \<Rightarrow> ustr \<Rightarrow> bool push_handler" where
  "backend_unregister b uid token =
     (case b of
        InMemory \<Rightarrow> (\<lambda>s. case memory_unregister uid token (pu_memory s) of (r, m) \<Rightarrow> (Inr r, s\<lparr>pu_memory := m\<rparr>))
      | Postgres \<Rightarrow> pworld False (store_unregister uid token))"

section \<open>The client of APNs\<close>

record apns_client =
  ac_key_id :: ustr
  ac_team_id :: ustr
  ac_base_url :: ustr

text \<open>A token is valid for an hour and refreshed ten minutes before that.\<close>

definition TOKEN_VALID_MS :: int where
  "TOKEN_VALID_MS = (3600 - 600) * 1000"

definition fresh_token :: "token_cache \<Rightarrow> int \<Rightarrow> ustr option" where
  "fresh_token cached now = (case cached of Some (token, expires_at) \<Rightarrow> if expires_at > now then Some token else None | None \<Rightarrow> None)"

definition apns_token :: "push_external \<Rightarrow> apns_client \<Rightarrow> ustr push_handler" where
  "apns_token ext cl =
     pbind (pget (\<lambda>s. (pu_apns_token s, w_now (pu_world s)))) (\<lambda>(cached, now).
       case fresh_token cached now of
         Some token \<Rightarrow> pret token
       | None \<Rightarrow>
           (case px_apns_sign ext (ac_key_id cl) (ac_team_id cl) (now div 1000) of
              Inl m \<Rightarrow> pfail (ApnsError (lit (''JWT encoding failed: '' @ m)))
            | Inr token \<Rightarrow> pthen (pset (\<lambda>s. s\<lparr>pu_apns_token := Some (token, now + TOKEN_VALID_MS)\<rparr>)) (pret token)))"

definition apns_payload :: "push_notification \<Rightarrow> json" where
  "apns_payload n = JObj ((''aps'', JObj ((''alert'', JObj [(''title'', JStr (nt_title n)), (''body'', JStr (nt_body n))]) #
     given ''badge'' (\<lambda>b. JInt (uint b)) (nt_badge n) @ given ''sound'' JStr (nt_sound n) @
     given ''thread-id'' JStr (nt_thread_id n))) # map (\<lambda>(k, v). (k, JStr v)) (nt_data n))"

definition apns_url :: "apns_client \<Rightarrow> ustr \<Rightarrow> ustr" where
  "apns_url cl token = ac_base_url cl @ lit ''/3/device/'' @ token"

definition is_hexdigit :: "nat \<Rightarrow> bool" where
  "is_hexdigit c \<longleftrightarrow> 48 \<le> c \<and> c \<le> 57 \<or> 65 \<le> c \<and> c \<le> 70 \<or> 97 \<le> c \<and> c \<le> 102"

definition apns_reason :: "push_external \<Rightarrow> ustr \<Rightarrow> ustr" where
  "apns_reason ext body =
     (case px_parse ext body of
        None \<Rightarrow> body
      | Some j \<Rightarrow> (case and_then (struct_fields [''reason''] j) (\<lambda>fs. required de_string (fs ''reason'')) of
          Inl _ \<Rightarrow> body | Inr reason \<Rightarrow> reason))"

definition show_status :: "int \<Rightarrow> ustr" where
  "show_status n = lit (show_nat (nat n))"

definition is_success :: "int \<Rightarrow> bool" where
  "is_success status \<longleftrightarrow> 200 \<le> status \<and> status < 300"

text \<open>The device token has 64 characters here, so its first eight bytes are its first eight characters.\<close>

definition apns_send :: "push_external \<Rightarrow> apns_client \<Rightarrow> ustr \<Rightarrow> push_notification \<Rightarrow> unit push_handler" where
  "apns_send ext cl token n =
     (if utf8_len token \<noteq> 64 \<or> \<not> list_all is_hexdigit token
      then pfail (InvalidDeviceToken (lit ''APNs token must be exactly 64 hex characters, got '' @
             lit (show_nat (utf8_len token)) @ lit '' chars''))
      else pbind (apns_token ext cl) (\<lambda>jwt.
           pbind (http_post (ApnsError (lit ''HTTP request failed'')) (PostJson (apns_url cl token) jwt (apns_payload n))) (\<lambda>(status, body).
             if status = 200 then pret ()
             else if status = 401 \<or> status = 403
             then pthen (pset (\<lambda>s. s\<lparr>pu_apns_token := None\<rparr>))
                 (pbind (apns_token ext cl) (\<lambda>fresh.
                  pbind (http_post (ApnsError (lit ''HTTP request failed'')) (PostJson (apns_url cl token) fresh (apns_payload n))) (\<lambda>(status2, body2).
                    if is_success status2 then pret ()
                    else pfail (ApnsError (lit ''APNs retry failed after token refresh ('' @ show_status status2 @ lit ''): '' @ body2)))))
             else if status = 410
             then pfail (InvalidDeviceToken (lit ''APNs token '' @ take 8 token @ lit '' is no longer valid (410 Gone)''))
             else if status = 400 then pfail (ApnsError (lit ''Bad request: '' @ apns_reason ext body))
             else if status = 429 then pfail (ApnsError (lit ''Rate limited by APNs''))
             else pfail (ApnsError (lit ''Unexpected APNs status '' @ show_status status @ lit '': '' @ body)))))"

section \<open>The client of FCM\<close>

record fcm_client =
  fc_project_id :: ustr
  fc_email :: ustr

definition google_token_url :: ustr where
  "google_token_url = lit ''https://oauth2.googleapis.com/token''"

definition read_access_token :: "push_external \<Rightarrow> ustr \<Rightarrow> string + ustr" where
  "read_access_token ext body =
     (case px_parse ext body of
        None \<Rightarrow> Inl ''not JSON''
      | Some j \<Rightarrow> and_then (struct_fields [''access_token'', ''expires_in''] j) (\<lambda>fs.
          and_then (required de_string (fs ''access_token'')) (\<lambda>token.
          and_then (optional de_u64 (fs ''expires_in'')) (\<lambda>_. Inr token))))"

definition fcm_token :: "push_external \<Rightarrow> fcm_client \<Rightarrow> ustr push_handler" where
  "fcm_token ext cl =
     pbind (pget (\<lambda>s. (pu_fcm_token s, w_now (pu_world s)))) (\<lambda>(cached, now).
       case fresh_token cached now of
         Some token \<Rightarrow> pret token
       | None \<Rightarrow>
           (case px_google_sign ext (fc_email cl) (now div 1000) (now div 1000 + 3600) of
              Inl m \<Rightarrow> pfail (FcmError (lit (''JWT encoding failed: '' @ m)))
            | Inr jwt \<Rightarrow>
                pbind (http_post (FcmError (lit ''Token exchange request failed'')) (PostForm google_token_url jwt)) (\<lambda>(status, body).
                  if \<not> is_success status then pfail (FcmError (lit ''Token exchange failed: '' @ body))
                  else (case read_access_token ext body of
                          Inl m \<Rightarrow> pfail (FcmError (lit (''Failed to parse token response: '' @ m)))
                        | Inr token \<Rightarrow>
                            pthen (pset (\<lambda>s. s\<lparr>pu_fcm_token := Some (token, now + TOKEN_VALID_MS)\<rparr>)) (pret token)))))"

definition fcm_payload :: "ustr \<Rightarrow> push_notification \<Rightarrow> json" where
  "fcm_payload token n = JObj [(''message'', JObj ([(''token'', JStr token),
     (''notification'', JObj [(''title'', JStr (nt_title n)), (''body'', JStr (nt_body n))])] @
     (if nt_data n = [] then [] else [(''data'', JObj (map (\<lambda>(k, v). (k, JStr v)) (nt_data n)))]) @
     [(''android'', JObj [(''priority'', jlit ''high'')])]))]"

definition fcm_url :: "fcm_client \<Rightarrow> ustr" where
  "fcm_url cl = lit ''https://fcm.googleapis.com/v1/projects/'' @ fc_project_id cl @ lit ''/messages:send''"

text \<open>\<open>body.contains(...)\<close>, and the message of an error reply\<close>

definition mentions_text :: "string \<Rightarrow> ustr \<Rightarrow> bool" where
  "mentions_text t body \<longleftrightarrow> sublist (lit t) body"

definition fcm_detail :: "push_external \<Rightarrow> ustr \<Rightarrow> ustr" where
  "fcm_detail ext body =
     (case px_parse ext body of
        None \<Rightarrow> body
      | Some j \<Rightarrow>
          (case and_then (struct_fields [''error''] j) (\<lambda>fs. optional (\<lambda>e.
             and_then (struct_fields [''message'', ''status'', ''code''] e) (\<lambda>gs.
             and_then (optional de_string (gs ''message'')) (\<lambda>message.
             and_then (optional de_string (gs ''status'')) (\<lambda>_.
             and_then (optional (de_unsigned 32) (gs ''code'')) (\<lambda>_. Inr message))))) (fs ''error'')) of
             Inr (Some (Some message)) \<Rightarrow> message
           | _ \<Rightarrow> body))"

text \<open>\<open>&registration_token[..8.min(len)]\<close> panics when byte 8 is inside a character.\<close>

definition unregistered :: "ustr \<Rightarrow> unit push_handler" where
  "unregistered token =
     (case take_bytes (min 8 (utf8_len token)) token of
        None \<Rightarrow> ppanic
      | Some t \<Rightarrow> pfail (InvalidDeviceToken (lit ''FCM token '' @ t @ lit '' is unregistered'')))"

definition fcm_send :: "push_external \<Rightarrow> fcm_client \<Rightarrow> ustr \<Rightarrow> push_notification \<Rightarrow> unit push_handler" where
  "fcm_send ext cl token n =
     (if token = [] then pfail (InvalidDeviceToken (lit ''FCM registration token is empty''))
      else pbind (fcm_token ext cl) (\<lambda>access.
           pbind (http_post (FcmError (lit ''HTTP request failed'')) (PostJson (fcm_url cl) access (fcm_payload token n))) (\<lambda>(status, body).
             if status = 200 then pret ()
             else if status = 401
             then pthen (pset (\<lambda>s. s\<lparr>pu_fcm_token := None\<rparr>))
                 (pbind (fcm_token ext cl) (\<lambda>fresh.
                  pbind (http_post (FcmError (lit ''Retry HTTP request failed'')) (PostJson (fcm_url cl) fresh (fcm_payload token n))) (\<lambda>(status2, body2).
                    if is_success status2 then pret ()
                    else pfail (FcmError (lit ''FCM retry failed after token refresh: '' @ body2)))))
             else if status = 404
             then (if mentions_text ''UNREGISTERED'' body \<or> mentions_text ''not found'' body then unregistered token
                   else pfail (FcmError (lit ''FCM 404 error: '' @ body)))
             else if status = 429 then pfail (FcmError (lit ''Rate limited by FCM''))
             else if mentions_text ''UNREGISTERED'' body then unregistered token
             else pfail (FcmError (lit ''FCM status '' @ show_status status @ lit '': '' @ fcm_detail ext body)))))"

section \<open>The push service\<close>

record push_service =
  ps_apns :: "apns_client option"
  ps_fcm :: "fcm_client option"
  ps_tokens :: token_store

definition send_to_device :: "push_external \<Rightarrow> push_service \<Rightarrow> device_token \<Rightarrow> push_notification \<Rightarrow> unit push_handler" where
  "send_to_device ext sv d n =
     (case dt_platform d of
        Ios \<Rightarrow> (case ps_apns sv of None \<Rightarrow> pfail (PlatformNotConfigured Ios) | Some cl \<Rightarrow> apns_send ext cl (dt_token d) n)
      | Android \<Rightarrow> (case ps_fcm sv of None \<Rightarrow> pfail (PlatformNotConfigured Android) | Some cl \<Rightarrow> fcm_send ext cl (dt_token d) n))"

fun send_to_devices ::
  "push_external \<Rightarrow> push_service \<Rightarrow> device_token list \<Rightarrow> push_notification \<Rightarrow> nat \<Rightarrow> nat push_handler" where
  "send_to_devices ext sv [] n count = pret count"
| "send_to_devices ext sv (d # ds) n count =
     pmatch (send_to_device ext sv d n) (\<lambda>r. case r of
       Inr _ \<Rightarrow> send_to_devices ext sv ds n (count + 1)
     | Inl (InvalidDeviceToken _) \<Rightarrow>
         pthen (backend_remove_invalid_token (ps_tokens sv) (dt_token d)) (send_to_devices ext sv ds n count)
     | Inl _ \<Rightarrow> send_to_devices ext sv ds n count)"

definition send_to_user :: "push_external \<Rightarrow> push_service \<Rightarrow> snowflake \<Rightarrow> push_notification \<Rightarrow> nat push_handler" where
  "send_to_user ext sv uid n =
     pbind (backend_get_tokens (ps_tokens sv) uid) (\<lambda>devices.
       if devices = [] then pfail (TokenNotFound uid) else send_to_devices ext sv devices n 0)"

fun send_to_users :: "push_external \<Rightarrow> push_service \<Rightarrow> snowflake list \<Rightarrow> push_notification \<Rightarrow> nat \<Rightarrow> nat push_handler" where
  "send_to_users ext sv [] n delivered = pret delivered"
| "send_to_users ext sv (u # us) n delivered =
     pmatch (send_to_user ext sv u n) (\<lambda>r. case r of
       Inr k \<Rightarrow> send_to_users ext sv us n (delivered + k)
     | Inl _ \<Rightarrow> send_to_users ext sv us n delivered)"

end
