(* ===== verification/Search.thy ===== *)
theory Search
  imports Messages
begin

text \<open>
  \<open>lumiere-search\<close>: the documents, the parameters of a search with their filter, and the calls of \<open>SearchService\<close>. The
  search engine is external: the state records the tasks it was given, in order, and what it answers to a query is a
  parameter. A call of it fails or succeeds like every call of a service.
\<close>

section \<open>Documents\<close>

record message_document =
  md_id :: string
  md_channel_id :: string
  md_server_id :: string
  md_author_id :: string
  md_content :: ustr
  md_timestamp :: int

text \<open>\<open>created_at\<close> is a time in milliseconds; a document holds seconds.\<close>

definition new_document :: "snowflake \<Rightarrow> snowflake \<Rightarrow> snowflake \<Rightarrow> snowflake \<Rightarrow> ustr \<Rightarrow> int \<Rightarrow> message_document" where
  "new_document i channel server author content created =
     \<lparr>md_id = show_u64 i, md_channel_id = show_u64 channel, md_server_id = show_u64 server,
      md_author_id = show_u64 author, md_content = content, md_timestamp = created div 1000\<rparr>"

section \<open>Parameters of a search\<close>

record search_params =
  sp_query :: ustr
  sp_channel_id :: "snowflake option"
  sp_server_id :: "snowflake option"
  sp_author_id :: "snowflake option"
  sp_before :: "int option"
  sp_after :: "int option"
  sp_limit :: "nat option"
  sp_offset :: "nat option"

definition new_search :: "ustr \<Rightarrow> search_params" where
  "new_search q = \<lparr>sp_query = q, sp_channel_id = None, sp_server_id = None, sp_author_id = None, sp_before = None,
     sp_after = None, sp_limit = None, sp_offset = None\<rparr>"

definition show_int :: "int \<Rightarrow> string" where
  "show_int v = (if v < 0 then CHR ''-'' # show_nat (nat (- v)) else show_nat (nat v))"

definition id_filter :: "string \<Rightarrow> snowflake option \<Rightarrow> string list" where
  "id_filter field v = (case v of None \<Rightarrow> [] | Some i \<Rightarrow> [field @ '' = \"'' @ show_u64 i @ ''\"''])"

definition time_filter :: "string \<Rightarrow> int option \<Rightarrow> string list" where
  "time_filter op v = (case v of None \<Rightarrow> [] | Some t \<Rightarrow> [''timestamp '' @ op @ '' '' @ show_int (t div 1000)])"

fun join_with :: "string \<Rightarrow> string list \<Rightarrow> string" where
  "join_with sep [] = []"
| "join_with sep [x] = x"
| "join_with sep (x # xs) = x @ sep @ join_with sep xs"

definition search_filters :: "search_params \<Rightarrow> string list" where
  "search_filters p = id_filter ''channel_id'' (sp_channel_id p) @ id_filter ''server_id'' (sp_server_id p) @
     id_filter ''author_id'' (sp_author_id p) @ time_filter ''>='' (sp_after p) @ time_filter ''<='' (sp_before p)"

definition build_filter :: "search_params \<Rightarrow> string option" where
  "build_filter p = (if search_filters p = [] then None else Some (join_with '' AND '' (search_filters p)))"

section \<open>The service\<close>

datatype search_task = AddDocuments "message_document list" | DeleteDocument string | DeleteByFilter string

record search_state =
  se_world :: world
  se_tasks :: "search_task list"

type_synonym 'a search_handler = "search_state \<Rightarrow> (string + 'a) \<times> search_state"

definition search_error :: string where
  "search_error = ''meilisearch error''"

text \<open>One call of the engine that gives it a task.\<close>

definition submit :: "search_task \<Rightarrow> unit search_handler" where
  "submit t s =
     (case next_call (se_world s) of (out, w) \<Rightarrow>
        (if out = Succeeds then Inr () else Inl search_error,
         s\<lparr>se_world := w, se_tasks := (if out = Fails then se_tasks s else se_tasks s @ [t])\<rparr>))"

definition index_message :: "message_document \<Rightarrow> unit search_handler" where
  "index_message d = submit (AddDocuments [d])"

definition index_messages :: "message_document list \<Rightarrow> unit search_handler" where
  "index_messages ds s = (if ds = [] then (Inr (), s) else submit (AddDocuments ds) s)"

definition search_delete_message :: "snowflake \<Rightarrow> unit search_handler" where
  "search_delete_message i = submit (DeleteDocument (show_u64 i))"

text \<open>After the task the code waits for its completion: a second call, whose failure is an error too.\<close>

definition delete_channel_messages :: "snowflake \<Rightarrow> unit search_handler" where
  "delete_channel_messages channel s =
     (case submit (DeleteByFilter (''channel_id = \"'' @ show_u64 channel @ ''\"'')) s of
        (Inl e, s1) \<Rightarrow> (Inl e, s1)
      | (Inr _, s1) \<Rightarrow>
          (case next_call (se_world s1) of (out, w) \<Rightarrow>
             (if out = Succeeds then Inr () else Inl search_error, s1\<lparr>se_world := w\<rparr>)))"

record search_query =
  sq_query :: ustr
  sq_limit :: nat
  sq_offset :: nat
  sq_sort :: "string list"
  sq_filter :: "string option"

record search_result =
  sr_hits :: "message_document list"
  sr_estimated_total :: "nat option"
  sr_processing_time_ms :: nat

definition search_query_of :: "search_params \<Rightarrow> search_query" where
  "search_query_of p = \<lparr>sq_query = sp_query p, sq_limit = min (unwrap_or 25 (sp_limit p)) 100,
     sq_offset = unwrap_or 0 (sp_offset p), sq_sort = [''timestamp:desc''], sq_filter = build_filter p\<rparr>"

text \<open>The engine answers a query with hits, an estimate if it has one, and its time.\<close>

definition search ::
  "(search_query \<Rightarrow> message_document list \<times> nat option \<times> nat) \<Rightarrow> search_params \<Rightarrow> search_result search_handler" where
  "search engine p s =
     (if trim (sp_query p) = [] then (Inr \<lparr>sr_hits = [], sr_estimated_total = Some 0, sr_processing_time_ms = 0\<rparr>, s)
      else case next_call (se_world s) of (out, w) \<Rightarrow>
        (if out \<noteq> Succeeds then Inl search_error
         else (case engine (search_query_of p) of (hits, estimate, ms) \<Rightarrow>
           Inr \<lparr>sr_hits = hits, sr_estimated_total = Some (unwrap_or 0 estimate), sr_processing_time_ms = ms\<rparr>),
         s\<lparr>se_world := w\<rparr>))"

end
