(* ===== verification/Workers.thy ===== *)
theory Workers
  imports Push Search
begin

text \<open>
  The workers of \<open>lumiere-server/src/workers\<close>: consumers of the durable stream to which the message routes publish. Each
  takes an event, and acknowledges it when \<open>process_message\<close> succeeds; JetStream delivers an event up to three times. What
  a worker does to its state is a function of the event; a panic ends its task for good, because nothing restarts it.
\<close>

section \<open>Consuming\<close>

datatype outcome = Processed | Failed | Panicked

definition MAX_DELIVER :: nat where
  "MAX_DELIVER = 3"

text \<open>
  \<open>run_consumer\<close> on a queue of events with the number of times each was delivered. Result: false when the task panicked,
  the state, and what is left in the queue then.
\<close>

function consume :: "(json \<Rightarrow> 's \<Rightarrow> outcome \<times> 's) \<Rightarrow> (nat \<times> json) list \<Rightarrow> 's \<Rightarrow> bool \<times> 's \<times> (nat \<times> json) list" where
  "consume f [] s = (True, s, [])"
| "consume f ((n, e) # q) s =
     (case f e s of
        (Processed, s') \<Rightarrow> consume f q s'
      | (Failed, s') \<Rightarrow> consume f (if n + 1 < MAX_DELIVER then q @ [(n + 1, e)] else q) s'
      | (Panicked, s') \<Rightarrow> (False, s', q))"
  by pat_completeness auto

termination
  by (relation "measure (\<lambda>(f, q, s). sum_list (map (\<lambda>(n, e). Suc (MAX_DELIVER - n)) q))") (auto simp: MAX_DELIVER_def)

section \<open>Reading an event\<close>

text \<open>\<open>v.as_i64()\<close>\<close>

definition in_i64 :: "int \<Rightarrow> bool" where
  "in_i64 v \<longleftrightarrow> - (2 ^ 63) \<le> v \<and> v < 2 ^ 63"

definition json_get_i64 :: "string \<Rightarrow> json \<Rightarrow> int option" where
  "json_get_i64 k j = (case json_get k j of Some (JInt v) \<Rightarrow> if in_i64 v then Some v else None | _ \<Rightarrow> None)"

text \<open>A number, or a text that parses as one.\<close>

definition json_id :: "string \<Rightarrow> json \<Rightarrow> int option" where
  "json_id k j =
     (case json_get_i64 k j of
        Some v \<Rightarrow> Some v
      | None \<Rightarrow> Option.bind (json_get_str k j) (\<lambda>s. case parse_i64 (utf8_bytes s) of Inl _ \<Rightarrow> None | Inr x \<Rightarrow> Some (sint x)))"

definition event_name :: "json \<Rightarrow> ustr" where
  "event_name event = unwrap_or [] (json_get_str ''type'' event)"

section \<open>The search indexer\<close>

text \<open>The document of a message event. \<open>Snowflake::from\<close> takes the bits of the number.\<close>

definition event_document :: "json \<Rightarrow> json \<Rightarrow> message_document option" where
  "event_document event message =
     Option.bind (json_get_str ''content'' message) (\<lambda>content.
       if content = [] then None
       else map_option (\<lambda>i. new_document (of_int i) (of_int (unwrap_or 0 (json_get_i64 ''channel_id'' event)))
           (of_int (unwrap_or 0 (json_get_i64 ''server_id'' event))) (of_int (unwrap_or 0 (json_id ''author_id'' message)))
           content (created_at (of_int i)))
         (json_id ''id'' message))"

text \<open>\<open>as_i64().unwrap_or(0)\<close>\<close>

definition as_i64_or_0 :: "json \<Rightarrow> int" where
  "as_i64_or_0 j = (case j of JInt v \<Rightarrow> if in_i64 v then v else 0 | _ \<Rightarrow> 0)"

definition forget_message :: "int \<Rightarrow> search_state \<Rightarrow> search_state" where
  "forget_message i s = (if i \<noteq> 0 then snd (search_delete_message (of_int i) s) else s)"

text \<open>\<open>search\<close> says whether the search service is there. Every event is acknowledged.\<close>

definition index_event :: "bool \<Rightarrow> json \<Rightarrow> search_state \<Rightarrow> outcome \<times> search_state" where
  "index_event available event s =
     (Processed,
      if event_name event = lit ''MESSAGE_CREATE''
      then (case Option.bind (json_get ''message'' event) (event_document event) of
              None \<Rightarrow> s
            | Some d \<Rightarrow> if available then snd (index_message d s) else s)
      else if event_name event = lit ''MESSAGE_DELETE''
      then (if available then forget_message (unwrap_or 0 (json_get_i64 ''message_id'' event)) s else s)
      else if event_name event = lit ''MESSAGE_DELETE_BULK''
      then (case json_get ''ids'' event of
              Some (JArr ids) \<Rightarrow> if available then fold (\<lambda>j. forget_message (as_i64_or_0 j)) ids s else s
            | _ \<Rightarrow> s)
      else s)"

section \<open>The push worker\<close>

definition plift :: "'a handler \<Rightarrow> 'a push_handler" where
  "plift h s = (case h (pu_world s) of
     (Inl e, w) \<Rightarrow> (Inl (PushErr (PushInternal e)), s\<lparr>pu_world := w\<rparr>) | (Inr x, w) \<Rightarrow> (Inr x, s\<lparr>pu_world := w\<rparr>))"

text \<open>\<open>query_scalar\<close> of a column that may be null: a null is an error of decoding.\<close>

definition decode_scalar :: "'a option option \<Rightarrow> 'a option handler" where
  "decode_scalar v = (case v of None \<Rightarrow> ret None | Some None \<Rightarrow> throw (db_error ''unexpected null'') | Some (Some x) \<Rightarrow> ret (Some x))"

definition member_ids :: "int \<Rightarrow> int \<Rightarrow> pg_db \<Rightarrow> i64 list" where
  "member_ids sid author db = map mb_user_id (filter (\<lambda>m. sint (mb_server_id m) = sid \<and> sint (mb_user_id m) \<noteq> author) (members db))"

definition worker_members :: "json \<Rightarrow> int \<Rightarrow> i64 list handler" where
  "worker_members event author =
     (case json_get_i64 ''server_id'' event of None \<Rightarrow> ret [] | Some sid \<Rightarrow> pg_query (member_ids sid author))"

text \<open>\<open>presence:{uid}\<close> of an \<open>i64\<close>, and the pipeline of \<open>EXISTS\<close>\<close>

definition worker_presence_key :: "i64 \<Rightarrow> string" where
  "worker_presence_key uid = ''presence:'' @ show_i64 uid"

definition cmd_exists_all :: "string list \<Rightarrow> bool list redis_cmd" where
  "cmd_exists_all ks now st = Inr (st, map (\<lambda>k. redis_at now st k \<noteq> None) ks)"

text \<open>Who is offline: a recipient without an answer counts as offline.\<close>

definition offline_of :: "i64 list \<Rightarrow> bool list \<Rightarrow> i64 list" where
  "offline_of recipients online =
     map (\<lambda>i. recipients ! i) (filter (\<lambda>i. \<not> (i < length online \<and> online ! i)) [0 ..< length recipients])"

definition notification_body :: "ustr \<Rightarrow> ustr" where
  "notification_body content =
     (if length content > 200 then take 197 content @ lit ''...''
      else if content = [] then lit ''Sent an attachment'' else content)"

definition message_notification :: "ustr \<Rightarrow> ustr \<Rightarrow> int \<Rightarrow> ustr \<Rightarrow> push_notification" where
  "message_notification author channel cid content =
     with_thread_id (lit (''channel-'' @ show_int cid))
       (with_data ''type'' (lit ''MESSAGE_CREATE'')
         (with_data ''channel_id'' (lit (show_int cid))
           (new_notification (author @ lit '' in #'' @ channel) (notification_body content))))"

definition push_process :: "push_external \<Rightarrow> push_service option \<Rightarrow> json \<Rightarrow> unit push_handler" where
  "push_process ext service event =
     (case json_get ''message'' event of
        None \<Rightarrow> pret ()
      | Some message \<Rightarrow>
         (let cid = unwrap_or 0 (json_get_i64 ''channel_id'' event); author = unwrap_or 0 (json_id ''author_id'' message);
              content = unwrap_or [] (json_get_str ''content'' message)
          in if event_name event \<noteq> lit ''MESSAGE_CREATE'' \<or> cid = 0 \<or> author = 0 then pret ()
             else pbind (plift (bind (pg_query (\<lambda>db. t_find (\<lambda>u. sint (u_id u) = author) (users db))) (\<lambda>u.
                    ret (case u of None \<Rightarrow> lit ''Someone'' | Some u \<Rightarrow> u_username u)))) (\<lambda>author_name.
                  pbind (plift (bind (pg_query (\<lambda>db. map_option ch_name (t_find (\<lambda>c. sint (ch_id c) = cid) (channels db)))) (\<lambda>v.
                    bind (decode_scalar v) (\<lambda>n. ret (unwrap_or (lit ''a channel'') n))))) (\<lambda>channel_name.
                  pbind (plift (worker_members event author)) (\<lambda>recipients.
                    if recipients = [] then pret ()
                    else pbind (plift (or_else [] (redis_call (cmd_exists_all (map worker_presence_key recipients))))) (\<lambda>online.
                      if offline_of recipients online = [] then pret ()
                      else (case service of
                              None \<Rightarrow> pret ()
                            | Some sv \<Rightarrow> pthen (send_to_users ext sv (offline_of recipients online)
                                (message_notification author_name channel_name cid content) 0) (pret ())))))))) "

definition push_event :: "push_external \<Rightarrow> push_service option \<Rightarrow> json \<Rightarrow> push_state \<Rightarrow> outcome \<times> push_state" where
  "push_event ext service event s =
     (case push_process ext service event s of
        (Inr _, s') \<Rightarrow> (Processed, s') | (Inl Panic, s') \<Rightarrow> (Panicked, s') | (Inl (PushErr _), s') \<Rightarrow> (Failed, s'))"

section \<open>The read state worker\<close>

text \<open>The statement writes a table of PostgreSQL that the migrations do not create; \<open>read_states\<close> is a table of ScyllaDB.\<close>

definition upsert_pg_read_state :: "i64 \<Rightarrow> int \<Rightarrow> int \<Rightarrow> bool \<Rightarrow> unit stmt" where
  "upsert_pg_read_state uid cid mid mentioned db = Inl ''relation read_states does not exist''"

definition mentioned_ids :: "json \<Rightarrow> int list" where
  "mentioned_ids message =
     (case json_get ''mentions'' message of
        Some (JArr vs) \<Rightarrow> concat (map (\<lambda>v. case v of JInt i \<Rightarrow> if in_i64 i then [i] else [] | _ \<Rightarrow> []) vs)
      | _ \<Rightarrow> [])"

definition read_state_process :: "json \<Rightarrow> unit handler" where
  "read_state_process event =
     (case json_get ''message'' event of
        None \<Rightarrow> ret ()
      | Some message \<Rightarrow>
         (let cid = unwrap_or 0 (json_get_i64 ''channel_id'' event); author = unwrap_or 0 (json_id ''author_id'' message);
              mention_everyone = (json_get ''mention_everyone'' message = Some (JBool True))
          in if event_name event \<noteq> lit ''MESSAGE_CREATE'' \<or> cid = 0 then ret ()
             else bind (worker_members event author) (\<lambda>ms.
               for_each (\<lambda>m. pg_exec (upsert_pg_read_state m cid (unwrap_or 0 (json_id ''id'' message))
                 (mention_everyone \<or> sint m \<in> set (mentioned_ids message)))) ms)))"

definition read_state_event :: "json \<Rightarrow> world \<Rightarrow> outcome \<times> world" where
  "read_state_event event w = (case read_state_process event w of (Inr _, w') \<Rightarrow> (Processed, w') | (Inl _, w') \<Rightarrow> (Failed, w'))"

end
