(* ===== verification/Push_Properties.thy ===== *)
theory Push_Properties
  imports Workers Demo
begin

text \<open>
  Whom the push worker reaches. Every request that it makes is followed through the service and the two clients by rules
  for \<open>posts\<close>, one for each operation of a push handler; and when the clients answer, everybody who is away is reached.
\<close>

section \<open>Following the requests of a handler\<close>

text \<open>The world as it was, except that device tokens may be gone.\<close>

definition loses_tokens :: "world \<Rightarrow> world \<Rightarrow> bool" where
  "loses_tokens w v \<longleftrightarrow> (\<exists>rows. set rows \<subseteq> set (device_tokens (w_pg w)) \<and> v = w\<lparr>w_pg := (w_pg w)\<lparr>device_tokens := rows\<rparr>\<rparr>)"

abbreviation only_loses :: "world \<Rightarrow> push_state \<Rightarrow> bool" where
  "only_loses w s \<equiv> loses_tokens w (pu_world s)"

definition posts :: "world \<Rightarrow> (http_request \<Rightarrow> bool) \<Rightarrow> 'a push_handler \<Rightarrow> ('a \<Rightarrow> bool) \<Rightarrow> bool" where
  "posts w P m Q \<longleftrightarrow> (\<forall>s. only_loses w s \<longrightarrow> only_loses w (snd (m s)) \<and>
     (\<exists>qs. pu_requests (snd (m s)) = pu_requests s @ qs \<and> list_all P qs) \<and> (\<forall>x. fst (m s) = Inr x \<longrightarrow> Q x))"

named_theorems posts_rules \<open>which requests the operations of a push handler make\<close>

lemma postsD:
  assumes "posts w P m Q" "only_loses w s" "m s = (r, s')"
  shows "only_loses w s'" "\<exists>qs. pu_requests s' = pu_requests s @ qs \<and> list_all P qs" "r = Inr x \<Longrightarrow> Q x"
  using assms by (auto simp: posts_def)

lemma posts_steps [posts_rules]:
  "Q x \<Longrightarrow> posts w P (pret x) Q" "posts w P (pfail e) Q" "posts w P ppanic Q"
  by (simp_all add: posts_def pret_def pfail_def ppanic_def)

lemma posts_then:
  assumes "posts w P m Q" "only_loses w s" "m s = (r, s1)" "posts w P h R"
  shows "only_loses w (snd (h s1)) \<and> (\<exists>qs. pu_requests (snd (h s1)) = pu_requests s @ qs \<and> list_all P qs) \<and>
    (\<forall>x. fst (h s1) = Inr x \<longrightarrow> R x)"
proof -
  obtain qs where qs: "pu_requests s1 = pu_requests s @ qs" "list_all P qs"
    using postsD(2) [OF assms(1-3)] by blast
  have "only_loses w s1" by (rule postsD(1) [OF assms(1-3)])
  then obtain rs where "pu_requests (snd (h s1)) = pu_requests s1 @ rs" "list_all P rs"
    using assms(4) by (auto simp: posts_def)
  moreover have "only_loses w (snd (h s1))" "\<forall>x. fst (h s1) = Inr x \<longrightarrow> R x"
    using assms(4) \<open>only_loses w s1\<close> by (auto simp: posts_def)
  ultimately show ?thesis using qs by (intro conjI exI [of _ "qs @ rs"]) auto
qed

lemma posts_bind [posts_rules]:
  assumes "posts w P m Q" "\<And>x. Q x \<Longrightarrow> posts w P (k x) R"
  shows "posts w P (pbind m k) R"
  unfolding posts_def
proof (intro allI impI)
  fix s assume s: "only_loses w s"
  obtain r s1 where m: "m s = (r, s1)" by (cases "m s")
  show "only_loses w (snd (pbind m k s)) \<and> (\<exists>qs. pu_requests (snd (pbind m k s)) = pu_requests s @ qs \<and> list_all P qs) \<and>
    (\<forall>x. fst (pbind m k s) = Inr x \<longrightarrow> R x)"
  proof (cases r)
    case (Inl e)
    then show ?thesis using postsD(1, 2) [OF assms(1) s m] by (simp add: pbind_def m)
  next
    case (Inr x)
    then show ?thesis
      using posts_then [OF assms(1) s m, of "k x" R] assms(2) postsD(3) [OF assms(1) s m] by (simp add: pbind_def m)
  qed
qed

lemma posts_match [posts_rules]:
  assumes "posts w P m Q" "\<And>x. Q x \<Longrightarrow> posts w P (k (Inr x)) R" "\<And>e. posts w P (k (Inl e)) R"
  shows "posts w P (pmatch m k) R"
  unfolding posts_def
proof (intro allI impI)
  fix s assume s: "only_loses w s"
  obtain r s1 where m: "m s = (r, s1)" by (cases "m s")
  show "only_loses w (snd (pmatch m k s)) \<and> (\<exists>qs. pu_requests (snd (pmatch m k s)) = pu_requests s @ qs \<and> list_all P qs) \<and>
    (\<forall>x. fst (pmatch m k s) = Inr x \<longrightarrow> R x)"
  proof (cases r)
    case (Inl e)
    then show ?thesis
      using postsD(1, 2) [OF assms(1) s m] posts_then [OF assms(1) s m, of "k (Inl f)" R for f] assms(3)
      by (cases e) (simp_all add: pmatch_def m)
  next
    case (Inr x)
    then show ?thesis
      using posts_then [OF assms(1) s m, of "k (Inr x)" R] assms(2) postsD(3) [OF assms(1) s m] by (simp add: pmatch_def m)
  qed
qed

lemma posts_http [posts_rules]: "P q \<Longrightarrow> posts w P (http_post err q) (\<lambda>_. True)"
  by (auto simp: posts_def http_post_def Let_def split: list.split http_reply.split)

lemma posts_cases [posts_rules]:
  "posts w P m Q \<Longrightarrow> posts w P n Q \<Longrightarrow> posts w P (if b then m else n) Q"
  "posts w P m Q \<Longrightarrow> (\<And>x. posts w P (f x) Q) \<Longrightarrow> posts w P (case v of None \<Rightarrow> m | Some x \<Rightarrow> f x) Q"
  "(\<And>e. posts w P (g e) Q) \<Longrightarrow> (\<And>x. posts w P (f x) Q) \<Longrightarrow> posts w P (case u of Inl e \<Rightarrow> g e | Inr x \<Rightarrow> f x) Q"
  "(\<And>a b. posts w P (h a b) Q) \<Longrightarrow> posts w P (case p of (a, b) \<Rightarrow> h a b) Q"
  by (auto split: option.split sum.split prod.split)

lemma posts_state [posts_rules]:
  "posts w P (pget f) (\<lambda>_. True)"
  "(\<And>s. pu_world (g s) = pu_world s \<and> pu_requests (g s) = pu_requests s) \<Longrightarrow> posts w P (pset g) (\<lambda>_. True)"
  by (auto simp: posts_def pget_def pset_def)

text \<open>A handler of the database whose world only loses tokens.\<close>

definition keeps_world :: "world \<Rightarrow> 'a handler \<Rightarrow> ('a \<Rightarrow> bool) \<Rightarrow> bool" where
  "keeps_world w h Q \<longleftrightarrow> (\<forall>v. loses_tokens w v \<longrightarrow> loses_tokens w (snd (h v)) \<and> (\<forall>x. fst (h v) = Inr x \<longrightarrow> Q x))"

lemma posts_world:
  "keeps_world w h Q \<Longrightarrow> posts w P (plift h) Q"
  "keeps_world w h Q \<Longrightarrow> Q d \<Longrightarrow> posts w P (pworld d h) Q"
  by (force simp: posts_def plift_def pworld_def keeps_world_def split: prod.split sum.split)+

lemma keeps_world_bind:
  assumes "keeps_world w m Q" "\<And>x. Q x \<Longrightarrow> keeps_world w (k x) R"
  shows "keeps_world w (bind m k) R"
  using assms by (force simp: keeps_world_def bind_def split: prod.split sum.split)

lemma keeps_world_basic:
  "Q x \<Longrightarrow> keeps_world w (ret x) Q" "keeps_world w (throw e) Q"
  by (simp_all add: keeps_world_def ret_def throw_def)

lemma keeps_world_cases:
  "keeps_world w m Q \<Longrightarrow> (\<And>x. keeps_world w (f x) Q) \<Longrightarrow> keeps_world w (case v of None \<Rightarrow> m | Some x \<Rightarrow> f x) Q"
  "(\<And>e. u = Inl e \<Longrightarrow> keeps_world w (g e) Q) \<Longrightarrow> (\<And>x. u = Inr x \<Longrightarrow> keeps_world w (h x) Q) \<Longrightarrow>
     keeps_world w (case u of Inl e \<Rightarrow> g e | Inr x \<Rightarrow> h x) Q"
  by (auto split: option.split sum.split)

lemma keeps_world_or_else: "keeps_world w m Q \<Longrightarrow> Q d \<Longrightarrow> keeps_world w (or_else d m) Q"
  by (force simp: keeps_world_def or_else_def split: prod.split sum.split)

lemma keeps_world_push_error: "keeps_world w m Q \<Longrightarrow> keeps_world w (push_error t m) Q"
  by (force simp: keeps_world_def push_error_def split: prod.split sum.split)

lemma loses_tokensE:
  assumes "loses_tokens w v"
  obtains rows where "set rows \<subseteq> set (device_tokens (w_pg w))" "v = w\<lparr>w_pg := (w_pg w)\<lparr>device_tokens := rows\<rparr>\<rparr>"
  using assms by (auto simp: loses_tokens_def)

lemma loses_tokensI [intro]:
  "set rows \<subseteq> set (device_tokens (w_pg w)) \<Longrightarrow> loses_tokens w (w\<lparr>w_pg := (w_pg w)\<lparr>device_tokens := rows\<rparr>\<rparr>)"
  by (auto simp: loses_tokens_def)

lemma keeps_world_query:
  assumes "calm w" "\<And>rows. set rows \<subseteq> set (device_tokens (w_pg w)) \<Longrightarrow> Q (q ((w_pg w)\<lparr>device_tokens := rows\<rparr>))"
  shows "keeps_world w (pg_query q) Q"
  unfolding keeps_world_def using assms
  by (auto elim!: loses_tokensE simp: pg_query_def next_call_def calm_def)

lemma keeps_world_delete:
  assumes "calm w"
  shows "keeps_world w (pg_exec (delete_device_tokens P)) (\<lambda>_. True)"
  unfolding keeps_world_def using assms
  by (auto elim!: loses_tokensE simp: pg_exec_def delete_device_tokens_def next_call_def calm_def t_delete_def intro!: loses_tokensI) blast

lemma keeps_world_redis:
  assumes "calm w" "\<And>st x. cmd (w_now w) (w_redis w) = Inr (st, x) \<Longrightarrow> st = w_redis w \<and> Q x"
  shows "keeps_world w (redis_call cmd) Q"
  unfolding keeps_world_def
proof (intro allI impI)
  fix v assume "loses_tokens w v"
  then obtain rows where v: "set rows \<subseteq> set (device_tokens (w_pg w))" "v = w\<lparr>w_pg := (w_pg w)\<lparr>device_tokens := rows\<rparr>\<rparr>"
    by (rule loses_tokensE)
  show "loses_tokens w (snd (redis_call cmd v)) \<and> (\<forall>x. fst (redis_call cmd v) = Inr x \<longrightarrow> Q x)"
  proof (cases "cmd (w_now w) (w_redis w)")
    case (Inl m)
    then show ?thesis using v assms(1) by (auto simp: redis_call_def next_call_def calm_def)
  next
    case (Inr p)
    then obtain st x where "cmd (w_now w) (w_redis w) = Inr (st, x)" by (cases p) auto
    then show ?thesis using v assms by (auto simp: redis_call_def next_call_def calm_def)
  qed
qed

section \<open>The clients and the service\<close>

definition signs_in :: "http_request \<Rightarrow> bool" where
  "signs_in q \<longleftrightarrow> (\<exists>jwt. q = PostForm google_token_url jwt)"

definition delivers :: "push_service \<Rightarrow> push_notification \<Rightarrow> ustr \<Rightarrow> http_request \<Rightarrow> bool" where
  "delivers sv n token q \<longleftrightarrow>
     (\<exists>cl access. ps_apns sv = Some cl \<and> q = PostJson (apns_url cl token) access (apns_payload n)) \<or>
     (\<exists>cl access. ps_fcm sv = Some cl \<and> q = PostJson (fcm_url cl) access (fcm_payload token n))"

definition meant_for :: "world \<Rightarrow> push_service \<Rightarrow> push_notification \<Rightarrow> (snowflake \<Rightarrow> bool) \<Rightarrow> http_request \<Rightarrow> bool" where
  "meant_for w sv n U q \<longleftrightarrow> signs_in q \<or>
     (\<exists>r \<in> set (device_tokens (w_pg w)). U (dv_user_id r) \<and> delivers sv n (dv_token r) q)"

lemma posts_bind_any: "posts w P m (\<lambda>_. True) \<Longrightarrow> (\<And>x. posts w P (k x) R) \<Longrightarrow> posts w P (pbind m k) R"
  by (rule posts_bind)

lemmas posts_any = posts_steps posts_bind_any posts_http posts_cases posts_state

lemma apns_token_posts: "posts w P (apns_token ext cl) (\<lambda>_. True)"
  unfolding apns_token_def by (intro posts_any) simp_all

lemma apns_send_posts:
  "(\<And>access. P (PostJson (apns_url cl token) access (apns_payload n))) \<Longrightarrow> posts w P (apns_send ext cl token n) (\<lambda>_. True)"
  unfolding apns_send_def by (intro posts_any apns_token_posts) simp_all

lemma fcm_token_posts: "(\<And>jwt. P (PostForm google_token_url jwt)) \<Longrightarrow> posts w P (fcm_token ext cl) (\<lambda>_. True)"
  unfolding fcm_token_def by (intro posts_any) simp_all

lemma fcm_send_posts:
  assumes "\<And>jwt. P (PostForm google_token_url jwt)" "\<And>access. P (PostJson (fcm_url cl) access (fcm_payload token n))"
  shows "posts w P (fcm_send ext cl token n) (\<lambda>_. True)"
  unfolding fcm_send_def unregistered_def by (intro posts_any fcm_token_posts) (simp_all add: assms)

lemma send_to_device_posts:
  assumes "r \<in> set (device_tokens (w_pg w))" "U (dv_user_id r)" "dt_token d = dv_token r"
  shows "posts w (meant_for w sv n U) (send_to_device ext sv d n) (\<lambda>_. True)"
proof (cases "dt_platform d")
  case Ios
  have "posts w (meant_for w sv n U) (apns_send ext cl (dt_token d) n) (\<lambda>_. True)" if "ps_apns sv = Some cl" for cl
    by (rule apns_send_posts) (use assms that in \<open>auto simp: meant_for_def delivers_def\<close>)
  then show ?thesis using Ios by (simp add: send_to_device_def posts_steps split: option.split)
next
  case Android
  have "posts w (meant_for w sv n U) (fcm_send ext cl (dt_token d) n) (\<lambda>_. True)" if "ps_fcm sv = Some cl" for cl
    by (rule fcm_send_posts) (use assms that in \<open>auto simp: meant_for_def delivers_def signs_in_def\<close>)
  then show ?thesis using Android by (simp add: send_to_device_def posts_steps split: option.split)
qed

lemma collected:
  "collect_results (map f xs) = Inr ys \<Longrightarrow> y \<in> set ys \<Longrightarrow> \<exists>x \<in> set xs. f x = Inr y"
proof (induction xs arbitrary: ys)
  case (Cons x xs)
  then show ?case by (cases "f x") (auto split: sum.splits)
qed simp

definition registered :: "world \<Rightarrow> snowflake \<Rightarrow> device_token \<Rightarrow> bool" where
  "registered w u d \<longleftrightarrow> (\<exists>r \<in> set (device_tokens (w_pg w)). dv_user_id r = u \<and> dt_token d = dv_token r)"

lemma get_tokens_keeps:
  assumes "calm w"
  shows "keeps_world w (get_tokens u) (\<lambda>ds. \<forall>d \<in> set ds. registered w u d)"
proof -
  have "registered w u d" if rows: "set rows \<subseteq> set (device_tokens (w_pg w))" and d: "d \<in> set ds" and
      ds: "collect_results (map device_token_of (device_rows u ((w_pg w)\<lparr>device_tokens := rows\<rparr>))) = Inr ds" for rows ds d
  proof -
    obtain r where "r \<in> set (device_rows u ((w_pg w)\<lparr>device_tokens := rows\<rparr>))" "device_token_of r = Inr d"
      using collected [OF ds d] by blast
    then show ?thesis
      using rows by (auto simp: registered_def device_rows_def device_token_of_def intro!: bexI [of _ r] split: sum.splits)
  qed
  then have "keeps_world w (push_error ''Failed to get device tokens'' (pg_query (device_rows u)))
      (\<lambda>rows. \<forall>ds. collect_results (map device_token_of rows) = Inr ds \<longrightarrow> (\<forall>d \<in> set ds. registered w u d))"
    by (intro keeps_world_push_error keeps_world_query [OF assms]) blast
  then show ?thesis
    unfolding get_tokens_def by (rule keeps_world_bind) (auto intro: keeps_world_cases keeps_world_basic)
qed

lemma remove_invalid_keeps: "calm w \<Longrightarrow> keeps_world w (remove_invalid_token token) (\<lambda>_. True)"
  unfolding remove_invalid_token_def
  by (rule keeps_world_bind [OF keeps_world_push_error [OF keeps_world_delete]]) (simp_all add: keeps_world_basic)

lemma posts_match_any:
  "posts w P m (\<lambda>_. True) \<Longrightarrow> (\<And>r. posts w P (k r) R) \<Longrightarrow> posts w P (pmatch m k) R"
  by (rule posts_match)

lemma send_to_devices_posts:
  assumes "calm w" "ps_tokens sv = Postgres" "U u" "\<forall>d \<in> set ds. registered w u d"
  shows "posts w (meant_for w sv n U) (send_to_devices ext sv ds n count) (\<lambda>_. True)"
  using assms(4)
proof (induction ds arbitrary: count)
  case Nil
  show ?case by (simp add: posts_steps)
next
  case (Cons d ds)
  then obtain r where "r \<in> set (device_tokens (w_pg w))" "U (dv_user_id r)" "dt_token d = dv_token r"
    using assms(3) by (auto simp: registered_def)
  then have "posts w (meant_for w sv n U) (send_to_device ext sv d n) (\<lambda>_. True)"
    by (rule send_to_device_posts)
  moreover have "posts w (meant_for w sv n U) (send_to_devices ext sv ds n k) (\<lambda>_. True)" for k
    using Cons by simp
  moreover have "posts w (meant_for w sv n U) (backend_remove_invalid_token (ps_tokens sv) token) (\<lambda>_. True)" for token
    by (simp add: backend_remove_invalid_token_def assms(2) posts_world remove_invalid_keeps assms(1))
  ultimately show ?case
    by (auto intro!: posts_match_any posts_bind_any split: sum.split push_service_error.split)
qed

lemma send_to_users_posts:
  assumes "calm w" "ps_tokens sv = Postgres" "\<forall>u \<in> set us. U u"
  shows "posts w (meant_for w sv n U) (send_to_users ext sv us n count) (\<lambda>_. True)"
  using assms(3)
proof (induction us arbitrary: count)
  case Nil
  show ?case by (simp add: posts_steps)
next
  case (Cons u us)
  have "posts w (meant_for w sv n U) (backend_get_tokens (ps_tokens sv) u) (\<lambda>ds. \<forall>d \<in> set ds. registered w u d)"
    using posts_world(2) [OF get_tokens_keeps [OF assms(1)]] by (simp add: backend_get_tokens_def assms(2))
  then have "posts w (meant_for w sv n U) (send_to_user ext sv u n) (\<lambda>_. True)"
    unfolding send_to_user_def using Cons.prems assms(1, 2)
    by (auto intro!: posts_bind posts_cases posts_steps send_to_devices_posts)
  moreover have "posts w (meant_for w sv n U) (send_to_users ext sv us n k) (\<lambda>_. True)" for k
    using Cons by simp
  ultimately show ?case
    by (auto intro!: posts_match_any split: sum.split)
qed

section \<open>The worker\<close>

definition event_author :: "json \<Rightarrow> int" where
  "event_author event = (case json_get ''message'' event of None \<Rightarrow> 0 | Some m \<Rightarrow> unwrap_or 0 (json_id ''author_id'' m))"

definition event_text :: "json \<Rightarrow> ustr" where
  "event_text event = (case json_get ''message'' event of None \<Rightarrow> [] | Some m \<Rightarrow> unwrap_or [] (json_get_str ''content'' m))"

definition other_member :: "world \<Rightarrow> json \<Rightarrow> snowflake \<Rightarrow> bool" where
  "other_member w event u \<longleftrightarrow> sint u \<noteq> event_author event \<and>
     (\<exists>m \<in> set (members (w_pg w)). json_get_i64 ''server_id'' event = Some (sint (mb_server_id m)) \<and> mb_user_id m = u)"

definition is_away :: "world \<Rightarrow> snowflake \<Rightarrow> bool" where
  "is_away w u \<longleftrightarrow> redis_at (w_now w) (w_redis w) (worker_presence_key u) = None"

text \<open>A sign-in, or the text of the event for a device of a member who is away.\<close>

definition rightful :: "world \<Rightarrow> push_service \<Rightarrow> json \<Rightarrow> http_request \<Rightarrow> bool" where
  "rightful w sv event q \<longleftrightarrow> signs_in q \<or>
     (\<exists>r n. r \<in> set (device_tokens (w_pg w)) \<and> other_member w event (dv_user_id r) \<and> is_away w (dv_user_id r) \<and>
        nt_body n = notification_body (event_text event) \<and> delivers sv n (dv_token r) q)"

lemma posts_mono: "posts w P m Q \<Longrightarrow> (\<And>q. P q \<Longrightarrow> P' q) \<Longrightarrow> posts w P' m Q"
  unfolding posts_def by (metis list.pred_mono_strong)

lemma members_keep:
  assumes "calm w" "author = event_author event"
  shows "keeps_world w (worker_members event author) (\<lambda>us. \<forall>u \<in> set us. other_member w event u)"
  unfolding worker_members_def
  by (auto intro!: keeps_world_query keeps_world_basic
    simp: assms member_ids_def other_member_def split: option.split)

lemma presence_keeps:
  assumes "calm w"
  shows "keeps_world w (or_else [] (redis_call (cmd_exists_all (map worker_presence_key us)))) (\<lambda>online. online = map (\<lambda>u. \<not> is_away w u) us)"
  unfolding keeps_world_def using assms
  by (auto elim!: loses_tokensE simp: or_else_def redis_call_def next_call_def calm_def cmd_exists_all_def is_away_def comp_def)

lemma offline_is_away: "u \<in> set (offline_of us (map (\<lambda>u. \<not> is_away w u) us)) \<Longrightarrow> u \<in> set us \<and> is_away w u"
  by (auto simp: offline_of_def)

lemma keeps_world_any: "calm w \<Longrightarrow> keeps_world w (pg_query q) (\<lambda>_. True)"
  by (rule keeps_world_query) simp_all

lemma push_process_posts:
  assumes "calm w" "ps_tokens sv = Postgres"
  shows "posts w (rightful w sv event) (push_process ext (Some sv) event) (\<lambda>_. True)"
proof (cases "json_get ''message'' event")
  case None
  then show ?thesis by (simp add: push_process_def posts_steps)
next
  case (Some m)
  define content where "content = unwrap_or [] (json_get_str ''content'' m)"
  have body: "event_text event = content" by (simp add: event_text_def Some content_def)
  have author: "unwrap_or 0 (json_id ''author_id'' m) = event_author event" by (simp add: event_author_def Some)
  have send: "posts w (rightful w sv event) (pthen (send_to_users ext sv (offline_of us online) (message_notification a c cid content) 0) (pret ()))
      (\<lambda>_. True)" if us: "\<forall>u \<in> set us. other_member w event u" and online: "online = map (\<lambda>u. \<not> is_away w u) us" for us online a c cid
  proof -
    have "\<forall>u \<in> set (offline_of us online). other_member w event u \<and> is_away w u"
      using us offline_is_away online by blast
    from send_to_users_posts [OF assms this, of "message_notification a c cid content" ext 0]
    have "posts w (rightful w sv event) (send_to_users ext sv (offline_of us online) (message_notification a c cid content) 0) (\<lambda>_. True)"
      by (rule posts_mono) (auto simp: meant_for_def rightful_def body message_notification_def new_notification_def
        with_data_def with_thread_id_def)
    then show ?thesis by (rule posts_bind_any) (simp add: posts_steps)
  qed
  have name: "posts w P (plift (bind (pg_query q) (\<lambda>u. ret (f u)))) (\<lambda>_. True)" for P q f
    by (rule posts_world(1)) (rule keeps_world_bind [OF keeps_world_any [OF assms(1)]], rule keeps_world_basic, rule TrueI)
  have channel: "posts w P (plift (bind (pg_query q) (\<lambda>v. bind (decode_scalar v) (\<lambda>n. ret (f n))))) (\<lambda>_. True)"
    for P q f
    by (rule posts_world(1)) (rule keeps_world_bind [OF keeps_world_any [OF assms(1)]],
      auto simp: keeps_world_def decode_scalar_def bind_def ret_def throw_def split: option.split)
  have rest: "posts w (rightful w sv event) (pbind (plift (worker_members event (event_author event))) (\<lambda>us.
      if us = [] then pret () else pbind (plift (or_else [] (redis_call (cmd_exists_all (map worker_presence_key us))))) (\<lambda>online.
        if offline_of us online = [] then pret ()
        else pthen (send_to_users ext sv (offline_of us online) (message_notification a c cid content) 0) (pret ())))) (\<lambda>_. True)" for a c cid
    by (rule posts_bind [OF posts_world(1) [OF members_keep [OF assms(1) refl]]], rule posts_cases(1), simp add: posts_steps,
      rule posts_bind [OF posts_world(1) [OF presence_keeps [OF assms(1)]]], rule posts_cases(1), simp add: posts_steps)
      (rule send)
  show ?thesis
    unfolding push_process_def Some option.case Let_def author content_def [symmetric]
    by (rule posts_cases(1), simp add: posts_steps, rule posts_bind_any [OF name], rule posts_bind_any [OF channel], rule rest)
qed


section \<open>Who is notified\<close>

text \<open>The state after some requests, with one reply used for each.\<close>

definition after_posts :: "http_request list \<Rightarrow> push_state \<Rightarrow> push_state" where
  "after_posts qs s = s\<lparr>pu_requests := pu_requests s @ qs, pu_replies := drop (length qs) (pu_replies s)\<rparr>"

definition accepted :: "http_reply \<Rightarrow> bool" where
  "accepted r \<longleftrightarrow> (case r of Unreachable \<Rightarrow> False | Reply status _ \<Rightarrow> status = 200)"

definition signed_in :: "ustr \<Rightarrow> push_state \<Rightarrow> bool" where
  "signed_in access s \<longleftrightarrow> fresh_token (pu_fcm_token s) (w_now (pu_world s)) = Some access \<and> list_all accepted (pu_replies s)"

lemma after_posts_simps [simp]:
  "after_posts [] s = s" "after_posts rs (after_posts qs s) = after_posts (qs @ rs) s" "pu_world (after_posts qs s) = pu_world s"
  "signed_in access s \<Longrightarrow> signed_in access (after_posts qs s)"
  by (auto simp: after_posts_def signed_in_def add.commute list_all_iff dest: in_set_dropD)

abbreviation fcm_request :: "fcm_client \<Rightarrow> ustr \<Rightarrow> push_notification \<Rightarrow> ustr \<Rightarrow> http_request" where
  "fcm_request cl access n token \<equiv> PostJson (fcm_url cl) access (fcm_payload token n)"

lemma fcm_accepted:
  assumes "signed_in access s" "token \<noteq> []"
  obtains r where "fcm_send ext cl token n s = (r, after_posts [fcm_request cl access n token] s)" "r = Inr () \<or> (\<exists>m. r = Inl (PushErr (FcmError m)))"
proof -
  have token: "fcm_token ext cl s = (Inr access, s)"
    using assms(1) by (simp add: signed_in_def fcm_token_def pbind_def pget_def pret_def)
  show thesis
  proof (cases "pu_replies s")
    case Nil
    then show thesis
      using assms(2) by (intro that) (auto simp: fcm_send_def pbind_def token http_post_def Let_def after_posts_def)
  next
    case (Cons r rs)
    then obtain b where "r = Reply 200 b"
      using assms(1) by (cases r) (auto simp: signed_in_def accepted_def)
    then show thesis
      using assms(2) Cons by (intro that) (auto simp: fcm_send_def pbind_def token http_post_def Let_def after_posts_def pret_def)
  qed
qed

lemma devices_notified:
  assumes "signed_in access s" "ps_fcm sv = Some cl" "list_all (\<lambda>d. dt_platform d = Android \<and> dt_token d \<noteq> []) ds"
  shows "\<exists>k. send_to_devices ext sv ds n count s = (Inr k, after_posts (map (\<lambda>d. fcm_request cl access n (dt_token d)) ds) s)"
  using assms(1, 3)
proof (induction ds arbitrary: count s)
  case Nil
  then show ?case by (simp add: pret_def)
next
  case (Cons d ds)
  obtain r where r: "fcm_send ext cl (dt_token d) n s = (r, after_posts [fcm_request cl access n (dt_token d)] s)"
      "r = Inr () \<or> (\<exists>m. r = Inl (PushErr (FcmError m)))"
    using fcm_accepted [of access s "dt_token d" ext cl n] Cons.prems by auto
  have rest: "\<exists>k. send_to_devices ext sv ds n c (after_posts [fcm_request cl access n (dt_token d)] s) =
      (Inr k, after_posts (map (\<lambda>d. fcm_request cl access n (dt_token d)) (d # ds)) s)" for c
    using Cons.IH [of "after_posts [fcm_request cl access n (dt_token d)] s" c] Cons.prems by simp
  have "send_to_device ext sv d n s = (r, after_posts [fcm_request cl access n (dt_token d)] s)"
    using Cons.prems r(1) by (simp add: send_to_device_def assms(2))
  then show ?case using rest r(2) by (auto simp: pmatch_def)
qed

lemma collected_all: "(\<And>x. x \<in> set xs \<Longrightarrow> f x = Inr (g x)) \<Longrightarrow> collect_results (map f xs) = Inr (map g xs)"
  by (induction xs) simp_all

lemma user_notified:
  assumes "signed_in access s" "ps_fcm sv = Some cl" "calm (pu_world s)" "ps_tokens sv = Postgres"
    and "list_all (\<lambda>r. dv_platform r = 1 \<and> dv_token r \<noteq> []) (device_tokens (w_pg (pu_world s)))"
  obtains r where "send_to_user ext sv u n s =
      (r, after_posts (map (\<lambda>r. fcm_request cl access n (dv_token r)) (device_rows u (w_pg (pu_world s)))) s)" "r \<noteq> Inl Panic"
proof -
  let ?rows = "device_rows u (w_pg (pu_world s))"
  define dev where "dev r = \<lparr>dt_id = Some (dv_id r), dt_token = dv_token r, dt_platform = Android, dt_user_id = dv_user_id r,
      dt_device_name = None\<rparr>" for r :: device_token_row
  have rows: "dv_platform r = 1 \<and> dv_token r \<noteq> []" if "r \<in> set ?rows" for r
    using that assms(5) by (auto simp: device_rows_def list_all_iff)
  have "collect_results (map device_token_of ?rows) = Inr (map dev ?rows)"
    using rows by (intro collected_all) (simp add: device_token_of_def platform_from_i16_def dev_def)
  then have get: "backend_get_tokens (ps_tokens sv) u s = (Inr (map dev ?rows), s)"
    using assms(3) by (simp add: backend_get_tokens_def assms(4) pworld_def get_tokens_def push_error_def bind_def run ret_def)
  show thesis
  proof (cases "?rows = []")
    case True
    then have "send_to_user ext sv u n s = (Inl (PushErr (TokenNotFound u)), after_posts (map (\<lambda>r. fcm_request cl access n (dv_token r)) ?rows) s)"
      by (simp add: send_to_user_def pbind_def get pfail_def)
    then show thesis by (rule that) simp
  next
    case False
    have "list_all (\<lambda>d. dt_platform d = Android \<and> dt_token d \<noteq> []) (map dev ?rows)"
      using rows by (simp add: dev_def list_all_iff)
    then obtain k where "send_to_devices ext sv (map dev ?rows) n 0 s =
        (Inr k, after_posts (map (\<lambda>d. fcm_request cl access n (dt_token d)) (map dev ?rows)) s)"
      using devices_notified [OF assms(1, 2)] by blast
    then have "send_to_user ext sv u n s = (Inr k, after_posts (map (\<lambda>r. fcm_request cl access n (dv_token r)) ?rows) s)"
      using False by (simp add: send_to_user_def pbind_def get dev_def comp_def)
    then show thesis by (rule that) simp
  qed
qed

lemma users_notified:
  assumes "signed_in access s" "ps_fcm sv = Some cl" "calm (pu_world s)" "ps_tokens sv = Postgres"
    and "list_all (\<lambda>r. dv_platform r = 1 \<and> dv_token r \<noteq> []) (device_tokens (w_pg (pu_world s)))"
  shows "\<exists>k. send_to_users ext sv us n count s = (Inr k, after_posts (concat (map (\<lambda>u.
    map (\<lambda>r. fcm_request cl access n (dv_token r)) (device_rows u (w_pg (pu_world s)))) us)) s)"
  using assms(1, 3, 5)
proof (induction us arbitrary: count s)
  case Nil
  then show ?case by (simp add: pret_def)
next
  case (Cons u us)
  obtain r where r: "send_to_user ext sv u n s =
      (r, after_posts (map (\<lambda>r. fcm_request cl access n (dv_token r)) (device_rows u (w_pg (pu_world s)))) s)" "r \<noteq> Inl Panic"
    using user_notified [OF Cons.prems(1) assms(2) Cons.prems(2) assms(4) Cons.prems(3)] .
  let ?s = "after_posts (map (\<lambda>r. fcm_request cl access n (dv_token r)) (device_rows u (w_pg (pu_world s)))) s"
  have "\<exists>k. send_to_users ext sv us n c ?s = (Inr k, after_posts (concat (map (\<lambda>u.
      map (\<lambda>r. fcm_request cl access n (dv_token r)) (device_rows u (w_pg (pu_world s)))) (u # us))) s)" for c
    using Cons.IH [of ?s c] Cons.prems by simp
  then show ?case using r by (auto simp: pmatch_def split: sum.split push_failure.split)
qed

lemma offline_filter: "offline_of us (map (\<lambda>u. \<not> P u) us) = filter P us"
proof -
  have "filter (\<lambda>i. \<not> (i < length (map (\<lambda>u. \<not> P u) us) \<and> map (\<lambda>u. \<not> P u) us ! i)) [0 ..< length us] =
      filter (P \<circ> (!) us) [0 ..< length us]"
    by (rule filter_cong) auto
  moreover have "map ((!) us) (filter (P \<circ> (!) us) [0 ..< length us]) = filter P (map ((!) us) [0 ..< length us])"
    by (simp add: filter_map)
  ultimately show ?thesis by (simp only: offline_of_def map_nth)
qed


section \<open>At work\<close>

text \<open>The member 7 of the demo server is away, with an Android device; 8 writes.\<close>

definition demo_push_message :: json where
  "demo_push_message = JObj [(''author_id'', JInt 8), (''content'', jlit ''hi'')]"

definition demo_push_event :: json where
  "demo_push_event = JObj [(''type'', jlit ''MESSAGE_CREATE''), (''channel_id'', JInt 1), (''server_id'', JInt (sint home_id)),
     (''message'', demo_push_message)]"

definition demo_fcm :: fcm_client where
  "demo_fcm = \<lparr>fc_project_id = lit ''p'', fc_email = []\<rparr>"

definition demo_push_service :: push_service where
  "demo_push_service = \<lparr>ps_apns = None, ps_fcm = Some demo_fcm, ps_tokens = Postgres\<rparr>"

definition demo_device_row :: device_token_row where
  "demo_device_row = \<lparr>dv_id = 1, dv_user_id = 7, dv_platform = 1, dv_token = [97, 97, 97, 97, 97, 97, 97, 233], dv_created_at = 0\<rparr>"

definition demo_push_world :: world where
  "demo_push_world = demo_world (home_db\<lparr>device_tokens := [demo_device_row]\<rparr>)"

definition demo_push_state :: "http_reply \<Rightarrow> push_state" where
  "demo_push_state reply = \<lparr>pu_world = demo_push_world, pu_memory = (\<lambda>_. None), pu_apns_token = None,
     pu_fcm_token = Some (lit ''t'', demo_now + 1), pu_replies = [reply], pu_requests = []\<rparr>"

definition demo_push_external :: push_external where
  "demo_push_external = \<lparr>px_apns_sign = (\<lambda>_ _ _. Inr []), px_google_sign = (\<lambda>_ _ _. Inr []), px_parse = (\<lambda>_. None)\<rparr>"

lemmas push_run = pbind_def plift_def pret_def pfail_def ppanic_def pmatch_def pget_def pset_def pworld_def http_post_def

lemma demo_event_facts [simp]:
  "json_get ''message'' demo_push_event = Some demo_push_message"
  "json_get_i64 ''channel_id'' demo_push_event = Some 1" "json_get_i64 ''server_id'' demo_push_event = Some (sint home_id)"
  "event_name demo_push_event = lit ''MESSAGE_CREATE''" "json_id ''author_id'' demo_push_message = Some 8"
  "json_get_str ''content'' demo_push_message = Some (lit ''hi'')"
  by (simp_all add: demo_push_event_def demo_push_message_def json_get_def json_get_i64_def in_i64_def event_name_def
    json_get_str_def unwrap_or_def json_id_def)

lemma demo_push_facts [simp]:
  "calm demo_push_world" "w_now demo_push_world = demo_now" "redis_at now (w_redis demo_push_world) k = None"
  "device_tokens (w_pg demo_push_world) = [demo_device_row]" "member_ids 20975616 8 (w_pg demo_push_world) = [7]"
  "pu_world (demo_push_state reply) = demo_push_world" "demo_push_state reply\<lparr>pu_world := demo_push_world\<rparr> = demo_push_state reply"
  "demo_push_world\<lparr>w_redis := w_redis demo_push_world\<rparr> = demo_push_world"
  by (simp_all add: demo_push_world_def demo_world_def calm_def redis_at_def home_defs member_ids_def demo_push_state_def)

lemma demo_push_reads [simp]:
  "pg_query q demo_push_world = (Inr (q (w_pg demo_push_world)), demo_push_world)"
  "redis_call (cmd_exists_all ks) demo_push_world = (Inr (map (\<lambda>_. False) ks), demo_push_world)"
  by (simp_all add: run cmd_exists_all_def)

lemma demo_push_process:
  obtains author channel where "push_process demo_push_external (Some demo_push_service) demo_push_event (demo_push_state reply) =
     pthen (send_to_users demo_push_external demo_push_service [7] (message_notification author channel 1 (lit ''hi'')) 0) (pret ())
       (demo_push_state reply)"
proof -
  have "t_find (\<lambda>c. sint (ch_id c) = 1) (channels (w_pg demo_push_world)) = None"
    by (simp add: demo_push_world_def demo_world_def t_find_def home_defs)
  moreover have "offline_of [7] [False] = [7 :: 64 word]" by (simp add: offline_of_def)
  ultimately show ?thesis
    by (intro that) (simp add: push_process_def Let_def pbind_def [of "plift h" for h] plift_def bind_def ret_def
      worker_members_def or_else_def decode_scalar_def unwrap_or_def del: send_to_users.simps lit_simps)
qed

definition demo_device :: device_token where
  "demo_device = \<lparr>dt_id = Some 1, dt_token = dv_token demo_device_row, dt_platform = Android, dt_user_id = 7, dt_device_name = None\<rparr>"

lemma demo_tokens: "get_tokens 7 demo_push_world = (Inr [demo_device], demo_push_world)"
  by (simp add: get_tokens_def bind_def push_error_def device_rows_def device_token_of_def platform_from_i16_def ret_def
    demo_device_def) (simp add: demo_device_row_def)

definition demo_posted :: "push_notification \<Rightarrow> http_reply \<Rightarrow> push_state" where
  "demo_posted n reply = (demo_push_state reply)\<lparr>pu_requests :=
     [PostJson (fcm_url demo_fcm) (lit ''t'') (fcm_payload (dv_token demo_device_row) n)], pu_replies := []\<rparr>"

lemma demo_fcm_token: "fcm_token demo_push_external demo_fcm (demo_push_state reply) = (Inr (lit ''t''), demo_push_state reply)"
  by (simp add: fcm_token_def push_run fresh_token_def) (simp add: demo_push_state_def pret_def)

lemma demo_fcm_post:
  "fcm_send demo_push_external demo_fcm (dv_token demo_device_row) n (demo_push_state (Reply 200 body)) =
     (Inr (), demo_posted n (Reply 200 body))"
  "fcm_send demo_push_external demo_fcm (dv_token demo_device_row) n (demo_push_state (Reply 404 (lit ''not found''))) =
     (Inl Panic, demo_posted n (Reply 404 (lit ''not found'')))"
proof -
  have post: "http_post err (PostJson (fcm_url demo_fcm) (lit ''t'') (fcm_payload (dv_token demo_device_row) n))
      (demo_push_state (Reply status body)) = (Inr (status, body), demo_posted n (Reply status body))" for err status body
    by (simp add: http_post_def Let_def demo_posted_def) (simp add: demo_push_state_def)
  have token: "dv_token demo_device_row \<noteq> []" "take_bytes (min 8 (utf8_len (dv_token demo_device_row))) (dv_token demo_device_row) = None"
    by (simp_all add: demo_device_row_def utf8_len_def utf8_width_def)
  have "mentions_text ''not found'' (lit ''not found'')" by (simp add: mentions_text_def)
  then show "fcm_send demo_push_external demo_fcm (dv_token demo_device_row) n (demo_push_state (Reply 404 (lit ''not found''))) =
     (Inl Panic, demo_posted n (Reply 404 (lit ''not found'')))"
    by (simp add: fcm_send_def pbind_def demo_fcm_token post token unregistered_def ppanic_def del: lit_simps)
  show "fcm_send demo_push_external demo_fcm (dv_token demo_device_row) n (demo_push_state (Reply 200 body)) =
     (Inr (), demo_posted n (Reply 200 body))"
    by (simp add: fcm_send_def pbind_def demo_fcm_token post token pret_def del: lit_simps)
qed

lemma demo_send:
  "send_to_users demo_push_external demo_push_service [7] n 0 (demo_push_state (Reply 200 body)) = (Inr 1, demo_posted n (Reply 200 body))"
  "send_to_users demo_push_external demo_push_service [7] n 0 (demo_push_state (Reply 404 (lit ''not found''))) =
     (Inl Panic, demo_posted n (Reply 404 (lit ''not found'')))"
  by (simp_all add: push_run send_to_user_def demo_push_service_def backend_get_tokens_def demo_tokens send_to_device_def
    demo_device_def demo_fcm_post del: lit_simps)



text \<open>A token with a wide character stops the push worker: when FCM answers 404 for a token whose eighth byte is inside a
  character, handling the event panics, the task of the worker ends, and whatever else is queued is never handled.\<close>

theorem wide_token_stops_push_worker:
  "\<exists>s'. consume (push_event demo_push_external (Some demo_push_service)) ((0, demo_push_event) # queue)
      (demo_push_state (Reply 404 (lit ''not found''))) = (False, s', queue)"
proof -
  obtain author channel where run: "push_process demo_push_external (Some demo_push_service) demo_push_event
      (demo_push_state (Reply 404 (lit ''not found''))) =
     pthen (send_to_users demo_push_external demo_push_service [7] (message_notification author channel 1 (lit ''hi'')) 0) (pret ())
       (demo_push_state (Reply 404 (lit ''not found'')))"
    by (rule demo_push_process)
  show ?thesis
    by (simp only: consume.simps push_event_def run pbind_def demo_send prod.case sum.case push_failure.case outcome.case) simp
qed

end
