(* ===== verification/Worker_Properties.thy ===== *)
theory Worker_Properties
  imports Push_Properties Message_Properties
begin

text \<open>
  What the search indexer and the read state worker do with the events of the message routes: the indexer gets exactly the
  message that was sent, and the read state worker never gets anywhere.
\<close>

section \<open>From a sent message to the search index\<close>

named_theorems durable_intros \<open>handlers that publish nothing durable\<close>

definition no_durable :: "'a handler \<Rightarrow> bool" where
  "no_durable h \<longleftrightarrow> (\<forall>w. w_durable (snd (h w)) = w_durable w)"

lemma next_call_durable [simp]: "w_durable (snd (next_call w)) = w_durable w"
  by (simp add: next_call_def split: list.split)

lemma no_durable_basic [durable_intros]:
  "no_durable (ret x)" "no_durable (throw e)" "no_durable (ensure b e)" "no_durable (ok_or v e)" "no_durable utc_now"
  "no_durable fresh_id" "no_durable (pg_query q)" "no_durable (pg_exec st)" "no_durable (scylla_query sq)" "no_durable (scylla_exec f)"
  "no_durable (redis_call cmd)" "no_durable (publish subject payload)"
  by (simp_all add: no_durable_def ret_def throw_def ensure_def ok_or_def utc_now_def fresh_id_def pg_query_def pg_exec_def
    scylla_query_def scylla_exec_def redis_call_def publish_def Let_def split_beta
    split: option.split sum.split call_outcome.split)

lemma no_durable_bind [durable_intros]: "no_durable m \<Longrightarrow> (\<And>x. no_durable (k x)) \<Longrightarrow> no_durable (bind m k)"
  unfolding no_durable_def bind_def by (auto split: prod.split sum.split) (metis snd_conv)+

lemma no_durable_wrap [durable_intros]: "no_durable m \<Longrightarrow> no_durable (or_else d m)" "no_durable m \<Longrightarrow> no_durable (is_ok m)"
  unfolding no_durable_def or_else_def is_ok_def by (auto split: prod.split sum.split) (metis snd_conv)+

lemma no_durable_cases [durable_intros]:
  "no_durable m \<Longrightarrow> no_durable n \<Longrightarrow> no_durable (if b then m else n)"
  "no_durable m \<Longrightarrow> (\<And>x. no_durable (f x)) \<Longrightarrow> no_durable (case v of None \<Rightarrow> m | Some x \<Rightarrow> f x)"
  by (auto split: option.split)

lemma no_durable_checks [durable_intros]:
  "no_durable (check_channel_permission cid uid perm)" "no_durable (check_slowmode cid uid n)" "no_durable (check_timeout server uid)"
  "no_durable (may_mention_everyone b server uid)" "no_durable (redis_set_ex k v n)"
  unfolding check_channel_permission_def get_channel_server_def require_permissions_def require_member_def get_user_permissions_def
    check_slowmode_def check_timeout_def may_mention_everyone_def redis_set_ex_def redis_exists_or_false_def Let_def
  by (auto intro!: durable_intros split: option.split)

definition on_success :: "'a handler \<Rightarrow> ('a \<Rightarrow> (string \<times> json) list \<Rightarrow> bool) \<Rightarrow> (string \<times> json) list \<Rightarrow> bool" where
  "on_success m Q d \<longleftrightarrow> (\<forall>w x w'. w_durable w = d \<longrightarrow> m w = (Inr x, w') \<longrightarrow> Q x (w_durable w'))"

lemma on_success_bind: "on_success m (\<lambda>x. on_success (k x) Q) d \<Longrightarrow> on_success (bind m k) Q d"
  unfolding on_success_def bind_def by (auto split: prod.splits sum.splits)

lemma on_success_none: "no_durable h \<Longrightarrow> (\<And>x. Q x d) \<Longrightarrow> on_success h Q d"
  unfolding on_success_def no_durable_def by (metis snd_conv)

lemma on_success_prod: "(\<And>a b c. on_success (f a b c) Q d) \<Longrightarrow> on_success (case p of (a, b, c) \<Rightarrow> f a b c) Q d"
  by (auto split: prod.split)

lemma on_success_ret: "Q x d \<Longrightarrow> on_success (ret x) Q d"
  by (simp add: on_success_def ret_def)

lemma on_success_durable: "Q () d \<Longrightarrow> Q () (d @ [(subject, e)]) \<Longrightarrow> on_success (publish_durable subject e) Q d"
  by (auto simp: on_success_def publish_durable_def Let_def split_beta)

text \<open>The event of a message.\<close>

definition create_event :: "(int \<Rightarrow> ustr) \<Rightarrow> i64 option \<Rightarrow> message_response \<Rightarrow> json" where
  "create_event rfc3339 server r = JObj [(''type'', jlit ''MESSAGE_CREATE''), (''channel_id'', ji64 (mp_channel_id r)),
     (''server_id'', jopt ji64 server), (''message'', message_json rfc3339 r)]"

lemma send_publishes:
  "on_success (send_message rfc3339 auth cid body)
     (\<lambda>(code, r) d'. mp_channel_id r = cid \<and> mp_author_id r = auth \<and> mp_content r = sm_content body \<and>
        mp_timestamp r = created_at (mp_id r) \<and>
        (d' = d \<or> (\<exists>server. d' = d @ [(persist_messages cid, create_event rfc3339 server r)]))) d"
  unfolding send_message_def Let_def
  apply (rule on_success_bind on_success_prod on_success_durable on_success_ret | (rule on_success_none, (intro durable_intros)[1]))+
  apply (auto simp: on_success_def ret_def create_event_def)
  done

lemma json_id_snow: "json_get k m = Some (jsnow x) \<Longrightarrow> 0 \<le> sint x \<Longrightarrow> json_id k m = Some (sint x)"
proof -
  assume k: "json_get k m = Some (jsnow x)" and x: "0 \<le> sint x"
  have "unat x = nat (sint x)" using sint_uint_nonneg [OF x] by (simp add: unat_eq_nat_uint)
  then have "show_u64 x = show_i64 x" using x by (simp add: show_u64_def show_i64_def)
  moreover have "utf8_bytes (lit (show_u64 x)) = show_u64 x" by simp
  ultimately show ?thesis by (simp add: json_id_def json_get_i64_def json_get_str_def k jsnow_def)
qed

lemma sint_in_i64: "in_i64 (sint (x :: i64))"
  using sint_ge [of x] sint_lt [of x] by (simp add: in_i64_def)

lemma json_i64: "json_get k m = Some (ji64 x) \<Longrightarrow> json_get_i64 k m = Some (sint x)"
  by (simp add: json_get_i64_def ji64_def sint_in_i64)

lemma index_create_event:
  assumes "calm (se_world s)" "mp_content r = Some c" "c \<noteq> []" "0 \<le> sint (mp_id r)" "0 \<le> sint (mp_author_id r)"
  shows "index_event True (create_event rfc3339 server r) s = (Processed, s\<lparr>se_tasks := se_tasks s @
    [AddDocuments [new_document (mp_id r) (mp_channel_id r) (unwrap_or 0 server) (mp_author_id r) c (created_at (mp_id r))]]\<rparr>)"
proof -
  let ?e = "create_event rfc3339 server r" and ?m = "message_json rfc3339 r"
  have m: "json_get ''content'' ?m = Some (JStr c)" "json_get ''id'' ?m = Some (jsnow (mp_id r))"
    "json_get ''author_id'' ?m = Some (jsnow (mp_author_id r))" "json_get ''type'' ?e = Some (jlit ''MESSAGE_CREATE'')"
    "json_get ''message'' ?e = Some ?m" "json_get ''channel_id'' ?e = Some (ji64 (mp_channel_id r))"
    "json_get ''server_id'' ?e = Some (jopt ji64 server)"
    by (simp_all add: message_json_def json_get_def create_event_def jopt_def assms(2))
  have "json_get_i64 ''server_id'' ?e = map_option sint server"
    using m(7) by (cases server) (simp_all add: jopt_def json_i64, simp add: json_get_i64_def)
  moreover have "event_name ?e = lit ''MESSAGE_CREATE''" by (simp add: event_name_def json_get_str_def m(4) unwrap_or_def)
  moreover have "json_get_str ''content'' ?m = Some c" by (simp add: json_get_str_def m(1))
  ultimately show ?thesis
    using assms m json_id_snow [OF m(2) assms(4)] json_id_snow [OF m(3) assms(5)] json_i64 [OF m(6)]
    by (simp add: index_event_def event_document_def index_message_def submit_def next_call_def calm_def unwrap_or_def
      option.map_comp comp_def split: option.split)
qed


definition demo_index :: search_state where
  "demo_index = \<lparr>se_world = demo_world home_db, se_tasks = []\<rparr>"


section \<open>The read state worker\<close>

text \<open>The read state worker never gets anywhere: it writes a table that PostgreSQL does not have. With every call answered,
  an event of a message in a server with another member fails each of its three deliveries, changes nothing and is dropped.\<close>

theorem read_state_worker_never_writes:
  assumes "calm w" "event_name event = lit ''MESSAGE_CREATE''" "json_get ''message'' event \<noteq> None"
    and "json_get_i64 ''channel_id'' event = Some cid" "cid \<noteq> 0" "other_member w event u"
  shows "read_state_event event w = (Failed, w) \<and> consume read_state_event [(0, event)] w = (True, w, [])"
proof -
  obtain m where m: "json_get ''message'' event = Some m" using assms(3) by auto
  obtain r where r: "r \<in> set (members (w_pg w))" "json_get_i64 ''server_id'' event = Some (sint (mb_server_id r))" "mb_user_id r = u"
      "sint u \<noteq> unwrap_or 0 (json_id ''author_id'' m)"
    using assms(6) by (auto simp: other_member_def event_author_def m)
  then have "u \<in> set (member_ids (sint (mb_server_id r)) (unwrap_or 0 (json_id ''author_id'' m)) (w_pg w))"
    by (auto simp: member_ids_def)
  then obtain v vs where vs: "member_ids (sint (mb_server_id r)) (unwrap_or 0 (json_id ''author_id'' m)) (w_pg w) = v # vs"
    by (meson list.set_cases)
  have failed: "read_state_event event w = (Failed, w)"
    using assms(1) by (simp add: read_state_event_def read_state_process_def m assms(2, 4, 5) Let_def unwrap_or_def [of 0 "Some cid"]
      worker_members_def r(2) run vs upsert_pg_read_state_def)
  then show ?thesis by (simp add: MAX_DELIVER_def)
qed

theorem read_state_worker_never_writes_witness:
  "read_state_event demo_push_event demo_push_world = (Failed, demo_push_world) \<and>
     consume read_state_event [(0, demo_push_event)] demo_push_world = (True, demo_push_world, [])"
proof (rule read_state_worker_never_writes [where cid = 1 and u = 7])
  show "other_member demo_push_world demo_push_event 7"
    by (simp add: other_member_def event_author_def unwrap_or_def) (simp add: demo_push_world_def demo_world_def home_defs)
qed simp_all

end
