(* ===== verification/Voice.thy ===== *)
theory Voice
  imports Gateway_Protocol
begin

text \<open>
  \<open>lumiere-voice\<close>: voice states in Redis, the rooms of LiveKit and its access tokens (\<open>lib.rs\<close>). LiveKit is external: the
  state records the calls that reached it, and the signing of a token, the default grants and the list of rooms are
  parameters. The batches that \<open>SCAN\<close> answers are Redis's choice and a parameter too.
\<close>

section \<open>Data\<close>

type_synonym u32 = "32 word"

datatype voice_error =
    TokenGeneration string | RoomOperation string | VoiceRedis app_error | Serialization string | StateNotFound snowflake snowflake

record voice_state =
  vs_user_id :: snowflake
  vs_channel_id :: snowflake
  vs_server_id :: snowflake
  vs_session_id :: ustr
  vs_self_mute :: bool
  vs_self_deaf :: bool
  vs_server_mute :: bool
  vs_server_deaf :: bool
  vs_suppress :: bool
  vs_self_video :: bool
  vs_self_stream :: bool
  vs_joined_at :: i64

definition new_voice_state :: "snowflake \<Rightarrow> snowflake \<Rightarrow> snowflake \<Rightarrow> ustr \<Rightarrow> int \<Rightarrow> voice_state" where
  "new_voice_state uid cid sid session now = \<lparr>vs_user_id = uid, vs_channel_id = cid, vs_server_id = sid, vs_session_id = session,
     vs_self_mute = False, vs_self_deaf = False, vs_server_mute = False, vs_server_deaf = False, vs_suppress = False,
     vs_self_video = False, vs_self_stream = False, vs_joined_at = timestamp_secs now\<rparr>"

definition voice_key :: "snowflake \<Rightarrow> snowflake \<Rightarrow> string" where
  "voice_key sid uid = ''voice_state:'' @ show_u64 sid @ '':'' @ show_u64 uid"

definition channel_members_key :: "snowflake \<Rightarrow> string" where
  "channel_members_key cid = ''voice_channel_members:'' @ show_u64 cid"

definition voice_json :: "voice_state \<Rightarrow> json" where
  "voice_json v = JObj [(''user_id'', jsnow (vs_user_id v)), (''channel_id'', jsnow (vs_channel_id v)),
     (''server_id'', jsnow (vs_server_id v)), (''session_id'', JStr (vs_session_id v)), (''self_mute'', JBool (vs_self_mute v)),
     (''self_deaf'', JBool (vs_self_deaf v)), (''server_mute'', JBool (vs_server_mute v)),
     (''server_deaf'', JBool (vs_server_deaf v)), (''suppress'', JBool (vs_suppress v)), (''self_video'', JBool (vs_self_video v)),
     (''self_stream'', JBool (vs_self_stream v)), (''joined_at'', ji64 (vs_joined_at v))]"

definition voice_fields :: "string list" where
  "voice_fields = [''user_id'', ''channel_id'', ''server_id'', ''session_id'', ''self_mute'', ''self_deaf'', ''server_mute'',
     ''server_deaf'', ''suppress'', ''self_video'', ''self_stream'', ''joined_at'']"

definition de_voice :: "json \<Rightarrow> string + voice_state" where
  "de_voice j =
     and_then (struct_fields voice_fields j) (\<lambda>fs.
     and_then (required de_snowflake (fs ''user_id'')) (\<lambda>u.
     and_then (required de_snowflake (fs ''channel_id'')) (\<lambda>c.
     and_then (required de_snowflake (fs ''server_id'')) (\<lambda>s.
     and_then (required de_string (fs ''session_id'')) (\<lambda>session.
     and_then (required de_bool (fs ''self_mute'')) (\<lambda>self_mute.
     and_then (required de_bool (fs ''self_deaf'')) (\<lambda>self_deaf.
     and_then (required de_bool (fs ''server_mute'')) (\<lambda>server_mute.
     and_then (required de_bool (fs ''server_deaf'')) (\<lambda>server_deaf.
     and_then (required de_bool (fs ''suppress'')) (\<lambda>suppress.
     and_then (required de_bool (fs ''self_video'')) (\<lambda>self_video.
     and_then (required de_bool (fs ''self_stream'')) (\<lambda>self_stream.
     and_then (json_i64 (fs ''joined_at'')) (\<lambda>joined_at.
       Inr \<lparr>vs_user_id = u, vs_channel_id = c, vs_server_id = s, vs_session_id = session, vs_self_mute = self_mute,
         vs_self_deaf = self_deaf, vs_server_mute = server_mute, vs_server_deaf = server_deaf, vs_suppress = suppress,
         vs_self_video = self_video, vs_self_stream = self_stream, vs_joined_at = joined_at\<rparr>)))))))))))))"

record voice_update =
  vu_self_mute :: "bool option"
  vu_self_deaf :: "bool option"
  vu_self_video :: "bool option"
  vu_self_stream :: "bool option"
  vu_server_mute :: "bool option"
  vu_server_deaf :: "bool option"
  vu_suppress :: "bool option"

section \<open>State\<close>

datatype room_call = CreateRoom string u32 u32 | DeleteRoom string

record voice_world =
  vw_world :: world
  vw_rooms :: "room_call list"

type_synonym 'a voice_handler = "voice_world \<Rightarrow> (voice_error + 'a) \<times> voice_world"

definition vret :: "'a \<Rightarrow> 'a voice_handler" where
  "vret x s = (Inr x, s)"

definition vfail :: "voice_error \<Rightarrow> 'a voice_handler" where
  "vfail e s = (Inl e, s)"

definition vbind :: "'a voice_handler \<Rightarrow> ('a \<Rightarrow> 'b voice_handler) \<Rightarrow> 'b voice_handler" where
  "vbind m k s = (case m s of (Inl e, s') \<Rightarrow> (Inl e, s') | (Inr x, s') \<Rightarrow> k x s')"

definition vredis :: "'a redis_cmd \<Rightarrow> 'a voice_handler" where
  "vredis cmd s =
     (case redis_call cmd (vw_world s) of
        (Inl e, w) \<Rightarrow> (Inl (VoiceRedis e), s\<lparr>vw_world := w\<rparr>) | (Inr x, w) \<Rightarrow> (Inr x, s\<lparr>vw_world := w\<rparr>))"

text \<open>A call of LiveKit: it fails before it got there, or after, or succeeds.\<close>

definition room_operation :: "room_call \<Rightarrow> unit voice_handler" where
  "room_operation c s =
     (case next_call (vw_world s) of (out, w) \<Rightarrow>
        (if out = Succeeds then Inr () else Inl (RoomOperation ''connection lost''),
         s\<lparr>vw_world := w, vw_rooms := (if out = Fails then vw_rooms s else vw_rooms s @ [c])\<rparr>))"

section \<open>Rooms\<close>

definition room_name :: "snowflake \<Rightarrow> snowflake \<Rightarrow> string" where
  "room_name sid cid = show_u64 sid @ ''_'' @ show_u64 cid"

definition create_room :: "snowflake \<Rightarrow> snowflake \<Rightarrow> u32 \<Rightarrow> unit voice_handler" where
  "create_room sid cid max_participants = room_operation (CreateRoom (room_name sid cid) 300 (max 1 (min max_participants 1000)))"

definition delete_room :: "snowflake \<Rightarrow> snowflake \<Rightarrow> unit voice_handler" where
  "delete_room sid cid =
     vbind (room_operation (DeleteRoom (room_name sid cid))) (\<lambda>_. vredis (cmd_del (channel_members_key cid)))"

definition list_rooms :: "(room_call list \<Rightarrow> string list) \<Rightarrow> string list voice_handler" where
  "list_rooms rooms s =
     (case next_call (vw_world s) of (out, w) \<Rightarrow>
        (if out = Succeeds then Inr (rooms (vw_rooms s)) else Inl (RoomOperation ''connection lost''), s\<lparr>vw_world := w\<rparr>))"

section \<open>Access tokens\<close>

record video_grants =
  vg_room_create :: bool
  vg_room_list :: bool
  vg_room_admin :: bool
  vg_room_join :: bool
  vg_room :: string
  vg_can_publish :: bool
  vg_can_subscribe :: bool
  vg_can_publish_data :: bool

record access_token =
  at_identity :: string
  at_name :: "ustr option"
  at_grants :: video_grants
  at_ttl :: int

record livekit =
  lk_defaults :: video_grants
  lk_to_jwt :: "access_token \<Rightarrow> string + string"

definition to_jwt :: "livekit \<Rightarrow> access_token \<Rightarrow> voice_error + string" where
  "to_jwt lk t = (case lk_to_jwt lk t of Inl m \<Rightarrow> Inl (TokenGeneration m) | Inr jwt \<Rightarrow> Inr jwt)"

definition generate_token :: "livekit \<Rightarrow> snowflake \<Rightarrow> ustr \<Rightarrow> snowflake \<Rightarrow> snowflake \<Rightarrow> int \<Rightarrow> voice_error + string" where
  "generate_token lk uid username sid cid ttl = to_jwt lk \<lparr>at_identity = show_u64 uid, at_name = Some username,
     at_grants = (lk_defaults lk)\<lparr>vg_room_join := True, vg_room := room_name sid cid, vg_can_publish := True,
       vg_can_subscribe := True, vg_can_publish_data := True\<rparr>, at_ttl = ttl\<rparr>"

definition generate_admin_token :: "livekit \<Rightarrow> int \<Rightarrow> voice_error + string" where
  "generate_admin_token lk ttl = to_jwt lk \<lparr>at_identity = ''lumiere-server'', at_name = None,
     at_grants = (lk_defaults lk)\<lparr>vg_room_create := True, vg_room_list := True, vg_room_admin := True\<rparr>, at_ttl = ttl\<rparr>"

section \<open>Voice states\<close>

definition set_voice_state :: "voice_state \<Rightarrow> unit voice_handler" where
  "set_voice_state v =
     vbind (vredis (cmd_set_ex (voice_key (vs_server_id v) (vs_user_id v)) (RJson (voice_json v)) 86400)) (\<lambda>_.
       vredis (cmd_sadd (channel_members_key (vs_channel_id v)) (show_u64 (vs_user_id v))))"

definition read_voice :: "redis_value \<Rightarrow> string + voice_state" where
  "read_voice x = (case x of RJson j \<Rightarrow> de_voice j | _ \<Rightarrow> Inl ''invalid type'')"

definition get_voice_state :: "snowflake \<Rightarrow> snowflake \<Rightarrow> voice_state option voice_handler" where
  "get_voice_state sid uid =
     vbind (vredis (cmd_get (voice_key sid uid))) (\<lambda>x.
       case x of
         None \<Rightarrow> vret None
       | Some y \<Rightarrow> (case read_voice y of Inl m \<Rightarrow> vfail (Serialization m) | Inr v \<Rightarrow> vret (Some v)))"

text \<open>The fields of an update, in the order of the code: deafening also mutes, after the mute of the same update.\<close>

definition apply_update :: "voice_update \<Rightarrow> voice_state \<Rightarrow> voice_state" where
  "apply_update u v =
     (let v1 = (case vu_self_mute u of None \<Rightarrow> v | Some b \<Rightarrow> v\<lparr>vs_self_mute := b\<rparr>);
          v2 = (case vu_self_deaf u of None \<Rightarrow> v1
                | Some b \<Rightarrow> (if b then v1\<lparr>vs_self_deaf := b, vs_self_mute := True\<rparr> else v1\<lparr>vs_self_deaf := b\<rparr>));
          v3 = (case vu_self_video u of None \<Rightarrow> v2 | Some b \<Rightarrow> v2\<lparr>vs_self_video := b\<rparr>);
          v4 = (case vu_self_stream u of None \<Rightarrow> v3 | Some b \<Rightarrow> v3\<lparr>vs_self_stream := b\<rparr>);
          v5 = (case vu_server_mute u of None \<Rightarrow> v4 | Some b \<Rightarrow> v4\<lparr>vs_server_mute := b\<rparr>);
          v6 = (case vu_server_deaf u of None \<Rightarrow> v5 | Some b \<Rightarrow> v5\<lparr>vs_server_deaf := b\<rparr>)
      in case vu_suppress u of None \<Rightarrow> v6 | Some b \<Rightarrow> v6\<lparr>vs_suppress := b\<rparr>)"

definition update_voice_state :: "snowflake \<Rightarrow> snowflake \<Rightarrow> voice_update \<Rightarrow> voice_state voice_handler" where
  "update_voice_state sid uid u =
     vbind (get_voice_state sid uid) (\<lambda>x.
       case x of
         None \<Rightarrow> vfail (StateNotFound uid sid)
       | Some v \<Rightarrow> vbind (set_voice_state (apply_update u v)) (\<lambda>_. vret (apply_update u v)))"

definition remove_voice_state :: "snowflake \<Rightarrow> snowflake \<Rightarrow> voice_state option voice_handler" where
  "remove_voice_state sid uid =
     vbind (get_voice_state sid uid) (\<lambda>x.
     vbind (vredis (cmd_del (voice_key sid uid))) (\<lambda>_.
       case x of
         None \<Rightarrow> vret None
       | Some v \<Rightarrow> vbind (vredis (cmd_srem (channel_members_key (vs_channel_id v)) (show_u64 uid))) (\<lambda>_. vret (Some v))))"

definition get_channel_members :: "snowflake \<Rightarrow> snowflake list voice_handler" where
  "get_channel_members cid =
     vbind (vredis (cmd_smembers (channel_members_key cid))) (\<lambda>ids.
       vret (concat (map (\<lambda>i. case parse_u64 i of Inl _ \<Rightarrow> [] | Inr u \<Rightarrow> [u]) ids)))"

text \<open>The loop over \<open>SCAN\<close>: every answer has the next cursor and some keys, cursor 0 ends it; without an answer it is an error.\<close>

fun scan_keys :: "(u64 \<times> string list) list \<Rightarrow> string list \<Rightarrow> string list voice_handler" where
  "scan_keys [] keys = vfail (VoiceRedis redis_error)"
| "scan_keys ((cursor, batch) # answers) keys =
     vbind (vredis (\<lambda>now st. Inr (st, ()))) (\<lambda>_.
       if cursor = 0 then vret (keys @ batch) else scan_keys answers (keys @ batch))"

text \<open>\<open>MGET\<close>: a key that is gone or holds no string is nil.\<close>

definition cmd_mget :: "string list \<Rightarrow> redis_value option list redis_cmd" where
  "cmd_mget ks now st = Inr (st, map (\<lambda>k. case redis_value_at now st k of
     Some (RMembers _) \<Rightarrow> None | Some (RList _) \<Rightarrow> None | v \<Rightarrow> v) ks)"

definition voice_pattern :: "snowflake \<Rightarrow> string" where
  "voice_pattern sid = ''voice_state:'' @ show_u64 sid @ '':*''"

text \<open>\<open>scan\<close> gives the answers of Redis for a pattern.\<close>

definition get_server_voice_states ::
  "(string \<Rightarrow> (u64 \<times> string list) list) \<Rightarrow> snowflake \<Rightarrow> voice_state list voice_handler" where
  "get_server_voice_states scan sid =
     vbind (scan_keys (scan (voice_pattern sid)) []) (\<lambda>keys.
       if keys = [] then vret []
       else vbind (vredis (cmd_mget keys)) (\<lambda>vs.
         vret (concat (map (\<lambda>x. case x of None \<Rightarrow> [] | Some y \<Rightarrow> (case read_voice y of Inl _ \<Rightarrow> [] | Inr v \<Rightarrow> [v])) vs))))"

end
