(* ===== verification/Voice_Properties.thy ===== *)
theory Voice_Properties
  imports Voice Demo
begin

text \<open>
  What holds of the voice states: a state reads back for a day, leaving undoes joining, and where the two records of who is
  in a channel, the states and the sets of members, come apart.
\<close>

section \<open>Keys and codec\<close>

lemma voice_codec: "de_voice (voice_json v) = Inr v"
  by (simp add: de_voice_def voice_json_def struct_fields_def voice_fields_def required_def de_string_def de_bool_def)

interpretation voice_states: text_codec voice_json de_voice
  by unfold_locales (rule voice_codec)

lemma keys_differ [simp]: "voice_key sid uid \<noteq> channel_members_key cid" "channel_members_key cid \<noteq> voice_key sid uid"
  by (simp_all add: voice_key_def channel_members_key_def)

lemma members_key_inj [simp]: "channel_members_key a = channel_members_key b \<longleftrightarrow> a = b"
  by (simp add: channel_members_key_def u64_codec.enc_inj)

section \<open>Running without failures\<close>

definition with_redis :: "redis_store \<Rightarrow> voice_world \<Rightarrow> voice_world" where
  "with_redis st s = s\<lparr>vw_world := (vw_world s)\<lparr>w_redis := st\<rparr>\<rparr>"

definition at_time :: "int \<Rightarrow> voice_world \<Rightarrow> voice_world" where
  "at_time now s = s\<lparr>vw_world := (vw_world s)\<lparr>w_now := now\<rparr>\<rparr>"

lemma with_redis_simps [simp]:
  "vw_world (with_redis st s) = (vw_world s)\<lparr>w_redis := st\<rparr>" "with_redis st (with_redis st' s) = with_redis st s"
  "with_redis (w_redis (vw_world s)) s = s"
  by (simp_all add: with_redis_def)

lemma at_time_simps [simp]: "vw_world (at_time now s) = (vw_world s)\<lparr>w_now := now\<rparr>"
  by (simp add: at_time_def)

lemma vredis_calm:
  "calm (vw_world s) \<Longrightarrow> vredis cmd s = (case cmd (w_now (vw_world s)) (w_redis (vw_world s)) of
     Inl m \<Rightarrow> (Inl (VoiceRedis (Internal (''Redis error: '' @ m))), s) | Inr (st, x) \<Rightarrow> (Inr x, with_redis st s))"
  by (simp add: vredis_def redis_call_def next_call_def calm_def with_redis_def split: sum.split prod.split)

lemmas voice_run = vredis_calm vbind_def vret_def vfail_def

lemma calm_voice [simp]:
  "calm (w\<lparr>w_redis := st\<rparr>) = calm w" "calm (w\<lparr>w_now := now\<rparr>) = calm w"
  by (simp_all add: calm_def)

text \<open>The members of a channel, as texts.\<close>

definition channel_set :: "snowflake \<Rightarrow> voice_world \<Rightarrow> string list" where
  "channel_set cid s = (case redis_value_at (w_now (vw_world s)) (w_redis (vw_world s)) (channel_members_key cid) of
     Some (RMembers ms) \<Rightarrow> ms | _ \<Rightarrow> [])"

text \<open>Nobody else stored a value of another type under the key of a channel.\<close>

definition channel_typed :: "snowflake \<Rightarrow> voice_world \<Rightarrow> bool" where
  "channel_typed cid s \<longleftrightarrow> (case w_redis (vw_world s) (channel_members_key cid) of
     None \<Rightarrow> True | Some (RMembers ms, t) \<Rightarrow> t = None \<and> ms \<noteq> [] | _ \<Rightarrow> False)"

definition joined_store :: "voice_state \<Rightarrow> voice_world \<Rightarrow> redis_store" where
  "joined_store v s = (w_redis (vw_world s))
     (voice_key (vs_server_id v) (vs_user_id v) \<mapsto> (RJson (voice_json v), Some (w_now (vw_world s) + 86400000)),
      channel_members_key (vs_channel_id v) \<mapsto> (RMembers (if show_u64 (vs_user_id v) \<in> set (channel_set (vs_channel_id v) s)
          then channel_set (vs_channel_id v) s else channel_set (vs_channel_id v) s @ [show_u64 (vs_user_id v)]), None))"

lemma set_voice_calm:
  assumes "calm (vw_world s)" "channel_typed (vs_channel_id v) s"
  shows "set_voice_state v s = (Inr (), with_redis (joined_store v s) s)"
proof (cases "w_redis (vw_world s) (channel_members_key (vs_channel_id v))")
  case None
  then show ?thesis
    using assms(1) by (simp add: set_voice_state_def voice_run cmd_set_ex_def cmd_sadd_def redis_at_def joined_store_def
      channel_set_def redis_value_at_def)
next
  case (Some p)
  then obtain ms where "w_redis (vw_world s) (channel_members_key (vs_channel_id v)) = Some (RMembers ms, None)"
    using assms(2) by (cases p; cases "fst p") (auto simp: channel_typed_def)
  then show ?thesis
    using assms(1) by (simp add: set_voice_state_def voice_run cmd_set_ex_def cmd_sadd_def redis_at_def joined_store_def
      channel_set_def redis_value_at_def)
qed

lemma get_voice_calm:
  assumes "calm (vw_world s)" "w_redis (vw_world s) (voice_key sid uid) = Some (RJson (voice_json v), Some t)"
  shows "get_voice_state sid uid s = (Inr (if w_now (vw_world s) < t then Some v else None), s)"
  using assms by (simp add: get_voice_state_def voice_run cmd_get_def redis_value_at_def redis_at_def read_voice_def voice_codec)

lemma get_voice_none:
  assumes "calm (vw_world s)" "w_redis (vw_world s) (voice_key sid uid) = None"
  shows "get_voice_state sid uid s = (Inr None, s)"
  using assms by (simp add: get_voice_state_def voice_run cmd_get_def redis_value_at_def redis_at_def)

lemma members_calm:
  assumes "calm (vw_world s)" "channel_typed cid s"
  shows "get_channel_members cid s = (Inr (concat (map (\<lambda>i. case parse_u64 i of Inl _ \<Rightarrow> [] | Inr u \<Rightarrow> [u]) (channel_set cid s))), s)"
  using assms by (auto simp: get_channel_members_def voice_run cmd_smembers_def channel_set_def redis_value_at_def redis_at_def
    channel_typed_def split: option.splits redis_value.splits)

lemma member_listed:
  "show_u64 u \<in> set ids \<Longrightarrow> u \<in> set (concat (map (\<lambda>i. case parse_u64 i of Inl _ \<Rightarrow> [] | Inr u \<Rightarrow> [u]) ids))"
  by (force intro: bexI [of _ "show_u64 u"])

lemma joined_channel:
  "channel_set (vs_channel_id v) (with_redis (joined_store v s) s') =
     (if show_u64 (vs_user_id v) \<in> set (channel_set (vs_channel_id v) s) then channel_set (vs_channel_id v) s
      else channel_set (vs_channel_id v) s @ [show_u64 (vs_user_id v)])"
proof -
  have "channel_set cid (with_redis st s') = ms" if "st (channel_members_key cid) = Some (RMembers ms, None)" for cid st ms
    using that by (simp add: channel_set_def redis_value_at_def redis_at_def)
  then show ?thesis by (simp add: joined_store_def)
qed

lemma joined_typed: "channel_typed (vs_channel_id v) (with_redis (joined_store v s) s')"
  by (auto simp: channel_typed_def joined_store_def)

section \<open>Joining and leaving\<close>

text \<open>Joining reads back: with every call answered, a voice state that was set is returned as it was for the next 24
  hours, and its user is listed in its channel.\<close>

theorem voice_state_reads_back:
  assumes "calm (vw_world s)" "channel_typed (vs_channel_id v) s" "set_voice_state v s = (r, s')"
    and "now < w_now (vw_world s) + 86400000"
  shows "get_voice_state (vs_server_id v) (vs_user_id v) (at_time now s') = (Inr (Some v), at_time now s') \<and>
    (\<exists>us. get_channel_members (vs_channel_id v) s' = (Inr us, s') \<and> vs_user_id v \<in> set us)"
proof -
  have s': "s' = with_redis (joined_store v s) s" using set_voice_calm [OF assms(1, 2)] assms(3) by simp
  have "get_voice_state (vs_server_id v) (vs_user_id v) (at_time now s') = (Inr (Some v), at_time now s')"
    using get_voice_calm [of "at_time now s'" "vs_server_id v" "vs_user_id v" v "w_now (vw_world s) + 86400000"] assms(1, 4)
    by (simp add: s' joined_store_def)
  moreover have "show_u64 (vs_user_id v) \<in> set (channel_set (vs_channel_id v) s')"
    by (simp add: s' joined_channel)
  ultimately show ?thesis
    using members_calm [of s' "vs_channel_id v"] assms(1) member_listed joined_typed by (auto simp: s')
qed


text \<open>Moving leaves a trace: with every call answered, a user who joins one channel and then another of the server is listed
  in both, although their voice state names only the second.\<close>

theorem moved_user_in_both_channels:
  assumes "calm (vw_world s)" "channel_typed (vs_channel_id v) s" "channel_typed cid s" "cid \<noteq> vs_channel_id v"
    and "set_voice_state v s = (r, s1)" "set_voice_state (v\<lparr>vs_channel_id := cid\<rparr>) s1 = (r', s2)"
  shows "\<exists>us us'. get_channel_members (vs_channel_id v) s2 = (Inr us, s2) \<and> get_channel_members cid s2 = (Inr us', s2) \<and>
    vs_user_id v \<in> set us \<and> vs_user_id v \<in> set us' \<and>
    get_voice_state (vs_server_id v) (vs_user_id v) s2 = (Inr (Some (v\<lparr>vs_channel_id := cid\<rparr>)), s2)"
proof -
  let ?v = "v\<lparr>vs_channel_id := cid\<rparr>"
  have s1: "s1 = with_redis (joined_store v s) s" using set_voice_calm [OF assms(1, 2)] assms(5) by simp
  have typed: "channel_typed (vs_channel_id ?v) s1"
    using assms(3, 4) by (simp add: s1 channel_typed_def joined_store_def)
  have s2: "s2 = with_redis (joined_store ?v s1) s1"
    using set_voice_calm [OF _ typed] assms(1, 6) by (simp add: s1)
  have old: "channel_set (vs_channel_id v) s2 = channel_set (vs_channel_id v) s1" "channel_typed (vs_channel_id v) s2"
    using assms(4) joined_typed [of v s s] by (simp_all add: s2 s1 channel_set_def channel_typed_def joined_store_def redis_value_at_def redis_at_def)
  have "show_u64 (vs_user_id v) \<in> set (channel_set (vs_channel_id v) s2)"
    unfolding old(1) by (simp add: s1 joined_channel)
  moreover have "show_u64 (vs_user_id v) \<in> set (channel_set cid s2)"
    using joined_channel [of ?v s1 s1] by (simp add: s2)
  moreover have "calm (vw_world s2)" "channel_typed cid s2"
    using assms(1) joined_typed [of ?v s1 s1] by (simp_all add: s2 s1)
  moreover have "get_voice_state (vs_server_id v) (vs_user_id v) s2 = (Inr (Some ?v), s2)"
    using get_voice_calm [of s2 "vs_server_id v" "vs_user_id v" ?v "w_now (vw_world s) + 86400000"] \<open>calm (vw_world s2)\<close>
    by (simp add: s2 s1 joined_store_def)
  ultimately show ?thesis
    using members_calm old(2) member_listed by (intro exI conjI) auto
qed

text \<open>A state outlived by its listing: when a voice state is not refreshed for 24 hours, it is gone, leaving finds nothing, and
  the user stays listed in the channel.\<close>

theorem expired_state_stays_listed:
  assumes "calm (vw_world s)" "channel_typed (vs_channel_id v) s" "set_voice_state v s = (r, s1)"
    and "w_now (vw_world s) + 86400000 \<le> now" "remove_voice_state (vs_server_id v) (vs_user_id v) (at_time now s1) = (r', s2)"
  shows "r' = Inr None \<and> (\<exists>us. get_channel_members (vs_channel_id v) s2 = (Inr us, s2) \<and> vs_user_id v \<in> set us)"
proof -
  let ?k = "voice_key (vs_server_id v) (vs_user_id v)"
  have s1: "s1 = with_redis (joined_store v s) s" using set_voice_calm [OF assms(1, 2)] assms(3) by simp
  have calm: "calm (vw_world s1)" using assms(1) by (simp add: s1)
  have get: "get_voice_state (vs_server_id v) (vs_user_id v) (at_time now s1) = (Inr None, at_time now s1)"
    using get_voice_calm [of "at_time now s1" "vs_server_id v" "vs_user_id v" v "w_now (vw_world s) + 86400000"] calm assms(4)
    by (simp add: s1 joined_store_def)
  have s2: "r' = Inr None" "s2 = with_redis ((w_redis (vw_world s1))(?k := None)) (at_time now s1)"
    using assms(5) calm by (simp_all add: remove_voice_state_def vbind_def get vredis_calm cmd_del_def vret_def)
  have "channel_set (vs_channel_id v) s2 = channel_set (vs_channel_id v) s1" "channel_typed (vs_channel_id v) s2"
    using joined_typed [of v s s] by (simp_all add: s2 s1 channel_set_def channel_typed_def joined_store_def redis_value_at_def redis_at_def)
  moreover have "show_u64 (vs_user_id v) \<in> set (channel_set (vs_channel_id v) s1)" by (simp add: s1 joined_channel)
  moreover have "calm (vw_world s2)" using calm by (simp add: s2)
  ultimately show ?thesis using members_calm member_listed s2(1) by auto
qed

text \<open>The flags of an update are the given ones, with one exception: who is deafened is muted, even by an update that also asks
  to be unmuted.\<close>

theorem update_sets_given_flags:
  "apply_update u v = v\<lparr>vs_self_mute := (vu_self_deaf u = Some True \<or> unwrap_or (vs_self_mute v) (vu_self_mute u)),
     vs_self_deaf := unwrap_or (vs_self_deaf v) (vu_self_deaf u), vs_self_video := unwrap_or (vs_self_video v) (vu_self_video u),
     vs_self_stream := unwrap_or (vs_self_stream v) (vu_self_stream u), vs_server_mute := unwrap_or (vs_server_mute v) (vu_server_mute u),
     vs_server_deaf := unwrap_or (vs_server_deaf v) (vu_server_deaf u), vs_suppress := unwrap_or (vs_suppress v) (vu_suppress u)\<rparr>"
  by (simp add: apply_update_def unwrap_or_def Let_def split: option.split)

text \<open>Deaf but not muted: the rule that the deaf are muted is applied only when deafening; a later update unmutes who is deaf.\<close>

theorem deaf_user_unmutes:
  assumes "vs_self_deaf v"
  shows "\<exists>u. vs_self_deaf (apply_update u v) \<and> \<not> vs_self_mute (apply_update u v)"
  by (intro exI [of _ "\<lparr>vu_self_mute = Some False, vu_self_deaf = None, vu_self_video = None, vu_self_stream = None,
    vu_server_mute = None, vu_server_deaf = None, vu_suppress = None\<rparr>"]) (simp add: apply_update_def Let_def assms)

section \<open>At work\<close>

definition demo_voice :: voice_state where
  "demo_voice = new_voice_state 7 2 1 (lit ''s'') demo_now"

definition quiet_voice :: voice_world where
  "quiet_voice = \<lparr>vw_world = demo_world demo_db, vw_rooms = []\<rparr>"

definition joined_voice :: voice_world where
  "joined_voice = snd (set_voice_state demo_voice quiet_voice)"

lemma demo_voice_simps [simp]:
  "vs_user_id demo_voice = 7" "vs_channel_id demo_voice = 2" "vs_server_id demo_voice = 1"
  by (simp_all add: demo_voice_def new_voice_state_def)

lemma quiet_voice_simps [simp]:
  "calm (vw_world quiet_voice)" "channel_typed cid quiet_voice" "w_redis (vw_world quiet_voice) k = None"
  "channel_set cid quiet_voice = []" "w_now (vw_world quiet_voice) = demo_now"
  by (simp_all add: quiet_voice_def demo_world_def calm_def channel_typed_def channel_set_def redis_value_at_def redis_at_def)

lemma joined_voice: "set_voice_state demo_voice quiet_voice = (Inr (), joined_voice)"
  using set_voice_calm [of quiet_voice demo_voice] by (simp add: joined_voice_def)

theorem voice_state_reads_back_witness:
  "get_voice_state 1 7 (at_time (demo_now + 86399999) joined_voice) = (Inr (Some demo_voice), at_time (demo_now + 86399999) joined_voice) \<and>
    (\<exists>us. get_channel_members 2 joined_voice = (Inr us, joined_voice) \<and> 7 \<in> set us)"
  using voice_state_reads_back [of quiet_voice demo_voice "Inr ()" joined_voice "demo_now + 86399999"] joined_voice by simp


theorem moved_user_in_both_channels_witness:
  "\<exists>us us' s. get_channel_members 2 s = (Inr us, s) \<and> get_channel_members 3 s = (Inr us', s) \<and> 7 \<in> set us \<and> 7 \<in> set us' \<and>
    get_voice_state 1 7 s = (Inr (Some (demo_voice\<lparr>vs_channel_id := 3\<rparr>)), s)"
  using moved_user_in_both_channels [of quiet_voice demo_voice 3 "Inr ()" joined_voice] joined_voice
  by (simp, metis surj_pair)

theorem expired_state_stays_listed_witness:
  "\<exists>us s. remove_voice_state 1 7 (at_time (demo_now + 86400000) joined_voice) = (Inr None, s) \<and>
    get_channel_members 2 s = (Inr us, s) \<and> 7 \<in> set us"
  using expired_state_stays_listed [of quiet_voice demo_voice "Inr ()" joined_voice "demo_now + 86400000"] joined_voice
  by (simp, metis surj_pair)

theorem deaf_user_unmutes_witness:
  "\<exists>u. vs_self_deaf (apply_update u (demo_voice\<lparr>vs_self_deaf := True\<rparr>)) \<and> \<not> vs_self_mute (apply_update u (demo_voice\<lparr>vs_self_deaf := True\<rparr>))"
  using deaf_user_unmutes [of "demo_voice\<lparr>vs_self_deaf := True\<rparr>"] by simp

end
