(* ===== verification/Media.thy ===== *)
theory Media
  imports Gateway_Protocol "HOL-Library.Sublist"
begin

text \<open>
  \<open>lumiere-media\<close>: the limits on files (\<open>validation.rs\<close>), object keys and operations (\<open>service.rs\<close>) and the calls of the
  object store (\<open>lib.rs\<close>). The store is external: it answers a call, refuses it with a status, or gives no answer, after
  which the object may or may not be there. SHA-256 and the signing of URLs are parameters.
\<close>

section \<open>Errors\<close>

datatype media_error =
    S3Connection ustr | UploadFailed ustr | DownloadFailed ustr | DeleteFailed ustr | ObjectNotFound ustr | PresignUrl ustr
  | FileTooLarge nat nat | InvalidContentType ustr | InvalidExtension ustr

fun show_media_error :: "media_error \<Rightarrow> ustr" where
  "show_media_error (S3Connection m) = lit ''S3 connection error: '' @ m"
| "show_media_error (UploadFailed m) = lit ''Upload failed: '' @ m"
| "show_media_error (DownloadFailed m) = lit ''Download failed: '' @ m"
| "show_media_error (DeleteFailed m) = lit ''Delete failed: '' @ m"
| "show_media_error (ObjectNotFound m) = lit ''Object not found: '' @ m"
| "show_media_error (PresignUrl m) = lit ''Presign URL failed: '' @ m"
| "show_media_error (FileTooLarge n max_size) =
     lit (''File too large: '' @ show_nat n @ '' bytes exceeds maximum '' @ show_nat max_size @ '' bytes'')"
| "show_media_error (InvalidContentType m) = lit ''Invalid content type: '' @ m"
| "show_media_error (InvalidExtension m) = lit ''Invalid file extension: '' @ m"

section \<open>Validation\<close>

definition MAX_FILE_SIZE_FREE :: nat where
  "MAX_FILE_SIZE_FREE = 25 * 1024 * 1024"

definition MAX_FILE_SIZE_PREMIUM :: nat where
  "MAX_FILE_SIZE_PREMIUM = 50 * 1024 * 1024"

definition MAX_AVATAR_SIZE :: nat where
  "MAX_AVATAR_SIZE = 8 * 1024 * 1024"

definition AVATAR_CONTENT_TYPES :: "string list" where
  "AVATAR_CONTENT_TYPES = [''image/png'', ''image/jpeg'', ''image/webp'', ''image/gif'']"

definition ATTACHMENT_CONTENT_TYPES :: "string list" where
  "ATTACHMENT_CONTENT_TYPES = [''image/png'', ''image/jpeg'', ''image/webp'', ''image/gif'', ''video/mp4'', ''video/webm'',
     ''audio/mpeg'', ''audio/ogg'', ''audio/wav'', ''application/pdf'', ''text/plain'', ''application/zip'',
     ''application/x-tar'', ''application/gzip'']"

datatype account_tier = Free | Premium

fun max_attachment_size :: "account_tier \<Rightarrow> nat" where
  "max_attachment_size Free = MAX_FILE_SIZE_FREE"
| "max_attachment_size Premium = MAX_FILE_SIZE_PREMIUM"

text \<open>\<open>{:?}\<close> of a list of texts\<close>

fun debug_rest :: "string list \<Rightarrow> string" where
  "debug_rest [] = '']''"
| "debug_rest (x # xs) = '', \"'' @ x @ ''\"'' @ debug_rest xs"

fun debug_list :: "string list \<Rightarrow> string" where
  "debug_list [] = ''[]''"
| "debug_list (x # xs) = ''[\"'' @ x @ ''\"'' @ debug_rest xs"

type_synonym bytes = "u8 list"

definition validate_avatar :: "bytes \<Rightarrow> string \<Rightarrow> media_error + unit" where
  "validate_avatar data ct =
     (if length data > MAX_AVATAR_SIZE then Inl (FileTooLarge (length data) MAX_AVATAR_SIZE)
      else if ct \<notin> set AVATAR_CONTENT_TYPES
      then Inl (InvalidContentType (lit (CHR 0x27 # ct @ CHR 0x27 # '' is not allowed for avatars. Allowed: '' @ debug_list AVATAR_CONTENT_TYPES)))
      else Inr ())"

definition validate_attachment_content_type :: "string \<Rightarrow> media_error + unit" where
  "validate_attachment_content_type ct =
     (if ct \<notin> set ATTACHMENT_CONTENT_TYPES
      then Inl (InvalidContentType (lit (CHR 0x27 # ct @ CHR 0x27 # '' is not an allowed attachment type. Allowed: '' @
             debug_list ATTACHMENT_CONTENT_TYPES)))
      else Inr ())"

definition validate_attachment :: "bytes \<Rightarrow> string \<Rightarrow> account_tier \<Rightarrow> media_error + unit" where
  "validate_attachment data ct tier =
     (if length data > max_attachment_size tier then Inl (FileTooLarge (length data) (max_attachment_size tier))
      else validate_attachment_content_type ct)"

definition extension_for_content_type :: "string \<Rightarrow> media_error + string" where
  "extension_for_content_type ct =
     (case map_of [(''image/png'', ''png''), (''image/jpeg'', ''jpg''), (''image/webp'', ''webp''), (''image/gif'', ''gif''),
        (''video/mp4'', ''mp4''), (''video/webm'', ''webm''), (''audio/mpeg'', ''mp3''), (''audio/ogg'', ''ogg''),
        (''audio/wav'', ''wav''), (''application/pdf'', ''pdf''), (''text/plain'', ''txt''), (''application/zip'', ''zip''),
        (''application/x-tar'', ''tar''), (''application/gzip'', ''gz'')] ct of
        Some e \<Rightarrow> Inr e | None \<Rightarrow> Inl (InvalidExtension (lit ct)))"

definition magic_ok :: "bytes \<Rightarrow> string \<Rightarrow> bool" where
  "magic_ok data ct \<longleftrightarrow>
     (if ct = ''image/png'' then length data \<ge> 4 \<and> take 4 data = [0x89, 0x50, 0x4E, 0x47]
      else if ct = ''image/jpeg'' then length data \<ge> 3 \<and> take 3 data = [0xFF, 0xD8, 0xFF]
      else if ct = ''image/gif'' then length data \<ge> 3 \<and> take 3 data = [0x47, 0x49, 0x46]
      else if ct = ''image/webp'' then length data \<ge> 12 \<and> take 4 data = [0x52, 0x49, 0x46, 0x46] \<and>
        take 4 (drop 8 data) = [0x57, 0x45, 0x42, 0x50]
      else if ct = ''application/pdf'' then length data \<ge> 4 \<and> take 4 data = [0x25, 0x50, 0x44, 0x46]
      else True)"

definition validate_content_magic_bytes :: "bytes \<Rightarrow> string \<Rightarrow> media_error + unit" where
  "validate_content_magic_bytes data ct =
     (if magic_ok data ct then Inr ()
      else Inl (InvalidContentType (lit (''file content does not match claimed content type '' @ CHR 0x27 # ct @ [CHR 0x27]))))"

section \<open>The object store\<close>

datatype s3_reply = Answered | Refused nat | NoAnswer bool

record media_world =
  mw_world :: world
  mw_objects :: "ustr \<Rightarrow> (bytes \<times> string) option"
  mw_replies :: "s3_reply list"

type_synonym ('e, 'a) media_call = "media_world \<Rightarrow> ('e + 'a) \<times> media_world"

definition mret :: "'a \<Rightarrow> ('e, 'a) media_call" where
  "mret x s = (Inr x, s)"

definition mfail :: "'e \<Rightarrow> ('e, 'a) media_call" where
  "mfail e s = (Inl e, s)"

definition mbind :: "('e, 'a) media_call \<Rightarrow> ('a \<Rightarrow> ('e, 'b) media_call) \<Rightarrow> ('e, 'b) media_call" where
  "mbind m k s = (case m s of (Inl e, s') \<Rightarrow> (Inl e, s') | (Inr x, s') \<Rightarrow> k x s')"

definition mcheck :: "'e + 'a \<Rightarrow> ('e, 'a) media_call" where
  "mcheck r = (case r of Inl e \<Rightarrow> mfail e | Inr x \<Rightarrow> mret x)"

definition map_error :: "('e \<Rightarrow> 'f) \<Rightarrow> ('e, 'a) media_call \<Rightarrow> ('f, 'a) media_call" where
  "map_error f m s = (case m s of (Inl e, s') \<Rightarrow> (Inl (f e), s') | (Inr x, s') \<Rightarrow> (Inr x, s'))"

text \<open>A call of the store that changes its objects with \<open>f\<close> when it is done, and answers the given status then.\<close>

definition s3_call :: "nat \<Rightarrow> ((ustr \<Rightarrow> (bytes \<times> string) option) \<Rightarrow> ustr \<Rightarrow> (bytes \<times> string) option) \<Rightarrow> (ustr, nat) media_call" where
  "s3_call status f s =
     (let s1 = s\<lparr>mw_replies := tl (mw_replies s)\<rparr>; s2 = s1\<lparr>mw_objects := f (mw_objects s)\<rparr>
      in case mw_replies s of
           [] \<Rightarrow> (Inl (lit ''no answer''), s1)
         | Answered # _ \<Rightarrow> (Inr status, s2)
         | Refused n # _ \<Rightarrow> (Inr (max 300 n), s1)
         | NoAnswer b # _ \<Rightarrow> (Inl (lit ''no answer''), if b then s2 else s1))"

definition failed_status :: "string \<Rightarrow> nat \<Rightarrow> ustr" where
  "failed_status what status = lit (''S3 '' @ what @ '' failed with status '' @ show_nat status)"

definition s3_upload :: "ustr \<Rightarrow> bytes \<Rightarrow> string \<Rightarrow> (media_error, unit) media_call" where
  "s3_upload key data ct =
     mbind (map_error UploadFailed (s3_call 200 (\<lambda>m. m(key \<mapsto> (data, ct))))) (\<lambda>status.
       if status \<ge> 300 then mfail (UploadFailed (failed_status ''upload'' status)) else mret ())"

text \<open>\<open>data\<close> is what the reader gives; the store reports how much it got.\<close>

definition s3_upload_stream :: "ustr \<Rightarrow> string \<Rightarrow> bytes \<Rightarrow> (media_error, nat) media_call" where
  "s3_upload_stream key ct data =
     mbind (map_error UploadFailed (s3_call 200 (\<lambda>m. m(key \<mapsto> (data, ct))))) (\<lambda>status.
       if status \<ge> 300 then mfail (UploadFailed (failed_status ''streaming upload'' status)) else mret (length data))"

text \<open>\<open>what\<close> is the word of the error; the stream of chunks is given as the bytes it brings.\<close>

definition s3_get :: "string \<Rightarrow> ustr \<Rightarrow> (media_error, bytes) media_call" where
  "s3_get what key s =
     mbind (map_error DownloadFailed (s3_call (if mw_objects s key = None then 404 else 200) id)) (\<lambda>status.
       if status = 404 then mfail (ObjectNotFound key)
       else if status \<ge> 300 then mfail (DownloadFailed (failed_status what status))
       else mret (case mw_objects s key of None \<Rightarrow> [] | Some (data, _) \<Rightarrow> data)) s"

definition s3_download :: "ustr \<Rightarrow> (media_error, bytes) media_call" where
  "s3_download = s3_get ''download''"

definition s3_download_stream :: "ustr \<Rightarrow> (media_error, bytes) media_call" where
  "s3_download_stream = s3_get ''streaming download''"

definition s3_delete :: "ustr \<Rightarrow> (media_error, unit) media_call" where
  "s3_delete key =
     mbind (map_error DeleteFailed (s3_call 204 (\<lambda>m. m(key := None)))) (\<lambda>status.
       if status \<ge> 300 \<and> status \<noteq> 404 then mfail (DeleteFailed (failed_status ''delete'' status)) else mret ())"

record media_external =
  mx_sha256 :: "bytes \<Rightarrow> bytes"
  mx_presign :: "ustr \<Rightarrow> nat \<Rightarrow> ustr + ustr"

definition s3_presigned_url :: "media_external \<Rightarrow> ustr \<Rightarrow> nat \<Rightarrow> (media_error, ustr) media_call" where
  "s3_presigned_url ext key expiry = mcheck (map_sum PresignUrl id (mx_presign ext key expiry))"

section \<open>The service\<close>

definition hex_digit :: "nat \<Rightarrow> char" where
  "hex_digit d = (if d < 10 then char_of (48 + d) else char_of (87 + d))"

definition hex_encode :: "bytes \<Rightarrow> string" where
  "hex_encode bs = concat (map (\<lambda>b. [hex_digit (unat b div 16), hex_digit (unat b mod 16)]) bs)"

definition content_hash :: "media_external \<Rightarrow> bytes \<Rightarrow> string" where
  "content_hash ext data = hex_encode (take 8 (mx_sha256 ext data))"

definition ALLOWED_KEY_PREFIXES :: "string list" where
  "ALLOWED_KEY_PREFIXES = [''avatars/'', ''attachments/'', ''icons/'', ''emojis/'']"

definition validate_key_prefix :: "ustr \<Rightarrow> media_error + unit" where
  "validate_key_prefix key =
     (if list_ex (\<lambda>p. prefix (lit p) key) ALLOWED_KEY_PREFIXES then Inr ()
      else Inl (InvalidContentType (lit (''object key '' @ [CHR 0x27]) @ key @
        lit (CHR 0x27 # '' does not start with an allowed prefix ('' @ debug_list ALLOWED_KEY_PREFIXES @ '')''))))"

text \<open>The part after the last \<open>/\<close> or backslash.\<close>

definition base_name :: "ustr \<Rightarrow> ustr" where
  "base_name name = rev (takeWhile (\<lambda>c. c \<noteq> 47 \<and> c \<noteq> 92) (rev name))"

text \<open>Slash, backslash, nul, colon, star, question mark, quote, less, greater, bar.\<close>

definition dangerous :: "nat list" where
  "dangerous = [47, 92, 0, 58, 42, 63, 34, 60, 62, 124]"

definition sanitize_filename :: "ustr \<Rightarrow> ustr" where
  "sanitize_filename name =
     (let sanitized = map (\<lambda>c. if c \<in> set dangerous then 95 else c) (base_name name)
      in if sanitized = [] \<or> sanitized = lit ''.'' \<or> sanitized = lit ''..'' then lit ''file'' else sanitized)"

definition avatar_key :: "snowflake \<Rightarrow> string \<Rightarrow> string \<Rightarrow> ustr" where
  "avatar_key owner hash ext = lit (''avatars/'' @ show_u64 owner @ ''/'' @ hash @ ''.'' @ ext)"

definition attachment_key :: "snowflake \<Rightarrow> snowflake \<Rightarrow> ustr \<Rightarrow> ustr" where
  "attachment_key cid aid filename =
     lit (''attachments/'' @ show_u64 cid @ ''/'' @ show_u64 aid @ ''/'') @ sanitize_filename filename"

definition upload_avatar :: "media_external \<Rightarrow> snowflake \<Rightarrow> bytes \<Rightarrow> string \<Rightarrow> (media_error, ustr) media_call" where
  "upload_avatar ext owner data ct =
     mbind (mcheck (validate_avatar data ct)) (\<lambda>_.
     mbind (mcheck (extension_for_content_type ct)) (\<lambda>e.
     let key = avatar_key owner (content_hash ext data) e
     in mbind (s3_upload key data ct) (\<lambda>_. mret key)))"

definition media_upload_attachment ::
  "snowflake \<Rightarrow> snowflake \<Rightarrow> ustr \<Rightarrow> bytes \<Rightarrow> string \<Rightarrow> account_tier \<Rightarrow> (media_error, ustr) media_call" where
  "media_upload_attachment cid aid filename data ct tier =
     mbind (mcheck (validate_attachment data ct tier)) (\<lambda>_.
     let key = attachment_key cid aid filename
     in mbind (s3_upload key data ct) (\<lambda>_. mret key))"

text \<open>The limit is checked on the length the caller announces; the reader may give more or less.\<close>

definition upload_attachment_stream ::
  "snowflake \<Rightarrow> snowflake \<Rightarrow> ustr \<Rightarrow> string \<Rightarrow> u64 \<Rightarrow> account_tier \<Rightarrow> bytes \<Rightarrow> (media_error, ustr \<times> nat) media_call" where
  "upload_attachment_stream cid aid filename ct content_length tier data =
     mbind (mcheck (validate_attachment_content_type ct)) (\<lambda>_.
       if unat content_length > max_attachment_size tier then mfail (FileTooLarge (unat content_length) (max_attachment_size tier))
       else (let key = attachment_key cid aid filename
             in mbind (s3_upload_stream key ct data) (\<lambda>uploaded. mret (key, uploaded))))"

definition delete_file :: "ustr \<Rightarrow> (media_error, unit) media_call" where
  "delete_file key = s3_delete key"

definition download_file :: "ustr \<Rightarrow> (media_error, bytes) media_call" where
  "download_file key = mbind (mcheck (validate_key_prefix key)) (\<lambda>_. s3_download key)"

definition download_file_stream :: "ustr \<Rightarrow> (media_error, bytes) media_call" where
  "download_file_stream key = mbind (mcheck (validate_key_prefix key)) (\<lambda>_. s3_download_stream key)"

text \<open>\<open>expiry_secs.clamp(60, 604800)\<close>\<close>

definition get_presigned_url :: "media_external \<Rightarrow> ustr \<Rightarrow> nat \<Rightarrow> (media_error, ustr) media_call" where
  "get_presigned_url ext key expiry =
     mbind (mcheck (validate_key_prefix key)) (\<lambda>_. s3_presigned_url ext key (max 60 (min expiry 604800)))"

definition get_download_url :: "media_external \<Rightarrow> ustr \<Rightarrow> nat \<Rightarrow> (media_error, ustr) media_call" where
  "get_download_url = get_presigned_url"

end
