(* ===== verification/Attachments.thy ===== *)
theory Attachments
  imports Media
begin

text \<open>
  \<open>routes/attachments.rs\<close>: upload and download of attachments. The form of a request is what \<open>axum\<close> read of it. The two
  statements on the table of attachments name columns that the migration does not create, so PostgreSQL refuses them; the
  handlers are modelled past them all the same.
\<close>

section \<open>Data\<close>

text \<open>The next field of the form: none, an error, or a file with its name, its type and its bytes or the error of reading them.\<close>

datatype form_field = NoField | BadForm string | FileField "ustr option" "string option" "string + bytes"

record attachment_response =
  an_id :: snowflake
  an_filename :: ustr
  an_content_type :: string
  an_size :: i64
  an_url :: ustr

record attachment_row =
  at_channel_id :: i64
  at_filename :: ustr
  at_content_type :: string
  at_size :: i64
  at_s3_key :: ustr

definition insert_attachment :: "snowflake \<Rightarrow> i64 \<Rightarrow> ustr \<Rightarrow> string \<Rightarrow> i64 \<Rightarrow> ustr \<Rightarrow> snowflake \<Rightarrow> unit stmt" where
  "insert_attachment aid cid filename ct size_of key uploader db = Inl ''column s3_key of relation attachments does not exist''"

definition select_attachment :: "snowflake \<Rightarrow> attachment_row option stmt" where
  "select_attachment aid db = Inl ''column s3_key does not exist''"

section \<open>Upload\<close>

definition route_call :: "'a handler \<Rightarrow> (app_error, 'a) media_call" where
  "route_call h s = (case h (mw_world s) of (r, w) \<Rightarrow> (r, s\<lparr>mw_world := w\<rparr>))"

definition bad_request_of :: "media_error \<Rightarrow> app_error" where
  "bad_request_of e = BadRequest (utf8_bytes (show_media_error e))"

definition upload_error :: "media_error \<Rightarrow> app_error" where
  "upload_error e = (case e of
      FileTooLarge n max_size \<Rightarrow> BadRequest (''File too large: '' @ show_nat n @ '' bytes exceeds maximum '' @ show_nat max_size @ '' bytes'')
    | InvalidContentType m \<Rightarrow> BadRequest (utf8_bytes m)
    | other \<Rightarrow> Internal (utf8_bytes (show_media_error other)))"

definition internal_of :: "media_error \<Rightarrow> app_error" where
  "internal_of e = Internal (utf8_bytes (show_media_error e))"

text \<open>\<open>Option<(i64,)>\<close> of a channel's server: a null does not decode.\<close>

definition channel_server_strict :: "i64 \<Rightarrow> i64 option handler" where
  "channel_server_strict cid =
     bind (pg_query (channel_server cid)) (\<lambda>v. case v of
       None \<Rightarrow> ret None | Some None \<Rightarrow> throw (db_error ''unexpected null'') | Some (Some sid) \<Rightarrow> ret (Some sid))"

definition tier_of :: "int option \<Rightarrow> account_tier" where
  "tier_of v = (if unwrap_or 0 v = 0 then Free else Premium)"

definition read_form :: "form_field \<Rightarrow> app_error + ustr \<times> string \<times> (string + bytes)" where
  "read_form field =
     (case field of
        NoField \<Rightarrow> Inl (BadRequest ''No file field in multipart body'')
      | BadForm m \<Rightarrow> Inl (BadRequest (''Invalid multipart: '' @ m))
      | FileField name ct data \<Rightarrow> Inr (unwrap_or (lit ''file'') name, unwrap_or ''application/octet-stream'' ct, data))"

text \<open>The checks of the file before it is stored.\<close>

definition check_file :: "form_field \<Rightarrow> app_error + ustr \<times> string \<times> bytes" where
  "check_file field =
     (case read_form field of
        Inl e \<Rightarrow> Inl e
      | Inr (filename, ct, body) \<Rightarrow>
          (case validate_attachment_content_type ct of
             Inl e \<Rightarrow> Inl (bad_request_of e)
           | Inr _ \<Rightarrow>
               (case body of
                  Inl m \<Rightarrow> Inl (BadRequest (''Failed to read file: '' @ m))
                | Inr data \<Rightarrow>
                    if data = [] then Inl (BadRequest ''File is empty'')
                    else (case validate_content_magic_bytes data ct of
                            Inl e \<Rightarrow> Inl (bad_request_of e)
                          | Inr _ \<Rightarrow> Inr (filename, ct, data)))))"

definition upload_attachment ::
  "media_external \<Rightarrow> snowflake \<Rightarrow> i64 \<Rightarrow> form_field \<Rightarrow> (app_error, nat \<times> attachment_response) media_call" where
  "upload_attachment ext auth cid field =
     mbind (route_call (bind (channel_server_strict cid) (\<lambda>v. ok_or v (NotFound ''Channel not found'')))) (\<lambda>sid.
     mbind (route_call (require_permissions sid auth ATTACH_FILES)) (\<lambda>_.
     mbind (route_call (pg_query (\<lambda>db. map_option u_premium_type (t_find (\<lambda>u. u_id u = auth) (users db))))) (\<lambda>premium.
     mbind (mcheck (check_file field)) (\<lambda>(filename, ct, data).
     mbind (route_call fresh_id) (\<lambda>aid.
     mbind (map_error upload_error (media_upload_attachment cid aid filename data ct (tier_of premium))) (\<lambda>key.
     mbind (route_call (pg_exec (insert_attachment aid cid filename ct (of_nat (length data)) key auth))) (\<lambda>_.
     mbind (map_error internal_of (get_presigned_url ext key 3600)) (\<lambda>url.
       mret (201, \<lparr>an_id = aid, an_filename = filename, an_content_type = ct, an_size = of_nat (length data), an_url = url\<rparr>)))))))))"

section \<open>Download\<close>

definition is_inline_safe :: "string \<Rightarrow> bool" where
  "is_inline_safe ct \<longleftrightarrow> ct \<in> {''image/png'', ''image/jpeg'', ''image/webp'', ''image/gif'', ''video/mp4'', ''video/webm'',
     ''audio/mpeg'', ''audio/ogg'', ''audio/wav'', ''text/plain''}"

definition safe_filename :: "ustr \<Rightarrow> ustr" where
  "safe_filename name = filter (\<lambda>c. c \<noteq> 10 \<and> c \<noteq> 13) (map (\<lambda>c. if c = 34 then 39 else c) name)"

definition disposition :: "attachment_row \<Rightarrow> ustr" where
  "disposition r = lit ((if is_inline_safe (at_content_type r) then ''inline'' else ''attachment'') @ ''; filename='' @ [CHR 0x22]) @
     safe_filename (at_filename r) @ [34]"

text \<open>Bytes that a header value may have; with another, \<open>unwrap\<close> on the builder panics, given as an internal error.\<close>

definition header_value :: "ustr \<Rightarrow> bool" where
  "header_value v \<longleftrightarrow> list_all (\<lambda>c. c = 9 \<or> 32 \<le> c \<and> c \<noteq> 127) v"

record redirect_response =
  rr_status :: nat
  rr_location :: ustr
  rr_cache_control :: string
  rr_disposition :: ustr

definition redirect :: "attachment_row \<Rightarrow> ustr \<Rightarrow> app_error + redirect_response" where
  "redirect r url =
     (if header_value url \<and> header_value (disposition r)
      then Inr \<lparr>rr_status = 302, rr_location = url, rr_cache_control = ''public, max-age=3600'', rr_disposition = disposition r\<rparr>
      else Inl (Internal ''panicked: invalid header value''))"

definition download_attachment :: "media_external \<Rightarrow> snowflake \<Rightarrow> snowflake \<Rightarrow> (app_error, redirect_response) media_call" where
  "download_attachment ext auth aid =
     mbind (route_call (bind (pg_exec (select_attachment aid)) (\<lambda>v. ok_or v (NotFound ''Attachment not found'')))) (\<lambda>r.
     mbind (route_call (bind (channel_server_strict (at_channel_id r)) (\<lambda>server.
       case server of
         Some sid \<Rightarrow> require_permissions sid auth VIEW_CHANNEL
       | None \<Rightarrow> bind (pg_query (is_dm_recipient (at_channel_id r) auth)) (\<lambda>b. ensure b (Forbidden ''Access denied''))))) (\<lambda>_.
     mbind (map_error internal_of (get_download_url ext (at_s3_key r) 3600)) (\<lambda>url.
       mcheck (redirect r url))))"

end
