(* ===== verification/Media_Properties.thy ===== *)
theory Media_Properties
  imports Attachments Demo
begin

text \<open>
  What holds of stored files: their names stay inside their directory, an attachment reads back as it was sent, two
  attachments never share a key; and why the upload route never succeeds.
\<close>

section \<open>Object keys\<close>

lemma show_nat_digits: "set (show_nat n) \<subseteq> digit_char ` {..<10}"
proof (induction n rule: show_nat.induct)
  case (1 n)
  then show ?case by (cases "n < 10") (auto simp: show_nat.simps [of n])
qed

lemma show_u64_no_slash: "47 \<notin> set (lit (show_u64 x))"
proof
  assume "47 \<in> set (lit (show_u64 x))"
  then obtain c where "c \<in> set (show_nat (unat x))" "of_char c = (47 :: nat)" by (auto simp: lit_def show_u64_def)
  then obtain d where "d < 10" "of_char (digit_char d) = (47 :: nat)" using show_nat_digits by blast
  then show False by (simp add: digit_char_def of_char_of)
qed

lemma before_slash:
  "47 \<notin> set a \<Longrightarrow> 47 \<notin> set b \<Longrightarrow> a @ 47 # x = b @ 47 # y \<longleftrightarrow> a = b \<and> x = y"
proof (induction a arbitrary: b)
  case Nil
  then show ?case by (cases b) auto
next
  case (Cons c a)
  then show ?case by (cases b) auto
qed

lemma sanitize_plain:
  "sanitize_filename f \<noteq> []" "sanitize_filename f \<noteq> lit ''.''" "sanitize_filename f \<noteq> lit ''..''"
  "set (sanitize_filename f) \<inter> set dangerous = {}"
proof -
  let ?g = "\<lambda>c. if c \<in> set dangerous then 95 else c"
  have "95 \<notin> set dangerous" by (simp add: dangerous_def)
  then have "set (map ?g xs) \<inter> set dangerous = {}" for xs by auto
  moreover have "set (lit ''file'') \<inter> set dangerous = {}" by (simp add: dangerous_def)
  ultimately show "set (sanitize_filename f) \<inter> set dangerous = {}"
    unfolding sanitize_filename_def Let_def by presburger
  show "sanitize_filename f \<noteq> []" "sanitize_filename f \<noteq> lit ''.''" "sanitize_filename f \<noteq> lit ''..''"
    unfolding sanitize_filename_def Let_def by (simp_all split: if_split)
qed

text \<open>A file name cannot leave its directory: what is left of any name, however it was sent, is not empty, is neither of the
  two relative names, and has no separator and none of the other special characters.\<close>

theorem sanitized_name_is_plain:
  "sanitize_filename f \<noteq> [] \<and> sanitize_filename f \<noteq> lit ''.'' \<and> sanitize_filename f \<noteq> lit ''..'' \<and>
   set (sanitize_filename f) \<inter> {47, 92, 0, 58, 42, 63, 34, 60, 62, 124} = {}"
  using sanitize_plain [of f] unfolding dangerous_def list.set by blast

lemma sanitize_again: "sanitize_filename (sanitize_filename f) = sanitize_filename f"
proof -
  have plain: "c \<notin> set dangerous" if "c \<in> set (sanitize_filename f)" for c using sanitize_plain(4) [of f] that by auto
  then have "takeWhile (\<lambda>c. c \<noteq> 47 \<and> c \<noteq> 92) (rev (sanitize_filename f)) = rev (sanitize_filename f)"
    by (intro takeWhile_eq_all_conv [THEN iffD2]) (auto simp: dangerous_def)
  then have "base_name (sanitize_filename f) = sanitize_filename f" by (simp only: base_name_def rev_rev_ident)
  moreover have "map (\<lambda>c. if c \<in> set dangerous then 95 else c) (sanitize_filename f) = sanitize_filename f"
    using plain by (simp add: map_idI)
  ultimately show ?thesis using sanitize_plain(1-3) [of f] by (simp only: sanitize_filename_def [of "sanitize_filename f"] Let_def) simp
qed

text \<open>Two attachments never share an object: their keys are equal only when channel, identifier and cleaned name are.\<close>

theorem attachment_key_inj:
  "attachment_key c a f = attachment_key c' a' f' \<longleftrightarrow> c = c' \<and> a = a' \<and> sanitize_filename f = sanitize_filename f'"
  by (simp add: attachment_key_def before_slash show_u64_no_slash u64_codec.enc_inj)

section \<open>Storing\<close>

lemmas media_run = mbind_def mcheck_def mret_def mfail_def map_error_def

lemma upload_done:
  "s3_upload key data ct s = (Inr (), s') \<Longrightarrow> mw_objects s' = (mw_objects s)(key \<mapsto> (data, ct)) \<and> mw_replies s' = tl (mw_replies s)"
  by (auto simp: s3_upload_def media_run s3_call_def Let_def split: list.splits s3_reply.splits if_splits)

text \<open>C36: An attachment reads back: after a successful upload exactly its object has changed, it was within the limit of its tier
  and of an allowed type, and a download by its key that is answered gives the bytes that were sent.\<close>

theorem attachment_reads_back:
  assumes "media_upload_attachment cid aid f data ct tier s = (Inr key, s')" "mw_replies s' = Answered # rs"
  shows "key = attachment_key cid aid f \<and> mw_objects s' = (mw_objects s)(key \<mapsto> (data, ct)) \<and>
    length data \<le> max_attachment_size tier \<and> ct \<in> set ATTACHMENT_CONTENT_TYPES \<and>
    download_file key s' = (Inr data, s'\<lparr>mw_replies := rs\<rparr>)"
proof -
  have valid: "length data \<le> max_attachment_size tier" "ct \<in> set ATTACHMENT_CONTENT_TYPES"
    using assms(1) by (auto simp: media_upload_attachment_def media_run validate_attachment_def
      validate_attachment_content_type_def split: if_splits)
  then have "s3_upload (attachment_key cid aid f) data ct s = (Inr (), s')" "key = attachment_key cid aid f"
    using assms(1) by (auto simp: media_upload_attachment_def media_run validate_attachment_def
      validate_attachment_content_type_def Let_def split: prod.splits sum.splits)
  moreover have "validate_key_prefix (attachment_key cid aid f) = Inr ()"
    by (simp add: validate_key_prefix_def ALLOWED_KEY_PREFIXES_def attachment_key_def)
  ultimately show ?thesis
    using valid upload_done [of key data ct s s', THEN conjunct1] by (simp add: download_file_def media_run s3_download_def s3_get_def s3_call_def Let_def assms(2))
qed

text \<open>A presigned URL is for an object of one of the public directories and lives between a minute and a week.\<close>

theorem presigned_url_bounded:
  assumes "get_presigned_url ext key expiry s = (Inr url, s')"
  shows "\<exists>p n. p \<in> set ALLOWED_KEY_PREFIXES \<and> prefix (lit p) key \<and> 60 \<le> n \<and> n \<le> 604800 \<and> mx_presign ext key n = Inr url \<and> s' = s"
proof -
  have key: "list_ex (\<lambda>p. prefix (lit p) key) ALLOWED_KEY_PREFIXES"
    using assms by (simp add: get_presigned_url_def media_run validate_key_prefix_def split: if_splits)
  then obtain p where "p \<in> set ALLOWED_KEY_PREFIXES" "prefix (lit p) key" by (auto simp: list_ex_iff)
  moreover have "mx_presign ext key (max 60 (min expiry 604800)) = Inr url \<and> s' = s"
    using assms key by (cases "mx_presign ext key (max 60 (min expiry 604800))")
      (simp_all add: get_presigned_url_def media_run validate_key_prefix_def s3_presigned_url_def)
  ultimately show ?thesis by (intro exI [of _ p] exI [of _ "max 60 (min expiry 604800)"]) simp
qed

text \<open>The check of the prefix does not keep a key inside its directory: a key with relative parts passes.\<close>

theorem prefix_allows_traversal:
  "validate_key_prefix (lit ''attachments/../private/x'') = Inr ()"
  by (simp add: validate_key_prefix_def ALLOWED_KEY_PREFIXES_def)

text \<open>A stream may be longer than announced: only the announced length is checked against the limit.\<close>

theorem stream_exceeds_limit:
  assumes "ct \<in> set ATTACHMENT_CONTENT_TYPES" "mw_replies s = Answered # rs"
  shows "fst (upload_attachment_stream cid aid f ct 0 tier data s) = Inr (attachment_key cid aid f, length data)"
  using assms by (simp add: upload_attachment_stream_def media_run validate_attachment_content_type_def s3_upload_stream_def
    s3_call_def Let_def)

section \<open>The routes\<close>

lemma insert_attachment_fails: "fst (pg_exec (insert_attachment aid cid f ct n key uid) w) \<noteq> Inr x"
  by (simp add: pg_exec_def insert_attachment_def Let_def split_beta split: call_outcome.split)

text \<open>No upload ever succeeds: whatever the request and the calls, its answer is an error, because the statement that records
  the file names a column that does not exist.\<close>

theorem upload_always_fails:
  assumes "upload_attachment ext auth cid field s = (r, s')"
  shows "\<exists>e. r = Inl e"
proof (cases r)
  case (Inr x)
  then show ?thesis
    using assms insert_attachment_fails
    by (auto simp: upload_attachment_def mbind_def route_call_def split: prod.splits sum.splits) (metis fst_conv)+
qed auto

text \<open>C40: The file of a failed upload stays: with every call answered, a permitted upload of a valid file is answered with an
  internal error, its file is in the store under its key, and no row of any table records it.\<close>

theorem failed_upload_leaves_object:
  assumes "calm (mw_world s)" "channel_server cid (w_pg (mw_world s)) = Some (Some sid)" "may sid auth ATTACH_FILES (w_pg (mw_world s))"
    and "is_member sid auth (w_pg (mw_world s))" "check_file field = Inr (f, ct, data)" "length data \<le> max_attachment_size Free" "mw_replies s = Answered # rs"
    and "upload_attachment ext auth cid field s = (r, s')"
  shows "\<exists>aid m. r = Inl (Internal m) \<and> mw_objects s' = (mw_objects s)(attachment_key cid aid f \<mapsto> (data, ct)) \<and>
    w_pg (mw_world s') = w_pg (mw_world s)"
proof -
  have tier: "length data \<le> max_attachment_size (tier_of v)" for v
    using assms(6) by (cases "tier_of v") (simp_all add: MAX_FILE_SIZE_FREE_def MAX_FILE_SIZE_PREMIUM_def)
  have ct: "ct \<in> set ATTACHMENT_CONTENT_TYPES"
    using assms(5) by (auto simp: check_file_def validate_attachment_content_type_def split: sum.splits if_splits)
  have "route_call (bind (channel_server_strict cid) (\<lambda>v. ok_or v (NotFound ''Channel not found''))) s = (Inr sid, s)"
       "route_call (require_permissions sid auth ATTACH_FILES) s = (Inr (), s)"
       "route_call (pg_query (\<lambda>db. map_option u_premium_type (t_find (\<lambda>u. u_id u = auth) (users db)))) s =
          (Inr (map_option u_premium_type (t_find (\<lambda>u. u_id u = auth) (users (w_pg (mw_world s))))), s)"
    using assms(1-4) by (simp_all add: route_call_def channel_server_strict_def run)
  note guards = this
  obtain aid w1 where fresh: "fresh_id (mw_world s) = (Inr aid, w1)" "w_pg w1 = w_pg (mw_world s)" "calm w1"
    using assms(1) by (cases "next_id_ticking (w_gen (mw_world s)) (of_int (w_now (mw_world s)) - LUMIERE_EPOCH)")
      (simp add: fresh_id_def calm_def)
  let ?key = "attachment_key cid aid f"
  define s2 where "s2 = s\<lparr>mw_world := w1, mw_replies := rs, mw_objects := (mw_objects s)(?key \<mapsto> (data, ct))\<rparr>"
  have stored: "map_error upload_error (media_upload_attachment cid aid f data ct t) (s\<lparr>mw_world := w1\<rparr>) = (Inr ?key, s2)"
      if "length data \<le> max_attachment_size t" for t
    using that ct by (simp add: media_upload_attachment_def validate_attachment_def validate_attachment_content_type_def s3_upload_def
      s3_call_def media_run Let_def assms(7) s2_def)
  obtain m where refused:
      "route_call (pg_exec (insert_attachment aid cid f ct (of_nat (length data)) ?key auth)) s2 = (Inl (Internal m), s2)"
    using fresh(3) by (simp add: route_call_def s2_def run insert_attachment_def db_error_def)
  have "upload_attachment ext auth cid field s = (Inl (Internal m), s2)"
    using refused stored [OF tier] by (simp add: upload_attachment_def mbind_def guards mcheck_def mret_def assms(5)
      route_call_def [of fresh_id] fresh(1))
  then show ?thesis using assms(8) fresh(2) by (auto simp: s2_def)
qed

section \<open>At work\<close>

text \<open>A text of two bytes for a channel of the demo server.\<close>

definition demo_file :: form_field where
  "demo_file = FileField (Some (lit ''../a.txt'')) (Some ''text/plain'') (Inr [104, 105])"

definition demo_media :: media_world where
  "demo_media = \<lparr>mw_world = demo_world home_db, mw_objects = (\<lambda>_. None), mw_replies = [Answered, Answered]\<rparr>"

definition demo_media_external :: media_external where
  "demo_media_external = \<lparr>mx_sha256 = (\<lambda>_. replicate 32 0), mx_presign = (\<lambda>key n. Inr (lit ''https://files/'' @ key))\<rparr>"

definition demo_uploaded :: media_world where
  "demo_uploaded = demo_media\<lparr>mw_objects := [attachment_key 1 2 (lit ''../a.txt'') \<mapsto> ([104, 105], ''text/plain'')], mw_replies := [Answered]\<rparr>"

theorem attachment_reads_back_witness:
  "download_file (attachment_key 1 2 (lit ''../a.txt'')) demo_uploaded = (Inr [104, 105], demo_uploaded\<lparr>mw_replies := []\<rparr>)"
proof -
  have "media_upload_attachment 1 2 (lit ''../a.txt'') [104, 105] ''text/plain'' Free demo_media =
      (Inr (attachment_key 1 2 (lit ''../a.txt'')), demo_uploaded)"
    by (simp add: media_upload_attachment_def media_run validate_attachment_def validate_attachment_content_type_def
      ATTACHMENT_CONTENT_TYPES_def MAX_FILE_SIZE_FREE_def s3_upload_def s3_call_def Let_def demo_media_def demo_uploaded_def
      del: lit_simps)
  moreover have "mw_replies demo_uploaded = [Answered]" by (simp add: demo_uploaded_def)
  ultimately show ?thesis
    using attachment_reads_back [of 1 2 "lit ''../a.txt''" "[104, 105]" "''text/plain''" Free demo_media _ demo_uploaded "[]"] by blast
qed

theorem presigned_url_bounded_witness:
  "\<exists>p n. p \<in> set ALLOWED_KEY_PREFIXES \<and> prefix (lit p) (lit ''icons/a'') \<and> 60 \<le> n \<and> n \<le> 604800 \<and>
     mx_presign demo_media_external (lit ''icons/a'') n = Inr (lit ''https://files/icons/a'') \<and> demo_media = demo_media"
  by (rule presigned_url_bounded [where expiry = 0])
    (simp add: get_presigned_url_def media_run validate_key_prefix_def ALLOWED_KEY_PREFIXES_def s3_presigned_url_def demo_media_external_def)

theorem stream_exceeds_limit_witness:
  "fst (upload_attachment_stream 1 2 [] ''text/plain'' 0 Free (replicate (25 * 1024 * 1024 + 1) 0) demo_media) =
     Inr (attachment_key 1 2 [], 25 * 1024 * 1024 + 1)"
  using stream_exceeds_limit [of "''text/plain''" demo_media "[Answered]" 1 2 "[]" Free "replicate (25 * 1024 * 1024 + 1) 0"]
  by (simp add: ATTACHMENT_CONTENT_TYPES_def demo_media_def)

theorem upload_always_fails_witness:
  "\<exists>e. fst (upload_attachment demo_media_external 7 20975617 demo_file demo_media) = Inl e"
  using upload_always_fails [of demo_media_external 7 20975617 demo_file demo_media] by (metis prod.collapse)

theorem failed_upload_leaves_object_witness:
  "\<exists>aid m s. upload_attachment demo_media_external 7 20975617 demo_file demo_media = (Inl (Internal m), s) \<and>
     mw_objects s (attachment_key 20975617 aid (lit ''../a.txt'')) = Some ([104, 105], ''text/plain'')"
proof -
  have db: "w_pg (mw_world demo_media) = home_db" "calm (mw_world demo_media)" "mw_replies demo_media = Answered # [Answered]"
    by (simp_all add: demo_media_def demo_world_def calm_def)
  have "channel_server 20975617 home_db = Some (Some home_id)" by (simp add: channel_server_def t_find_def home_defs)
  moreover have "may home_id 7 ATTACH_FILES home_db"
    by (simp only: may_def home_facts flag_defs) (auto intro!: effective_all home_facts)
  moreover have "check_file demo_file = Inr (lit ''../a.txt'', ''text/plain'', [104, 105])"
    by (simp add: check_file_def read_form_def demo_file_def unwrap_or_def validate_attachment_content_type_def
      ATTACHMENT_CONTENT_TYPES_def validate_content_magic_bytes_def magic_ok_def)
  moreover obtain r s where "upload_attachment demo_media_external 7 20975617 demo_file demo_media = (r, s)" by (meson surj_pair)
  ultimately show ?thesis
    using failed_upload_leaves_object [of demo_media 20975617 home_id 7 demo_file "lit ''../a.txt''" "''text/plain''" "[104, 105]"
        "[Answered]" demo_media_external r s] home_facts(2)
    by (auto simp: db MAX_FILE_SIZE_FREE_def)
qed

end
