(* ===== verification/Security.thy ===== *)
theory Security
  imports Attachments
begin

text \<open>
  \<open>middleware/security.rs\<close>: the headers that every response gets, on a list of headers with lower-case names, and what they
  do to the redirect of an attachment.
\<close>

text \<open>\<open>HeaderMap::insert\<close>: the value replaces all that the name had.\<close>

definition header_insert :: "string \<Rightarrow> ustr \<Rightarrow> (string \<times> ustr) list \<Rightarrow> (string \<times> ustr) list" where
  "header_insert k v hs = filter (\<lambda>h. fst h \<noteq> k) hs @ [(k, v)]"

definition SECURITY_HEADERS :: "(string \<times> string) list" where
  "SECURITY_HEADERS = [(''x-content-type-options'', ''nosniff''), (''x-frame-options'', ''DENY''), (''x-xss-protection'', ''0''),
     (''referrer-policy'', ''strict-origin-when-cross-origin''), (''permissions-policy'', ''geolocation=()''),
     (''strict-transport-security'', ''max-age=63072000; includeSubDomains; preload''),
     (''content-security-policy'', ''default-src '' @ CHR 0x27 # ''none'' @ [CHR 0x27]), (''cache-control'', ''no-store''),
     (''cross-origin-opener-policy'', ''same-origin''), (''cross-origin-resource-policy'', ''cross-origin'')]"

definition security_headers :: "(string \<times> ustr) list \<Rightarrow> (string \<times> ustr) list" where
  "security_headers hs = fold (\<lambda>(k, v). header_insert k (lit v)) SECURITY_HEADERS hs"

text \<open>The headers of \<open>Response::builder\<close> in \<open>download_attachment\<close>\<close>

definition redirect_headers :: "redirect_response \<Rightarrow> (string \<times> ustr) list" where
  "redirect_headers r = [(''location'', rr_location r), (''cache-control'', lit (rr_cache_control r)),
     (''content-disposition'', rr_disposition r)]"

section \<open>What the client sees\<close>

lemma map_of_insert: "map_of (header_insert k v hs) k' = (if k' = k then Some v else map_of hs k')"
  by (induction hs) (auto simp: header_insert_def)

lemma fold_insert:
  "distinct (map fst vs) \<Longrightarrow> map_of (fold (\<lambda>(k, v). header_insert k (lit v)) vs hs) k =
     (case map_of vs k of Some v \<Rightarrow> Some (lit v) | None \<Rightarrow> map_of hs k)"
proof (induction vs arbitrary: hs)
  case (Cons p vs)
  moreover obtain a b where p: "p = (a, b)" by (cases p)
  ultimately have "map_of vs a = None" by (simp add: map_of_eq_None_iff)
  then show ?case using Cons by (simp add: p map_of_insert split: option.split)
qed simp

text \<open>Every response has the ten headers with their fixed values, whatever the handler set, and keeps its other headers.\<close>

theorem security_headers_fixed:
  "map_of (security_headers hs) k = (case map_of SECURITY_HEADERS k of Some v \<Rightarrow> Some (lit v) | None \<Rightarrow> map_of hs k)"
  unfolding security_headers_def by (rule fold_insert) (simp add: SECURITY_HEADERS_def)

text \<open>The redirect of an attachment is never cached: its own cache header is replaced.\<close>

theorem redirect_never_cached:
  "map_of (security_headers (redirect_headers r)) ''cache-control'' = Some (lit ''no-store'') \<and>
   map_of (security_headers (redirect_headers r)) ''location'' = Some (rr_location r)"
  unfolding security_headers_def
  by (subst (1 2) fold_insert) (simp_all add: SECURITY_HEADERS_def redirect_headers_def)

end
