(* ===== verification/Spec2Isabelle.thy ===== *)
theory Spec2Isabelle
  imports Guild_Properties Role_Properties Message_Properties Moderation Sanitize Rate_Properties Auth_Properties Relation_Properties
    User_Properties Webhook_Properties Interaction_Properties Gateway_Demo Coalescing_Properties Worker_Properties Voice_Properties
    Media_Properties Security
begin

text \<open>
  Lumiere server: a chat backend in Rust. This library models its crates under \<open>crates/\<close> and proves what they promise,
  what they keep in every reachable state, and where they fall short.

  \<^bold>\<open>The program.\<close> An HTTP server (\<open>lumiere-server\<close>) authenticates a request (\<open>lumiere-auth\<close>), limits its rate, checks permissions
  (\<open>lumiere-permissions\<close>) and changes PostgreSQL (accounts, servers, roles, channels, relationships), ScyllaDB (messages, pins,
  reactions, read states; \<open>lumiere-db\<close>) and Redis (sessions, counters, presence). It publishes events to NATS (\<open>lumiere-nats\<close>). The
  gateway (\<open>lumiere-gateway\<close>) holds the WebSockets and forwards the events; three workers consume the durable ones, index messages
  (\<open>lumiere-search\<close>), push notifications (\<open>lumiere-push\<close>) and keep read states. Files go to an object store (\<open>lumiere-media\<close>),
  voice to LiveKit (\<open>lumiere-voice\<close>). \<open>lumiere-data-services\<close> is a cache that nothing calls yet. Identifiers, partitions and errors
  are in \<open>lumiere-models\<close>.

  \<^bold>\<open>Theories, by part of the program.\<close>

  \<^item> Shared: \<open>Prelude\<close> (words, texts as lists of scalar values, JSON values, tables as lists of rows, the locales \<open>text_codec\<close> and
    \<open>invariant_system\<close>), \<open>App_Error\<close> (\<open>models/error.rs\<close>), \<open>Snowflake\<close> and \<open>Bucket\<close> (\<open>models/snowflake.rs\<close>, \<open>bucket.rs\<close>), \<open>Permissions\<close>,
    \<open>Sanitize\<close>, \<open>Database\<close> (the schema of the migration and the statements of the routes, with keys, references and widths),
    \<open>World\<close> (a handler is a function from the world to an error or a value and the new world; the rules \<open>run\<close> and \<open>wp\<close>), \<open>Handler_Logic\<close>
    (rules for what clients and services observe), \<open>Demo\<close> (the concrete world of the witnesses).
  \<^item> Guilds: \<open>Servers\<close>, \<open>Roles\<close>, \<open>Channels\<close>, \<open>Moderation\<close> (one definition per handler of \<open>routes/*.rs\<close>), \<open>Guards\<close>, \<open>Db_Invariant\<close>,
    \<open>Guild_System\<close> (any sequence of requests with any failures), \<open>Guild_Properties\<close>, \<open>Role_Properties\<close>.
  \<^item> Messages: \<open>Messages\<close>, \<open>Message_System\<close>, \<open>Message_Properties\<close>; reactions, typing and read states: \<open>Reactions\<close>,
    \<open>Interaction_Properties\<close>.
  \<^item> Accounts: \<open>Sessions\<close> (\<open>auth/jwt.rs\<close>, \<open>session.rs\<close>, \<open>middleware.rs\<close>), \<open>Auth\<close> (\<open>routes/auth.rs\<close>), \<open>Rate_Limit\<close>
    (\<open>middleware/rate_limit.rs\<close>), \<open>Users\<close>, \<open>Devices\<close> (\<open>routes/devices.rs\<close>, \<open>push/pg_store.rs\<close>), \<open>Webhooks\<close>; their properties in
    \<open>Session_Properties\<close>, \<open>Auth_Properties\<close>, \<open>Rate_Properties\<close>, \<open>Relation_Properties\<close>, \<open>User_Properties\<close>, \<open>Webhook_Properties\<close>.
  \<^item> Gateway: \<open>Gateway_Protocol\<close> (\<open>protocol.rs\<close>), \<open>Gateway\<close> (\<open>session.rs\<close>, \<open>handler.rs\<close>), \<open>Gateway_System\<close> (its tasks interleaved),
    \<open>Gateway_Invariants\<close> (the contract of an invariant, as locales), \<open>Gateway_Bounds\<close>, \<open>Gateway_Index\<close>, \<open>Gateway_Listeners\<close> and
    \<open>Gateway_References\<close> (its four interpretations), \<open>Gateway_Properties\<close>, \<open>Gateway_Demo\<close>.
  \<^item> Cache: \<open>Coalescing\<close>, \<open>Coalescing_Properties\<close> (callers interleaved at their await points).
  \<^item> Workers: \<open>Push\<close> (\<open>push/lib.rs\<close>, \<open>apns.rs\<close>, \<open>fcm.rs\<close>), \<open>Search\<close>, \<open>Workers\<close>, \<open>Push_Properties\<close>, \<open>Worker_Properties\<close>.
  \<^item> Voice and files: \<open>Voice\<close>, \<open>Voice_Properties\<close>; \<open>Media\<close>, \<open>Attachments\<close> (\<open>routes/attachments.rs\<close>), \<open>Media_Properties\<close>,
    \<open>Security\<close> (\<open>middleware/security.rs\<close>).

  \<^bold>\<open>How the code is read.\<close> A struct is a record, an enum a datatype, an \<open>i64\<close> or \<open>u64\<close> a 64-bit word, a \<open>Result\<close> a sum. A request is one
  function; the calls of services inside it take their outcomes from the world: a call succeeds, fails before it had an effect, or has
  its effect without an acknowledgement. A transaction that fails is undone. A world is \<open>calm\<close> when all calls succeed. A request reads
  one clock, and requests are served one at a time, except where a theory models overlap: the generator of identifiers, the two halves of a
  refresh, the removal of a session from the gateway, the gateway itself and the cache, whose tasks take turns at their await points.
  A panic is an outcome of its own (\<open>Panic\<close> in \<open>Push\<close>, otherwise an internal error that names it). JSON text is parsed by
  \<open>serde_json\<close> into a value, which is where the model starts. \<open>HashMap\<close>s and \<open>DashMap\<close>s are maps or association lists.

  Parameters stand for what is not in the repository: argon2, SHA-256, the signatures of tokens, base64, the case tables of Unicode,
  the text form of a time, random identifiers, the matching of NATS subjects, the replies of APNs and FCM, the search engine, the object
  store, LiveKit and the batches of \<open>SCAN\<close>. What a theorem needs of them is a hypothesis of it, met by the instance in its witness.

  \<^bold>\<open>What the lemmas show.\<close> Invariants of every reachable state under all failures (owners are members, nobody is banned and a member,
  the furniture of a server, the partition and the pins of messages, relationships in agreement, device tokens, refresh sessions,
  the maps, bounds and references of the gateway, one fetch per key of the cache) are interpretations of \<open>invariant_system\<close>, proved with
  weakest-precondition rules. Outcomes of single requests (kick, invite, edit, send, login, webhook) cover every branch and failure.
  The push worker reaches only members who are away and, when FCM answers, each device of all of them. The
  scan over partitions equals its specification; the relationship routes refine the machine of a pair of users. Codecs and
  stores are round trips (sessions, gateway messages, buffers, messages, voice states, attachments, and from a sent message to the document
  of the search index). The theorems that say ``a limit of the code'' prove defects on concrete or general inputs: they are true
  of the code as it is.

  \<^bold>\<open>Bounds.\<close> Loops over lists are structural. \<open>consume\<close> ends because an event is delivered at most three times. The generator loop is
  read with one look at the clock per turn and is given a finite list of readings; \<open>next_id_returns_iff\<close> says which lists are enough.
  The constants of the code (50 pins, 10 device tokens, 1024 queued and 1000 buffered messages, 120 commands a minute, 200 characters
  of a notification) are definitions with the source's values.

  \<^bold>\<open>Not modelled.\<close> \<open>auth/password.rs\<close> (calls argon2), \<open>models/config.rs\<close>, \<open>main.rs\<close> and \<open>lib.rs\<close> of the server (settings and the router),
  the connection and set-up code of every client (\<open>connect\<close>, \<open>new\<close>, the configuration of the search index, of the streams and of the
  bucket), logging and metrics, and the tests. In the gateway: a failing first Hello frame. Of the rate limiter's script, doubles are
  rationals with their roundings as parameters. Of the push clients: TLS and the waiting for a lock while a token is fetched.
\<close>

end
